(* ===== verification/Prelude.thy ===== *)
theory Prelude imports Main "HOL-Library.Word" begin

text \<open>
  Shared vocabulary of the development: the machine types of the Rust code, its saturating
  arithmetic, results, the operations of the Rust string and slice libraries that the sources
  use, and the generic lemmas that the component theories share.

  Conventions. A Rust \<^verbatim>\<open>String\<close> or \<^verbatim>\<open>&str\<close> is the list of its UTF-8 bytes, as a HOL
  \<open>string\<close> (one \<open>char\<close> per byte), so \<open>length\<close> is \<^verbatim>\<open>str::len\<close>. A
  \<^verbatim>\<open>Vec<u8>\<close> or byte slice is a list of 8-bit words. An \<^verbatim>\<open>i64\<close> is an \<open>int\<close> with the
  saturation written out; \<^verbatim>\<open>u32\<close> and \<^verbatim>\<open>u64\<close> are words. \<^verbatim>\<open>Result<T, E>\<close> is
  \<open>'e + 't\<close> with \<open>Inl\<close> for the error.
\<close>

section \<open>Types\<close>

type_synonym u8 = "8 word"
type_synonym u16 = "16 word"
type_synonym u32 = "32 word"
type_synonym u64 = "64 word"
type_synonym i64 = int
type_synonym bytes = "8 word list"

named_theorems store_simps \<open>what each operation of the authorization store does to each table\<close>
named_theorems layout_simps \<open>constants and offsets of the disk image layouts\<close>

section \<open>Saturating integer arithmetic\<close>

definition i64_max :: i64 where "i64_max = 9223372036854775807"
definition i64_min :: i64 where "i64_min = - 9223372036854775808"

definition clamp_i64 :: "int \<Rightarrow> i64" where
  "clamp_i64 x = max i64_min (min i64_max x)"

definition saturating_add_i64 :: "i64 \<Rightarrow> i64 \<Rightarrow> i64" where
  "saturating_add_i64 a b = clamp_i64 (a + b)"

definition saturating_sub_i64 :: "i64 \<Rightarrow> i64 \<Rightarrow> i64" where
  "saturating_sub_i64 a b = clamp_i64 (a - b)"

definition saturating_add_u64 :: "u64 \<Rightarrow> u64 \<Rightarrow> u64" where
  "saturating_add_u64 a b = (if unat a + unat b < 18446744073709551616 then a + b else - 1)"

definition saturating_sub_u64 :: "u64 \<Rightarrow> u64 \<Rightarrow> u64" where
  "saturating_sub_u64 a b = (if a \<le> b then 0 else a - b)"

lemmas sat_defs = saturating_add_i64_def saturating_sub_i64_def clamp_i64_def i64_max_def i64_min_def

lemma unat_u32_less: "unat (w :: u32) < 4294967296"
  using unsigned_less [of w] by simp

lemma unat_u64_less: "unat (w :: u64) < 18446744073709551616"
  using unsigned_less [of w] by simp

lemma unat_saturating_add_u64:
  "unat (saturating_add_u64 a b) = min 18446744073709551615 (unat a + unat b)"
  by (auto simp: saturating_add_u64_def unat_word_ariths word_size unsigned_minus_1_eq_mask mask_eq_exp_minus_1)

lemma unat_saturating_sub_u64: "unat (saturating_sub_u64 a b) = unat a - unat b"
  by (auto simp: saturating_sub_u64_def word_le_nat_alt unat_sub)

section \<open>Results\<close>

text \<open>\<^verbatim>\<open>Result::map_err\<close>, and the pattern \<^verbatim>\<open>x.map_err(f)?\<close> followed by the rest of a body.\<close>

definition map_err :: "('e \<Rightarrow> 'f) \<Rightarrow> 'e + 'a \<Rightarrow> 'f + 'a" where
  "map_err f r = (case r of Inl e \<Rightarrow> Inl (f e) | Inr a \<Rightarrow> Inr a)"

definition and_then :: "'e + 'a \<Rightarrow> ('a \<Rightarrow> 'e + 'b) \<Rightarrow> 'e + 'b" where
  "and_then r k = (case r of Inl e \<Rightarrow> Inl e | Inr a \<Rightarrow> k a)"

definition is_err :: "'e + 'a \<Rightarrow> bool" where
  "is_err r = (case r of Inl _ \<Rightarrow> True | Inr _ \<Rightarrow> False)"

lemma map_err_simps [simp]: "map_err f (Inl e) = Inl (f e)" "map_err f (Inr a) = Inr a"
  by (simp_all add: map_err_def)

lemma and_then_simps [simp]: "and_then (Inl e) k = Inl e" "and_then (Inr a) k = k a"
  by (simp_all add: and_then_def)

lemma is_err_simps [simp]: "is_err (Inl e)" "\<not> is_err (Inr a)"
  by (simp_all add: is_err_def)

lemma map_err_Inr_iff [simp]: "map_err f r = Inr a \<longleftrightarrow> r = Inr a"
  by (cases r) auto

lemma and_then_Inr_iff: "and_then r k = Inr b \<longleftrightarrow> (\<exists>a. r = Inr a \<and> k a = Inr b)"
  by (cases r) auto

section \<open>Strings\<close>

text \<open>
  \<^verbatim>\<open>str::trim\<close> strips Unicode white space. On UTF-8 bytes a white-space character is one of
  the byte sequences below; \<open>ws_prefix s\<close> is the number of bytes of the white-space
  character that \<open>s\<close> starts with (0 if it starts with another one), \<open>ws_suffix\<close> the
  same for its end.
\<close>

definition ws1 :: "string list" where
  "ws1 = [[CHR 0x09], [CHR 0x0A], [CHR 0x0B], [CHR 0x0C], [CHR 0x0D], [CHR 0x20]]"

definition ws2 :: "string list" where
  "ws2 = [[CHR 0xC2, CHR 0x85], [CHR 0xC2, CHR 0xA0]]"

definition ws3 :: "string list" where
  "ws3 = [[CHR 0xE1, CHR 0x9A, CHR 0x80],
    [CHR 0xE2, CHR 0x80, CHR 0x80], [CHR 0xE2, CHR 0x80, CHR 0x81],
    [CHR 0xE2, CHR 0x80, CHR 0x82], [CHR 0xE2, CHR 0x80, CHR 0x83],
    [CHR 0xE2, CHR 0x80, CHR 0x84], [CHR 0xE2, CHR 0x80, CHR 0x85],
    [CHR 0xE2, CHR 0x80, CHR 0x86], [CHR 0xE2, CHR 0x80, CHR 0x87],
    [CHR 0xE2, CHR 0x80, CHR 0x88], [CHR 0xE2, CHR 0x80, CHR 0x89],
    [CHR 0xE2, CHR 0x80, CHR 0x8A], [CHR 0xE2, CHR 0x80, CHR 0xA8],
    [CHR 0xE2, CHR 0x80, CHR 0xA9], [CHR 0xE2, CHR 0x80, CHR 0xAF],
    [CHR 0xE2, CHR 0x81, CHR 0x9F], [CHR 0xE3, CHR 0x80, CHR 0x80]]"

definition ws_prefix :: "string \<Rightarrow> nat" where
  "ws_prefix s = (if take 1 s \<in> set ws1 then 1 else if take 2 s \<in> set ws2 then 2
    else if take 3 s \<in> set ws3 then 3 else 0)"

definition ws_suffix :: "string \<Rightarrow> nat" where
  "ws_suffix s = (let r = rev s in
    if rev (take 1 r) \<in> set ws1 then 1 else if rev (take 2 r) \<in> set ws2 then 2
    else if rev (take 3 r) \<in> set ws3 then 3 else 0)"

lemma ws_prefix_Nil [simp]: "ws_prefix [] = 0"
  by (simp add: ws_prefix_def ws1_def ws2_def ws3_def)

lemma ws_suffix_Nil [simp]: "ws_suffix [] = 0"
  by (simp add: ws_suffix_def ws1_def ws2_def ws3_def)

function trim_start :: "string \<Rightarrow> string" where
  "trim_start s = (if ws_prefix s = 0 then s else trim_start (drop (ws_prefix s) s))"
  by pat_completeness auto
termination
proof (relation "measure length")
  fix s :: string
  assume a: "ws_prefix s \<noteq> 0"
  then have "s \<noteq> []" by auto
  with a show "(drop (ws_prefix s) s, s) \<in> measure length" by (cases s) auto
qed simp

function trim_end :: "string \<Rightarrow> string" where
  "trim_end s = (if ws_suffix s = 0 then s else trim_end (take (length s - ws_suffix s) s))"
  by pat_completeness auto
termination
proof (relation "measure length")
  fix s :: string
  assume a: "ws_suffix s \<noteq> 0"
  then have "s \<noteq> []" by auto
  with a show "(take (length s - ws_suffix s) s, s) \<in> measure length" by (cases s) auto
qed simp

declare trim_start.simps [simp del] trim_end.simps [simp del]

definition trim :: "string \<Rightarrow> string" where
  "trim s = trim_end (trim_start s)"

text \<open>The test \<^verbatim>\<open>s.trim().is_empty()\<close> of the guards.\<close>

definition blank :: "string \<Rightarrow> bool" where
  "blank s = (trim s = [])"

lemma blank_Nil [simp]: "blank []"
  by (simp add: blank_def trim_def trim_start.simps trim_end.simps)

text \<open>
  White space only ever removes bytes of a white-space character, so a string that starts with
  an ASCII byte above the blank is not blank. This is how the guards are discharged on literals.
\<close>

definition ascii_graphic :: "char \<Rightarrow> bool" where
  "ascii_graphic c = (32 < (of_char c :: nat) \<and> (of_char c :: nat) < 127)"

lemma ws_ascii_graphic:
  assumes "ascii_graphic c"
  shows "ws_prefix (c # s) = 0" and "ws_suffix (c # s) < length (c # s)"
proof -
  have n: "c \<noteq> CHR 0x09" "c \<noteq> CHR 0x0A" "c \<noteq> CHR 0x0B" "c \<noteq> CHR 0x0C" "c \<noteq> CHR 0x0D"
    "c \<noteq> CHR 0x20" "c \<noteq> CHR 0xC2" "c \<noteq> CHR 0xE1" "c \<noteq> CHR 0xE2" "c \<noteq> CHR 0xE3"
    using assms by (auto simp: ascii_graphic_def)
  then show "ws_prefix (c # s) = 0"
    by (simp add: ws_prefix_def ws1_def ws2_def ws3_def numeral_2_eq_2 numeral_3_eq_3)
  have "length s = 0 \<or> length s = 1 \<or> length s = 2 \<or> 3 \<le> length s" by linarith
  then show "ws_suffix (c # s) < length (c # s)"
  proof (elim disjE)
    assume "length s = 0" then show ?thesis using n
      by (simp add: ws_suffix_def ws1_def ws2_def ws3_def Let_def)
  next
    assume "length s = 1" then obtain a where "s = [a]" by (cases s) auto
    then show ?thesis using n
      by (simp add: ws_suffix_def ws1_def ws2_def ws3_def Let_def numeral_2_eq_2 numeral_3_eq_3)
  next
    assume "length s = 2" then obtain a b where "s = [a, b]" by (auto simp: numeral_2_eq_2 length_Suc_conv)
    then show ?thesis using n
      by (simp add: ws_suffix_def ws1_def ws2_def ws3_def Let_def numeral_2_eq_2 numeral_3_eq_3)
  next
    assume "3 \<le> length s"
    moreover have "ws_suffix (c # s) \<le> 3" by (simp add: ws_suffix_def Let_def)
    ultimately show ?thesis by simp
  qed
qed

lemma trim_end_head:
  assumes "ascii_graphic c"
  shows "\<exists>t. trim_end (c # s) = c # t"
proof (induction "length s" arbitrary: s rule: less_induct)
  case less
  show ?case
  proof (cases "ws_suffix (c # s) = 0")
    case True then show ?thesis by (simp add: trim_end.simps)
  next
    case False
    define k where "k = length s - ws_suffix (c # s)"
    have lt: "ws_suffix (c # s) < length (c # s)" using assms by (rule ws_ascii_graphic)
    then have tk: "take (length (c # s) - ws_suffix (c # s)) (c # s) = c # take k s"
      by (simp add: k_def Suc_diff_le)
    have "length (take k s) < length s" using False lt unfolding k_def by (cases s) auto
    from less [OF this] have "\<exists>t. trim_end (c # take k s) = c # t" .
    then show ?thesis using False tk by (simp add: trim_end.simps [of "c # s"])
  qed
qed

lemma not_blank_graphic: "ascii_graphic c \<Longrightarrow> \<not> blank (c # s)"
  using trim_end_head [of c s]
  by (auto simp: blank_def trim_def trim_start.simps [of "c # s"] ws_ascii_graphic)

lemma not_blank_nonempty: "\<not> blank s \<Longrightarrow> s \<noteq> []"
  by auto

fun strip_prefix :: "string \<Rightarrow> string \<Rightarrow> string option" where
  "strip_prefix [] s = Some s"
| "strip_prefix (p # ps) [] = None"
| "strip_prefix (p # ps) (c # cs) = (if p = c then strip_prefix ps cs else None)"

lemma strip_prefix_Some [simp]: "strip_prefix p s = Some t \<longleftrightarrow> s = p @ t"
  by (induction p s rule: strip_prefix.induct) auto

definition as_bytes :: "string \<Rightarrow> bytes" where
  "as_bytes s = map of_char s"

lemma unat_of_char [simp]: "unat (of_char c :: u8) = (of_char c :: nat)"
proof -
  have "(of_char c :: u8) = word_of_nat (of_char c)" by (simp add: of_nat_of_char)
  then have "unat (of_char c :: u8) = of_char c mod 256" by (simp add: unat_of_nat)
  then show ?thesis by simp
qed

lemma of_char_u8_inject [simp]: "(of_char c :: u8) = of_char d \<longleftrightarrow> c = d"
proof
  assume "(of_char c :: u8) = of_char d"
  then have "unat (of_char c :: u8) = unat (of_char d :: u8)" by simp
  then show "c = d" by simp
qed simp

lemma as_bytes_inject [simp]: "as_bytes s = as_bytes t \<longleftrightarrow> s = t"
  unfolding as_bytes_def by (rule inj_map_eq_map) (simp add: inj_def)

section \<open>Numbers in text\<close>

definition digit_char :: "nat \<Rightarrow> char" where
  "digit_char d = char_of (48 + d)"

text \<open>\<^verbatim>\<open>format!("{}", n)\<close> of an unsigned integer.\<close>

fun dec_string :: "nat \<Rightarrow> string" where
  "dec_string n = (if n < 10 then [digit_char n] else dec_string (n div 10) @ [digit_char (n mod 10)])"

declare dec_string.simps [simp del]

definition hex_digit :: "nat \<Rightarrow> char" where
  "hex_digit d = char_of (if d < 10 then 48 + d else 87 + d)"

text \<open>\<^verbatim>\<open>format!("{:x}", digest)\<close>: two lower-case digits for each byte.\<close>

definition hex_string :: "bytes \<Rightarrow> string" where
  "hex_string bs = concat (map (\<lambda>b. [hex_digit (unat b div 16), hex_digit (unat b mod 16)]) bs)"

definition is_ascii_hexdigit :: "char \<Rightarrow> bool" where
  "is_ascii_hexdigit c = (let n = (of_char c :: nat) in
     (48 \<le> n \<and> n \<le> 57) \<or> (65 \<le> n \<and> n \<le> 70) \<or> (97 \<le> n \<and> n \<le> 102))"

lemma length_hex_string [simp]: "length (hex_string bs) = 2 * length bs"
  by (induction bs) (simp_all add: hex_string_def)

lemma is_ascii_hexdigit_hex_digit: "d < 16 \<Longrightarrow> is_ascii_hexdigit (hex_digit d)"
  by (auto simp: is_ascii_hexdigit_def hex_digit_def Let_def)

lemma hex_string_hexdigits: "list_all is_ascii_hexdigit (hex_string bs)"
proof -
  have "unat (b :: u8) < 256" for b using unsigned_less [of b] by simp
  then have "unat (b :: u8) div 16 < 16" for b by (simp add: less_mult_imp_div_less)
  then show ?thesis
    by (induction bs) (simp_all add: hex_string_def is_ascii_hexdigit_hex_digit)
qed

lemma digit_char_inject:
  assumes "a < 10" and "b < 10"
  shows "digit_char a = digit_char b \<longleftrightarrow> a = b"
proof
  assume "digit_char a = digit_char b"
  then have "(of_char (digit_char a) :: nat) = of_char (digit_char b)" by simp
  with assms show "a = b" by (simp add: digit_char_def)
qed simp

lemma dec_string_nonempty: "dec_string n \<noteq> []"
  by (subst dec_string.simps) simp

lemma dec_string_inject: "dec_string m = dec_string n \<longleftrightarrow> m = n"
proof
  show "dec_string m = dec_string n \<Longrightarrow> m = n"
  proof (induction m arbitrary: n rule: dec_string.induct)
    case (1 m)
    show ?case
    proof (cases "m < 10")
      case True
      then have m: "dec_string m = [digit_char m]" by (simp add: dec_string.simps)
      have "n < 10"
      proof (rule ccontr)
        assume "\<not> n < 10"
        then have "dec_string n = dec_string (n div 10) @ [digit_char (n mod 10)]"
          by (simp add: dec_string.simps [of n])
        with "1.prems" m dec_string_nonempty [of "n div 10"] show False by simp
      qed
      with "1.prems" True show ?thesis by (simp add: dec_string.simps digit_char_inject)
    next
      case False
      then have m: "dec_string m = dec_string (m div 10) @ [digit_char (m mod 10)]"
        by (simp add: dec_string.simps [of m])
      have n10: "\<not> n < 10"
      proof
        assume "n < 10"
        then have "dec_string n = [digit_char n]" by (simp add: dec_string.simps)
        with "1.prems" m dec_string_nonempty [of "m div 10"] show False by simp
      qed
      then have n: "dec_string n = dec_string (n div 10) @ [digit_char (n mod 10)]"
        by (simp add: dec_string.simps [of n])
      from "1.prems" m n have "dec_string (m div 10) = dec_string (n div 10)"
        and "digit_char (m mod 10) = digit_char (n mod 10)" by simp_all
      with "1.IH" [OF False, of "n div 10"] have "m div 10 = n div 10" "m mod 10 = n mod 10"
        by (simp_all add: digit_char_inject)
      then show ?thesis by (metis div_mult_mod_eq)
    qed
  qed
qed simp

section \<open>Byte order\<close>

text \<open>\<open>nat_to_le n x\<close> is the little-endian form of \<open>x\<close> in \<open>n\<close> bytes.\<close>

primrec nat_to_le :: "nat \<Rightarrow> nat \<Rightarrow> bytes" where
  "nat_to_le 0 x = []"
| "nat_to_le (Suc n) x = word_of_nat x # nat_to_le n (x div 256)"

primrec nat_from_le :: "bytes \<Rightarrow> nat" where
  "nat_from_le [] = 0"
| "nat_from_le (b # bs) = unat b + 256 * nat_from_le bs"

lemma length_nat_to_le [simp]: "length (nat_to_le n x) = n"
  by (induction n arbitrary: x) simp_all

lemma nat_from_to_le: "nat_from_le (nat_to_le n x) = x mod 256 ^ n"
proof (induction n arbitrary: x)
  case (Suc n)
  have "x mod 256 ^ Suc n = x mod 256 + 256 * (x div 256 mod 256 ^ n)"
    by (simp add: mod_mult2_eq)
  with Suc show ?case by (simp add: unat_of_nat)
qed simp

definition u16_to_le :: "u16 \<Rightarrow> bytes" where "u16_to_le w = nat_to_le 2 (unat w)"
definition u16_to_be :: "u16 \<Rightarrow> bytes" where "u16_to_be w = rev (u16_to_le w)"
definition u32_to_le :: "u32 \<Rightarrow> bytes" where "u32_to_le w = nat_to_le 4 (unat w)"
definition u32_to_be :: "u32 \<Rightarrow> bytes" where "u32_to_be w = rev (u32_to_le w)"
definition u16_from_le :: "bytes \<Rightarrow> u16" where "u16_from_le bs = word_of_nat (nat_from_le bs)"
definition u32_from_le :: "bytes \<Rightarrow> u32" where "u32_from_le bs = word_of_nat (nat_from_le bs)"

lemma length_to_bytes [simp]:
  "length (u16_to_le v) = 2" "length (u16_to_be v) = 2"
  "length (u32_to_le w) = 4" "length (u32_to_be w) = 4"
  by (simp_all add: u16_to_le_def u16_to_be_def u32_to_le_def u32_to_be_def)

lemma u16_from_to_le [simp]: "u16_from_le (u16_to_le w) = w"
proof -
  have "unat w < 65536" using unsigned_less [of w] by simp
  then show ?thesis by (simp add: u16_from_le_def u16_to_le_def nat_from_to_le)
qed

lemma u32_from_to_le [simp]: "u32_from_le (u32_to_le w) = w"
proof -
  have "unat w < 4294967296" using unsigned_less [of w] by simp
  then show ?thesis by (simp add: u32_from_le_def u32_to_le_def nat_from_to_le)
qed

lemma u32_to_le_inject [simp]: "u32_to_le v = u32_to_le w \<longleftrightarrow> v = w"
  by (metis u32_from_to_le)

lemma u32_to_be_inject [simp]: "u32_to_be v = u32_to_be w \<longleftrightarrow> v = w"
  by (simp add: u32_to_be_def)

section \<open>Rows of a table\<close>

text \<open>
  The statements of the SQL text on a table held as the list of its rows: the \<^verbatim>\<open>WHERE\<close> clause is
  a predicate on rows, \<^verbatim>\<open>UPDATE\<close> maps the rows that match, a query for one row returns the
  first that matches, and \<^verbatim>\<open>execute(..)? > 0\<close> says that some row matched.
\<close>

definition update_where :: "('r \<Rightarrow> bool) \<Rightarrow> ('r \<Rightarrow> 'r) \<Rightarrow> 'r list \<Rightarrow> 'r list" where
  "update_where P f rows = map (\<lambda>r. if P r then f r else r) rows"

definition some_row :: "('r \<Rightarrow> bool) \<Rightarrow> 'r list \<Rightarrow> bool" where
  "some_row P rows = list_ex P rows"

lemma some_row_iff [simp]: "some_row P rows \<longleftrightarrow> (\<exists>r \<in> set rows. P r)"
  by (simp add: some_row_def list_ex_iff)

lemma set_update_where: "set (update_where P f rows) = (\<lambda>r. if P r then f r else r) ` set rows"
  by (simp add: update_where_def)

lemma length_update_where [simp]: "length (update_where P f rows) = length rows"
  by (simp add: update_where_def)

lemma update_where_key:
  "(\<And>r. k (f r) = k r) \<Longrightarrow> map k (update_where P f rows) = map k rows"
  by (simp add: update_where_def)

lemma image_update_where:
  "(\<And>r. k (f r) = k r) \<Longrightarrow> k ` set (update_where P f rows) = k ` set rows"
  by (metis set_map update_where_key)

lemma update_where_none: "(\<And>r. r \<in> set rows \<Longrightarrow> \<not> P r) \<Longrightarrow> update_where P f rows = rows"
  by (induction rows) (auto simp: update_where_def)

text \<open>
  A statement that gives column \<open>k\<close> of the row with key \<open>x\<close> a value no other row has keeps
  the column without duplicates.
\<close>

lemma distinct_update_one:
  assumes "distinct (map j rows)" and "distinct (map k rows)"
    and "\<And>r. k (f r) = v" and "\<And>r. r \<in> set rows \<Longrightarrow> \<not> P r \<Longrightarrow> k r \<noteq> v"
    and "\<And>r. P r \<Longrightarrow> j r = x"
  shows "distinct (map k (update_where P f rows))"
  using assms(1,2,4)
proof (induction rows)
  case (Cons r rows)
  show ?case
  proof (cases "P r")
    case True
    have none: "\<not> P q" if "q \<in> set rows" for q
      using Cons.prems(1) that True assms(5)
      by (metis distinct.simps(2) image_eqI list.simps(9) set_map)
    then have "update_where P f (r # rows) = f r # rows"
      using True update_where_none [of rows P f] by (simp add: update_where_def)
    then show ?thesis using Cons.prems none assms(3) by auto
  next
    case False
    then have "update_where P f (r # rows) = r # update_where P f rows"
      by (simp add: update_where_def)
    moreover have "k r \<notin> k ` set (update_where P f rows)"
    proof
      assume "k r \<in> k ` set (update_where P f rows)"
      then obtain r0 where "r0 \<in> set rows" "k r = k (if P r0 then f r0 else r0)"
        by (auto simp: set_update_where)
      then show False using Cons.prems(2) Cons.prems(3) [of r] False assms(3)
        by (cases "P r0") auto
    qed
    moreover have "distinct (map k (update_where P f rows))"
      using Cons.prems by (intro Cons.IH) auto
    ultimately show ?thesis by simp
  qed
qed (simp add: update_where_def)

lemma in_update_whereE:
  assumes "r \<in> set (update_where P f rows)"
  obtains r0 where "r0 \<in> set rows" and "r = (if P r0 then f r0 else r0)"
  using assms by (auto simp: set_update_where)

lemma in_update_whereI:
  "r \<in> set rows \<Longrightarrow> (if P r then f r else r) \<in> set (update_where P f rows)"
  by (auto simp: set_update_where)

lemma bex_update_where:
  "\<exists>r \<in> set rows. Q r \<Longrightarrow> (\<And>r. Q r \<Longrightarrow> Q (f r)) \<Longrightarrow> \<exists>r \<in> set (update_where P f rows). Q r"
  by (auto simp: set_update_where)

lemma find_key_distinct:
  "distinct (map k rows) \<Longrightarrow> find (\<lambda>r. k r = x) rows = Some r \<longleftrightarrow> r \<in> set rows \<and> k r = x"
  by (induction rows) (auto simp: image_iff)

lemma find_key_None: "find (\<lambda>r. k r = x) rows = None \<longleftrightarrow> x \<notin> k ` set rows"
  by (auto simp: find_None_iff)

lemma find_SomeD: "find P rows = Some r \<Longrightarrow> r \<in> set rows \<and> P r"
  by (auto simp: find_Some_iff)

lemma distinct_key_inject:
  "distinct (map k rows) \<Longrightarrow> a \<in> set rows \<Longrightarrow> b \<in> set rows \<Longrightarrow> k a = k b \<Longrightarrow> a = b"
  by (auto simp: distinct_map inj_on_def)

section \<open>Facts that every operation keeps\<close>

text \<open>
  The interface between a component and the clients of its invariants: a step function and a
  fact that no step destroys. Runs of steps then keep the fact.
\<close>

locale stable_fact =
  fixes exec :: "'op \<Rightarrow> 's \<Rightarrow> 's"
    and holds :: "'s \<Rightarrow> bool"
  assumes stable: "holds s \<Longrightarrow> holds (exec op s)"
begin

lemma stable_run: "holds s \<Longrightarrow> holds (fold exec ops s)"
  by (induction ops arbitrary: s) (simp_all add: stable)

end

section \<open>Ledgers of spent tokens\<close>

text \<open>
  The interface between a handler that accepts a signed request once and the store that
  remembers it: \<open>consume\<close> spends a token at a time, \<open>spent\<close> is what the ledger remembers, and
  an operation may forget a token only when the retention \<open>window\<close> before the operation's own
  time has passed it. Under these laws a token is refused for the whole window, whatever other
  operations run in between, as long as their clocks do not pass the second use.
\<close>

locale replay_ledger =
  fixes exec :: "'op \<Rightarrow> 's \<Rightarrow> 's"
    and consume :: "'k \<Rightarrow> i64 \<Rightarrow> 's \<Rightarrow> bool \<times> 's"
    and spent :: "'s \<Rightarrow> ('k \<times> i64) set"
    and op_time :: "'op \<Rightarrow> i64 option"
    and window :: i64
  assumes consume_records: "consume k t s = (True, s') \<Longrightarrow> (k, t) \<in> spent s'"
    and spent_refused:
      "(k, t0) \<in> spent s \<Longrightarrow> saturating_sub_i64 t window \<le> t0 \<Longrightarrow> \<not> fst (consume k t s)"
    and spent_kept:
      "(k, t0) \<in> spent s \<Longrightarrow> (\<And>t. op_time op = Some t \<Longrightarrow> saturating_sub_i64 t window \<le> t0) \<Longrightarrow>
        (k, t0) \<in> spent (exec op s)"
begin

lemma spent_run:
  assumes "(k, t0) \<in> spent s" and "saturating_sub_i64 t1 window \<le> t0"
    and "\<And>op t. op \<in> set ops \<Longrightarrow> op_time op = Some t \<Longrightarrow> t \<le> t1"
  shows "(k, t0) \<in> spent (fold exec ops s)"
  using assms(1,3)
proof (induction ops arbitrary: s)
  case (Cons op ops)
  have "(k, t0) \<in> spent (exec op s)"
  proof (rule spent_kept [OF Cons.prems(1)])
    fix t assume "op_time op = Some t"
    then have "t \<le> t1" by (intro Cons.prems(2) [of op t]) simp_all
    then show "saturating_sub_i64 t window \<le> t0" using assms(2) by (auto simp: sat_defs)
  qed
  then have "(k, t0) \<in> spent (fold exec ops (exec op s))"
    by (rule Cons.IH) (use Cons.prems(2) in auto)
  then show ?case by simp
qed simp

lemma no_replay:
  assumes "consume k t0 s = (True, s1)" and "saturating_sub_i64 t1 window \<le> t0"
    and "\<And>op t. op \<in> set ops \<Longrightarrow> op_time op = Some t \<Longrightarrow> t \<le> t1"
  shows "\<not> fst (consume k t1 (fold exec ops s1))"
proof (rule spent_refused [OF spent_run assms(2)])
  show "(k, t0) \<in> spent s1" by (rule consume_records [OF assms(1)])
qed (rule assms(2), rule assms(3))

end

end
