(* ===== verification/Auth_Crypto.thy ===== *)
theory Auth_Crypto imports Prelude begin

text \<open>
  \<^verbatim>\<open>authorization-service/src/crypto.rs\<close>: the values the authorization protocol exchanges,
  their canonical serialisation, the server's signatures, the verification of client signatures
  and the validation of timestamps and nonces, and the encryption of artifact chunks.

  The crates that the file calls are parameters of the model, collected in the record
  \<open>crates\<close>: base64, serde\_json, the signature, hash, key-derivation and cipher crates. What the
  code relies on of them is stated by the named hypotheses at the end. A struct that derives
  \<^verbatim>\<open>Serialize\<close> is translated to a JSON value with the struct's fields in their order.
\<close>

section \<open>JSON values\<close>

datatype json = JString string | JInt int | JArray "json list" | JObject "(string \<times> json) list"

section \<open>Constants and data\<close>

definition LEASE_MAX_SECS :: i64 where "LEASE_MAX_SECS = 15 * 60"
definition REQUEST_MAX_AGE_SECS :: i64 where "REQUEST_MAX_AGE_SECS = 5 * 60"
definition MAX_CLOCK_SKEW_SECS :: i64 where "MAX_CLOCK_SKEW_SECS = 5 * 60"
definition MAX_NONCE_BYTES :: nat where "MAX_NONCE_BYTES = 256"
definition ARTIFACT_CHUNK_SIZE :: u64 where "ARTIFACT_CHUNK_SIZE = 256 * 1024"

datatype client_key_algorithm = Ed25519DpapiV1 | EcdsaP256CngV1

definition default_key_algorithm :: client_key_algorithm where
  "default_key_algorithm = Ed25519DpapiV1"

datatype protected_capability = ProtectedPreset | ProtectedArtifact | ProtectedAlgorithm

text \<open>The serde names: \<^verbatim>\<open>rename_all = "kebab-case"\<close>.\<close>

primrec capability_name :: "protected_capability \<Rightarrow> string" where
  "capability_name ProtectedPreset = ''protected-preset''"
| "capability_name ProtectedArtifact = ''protected-artifact''"
| "capability_name ProtectedAlgorithm = ''protected-algorithm''"

primrec key_algorithm_name :: "client_key_algorithm \<Rightarrow> string" where
  "key_algorithm_name Ed25519DpapiV1 = ''ed25519-dpapi-v1''"
| "key_algorithm_name EcdsaP256CngV1 = ''ecdsa-p256-cng-v1''"

record lease_claims =
  lc_iss :: string
  lc_aud :: string
  lc_sub :: string
  lc_client_id :: string
  lc_device_id :: string
  lc_session_id :: string
  lc_capabilities :: "protected_capability list"
  lc_client_version :: string
  lc_iat :: i64
  lc_exp :: i64
  lc_jti :: string
  lc_nonce :: string

record signed_lease =
  sl_key_id :: string
  sl_claims :: lease_claims
  sl_signature :: string

record artifact_manifest =
  am_artifact_id :: string
  am_version :: string
  am_target_abi :: string
  am_target_android :: string
  am_session_id :: string
  am_device_id :: string
  am_size_bytes :: u64
  am_sha256 :: string
  am_expires_at :: i64
  am_key_id :: string
  am_transfer_id :: string
  am_server_ephemeral_public_key :: string
  am_chunk_size_bytes :: u32
  am_chunk_count :: u32
  am_nonce_prefix :: string

record signed_artifact_manifest =
  sm_key_id :: string
  sm_manifest :: artifact_manifest
  sm_signature :: string

record execution_grant_claims =
  eg_iss :: string
  eg_aud :: string
  eg_client_id :: string
  eg_device_id :: string
  eg_session_id :: string
  eg_client_version :: string
  eg_artifact_id :: string
  eg_artifact_sha256 :: string
  eg_action :: string
  eg_vm :: string
  eg_instance :: string
  eg_iat :: i64
  eg_exp :: i64
  eg_jti :: string
  eg_nonce :: string

record signed_execution_grant =
  sg_key_id :: string
  sg_payload :: string
  sg_signature :: string
  sg_device_proof :: "string option"

record receipt_claims =
  rc_iss :: string
  rc_aud :: string
  rc_client_id :: string
  rc_device_id :: string
  rc_session_id :: string
  rc_client_version :: string
  rc_artifact_id :: string
  rc_artifact_sha256 :: string
  rc_action :: string
  rc_vm :: string
  rc_instance :: string
  rc_grant_jti :: string
  rc_iat :: i64
  rc_exp :: i64

record signed_receipt =
  sr_key_id :: string
  sr_payload :: string
  sr_signature :: string

record signing_authority =
  sa_key_id :: string
  sa_signing_key :: bytes

datatype crypto_error = Malformed string | InvalidSignature | CryptoIo string

record registration_proof =
  rp_client_id :: string
  rp_challenge :: string

record session_proof =
  sp_client_id :: string
  sp_device_id :: string
  sp_client_version :: string
  sp_nonce :: string
  sp_iat :: i64
  sp_capabilities :: "protected_capability list"

record heartbeat_proof =
  hp_session_id :: string
  hp_client_id :: string
  hp_device_id :: string
  hp_nonce :: string
  hp_iat :: i64

record execution_grant_proof =
  gp_artifact_id :: string
  gp_artifact_sha256 :: string
  gp_action :: string
  gp_vm :: string
  gp_instance :: string
  gp_nonce :: string
  gp_iat :: i64

section \<open>The third-party crates\<close>

text \<open>
  \<^verbatim>\<open>x_from_slice\<close> is \<^verbatim>\<open>serde_json::from_slice\<close> at the derived \<^verbatim>\<open>Deserialize\<close> of the claims; a
  key, signature or secret value of a crate is represented by its bytes, and \<^verbatim>\<open>x_key\<close>,
  \<^verbatim>\<open>x_signature\<close> are the crates' parsers of them, with the error's text.
\<close>

record crates =
  b64_encode :: "bytes \<Rightarrow> string"
  b64_decode :: "string \<Rightarrow> string + bytes"
  json_to_vec :: "json \<Rightarrow> bytes"
  grant_claims_from_slice :: "bytes \<Rightarrow> string + execution_grant_claims"
  receipt_claims_from_slice :: "bytes \<Rightarrow> string + receipt_claims"
  sha256_digest :: "bytes \<Rightarrow> bytes"
  ed25519_public :: "bytes \<Rightarrow> bytes"
  ed25519_sign :: "bytes \<Rightarrow> bytes \<Rightarrow> bytes"
  ed25519_key :: "bytes \<Rightarrow> string + bytes"
  ed25519_signature :: "bytes \<Rightarrow> string + bytes"
  ed25519_verify :: "bytes \<Rightarrow> bytes \<Rightarrow> bytes \<Rightarrow> bool"
  p256_key :: "bytes \<Rightarrow> string + bytes"
  p256_signature :: "bytes \<Rightarrow> string + bytes"
  p256_verify_prehash :: "bytes \<Rightarrow> bytes \<Rightarrow> bytes \<Rightarrow> bool"
  x25519_public :: "bytes \<Rightarrow> bytes"
  x25519_dh :: "bytes \<Rightarrow> bytes \<Rightarrow> bytes"
  hkdf_expand :: "bytes \<Rightarrow> bytes \<Rightarrow> bytes \<Rightarrow> nat \<Rightarrow> bytes option"
  chacha_encrypt :: "bytes \<Rightarrow> bytes \<Rightarrow> bytes \<Rightarrow> bytes \<Rightarrow> bytes option"
  chacha_decrypt :: "bytes \<Rightarrow> bytes \<Rightarrow> bytes \<Rightarrow> bytes \<Rightarrow> bytes option"

section \<open>Serialisation\<close>

definition capabilities_json :: "protected_capability list \<Rightarrow> json" where
  "capabilities_json cs = JArray (map (\<lambda>c. JString (capability_name c)) cs)"

definition lease_claims_json :: "lease_claims \<Rightarrow> json" where
  "lease_claims_json c = JObject
    [(''iss'', JString (lc_iss c)), (''aud'', JString (lc_aud c)), (''sub'', JString (lc_sub c)),
     (''client_id'', JString (lc_client_id c)), (''device_id'', JString (lc_device_id c)),
     (''session_id'', JString (lc_session_id c)),
     (''capabilities'', capabilities_json (lc_capabilities c)),
     (''client_version'', JString (lc_client_version c)),
     (''iat'', JInt (lc_iat c)), (''exp'', JInt (lc_exp c)),
     (''jti'', JString (lc_jti c)), (''nonce'', JString (lc_nonce c))]"

definition artifact_manifest_json :: "artifact_manifest \<Rightarrow> json" where
  "artifact_manifest_json m = JObject
    [(''artifact_id'', JString (am_artifact_id m)), (''version'', JString (am_version m)),
     (''target_abi'', JString (am_target_abi m)), (''target_android'', JString (am_target_android m)),
     (''session_id'', JString (am_session_id m)), (''device_id'', JString (am_device_id m)),
     (''size_bytes'', JInt (uint (am_size_bytes m))), (''sha256'', JString (am_sha256 m)),
     (''expires_at'', JInt (am_expires_at m)), (''key_id'', JString (am_key_id m)),
     (''transfer_id'', JString (am_transfer_id m)),
     (''server_ephemeral_public_key'', JString (am_server_ephemeral_public_key m)),
     (''chunk_size_bytes'', JInt (uint (am_chunk_size_bytes m))),
     (''chunk_count'', JInt (uint (am_chunk_count m))),
     (''nonce_prefix'', JString (am_nonce_prefix m))]"

definition execution_grant_claims_json :: "execution_grant_claims \<Rightarrow> json" where
  "execution_grant_claims_json c = JObject
    [(''iss'', JString (eg_iss c)), (''aud'', JString (eg_aud c)),
     (''client_id'', JString (eg_client_id c)), (''device_id'', JString (eg_device_id c)),
     (''session_id'', JString (eg_session_id c)), (''client_version'', JString (eg_client_version c)),
     (''artifact_id'', JString (eg_artifact_id c)), (''artifact_sha256'', JString (eg_artifact_sha256 c)),
     (''action'', JString (eg_action c)), (''vm'', JString (eg_vm c)), (''instance'', JString (eg_instance c)),
     (''iat'', JInt (eg_iat c)), (''exp'', JInt (eg_exp c)),
     (''jti'', JString (eg_jti c)), (''nonce'', JString (eg_nonce c))]"

definition receipt_claims_json :: "receipt_claims \<Rightarrow> json" where
  "receipt_claims_json c = JObject
    [(''iss'', JString (rc_iss c)), (''aud'', JString (rc_aud c)),
     (''client_id'', JString (rc_client_id c)), (''device_id'', JString (rc_device_id c)),
     (''session_id'', JString (rc_session_id c)), (''client_version'', JString (rc_client_version c)),
     (''artifact_id'', JString (rc_artifact_id c)), (''artifact_sha256'', JString (rc_artifact_sha256 c)),
     (''action'', JString (rc_action c)), (''vm'', JString (rc_vm c)), (''instance'', JString (rc_instance c)),
     (''grant_jti'', JString (rc_grant_jti c)), (''iat'', JInt (rc_iat c)), (''exp'', JInt (rc_exp c))]"

definition registration_proof_json :: "registration_proof \<Rightarrow> json" where
  "registration_proof_json p = JObject
    [(''client_id'', JString (rp_client_id p)), (''challenge'', JString (rp_challenge p))]"

definition session_proof_json :: "session_proof \<Rightarrow> json" where
  "session_proof_json p = JObject
    [(''client_id'', JString (sp_client_id p)), (''device_id'', JString (sp_device_id p)),
     (''client_version'', JString (sp_client_version p)), (''nonce'', JString (sp_nonce p)),
     (''iat'', JInt (sp_iat p)), (''capabilities'', capabilities_json (sp_capabilities p))]"

definition heartbeat_proof_json :: "heartbeat_proof \<Rightarrow> json" where
  "heartbeat_proof_json p = JObject
    [(''session_id'', JString (hp_session_id p)), (''client_id'', JString (hp_client_id p)),
     (''device_id'', JString (hp_device_id p)), (''nonce'', JString (hp_nonce p)),
     (''iat'', JInt (hp_iat p))]"

definition execution_grant_proof_json :: "execution_grant_proof \<Rightarrow> json" where
  "execution_grant_proof_json p = JObject
    [(''artifact_id'', JString (gp_artifact_id p)), (''artifact_sha256'', JString (gp_artifact_sha256 p)),
     (''action'', JString (gp_action p)), (''vm'', JString (gp_vm p)), (''instance'', JString (gp_instance p)),
     (''nonce'', JString (gp_nonce p)), (''iat'', JInt (gp_iat p))]"

text \<open>
  \<^verbatim>\<open>serde_json::to_vec\<close> fails only on map keys that are not strings and on failing
  \<^verbatim>\<open>Serialize\<close> implementations; the derived ones of these structs do neither.
\<close>

definition canonical_json :: "crates \<Rightarrow> json \<Rightarrow> crypto_error + bytes" where
  "canonical_json cr v = Inr (json_to_vec cr v)"

section \<open>The signing authority\<close>

definition sa_from_base64url :: "crates \<Rightarrow> string \<Rightarrow> string \<Rightarrow> crypto_error + signing_authority" where
  "sa_from_base64url cr key_id secret =
    (case b64_decode cr secret of
       Inl e \<Rightarrow> Inl (Malformed e)
     | Inr bs \<Rightarrow>
         if length bs \<noteq> 32 then Inl (Malformed ''signing key must be 32 bytes'')
         else Inr \<lparr>sa_key_id = key_id, sa_signing_key = bs\<rparr>)"

definition public_key_base64url :: "crates \<Rightarrow> signing_authority \<Rightarrow> string" where
  "public_key_base64url cr sa = b64_encode cr (ed25519_public cr (sa_signing_key sa))"

definition sign_bytes :: "crates \<Rightarrow> signing_authority \<Rightarrow> json \<Rightarrow> string" where
  "sign_bytes cr sa v = b64_encode cr (ed25519_sign cr (sa_signing_key sa) (json_to_vec cr v))"

definition sign_claims :: "crates \<Rightarrow> signing_authority \<Rightarrow> lease_claims \<Rightarrow> signed_lease" where
  "sign_claims cr sa claims =
    \<lparr>sl_key_id = sa_key_id sa, sl_claims = claims,
     sl_signature = sign_bytes cr sa (lease_claims_json claims)\<rparr>"

definition sign_manifest :: "crates \<Rightarrow> signing_authority \<Rightarrow> artifact_manifest \<Rightarrow> signed_artifact_manifest" where
  "sign_manifest cr sa m =
    \<lparr>sm_key_id = sa_key_id sa, sm_manifest = m,
     sm_signature = sign_bytes cr sa (artifact_manifest_json m)\<rparr>"

definition sign_execution_grant :: "crates \<Rightarrow> signing_authority \<Rightarrow> execution_grant_claims \<Rightarrow> signed_execution_grant" where
  "sign_execution_grant cr sa claims =
    (let payload = json_to_vec cr (execution_grant_claims_json claims)
     in \<lparr>sg_key_id = sa_key_id sa, sg_payload = b64_encode cr payload,
         sg_signature = b64_encode cr (ed25519_sign cr (sa_signing_key sa) payload),
         sg_device_proof = None\<rparr>)"

definition sign_execution_authorization_receipt :: "crates \<Rightarrow> signing_authority \<Rightarrow> receipt_claims \<Rightarrow> signed_receipt" where
  "sign_execution_authorization_receipt cr sa claims =
    (let payload = json_to_vec cr (receipt_claims_json claims)
     in \<lparr>sr_key_id = sa_key_id sa, sr_payload = b64_encode cr payload,
         sr_signature = b64_encode cr (ed25519_sign cr (sa_signing_key sa) payload)\<rparr>)"

definition decode_execution_grant_payload :: "crates \<Rightarrow> string \<Rightarrow> crypto_error + execution_grant_claims" where
  "decode_execution_grant_payload cr payload =
    (case b64_decode cr payload of
       Inl e \<Rightarrow> Inl (Malformed e)
     | Inr bs \<Rightarrow> map_err Malformed (grant_claims_from_slice cr bs))"

definition verify_execution_authorization_receipt ::
    "crates \<Rightarrow> signing_authority \<Rightarrow> signed_receipt \<Rightarrow> crypto_error + receipt_claims" where
  "verify_execution_authorization_receipt cr sa receipt =
    (if sr_key_id receipt \<noteq> sa_key_id sa then Inl InvalidSignature
     else case b64_decode cr (sr_payload receipt) of
       Inl e \<Rightarrow> Inl (Malformed e)
     | Inr payload \<Rightarrow> (case b64_decode cr (sr_signature receipt) of
       Inl e \<Rightarrow> Inl (Malformed e)
     | Inr sig_bytes \<Rightarrow> (case ed25519_signature cr sig_bytes of
       Inl e \<Rightarrow> Inl (Malformed e)
     | Inr sig \<Rightarrow>
         if \<not> ed25519_verify cr (ed25519_public cr (sa_signing_key sa)) payload sig
         then Inl InvalidSignature
         else map_err Malformed (receipt_claims_from_slice cr payload))))"

definition verify_execution_grant ::
    "crates \<Rightarrow> signing_authority \<Rightarrow> signed_execution_grant \<Rightarrow> crypto_error + execution_grant_claims" where
  "verify_execution_grant cr sa grant =
    (if sg_key_id grant \<noteq> sa_key_id sa then Inl InvalidSignature
     else case b64_decode cr (sg_payload grant) of
       Inl e \<Rightarrow> Inl (Malformed e)
     | Inr payload \<Rightarrow> (case b64_decode cr (sg_signature grant) of
       Inl e \<Rightarrow> Inl (Malformed e)
     | Inr sig_bytes \<Rightarrow> (case ed25519_signature cr sig_bytes of
       Inl e \<Rightarrow> Inl (Malformed e)
     | Inr sig \<Rightarrow>
         if \<not> ed25519_verify cr (ed25519_public cr (sa_signing_key sa)) payload sig
         then Inl InvalidSignature
         else decode_execution_grant_payload cr (sg_payload grant))))"

section \<open>Client keys and signatures\<close>

definition verify_client_signature ::
    "crates \<Rightarrow> client_key_algorithm \<Rightarrow> string \<Rightarrow> bytes \<Rightarrow> string \<Rightarrow> crypto_error + unit" where
  "verify_client_signature cr algorithm public_key payload signature =
    (case b64_decode cr public_key of
       Inl e \<Rightarrow> Inl (Malformed e)
     | Inr key_bytes \<Rightarrow> (case b64_decode cr signature of
       Inl e \<Rightarrow> Inl (Malformed e)
     | Inr sig_bytes \<Rightarrow> (case algorithm of
         Ed25519DpapiV1 \<Rightarrow>
           if length key_bytes \<noteq> 32 then Inl (Malformed ''client public key must be 32 bytes'')
           else (case ed25519_key cr key_bytes of
             Inl e \<Rightarrow> Inl (Malformed e)
           | Inr key \<Rightarrow> (case ed25519_signature cr sig_bytes of
             Inl e \<Rightarrow> Inl (Malformed e)
           | Inr sig \<Rightarrow> if ed25519_verify cr key payload sig then Inr () else Inl InvalidSignature))
       | EcdsaP256CngV1 \<Rightarrow>
           if length key_bytes \<noteq> 65 \<or> hd key_bytes \<noteq> 4
           then Inl (Malformed ''ECDSA P-256 public key must be an uncompressed SEC1 key'')
           else (case p256_key cr key_bytes of
             Inl e \<Rightarrow> Inl (Malformed e)
           | Inr key \<Rightarrow> (case p256_signature cr sig_bytes of
             Inl e \<Rightarrow> Inl (Malformed e)
           | Inr sig \<Rightarrow>
               if p256_verify_prehash cr key (sha256_digest cr payload) sig then Inr ()
               else Inl InvalidSignature)))))"

definition validate_public_key_base64url ::
    "crates \<Rightarrow> client_key_algorithm \<Rightarrow> string \<Rightarrow> crypto_error + unit" where
  "validate_public_key_base64url cr algorithm value =
    (case b64_decode cr value of
       Inl e \<Rightarrow> Inl (Malformed e)
     | Inr bs \<Rightarrow> (case algorithm of
         Ed25519DpapiV1 \<Rightarrow>
           if length bs \<noteq> 32 then Inl (Malformed ''client public key must be 32 bytes'')
           else (case ed25519_key cr bs of Inl e \<Rightarrow> Inl (Malformed e) | Inr _ \<Rightarrow> Inr ())
       | EcdsaP256CngV1 \<Rightarrow>
           if length bs \<noteq> 65 \<or> hd bs \<noteq> 4
           then Inl (Malformed ''ECDSA P-256 public key must be an uncompressed SEC1 key'')
           else (case p256_key cr bs of Inl e \<Rightarrow> Inl (Malformed e) | Inr _ \<Rightarrow> Inr ())))"

section \<open>Timestamps and nonces\<close>

definition validate_request_time :: "i64 \<Rightarrow> i64 \<Rightarrow> crypto_error + unit" where
  "validate_request_time iat now =
    (if iat < saturating_sub_i64 now REQUEST_MAX_AGE_SECS
        \<or> iat > saturating_add_i64 now MAX_CLOCK_SKEW_SECS
     then Inl (Malformed ''signed request timestamp is outside the accepted window'')
     else Inr ())"

definition validate_nonce :: "string \<Rightarrow> crypto_error + unit" where
  "validate_nonce nonce =
    (if blank nonce \<or> length nonce > MAX_NONCE_BYTES
     then Inl (Malformed ''request nonce is empty or too large'')
     else Inr ())"

end
