(* ===== verification/Auth_Store.thy ===== *)
theory Auth_Store imports Auth_Crypto begin

text \<open>
  \<^verbatim>\<open>authorization-service/src/store.rs\<close>: the SQLite store of the authorization service. A table
  is the list of its rows in insertion order; a row is the record that the store returns,
  extended with the columns that are stored but not returned. Primary keys, \<^verbatim>\<open>UNIQUE\<close> columns and
  \<^verbatim>\<open>REFERENCES\<close> (the connection sets \<^verbatim>\<open>PRAGMA foreign_keys = ON\<close>) are checked where a statement
  can violate them and yield the error of the failed statement.

  The integer columns \<^verbatim>\<open>approved\<close>, \<^verbatim>\<open>revoked\<close> and \<^verbatim>\<open>enabled\<close> hold 0 or 1 only and are booleans.
  The columns \<^verbatim>\<open>client_key_algorithm\<close> and \<^verbatim>\<open>capabilities_json\<close> hold serde's text of a value;
  the model keeps the value. Every method runs under the connection's mutex and is one step.
  Failures of SQLite other than violated constraints (I/O, a full disk) are not modelled.
\<close>

section \<open>Records and tables\<close>

datatype sql_error = UniqueViolation string | ForeignKeyViolation

datatype store_error = Sqlite sql_error | Corrupt string

record client_record =
  cl_client_id :: string
  cl_account_id :: string
  cl_device_id :: string
  cl_device_public_key :: string
  cl_key_algorithm :: client_key_algorithm
  cl_client_version :: string
  cl_approved :: bool
  cl_revoked :: bool

record client_row = client_record +
  cl_created_at :: i64

record session_record =
  se_session_id :: string
  se_client_id :: string
  se_account_id :: string
  se_device_id :: string
  se_capabilities :: "protected_capability list"
  se_exp :: i64
  se_revoked :: bool

record session_row = session_record +
  se_jti :: string
  se_created_at :: i64

record artifact_record =
  ar_artifact_id :: string
  ar_version :: string
  ar_target_abi :: string
  ar_target_android :: string
  ar_path :: string

record artifact_row = artifact_record +
  ar_enabled :: bool

record challenge_row =
  ch_client_id :: string
  ch_challenge :: string
  ch_expires_at :: i64
  ch_requested_client_version :: string

record entitlement_row =
  en_account_id :: string
  en_capability :: string
  en_enabled :: bool

record auth_store =
  clients :: "client_row list"
  challenges :: "challenge_row list"
  used_nonces :: "(string \<times> i64) list"
  sessions :: "session_row list"
  entitlements :: "entitlement_row list"
  artifacts :: "artifact_row list"

definition NONCE_RETENTION_SECS :: i64 where
  "NONCE_RETENTION_SECS = REQUEST_MAX_AGE_SECS + MAX_CLOCK_SKEW_SECS"

definition in_memory :: auth_store where
  "in_memory = \<lparr>clients = [], challenges = [], used_nonces = [], sessions = [],
     entitlements = [], artifacts = []\<rparr>"

section \<open>Clients and registration challenges\<close>

definition create_pending_client ::
    "string \<Rightarrow> string \<Rightarrow> string \<Rightarrow> string \<Rightarrow> client_key_algorithm \<Rightarrow> string \<Rightarrow> i64 \<Rightarrow> auth_store
      \<Rightarrow> (store_error + unit) \<times> auth_store" where
  "create_pending_client client_id account_id device_id device_public_key alg client_version now st =
    (if some_row (\<lambda>r. cl_client_id r = client_id) (clients st)
     then (Inl (Sqlite (UniqueViolation ''clients.client_id'')), st)
     else if some_row (\<lambda>r. cl_device_id r = device_id) (clients st)
     then (Inl (Sqlite (UniqueViolation ''clients.device_id'')), st)
     else (Inr (), st\<lparr>clients := clients st @
       [\<lparr>cl_client_id = client_id, cl_account_id = account_id, cl_device_id = device_id,
         cl_device_public_key = device_public_key, cl_key_algorithm = alg,
         cl_client_version = client_version, cl_approved = False, cl_revoked = False,
         cl_created_at = now\<rparr>]\<rparr>))"

definition set_registration_challenge ::
    "string \<Rightarrow> string \<Rightarrow> string \<Rightarrow> i64 \<Rightarrow> auth_store \<Rightarrow> (store_error + unit) \<times> auth_store" where
  "set_registration_challenge client_id challenge requested_client_version expires_at st =
    (if some_row (\<lambda>r. ch_client_id r = client_id) (challenges st)
     then (Inr (), st\<lparr>challenges := update_where (\<lambda>r. ch_client_id r = client_id)
        (\<lambda>r. r\<lparr>ch_challenge := challenge, ch_requested_client_version := requested_client_version,
               ch_expires_at := expires_at\<rparr>) (challenges st)\<rparr>)
     else if \<not> some_row (\<lambda>r. cl_client_id r = client_id) (clients st)
     then (Inl (Sqlite ForeignKeyViolation), st)
     else (Inr (), st\<lparr>challenges := challenges st @
       [\<lparr>ch_client_id = client_id, ch_challenge = challenge, ch_expires_at = expires_at,
         ch_requested_client_version = requested_client_version\<rparr>]\<rparr>))"

definition registration_challenge :: "string \<Rightarrow> string \<Rightarrow> i64 \<Rightarrow> auth_store \<Rightarrow> string option" where
  "registration_challenge client_id challenge now st =
    map_option ch_requested_client_version
      (find (\<lambda>r. ch_client_id r = client_id \<and> ch_challenge r = challenge \<and> ch_expires_at r > now)
        (challenges st))"

definition take_registration_challenge ::
    "string \<Rightarrow> string \<Rightarrow> i64 \<Rightarrow> auth_store \<Rightarrow> string option \<times> auth_store" where
  "take_registration_challenge client_id challenge now st =
    (let requested_version =
       map_option ch_requested_client_version
         (find (\<lambda>r. ch_client_id r = client_id \<and> ch_challenge r = challenge \<and> ch_expires_at r > now)
           (challenges st))
     in (requested_version,
         if requested_version \<noteq> None
         then st\<lparr>challenges := filter (\<lambda>r. ch_client_id r \<noteq> client_id) (challenges st)\<rparr>
         else st))"

definition client :: "string \<Rightarrow> auth_store \<Rightarrow> client_record option" where
  "client client_id st =
    map_option client_record.truncate (find (\<lambda>r. cl_client_id r = client_id) (clients st))"

definition client_by_device :: "string \<Rightarrow> auth_store \<Rightarrow> client_record option" where
  "client_by_device device_id st =
    map_option client_record.truncate (find (\<lambda>r. cl_device_id r = device_id) (clients st))"

definition update_client_registration ::
    "string \<Rightarrow> string \<Rightarrow> client_key_algorithm \<Rightarrow> string \<Rightarrow> auth_store \<Rightarrow> bool \<times> auth_store" where
  "update_client_registration client_id device_public_key alg client_version st =
    (some_row (\<lambda>r. cl_client_id r = client_id \<and> \<not> cl_revoked r) (clients st),
     st\<lparr>sessions := update_where (\<lambda>r. se_client_id r = client_id \<and> \<not> se_revoked r)
          (\<lambda>r. r\<lparr>se_revoked := True\<rparr>) (sessions st),
        clients := update_where (\<lambda>r. cl_client_id r = client_id \<and> \<not> cl_revoked r)
          (\<lambda>r. r\<lparr>cl_device_public_key := device_public_key, cl_key_algorithm := alg,
                 cl_client_version := client_version\<rparr>) (clients st)\<rparr>)"

definition approve_client :: "string \<Rightarrow> auth_store \<Rightarrow> bool \<times> auth_store" where
  "approve_client client_id st =
    (some_row (\<lambda>r. cl_client_id r = client_id) (clients st),
     st\<lparr>clients := update_where (\<lambda>r. cl_client_id r = client_id) (\<lambda>r. r\<lparr>cl_approved := True\<rparr>) (clients st)\<rparr>)"

definition approve_client_for_account :: "string \<Rightarrow> string \<Rightarrow> auth_store \<Rightarrow> bool \<times> auth_store" where
  "approve_client_for_account client_id account_id st =
    (some_row (\<lambda>r. cl_client_id r = client_id) (clients st),
     st\<lparr>clients := update_where (\<lambda>r. cl_client_id r = client_id)
          (\<lambda>r. r\<lparr>cl_account_id := account_id, cl_approved := True\<rparr>) (clients st)\<rparr>)"

definition revoke_client :: "string \<Rightarrow> auth_store \<Rightarrow> bool \<times> auth_store" where
  "revoke_client client_id st =
    (some_row (\<lambda>r. cl_client_id r = client_id) (clients st),
     st\<lparr>clients := update_where (\<lambda>r. cl_client_id r = client_id) (\<lambda>r. r\<lparr>cl_revoked := True\<rparr>) (clients st),
        sessions := update_where (\<lambda>r. se_client_id r = client_id) (\<lambda>r. r\<lparr>se_revoked := True\<rparr>) (sessions st)\<rparr>)"

section \<open>Entitlements\<close>

definition entitlement_key :: "string \<Rightarrow> protected_capability \<Rightarrow> entitlement_row \<Rightarrow> bool" where
  "entitlement_key account_id cap r = (en_account_id r = account_id \<and> en_capability r = capability_name cap)"

definition grant_entitlement :: "string \<Rightarrow> protected_capability \<Rightarrow> auth_store \<Rightarrow> auth_store" where
  "grant_entitlement account_id cap st =
    (if some_row (entitlement_key account_id cap) (entitlements st)
     then st\<lparr>entitlements := update_where (entitlement_key account_id cap)
            (\<lambda>r. r\<lparr>en_enabled := True\<rparr>) (entitlements st)\<rparr>
     else st\<lparr>entitlements := entitlements st @
       [\<lparr>en_account_id = account_id, en_capability = capability_name cap, en_enabled = True\<rparr>]\<rparr>)"

definition revoke_entitlement :: "string \<Rightarrow> protected_capability \<Rightarrow> auth_store \<Rightarrow> bool \<times> auth_store" where
  "revoke_entitlement account_id cap st =
    (some_row (\<lambda>r. entitlement_key account_id cap r \<and> en_enabled r) (entitlements st),
     st\<lparr>entitlements := update_where (\<lambda>r. entitlement_key account_id cap r \<and> en_enabled r)
          (\<lambda>r. r\<lparr>en_enabled := False\<rparr>) (entitlements st)\<rparr>)"

definition has_entitlement :: "string \<Rightarrow> protected_capability \<Rightarrow> auth_store \<Rightarrow> bool" where
  "has_entitlement account_id cap st =
    (case find (entitlement_key account_id cap) (entitlements st) of
       None \<Rightarrow> False
     | Some r \<Rightarrow> en_enabled r)"

section \<open>Nonces\<close>

definition consume_nonce :: "string \<Rightarrow> i64 \<Rightarrow> auth_store \<Rightarrow> bool \<times> auth_store" where
  "consume_nonce nonce now st =
    (let kept = filter (\<lambda>(n, used_at). \<not> used_at < saturating_sub_i64 now NONCE_RETENTION_SECS)
                  (used_nonces st)
     in if some_row (\<lambda>(n, used_at). n = nonce) kept
        then (False, st\<lparr>used_nonces := kept\<rparr>)
        else (True, st\<lparr>used_nonces := kept @ [(nonce, now)]\<rparr>))"

section \<open>Sessions\<close>

definition create_session ::
    "string \<Rightarrow> client_record \<Rightarrow> protected_capability list \<Rightarrow> string \<Rightarrow> i64 \<Rightarrow> i64 \<Rightarrow> auth_store
      \<Rightarrow> (store_error + unit) \<times> auth_store" where
  "create_session session_id c capabilities jti exp now st =
    (if some_row (\<lambda>r. se_session_id r = session_id) (sessions st)
     then (Inl (Sqlite (UniqueViolation ''sessions.session_id'')), st)
     else if some_row (\<lambda>r. se_jti r = jti) (sessions st)
     then (Inl (Sqlite (UniqueViolation ''sessions.jti'')), st)
     else if \<not> some_row (\<lambda>r. cl_client_id r = cl_client_id c) (clients st)
     then (Inl (Sqlite ForeignKeyViolation), st)
     else (Inr (), st\<lparr>sessions := sessions st @
       [\<lparr>se_session_id = session_id, se_client_id = cl_client_id c, se_account_id = cl_account_id c,
         se_device_id = cl_device_id c, se_capabilities = capabilities, se_exp = exp,
         se_revoked = False, se_jti = jti, se_created_at = now\<rparr>]\<rparr>))"

definition revoke_active_sessions_for_client :: "string \<Rightarrow> i64 \<Rightarrow> auth_store \<Rightarrow> auth_store" where
  "revoke_active_sessions_for_client client_id now st =
    st\<lparr>sessions := update_where
         (\<lambda>r. se_client_id r = client_id \<and> \<not> se_revoked r \<and> se_exp r > now)
         (\<lambda>r. r\<lparr>se_revoked := True\<rparr>) (sessions st)\<rparr>"

definition session :: "string \<Rightarrow> auth_store \<Rightarrow> session_record option" where
  "session session_id st =
    map_option session_record.truncate (find (\<lambda>r. se_session_id r = session_id) (sessions st))"

definition refresh_session ::
    "string \<Rightarrow> protected_capability list \<Rightarrow> string \<Rightarrow> i64 \<Rightarrow> auth_store
      \<Rightarrow> (store_error + bool) \<times> auth_store" where
  "refresh_session session_id capabilities jti exp st =
    (let target = (\<lambda>r. se_session_id r = session_id \<and> \<not> se_revoked r)
     in if \<not> some_row target (sessions st) then (Inr False, st)
        else if some_row (\<lambda>r. \<not> target r \<and> se_jti r = jti) (sessions st)
        then (Inl (Sqlite (UniqueViolation ''sessions.jti'')), st)
        else (Inr True, st\<lparr>sessions := update_where target
          (\<lambda>r. r\<lparr>se_capabilities := capabilities, se_jti := jti, se_exp := exp\<rparr>) (sessions st)\<rparr>))"

definition revoke_session :: "string \<Rightarrow> auth_store \<Rightarrow> bool \<times> auth_store" where
  "revoke_session session_id st =
    (some_row (\<lambda>r. se_session_id r = session_id) (sessions st),
     st\<lparr>sessions := update_where (\<lambda>r. se_session_id r = session_id)
          (\<lambda>r. r\<lparr>se_revoked := True\<rparr>) (sessions st)\<rparr>)"

section \<open>Artifacts\<close>

definition publish_artifact :: "string \<Rightarrow> string \<Rightarrow> string \<Rightarrow> string \<Rightarrow> string \<Rightarrow> auth_store \<Rightarrow> auth_store" where
  "publish_artifact artifact_id version target_abi target_android path st =
    (if some_row (\<lambda>r. ar_artifact_id r = artifact_id) (artifacts st)
     then st\<lparr>artifacts := update_where (\<lambda>r. ar_artifact_id r = artifact_id)
            (\<lambda>r. r\<lparr>ar_version := version, ar_target_abi := target_abi,
                   ar_target_android := target_android, ar_path := path, ar_enabled := True\<rparr>)
            (artifacts st)\<rparr>
     else st\<lparr>artifacts := artifacts st @
       [\<lparr>ar_artifact_id = artifact_id, ar_version = version, ar_target_abi = target_abi,
         ar_target_android = target_android, ar_path = path, ar_enabled = True\<rparr>]\<rparr>)"

definition artifact :: "string \<Rightarrow> auth_store \<Rightarrow> artifact_record option" where
  "artifact artifact_id st =
    map_option artifact_record.truncate
      (find (\<lambda>r. ar_artifact_id r = artifact_id \<and> ar_enabled r) (artifacts st))"

section \<open>The operations as steps\<close>

text \<open>
  Every method that changes the store, as a value. A history of the service is a list of these:
  the mutex serialises the methods of concurrent requests in some order.
\<close>

datatype store_op =
    OpCreatePendingClient string string string string client_key_algorithm string i64
  | OpSetChallenge string string string i64
  | OpTakeChallenge string string i64
  | OpUpdateRegistration string string client_key_algorithm string
  | OpApprove string
  | OpApproveForAccount string string
  | OpRevokeClient string
  | OpGrantEntitlement string protected_capability
  | OpRevokeEntitlement string protected_capability
  | OpConsumeNonce string i64
  | OpCreateSession string client_record "protected_capability list" string i64 i64
  | OpRevokeActiveSessions string i64
  | OpRefreshSession string "protected_capability list" string i64
  | OpRevokeSession string
  | OpPublishArtifact string string string string string

fun exec_op :: "store_op \<Rightarrow> auth_store \<Rightarrow> auth_store" where
  "exec_op (OpCreatePendingClient c a d k alg v now) st = snd (create_pending_client c a d k alg v now st)"
| "exec_op (OpSetChallenge c ch v e) st = snd (set_registration_challenge c ch v e st)"
| "exec_op (OpTakeChallenge c ch now) st = snd (take_registration_challenge c ch now st)"
| "exec_op (OpUpdateRegistration c k alg v) st = snd (update_client_registration c k alg v st)"
| "exec_op (OpApprove c) st = snd (approve_client c st)"
| "exec_op (OpApproveForAccount c a) st = snd (approve_client_for_account c a st)"
| "exec_op (OpRevokeClient c) st = snd (revoke_client c st)"
| "exec_op (OpGrantEntitlement a cap) st = grant_entitlement a cap st"
| "exec_op (OpRevokeEntitlement a cap) st = snd (revoke_entitlement a cap st)"
| "exec_op (OpConsumeNonce n now) st = snd (consume_nonce n now st)"
| "exec_op (OpCreateSession sid c caps jti e now) st = snd (create_session sid c caps jti e now st)"
| "exec_op (OpRevokeActiveSessions c now) st = revoke_active_sessions_for_client c now st"
| "exec_op (OpRefreshSession sid caps jti e) st = snd (refresh_session sid caps jti e st)"
| "exec_op (OpRevokeSession sid) st = snd (revoke_session sid st)"
| "exec_op (OpPublishArtifact i v abi an p) st = publish_artifact i v abi an p st"

lemmas op_defs = create_pending_client_def set_registration_challenge_def take_registration_challenge_def
  update_client_registration_def approve_client_def approve_client_for_account_def revoke_client_def
  grant_entitlement_def revoke_entitlement_def consume_nonce_def create_session_def
  revoke_active_sessions_for_client_def refresh_session_def revoke_session_def publish_artifact_def

section \<open>The constraints of the schema\<close>

definition entitlement_id :: "entitlement_row \<Rightarrow> string \<times> string" where
  "entitlement_id r = (en_account_id r, en_capability r)"

definition store_wf :: "auth_store \<Rightarrow> bool" where
  "store_wf st \<longleftrightarrow>
     distinct (map cl_client_id (clients st)) \<and> distinct (map cl_device_id (clients st))
   \<and> distinct (map ch_client_id (challenges st))
   \<and> distinct (map fst (used_nonces st))
   \<and> distinct (map se_session_id (sessions st)) \<and> distinct (map se_jti (sessions st))
   \<and> distinct (map entitlement_id (entitlements st))
   \<and> distinct (map ar_artifact_id (artifacts st))
   \<and> ch_client_id ` set (challenges st) \<subseteq> cl_client_id ` set (clients st)
   \<and> se_client_id ` set (sessions st) \<subseteq> cl_client_id ` set (clients st)"

lemma store_wf_in_memory: "store_wf in_memory"
  by (simp add: store_wf_def in_memory_def)

lemma store_wf_consume: "store_wf st \<Longrightarrow> store_wf (snd (consume_nonce n t st))"
  by (auto simp: store_wf_def consume_nonce_def Let_def distinct_map_filter)

lemma store_wf_create_session: "store_wf st \<Longrightarrow> store_wf (snd (create_session sid c caps jti e t st))"
  by (auto simp: store_wf_def create_session_def) (metis imageI)

lemma store_wf_refresh: "store_wf st \<Longrightarrow> store_wf (snd (refresh_session sid caps jti e st))"
  by (auto simp: store_wf_def refresh_session_def Let_def update_where_key image_update_where
     intro!: distinct_update_one [where j = se_session_id and x = sid and v = jti])

lemma store_wf_exec:
  assumes "store_wf st"
  shows "store_wf (exec_op op st)"
  using assms store_wf_consume store_wf_create_session store_wf_refresh
  by (cases op)
    (auto simp: store_wf_def op_defs Let_def update_where_key image_update_where
      distinct_map_filter entitlement_id_def entitlement_key_def)

interpretation wf: stable_fact exec_op store_wf
  by unfold_locales (rule store_wf_exec)

section \<open>Revocation is permanent\<close>

definition client_revoked :: "string \<Rightarrow> auth_store \<Rightarrow> bool" where
  "client_revoked c st \<longleftrightarrow> (\<exists>r \<in> set (clients st). cl_client_id r = c \<and> cl_revoked r)"

definition session_revoked :: "string \<Rightarrow> auth_store \<Rightarrow> bool" where
  "session_revoked sid st \<longleftrightarrow> (\<exists>r \<in> set (sessions st). se_session_id r = sid \<and> se_revoked r)"

lemma client_revoked_exec: "client_revoked c st \<Longrightarrow> client_revoked c (exec_op op st)"
  by (cases op) (auto simp: client_revoked_def op_defs Let_def intro!: bex_update_where)

lemma session_revoked_exec: "session_revoked sid st \<Longrightarrow> session_revoked sid (exec_op op st)"
  by (cases op) (auto simp: session_revoked_def op_defs Let_def intro!: bex_update_where)

interpretation cl_rev: stable_fact exec_op "client_revoked c" for c
  by unfold_locales (rule client_revoked_exec)

interpretation se_rev: stable_fact exec_op "session_revoked sid" for sid
  by unfold_locales (rule session_revoked_exec)

section \<open>The nonce ledger\<close>

fun op_time :: "store_op \<Rightarrow> i64 option" where
  "op_time (OpConsumeNonce n now) = Some now"
| "op_time _ = None"

lemma used_nonces_kept:
  assumes "(k, t0) \<in> set (used_nonces st)"
    and "\<And>t. op_time op = Some t \<Longrightarrow> saturating_sub_i64 t NONCE_RETENTION_SECS \<le> t0"
  shows "(k, t0) \<in> set (used_nonces (exec_op op st))"
  using assms by (cases op) (auto simp: op_defs Let_def)

interpretation nonces: replay_ledger exec_op consume_nonce "\<lambda>st. set (used_nonces st)" op_time
    NONCE_RETENTION_SECS
proof unfold_locales
  show "(k, t) \<in> set (used_nonces s')" if "consume_nonce k t s = (True, s')" for k t s s'
    using that by (auto simp: consume_nonce_def Let_def split: if_splits)
  show "\<not> fst (consume_nonce k t s)"
    if "(k, t0) \<in> set (used_nonces s)" "saturating_sub_i64 t NONCE_RETENTION_SECS \<le> t0" for k t0 s t
    using that by (auto simp: consume_nonce_def Let_def)
  show "(k, t0) \<in> set (used_nonces (exec_op op s))"
    if "(k, t0) \<in> set (used_nonces s)"
      "\<And>t. op_time op = Some t \<Longrightarrow> saturating_sub_i64 t NONCE_RETENTION_SECS \<le> t0" for k t0 s op
    using that by (rule used_nonces_kept)
qed

text \<open>Spent and accepted are the two outcomes, told apart by what the ledger remembers.\<close>

lemma consume_nonce_iff:
  "fst (consume_nonce n now st) \<longleftrightarrow>
    (\<forall>t. (n, t) \<in> set (used_nonces st) \<longrightarrow> t < saturating_sub_i64 now NONCE_RETENTION_SECS)"
  by (auto simp: consume_nonce_def Let_def)

lemma consume_nonce_tables [store_simps]:
  "clients (snd (consume_nonce n now st)) = clients st"
  "sessions (snd (consume_nonce n now st)) = sessions st"
  "challenges (snd (consume_nonce n now st)) = challenges st"
  "entitlements (snd (consume_nonce n now st)) = entitlements st"
  "artifacts (snd (consume_nonce n now st)) = artifacts st"
  by (simp_all add: consume_nonce_def Let_def)

end
