(* ===== verification/Auth_Artifact.thy ===== *)
theory Auth_Artifact imports Auth_Crypto begin

text \<open>
  The artifact part of \<^verbatim>\<open>authorization-service/src/crypto.rs\<close>: hashing a published file, the
  key agreement and key derivation of a transfer, and the nonce, the associated data and the
  encryption of one chunk. The file system is a parameter: what \<^verbatim>\<open>canonicalize\<close> and reading a
  path yield. A canonical path is the list of its components.
\<close>

section \<open>The file system\<close>

type_synonym path = "string list"

record file_system =
  fs_canonicalize :: "string \<Rightarrow> path option"
  fs_contents :: "path \<Rightarrow> string + bytes"

section \<open>Hashing a file\<close>

definition checked_add_u64 :: "u64 \<Rightarrow> u64 \<Rightarrow> u64 option" where
  "checked_add_u64 a b = (if unat a + unat b < 18446744073709551616 then Some (a + b) else None)"

text \<open>
  The read loop: \<open>rest\<close> is what the file still yields, \<open>hashed\<close> what the hasher has been
  fed; every round takes one buffer of 64 KiB.
\<close>

function sha256_loop :: "crates \<Rightarrow> bytes \<Rightarrow> u64 \<Rightarrow> bytes \<Rightarrow> crypto_error + (u64 \<times> string)" where
  "sha256_loop cr rest sz hashed =
    (let buf = take 65536 rest in
     if buf = [] then Inr (sz, hex_string (sha256_digest cr hashed))
     else case checked_add_u64 sz (word_of_nat (length buf)) of
       None \<Rightarrow> Inl (CryptoIo ''artifact size overflow'')
     | Some sz' \<Rightarrow> sha256_loop cr (drop 65536 rest) sz' (hashed @ buf))"
  by pat_completeness auto
termination
  by (relation "measure (\<lambda>(cr, rest, sz, hashed). length rest)") auto

declare sha256_loop.simps [simp del]

definition sha256_file :: "crates \<Rightarrow> file_system \<Rightarrow> path \<Rightarrow> crypto_error + (u64 \<times> string)" where
  "sha256_file cr fs p =
    (case fs_contents fs p of
       Inl e \<Rightarrow> Inl (CryptoIo e)
     | Inr content \<Rightarrow> sha256_loop cr content 0 [])"

lemma sha256_loop_Nil [simp]:
  "sha256_loop cr [] sz hashed = Inr (sz, hex_string (sha256_digest cr hashed))"
  by (simp add: sha256_loop.simps)

lemma sha256_loop_step:
  assumes "rest \<noteq> []" and "checked_add_u64 sz (word_of_nat (length (take 65536 rest))) = Some sz'"
  shows "sha256_loop cr rest sz hashed =
    sha256_loop cr (drop 65536 rest) sz' (hashed @ take 65536 rest)"
proof -
  have "take 65536 rest \<noteq> []" using assms(1) by simp
  then show ?thesis
    using assms(2) by (subst sha256_loop.simps) (simp only: Let_def if_False option.case)
qed

lemma checked_add_length:
  assumes "unat sz + length xs < 18446744073709551616"
  shows "checked_add_u64 sz (word_of_nat (length xs)) = Some (sz + word_of_nat (length xs))"
    and "unat (sz + word_of_nat (length xs)) = unat sz + length xs"
proof -
  have n: "unat (word_of_nat (length xs) :: u64) = length xs"
    using assms by (simp add: unat_of_nat)
  show "checked_add_u64 sz (word_of_nat (length xs)) = Some (sz + word_of_nat (length xs))"
    by (simp only: checked_add_u64_def n assms if_True)
  show "unat (sz + word_of_nat (length xs)) = unat sz + length xs"
    using assms n by (simp add: unat_word_ariths)
qed

lemma sha256_loop_eq:
  assumes "unat sz + length rest < 18446744073709551616"
  shows "sha256_loop cr rest sz hashed =
    Inr (sz + word_of_nat (length rest), hex_string (sha256_digest cr (hashed @ rest)))"
  using assms
proof (induction "length rest" arbitrary: rest sz hashed rule: less_induct)
  case less
  show ?case
  proof (cases "rest = []")
    case False
    define buf tail where "buf = take 65536 rest" and "tail = drop 65536 rest"
    have rest: "rest = buf @ tail" by (simp add: buf_def tail_def)
    have len: "length rest = length buf + length tail" by (simp add: rest)
    have lt: "unat sz + length buf < 18446744073709551616" using less.prems len by linarith
    note add = checked_add_length [OF lt]
    have "sha256_loop cr rest sz hashed = sha256_loop cr tail (sz + word_of_nat (length buf)) (hashed @ buf)"
      using sha256_loop_step [OF False add(1) [unfolded buf_def]] by (simp only: buf_def tail_def)
    also have "\<dots> = Inr (sz + word_of_nat (length buf) + word_of_nat (length tail),
        hex_string (sha256_digest cr ((hashed @ buf) @ tail)))"
    proof (rule less.hyps)
      show "length tail < length rest" using False by (simp add: tail_def)
      show "unat (sz + word_of_nat (length buf)) + length tail < 18446744073709551616"
        using less.prems add(2) len by linarith
    qed
    also have "\<dots> = Inr (sz + word_of_nat (length rest), hex_string (sha256_digest cr (hashed @ rest)))"
      by (simp add: rest add.assoc)
    finally show ?thesis .
  qed simp
qed

lemma sha256_file_eq:
  assumes "fs_contents fs p = Inr content" and "length content < 18446744073709551616"
  shows "sha256_file cr fs p =
    Inr (word_of_nat (length content), hex_string (sha256_digest cr content))"
proof -
  have "unat (0 :: u64) + length content < 18446744073709551616" using assms(2) by simp
  from sha256_loop_eq [OF this, of cr "[]"] show ?thesis
    by (simp only: sha256_file_def assms(1) sum.case append_Nil add_0)
qed

section \<open>Key agreement and key derivation\<close>

text \<open>
  \<^verbatim>\<open>random_x25519_keypair\<close>: the secret that the operating system's generator returns is an
  argument.
\<close>

definition random_x25519_keypair :: "crates \<Rightarrow> bytes \<Rightarrow> bytes \<times> string" where
  "random_x25519_keypair cr secret = (secret, b64_encode cr (x25519_public cr secret))"

definition derive_x25519_shared_secret :: "crates \<Rightarrow> bytes \<Rightarrow> string \<Rightarrow> crypto_error + bytes" where
  "derive_x25519_shared_secret cr secret peer_public =
    (case b64_decode cr peer_public of
       Inl e \<Rightarrow> Inl (Malformed e)
     | Inr peer \<Rightarrow>
         if length peer \<noteq> 32 then Inl (Malformed ''ephemeral public key must be 32 bytes'')
         else Inr (x25519_dh cr secret peer))"

definition artifact_key_context :: "artifact_manifest \<Rightarrow> bytes" where
  "artifact_key_context m =
    as_bytes ''rdc-artifact-key-v1'' @ [0] @
    concat (map (\<lambda>v. as_bytes v @ [0])
      [am_transfer_id m, am_artifact_id m, am_version m, am_session_id m, am_device_id m, am_sha256 m])"

definition derive_artifact_key :: "crates \<Rightarrow> bytes \<Rightarrow> artifact_manifest \<Rightarrow> crypto_error + bytes" where
  "derive_artifact_key cr shared_secret m =
    (case hkdf_expand cr (as_bytes ''rdc-artifact-v1'') shared_secret (artifact_key_context m) 32 of
       None \<Rightarrow> Inl (Malformed ''artifact key derivation failed'')
     | Some key \<Rightarrow> Inr key)"

section \<open>Chunks\<close>

definition artifact_nonce :: "crates \<Rightarrow> artifact_manifest \<Rightarrow> u32 \<Rightarrow> crypto_error + bytes" where
  "artifact_nonce cr m index =
    (case b64_decode cr (am_nonce_prefix m) of
       Inl e \<Rightarrow> Inl (Malformed e)
     | Inr prefix \<Rightarrow>
         if length prefix \<noteq> 8 then Inl (Malformed ''artifact nonce prefix must be 8 bytes'')
         else Inr (prefix @ u32_to_be index))"

definition artifact_aad :: "artifact_manifest \<Rightarrow> u32 \<Rightarrow> bytes" where
  "artifact_aad m index = as_bytes
    (''rdc-artifact-chunk-v1'' @ [CHR 0x0A] @ am_transfer_id m @ [CHR 0x0A] @ am_artifact_id m @
     [CHR 0x0A] @ am_version m @ [CHR 0x0A] @ am_session_id m @ [CHR 0x0A] @ am_device_id m @
     [CHR 0x0A] @ dec_string (unat index))"

definition encrypt_artifact_chunk ::
    "crates \<Rightarrow> bytes \<Rightarrow> artifact_manifest \<Rightarrow> u32 \<Rightarrow> bytes \<Rightarrow> crypto_error + bytes" where
  "encrypt_artifact_chunk cr key m index plaintext =
    (case artifact_nonce cr m index of
       Inl e \<Rightarrow> Inl e
     | Inr nonce \<Rightarrow> (case chacha_encrypt cr key nonce (artifact_aad m index) plaintext of
         None \<Rightarrow> Inl (Malformed ''artifact encryption failed'')
       | Some ciphertext \<Rightarrow> Inr ciphertext))"

definition decrypt_artifact_chunk ::
    "crates \<Rightarrow> bytes \<Rightarrow> artifact_manifest \<Rightarrow> u32 \<Rightarrow> bytes \<Rightarrow> crypto_error + bytes" where
  "decrypt_artifact_chunk cr key m index ciphertext =
    (case artifact_nonce cr m index of
       Inl e \<Rightarrow> Inl e
     | Inr nonce \<Rightarrow> (case chacha_decrypt cr key nonce (artifact_aad m index) ciphertext of
         None \<Rightarrow> Inl InvalidSignature
       | Some plaintext \<Rightarrow> Inr plaintext))"

lemma artifact_nonce_length: "artifact_nonce cr m i = Inr n \<Longrightarrow> length n = 12"
  by (auto simp: artifact_nonce_def split: sum.splits if_splits)

lemma artifact_nonce_inject:
  "artifact_nonce cr m i = Inr n \<Longrightarrow> artifact_nonce cr m j = Inr n \<Longrightarrow> i = j"
  by (auto simp: artifact_nonce_def split: sum.splits if_splits)

end
