(* ===== verification/Auth_Routes.thy ===== *)
theory Auth_Routes imports Auth_Store Auth_Artifact begin

text \<open>
  \<^verbatim>\<open>authorization-service/src/routes.rs\<close>: the handlers of the authorization service. A handler is
  a function of the state, the request and what it reads of its environment: the clock (what
  \<^verbatim>\<open>SystemTime::now()\<close> gives since the epoch, \<open>None\<close> before it), the fresh random values
  (UUIDs, nonces, key pairs) and the file system. It returns the response or an \<open>api_error\<close>,
  and the new state; every early return of the code is a branch.

  Routing, the size limit of the request body and the response headers are axum's and not
  modelled. The authorization header is what \<^verbatim>\<open>headers.get(AUTHORIZATION)\<close> and \<^verbatim>\<open>to_str\<close> yield.
\<close>

section \<open>State and errors\<close>

definition CHALLENGE_TTL_SECS :: i64 where "CHALLENGE_TTL_SECS = 5 * 60"
definition ARTIFACT_TTL_SECS :: i64 where "ARTIFACT_TTL_SECS = 5 * 60"
definition EXECUTION_GRANT_TTL_SECS :: i64 where "EXECUTION_GRANT_TTL_SECS = 2 * 60"
definition DEFAULT_MAX_ACTIVE_TRANSFERS :: nat where "DEFAULT_MAX_ACTIVE_TRANSFERS = 128"
definition MAX_EXECUTION_RELEASE_BYTES :: nat where "MAX_EXECUTION_RELEASE_BYTES = 512 * 1024"

record artifact_transfer =
  at_artifact_id :: string
  at_session_id :: string
  at_device_id :: string
  at_path :: path
  at_manifest :: artifact_manifest
  at_shared_secret :: bytes

record app_state =
  ap_store :: auth_store
  ap_authority :: signing_authority
  ap_artifact_root :: string
  ap_transfers :: "(string \<times> artifact_transfer) list"
  ap_max_active_transfers :: nat

definition with_transfer_limit :: "auth_store \<Rightarrow> signing_authority \<Rightarrow> string \<Rightarrow> nat \<Rightarrow> app_state" where
  "with_transfer_limit st authority artifact_root max_active_transfers =
    \<lparr>ap_store = st, ap_authority = authority, ap_artifact_root = artifact_root,
     ap_transfers = [], ap_max_active_transfers = max max_active_transfers 1\<rparr>"

definition app_state_new :: "auth_store \<Rightarrow> signing_authority \<Rightarrow> string \<Rightarrow> app_state" where
  "app_state_new st authority artifact_root =
    with_transfer_limit st authority artifact_root DEFAULT_MAX_ACTIVE_TRANSFERS"

datatype status_code = BAD_REQUEST | UNAUTHORIZED | FORBIDDEN | CONFLICT | SERVICE_UNAVAILABLE
  | INTERNAL_SERVER_ERROR | NOT_FOUND | PAYLOAD_TOO_LARGE

record api_error =
  ae_status :: status_code
  ae_code :: string
  ae_message :: string

definition api_error_new :: "status_code \<Rightarrow> string \<Rightarrow> string \<Rightarrow> api_error" where
  "api_error_new status code message = \<lparr>ae_status = status, ae_code = code, ae_message = message\<rparr>"

definition bad_request :: "string \<Rightarrow> api_error" where
  "bad_request message = api_error_new BAD_REQUEST ''bad_request'' message"
definition unauthorized :: "string \<Rightarrow> api_error" where
  "unauthorized message = api_error_new UNAUTHORIZED ''unauthorized'' message"
definition forbidden :: "string \<Rightarrow> string \<Rightarrow> api_error" where
  "forbidden code message = api_error_new FORBIDDEN code message"
definition conflict :: "string \<Rightarrow> api_error" where
  "conflict message = api_error_new CONFLICT ''replay'' message"
definition service_unavailable :: "string \<Rightarrow> string \<Rightarrow> api_error" where
  "service_unavailable code message = api_error_new SERVICE_UNAVAILABLE code message"
definition internal_error :: api_error where
  "internal_error = api_error_new INTERNAL_SERVER_ERROR ''internal_error'' ''authorization service failed''"

text \<open>\<^verbatim>\<open>From<StoreError> for ApiError\<close>.\<close>

definition api_error_of_store :: "store_error \<Rightarrow> api_error" where
  "api_error_of_store e = internal_error"

definition now_secs :: "u64 option \<Rightarrow> api_error + i64" where
  "now_secs clock = (case clock of None \<Rightarrow> Inl internal_error | Some secs \<Rightarrow> Inr (sint secs))"

section \<open>Registration\<close>

record register_request =
  rr_install_id :: string
  rr_device_id :: string
  rr_client_version :: string
  rr_platform :: string
  rr_device_public_key :: string
  rr_client_key_algorithm :: client_key_algorithm
  rr_requested_product :: string

record register_response =
  rs_client_id :: string
  rs_device_id :: string
  rs_challenge :: string
  rs_key_id :: string
  rs_status :: string

text \<open>The part between the clock and the response: find the client of the device or create one.\<close>

definition register_lookup ::
    "register_request \<Rightarrow> string \<Rightarrow> i64 \<Rightarrow> auth_store \<Rightarrow> (api_error + string) \<times> auth_store" where
  "register_lookup request uuid now st =
    (case client_by_device (rr_device_id request) st of
       Some c \<Rightarrow>
         if cl_revoked c then (Inl (forbidden ''revoked'' ''client has been revoked''), st)
         else if cl_device_public_key c \<noteq> rr_device_public_key request
         then (Inl (forbidden ''binding_mismatch'' ''device key is already registered to another identity''), st)
         else if cl_key_algorithm c \<noteq> rr_client_key_algorithm request
         then (Inl (forbidden ''binding_mismatch''
                ''device key algorithm is already registered to another identity''), st)
         else (Inr (cl_client_id c), st)
     | None \<Rightarrow>
         (case create_pending_client uuid (''pending:'' @ uuid) (rr_device_id request)
                 (rr_device_public_key request) (rr_client_key_algorithm request)
                 (rr_client_version request) now st of
            (Inl e, st') \<Rightarrow> (Inl (api_error_of_store e), st')
          | (Inr _, st') \<Rightarrow> (Inr uuid, st')))"

definition register_client ::
    "crates \<Rightarrow> u64 option \<Rightarrow> string \<Rightarrow> string \<Rightarrow> register_request \<Rightarrow> app_state
      \<Rightarrow> (api_error + register_response) \<times> app_state" where
  "register_client cr clock uuid challenge request s =
    (if blank (rr_install_id request) \<or> blank (rr_device_id request) \<or> blank (rr_client_version request)
        \<or> blank (rr_platform request) \<or> blank (rr_requested_product request)
     then (Inl (bad_request ''registration fields are required''), s)
     else if is_err (validate_public_key_base64url cr (rr_client_key_algorithm request)
                       (rr_device_public_key request))
     then (Inl (bad_request ''device public key is invalid''), s)
     else case now_secs clock of
       Inl e \<Rightarrow> (Inl e, s)
     | Inr now \<Rightarrow> (case register_lookup request uuid now (ap_store s) of
       (Inl e, st) \<Rightarrow> (Inl e, s\<lparr>ap_store := st\<rparr>)
     | (Inr client_id, st) \<Rightarrow>
         (case set_registration_challenge client_id challenge (rr_client_version request)
                 (saturating_add_i64 now CHALLENGE_TTL_SECS) st of
            (Inl e, st') \<Rightarrow> (Inl (api_error_of_store e), s\<lparr>ap_store := st'\<rparr>)
          | (Inr _, st') \<Rightarrow>
              (Inr \<lparr>rs_client_id = client_id, rs_device_id = rr_device_id request,
                    rs_challenge = challenge, rs_key_id = sa_key_id (ap_authority s),
                    rs_status = ''pending''\<rparr>,
               s\<lparr>ap_store := st'\<rparr>))))"

record complete_registration_request =
  cq_client_id :: string
  cq_challenge :: string
  cq_signature :: string

record complete_registration_response =
  cs_client_id :: string
  cs_device_id :: string
  cs_status :: string

definition complete_registration ::
    "crates \<Rightarrow> u64 option \<Rightarrow> complete_registration_request \<Rightarrow> app_state
      \<Rightarrow> (api_error + complete_registration_response) \<times> app_state" where
  "complete_registration cr clock request s =
    (case client (cq_client_id request) (ap_store s) of
       None \<Rightarrow> (Inl (unauthorized ''registration client is unknown''), s)
     | Some c \<Rightarrow> (case now_secs clock of
       Inl e \<Rightarrow> (Inl e, s)
     | Inr now \<Rightarrow> (case registration_challenge (cq_client_id request) (cq_challenge request) now (ap_store s) of
       None \<Rightarrow> (Inl (unauthorized ''registration challenge is invalid''), s)
     | Some _ \<Rightarrow> (case canonical_json cr (registration_proof_json
           \<lparr>rp_client_id = cq_client_id request, rp_challenge = cq_challenge request\<rparr>) of
       Inl _ \<Rightarrow> (Inl internal_error, s)
     | Inr payload \<Rightarrow>
         if is_err (verify_client_signature cr (cl_key_algorithm c) (cl_device_public_key c) payload
                      (cq_signature request))
         then (Inl (unauthorized ''registration signature is invalid''), s)
         else (case take_registration_challenge (cq_client_id request) (cq_challenge request) now (ap_store s) of
           (None, st) \<Rightarrow> (Inl (unauthorized ''registration challenge is invalid''), s\<lparr>ap_store := st\<rparr>)
         | (Some requested, st) \<Rightarrow>
             (let version = (if blank requested then cl_client_version c else requested);
                  st' = snd (update_client_registration (cl_client_id c) (cl_device_public_key c)
                               (cl_key_algorithm c) version st)
              in (Inr \<lparr>cs_client_id = cl_client_id c, cs_device_id = cl_device_id c,
                       cs_status = (if cl_approved c then ''approved'' else ''pending'')\<rparr>,
                  s\<lparr>ap_store := st'\<rparr>)))))))"

section \<open>Sessions\<close>

definition ensure_client_usable :: "client_record \<Rightarrow> string \<Rightarrow> api_error + unit" where
  "ensure_client_usable c device_id =
    (if cl_revoked c then Inl (forbidden ''revoked'' ''client has been revoked'')
     else if \<not> cl_approved c
     then Inl (forbidden ''authentication_required'' ''client registration is pending approval'')
     else if cl_device_id c \<noteq> device_id
     then Inl (forbidden ''binding_mismatch'' ''device binding does not match'')
     else Inr ())"

definition make_lease ::
    "crates \<Rightarrow> app_state \<Rightarrow> client_record \<Rightarrow> string \<Rightarrow> protected_capability list \<Rightarrow> string \<Rightarrow> string
      \<Rightarrow> i64 \<Rightarrow> i64 \<Rightarrow> signed_lease" where
  "make_lease cr s c session_id capabilities nonce jti iat exp =
    sign_claims cr (ap_authority s)
      \<lparr>lc_iss = ''rdc-auth'', lc_aud = ''rdc-client'', lc_sub = cl_account_id c,
       lc_client_id = cl_client_id c, lc_device_id = cl_device_id c, lc_session_id = session_id,
       lc_capabilities = capabilities, lc_client_version = cl_client_version c,
       lc_iat = iat, lc_exp = exp, lc_jti = jti, lc_nonce = nonce\<rparr>"

record session_request =
  sq_client_id :: string
  sq_device_id :: string
  sq_client_version :: string
  sq_nonce :: string
  sq_iat :: i64
  sq_capabilities :: "protected_capability list"
  sq_signature :: string

record session_response =
  ss_lease :: signed_lease
  ss_server_time :: i64

definition session_request_proof :: "session_request \<Rightarrow> session_proof" where
  "session_request_proof request =
    \<lparr>sp_client_id = sq_client_id request, sp_device_id = sq_device_id request,
     sp_client_version = sq_client_version request, sp_nonce = sq_nonce request,
     sp_iat = sq_iat request, sp_capabilities = sq_capabilities request\<rparr>"

definition create_session_route ::
    "crates \<Rightarrow> u64 option \<Rightarrow> string \<Rightarrow> string \<Rightarrow> session_request \<Rightarrow> app_state
      \<Rightarrow> (api_error + session_response) \<times> app_state" where
  "create_session_route cr clock session_id jti request s =
    (case now_secs clock of
       Inl e \<Rightarrow> (Inl e, s)
     | Inr now \<Rightarrow>
       if blank (sq_client_id request) \<or> blank (sq_device_id request) \<or> blank (sq_client_version request)
          \<or> is_err (validate_nonce (sq_nonce request))
          \<or> is_err (validate_request_time (sq_iat request) now)
          \<or> sq_capabilities request = []
       then (Inl (bad_request ''session fields are required''), s)
       else case client (sq_client_id request) (ap_store s) of
         None \<Rightarrow> (Inl (unauthorized ''client is unknown''), s)
       | Some c \<Rightarrow> (case ensure_client_usable c (sq_device_id request) of
         Inl e \<Rightarrow> (Inl e, s)
       | Inr _ \<Rightarrow>
         if cl_client_version c \<noteq> sq_client_version request
         then (Inl (forbidden ''client_outdated'' ''client version does not match the registered version''), s)
         else case canonical_json cr (session_proof_json (session_request_proof request)) of
           Inl _ \<Rightarrow> (Inl internal_error, s)
         | Inr payload \<Rightarrow>
           if is_err (verify_client_signature cr (cl_key_algorithm c) (cl_device_public_key c) payload
                        (sq_signature request))
           then (Inl (unauthorized ''session signature is invalid''), s)
           else case consume_nonce (sq_nonce request) now (ap_store s) of
             (False, st) \<Rightarrow> (Inl (conflict ''session nonce has already been used''), s\<lparr>ap_store := st\<rparr>)
           | (True, st) \<Rightarrow>
             if list_ex (\<lambda>cap. \<not> has_entitlement (cl_account_id c) cap st) (sq_capabilities request)
             then (Inl (forbidden ''capability_not_entitled'' ''requested capability is not entitled''),
                   s\<lparr>ap_store := st\<rparr>)
             else
               (let st1 = revoke_active_sessions_for_client (cl_client_id c) now st;
                    exp = saturating_add_i64 now LEASE_MAX_SECS;
                    lease = make_lease cr s c session_id (sq_capabilities request) (sq_nonce request) jti now exp
                in case create_session session_id c (sq_capabilities request) jti exp now st1 of
                     (Inl e, st2) \<Rightarrow> (Inl (api_error_of_store e), s\<lparr>ap_store := st2\<rparr>)
                   | (Inr _, st2) \<Rightarrow> (Inr \<lparr>ss_lease = lease, ss_server_time = now\<rparr>, s\<lparr>ap_store := st2\<rparr>))))"

definition session_from_headers ::
    "string option \<Rightarrow> i64 \<Rightarrow> auth_store \<Rightarrow> (api_error + session_record) \<times> auth_store" where
  "session_from_headers authorization now st =
    (case authorization of
       None \<Rightarrow> (Inl (unauthorized ''session authorization is required''), st)
     | Some v \<Rightarrow> (case strip_prefix ''Bearer '' v of
       None \<Rightarrow> (Inl (unauthorized ''session authorization is invalid''), st)
     | Some session_id \<Rightarrow>
       if blank session_id then (Inl (unauthorized ''session authorization is invalid''), st)
       else case session session_id st of
         None \<Rightarrow> (Inl (unauthorized ''session is unknown''), st)
       | Some se \<Rightarrow>
         if se_revoked se then (Inl (forbidden ''revoked'' ''session has been revoked''), st)
         else if se_exp se \<le> now then (Inl (unauthorized ''session lease has expired''), st)
         else case client (se_client_id se) st of
           None \<Rightarrow> (Inl (unauthorized ''client is unknown''), st)
         | Some c \<Rightarrow> (case ensure_client_usable c (se_device_id se) of
           Inl e \<Rightarrow> (Inl e, st)
         | Inr _ \<Rightarrow>
           if list_ex (\<lambda>cap. \<not> has_entitlement (cl_account_id c) cap st) (se_capabilities se)
           then (Inl (forbidden ''revoked'' ''a session capability has been revoked''),
                 snd (revoke_session (se_session_id se) st))
           else (Inr se, st))))"

record capabilities_response =
  cp_session_id :: string
  cp_capabilities :: "protected_capability list"
  cp_expires_at :: i64

definition capabilities_route ::
    "u64 option \<Rightarrow> string option \<Rightarrow> app_state \<Rightarrow> (api_error + capabilities_response) \<times> app_state" where
  "capabilities_route clock authorization s =
    (case now_secs clock of
       Inl e \<Rightarrow> (Inl e, s)
     | Inr now \<Rightarrow> (case session_from_headers authorization now (ap_store s) of
       (Inl e, st) \<Rightarrow> (Inl e, s\<lparr>ap_store := st\<rparr>)
     | (Inr se, st) \<Rightarrow>
         (Inr \<lparr>cp_session_id = se_session_id se, cp_capabilities = se_capabilities se,
               cp_expires_at = se_exp se\<rparr>, s\<lparr>ap_store := st\<rparr>)))"

record heartbeat_request =
  hq_client_id :: string
  hq_device_id :: string
  hq_nonce :: string
  hq_iat :: i64
  hq_signature :: string

definition heartbeat_request_proof :: "string \<Rightarrow> heartbeat_request \<Rightarrow> heartbeat_proof" where
  "heartbeat_request_proof session_id request =
    \<lparr>hp_session_id = session_id, hp_client_id = hq_client_id request,
     hp_device_id = hq_device_id request, hp_nonce = hq_nonce request, hp_iat = hq_iat request\<rparr>"

definition heartbeat ::
    "crates \<Rightarrow> u64 option \<Rightarrow> string \<Rightarrow> string \<Rightarrow> heartbeat_request \<Rightarrow> app_state
      \<Rightarrow> (api_error + session_response) \<times> app_state" where
  "heartbeat cr clock jti session_id request s =
    (case now_secs clock of
       Inl e \<Rightarrow> (Inl e, s)
     | Inr now \<Rightarrow> (case session session_id (ap_store s) of
       None \<Rightarrow> (Inl (unauthorized ''session is unknown''), s)
     | Some se \<Rightarrow>
       if se_revoked se \<or> se_exp se \<le> now
       then (Inl (forbidden (if se_revoked se then ''revoked'' else ''lease_expired'')
                   ''session cannot be renewed''), s)
       else if se_client_id se \<noteq> hq_client_id request \<or> se_device_id se \<noteq> hq_device_id request
       then (Inl (forbidden ''binding_mismatch'' ''heartbeat binding does not match''), s)
       else if is_err (validate_nonce (hq_nonce request)) \<or> is_err (validate_request_time (hq_iat request) now)
       then (Inl (bad_request ''heartbeat nonce or timestamp is invalid''), s)
       else case client (se_client_id se) (ap_store s) of
         None \<Rightarrow> (Inl (unauthorized ''client is unknown''), s)
       | Some c \<Rightarrow> (case ensure_client_usable c (hq_device_id request) of
         Inl e \<Rightarrow> (Inl e, s)
       | Inr _ \<Rightarrow> (case canonical_json cr (heartbeat_proof_json (heartbeat_request_proof session_id request)) of
         Inl _ \<Rightarrow> (Inl internal_error, s)
       | Inr payload \<Rightarrow>
         if is_err (verify_client_signature cr (cl_key_algorithm c) (cl_device_public_key c) payload
                      (hq_signature request))
         then (Inl (unauthorized ''heartbeat signature is invalid''), s)
         else case consume_nonce (hq_nonce request) now (ap_store s) of
           (False, st) \<Rightarrow> (Inl (conflict ''heartbeat nonce has already been used''), s\<lparr>ap_store := st\<rparr>)
         | (True, st) \<Rightarrow>
           if list_ex (\<lambda>cap. \<not> has_entitlement (cl_account_id c) cap st) (se_capabilities se)
           then (Inl (forbidden ''revoked'' ''a session capability has been revoked''),
                 s\<lparr>ap_store := snd (revoke_session session_id st)\<rparr>)
           else
             (let exp = saturating_add_i64 now LEASE_MAX_SECS;
                  lease = make_lease cr s c session_id (se_capabilities se) (hq_nonce request) jti now exp
              in case refresh_session session_id (se_capabilities se) jti exp st of
                   (Inl e, st') \<Rightarrow> (Inl (api_error_of_store e), s\<lparr>ap_store := st'\<rparr>)
                 | (Inr False, st') \<Rightarrow>
                     (Inl (forbidden ''revoked'' ''session has been revoked''), s\<lparr>ap_store := st'\<rparr>)
                 | (Inr True, st') \<Rightarrow>
                     (Inr \<lparr>ss_lease = lease, ss_server_time = now\<rparr>, s\<lparr>ap_store := st'\<rparr>))))))"

definition close_session ::
    "u64 option \<Rightarrow> string \<Rightarrow> string option \<Rightarrow> app_state \<Rightarrow> (api_error + unit) \<times> app_state" where
  "close_session clock session_id authorization s =
    (case now_secs clock of
       Inl e \<Rightarrow> (Inl e, s)
     | Inr now \<Rightarrow> (case session_from_headers authorization now (ap_store s) of
       (Inl e, st) \<Rightarrow> (Inl e, s\<lparr>ap_store := st\<rparr>)
     | (Inr se, st) \<Rightarrow>
         if se_session_id se \<noteq> session_id
         then (Inl (forbidden ''binding_mismatch'' ''session binding does not match''), s\<lparr>ap_store := st\<rparr>)
         else (Inr (), s\<lparr>ap_store := snd (revoke_session session_id st)\<rparr>)))"

end
