(* ===== verification/Auth_Execution.thy ===== *)
theory Auth_Execution imports Auth_Routes begin

text \<open>
  The second half of \<^verbatim>\<open>authorization-service/src/routes.rs\<close>: issuing, releasing and consuming
  execution grants, and preparing and serving the encrypted chunks of an artifact. Where a handler
  reads the file system more than once, each read has a snapshot of its own (\<open>fs0\<close>, \<open>fs1\<close>,
  \<dots>), since the files may change in between.
\<close>

section \<open>Execution grants\<close>

definition valid_execution_action :: "string \<Rightarrow> bool" where
  "valid_execution_action action =
    (action \<in> set [''preset_apply'', ''preset_restore'', ''preset_details''])"

definition artifact_allows_execution_action :: "string \<Rightarrow> string \<Rightarrow> bool" where
  "artifact_allows_execution_action artifact_id action =
    ((artifact_id = ''qemu-guest-script'' \<and> action = ''preset_apply'')
     \<or> (artifact_id = ''qemu-guest-script-universal''
        \<and> (action = ''preset_restore'' \<or> action = ''preset_details'')))"

definition safe_artifact_path :: "file_system \<Rightarrow> string \<Rightarrow> artifact_record \<Rightarrow> api_error + path" where
  "safe_artifact_path fs root a =
    (case fs_canonicalize fs root of
       None \<Rightarrow> Inl internal_error
     | Some root_path \<Rightarrow> (case fs_canonicalize fs (ar_path a) of
       None \<Rightarrow> Inl internal_error
     | Some p \<Rightarrow>
         if take (length root_path) p \<noteq> root_path
         then Inl (forbidden ''artifact_path_invalid'' ''artifact is outside the configured artifact root'')
         else Inr p))"

definition grant_claims_invalid :: "execution_grant_claims \<Rightarrow> i64 \<Rightarrow> bool" where
  "grant_claims_invalid claims now =
    (eg_iss claims \<noteq> ''rdc-auth''
     \<or> eg_aud claims \<noteq> ''rdc-guest-runner''
     \<or> blank (eg_client_id claims)
     \<or> blank (eg_device_id claims)
     \<or> blank (eg_session_id claims)
     \<or> blank (eg_client_version claims)
     \<or> blank (eg_artifact_id claims)
     \<or> length (eg_artifact_sha256 claims) \<noteq> 64
     \<or> \<not> list_all is_ascii_hexdigit (eg_artifact_sha256 claims)
     \<or> \<not> valid_execution_action (eg_action claims)
     \<or> blank (eg_vm claims)
     \<or> blank (eg_instance claims)
     \<or> blank (eg_jti claims)
     \<or> length (eg_jti claims) > MAX_NONCE_BYTES
     \<or> is_err (validate_nonce (eg_nonce claims))
     \<or> eg_exp claims \<le> now
     \<or> eg_iat claims < saturating_sub_i64 now REQUEST_MAX_AGE_SECS
     \<or> eg_iat claims > saturating_add_i64 now 300
     \<or> eg_exp claims \<le> eg_iat claims)"

definition validate_execution_grant_for_artifact ::
    "crates \<Rightarrow> file_system \<Rightarrow> signed_execution_grant \<Rightarrow> i64 \<Rightarrow> app_state
      \<Rightarrow> (api_error + (execution_grant_claims \<times> artifact_record \<times> path)) \<times> auth_store" where
  "validate_execution_grant_for_artifact cr fs grant now s =
    (let st = ap_store s in
     case verify_execution_grant cr (ap_authority s) grant of
       Inl _ \<Rightarrow> (Inl (forbidden ''invalid_grant'' ''execution grant signature is invalid''), st)
     | Inr claims \<Rightarrow>
       if grant_claims_invalid claims now
       then (Inl (forbidden ''invalid_grant'' ''execution grant claims are invalid or expired''), st)
       else if \<not> artifact_allows_execution_action (eg_artifact_id claims) (eg_action claims)
       then (Inl (forbidden ''artifact_workflow_mismatch''
               ''execution artifact is not approved for this workflow''), st)
       else case session (eg_session_id claims) st of
         None \<Rightarrow> (Inl (forbidden ''revoked'' ''execution grant session is unknown''), st)
       | Some se \<Rightarrow>
         if se_revoked se \<or> se_exp se \<le> now
            \<or> se_client_id se \<noteq> eg_client_id claims \<or> se_device_id se \<noteq> eg_device_id claims
            \<or> ProtectedPreset \<notin> set (se_capabilities se) \<or> ProtectedArtifact \<notin> set (se_capabilities se)
         then (Inl (forbidden ''revoked'' ''execution grant session is no longer usable''), st)
         else case client (se_client_id se) st of
           None \<Rightarrow> (Inl (forbidden ''revoked'' ''execution grant client is unknown''), st)
         | Some c \<Rightarrow> (case ensure_client_usable c (se_device_id se) of
           Inl e \<Rightarrow> (Inl e, st)
         | Inr _ \<Rightarrow>
           (case (case sg_device_proof grant of None \<Rightarrow> None | Some p \<Rightarrow> if blank p then None else Some p) of
             None \<Rightarrow> (Inl (forbidden ''device_proof_required'' ''execution grant is missing device proof''), st)
           | Some device_proof \<Rightarrow>
             if is_err (verify_client_signature cr (cl_key_algorithm c) (cl_device_public_key c)
                          (as_bytes (sg_payload grant)) device_proof)
             then (Inl (forbidden ''device_proof_invalid'' ''execution grant device proof is invalid''), st)
             else if cl_client_version c \<noteq> eg_client_version claims
             then (Inl (forbidden ''client_outdated'' ''execution grant client version does not match''), st)
             else if list_ex (\<lambda>cap. \<not> has_entitlement (cl_account_id c) cap st) (se_capabilities se)
             then (Inl (forbidden ''revoked'' ''execution grant entitlement has been revoked''),
                   snd (revoke_session (se_session_id se) st))
             else case artifact (eg_artifact_id claims) st of
               None \<Rightarrow> (Inl (forbidden ''artifact_integrity'' ''execution artifact is unavailable''), st)
             | Some a \<Rightarrow> (case safe_artifact_path fs (ap_artifact_root s) a of
               Inl e \<Rightarrow> (Inl e, st)
             | Inr p \<Rightarrow> (case sha256_file cr fs p of
               Inl _ \<Rightarrow> (Inl internal_error, st)
             | Inr (_, actual_sha256) \<Rightarrow>
                 if actual_sha256 \<noteq> eg_artifact_sha256 claims
                 then (Inl (forbidden ''artifact_integrity'' ''execution artifact hash no longer matches''), st)
                 else (Inr (claims, a, p), st))))))"

record artifact_release_response =
  al_artifact_id :: string
  al_artifact_sha256 :: string
  al_artifact_size_bytes :: nat
  al_content_base64 :: string

definition release_execution_grant ::
    "crates \<Rightarrow> u64 option \<Rightarrow> file_system \<Rightarrow> file_system \<Rightarrow> file_system \<Rightarrow> signed_execution_grant \<Rightarrow> app_state
      \<Rightarrow> (api_error + artifact_release_response) \<times> app_state" where
  "release_execution_grant cr clock fs0 fs1 fs2 grant s =
    (case now_secs clock of
       Inl e \<Rightarrow> (Inl e, s)
     | Inr now \<Rightarrow> (case validate_execution_grant_for_artifact cr fs0 grant now s of
       (Inl e, st) \<Rightarrow> (Inl e, s\<lparr>ap_store := st\<rparr>)
     | (Inr (claims, a, p), st) \<Rightarrow>
       (case fs_contents fs1 p of
         Inl _ \<Rightarrow> (Inl internal_error, s\<lparr>ap_store := st\<rparr>)
       | Inr at_metadata \<Rightarrow>
         if length at_metadata > MAX_EXECUTION_RELEASE_BYTES
         then (Inl (api_error_new PAYLOAD_TOO_LARGE ''artifact_too_large''
                 ''execution artifact exceeds the guest release size limit''), s\<lparr>ap_store := st\<rparr>)
         else case fs_contents fs2 p of
           Inl _ \<Rightarrow> (Inl internal_error, s\<lparr>ap_store := st\<rparr>)
         | Inr content \<Rightarrow>
           if length content \<noteq> length at_metadata
              \<or> length content > MAX_EXECUTION_RELEASE_BYTES
              \<or> hex_string (sha256_digest cr content) \<noteq> eg_artifact_sha256 claims
           then (Inl (forbidden ''artifact_integrity'' ''execution artifact changed during release''),
                 s\<lparr>ap_store := st\<rparr>)
           else (Inr \<lparr>al_artifact_id = ar_artifact_id a, al_artifact_sha256 = eg_artifact_sha256 claims,
                       al_artifact_size_bytes = length content,
                       al_content_base64 = b64_encode cr content\<rparr>, s\<lparr>ap_store := st\<rparr>))))"

record execution_grant_request =
  gq_artifact_id :: string
  gq_artifact_sha256 :: string
  gq_action :: string
  gq_vm :: string
  gq_instance :: string
  gq_nonce :: string
  gq_iat :: i64
  gq_signature :: string

definition grant_request_proof :: "execution_grant_request \<Rightarrow> execution_grant_proof" where
  "grant_request_proof request =
    \<lparr>gp_artifact_id = gq_artifact_id request, gp_artifact_sha256 = gq_artifact_sha256 request,
     gp_action = gq_action request, gp_vm = gq_vm request, gp_instance = gq_instance request,
     gp_nonce = gq_nonce request, gp_iat = gq_iat request\<rparr>"

definition grant_request_invalid :: "execution_grant_request \<Rightarrow> i64 \<Rightarrow> bool" where
  "grant_request_invalid request now =
    (blank (gq_artifact_id request)
     \<or> (gq_artifact_sha256 request \<noteq> [] \<and> (length (gq_artifact_sha256 request) \<noteq> 64
          \<or> \<not> list_all is_ascii_hexdigit (gq_artifact_sha256 request)))
     \<or> blank (gq_action request)
     \<or> \<not> valid_execution_action (gq_action request)
     \<or> blank (gq_vm request)
     \<or> blank (gq_instance request)
     \<or> is_err (validate_nonce (gq_nonce request))
     \<or> is_err (validate_request_time (gq_iat request) now)
     \<or> blank (gq_signature request))"

definition issue_execution_grant ::
    "crates \<Rightarrow> u64 option \<Rightarrow> file_system \<Rightarrow> string \<Rightarrow> string option \<Rightarrow> execution_grant_request \<Rightarrow> app_state
      \<Rightarrow> (api_error + signed_execution_grant) \<times> app_state" where
  "issue_execution_grant cr clock fs jti authorization request s =
    (case now_secs clock of
       Inl e \<Rightarrow> (Inl e, s)
     | Inr now \<Rightarrow> (case session_from_headers authorization now (ap_store s) of
       (Inl e, st) \<Rightarrow> (Inl e, s\<lparr>ap_store := st\<rparr>)
     | (Inr se, st) \<Rightarrow>
       if ProtectedPreset \<notin> set (se_capabilities se) \<or> ProtectedArtifact \<notin> set (se_capabilities se)
       then (Inl (forbidden ''missing_capability'' ''preset capability is not present''), s\<lparr>ap_store := st\<rparr>)
       else case client (se_client_id se) st of
         None \<Rightarrow> (Inl (unauthorized ''client is unknown''), s\<lparr>ap_store := st\<rparr>)
       | Some c \<Rightarrow>
         if grant_request_invalid request now
         then (Inl (bad_request ''execution grant fields are invalid''), s\<lparr>ap_store := st\<rparr>)
         else case canonical_json cr (execution_grant_proof_json (grant_request_proof request)) of
           Inl _ \<Rightarrow> (Inl internal_error, s\<lparr>ap_store := st\<rparr>)
         | Inr payload \<Rightarrow>
           if is_err (verify_client_signature cr (cl_key_algorithm c) (cl_device_public_key c) payload
                        (gq_signature request))
           then (Inl (unauthorized ''execution grant signature is invalid''), s\<lparr>ap_store := st\<rparr>)
           else case artifact (gq_artifact_id request) st of
             None \<Rightarrow> (Inl (api_error_new NOT_FOUND ''not_found'' ''artifact is unknown''), s\<lparr>ap_store := st\<rparr>)
           | Some a \<Rightarrow>
             if \<not> artifact_allows_execution_action (ar_artifact_id a) (gq_action request)
             then (Inl (forbidden ''artifact_workflow_mismatch''
                     ''execution artifact is not approved for this workflow''), s\<lparr>ap_store := st\<rparr>)
             else case safe_artifact_path fs (ap_artifact_root s) a of
               Inl e \<Rightarrow> (Inl e, s\<lparr>ap_store := st\<rparr>)
             | Inr p \<Rightarrow> (case sha256_file cr fs p of
               Inl _ \<Rightarrow> (Inl internal_error, s\<lparr>ap_store := st\<rparr>)
             | Inr (_, actual_sha256) \<Rightarrow>
               if gq_artifact_sha256 request \<noteq> [] \<and> actual_sha256 \<noteq> gq_artifact_sha256 request
               then (Inl (forbidden ''artifact_integrity''
                       ''execution artifact hash does not match the published artifact''), s\<lparr>ap_store := st\<rparr>)
               else case consume_nonce (gq_nonce request) now st of
                 (False, st') \<Rightarrow> (Inl (conflict ''execution grant nonce has already been used''),
                                 s\<lparr>ap_store := st'\<rparr>)
               | (True, st') \<Rightarrow>
                 (let exp = min (se_exp se) (saturating_add_i64 now EXECUTION_GRANT_TTL_SECS) in
                  if exp \<le> now
                  then (Inl (unauthorized ''session lease has expired''), s\<lparr>ap_store := st'\<rparr>)
                  else (Inr (sign_execution_grant cr (ap_authority s)
                     \<lparr>eg_iss = ''rdc-auth'', eg_aud = ''rdc-guest-runner'',
                      eg_client_id = cl_client_id c, eg_device_id = se_device_id se,
                      eg_session_id = se_session_id se, eg_client_version = cl_client_version c,
                      eg_artifact_id = gq_artifact_id request, eg_artifact_sha256 = actual_sha256,
                      eg_action = gq_action request, eg_vm = gq_vm request,
                      eg_instance = gq_instance request, eg_iat = now, eg_exp = exp,
                      eg_jti = jti, eg_nonce = gq_nonce request\<rparr>), s\<lparr>ap_store := st'\<rparr>)))))"

definition grant_reservation :: "string \<Rightarrow> string" where
  "grant_reservation jti = ''execution-grant-jti:'' @ jti"

definition consume_execution_grant ::
    "crates \<Rightarrow> u64 option \<Rightarrow> file_system \<Rightarrow> signed_execution_grant \<Rightarrow> app_state
      \<Rightarrow> (api_error + signed_receipt) \<times> app_state" where
  "consume_execution_grant cr clock fs grant s =
    (case now_secs clock of
       Inl e \<Rightarrow> (Inl e, s)
     | Inr now \<Rightarrow> (case validate_execution_grant_for_artifact cr fs grant now s of
       (Inl e, st) \<Rightarrow> (Inl e, s\<lparr>ap_store := st\<rparr>)
     | (Inr (claims, _, _), st) \<Rightarrow>
       (case consume_nonce (grant_reservation (eg_jti claims)) now st of
         (False, st') \<Rightarrow> (Inl (conflict ''execution grant has already been consumed''), s\<lparr>ap_store := st'\<rparr>)
       | (True, st') \<Rightarrow>
         (Inr (sign_execution_authorization_receipt cr (ap_authority s)
            \<lparr>rc_iss = ''rdc-auth'', rc_aud = ''rdc-qemu-center'',
             rc_client_id = eg_client_id claims, rc_device_id = eg_device_id claims,
             rc_session_id = eg_session_id claims, rc_client_version = eg_client_version claims,
             rc_artifact_id = eg_artifact_id claims, rc_artifact_sha256 = eg_artifact_sha256 claims,
             rc_action = eg_action claims, rc_vm = eg_vm claims, rc_instance = eg_instance claims,
             rc_grant_jti = eg_jti claims, rc_iat = now,
             rc_exp = min (eg_exp claims) (saturating_add_i64 now EXECUTION_GRANT_TTL_SECS)\<rparr>),
          s\<lparr>ap_store := st'\<rparr>))))"

section \<open>Artifact transfers\<close>

record artifact_prepare_request =
  pq_device_id :: string
  pq_target_abi :: string
  pq_target_android :: string
  pq_ephemeral_public_key :: string

definition retain_live :: "i64 \<Rightarrow> (string \<times> artifact_transfer) list \<Rightarrow> (string \<times> artifact_transfer) list" where
  "retain_live now ts = filter (\<lambda>(_, t). am_expires_at (at_manifest t) > now) ts"

text \<open>\<^verbatim>\<open>HashMap::insert\<close> replaces the entry of an existing key.\<close>

definition insert_transfer ::
    "string \<Rightarrow> artifact_transfer \<Rightarrow> (string \<times> artifact_transfer) list \<Rightarrow> (string \<times> artifact_transfer) list" where
  "insert_transfer k t ts = (k, t) # filter (\<lambda>(k', _). k' \<noteq> k) ts"

definition chunk_count_of :: "u64 \<Rightarrow> api_error + u32" where
  "chunk_count_of size_bytes =
    (let n = saturating_add_u64 size_bytes (ARTIFACT_CHUNK_SIZE - 1) div ARTIFACT_CHUNK_SIZE
     in if unat n < 4294967296 then Inr (ucast n) else Inl internal_error)"

definition prepare_artifact ::
    "crates \<Rightarrow> u64 option \<Rightarrow> u64 option \<Rightarrow> file_system \<Rightarrow> bytes \<Rightarrow> string \<Rightarrow> string
      \<Rightarrow> string \<Rightarrow> string option \<Rightarrow> artifact_prepare_request \<Rightarrow> app_state
      \<Rightarrow> (api_error + signed_artifact_manifest) \<times> app_state" where
  "prepare_artifact cr clock0 clock1 fs server_secret transfer_id nonce_prefix artifact_id authorization request s =
    (case now_secs clock0 of
       Inl e \<Rightarrow> (Inl e, s)
     | Inr now0 \<Rightarrow> (case session_from_headers authorization now0 (ap_store s) of
       (Inl e, st) \<Rightarrow> (Inl e, s\<lparr>ap_store := st\<rparr>)
     | (Inr se, st) \<Rightarrow>
       if se_device_id se \<noteq> pq_device_id request
       then (Inl (forbidden ''binding_mismatch'' ''artifact device binding does not match''), s\<lparr>ap_store := st\<rparr>)
       else if ProtectedArtifact \<notin> set (se_capabilities se)
       then (Inl (forbidden ''missing_capability'' ''artifact capability is not present''), s\<lparr>ap_store := st\<rparr>)
       else if blank (pq_ephemeral_public_key request)
       then (Inl (bad_request ''ephemeral artifact key is required''), s\<lparr>ap_store := st\<rparr>)
       else case now_secs clock1 of
         Inl e \<Rightarrow> (Inl e, s\<lparr>ap_store := st\<rparr>)
       | Inr now \<Rightarrow> (case artifact artifact_id st of
         None \<Rightarrow> (Inl (api_error_new NOT_FOUND ''not_found'' ''artifact is unknown''), s\<lparr>ap_store := st\<rparr>)
       | Some a \<Rightarrow>
         if ar_target_abi a \<noteq> pq_target_abi request \<or> ar_target_android a \<noteq> pq_target_android request
         then (Inl (forbidden ''target_mismatch'' ''artifact target does not match the request''), s\<lparr>ap_store := st\<rparr>)
         else (let (secret, server_public_key) = random_x25519_keypair cr server_secret in
           case derive_x25519_shared_secret cr secret (pq_ephemeral_public_key request) of
             Inl _ \<Rightarrow> (Inl (bad_request ''ephemeral artifact key is invalid''), s\<lparr>ap_store := st\<rparr>)
           | Inr shared_secret \<Rightarrow> (case safe_artifact_path fs (ap_artifact_root s) a of
             Inl e \<Rightarrow> (Inl e, s\<lparr>ap_store := st\<rparr>)
           | Inr p \<Rightarrow> (case sha256_file cr fs p of
             Inl _ \<Rightarrow> (Inl internal_error, s\<lparr>ap_store := st\<rparr>)
           | Inr (size_bytes, sha256) \<Rightarrow> (case chunk_count_of size_bytes of
             Inl e \<Rightarrow> (Inl e, s\<lparr>ap_store := st\<rparr>)
           | Inr chunk_count \<Rightarrow>
             (let manifest =
                \<lparr>am_artifact_id = ar_artifact_id a, am_version = ar_version a,
                 am_target_abi = ar_target_abi a, am_target_android = ar_target_android a,
                 am_session_id = se_session_id se, am_device_id = se_device_id se,
                 am_size_bytes = size_bytes, am_sha256 = sha256,
                 am_expires_at = min (se_exp se) (saturating_add_i64 now ARTIFACT_TTL_SECS),
                 am_key_id = sa_key_id (ap_authority s), am_transfer_id = transfer_id,
                 am_server_ephemeral_public_key = server_public_key,
                 am_chunk_size_bytes = ucast ARTIFACT_CHUNK_SIZE, am_chunk_count = chunk_count,
                 am_nonce_prefix = nonce_prefix\<rparr>;
                  live = retain_live now (ap_transfers s)
              in if length live \<ge> ap_max_active_transfers s
                 then (Inl (service_unavailable ''transfer_capacity_exhausted''
                         ''artifact transfer capacity is exhausted''),
                       s\<lparr>ap_store := st, ap_transfers := live\<rparr>)
                 else (Inr (sign_manifest cr (ap_authority s) manifest),
                       s\<lparr>ap_store := st, ap_transfers := insert_transfer transfer_id
                          \<lparr>at_artifact_id = ar_artifact_id a, at_session_id = se_session_id se,
                           at_device_id = se_device_id se, at_path = p, at_manifest = manifest,
                           at_shared_secret = shared_secret\<rparr> live\<rparr>)))))))))"

record artifact_chunk_response =
  ac_index :: u32
  ac_ciphertext :: string

text \<open>\<^verbatim>\<open>seek\<close> and \<^verbatim>\<open>read_exact\<close> on an open file: an error when the file ends before the range.\<close>

definition read_exact_at :: "bytes \<Rightarrow> nat \<Rightarrow> nat \<Rightarrow> bytes option" where
  "read_exact_at content offset len =
    (if offset + len \<le> length content then Some (take len (drop offset content)) else None)"

definition artifact_chunk ::
    "crates \<Rightarrow> u64 option \<Rightarrow> file_system \<Rightarrow> string \<Rightarrow> string \<Rightarrow> u32 \<Rightarrow> string option \<Rightarrow> app_state
      \<Rightarrow> (api_error + artifact_chunk_response) \<times> app_state" where
  "artifact_chunk cr clock fs artifact_id transfer_id index authorization s =
    (case now_secs clock of
       Inl e \<Rightarrow> (Inl e, s)
     | Inr now \<Rightarrow> (case session_from_headers authorization now (ap_store s) of
       (Inl e, st) \<Rightarrow> (Inl e, s\<lparr>ap_store := st\<rparr>)
     | (Inr se, st) \<Rightarrow>
       (let s' = s\<lparr>ap_store := st, ap_transfers := retain_live now (ap_transfers s)\<rparr> in
        case map_of (ap_transfers s') transfer_id of
          None \<Rightarrow> (Inl (api_error_new NOT_FOUND ''not_found'' ''artifact transfer is unknown''), s')
        | Some t \<Rightarrow>
          if at_artifact_id t \<noteq> artifact_id \<or> at_session_id t \<noteq> se_session_id se
             \<or> at_device_id t \<noteq> se_device_id se
          then (Inl (forbidden ''binding_mismatch'' ''artifact transfer binding does not match''), s')
          else (let manifest = at_manifest t in
            if am_chunk_count manifest \<le> index
            then (Inl (bad_request ''artifact chunk index is invalid''), s')
            else (let offset = (ucast index :: u64) * ucast (am_chunk_size_bytes manifest);
                      remaining = saturating_sub_u64 (am_size_bytes manifest) offset;
                      len = min remaining (ucast (am_chunk_size_bytes manifest))
              in if len = 0 then (Inl (bad_request ''artifact chunk is empty''), s')
                 else case fs_contents fs (at_path t) of
                   Inl _ \<Rightarrow> (Inl internal_error, s')
                 | Inr content \<Rightarrow> (case read_exact_at content (unat offset) (unat len) of
                   None \<Rightarrow> (Inl internal_error, s')
                 | Some plaintext \<Rightarrow> (case derive_artifact_key cr (at_shared_secret t) manifest of
                   Inl _ \<Rightarrow> (Inl internal_error, s')
                 | Inr key \<Rightarrow> (case encrypt_artifact_chunk cr key manifest index plaintext of
                   Inl _ \<Rightarrow> (Inl internal_error, s')
                 | Inr ciphertext \<Rightarrow>
                     (Inr \<lparr>ac_index = index, ac_ciphertext = b64_encode cr ciphertext\<rparr>, s')))))))))"

end
