(* ===== verification/Auth_Protocol.thy ===== *)
theory Auth_Protocol imports Auth_Execution begin

text \<open>
  The authorization service as a state machine: the requests of \<^verbatim>\<open>routes.rs\<close> and the commands of
  the administration tool as events, one step each, and what a run of them does to the store.
\<close>

section \<open>Events\<close>

datatype service_event =
    EvRegister string string register_request
  | EvComplete complete_registration_request
  | EvSession string string session_request
  | EvCapabilities "string option"
  | EvHeartbeat string string heartbeat_request
  | EvClose string "string option"
  | EvIssue file_system string "string option" execution_grant_request
  | EvRelease file_system file_system file_system signed_execution_grant
  | EvConsume file_system signed_execution_grant
  | EvPrepare "u64 option" file_system bytes string string string "string option" artifact_prepare_request
  | EvChunk file_system string string u32 "string option"
  | EvAdminApprove string
  | EvAdminApproveFor string string
  | EvAdminRevokeClient string
  | EvAdminGrant string protected_capability
  | EvAdminRevoke string protected_capability
  | EvAdminPublish string string string string string

definition on_store :: "(auth_store \<Rightarrow> auth_store) \<Rightarrow> app_state \<Rightarrow> app_state" where
  "on_store f s = s\<lparr>ap_store := f (ap_store s)\<rparr>"

fun serve :: "crates \<Rightarrow> u64 option \<Rightarrow> service_event \<Rightarrow> app_state \<Rightarrow> app_state" where
  "serve cr clock (EvRegister uuid ch rq) s = snd (register_client cr clock uuid ch rq s)"
| "serve cr clock (EvComplete rq) s = snd (complete_registration cr clock rq s)"
| "serve cr clock (EvSession sid jti rq) s = snd (create_session_route cr clock sid jti rq s)"
| "serve cr clock (EvCapabilities au) s = snd (capabilities_route clock au s)"
| "serve cr clock (EvHeartbeat jti sid rq) s = snd (heartbeat cr clock jti sid rq s)"
| "serve cr clock (EvClose sid au) s = snd (close_session clock sid au s)"
| "serve cr clock (EvIssue fs jti au rq) s = snd (issue_execution_grant cr clock fs jti au rq s)"
| "serve cr clock (EvRelease fs0 fs1 fs2 g) s = snd (release_execution_grant cr clock fs0 fs1 fs2 g s)"
| "serve cr clock (EvConsume fs g) s = snd (consume_execution_grant cr clock fs g s)"
| "serve cr clock (EvPrepare clock1 fs sec tid pre aid au rq) s =
     snd (prepare_artifact cr clock clock1 fs sec tid pre aid au rq s)"
| "serve cr clock (EvChunk fs aid tid i au) s = snd (artifact_chunk cr clock fs aid tid i au s)"
| "serve cr clock (EvAdminApprove c) s = on_store (\<lambda>st. snd (approve_client c st)) s"
| "serve cr clock (EvAdminApproveFor c a) s = on_store (\<lambda>st. snd (approve_client_for_account c a st)) s"
| "serve cr clock (EvAdminRevokeClient c) s = on_store (\<lambda>st. snd (revoke_client c st)) s"
| "serve cr clock (EvAdminGrant a cap) s = on_store (grant_entitlement a cap) s"
| "serve cr clock (EvAdminRevoke a cap) s = on_store (\<lambda>st. snd (revoke_entitlement a cap st)) s"
| "serve cr clock (EvAdminPublish i v abi an p) s = on_store (publish_artifact i v abi an p) s"

section \<open>A step is a sequence of store operations at the step's time\<close>

definition effect :: "(store_op \<Rightarrow> bool) \<Rightarrow> auth_store \<Rightarrow> auth_store \<Rightarrow> bool" where
  "effect Q st st' \<longleftrightarrow> (\<exists>ops. st' = fold exec_op ops st \<and> list_all Q ops)"

lemma effect_refl [simp]: "effect Q st st"
  by (auto simp: effect_def intro: exI [of _ "[]"])

lemma effect_op:
  assumes "effect Q st st'" and "Q op"
  shows "effect Q st (exec_op op st')"
proof -
  obtain ops where "st' = fold exec_op ops st" "list_all Q ops"
    using assms(1) by (auto simp: effect_def)
  then show ?thesis
    using assms(2) by (auto simp: effect_def intro!: exI [of _ "ops @ [op]"])
qed

lemma effect_mono: "effect Q st st' \<Longrightarrow> (\<And>op. Q op \<Longrightarrow> Q' op) \<Longrightarrow> effect Q' st st'"
  unfolding effect_def by (metis list_all_iff)

text \<open>
  \<open>timed T\<close> allows the operations whose own clock reading is in \<open>T\<close>; \<open>routine T\<close> those of them that
  neither start nor extend a session nor touch the keys of a client.
\<close>

definition timed :: "i64 set \<Rightarrow> store_op \<Rightarrow> bool" where
  "timed T op \<longleftrightarrow> (\<forall>t. op_time op = Some t \<longrightarrow> t \<in> T)"

definition routine :: "i64 set \<Rightarrow> store_op \<Rightarrow> bool" where
  "routine T op \<longleftrightarrow> timed T op \<and> (case op of OpCreateSession _ _ _ _ _ _ \<Rightarrow> False
     | OpRefreshSession _ _ _ _ \<Rightarrow> False | OpUpdateRegistration _ _ _ _ \<Rightarrow> False | _ \<Rightarrow> True)"

lemma timed_simps [simp]: "timed T (OpConsumeNonce n t) \<longleftrightarrow> t \<in> T"
  "op_time op = None \<Longrightarrow> timed T op"
  by (simp_all add: timed_def)

lemma timed_routine: "routine T op \<Longrightarrow> timed T op"
  by (simp add: routine_def)

definition clock_times :: "u64 option \<Rightarrow> i64 set" where
  "clock_times clock = (case now_secs clock of Inl _ \<Rightarrow> {} | Inr now \<Rightarrow> {now})"

named_theorems effects \<open>the store operations and the handlers as effects\<close>

lemma effect_untimed [effects]:
  assumes "effect Q st0 st"
  shows "Q (OpCreatePendingClient c a d k alg v now) \<Longrightarrow>
      effect Q st0 (snd (create_pending_client c a d k alg v now st))"
    and "Q (OpSetChallenge c ch v e) \<Longrightarrow> effect Q st0 (snd (set_registration_challenge c ch v e st))"
    and "Q (OpTakeChallenge c ch now) \<Longrightarrow> effect Q st0 (snd (take_registration_challenge c ch now st))"
    and "Q (OpUpdateRegistration c k alg v) \<Longrightarrow> effect Q st0 (snd (update_client_registration c k alg v st))"
    and "Q (OpApprove c) \<Longrightarrow> effect Q st0 (snd (approve_client c st))"
    and "Q (OpApproveForAccount c a) \<Longrightarrow> effect Q st0 (snd (approve_client_for_account c a st))"
    and "Q (OpRevokeClient c) \<Longrightarrow> effect Q st0 (snd (revoke_client c st))"
    and "Q (OpGrantEntitlement a cap) \<Longrightarrow> effect Q st0 (grant_entitlement a cap st)"
    and "Q (OpRevokeEntitlement a cap) \<Longrightarrow> effect Q st0 (snd (revoke_entitlement a cap st))"
    and "Q (OpConsumeNonce n now) \<Longrightarrow> effect Q st0 (snd (consume_nonce n now st))"
    and "Q (OpCreateSession sid cl caps jti e now) \<Longrightarrow>
      effect Q st0 (snd (create_session sid cl caps jti e now st))"
    and "Q (OpRevokeActiveSessions c now) \<Longrightarrow> effect Q st0 (revoke_active_sessions_for_client c now st)"
    and "Q (OpRefreshSession sid caps jti e) \<Longrightarrow> effect Q st0 (snd (refresh_session sid caps jti e st))"
    and "Q (OpRevokeSession sid) \<Longrightarrow> effect Q st0 (snd (revoke_session sid st))"
    and "Q (OpPublishArtifact i v abi an p) \<Longrightarrow> effect Q st0 (publish_artifact i v abi an p st)"
  by (simp_all only: effect_op [OF assms] exec_op.simps [symmetric])

lemma effect_session_from_headers [effects]:
  "effect (routine T) st (snd (session_from_headers au now st))"
  by (auto simp: session_from_headers_def routine_def intro!: effects split: option.split sum.split)

lemma effect_validate [effects]:
  "effect (routine T) (ap_store s) (snd (validate_execution_grant_for_artifact cr fs grant now s))"
  unfolding validate_execution_grant_for_artifact_def Let_def
  by (auto simp: routine_def intro!: effects split: option.split sum.split)

lemma effect_register_client [effects]:
  "effect (routine (clock_times clock)) (ap_store s) (ap_store (snd (register_client cr clock uuid ch rq s)))"
  unfolding register_client_def register_lookup_def Let_def case_prod_beta clock_times_def
  by (auto simp: routine_def intro!: effects split: option.split sum.split bool.split)

lemma effect_complete_registration [effects]:
  "effect (timed (clock_times clock)) (ap_store s) (ap_store (snd (complete_registration cr clock rq s)))"
  unfolding complete_registration_def Let_def case_prod_beta clock_times_def
  by (auto intro!: effects split: option.split sum.split bool.split)

lemma effect_create_session_route [effects]:
  "effect (timed (clock_times clock)) (ap_store s) (ap_store (snd (create_session_route cr clock sid jti rq s)))"
  unfolding create_session_route_def Let_def case_prod_beta clock_times_def
  by (auto intro!: effects split: option.split sum.split bool.split)

lemma effect_capabilities_route [effects]:
  "effect (routine (clock_times clock)) (ap_store s) (ap_store (snd (capabilities_route clock au s)))"
  unfolding capabilities_route_def Let_def case_prod_beta clock_times_def
  by (auto simp: routine_def intro!: effects split: option.split sum.split bool.split)

lemma effect_heartbeat [effects]:
  "effect (timed (clock_times clock)) (ap_store s) (ap_store (snd (heartbeat cr clock jti sid rq s)))"
  unfolding heartbeat_def Let_def case_prod_beta clock_times_def
  by (auto intro!: effects split: option.split sum.split bool.split)

lemma effect_close_session [effects]:
  "effect (routine (clock_times clock)) (ap_store s) (ap_store (snd (close_session clock sid au s)))"
  unfolding close_session_def Let_def case_prod_beta clock_times_def
  by (auto simp: routine_def intro!: effects split: option.split sum.split bool.split)

lemma effect_issue_execution_grant [effects]:
  "effect (routine (clock_times clock)) (ap_store s) (ap_store (snd (issue_execution_grant cr clock fs jti au rq s)))"
  unfolding issue_execution_grant_def Let_def case_prod_beta clock_times_def
  by (auto simp: routine_def intro!: effects split: option.split sum.split bool.split)

lemma effect_release_execution_grant [effects]:
  "effect (routine (clock_times clock)) (ap_store s) (ap_store (snd (release_execution_grant cr clock fs0 fs1 fs2 g s)))"
  unfolding release_execution_grant_def Let_def case_prod_beta clock_times_def
  by (auto simp: routine_def intro!: effects split: option.split sum.split bool.split)

lemma effect_consume_execution_grant [effects]:
  "effect (routine (clock_times clock)) (ap_store s) (ap_store (snd (consume_execution_grant cr clock fs g s)))"
  unfolding consume_execution_grant_def Let_def case_prod_beta clock_times_def
  by (auto simp: routine_def intro!: effects split: option.split sum.split bool.split)

lemma effect_prepare_artifact [effects]:
  "effect (routine (clock_times clock)) (ap_store s) (ap_store (snd (prepare_artifact cr clock clock1 fs sec tid pre aid au rq s)))"
  unfolding prepare_artifact_def Let_def case_prod_beta clock_times_def
  by (auto simp: routine_def intro!: effects split: option.split sum.split bool.split)

lemma effect_artifact_chunk [effects]:
  "effect (routine (clock_times clock)) (ap_store s) (ap_store (snd (artifact_chunk cr clock fs aid tid i au s)))"
  unfolding artifact_chunk_def Let_def case_prod_beta clock_times_def
  by (auto simp: routine_def intro!: effects split: option.split sum.split bool.split)

definition session_event :: "service_event \<Rightarrow> bool" where
  "session_event ev \<longleftrightarrow> (case ev of EvSession _ _ _ \<Rightarrow> True | EvHeartbeat _ _ _ \<Rightarrow> True
     | EvComplete _ \<Rightarrow> True | _ \<Rightarrow> False)"

lemma effect_routine:
  "\<not> session_event ev \<Longrightarrow> effect (routine (clock_times clock)) (ap_store s) (ap_store (serve cr clock ev s))"
  by (cases ev) (auto simp: on_store_def session_event_def routine_def intro!: effects)

lemma effect_serve:
  "effect (timed (clock_times clock)) (ap_store s) (ap_store (serve cr clock ev s))"
proof (cases "session_event ev")
  case True
  then show ?thesis by (cases ev) (auto simp: session_event_def intro: effects)
next
  case False
  show ?thesis by (rule effect_mono [OF effect_routine [OF False] timed_routine])
qed

end
