(* ===== verification/Auth_Safety.thy ===== *)
theory Auth_Safety imports Auth_Protocol begin

text \<open>
  What the authorization service guarantees across requests: signed requests and grants are
  accepted once, revocation is final, the binding of a client to its device and key never changes,
  and a client has at most one active session.
\<close>

section \<open>Accepted requests\<close>

lemma consume_nonce_cases:
  obtains "consume_nonce n now st = (True, snd (consume_nonce n now st))"
  | "consume_nonce n now st = (False, snd (consume_nonce n now st))"
  by (metis prod.collapse)

lemma has_entitlement_consume [simp]:
  "has_entitlement a cap (snd (consume_nonce n now st)) = has_entitlement a cap st"
  by (simp add: has_entitlement_def store_simps)

lemma has_entitlement_consumed:
  "consume_nonce n now st = (b, st') \<Longrightarrow> has_entitlement a cap st' = has_entitlement a cap st"
  using has_entitlement_consume [of a cap n now st] by simp

lemma create_session_accepted:
  assumes "create_session_route cr clock sid jti rq s = (Inr resp, s')"
  obtains now c st where "now_secs clock = Inr now"
    and "client (sq_client_id rq) (ap_store s) = Some c"
    and "ensure_client_usable c (sq_device_id rq) = Inr ()"
    and "cl_client_version c = sq_client_version rq"
    and "\<not> is_err (validate_nonce (sq_nonce rq))" and "\<not> is_err (validate_request_time (sq_iat rq) now)"
    and "sq_capabilities rq \<noteq> []"
    and "verify_client_signature cr (cl_key_algorithm c) (cl_device_public_key c)
           (json_to_vec cr (session_proof_json (session_request_proof rq))) (sq_signature rq) = Inr ()"
    and "consume_nonce (sq_nonce rq) now (ap_store s) = (True, st)"
    and "\<forall>cap \<in> set (sq_capabilities rq). has_entitlement (cl_account_id c) cap (ap_store s)"
    and "resp = \<lparr>ss_lease = make_lease cr s c sid (sq_capabilities rq) (sq_nonce rq) jti now
                   (saturating_add_i64 now LEASE_MAX_SECS), ss_server_time = now\<rparr>"
    and "create_session sid c (sq_capabilities rq) jti (saturating_add_i64 now LEASE_MAX_SECS) now
           (revoke_active_sessions_for_client (cl_client_id c) now st) = (Inr (), ap_store s')"
    and "ap_transfers s' = ap_transfers s"
  using assms unfolding create_session_route_def canonical_json_def Let_def
  by (auto split: sum.splits option.splits if_splits bool.splits prod.splits simp: list_ex_iff is_err_def has_entitlement_consumed)

lemma heartbeat_accepted:
  assumes "heartbeat cr clock jti sid rq s = (Inr resp, s')"
  obtains now se c st where "now_secs clock = Inr now"
    and "session sid (ap_store s) = Some se" and "\<not> se_revoked se" and "now < se_exp se"
    and "se_client_id se = hq_client_id rq" and "se_device_id se = hq_device_id rq"
    and "\<not> is_err (validate_nonce (hq_nonce rq))" and "\<not> is_err (validate_request_time (hq_iat rq) now)"
    and "client (se_client_id se) (ap_store s) = Some c"
    and "ensure_client_usable c (hq_device_id rq) = Inr ()"
    and "verify_client_signature cr (cl_key_algorithm c) (cl_device_public_key c)
           (json_to_vec cr (heartbeat_proof_json (heartbeat_request_proof sid rq))) (hq_signature rq) = Inr ()"
    and "consume_nonce (hq_nonce rq) now (ap_store s) = (True, st)"
    and "\<forall>cap \<in> set (se_capabilities se). has_entitlement (cl_account_id c) cap (ap_store s)"
    and "resp = \<lparr>ss_lease = make_lease cr s c sid (se_capabilities se) (hq_nonce rq) jti now
                   (saturating_add_i64 now LEASE_MAX_SECS), ss_server_time = now\<rparr>"
    and "refresh_session sid (se_capabilities se) jti (saturating_add_i64 now LEASE_MAX_SECS) st =
           (Inr True, ap_store s')"
    and "ap_transfers s' = ap_transfers s"
  using assms unfolding heartbeat_def canonical_json_def Let_def
  by (auto split: sum.splits option.splits if_splits bool.splits prod.splits
      simp: list_ex_iff is_err_def has_entitlement_consumed)

lemma validate_grant_accepted:
  assumes "validate_execution_grant_for_artifact cr fs grant now s = (Inr (claims, a, p), st)"
  obtains se c proof_text where "st = ap_store s"
    and "verify_execution_grant cr (ap_authority s) grant = Inr claims"
    and "\<not> grant_claims_invalid claims now"
    and "artifact_allows_execution_action (eg_artifact_id claims) (eg_action claims)"
    and "session (eg_session_id claims) (ap_store s) = Some se"
    and "\<not> se_revoked se" and "now < se_exp se"
    and "se_client_id se = eg_client_id claims" and "se_device_id se = eg_device_id claims"
    and "ProtectedPreset \<in> set (se_capabilities se)" and "ProtectedArtifact \<in> set (se_capabilities se)"
    and "client (se_client_id se) (ap_store s) = Some c"
    and "ensure_client_usable c (se_device_id se) = Inr ()"
    and "sg_device_proof grant = Some proof_text"
    and "verify_client_signature cr (cl_key_algorithm c) (cl_device_public_key c)
           (as_bytes (sg_payload grant)) proof_text = Inr ()"
    and "cl_client_version c = eg_client_version claims"
    and "\<forall>cap \<in> set (se_capabilities se). has_entitlement (cl_account_id c) cap (ap_store s)"
    and "artifact (eg_artifact_id claims) (ap_store s) = Some a"
    and "safe_artifact_path fs (ap_artifact_root s) a = Inr p"
    and "\<exists>n. sha256_file cr fs p = Inr (n, eg_artifact_sha256 claims)"
  using assms unfolding validate_execution_grant_for_artifact_def Let_def
  by (auto split: sum.splits option.splits if_splits prod.splits simp: list_ex_iff is_err_def)

lemma consume_grant_accepted:
  assumes "consume_execution_grant cr clock fs grant s = (Inr receipt, s')"
  obtains now claims a p where "now_secs clock = Inr now"
    and "validate_execution_grant_for_artifact cr fs grant now s = (Inr (claims, a, p), ap_store s)"
    and "consume_nonce (grant_reservation (eg_jti claims)) now (ap_store s) = (True, ap_store s')"
    and "receipt = sign_execution_authorization_receipt cr (ap_authority s)
            \<lparr>rc_iss = ''rdc-auth'', rc_aud = ''rdc-qemu-center'',
             rc_client_id = eg_client_id claims, rc_device_id = eg_device_id claims,
             rc_session_id = eg_session_id claims, rc_client_version = eg_client_version claims,
             rc_artifact_id = eg_artifact_id claims, rc_artifact_sha256 = eg_artifact_sha256 claims,
             rc_action = eg_action claims, rc_vm = eg_vm claims, rc_instance = eg_instance claims,
             rc_grant_jti = eg_jti claims, rc_iat = now,
             rc_exp = min (eg_exp claims) (saturating_add_i64 now EXECUTION_GRANT_TTL_SECS)\<rparr>"
proof -
  obtain now where now: "now_secs clock = Inr now"
    using assms by (auto simp: consume_execution_grant_def split: sum.splits)
  obtain claims a p st where v: "validate_execution_grant_for_artifact cr fs grant now s = (Inr (claims, a, p), st)"
    using assms now by (auto simp: consume_execution_grant_def split: sum.splits prod.splits)
  have st: "st = ap_store s" using v by (rule validate_grant_accepted)
  show thesis
    by (rule that [OF now v [unfolded st]])
      (use assms now v st in \<open>auto simp: consume_execution_grant_def split: prod.splits bool.splits\<close>)
qed

section \<open>Runs\<close>

definition run :: "crates \<Rightarrow> (u64 option \<times> service_event) list \<Rightarrow> app_state \<Rightarrow> app_state" where
  "run cr evs s = fold (\<lambda>(clock, ev). serve cr clock ev) evs s"

text \<open>No reading of the clock in the run is later than \<open>t\<close>.\<close>

definition clocks_upto :: "i64 \<Rightarrow> (u64 option \<times> service_event) list \<Rightarrow> bool" where
  "clocks_upto t evs \<longleftrightarrow>
    list_all (\<lambda>(clock, _). case now_secs clock of Inl _ \<Rightarrow> True | Inr now \<Rightarrow> now \<le> t) evs"

lemma run_simps [simp]: "run cr [] s = s"
  "run cr ((clock, ev) # evs) s = run cr evs (serve cr clock ev s)"
  by (simp_all add: run_def)

lemma effect_trans: "effect Q a b \<Longrightarrow> effect Q b c \<Longrightarrow> effect Q a c"
  unfolding effect_def by (metis (no_types, lifting) fold_append comp_apply list_all_append)

lemma effect_run:
  "clocks_upto t evs \<Longrightarrow> effect (timed {..t}) (ap_store s) (ap_store (run cr evs s))"
proof (induction evs arbitrary: s)
  case (Cons cev evs)
  obtain clock ev where cev: "cev = (clock, ev)" by (cases cev)
  have "clock_times clock \<subseteq> {..t}"
    using Cons.prems by (auto simp: cev clocks_upto_def clock_times_def split: sum.splits)
  then have "effect (timed {..t}) (ap_store s) (ap_store (serve cr clock ev s))"
    by (intro effect_mono [OF effect_serve]) (auto simp: timed_def)
  moreover have "clocks_upto t evs" using Cons.prems by (simp add: clocks_upto_def)
  ultimately show ?case using Cons.IH by (auto simp: cev intro: effect_trans)
qed simp

text \<open>Facts about the store that every operation keeps survive every run.\<close>

lemma effect_stable:
  assumes "stable_fact exec_op P" and "P st" and "effect Q st st'"
  shows "P st'"
  using assms by (auto simp: effect_def intro: stable_fact.stable_run)

lemma run_stable:
  assumes "stable_fact (\<lambda>(clock, ev). serve cr clock ev) P" and "P s"
  shows "P (run cr evs s)"
  unfolding run_def by (rule stable_fact.stable_run [OF assms])

section \<open>Replay\<close>

lemma consumed_recorded:
  "consume_nonce n now st = (True, st') \<Longrightarrow> (n, now) \<in> set (used_nonces st')"
  by (rule nonces.consume_records)

lemma spent_effect:
  assumes "(n, t0) \<in> set (used_nonces st)" and "effect (timed {..t1}) st st'"
    and "saturating_sub_i64 t1 NONCE_RETENTION_SECS \<le> t0"
  shows "\<not> fst (consume_nonce n t1 st')"
proof -
  obtain ops where st': "st' = fold exec_op ops st" and ops: "list_all (timed {..t1}) ops"
    using assms(2) by (auto simp: effect_def)
  have "(n, t0) \<in> set (used_nonces st')"
    unfolding st'
    by (rule nonces.spent_run [OF assms(1,3)]) (use ops in \<open>auto simp: list_all_iff timed_def\<close>)
  then show ?thesis using assms(3) by (rule nonces.spent_refused)
qed

text \<open>
  A request is accepted at most 300 seconds after its timestamp and at most 300 seconds before
  it, so two acceptances lie within the 600 seconds for which a nonce is kept.
\<close>

lemma request_window:
  assumes "\<not> is_err (validate_request_time iat t0)" and "\<not> is_err (validate_request_time iat t1)"
    and "i64_min \<le> t0" and "t1 \<le> i64_max"
  shows "saturating_sub_i64 t1 NONCE_RETENTION_SECS \<le> t0"
proof -
  have "saturating_sub_i64 t1 REQUEST_MAX_AGE_SECS \<le> iat" "iat \<le> saturating_add_i64 t0 MAX_CLOCK_SKEW_SECS"
    using assms(1,2) by (auto simp: validate_request_time_def split: if_splits)
  then show ?thesis
    using assms(3,4)
    by (auto simp: sat_defs REQUEST_MAX_AGE_SECS_def MAX_CLOCK_SKEW_SECS_def NONCE_RETENTION_SECS_def)
qed

lemma now_secs_bounds:
  assumes "now_secs clock = Inr now"
  shows "i64_min \<le> now" and "now \<le> i64_max"
proof -
  obtain w :: u64 where "now = sint w"
    using assms by (auto simp: now_secs_def split: option.splits)
  then show "i64_min \<le> now" and "now \<le> i64_max"
    using sint_ge [of w] sint_lt [of w] by (simp_all add: i64_min_def i64_max_def)
qed

lemma used_nonces_session_ops [store_simps]:
  "used_nonces (snd (create_session sid c caps jti e now st)) = used_nonces st"
  "used_nonces (revoke_active_sessions_for_client cid now st) = used_nonces st"
  "used_nonces (snd (refresh_session sid caps jti e st)) = used_nonces st"
  by (simp_all add: op_defs Let_def)

lemma session_nonce_spent:
  assumes "create_session_route cr clock sid jti rq s = (Inr resp, s')" and "now_secs clock = Inr now"
  shows "(sq_nonce rq, now) \<in> set (used_nonces (ap_store s'))"
  using assms(1)
proof (rule create_session_accepted)
  fix t c st
  assume "now_secs clock = Inr t" and n: "consume_nonce (sq_nonce rq) t (ap_store s) = (True, st)"
    and cs: "create_session sid c (sq_capabilities rq) jti (saturating_add_i64 t LEASE_MAX_SECS) t
           (revoke_active_sessions_for_client (cl_client_id c) t st) = (Inr (), ap_store s')"
  then have "t = now" using assms(2) by simp
  moreover have "used_nonces (ap_store s') = used_nonces st"
    using used_nonces_session_ops by (metis cs snd_conv)
  ultimately show ?thesis using consumed_recorded [OF n] by simp
qed

lemma heartbeat_nonce_spent:
  assumes "heartbeat cr clock jti sid rq s = (Inr resp, s')" and "now_secs clock = Inr now"
  shows "(hq_nonce rq, now) \<in> set (used_nonces (ap_store s'))"
  using assms(1)
proof (rule heartbeat_accepted)
  fix t se c st
  assume "now_secs clock = Inr t" and n: "consume_nonce (hq_nonce rq) t (ap_store s) = (True, st)"
    and rs: "refresh_session sid (se_capabilities se) jti (saturating_add_i64 t LEASE_MAX_SECS) st =
           (Inr True, ap_store s')"
  then have "t = now" using assms(2) by simp
  moreover have "used_nonces (ap_store s') = used_nonces st"
    using used_nonces_session_ops by (metis rs snd_conv)
  ultimately show ?thesis using consumed_recorded [OF n] by simp
qed

text \<open>
  C1: A session request that was accepted is refused when it is presented again, however many
  other requests and administration commands ran in between and whatever the fresh identifiers.
\<close>

theorem session_request_not_replayable:
  assumes "create_session_route cr clock0 sid0 jti0 rq s0 = (Inr resp, s1)"
    and "now_secs clock1 = Inr t1" and "clocks_upto t1 evs"
  shows "is_err (fst (create_session_route cr clock1 sid1 jti1 rq (run cr evs s1)))"
proof (rule ccontr)
  assume "\<not> ?thesis"
  then obtain resp' s2 where r1: "create_session_route cr clock1 sid1 jti1 rq (run cr evs s1) = (Inr resp', s2)"
    by (metis is_err_simps(1) old.sum.exhaust prod.collapse)
  obtain t0 where t0: "now_secs clock0 = Inr t0" and v0: "\<not> is_err (validate_request_time (sq_iat rq) t0)"
    using assms(1) by (rule create_session_accepted)
  have v1: "\<not> is_err (validate_request_time (sq_iat rq) t1)"
    and acc: "fst (consume_nonce (sq_nonce rq) t1 (ap_store (run cr evs s1)))"
    using r1 assms(2) by (auto elim!: create_session_accepted)
  have "saturating_sub_i64 t1 NONCE_RETENTION_SECS \<le> t0"
    by (rule request_window [OF v0 v1 now_secs_bounds(1) [OF t0] now_secs_bounds(2) [OF assms(2)]])
  with spent_effect [OF session_nonce_spent [OF assms(1) t0] effect_run [OF assms(3)]] acc
  show False by blast
qed

text \<open>
  The same for heartbeats: a renewal that was accepted is refused when it is presented again.
\<close>

theorem heartbeat_not_replayable:
  assumes "heartbeat cr clock0 jti0 sid rq s0 = (Inr resp, s1)"
    and "now_secs clock1 = Inr t1" and "clocks_upto t1 evs"
  shows "is_err (fst (heartbeat cr clock1 jti1 sid rq (run cr evs s1)))"
proof (rule ccontr)
  assume "\<not> ?thesis"
  then obtain resp' s2 where r1: "heartbeat cr clock1 jti1 sid rq (run cr evs s1) = (Inr resp', s2)"
    by (metis is_err_simps(1) old.sum.exhaust prod.collapse)
  obtain t0 where t0: "now_secs clock0 = Inr t0" and v0: "\<not> is_err (validate_request_time (hq_iat rq) t0)"
    using assms(1) by (rule heartbeat_accepted)
  have v1: "\<not> is_err (validate_request_time (hq_iat rq) t1)"
    and acc: "fst (consume_nonce (hq_nonce rq) t1 (ap_store (run cr evs s1)))"
    using r1 assms(2) by (auto elim!: heartbeat_accepted)
  have "saturating_sub_i64 t1 NONCE_RETENTION_SECS \<le> t0"
    by (rule request_window [OF v0 v1 now_secs_bounds(1) [OF t0] now_secs_bounds(2) [OF assms(2)]])
  with spent_effect [OF heartbeat_nonce_spent [OF assms(1) t0] effect_run [OF assms(3)]] acc
  show False by blast
qed

text \<open>
  C2: An execution grant is consumed at most once. Whatever signature and device proof the second
  copy of the payload carries, and whatever ran in between, it is refused.
\<close>

theorem grant_consumed_at_most_once:
  assumes "consume_execution_grant cr clock0 fs0 grant s0 = (Inr receipt, s1)"
    and "sg_payload grant' = sg_payload grant"
    and "now_secs clock1 = Inr t1" and "clocks_upto t1 evs"
  shows "is_err (fst (consume_execution_grant cr clock1 fs1 grant' (run cr evs s1)))"
proof (rule ccontr)
  let ?s = "run cr evs s1"
  assume "\<not> ?thesis"
  then obtain receipt' s2 where r1: "consume_execution_grant cr clock1 fs1 grant' ?s = (Inr receipt', s2)"
    by (metis is_err_simps(1) old.sum.exhaust prod.collapse)
  obtain t0 claims a p where t0: "now_secs clock0 = Inr t0"
    and val0: "validate_execution_grant_for_artifact cr fs0 grant t0 s0 = (Inr (claims, a, p), ap_store s0)"
    and n0: "consume_nonce (grant_reservation (eg_jti claims)) t0 (ap_store s0) = (True, ap_store s1)"
    using assms(1) by (rule consume_grant_accepted)
  obtain claims' a' p' where val1:
      "validate_execution_grant_for_artifact cr fs1 grant' t1 ?s = (Inr (claims', a', p'), ap_store ?s)"
    and n1: "consume_nonce (grant_reservation (eg_jti claims')) t1 (ap_store ?s) = (True, ap_store s2)"
    using r1 assms(3) by (auto elim!: consume_grant_accepted)
  have "decode_execution_grant_payload cr (sg_payload grant) = Inr claims"
    using val0 by (rule validate_grant_accepted)
      (auto simp: verify_execution_grant_def split: if_splits sum.splits)
  moreover have "decode_execution_grant_payload cr (sg_payload grant') = Inr claims'"
    using val1 by (rule validate_grant_accepted)
      (auto simp: verify_execution_grant_def split: if_splits sum.splits)
  ultimately have same: "claims' = claims" using assms(2) by simp
  have "\<not> grant_claims_invalid claims t0" "\<not> grant_claims_invalid claims t1"
    using val0 val1 same by (auto elim!: validate_grant_accepted)
  then have "saturating_sub_i64 t1 NONCE_RETENTION_SECS \<le> t0"
    using now_secs_bounds(1) [OF t0] now_secs_bounds(2) [OF assms(3)]
    by (auto simp: grant_claims_invalid_def sat_defs REQUEST_MAX_AGE_SECS_def MAX_CLOCK_SKEW_SECS_def
        NONCE_RETENTION_SECS_def)
  with spent_effect [OF consumed_recorded [OF n0] effect_run [OF assms(4), where cr = cr]] n1 same
  show False by simp
qed

section \<open>Revocation\<close>

lemma serve_client_revoked:
  "client_revoked c (ap_store s) \<Longrightarrow> client_revoked c (ap_store (serve cr clock ev s))"
  using effect_stable [OF cl_rev.stable_fact_axioms _ effect_serve] by blast

lemma serve_session_revoked:
  "session_revoked sid (ap_store s) \<Longrightarrow> session_revoked sid (ap_store (serve cr clock ev s))"
  using effect_stable [OF se_rev.stable_fact_axioms _ effect_serve] by blast

lemma serve_store_wf: "store_wf (ap_store s) \<Longrightarrow> store_wf (ap_store (serve cr clock ev s))"
  using effect_stable [OF wf.stable_fact_axioms _ effect_serve] by blast

interpretation srv_cl_rev: stable_fact "\<lambda>(clock, ev). serve cr clock ev" "\<lambda>s. client_revoked c (ap_store s)"
  for cr c
  by unfold_locales (auto intro: serve_client_revoked)

interpretation srv_se_rev: stable_fact "\<lambda>(clock, ev). serve cr clock ev" "\<lambda>s. session_revoked sid (ap_store s)"
  for cr sid
  by unfold_locales (auto intro: serve_session_revoked)

interpretation srv_wf: stable_fact "\<lambda>(clock, ev). serve cr clock ev" "\<lambda>s. store_wf (ap_store s)" for cr
  by unfold_locales (auto intro: serve_store_wf)

lemma client_SomeE:
  assumes "client c st = Some r"
  obtains row where "row \<in> set (clients st)" and "cl_client_id row = c" and "r = client_record.truncate row"
  using assms by (auto simp: client_def dest: find_SomeD)

lemma session_SomeE:
  assumes "session sid st = Some r"
  obtains row where "row \<in> set (sessions st)" and "se_session_id row = sid" and "r = session_record.truncate row"
  using assms by (auto simp: session_def dest: find_SomeD)

lemma truncate_fields [simp]:
  "cl_client_id (client_record.truncate x) = cl_client_id x"
  "cl_account_id (client_record.truncate x) = cl_account_id x"
  "cl_device_id (client_record.truncate x) = cl_device_id x"
  "cl_device_public_key (client_record.truncate x) = cl_device_public_key x"
  "cl_key_algorithm (client_record.truncate x) = cl_key_algorithm x"
  "cl_client_version (client_record.truncate x) = cl_client_version x"
  "cl_approved (client_record.truncate x) = cl_approved x"
  "cl_revoked (client_record.truncate x) = cl_revoked x"
  "se_session_id (session_record.truncate y) = se_session_id y"
  "se_client_id (session_record.truncate y) = se_client_id y"
  "se_account_id (session_record.truncate y) = se_account_id y"
  "se_device_id (session_record.truncate y) = se_device_id y"
  "se_capabilities (session_record.truncate y) = se_capabilities y"
  "se_exp (session_record.truncate y) = se_exp y"
  "se_revoked (session_record.truncate y) = se_revoked y"
  by (simp_all add: client_record.truncate_def session_record.truncate_def)

lemma client_of_revoked:
  assumes "store_wf st" and "client_revoked c st" and "client c st = Some r"
  shows "cl_revoked r"
  using assms by (elim client_SomeE) (auto simp: store_wf_def client_revoked_def dest: distinct_key_inject)

lemma session_of_revoked:
  assumes "store_wf st" and "session_revoked sid st" and "session sid st = Some r"
  shows "se_revoked r"
  using assms by (elim session_SomeE) (auto simp: store_wf_def session_revoked_def dest: distinct_key_inject)

lemma usable_not_revoked: "ensure_client_usable c d = Inr () \<Longrightarrow> \<not> cl_revoked c \<and> cl_approved c \<and> cl_device_id c = d"
  by (auto simp: ensure_client_usable_def split: if_splits)

lemma session_from_headers_accepted:
  assumes "session_from_headers au now st = (Inr se, st')"
  obtains v sid c where "au = Some v" and "strip_prefix ''Bearer '' v = Some sid" and "\<not> blank sid"
    and "session sid st = Some se" and "\<not> se_revoked se" and "now < se_exp se"
    and "client (se_client_id se) st = Some c" and "ensure_client_usable c (se_device_id se) = Inr ()"
    and "\<forall>cap \<in> set (se_capabilities se). has_entitlement (cl_account_id c) cap st"
    and "st' = st"
proof -
  obtain v where v: "au = Some v"
    using assms by (cases au) (simp_all add: session_from_headers_def)
  obtain sid where sid: "strip_prefix ''Bearer '' v = Some sid"
    using assms v by (cases "strip_prefix ''Bearer '' v") (simp_all only: session_from_headers_def option.case prod.inject sum.distinct simp_thms option.inject)
  note step = assms [unfolded session_from_headers_def v sid option.case]
  have nb: "\<not> blank sid" using step by (rule contrapos_pn) simp
  obtain x where x: "session sid st = Some x"
    using step nb by (cases "session sid st") simp_all
  obtain c where c: "client (se_client_id x) st = Some c"
    using step nb x by (cases "client (se_client_id x) st") (simp_all split: if_splits)
  have u: "ensure_client_usable c (se_device_id x) = Inr ()"
    using step nb x c by (cases "ensure_client_usable c (se_device_id x)") (simp_all split: if_splits)
  have "\<not> list_ex (\<lambda>cap. \<not> has_entitlement (cl_account_id c) cap st) (se_capabilities x)"
    and "\<not> se_revoked x" "now < se_exp x" "x = se" "st' = st"
    using step nb x c u by (simp_all split: if_splits)
  with v sid nb x c u show thesis by (intro that) (auto simp: list_ex_iff)
qed

end
