(* ===== verification/Auth_Sessions.thy ===== *)
theory Auth_Sessions imports Auth_Safety begin

text \<open>
  Invariants of the running authorization service: revocation is final, a client keeps the device
  and the key it registered with, a client has at most one active session, and the transfers in
  memory are bounded and well formed.
\<close>

section \<open>Revocation is final\<close>

lemma run_client_revoked:
  "client_revoked c (ap_store s) \<Longrightarrow> client_revoked c (ap_store (run cr evs s))"
  unfolding run_def by (rule srv_cl_rev.stable_run)

lemma run_session_revoked:
  "session_revoked sid (ap_store s) \<Longrightarrow> session_revoked sid (ap_store (run cr evs s))"
  unfolding run_def by (rule srv_se_rev.stable_run)

lemma run_store_wf: "store_wf (ap_store s) \<Longrightarrow> store_wf (ap_store (run cr evs s))"
  unfolding run_def by (rule srv_wf.stable_run)

lemma session_id: "session sid st = Some se \<Longrightarrow> se_session_id se = sid"
  by (auto elim: session_SomeE)

lemma client_id: "client c st = Some r \<Longrightarrow> cl_client_id r = c"
  by (auto elim: client_SomeE)

lemma bex_updated:
  "r \<in> set rows \<Longrightarrow> P r \<Longrightarrow> Q (f r) \<Longrightarrow> \<exists>r \<in> set (update_where P f rows). Q r"
  by (metis in_update_whereI)

lemma revoke_client_revokes:
  "row \<in> set (clients st) \<Longrightarrow> client_revoked (cl_client_id row) (snd (revoke_client (cl_client_id row) st))"
  by (simp add: client_revoked_def revoke_client_def) (rule bex_updated, simp_all)

lemma revoke_session_revokes:
  "row \<in> set (sessions st) \<Longrightarrow> session_revoked (se_session_id row) (snd (revoke_session (se_session_id row) st))"
  by (simp add: session_revoked_def revoke_session_def) (rule bex_updated, simp_all)

text \<open>What the two tables say of a revoked client or session is what every handler sees.\<close>

lemma revoked_client_unusable:
  assumes "store_wf st" and "client_revoked c st" and "client c st = Some r"
  shows "ensure_client_usable r d = Inl (forbidden ''revoked'' ''client has been revoked'')"
  using client_of_revoked [OF assms] by (simp add: ensure_client_usable_def)

definition locked_out :: "string \<Rightarrow> app_state \<Rightarrow> bool" where
  "locked_out c s \<longleftrightarrow> store_wf (ap_store s) \<and> client_revoked c (ap_store s)"

lemma locked_out_run: "locked_out c s \<Longrightarrow> locked_out c (run cr evs s)"
  by (simp add: locked_out_def run_client_revoked run_store_wf)

lemma locked_out_usable:
  "locked_out c s \<Longrightarrow> client c (ap_store s) = Some r \<Longrightarrow> ensure_client_usable r d \<noteq> Inr ()"
  by (auto simp: locked_out_def revoked_client_unusable)

lemma locked_out_session:
  assumes "locked_out c s" and "sq_client_id rq = c"
  shows "is_err (fst (create_session_route cr clock sid jti rq s))"
proof (rule ccontr)
  assume "\<not> ?thesis"
  then obtain resp s' where "create_session_route cr clock sid jti rq s = (Inr resp, s')"
    by (metis is_err_simps(1) old.sum.exhaust prod.collapse)
  then show False
    using locked_out_usable [OF assms(1)] assms(2) by (auto elim!: create_session_accepted)
qed

lemma locked_out_header:
  assumes "locked_out c s" and "session_from_headers au now (ap_store s) = (Inr se, st')"
  shows "se_client_id se \<noteq> c"
  using locked_out_usable [OF assms(1)] assms(2) by (auto elim!: session_from_headers_accepted)

lemma locked_out_heartbeat:
  assumes "locked_out c s" and "heartbeat cr clock jti sid rq s = (Inr resp, s')"
  shows "hq_client_id rq \<noteq> c"
  using locked_out_usable [OF assms(1)] assms(2) by (auto elim!: heartbeat_accepted)

lemma locked_out_grant:
  assumes "locked_out c s"
    and "validate_execution_grant_for_artifact cr fs grant now s = (Inr (claims, a, p), st')"
  shows "eg_client_id claims \<noteq> c"
  using assms(2) by (rule validate_grant_accepted) (use locked_out_usable [OF assms(1)] in metis)


text \<open>
  C4: Closing a session ends it for good: in no later run does its token authorise a request, does a
  heartbeat renew it or does a grant of it validate.
\<close>

theorem closed_session_stays_closed:
  assumes "store_wf (ap_store s)" and "close_session clock0 sid au0 s = (Inr (), s1)"
    and "u = run cr evs s1"
  shows "(\<forall>se st. session_from_headers au now (ap_store u) = (Inr se, st) \<longrightarrow> se_session_id se \<noteq> sid)
    \<and> is_err (fst (heartbeat cr clock jti sid hrq u))
    \<and> (\<forall>claims a p st. validate_execution_grant_for_artifact cr fs grant now u = (Inr (claims, a, p), st)
          \<longrightarrow> eg_session_id claims \<noteq> sid)"
proof -
  obtain now0 se0 where "now_secs clock0 = Inr now0"
    and hdr: "session_from_headers au0 now0 (ap_store s) = (Inr se0, ap_store s)" "se_session_id se0 = sid"
    and s1: "s1 = s\<lparr>ap_store := snd (revoke_session sid (ap_store s))\<rparr>"
    using assms(2)
    by (auto simp: close_session_def split: sum.splits prod.splits if_splits elim: session_from_headers_accepted)
  obtain sid' where "session sid' (ap_store s) = Some se0"
    using hdr(1) by (rule session_from_headers_accepted)
  then obtain row where "row \<in> set (sessions (ap_store s))" "se_session_id row = sid"
    using hdr(2) by (auto elim!: session_SomeE)
  then have "session_revoked sid (ap_store s1)"
    by (auto simp: s1 revoke_session_revokes)
  moreover have "store_wf (ap_store s1)"
    using wf.stable [OF assms(1), of "OpRevokeSession sid"] by (simp add: s1)
  ultimately have u: "session_revoked sid (ap_store u)" "store_wf (ap_store u)"
    unfolding assms(3) by (simp_all add: run_session_revoked run_store_wf)
  have dead: "se_revoked se" if "session sid (ap_store u) = Some se" for se
    using session_of_revoked [OF u(2,1) that] .
  have "se_session_id se \<noteq> sid" if "session_from_headers au now (ap_store u) = (Inr se, st)" for se st
    using that by (rule session_from_headers_accepted) (use dead session_id in metis)
  moreover have "is_err (fst (heartbeat cr clock jti sid hrq u))"
  proof (rule ccontr)
    assume "\<not> ?thesis"
    then obtain resp s' where "heartbeat cr clock jti sid hrq u = (Inr resp, s')"
      by (metis is_err_simps(1) old.sum.exhaust prod.collapse)
    then show False by (rule heartbeat_accepted) (use dead in auto)
  qed
  moreover have "eg_session_id claims \<noteq> sid"
    if "validate_execution_grant_for_artifact cr fs grant now u = (Inr (claims, a, p), st)" for claims a p st
    using that by (rule validate_grant_accepted) (use dead in auto)
  ultimately show ?thesis by blast
qed

section \<open>The binding of a client\<close>

definition keyless :: "store_op \<Rightarrow> bool" where
  "keyless op \<longleftrightarrow> (case op of OpUpdateRegistration _ _ _ _ \<Rightarrow> False | _ \<Rightarrow> True)"

lemma keyless_simps [simp]:
  "keyless (OpConsumeNonce n t)" "keyless (OpRevokeSession sid)" "keyless (OpRevokeActiveSessions c t)"
  "keyless (OpCreateSession sid cl caps jti e t)" "keyless (OpRefreshSession sid caps jti e)"
  "routine T op \<Longrightarrow> keyless op"
  by (simp_all add: keyless_def routine_def split: store_op.splits)

lemma effect_keyless:
  assumes "\<And>rq. ev \<noteq> EvComplete rq"
  shows "effect keyless (ap_store s) (ap_store (serve cr clock ev s))"
proof (cases "session_event ev")
  case False
  show ?thesis by (rule effect_mono [OF effect_routine [OF False]]) simp
next
  case True
  then consider sid jti rq where "ev = EvSession sid jti rq" | jti sid rq where "ev = EvHeartbeat jti sid rq"
    using assms by (auto simp: session_event_def split: service_event.splits)
  then show ?thesis
  proof cases
    case 1
    then show ?thesis unfolding create_session_route_def Let_def case_prod_beta serve.simps
      by (auto simp: create_session_route_def Let_def case_prod_beta
          intro!: effects split: option.split sum.split bool.split)
  next
    case 2
    then show ?thesis
      by (auto simp: heartbeat_def Let_def case_prod_beta
          intro!: effects split: option.split sum.split bool.split)
  qed
qed

definition bound_to :: "string \<Rightarrow> string \<Rightarrow> string \<Rightarrow> client_key_algorithm \<Rightarrow> auth_store \<Rightarrow> bool" where
  "bound_to c dev key alg st \<longleftrightarrow>
    (\<exists>r \<in> set (clients st). cl_client_id r = c \<and> cl_device_id r = dev \<and> cl_device_public_key r = key
       \<and> cl_key_algorithm r = alg)"

lemma bound_to_keyless:
  "bound_to c dev key alg st \<Longrightarrow> keyless op \<Longrightarrow> bound_to c dev key alg (exec_op op st)"
  by (cases op) (auto simp: bound_to_def op_defs Let_def keyless_def intro!: bex_update_where)

lemma bound_to_effect:
  assumes "bound_to c dev key alg st" and "effect keyless st st'"
  shows "bound_to c dev key alg st'"
proof -
  obtain ops where "st' = fold exec_op ops st" "list_all keyless ops"
    using assms(2) by (auto simp: effect_def)
  moreover have "bound_to c dev key alg (fold exec_op ops st)" if "list_all keyless ops" for ops
    using that assms(1) by (induction ops arbitrary: st) (simp_all add: bound_to_keyless)
  ultimately show ?thesis by simp
qed

lemma client_bound:
  "store_wf st \<Longrightarrow> client c st = Some r \<Longrightarrow> bound_to c' dev key alg st \<Longrightarrow> c' = c \<Longrightarrow>
    cl_device_id r = dev \<and> cl_device_public_key r = key \<and> cl_key_algorithm r = alg"
  by (elim client_SomeE) (auto simp: bound_to_def store_wf_def dest: distinct_key_inject)

text \<open>Completing a registration writes back the key and the algorithm that it read.\<close>

lemma update_registration_same_key:
  assumes "store_wf st" and "client c st = Some r" and "bound_to c' dev key alg st"
  shows "bound_to c' dev key alg
    (snd (update_client_registration c (cl_device_public_key r) (cl_key_algorithm r) v st))"
proof (cases "c' = c")
  case True
  from client_bound [OF assms True] assms(3) show ?thesis
    by (auto simp: bound_to_def update_client_registration_def intro!: bex_update_where)
next
  case False
  with assms(3) show ?thesis
    by (auto simp: bound_to_def update_client_registration_def set_update_where)
qed

lemma take_challenge_clients [store_simps]:
  "clients (snd (take_registration_challenge c ch now st)) = clients st"
  by (simp add: take_registration_challenge_def Let_def)

lemma client_cong: "clients st' = clients st \<Longrightarrow> client c st' = client c st"
  by (simp add: client_def)

lemma complete_registration_cases:
  obtains "ap_store (snd (complete_registration cr clock rq s)) = ap_store s"
  | c now where "client (cq_client_id rq) (ap_store s) = Some c"
      and "ap_store (snd (complete_registration cr clock rq s)) =
         snd (take_registration_challenge (cq_client_id rq) (cq_challenge rq) now (ap_store s))"
  | c now v where "client (cq_client_id rq) (ap_store s) = Some c"
      and "ap_store (snd (complete_registration cr clock rq s)) =
         snd (update_client_registration (cl_client_id c) (cl_device_public_key c) (cl_key_algorithm c) v
           (snd (take_registration_challenge (cq_client_id rq) (cq_challenge rq) now (ap_store s))))"
proof (cases "client (cq_client_id rq) (ap_store s)")
  case None
  then show thesis by (intro that(1)) (simp add: complete_registration_def)
next
  case c: (Some c)
  show thesis
  proof (cases "now_secs clock")
    case (Inl e)
    with c show thesis by (intro that(1)) (simp add: complete_registration_def)
  next
    case now: (Inr now)
    let ?p = "take_registration_challenge (cq_client_id rq) (cq_challenge rq) now (ap_store s)"
    show thesis
    proof (cases "ap_store (snd (complete_registration cr clock rq s)) = ap_store s")
      case False
      then have eq: "ap_store (snd (complete_registration cr clock rq s)) =
          (case ?p of (None, st) \<Rightarrow> st | (Some v, st) \<Rightarrow>
             snd (update_client_registration (cl_client_id c) (cl_device_public_key c) (cl_key_algorithm c)
               (if blank v then cl_client_version c else v) st))"
        by (auto simp: complete_registration_def canonical_json_def Let_def c now
            split: option.splits prod.splits if_splits)
      show thesis
      proof (cases "fst ?p")
        case None
        with eq c show thesis by (intro that(2)) (simp_all add: case_prod_beta)
      next
        case (Some v)
        with eq c show thesis by (intro that(3)) (simp_all add: case_prod_beta)
      qed
    qed (rule that(1))
  qed
qed

lemma complete_registration_bound:
  assumes "store_wf (ap_store s)" and "bound_to c dev key alg (ap_store s)"
  shows "bound_to c dev key alg (ap_store (snd (complete_registration cr clock rq s)))"
proof (cases rule: complete_registration_cases [of cr clock rq s])
  case (3 r now v)
  define st where "st = snd (take_registration_challenge (cq_client_id rq) (cq_challenge rq) now (ap_store s))"
  have "store_wf st"
    using wf.stable [OF assms(1), of "OpTakeChallenge (cq_client_id rq) (cq_challenge rq) now"]
    by (simp add: st_def)
  moreover have "client (cl_client_id r) st = Some r"
    using 3(1) client_id [OF 3(1)] by (simp add: st_def client_def take_challenge_clients)
  moreover have "bound_to c dev key alg st"
    using assms(2) by (simp add: st_def bound_to_def take_challenge_clients)
  ultimately show ?thesis
    using 3(2) by (simp add: st_def update_registration_same_key)
qed (use assms(2) in \<open>simp_all add: bound_to_def take_challenge_clients\<close>)

lemma bound_to_serve:
  assumes "store_wf (ap_store s)" and "bound_to c dev key alg (ap_store s)"
  shows "bound_to c dev key alg (ap_store (serve cr clock ev s))"
proof (cases "\<exists>rq. ev = EvComplete rq")
  case True
  then show ?thesis using complete_registration_bound [OF assms] by auto
next
  case False
  then show ?thesis using bound_to_effect [OF assms(2) effect_keyless] by blast
qed

definition well_bound :: "string \<Rightarrow> string \<Rightarrow> string \<Rightarrow> client_key_algorithm \<Rightarrow> app_state \<Rightarrow> bool" where
  "well_bound c dev key alg s \<longleftrightarrow> store_wf (ap_store s) \<and> bound_to c dev key alg (ap_store s)"

interpretation srv_bound: stable_fact "\<lambda>(clock, ev). serve cr clock ev" "well_bound c dev key alg"
  for cr c dev key alg
  by unfold_locales (auto simp: well_bound_def bound_to_serve serve_store_wf)

text \<open>
  C5: The device, the public key and the key algorithm that a client registered with never change:
  after every run of requests and administration commands the client is still there, bound to the
  same device and key.
\<close>

theorem client_binding_fixed:
  assumes "store_wf (ap_store s)" and "client c (ap_store s) = Some r"
  shows "\<exists>r'. client c (ap_store (run cr evs s)) = Some r' \<and> cl_device_id r' = cl_device_id r
    \<and> cl_device_public_key r' = cl_device_public_key r \<and> cl_key_algorithm r' = cl_key_algorithm r"
proof -
  let ?st = "ap_store (run cr evs s)"
  have "well_bound c (cl_device_id r) (cl_device_public_key r) (cl_key_algorithm r) s"
    using assms by (auto simp: well_bound_def bound_to_def elim!: client_SomeE)
  then have wb: "well_bound c (cl_device_id r) (cl_device_public_key r) (cl_key_algorithm r) (run cr evs s)"
    unfolding run_def by (rule srv_bound.stable_run)
  then have "find (\<lambda>r. cl_client_id r = c) (clients ?st) \<noteq> None"
    by (auto simp: well_bound_def bound_to_def find_None_iff)
  then obtain r' where r': "client c ?st = Some r'" by (auto simp: client_def)
  with wb client_bound [OF _ r' _ refl] show ?thesis by (auto simp: well_bound_def)
qed

end
