(* ===== verification/Auth_Reachable.thy ===== *)
theory Auth_Reachable imports Auth_Sessions begin

text \<open>
  The states that the service reaches from its start with an empty database while the clock does
  not go back, and the invariants of those states.
\<close>

section \<open>Reachable states\<close>

text \<open>\<open>reachable cr t s\<close>: the service can be in state \<open>s\<close> when the last clock reading was \<open>t\<close>.\<close>

inductive reachable :: "crates \<Rightarrow> i64 \<Rightarrow> app_state \<Rightarrow> bool" for cr :: crates where
  start: "reachable cr t (with_transfer_limit in_memory authority root limit)"
| serve: "reachable cr t s \<Longrightarrow> now_secs clock = Inr now \<Longrightarrow> t \<le> now \<Longrightarrow>
    reachable cr now (Auth_Protocol.serve cr clock ev s)"

lemma reachable_store_wf: "reachable cr t s \<Longrightarrow> store_wf (ap_store s)"
  by (induction rule: reachable.induct)
    (simp_all add: with_transfer_limit_def store_wf_in_memory serve_store_wf)

section \<open>One active session for each client\<close>

definition active_sessions :: "string \<Rightarrow> i64 \<Rightarrow> auth_store \<Rightarrow> session_row list" where
  "active_sessions c t st = filter (\<lambda>r. se_client_id r = c \<and> \<not> se_revoked r \<and> se_exp r > t) (sessions st)"

definition one_active :: "i64 \<Rightarrow> auth_store \<Rightarrow> bool" where
  "one_active t st \<longleftrightarrow> (\<forall>c. length (active_sessions c t st) \<le> 1)"

lemma length_filter_imp: "(\<And>x. x \<in> set xs \<Longrightarrow> P x \<Longrightarrow> Q x) \<Longrightarrow> length (filter P xs) \<le> length (filter Q xs)"
  by (induction xs) auto

lemma one_active_later:
  assumes "one_active t st" and "t \<le> t'"
  shows "one_active t' st"
  unfolding one_active_def
proof
  fix c
  have "length (active_sessions c t' st) \<le> length (active_sessions c t st)"
    unfolding active_sessions_def by (rule length_filter_imp) (use assms(2) in auto)
  then show "length (active_sessions c t' st) \<le> 1" using assms(1) by (meson le_trans one_active_def)
qed

lemma length_filter_update_where:
  "(\<And>x. x \<in> set xs \<Longrightarrow> R x \<Longrightarrow> P (f x) \<Longrightarrow> P x) \<Longrightarrow>
    length (filter P (update_where R f xs)) \<le> length (filter P xs)"
  by (induction xs) (auto simp: update_where_def)

lemma one_active_update:
  assumes "one_active t st" and "sessions st' = update_where R f (sessions st)"
    and "\<And>x. x \<in> set (sessions st) \<Longrightarrow> R x \<Longrightarrow> se_client_id (f x) = se_client_id x \<and>
      (\<not> se_revoked (f x) \<and> se_exp (f x) > t \<longrightarrow> \<not> se_revoked x \<and> se_exp x > t)"
  shows "one_active t st'"
  unfolding one_active_def
proof
  fix c
  have "length (active_sessions c t st') \<le> length (active_sessions c t st)"
    unfolding active_sessions_def assms(2)
    by (rule length_filter_update_where) (use assms(3) in auto)
  then show "length (active_sessions c t st') \<le> 1" using assms(1) by (meson le_trans one_active_def)
qed

lemma one_active_revoke:
  assumes "one_active t st" and "sessions st' = update_where R (\<lambda>r. r\<lparr>se_revoked := True\<rparr>) (sessions st)"
  shows "one_active t st'"
  by (rule one_active_update [OF assms]) simp

lemma one_active_same: "sessions st' = sessions st \<Longrightarrow> one_active t st' = one_active t st"
  by (simp add: one_active_def active_sessions_def)

lemma one_active_exec:
  assumes "one_active t st" and "routine T op"
  shows "one_active t (exec_op op st)"
  using assms(2)
  by (cases op)
    (auto simp: routine_def op_defs Let_def intro: one_active_update [OF assms(1)]
      one_active_same [THEN iffD2, OF _ assms(1)])

lemma one_active_effect:
  assumes "one_active t st" and "effect (routine T) st st'"
  shows "one_active t st'"
proof -
  obtain ops where st': "st' = fold exec_op ops st" and ops: "list_all (routine T) ops"
    using assms(2) by (auto simp: effect_def)
  have "one_active t (fold exec_op ops st)"
    using ops assms(1) by (induction ops arbitrary: st) (auto intro: one_active_exec)
  then show ?thesis by (simp add: st')
qed

lemma one_active_consume: "one_active t (snd (consume_nonce n now st)) = one_active t st"
  by (rule one_active_same) (simp add: store_simps)

lemma create_session_sessions:
  "sessions (snd (create_session sid c caps jti e now st)) = sessions st
    \<or> (\<exists>r. sessions (snd (create_session sid c caps jti e now st)) = sessions st @ [r]
          \<and> se_client_id r = cl_client_id c)"
  by (simp add: create_session_def)

lemma take_challenge_sessions [store_simps]:
  "sessions (snd (take_registration_challenge c ch now st)) = sessions st"
  by (simp add: take_registration_challenge_def Let_def)

text \<open>Opening a session revokes the active ones of the client first.\<close>

lemma one_active_open:
  assumes "one_active t st"
  shows "one_active t (snd (create_session sid c caps jti e now (revoke_active_sessions_for_client (cl_client_id c) t st)))"
    (is "one_active t ?st'")
proof -
  let ?st1 = "revoke_active_sessions_for_client (cl_client_id c) t st"
  have one1: "one_active t ?st1"
    by (rule one_active_revoke [OF assms]) (simp add: revoke_active_sessions_for_client_def)
  have none: "active_sessions (cl_client_id c) t ?st1 = []"
    by (auto simp: active_sessions_def revoke_active_sessions_for_client_def filter_empty_conv set_update_where)
  show ?thesis
  proof (cases "sessions ?st' = sessions ?st1")
    case True
    show ?thesis unfolding one_active_same [OF True] by (rule one1)
  next
    case False
    then obtain r where "sessions ?st' = sessions ?st1 @ [r]" "se_client_id r = cl_client_id c"
      using create_session_sessions [of sid c caps jti e now ?st1] by auto
    then have split_active: "active_sessions d t ?st' = active_sessions d t ?st1 @
        (if cl_client_id c = d \<and> \<not> se_revoked r \<and> t < se_exp r then [r] else [])" for d
      by (simp add: active_sessions_def)
    have "length (active_sessions d t ?st') \<le> 1" for d
    proof (cases "d = cl_client_id c")
      case True
      then show ?thesis by (simp only: split_active none) simp
    next
      case False
      then show ?thesis using one1 unfolding one_active_def split_active by simp
    qed
    then show ?thesis by (simp add: one_active_def)
  qed
qed

lemma create_session_route_store:
  assumes "now_secs clock = Inr now"
  shows "ap_store (snd (create_session_route cr clock sid jti rq s)) = ap_store s
    \<or> ap_store (snd (create_session_route cr clock sid jti rq s)) =
        snd (consume_nonce (sq_nonce rq) now (ap_store s))
    \<or> (\<exists>c. ap_store (snd (create_session_route cr clock sid jti rq s)) =
        snd (create_session sid c (sq_capabilities rq) jti (saturating_add_i64 now LEASE_MAX_SECS) now
          (revoke_active_sessions_for_client (cl_client_id c) now
            (snd (consume_nonce (sq_nonce rq) now (ap_store s))))))"
  using assms unfolding create_session_route_def Let_def case_prod_beta
  by (auto split: option.split sum.split bool.split)

lemma one_active_create:
  assumes "one_active now (ap_store s)" and "now_secs clock = Inr now"
  shows "one_active now (ap_store (snd (create_session_route cr clock sid jti rq s)))"
  using create_session_route_store [OF assms(2), of cr sid jti rq s] assms(1)
  by (auto simp: one_active_consume one_active_open)

lemma heartbeat_store:
  assumes "now_secs clock = Inr now"
  shows "effect (routine {now}) (ap_store s) (ap_store (snd (heartbeat cr clock jti sid rq s)))
    \<or> (\<exists>se. session sid (ap_store s) = Some se \<and> now < se_exp se \<and> \<not> se_revoked se \<and>
        ap_store (snd (heartbeat cr clock jti sid rq s)) =
        snd (refresh_session sid (se_capabilities se) jti (saturating_add_i64 now LEASE_MAX_SECS)
            (snd (consume_nonce (hq_nonce rq) now (ap_store s)))))"
  using assms unfolding heartbeat_def Let_def case_prod_beta
  by (auto simp: routine_def intro!: effects split: option.split sum.split bool.split)

lemma one_active_refresh:
  assumes "one_active t st" and "store_wf st" and "session sid st = Some se" and "t < se_exp se"
  shows "one_active t (snd (refresh_session sid caps jti e st))"
proof -
  obtain row where row: "row \<in> set (sessions st)" "se_session_id row = sid" "t < se_exp row"
    using assms(3,4) by (auto elim!: session_SomeE)
  have "t < se_exp x" if "x \<in> set (sessions st)" "se_session_id x = sid" for x
    using distinct_key_inject [of se_session_id "sessions st" x row] assms(2) row that
    by (simp add: store_wf_def)
  then show ?thesis
    by (auto simp: refresh_session_def Let_def assms(1) intro!: one_active_update [OF assms(1)])
qed

lemma one_active_heartbeat:
  assumes "one_active now (ap_store s)" and "store_wf (ap_store s)" and "now_secs clock = Inr now"
  shows "one_active now (ap_store (snd (heartbeat cr clock jti sid rq s)))"
  using heartbeat_store [OF assms(3), of s cr jti sid rq]
proof (elim disjE exE conjE)
  assume "effect (routine {now}) (ap_store s) (ap_store (snd (heartbeat cr clock jti sid rq s)))"
  with assms(1) show ?thesis by (rule one_active_effect)
next
  fix se
  let ?st = "snd (consume_nonce (hq_nonce rq) now (ap_store s))"
  assume se: "session sid (ap_store s) = Some se" "now < se_exp se"
    and eq: "ap_store (snd (heartbeat cr clock jti sid rq s)) =
        snd (refresh_session sid (se_capabilities se) jti (saturating_add_i64 now LEASE_MAX_SECS) ?st)"
  have "one_active now ?st" "store_wf ?st" "session sid ?st = Some se"
    using assms(1,2) se(1) by (simp_all add: one_active_consume store_wf_consume session_def store_simps)
  then show ?thesis unfolding eq by (rule one_active_refresh) (rule se(2))
qed

lemma one_active_serve:
  assumes "one_active now (ap_store s)" and "store_wf (ap_store s)" and "now_secs clock = Inr now"
  shows "one_active now (ap_store (Auth_Protocol.serve cr clock ev s))"
proof (cases "session_event ev")
  case False
  show ?thesis by (rule one_active_effect [OF assms(1) effect_routine [OF False]])
next
  case True
  then consider sid jti rq where "ev = EvSession sid jti rq" | jti sid rq where "ev = EvHeartbeat jti sid rq"
    | rq where "ev = EvComplete rq"
    by (auto simp: session_event_def split: service_event.splits)
  then show ?thesis
  proof cases
    case 3
    have *: "one_active now (snd (update_client_registration c k alg v (snd (take_registration_challenge c' ch t st))))"
      if "one_active now st" for c k alg v c' ch t st
      by (rule one_active_revoke [OF that])
        (simp add: update_client_registration_def store_simps)
    show ?thesis
      using assms(1) by (cases rule: complete_registration_cases [of cr clock rq s])
        (simp_all add: 3 * one_active_same [OF take_challenge_sessions])
  qed (simp_all add: one_active_create one_active_heartbeat assms)
qed


end
