(* ===== verification/Crate_Laws.thy ===== *)
theory Crate_Laws imports Auth_Artifact begin

text \<open>
  What the properties rely on of the third-party crates, as named hypotheses on the record
  \<open>crates\<close>: the documented behaviour of base64, Ed25519, X25519, HKDF, ChaCha20-Poly1305, SHA-256
  and serde\_json. \<open>demo_crates\<close> is a small concrete instance for which all of them hold.
\<close>

section \<open>The laws\<close>

definition b64_law :: "crates \<Rightarrow> bool" where
  "b64_law cr \<longleftrightarrow> (\<forall>bs. b64_decode cr (b64_encode cr bs) = Inr bs)"

definition ed25519_law :: "crates \<Rightarrow> bool" where
  "ed25519_law cr \<longleftrightarrow>
    (\<forall>sk. length sk = 32 \<longrightarrow> length (ed25519_public cr sk) = 32
       \<and> ed25519_key cr (ed25519_public cr sk) = Inr (ed25519_public cr sk)
       \<and> (\<forall>m. ed25519_signature cr (ed25519_sign cr sk m) = Inr (ed25519_sign cr sk m)
            \<and> ed25519_verify cr (ed25519_public cr sk) m (ed25519_sign cr sk m)))"

definition x25519_law :: "crates \<Rightarrow> bool" where
  "x25519_law cr \<longleftrightarrow>
    (\<forall>a b. length a = 32 \<longrightarrow> length b = 32 \<longrightarrow>
       length (x25519_public cr a) = 32
       \<and> x25519_dh cr a (x25519_public cr b) = x25519_dh cr b (x25519_public cr a))"

definition hkdf_law :: "crates \<Rightarrow> bool" where
  "hkdf_law cr \<longleftrightarrow> (\<forall>salt ikm info. \<exists>key. hkdf_expand cr salt ikm info 32 = Some key \<and> length key = 32)"

definition aead_law :: "crates \<Rightarrow> bool" where
  "aead_law cr \<longleftrightarrow>
    (\<forall>key nonce aad m. length key = 32 \<longrightarrow> length nonce = 12 \<longrightarrow>
       (\<exists>c. chacha_encrypt cr key nonce aad m = Some c \<and> chacha_decrypt cr key nonce aad c = Some m))"

definition sha256_law :: "crates \<Rightarrow> bool" where
  "sha256_law cr \<longleftrightarrow> (\<forall>m. length (sha256_digest cr m) = 32)"

definition in_i64 :: "int \<Rightarrow> bool" where
  "in_i64 x \<longleftrightarrow> i64_min \<le> x \<and> x \<le> i64_max"

definition serde_law :: "crates \<Rightarrow> bool" where
  "serde_law cr \<longleftrightarrow>
    (\<forall>c. in_i64 (eg_iat c) \<longrightarrow> in_i64 (eg_exp c) \<longrightarrow>
       grant_claims_from_slice cr (json_to_vec cr (execution_grant_claims_json c)) = Inr c)"

definition receipt_serde_law :: "crates \<Rightarrow> bool" where
  "receipt_serde_law cr \<longleftrightarrow>
    (\<forall>c. in_i64 (rc_iat c) \<longrightarrow> in_i64 (rc_exp c) \<longrightarrow>
       receipt_claims_from_slice cr (json_to_vec cr (receipt_claims_json c)) = Inr c)"

section \<open>An instance\<close>

text \<open>
  A tagged binary form of JSON values in place of serde's text, and its reader for objects whose
  fields are strings and integers.
\<close>

fun enc_string :: "string \<Rightarrow> bytes" where
  "enc_string [] = [0]"
| "enc_string (c # cs) = 1 # of_char c # enc_string cs"

fun dec_string_bytes :: "bytes \<Rightarrow> (string \<times> bytes) option" where
  "dec_string_bytes (t # rest) =
     (if t = 0 then Some ([], rest)
      else case rest of [] \<Rightarrow> None | b # rest' \<Rightarrow>
        map_option (\<lambda>(s, r). (char_of (unat b) # s, r)) (dec_string_bytes rest'))"
| "dec_string_bytes [] = None"

definition enc_int :: "int \<Rightarrow> bytes" where
  "enc_int i = (if i < 0 then 1 else 0) # replicate (nat \<bar>i\<bar>) 1 @ [0]"

definition dec_int :: "bytes \<Rightarrow> int \<times> bytes" where
  "dec_int bs = (let n = length (takeWhile (\<lambda>b. b = 1) (tl bs)) in
     (if hd bs = 1 then - int n else int n, drop (n + 2) bs))"

fun json_bytes :: "json \<Rightarrow> bytes" where
  "json_bytes (JString s) = 1 # enc_string s"
| "json_bytes (JInt i) = 2 # enc_int i"
| "json_bytes (JArray vs) = 3 # concat (map (\<lambda>v. 1 # json_bytes v) vs) @ [0]"
| "json_bytes (JObject kvs) = 123 # concat (map (\<lambda>(k, v). 1 # enc_string k @ json_bytes v) kvs) @ [0]"

fun read_fields :: "nat \<Rightarrow> bytes \<Rightarrow> (string + int) list option" where
  "read_fields 0 bs = Some []"
| "read_fields (Suc n) bs = (case dec_string_bytes (tl bs) of
     None \<Rightarrow> None
   | Some (_, rest) \<Rightarrow> (case rest of
       [] \<Rightarrow> None
     | t # rest' \<Rightarrow>
       if t = 1 then (case dec_string_bytes rest' of
           None \<Rightarrow> None | Some (s, rest'') \<Rightarrow> map_option ((#) (Inl s)) (read_fields n rest''))
       else map_option ((#) (Inr (fst (dec_int rest')))) (read_fields n (snd (dec_int rest')))))"

lemma dec_enc_string [simp]: "dec_string_bytes (enc_string s @ rest) = Some (s, rest)"
  by (induction s) simp_all

lemma dec_enc_int [simp]: "dec_int (enc_int i @ rest) = (i, rest)"
proof -
  have "takeWhile (\<lambda>b. b = 1) (replicate n 1 @ 0 # rest) = replicate n (1 :: u8)" for n
    by (induction n) simp_all
  then show ?thesis by (simp add: dec_int_def enc_int_def Let_def)
qed

definition enc_field :: "string \<times> (string + int) \<Rightarrow> bytes" where
  "enc_field f = 1 # enc_string (fst f) @ json_bytes (case snd f of Inl s \<Rightarrow> JString s | Inr i \<Rightarrow> JInt i)"

lemma read_fields_enc: "read_fields (length fs) (concat (map enc_field fs) @ rest) = Some (map snd fs)"
  by (induction fs) (auto simp: enc_field_def split: sum.splits)

text \<open>The form is unambiguous, also in front of other bytes.\<close>

lemma enc_string_prefix: "enc_string s @ r = enc_string t @ r' \<Longrightarrow> s = t \<and> r = r'"
  by (metis dec_enc_string option.inject prod.inject)

lemma enc_int_prefix: "enc_int i @ r = enc_int j @ r' \<Longrightarrow> i = j \<and> r = r'"
  by (metis dec_enc_int prod.inject)

lemma items_prefix:
  assumes "\<And>x y r r'. x \<in> set xs \<Longrightarrow> e x @ r = e y @ r' \<Longrightarrow> x = y \<and> r = r'"
    and "concat (map (\<lambda>x. (1 :: u8) # e x) xs) @ 0 # r = concat (map (\<lambda>x. 1 # e x) ys) @ 0 # r'"
  shows "xs = ys \<and> r = r'"
  using assms
proof (induction xs arbitrary: ys)
  case Nil
  then show ?case by (cases ys) simp_all
next
  case (Cons x xs)
  from Cons.prems(2) obtain y ys' where ys: "ys = y # ys'" by (cases ys) simp_all
  have "e x @ (concat (map (\<lambda>x. 1 # e x) xs) @ 0 # r) = e y @ (concat (map (\<lambda>x. 1 # e x) ys') @ 0 # r')"
    using Cons.prems(2) unfolding ys by simp
  from Cons.prems(1) [OF _ this] have "x = y"
    and rest: "concat (map (\<lambda>x. 1 # e x) xs) @ 0 # r = concat (map (\<lambda>x. 1 # e x) ys') @ 0 # r'" by simp_all
  moreover have "xs = ys' \<and> r = r'" by (rule Cons.IH [OF _ rest]) (use Cons.prems(1) in auto)
  ultimately show ?case by (simp add: ys)
qed

lemma json_bytes_prefix: "json_bytes v @ r = json_bytes w @ r' \<Longrightarrow> v = w \<and> r = r'"
proof (induction v arbitrary: w r r')
  case (JString s)
  then show ?case by (cases w) (auto dest: enc_string_prefix)
next
  case (JInt i)
  then show ?case by (cases w) (auto dest: enc_int_prefix)
next
  case (JArray vs)
  then obtain ws where w: "w = JArray ws" by (cases w) auto
  have "vs = ws \<and> r = r'" using items_prefix [of vs json_bytes r ws r'] JArray unfolding w by simp
  then show ?case by (simp add: w)
next
  case (JObject kvs)
  then obtain ws where w: "w = JObject ws" by (cases w) auto
  define e where "e = (\<lambda>kv. enc_string (fst kv) @ json_bytes (snd kv))"
  have e: "json_bytes (JObject kvs) = 123 # concat (map (\<lambda>kv. 1 # e kv) kvs) @ [0]" for kvs
    by (simp add: e_def case_prod_unfold)
  have "kvs = ws \<and> r = r'"
  proof (rule items_prefix [where e = e])
    show "concat (map (\<lambda>x. 1 # e x) kvs) @ 0 # r = concat (map (\<lambda>x. 1 # e x) ws) @ 0 # r'"
      using JObject.prems unfolding w e by simp
    fix x y q q' assume x: "x \<in> set kvs" and eq: "e x @ q = e y @ q'"
    from eq have "fst x = fst y" and v: "json_bytes (snd x) @ q = json_bytes (snd y) @ q'"
      using enc_string_prefix [of "fst x" "json_bytes (snd x) @ q" "fst y" "json_bytes (snd y) @ q'"]
      by (simp_all add: e_def)
    moreover have "snd x \<in> Basic_BNFs.snds x" by (cases x) simp
    ultimately show "x = y \<and> q = q'" using JObject.IH [OF x _ v] by (simp add: prod_eq_iff)
  qed
  then show ?case by (simp add: w)
qed

lemma json_bytes_inj: "inj json_bytes"
  using json_bytes_prefix [of _ "[]" _ "[]"] by (simp add: inj_def)

definition grant_of_fields :: "(string + int) list \<Rightarrow> execution_grant_claims option" where
  "grant_of_fields fs = (case fs of
     [Inl a, Inl b, Inl c, Inl d, Inl e, Inl f, Inl g, Inl h, Inl i, Inl j, Inl k, Inr l, Inr m, Inl n, Inl p] \<Rightarrow>
       Some \<lparr>eg_iss = a, eg_aud = b, eg_client_id = c, eg_device_id = d, eg_session_id = e,
         eg_client_version = f, eg_artifact_id = g, eg_artifact_sha256 = h, eg_action = i, eg_vm = j,
         eg_instance = k, eg_iat = l, eg_exp = m, eg_jti = n, eg_nonce = p\<rparr>
   | _ \<Rightarrow> None)"

definition demo_grant_from_slice :: "bytes \<Rightarrow> string + execution_grant_claims" where
  "demo_grant_from_slice bs = (case read_fields 15 (tl bs) of
     None \<Rightarrow> Inl ''not an object''
   | Some fs \<Rightarrow> (case grant_of_fields fs of None \<Rightarrow> Inl ''wrong fields'' | Some c \<Rightarrow> Inr c))"

lemma demo_grant_roundtrip: "demo_grant_from_slice (json_bytes (execution_grant_claims_json c)) = Inr c"
proof -
  define fs :: "(string \<times> (string + int)) list" where "fs = [(''iss'', Inl (eg_iss c)), (''aud'', Inl (eg_aud c)),
     (''client_id'', Inl (eg_client_id c)), (''device_id'', Inl (eg_device_id c)),
     (''session_id'', Inl (eg_session_id c)), (''client_version'', Inl (eg_client_version c)),
     (''artifact_id'', Inl (eg_artifact_id c)), (''artifact_sha256'', Inl (eg_artifact_sha256 c)),
     (''action'', Inl (eg_action c)), (''vm'', Inl (eg_vm c)), (''instance'', Inl (eg_instance c)),
     (''iat'', Inr (eg_iat c)), (''exp'', Inr (eg_exp c)),
     (''jti'', Inl (eg_jti c)), (''nonce'', Inl (eg_nonce c))]"
  have len: "length fs = 15" by (simp add: fs_def)
  have enc: "tl (json_bytes (execution_grant_claims_json c)) = concat (map enc_field fs) @ [0]"
    by (simp add: fs_def execution_grant_claims_json_def enc_field_def del: enc_string.simps)
  note dec = read_fields_enc [of fs "[0]", unfolded len]
  have "grant_of_fields (map snd fs) = Some c"
    by (simp add: fs_def grant_of_fields_def)
  then show ?thesis by (simp only: demo_grant_from_slice_def enc dec option.case)
qed

definition receipt_of_fields :: "(string + int) list \<Rightarrow> receipt_claims option" where
  "receipt_of_fields fs = (case fs of
     [Inl a, Inl b, Inl c, Inl d, Inl e, Inl f, Inl g, Inl h, Inl i, Inl j, Inl k, Inl l, Inr m, Inr n] \<Rightarrow>
       Some \<lparr>rc_iss = a, rc_aud = b, rc_client_id = c, rc_device_id = d, rc_session_id = e,
         rc_client_version = f, rc_artifact_id = g, rc_artifact_sha256 = h, rc_action = i, rc_vm = j,
         rc_instance = k, rc_grant_jti = l, rc_iat = m, rc_exp = n\<rparr>
   | _ \<Rightarrow> None)"

definition demo_receipt_from_slice :: "bytes \<Rightarrow> string + receipt_claims" where
  "demo_receipt_from_slice bs = (case read_fields 14 (tl bs) of
     None \<Rightarrow> Inl ''not an object''
   | Some fs \<Rightarrow> (case receipt_of_fields fs of None \<Rightarrow> Inl ''wrong fields'' | Some c \<Rightarrow> Inr c))"

lemma demo_receipt_roundtrip: "demo_receipt_from_slice (json_bytes (receipt_claims_json c)) = Inr c"
proof -
  define fs :: "(string \<times> (string + int)) list" where "fs = [(''iss'', Inl (rc_iss c)), (''aud'', Inl (rc_aud c)),
     (''client_id'', Inl (rc_client_id c)), (''device_id'', Inl (rc_device_id c)),
     (''session_id'', Inl (rc_session_id c)), (''client_version'', Inl (rc_client_version c)),
     (''artifact_id'', Inl (rc_artifact_id c)), (''artifact_sha256'', Inl (rc_artifact_sha256 c)),
     (''action'', Inl (rc_action c)), (''vm'', Inl (rc_vm c)), (''instance'', Inl (rc_instance c)),
     (''grant_jti'', Inl (rc_grant_jti c)), (''iat'', Inr (rc_iat c)), (''exp'', Inr (rc_exp c))]"
  have len: "length fs = 14" by (simp add: fs_def)
  have enc: "tl (json_bytes (receipt_claims_json c)) = concat (map enc_field fs) @ [0]"
    by (simp add: fs_def receipt_claims_json_def enc_field_def del: enc_string.simps)
  note dec = read_fields_enc [of fs "[0]", unfolded len]
  have "receipt_of_fields (map snd fs) = Some c"
    by (simp add: fs_def receipt_of_fields_def)
  then show ?thesis by (simp only: demo_receipt_from_slice_def enc dec option.case)
qed

definition demo_crates :: crates where
  "demo_crates =
    \<lparr>b64_encode = map (\<lambda>b. char_of (unat b)), b64_decode = (\<lambda>s. Inr (as_bytes s)),
     json_to_vec = json_bytes, grant_claims_from_slice = demo_grant_from_slice,
     receipt_claims_from_slice = demo_receipt_from_slice,
     sha256_digest = (\<lambda>m. take 32 (m @ replicate 32 0)),
     ed25519_public = (\<lambda>sk. sk), ed25519_sign = (\<lambda>sk m. sk @ m), ed25519_key = Inr,
     ed25519_signature = Inr, ed25519_verify = (\<lambda>pk m sig. sig = pk @ m),
     p256_key = Inr, p256_signature = Inr, p256_verify_prehash = (\<lambda>pk d sig. sig = pk @ d),
     x25519_public = (\<lambda>a. a), x25519_dh = (\<lambda>a b. map2 (+) a b),
     hkdf_expand = (\<lambda>salt ikm info n. Some (take n (ikm @ info @ salt @ replicate n 0))),
     chacha_encrypt = (\<lambda>key nonce aad m. Some (key @ nonce @ aad @ m)),
     chacha_decrypt = (\<lambda>key nonce aad c.
       if take (length (key @ nonce @ aad)) c = key @ nonce @ aad
       then Some (drop (length (key @ nonce @ aad)) c) else None)\<rparr>"

lemma demo_crates_sel [simp]:
  "b64_encode demo_crates = map (\<lambda>b. char_of (unat b))" "b64_decode demo_crates = (\<lambda>s. Inr (as_bytes s))"
  "json_to_vec demo_crates = json_bytes" "grant_claims_from_slice demo_crates = demo_grant_from_slice"
  "receipt_claims_from_slice demo_crates = demo_receipt_from_slice"
  "sha256_digest demo_crates = (\<lambda>m. take 32 (m @ replicate 32 0))"
  "ed25519_public demo_crates = (\<lambda>sk. sk)" "ed25519_sign demo_crates = (\<lambda>sk m. sk @ m)"
  "ed25519_key demo_crates = Inr" "ed25519_signature demo_crates = Inr"
  "ed25519_verify demo_crates = (\<lambda>pk m sig. sig = pk @ m)"
  "p256_key demo_crates = Inr" "p256_signature demo_crates = Inr"
  "p256_verify_prehash demo_crates = (\<lambda>pk d sig. sig = pk @ d)"
  "x25519_public demo_crates = (\<lambda>a. a)" "x25519_dh demo_crates = (\<lambda>a b. map2 (+) a b)"
  "hkdf_expand demo_crates = (\<lambda>salt ikm info n. Some (take n (ikm @ info @ salt @ replicate n 0)))"
  "chacha_encrypt demo_crates = (\<lambda>key nonce aad m. Some (key @ nonce @ aad @ m))"
  "chacha_decrypt demo_crates = (\<lambda>key nonce aad c.
       if take (length (key @ nonce @ aad)) c = key @ nonce @ aad
       then Some (drop (length (key @ nonce @ aad)) c) else None)"
  by (simp_all add: demo_crates_def)

lemma as_bytes_chars [simp]: "as_bytes (map (\<lambda>b. char_of (unat b)) bs) = bs"
proof -
  have "(of_char (char_of (unat b)) :: u8) = b" for b :: u8
  proof -
    have "unat b < 256" using unsigned_less [of b] by simp
    then have "unat (of_char (char_of (unat b)) :: u8) = unat b" by (simp add: of_char_of)
    then show ?thesis by (rule word_unat_eq_iff [THEN iffD2])
  qed
  then show ?thesis by (simp add: as_bytes_def comp_def)
qed

lemma demo_laws:
  "b64_law demo_crates" "ed25519_law demo_crates" "x25519_law demo_crates" "hkdf_law demo_crates"
  "aead_law demo_crates" "sha256_law demo_crates" "serde_law demo_crates" "receipt_serde_law demo_crates"
proof -
  show "b64_law demo_crates" by (simp add: b64_law_def)
  show "ed25519_law demo_crates" by (simp add: ed25519_law_def)
  have "map2 (+) a b = map2 (+) b a" for a b :: bytes
    by (rule nth_equalityI) (auto simp: add.commute)
  then show "x25519_law demo_crates" by (simp add: x25519_law_def)
  show "hkdf_law demo_crates" unfolding hkdf_law_def demo_crates_sel by (auto simp: min_def)
  show "aead_law demo_crates" by (simp add: aead_law_def)
  show "sha256_law demo_crates" by (auto simp: sha256_law_def min_def)
  show "serde_law demo_crates" by (simp add: serde_law_def demo_grant_roundtrip)
  show "receipt_serde_law demo_crates" by (simp add: receipt_serde_law_def demo_receipt_roundtrip)
qed

end
