(* ===== verification/Auth_Grants.thy ===== *)
theory Auth_Grants imports Auth_Safety Crate_Laws begin

text \<open>
  Execution grants from issue to consumption: what an issued grant contains and how long it lives,
  what a release hands out, and that the service accepts the grants it issued.
\<close>

section \<open>Issuing\<close>

lemma issue_accepted:
  assumes "issue_execution_grant cr clock fs jti au rq s = (Inr g, s')"
  obtains now se c a p sz sha where "now_secs clock = Inr now"
    and "session_from_headers au now (ap_store s) = (Inr se, ap_store s)"
    and "ProtectedPreset \<in> set (se_capabilities se)" and "ProtectedArtifact \<in> set (se_capabilities se)"
    and "client (se_client_id se) (ap_store s) = Some c"
    and "\<not> grant_request_invalid rq now"
    and "verify_client_signature cr (cl_key_algorithm c) (cl_device_public_key c)
          (json_to_vec cr (execution_grant_proof_json (grant_request_proof rq))) (gq_signature rq) = Inr ()"
    and "artifact (gq_artifact_id rq) (ap_store s) = Some a"
    and "artifact_allows_execution_action (ar_artifact_id a) (gq_action rq)"
    and "safe_artifact_path fs (ap_artifact_root s) a = Inr p"
    and "sha256_file cr fs p = Inr (sz, sha)"
    and "gq_artifact_sha256 rq = [] \<or> gq_artifact_sha256 rq = sha"
    and "consume_nonce (gq_nonce rq) now (ap_store s) = (True, ap_store s')"
    and "\<not> min (se_exp se) (saturating_add_i64 now EXECUTION_GRANT_TTL_SECS) \<le> now"
    and "g = sign_execution_grant cr (ap_authority s)
       \<lparr>eg_iss = ''rdc-auth'', eg_aud = ''rdc-guest-runner'',
        eg_client_id = cl_client_id c, eg_device_id = se_device_id se,
        eg_session_id = se_session_id se, eg_client_version = cl_client_version c,
        eg_artifact_id = gq_artifact_id rq, eg_artifact_sha256 = sha,
        eg_action = gq_action rq, eg_vm = gq_vm rq,
        eg_instance = gq_instance rq, eg_iat = now,
        eg_exp = min (se_exp se) (saturating_add_i64 now EXECUTION_GRANT_TTL_SECS),
        eg_jti = jti, eg_nonce = gq_nonce rq\<rparr>"
    and "s' = s\<lparr>ap_store := ap_store s'\<rparr>"
proof -
  obtain now where now: "now_secs clock = Inr now"
    using assms by (cases "now_secs clock") (simp_all add: issue_execution_grant_def)
  obtain r st where r: "session_from_headers au now (ap_store s) = (r, st)" by fastforce
  obtain se where "r = Inr se"
    using assms now r by (cases r) (simp_all add: issue_execution_grant_def)
  with r have se: "session_from_headers au now (ap_store s) = (Inr se, ap_store s)"
    using session_from_headers_accepted by (metis (no_types, lifting))
  show thesis
    using assms
    by (auto simp: issue_execution_grant_def now se Let_def canonical_json_def is_err_def intro: that [OF now se]
        split: option.splits sum.splits if_splits prod.splits bool.splits)
qed

text \<open>What the claims of a signed grant are, read from the outside.\<close>

definition grant_claims_of :: "crates \<Rightarrow> signed_execution_grant \<Rightarrow> execution_grant_claims option" where
  "grant_claims_of cr g = (case decode_execution_grant_payload cr (sg_payload g) of
     Inl _ \<Rightarrow> None | Inr c \<Rightarrow> Some c)"

lemma grant_claims_of_signed:
  assumes "b64_law cr" and "serde_law cr" and "in_i64 (eg_iat c)" and "in_i64 (eg_exp c)"
  shows "grant_claims_of cr (sign_execution_grant cr sa c) = Some c"
  using assms by (simp add: grant_claims_of_def sign_execution_grant_def decode_execution_grant_payload_def
      Let_def b64_law_def serde_law_def)

lemma verify_signed_grant:
  assumes "b64_law cr" and "serde_law cr" and "ed25519_law cr" and "length (sa_signing_key sa) = 32"
    and "in_i64 (eg_iat c)" and "in_i64 (eg_exp c)"
  shows "verify_execution_grant cr sa (sign_execution_grant cr sa c\<lparr>sg_device_proof := d\<rparr>) = Inr c"
  using assms by (simp add: verify_execution_grant_def sign_execution_grant_def decode_execution_grant_payload_def
      Let_def b64_law_def serde_law_def ed25519_law_def)

lemma safe_path_below:
  assumes "safe_artifact_path fs root a = Inr p"
  shows "\<exists>root_path below. fs_canonicalize fs root = Some root_path \<and> p = root_path @ below
    \<and> fs_canonicalize fs (ar_path a) = Some p"
  using assms unfolding safe_artifact_path_def
  by (auto split: option.splits if_splits) (metis append_take_drop_id)

lemma saturating_range: "in_i64 (saturating_add_i64 a b)"
  by (auto simp: in_i64_def sat_defs)

lemma grant_expiry_range:
  assumes "now_secs clock = Inr now" and "\<not> min e (saturating_add_i64 now EXECUTION_GRANT_TTL_SECS) \<le> now"
  shows "in_i64 now" and "in_i64 (min e (saturating_add_i64 now EXECUTION_GRANT_TTL_SECS))"
  using now_secs_bounds [OF assms(1)] assms(2) saturating_range [of now EXECUTION_GRANT_TTL_SECS]
  by (auto simp: in_i64_def min_def)

text \<open>
  An issued execution grant is bound to the client, device and session of the request's session
  token and to the requested workflow, carries the hash of the published file below the artifact
  root, and lives at most 120 seconds and never longer than the session's lease.
\<close>

theorem issued_grant_bounds:
  assumes "b64_law cr" and "serde_law cr" and "now_secs clock = Inr now"
    and "issue_execution_grant cr clock fs jti au rq s = (Inr g, s')"
  shows "\<exists>claims se c a root_path below content_hash.
      grant_claims_of cr g = Some claims
    \<and> session_from_headers au now (ap_store s) = (Inr se, ap_store s)
    \<and> client (se_client_id se) (ap_store s) = Some c
    \<and> eg_client_id claims = cl_client_id c \<and> eg_device_id claims = se_device_id se
    \<and> eg_session_id claims = se_session_id se
    \<and> artifact (eg_artifact_id claims) (ap_store s) = Some a
    \<and> artifact_allows_execution_action (ar_artifact_id a) (eg_action claims)
    \<and> fs_canonicalize fs (ap_artifact_root s) = Some root_path
    \<and> sha256_file cr fs (root_path @ below) = Inr content_hash \<and> eg_artifact_sha256 claims = snd content_hash
    \<and> eg_iat claims = now \<and> now < eg_exp claims \<and> eg_exp claims \<le> now + 120 \<and> eg_exp claims \<le> se_exp se"
  using assms(4)
proof (rule issue_accepted)
  fix t p sz sha and se :: session_record and c :: client_record and a :: artifact_record
  let ?c = "\<lparr>eg_iss = ''rdc-auth'', eg_aud = ''rdc-guest-runner'',
        eg_client_id = cl_client_id c, eg_device_id = se_device_id se,
        eg_session_id = se_session_id se, eg_client_version = cl_client_version c,
        eg_artifact_id = gq_artifact_id rq, eg_artifact_sha256 = sha,
        eg_action = gq_action rq, eg_vm = gq_vm rq,
        eg_instance = gq_instance rq, eg_iat = t,
        eg_exp = min (se_exp se) (saturating_add_i64 t EXECUTION_GRANT_TTL_SECS),
        eg_jti = jti, eg_nonce = gq_nonce rq\<rparr>"
  assume "now_secs clock = Inr t" and g: "g = sign_execution_grant cr (ap_authority s) ?c"
    and live: "\<not> min (se_exp se) (saturating_add_i64 t EXECUTION_GRANT_TTL_SECS) \<le> t"
    and path: "safe_artifact_path fs (ap_artifact_root s) a = Inr p" and sha: "sha256_file cr fs p = Inr (sz, sha)"
    and se: "session_from_headers au t (ap_store s) = (Inr se, ap_store s)"
    and rest: "client (se_client_id se) (ap_store s) = Some c" "artifact (gq_artifact_id rq) (ap_store s) = Some a"
      "artifact_allows_execution_action (ar_artifact_id a) (gq_action rq)"
  then have t: "t = now" using assms(3) by simp
  have claims: "grant_claims_of cr g = Some ?c"
    unfolding g using grant_expiry_range [OF _ live, of clock] \<open>now_secs clock = Inr t\<close>
    by (intro grant_claims_of_signed [OF assms(1,2)]) simp_all
  have exp: "now < eg_exp ?c \<and> eg_exp ?c \<le> now + 120 \<and> eg_exp ?c \<le> se_exp se"
    using live t now_secs_bounds [OF assms(3)] by (auto simp: sat_defs EXECUTION_GRANT_TTL_SECS_def)
  obtain root_path below where "fs_canonicalize fs (ap_artifact_root s) = Some root_path" "p = root_path @ below"
    using safe_path_below [OF path] by auto
  with claims exp sha se rest t show ?thesis
    by (intro exI [of _ ?c] exI [of _ se] exI [of _ c] exI [of _ a] exI [of _ root_path] exI [of _ below]
        exI [of _ "(sz, sha)"]) simp
qed

section \<open>Releasing\<close>

text \<open>
  C16: A release hands out only bytes whose SHA-256 hash is the one in the grant, at most 512 KiB of
  them, even if the file changes between the checks and the read.
\<close>

theorem released_bytes_match_grant:
  assumes "release_execution_grant cr clock fs0 fs1 fs2 g s = (Inr r, s')"
  shows "\<exists>claims content. verify_execution_grant cr (ap_authority s) g = Inr claims
    \<and> al_content_base64 r = b64_encode cr content \<and> al_artifact_size_bytes r = length content
    \<and> hex_string (sha256_digest cr content) = eg_artifact_sha256 claims
    \<and> al_artifact_sha256 r = eg_artifact_sha256 claims \<and> al_artifact_id r = eg_artifact_id claims
    \<and> length content \<le> 524288"
proof -
  obtain now where now: "now_secs clock = Inr now"
    using assms by (cases "now_secs clock") (simp_all add: release_execution_grant_def)
  obtain v st where v: "validate_execution_grant_for_artifact cr fs0 g now s = (v, st)" by fastforce
  obtain claims a p where "v = Inr (claims, a, p)"
    using assms now v by (cases v) (auto simp: release_execution_grant_def)
  with v have v: "validate_execution_grant_for_artifact cr fs0 g now s = (Inr (claims, a, p), st)" by simp
  obtain content where content: "length content \<le> MAX_EXECUTION_RELEASE_BYTES"
      "hex_string (sha256_digest cr content) = eg_artifact_sha256 claims"
      "r = \<lparr>al_artifact_id = ar_artifact_id a, al_artifact_sha256 = eg_artifact_sha256 claims,
            al_artifact_size_bytes = length content, al_content_base64 = b64_encode cr content\<rparr>"
    using assms now v by (auto simp: release_execution_grant_def split: sum.splits if_splits)
  have "verify_execution_grant cr (ap_authority s) g = Inr claims" "artifact (eg_artifact_id claims) (ap_store s) = Some a"
    using v by (auto elim: validate_grant_accepted)
  moreover from this(2) have "ar_artifact_id a = eg_artifact_id claims"
    by (auto simp: artifact_def artifact_record.truncate_def dest!: find_SomeD)
  ultimately show ?thesis using content by (auto simp: MAX_EXECUTION_RELEASE_BYTES_def)
qed

section \<open>The whole cycle\<close>

lemma consume_nonce_fresh:
  "(\<And>t. (n, t) \<notin> set (used_nonces st)) \<Longrightarrow> fst (consume_nonce n now st)"
  by (simp add: consume_nonce_iff)

lemma used_nonces_consumed:
  "consume_nonce n now st = (b, st') \<Longrightarrow> (k, t) \<in> set (used_nonces st') \<Longrightarrow> (k, t) \<in> set (used_nonces st) \<or> k = n"
  by (auto simp: consume_nonce_def Let_def split: if_splits)

lemma consumed_tables:
  assumes "consume_nonce n now st = (b, st')"
  shows "session sid st' = session sid st" and "client c st' = client c st"
    and "artifact a st' = artifact a st" and "has_entitlement ac cap st' = has_entitlement ac cap st"
proof -
  have st': "st' = snd (consume_nonce n now st)" by (simp add: assms)
  show "session sid st' = session sid st" "client c st' = client c st" "artifact a st' = artifact a st"
    by (simp_all add: session_def client_def artifact_def st' store_simps)
  show "has_entitlement ac cap st' = has_entitlement ac cap st" by (simp add: st')
qed

lemma grant_request_valid:
  assumes "\<not> grant_request_invalid rq now"
  shows "\<not> blank (gq_artifact_id rq)" and "valid_execution_action (gq_action rq)" and "\<not> blank (gq_vm rq)"
    and "\<not> blank (gq_instance rq)" and "\<not> is_err (validate_nonce (gq_nonce rq))"
  using assms by (simp_all add: grant_request_invalid_def)

lemma sha256_file_hex:
  assumes "sha256_law cr" and "sha256_file cr fs p = Inr (sz, sha)"
    and "\<And>content. fs_contents fs p = Inr content \<Longrightarrow> length content < 18446744073709551616"
  shows "length sha = 64" and "list_all is_ascii_hexdigit sha"
proof -
  obtain content where c: "fs_contents fs p = Inr content"
    using assms(2) by (auto simp: sha256_file_def split: sum.splits)
  from sha256_file_eq [OF c assms(3) [OF c], of cr] assms(2)
  have "sha = hex_string (sha256_digest cr content)" by simp
  then show "length sha = 64" "list_all is_ascii_hexdigit sha"
    using assms(1) by (simp_all add: sha256_law_def hex_string_hexdigits)
qed

text \<open>
  C15: A grant that the service issued can be consumed. As long as it has not expired, with a device
  proof that verifies under the client's registered key and the published file unchanged, the
  service answers with a receipt.
\<close>

theorem issued_grant_is_consumable:
  assumes "b64_law cr" and "serde_law cr" and "ed25519_law cr" and "sha256_law cr"
    and "length (sa_signing_key (ap_authority s)) = 32"
    and "\<And>p content. fs_contents fs p = Inr content \<Longrightarrow> length content < 18446744073709551616"
    and "now_secs clock0 = Inr t0" and "issue_execution_grant cr clock0 fs jti au rq s = (Inr g, s1)"
    and "session_from_headers au t0 (ap_store s) = (Inr se, ap_store s)"
    and "client (se_client_id se) (ap_store s) = Some c" and "session (se_session_id se) (ap_store s) = Some se"
    and "\<not> blank (cl_client_id c)" and "\<not> blank (se_device_id se)" and "\<not> blank (se_session_id se)"
    and "\<not> blank (cl_client_version c)" and "\<not> blank jti" and "length jti \<le> 256"
    and "gq_nonce rq \<noteq> grant_reservation jti" and "\<And>t. (grant_reservation jti, t) \<notin> set (used_nonces (ap_store s))"
    and "\<not> blank device_proof"
    and "verify_client_signature cr (cl_key_algorithm c) (cl_device_public_key c) (as_bytes (sg_payload g)) device_proof
          = Inr ()"
    and "now_secs clock1 = Inr t1" and "t0 \<le> t1" and "t1 < min (se_exp se) (saturating_add_i64 t0 120)"
  shows "\<exists>receipt. fst (consume_execution_grant cr clock1 fs (g\<lparr>sg_device_proof := Some device_proof\<rparr>) s1) = Inr receipt"
  using assms(8)
proof (rule issue_accepted)
  fix t p sz sha and se' :: session_record and c' :: client_record and a :: artifact_record
  let ?c = "\<lparr>eg_iss = ''rdc-auth'', eg_aud = ''rdc-guest-runner'',
        eg_client_id = cl_client_id c', eg_device_id = se_device_id se',
        eg_session_id = se_session_id se', eg_client_version = cl_client_version c',
        eg_artifact_id = gq_artifact_id rq, eg_artifact_sha256 = sha,
        eg_action = gq_action rq, eg_vm = gq_vm rq,
        eg_instance = gq_instance rq, eg_iat = t,
        eg_exp = min (se_exp se') (saturating_add_i64 t EXECUTION_GRANT_TTL_SECS),
        eg_jti = jti, eg_nonce = gq_nonce rq\<rparr>"
  assume t: "now_secs clock0 = Inr t" and hdr': "session_from_headers au t (ap_store s) = (Inr se', ap_store s)"
    and caps: "ProtectedPreset \<in> set (se_capabilities se')" "ProtectedArtifact \<in> set (se_capabilities se')"
    and c': "client (se_client_id se') (ap_store s) = Some c'" and valid: "\<not> grant_request_invalid rq t"
    and art: "artifact (gq_artifact_id rq) (ap_store s) = Some a"
    and allow: "artifact_allows_execution_action (ar_artifact_id a) (gq_action rq)"
    and path: "safe_artifact_path fs (ap_artifact_root s) a = Inr p" and sha: "sha256_file cr fs p = Inr (sz, sha)"
    and cons: "consume_nonce (gq_nonce rq) t (ap_store s) = (True, ap_store s1)"
    and live: "\<not> min (se_exp se') (saturating_add_i64 t EXECUTION_GRANT_TTL_SECS) \<le> t"
    and g: "g = sign_execution_grant cr (ap_authority s) ?c" and s1: "s1 = s\<lparr>ap_store := ap_store s1\<rparr>"
  have t0: "t = t0" using t assms(7) by simp
  have se: "se' = se" using hdr' assms(9) t0 by simp
  have c: "c' = c" using c' assms(10) se by simp
  have aid: "ar_artifact_id a = gq_artifact_id rq"
    using art by (auto simp: artifact_def artifact_record.truncate_def dest!: find_SomeD)
  let ?g = "g\<lparr>sg_device_proof := Some device_proof\<rparr>"
  have ver: "verify_execution_grant cr (ap_authority s1) ?g = Inr ?c"
  proof -
    have "ap_authority s1 = ap_authority s" by (subst s1) simp
    then show ?thesis unfolding g using grant_expiry_range [OF t live]
      by (simp add: verify_signed_grant [OF assms(1,2,3,5)])
  qed
  have fresh: "fst (consume_nonce (grant_reservation jti) t1 (ap_store s1))"
  proof (rule consume_nonce_fresh)
    show "(grant_reservation jti, t) \<notin> set (used_nonces (ap_store s1))" for t
      using used_nonces_consumed [OF cons, of "grant_reservation jti" t] assms(18) assms(19) [of t] by auto
  qed
  have ok: "\<not> grant_claims_invalid ?c t1"
    using grant_request_valid [OF valid] sha256_file_hex [OF assms(4) sha assms(6)] assms(12-17,23,24)
      now_secs_bounds [OF assms(7)] now_secs_bounds [OF assms(22)]
    by (auto simp: grant_claims_invalid_def se c t0 MAX_NONCE_BYTES_def sat_defs EXECUTION_GRANT_TTL_SECS_def
        REQUEST_MAX_AGE_SECS_def)
  have usable: "\<not> se_revoked se" "ensure_client_usable c (se_device_id se) = Inr ()"
      "\<forall>cap \<in> set (se_capabilities se). has_entitlement (cl_account_id c) cap (ap_store s)"
    using assms(9,10) by (auto elim!: session_from_headers_accepted)
  have cid: "cl_client_id c = se_client_id se" using assms(10) by (auto simp: client_def client_record.truncate_def dest!: find_SomeD)
  note tables = consumed_tables [OF cons]
  have root: "ap_artifact_root s1 = ap_artifact_root s" by (subst s1) simp
  have proof_ok: "verify_client_signature cr (cl_key_algorithm c) (cl_device_public_key c) (as_bytes (sg_payload ?g))
      device_proof = Inr ()"
    using assms(21) by simp
  have no_cap: "\<not> list_ex (\<lambda>cap. \<not> has_entitlement (cl_account_id c) cap (ap_store s1)) (se_capabilities se)"
    using usable(3) by (simp add: list_ex_iff tables)
  have "validate_execution_grant_for_artifact cr fs ?g t1 s1 = (Inr (?c, a, p), ap_store s1)"
    using ver ok allow assms(10,11,20,24) caps usable(1,2) proof_ok no_cap art path sha
    by (simp add: validate_execution_grant_for_artifact_def Let_def tables se c cid aid root)
  then show ?thesis
    using fresh assms(22)
    by (auto simp: consume_execution_grant_def split: prod.splits bool.splits)
qed

end
