(* ===== verification/Auth_Separation.thy ===== *)
theory Auth_Separation imports Auth_Routes Crate_Laws begin

text \<open>
  What a signature or a key is bound to: the payload that a client signs determines the kind and
  every field of its request, and the context of a transfer key determines the transfer.
\<close>

section \<open>Signed payloads\<close>

datatype signed_request = SignedRegistration registration_proof | SignedSession session_proof
  | SignedHeartbeat heartbeat_proof | SignedGrantRequest execution_grant_proof

fun signed_payload :: "signed_request \<Rightarrow> json" where
  "signed_payload (SignedRegistration p) = registration_proof_json p"
| "signed_payload (SignedSession p) = session_proof_json p"
| "signed_payload (SignedHeartbeat p) = heartbeat_proof_json p"
| "signed_payload (SignedGrantRequest p) = execution_grant_proof_json p"

lemma capability_name_inject [simp]: "capability_name a = capability_name b \<longleftrightarrow> a = b"
  by (cases a; cases b) simp_all

lemma capabilities_json_inject [simp]: "capabilities_json a = capabilities_json b \<longleftrightarrow> a = b"
proof -
  have "inj (\<lambda>c. JString (capability_name c))" by (simp add: inj_def)
  then show ?thesis by (simp add: capabilities_json_def inj_map_eq_map)
qed

lemma signed_payload_inject: "signed_payload a = signed_payload b \<longleftrightarrow> a = b"
  by (cases a; cases b)
    (auto simp: registration_proof_json_def session_proof_json_def heartbeat_proof_json_def
      execution_grant_proof_json_def)

text \<open>
  C17: The bytes that a client signs determine what it asked for. With serde's text of a JSON value
  unambiguous, no signed registration, session request, heartbeat or grant request has the bytes
  of another one, of the same or of another kind.
\<close>

theorem signed_bytes_determine_request:
  assumes "inj (json_to_vec cr)"
  shows "canonical_json cr (signed_payload a) = canonical_json cr (signed_payload b) \<longleftrightarrow> a = b"
  using assms by (simp add: canonical_json_def inj_eq signed_payload_inject)

section \<open>Key contexts\<close>

lemma split_at_separator:
  assumes "x \<notin> set a" and "x \<notin> set b" and "a @ x # r = b @ x # s"
  shows "a = b \<and> r = s"
  using assms
proof (induction a arbitrary: b)
  case Nil then show ?case by (cases b) auto
next
  case (Cons c a) then show ?case by (cases b) auto
qed

definition no_nul :: "string \<Rightarrow> bool" where
  "no_nul s \<longleftrightarrow> CHR 0x00 \<notin> set s"

lemma no_nul_bytes:
  assumes "no_nul s"
  shows "0 \<notin> set (as_bytes s)"
proof
  assume "0 \<in> set (as_bytes s)"
  then obtain c where c: "c \<in> set s" "(of_char c :: u8) = 0"
    unfolding as_bytes_def set_map by (metis imageE)
  then have "unat (of_char c :: u8) = 0" by (simp only: unsigned_0)
  then have "(of_char c :: nat) = of_char CHR 0x00" by simp
  then have "c = CHR 0x00" by (simp only: of_char_eq_iff)
  with c(1) assms show False by (simp add: no_nul_def)
qed

definition transfer_fields :: "artifact_manifest \<Rightarrow> string list" where
  "transfer_fields m = [am_transfer_id m, am_artifact_id m, am_version m, am_session_id m, am_device_id m, am_sha256 m]"

lemma separated_fields_inject:
  "list_all no_nul xs \<Longrightarrow> list_all no_nul ys \<Longrightarrow> length xs = length ys \<Longrightarrow>
    concat (map (\<lambda>v. as_bytes v @ [0]) xs) = concat (map (\<lambda>v. as_bytes v @ [0]) ys) \<Longrightarrow> xs = ys"
proof (induction xs arbitrary: ys)
  case (Cons x xs)
  then obtain y ys' where ys: "ys = y # ys'" by (cases ys) auto
  have "as_bytes x = as_bytes y \<and> concat (map (\<lambda>v. as_bytes v @ [0]) xs) = concat (map (\<lambda>v. as_bytes v @ [0]) ys')"
  proof (rule split_at_separator [of 0])
    show "0 \<notin> set (as_bytes x)" "0 \<notin> set (as_bytes y)"
      using Cons.prems(1,2) by (simp_all add: ys no_nul_bytes)
    show "as_bytes x @ 0 # concat (map (\<lambda>v. as_bytes v @ [0]) xs) =
        as_bytes y @ 0 # concat (map (\<lambda>v. as_bytes v @ [0]) ys')"
      using Cons.prems(4) by (simp add: ys)
  qed
  moreover have "list_all no_nul xs" "list_all no_nul ys'" "length xs = length ys'"
    using Cons.prems by (simp_all add: ys)
  ultimately show ?case using Cons.IH [of ys'] by (simp add: ys)
qed simp

lemma artifact_key_context_fields:
  "artifact_key_context m = (as_bytes ''rdc-artifact-key-v1'' @ [0]) @
    concat (map (\<lambda>v. as_bytes v @ [0]) (transfer_fields m))"
  by (simp only: artifact_key_context_def transfer_fields_def append_assoc)

text \<open>
  The context from which a transfer's key is derived determines the transfer: two manifests
  whose fields hold no NUL byte have the same context only if transfer, artifact, version, session,
  device and hash are all the same.
\<close>

theorem key_context_determines_transfer:
  assumes "list_all no_nul (transfer_fields m)" and "list_all no_nul (transfer_fields m')"
  shows "artifact_key_context m = artifact_key_context m' \<longleftrightarrow> transfer_fields m = transfer_fields m'"
proof
  assume "artifact_key_context m = artifact_key_context m'"
  then show "transfer_fields m = transfer_fields m'"
    unfolding artifact_key_context_fields same_append_eq
    by (intro separated_fields_inject [OF assms]) (simp_all add: transfer_fields_def)
next
  assume "transfer_fields m = transfer_fields m'"
  then show "artifact_key_context m = artifact_key_context m'"
    by (simp only: artifact_key_context_fields)
qed

end
