(* ===== verification/Client_Lease.thy ===== *)
theory Client_Lease imports Auth_Artifact begin

text \<open>
  \<^verbatim>\<open>src-tauri/src/services/authorization.rs\<close>: the desktop client's verification of what the
  authorization service sends it. The structs have the fields of the service's structs in the same
  order, so the records of the service's model serve for both sides.
\<close>

section \<open>Errors\<close>

datatype authorization_error =
    AE_Malformed string | AE_InvalidSignature | AE_InvalidIssuer | AE_InvalidAudience | AE_LeaseExpired
  | AE_LeaseNotYetValid | AE_BindingMismatch | AE_MissingCapability | AE_ArtifactIntegrityFailed
  | AE_NotRegistered | AE_ServerUnreachable | AE_Revoked | AE_UnknownKey | AE_Replay | AE_TargetMismatch
  | AE_Transport string | AE_SecureStore string | AE_AuthenticationRequired

definition EXPECTED_ISSUER :: string where "EXPECTED_ISSUER = ''rdc-auth''"
definition EXPECTED_AUDIENCE :: string where "EXPECTED_AUDIENCE = ''rdc-client''"
definition client_MAX_CLOCK_SKEW_SECS :: i64 where "client_MAX_CLOCK_SKEW_SECS = 300"
definition client_REQUEST_MAX_AGE_SECS :: i64 where "client_REQUEST_MAX_AGE_SECS = 300"
definition client_ARTIFACT_CHUNK_SIZE :: u64 where "client_ARTIFACT_CHUNK_SIZE = 256 * 1024"

section \<open>Leases\<close>

definition validate_claims :: "lease_claims \<Rightarrow> i64 \<Rightarrow> authorization_error + unit" where
  "validate_claims claims now =
    (if lc_iss claims \<noteq> EXPECTED_ISSUER then Inl AE_InvalidIssuer
     else if lc_aud claims \<noteq> EXPECTED_AUDIENCE then Inl AE_InvalidAudience
     else if lc_sub claims = [] \<or> lc_client_id claims = [] \<or> lc_device_id claims = []
        \<or> lc_session_id claims = [] \<or> lc_jti claims = [] \<or> lc_nonce claims = []
        \<or> lc_capabilities claims = []
     then Inl (AE_Malformed ''lease contains an empty required field'')
     else if lc_exp claims \<le> now then Inl AE_LeaseExpired
     else if lc_iat claims > saturating_add_i64 now client_MAX_CLOCK_SKEW_SECS then Inl AE_LeaseNotYetValid
     else if lc_exp claims \<le> lc_iat claims
     then Inl (AE_Malformed ''lease expiry must be after issue time'')
     else Inr ())"

definition validate_device_binding :: "lease_claims \<Rightarrow> string \<Rightarrow> authorization_error + unit" where
  "validate_device_binding claims device_id =
    (if lc_device_id claims = device_id then Inr () else Inl AE_BindingMismatch)"

definition validate_session_binding :: "lease_claims \<Rightarrow> string \<Rightarrow> string \<Rightarrow> authorization_error + unit" where
  "validate_session_binding claims device_id session_id =
    and_then (validate_device_binding claims device_id) (\<lambda>_.
      if lc_session_id claims = session_id then Inr () else Inl AE_BindingMismatch)"

definition require_capability :: "lease_claims \<Rightarrow> protected_capability \<Rightarrow> authorization_error + unit" where
  "require_capability claims cap =
    (if cap \<in> set (lc_capabilities claims) then Inr () else Inl AE_MissingCapability)"

text \<open>The part that the three verifications share: the key and the signature from their texts.\<close>

definition parse_verifying_key :: "crates \<Rightarrow> string \<Rightarrow> authorization_error + bytes" where
  "parse_verifying_key cr public_key =
    (case b64_decode cr public_key of
       Inl e \<Rightarrow> Inl (AE_Malformed (''invalid authorization public key: '' @ e))
     | Inr key_bytes \<Rightarrow>
         if length key_bytes \<noteq> 32 then Inl (AE_Malformed ''authorization public key must be 32 bytes'')
         else map_err (\<lambda>e. AE_Malformed (''invalid authorization public key: '' @ e)) (ed25519_key cr key_bytes))"

definition parse_signature :: "crates \<Rightarrow> string \<Rightarrow> string \<Rightarrow> authorization_error + bytes" where
  "parse_signature cr what signature =
    (case b64_decode cr signature of
       Inl e \<Rightarrow> Inl (AE_Malformed (what @ e))
     | Inr sig_bytes \<Rightarrow> map_err (\<lambda>e. AE_Malformed (what @ e)) (ed25519_signature cr sig_bytes))"

definition verify_signed_lease :: "crates \<Rightarrow> signed_lease \<Rightarrow> string \<Rightarrow> i64 \<Rightarrow> authorization_error + unit" where
  "verify_signed_lease cr lease public_key now =
    and_then (parse_verifying_key cr public_key) (\<lambda>key.
    and_then (parse_signature cr ''invalid authorization signature: '' (sl_signature lease)) (\<lambda>sig.
      if \<not> ed25519_verify cr key (json_to_vec cr (lease_claims_json (sl_claims lease))) sig
      then Inl AE_InvalidSignature
      else validate_claims (sl_claims lease) now))"

section \<open>Manifests\<close>

definition verify_signed_artifact_manifest ::
    "crates \<Rightarrow> artifact_manifest \<Rightarrow> string \<Rightarrow> string \<Rightarrow> i64 \<Rightarrow> authorization_error + unit" where
  "verify_signed_artifact_manifest cr m signature public_key now =
    and_then (parse_verifying_key cr public_key) (\<lambda>key.
    and_then (parse_signature cr ''invalid artifact signature: '' signature) (\<lambda>sig.
      if \<not> ed25519_verify cr key (json_to_vec cr (artifact_manifest_json m)) sig
      then Inl AE_InvalidSignature
      else if am_expires_at m \<le> now then Inl AE_LeaseExpired
      else Inr ()))"

definition validate_artifact_manifest ::
    "artifact_manifest \<Rightarrow> lease_claims \<Rightarrow> string \<Rightarrow> string \<Rightarrow> i64 \<Rightarrow> authorization_error + unit" where
  "validate_artifact_manifest m claims device_id session_id now =
    and_then (validate_claims claims now) (\<lambda>_.
    and_then (validate_session_binding claims device_id session_id) (\<lambda>_.
      if am_device_id m \<noteq> device_id \<or> am_session_id m \<noteq> session_id
         \<or> am_expires_at m \<le> now \<or> am_expires_at m > lc_exp claims
         \<or> am_size_bytes m = 0
         \<or> length (am_sha256 m) \<noteq> 64 \<or> \<not> list_all is_ascii_hexdigit (am_sha256 m)
         \<or> am_transfer_id m = [] \<or> am_server_ephemeral_public_key m = []
         \<or> (ucast (am_chunk_size_bytes m) :: u64) \<noteq> client_ARTIFACT_CHUNK_SIZE
         \<or> am_chunk_count m = 0
         \<or> (ucast (am_chunk_count m) :: u64) \<noteq>
             saturating_add_u64 (am_size_bytes m) (client_ARTIFACT_CHUNK_SIZE - 1) div client_ARTIFACT_CHUNK_SIZE
         \<or> am_nonce_prefix m = []
      then Inl AE_ArtifactIntegrityFailed
      else require_capability claims ProtectedArtifact))"

section \<open>Execution grants\<close>

definition validate_execution_grant_claims ::
    "execution_grant_claims \<Rightarrow> i64 \<Rightarrow> authorization_error + unit" where
  "validate_execution_grant_claims claims now =
    (if eg_iss claims \<noteq> EXPECTED_ISSUER then Inl AE_InvalidIssuer
     else if eg_aud claims \<noteq> ''rdc-guest-runner'' then Inl AE_InvalidAudience
     else if eg_client_id claims = [] \<or> eg_device_id claims = [] \<or> eg_session_id claims = []
        \<or> eg_client_version claims = [] \<or> eg_artifact_id claims = []
        \<or> length (eg_artifact_sha256 claims) \<noteq> 64
        \<or> \<not> list_all is_ascii_hexdigit (eg_artifact_sha256 claims)
        \<or> eg_action claims = [] \<or> eg_vm claims = [] \<or> eg_instance claims = []
        \<or> eg_jti claims = [] \<or> eg_nonce claims = []
     then Inl (AE_Malformed ''execution grant contains an empty or invalid required field'')
     else if eg_exp claims \<le> now \<or> eg_iat claims < saturating_sub_i64 now client_REQUEST_MAX_AGE_SECS
     then Inl AE_LeaseExpired
     else if eg_iat claims > saturating_add_i64 now client_MAX_CLOCK_SKEW_SECS then Inl AE_LeaseNotYetValid
     else if eg_exp claims \<le> eg_iat claims
     then Inl (AE_Malformed ''execution grant expiry must be after issue time'')
     else Inr ())"

definition verify_signed_execution_grant ::
    "crates \<Rightarrow> signed_execution_grant \<Rightarrow> string \<Rightarrow> i64 \<Rightarrow> authorization_error + execution_grant_claims" where
  "verify_signed_execution_grant cr grant public_key now =
    and_then (parse_verifying_key cr public_key) (\<lambda>key.
    and_then (map_err (\<lambda>e. AE_Malformed (''invalid execution grant payload: '' @ e))
                (b64_decode cr (sg_payload grant))) (\<lambda>payload.
    and_then (parse_signature cr ''invalid execution grant signature: '' (sg_signature grant)) (\<lambda>sig.
      if \<not> ed25519_verify cr key payload sig then Inl AE_InvalidSignature
      else and_then (map_err (\<lambda>e. AE_Malformed (''execution grant payload is invalid: '' @ e))
                       (grant_claims_from_slice cr payload)) (\<lambda>claims.
           and_then (validate_execution_grant_claims claims now) (\<lambda>_. Inr claims)))))"

record execution_grant_context =
  cx_device_id :: string
  cx_session_id :: string
  cx_client_version :: string
  cx_artifact_id :: string
  cx_artifact_sha256 :: string
  cx_action :: string
  cx_vm :: string
  cx_instance :: string

definition validate_execution_grant ::
    "execution_grant_claims \<Rightarrow> lease_claims \<Rightarrow> execution_grant_context \<Rightarrow> i64
      \<Rightarrow> authorization_error + unit" where
  "validate_execution_grant claims lease context now =
    and_then (validate_execution_grant_claims claims now) (\<lambda>_.
    and_then (validate_claims lease now) (\<lambda>_.
    and_then (require_capability lease ProtectedPreset) (\<lambda>_.
      if eg_exp claims > lc_exp lease
         \<or> eg_client_id claims \<noteq> lc_client_id lease
         \<or> eg_device_id claims \<noteq> cx_device_id context
         \<or> eg_session_id claims \<noteq> cx_session_id context
         \<or> eg_client_version claims \<noteq> cx_client_version context
         \<or> eg_artifact_id claims \<noteq> cx_artifact_id context
         \<or> eg_artifact_sha256 claims \<noteq> cx_artifact_sha256 context
         \<or> eg_action claims \<noteq> cx_action context
         \<or> eg_vm claims \<noteq> cx_vm context
         \<or> eg_instance claims \<noteq> cx_instance context
      then Inl AE_BindingMismatch
      else validate_session_binding lease (cx_device_id context) (cx_session_id context))))"

section \<open>Artifact keys and chunks\<close>

text \<open>
  The client has its own copies of the functions of the transfer's encryption.
\<close>

definition client_derive_x25519_shared_secret :: "crates \<Rightarrow> bytes \<Rightarrow> string \<Rightarrow> authorization_error + bytes" where
  "client_derive_x25519_shared_secret cr secret peer_public =
    (case b64_decode cr peer_public of
       Inl e \<Rightarrow> Inl (AE_Malformed e)
     | Inr peer \<Rightarrow>
         if length peer \<noteq> 32 then Inl (AE_Malformed ''ephemeral public key must be 32 bytes'')
         else Inr (x25519_dh cr secret peer))"

definition client_derive_artifact_key :: "crates \<Rightarrow> bytes \<Rightarrow> artifact_manifest \<Rightarrow> authorization_error + bytes" where
  "client_derive_artifact_key cr shared_secret m =
    (let context = as_bytes ''rdc-artifact-key-v1'' @ [0] @
       concat (map (\<lambda>v. as_bytes v @ [0])
         [am_transfer_id m, am_artifact_id m, am_version m, am_session_id m, am_device_id m, am_sha256 m])
     in case hkdf_expand cr (as_bytes ''rdc-artifact-v1'') shared_secret context 32 of
          None \<Rightarrow> Inl (AE_Malformed ''artifact key derivation failed'')
        | Some key \<Rightarrow> Inr key)"

definition client_artifact_nonce :: "crates \<Rightarrow> artifact_manifest \<Rightarrow> u32 \<Rightarrow> authorization_error + bytes" where
  "client_artifact_nonce cr m index =
    (case b64_decode cr (am_nonce_prefix m) of
       Inl e \<Rightarrow> Inl (AE_Malformed e)
     | Inr prefix \<Rightarrow>
         if length prefix \<noteq> 8 then Inl (AE_Malformed ''artifact nonce prefix must be 8 bytes'')
         else Inr (prefix @ u32_to_be index))"

definition client_artifact_aad :: "artifact_manifest \<Rightarrow> u32 \<Rightarrow> bytes" where
  "client_artifact_aad m index = as_bytes
    (''rdc-artifact-chunk-v1'' @ [CHR 0x0A] @ am_transfer_id m @ [CHR 0x0A] @ am_artifact_id m @
     [CHR 0x0A] @ am_version m @ [CHR 0x0A] @ am_session_id m @ [CHR 0x0A] @ am_device_id m @
     [CHR 0x0A] @ dec_string (unat index))"

definition client_decrypt_artifact_chunk ::
    "crates \<Rightarrow> bytes \<Rightarrow> artifact_manifest \<Rightarrow> u32 \<Rightarrow> bytes \<Rightarrow> authorization_error + bytes" where
  "client_decrypt_artifact_chunk cr key m index ciphertext =
    (case client_artifact_nonce cr m index of
       Inl e \<Rightarrow> Inl e
     | Inr nonce \<Rightarrow> (case chacha_decrypt cr key nonce (client_artifact_aad m index) ciphertext of
         None \<Rightarrow> Inl AE_ArtifactIntegrityFailed
       | Some plaintext \<Rightarrow> Inr plaintext))"

text \<open>The errors of the two sides, side by side.\<close>

definition client_error :: "crypto_error \<Rightarrow> authorization_error" where
  "client_error e = (case e of Malformed d \<Rightarrow> AE_Malformed d | InvalidSignature \<Rightarrow> AE_ArtifactIntegrityFailed
     | CryptoIo d \<Rightarrow> AE_Malformed d)"

text \<open>Both sides agree on the parameters of the encryption.\<close>

lemma same_nonce: "client_artifact_nonce cr m i = map_err client_error (artifact_nonce cr m i)"
  by (simp add: client_artifact_nonce_def artifact_nonce_def client_error_def split: sum.split)

lemma same_aad: "client_artifact_aad m i = artifact_aad m i"
  by (simp add: client_artifact_aad_def artifact_aad_def)

lemma same_key: "client_derive_artifact_key cr k m = map_err client_error (derive_artifact_key cr k m)"
  by (simp add: client_derive_artifact_key_def derive_artifact_key_def artifact_key_context_def
      client_error_def Let_def split: option.split)

end
