(* ===== verification/Client_Session.thy ===== *)
theory Client_Session imports Client_Lease Auth_Execution begin

text \<open>
  \<^verbatim>\<open>src-tauri/src/services/authorization_client.rs\<close>: the client's side of the protocol. The
  transport (HTTP) and the secure store are traits: here they are functions, an arbitrary answer
  for each request, and what loading the device material and the registration yields. An
  \<^verbatim>\<open>Instant\<close> of the monotonic clock is its number of nanoseconds.
\<close>

section \<open>State\<close>

record registration_record =
  rg_client_id :: string
  rg_device_id :: string

record lease_clock =
  ck_anchor_unix :: i64
  ck_anchor_instant :: nat

record authorization_session =
  as_lease :: signed_lease
  as_server_time :: i64
  as_lease_clock :: lease_clock

record trusted_authorization_key =
  tk_key_id :: string
  tk_public_key_base64url :: string

record device_identity =
  di_install_id :: string
  di_device_id :: string
  di_public_key :: string

record device_signer =
  ds_public_key :: string
  ds_algorithm :: client_key_algorithm
  ds_sign_canonical :: "bytes \<Rightarrow> string + bytes"

record auth_client =
  cn_trusted_keys :: "trusted_authorization_key list"
  cn_client_version :: string
  cn_platform :: string
  cn_product :: string
  cn_material :: "authorization_error + (device_identity \<times> device_signer)"
  cn_registration :: "authorization_error + registration_record option"
  cn_session :: "authorization_session option"

section \<open>The clock of a lease\<close>

definition lease_clock_new :: "i64 \<Rightarrow> nat \<Rightarrow> lease_clock" where
  "lease_clock_new anchor_unix instant = \<lparr>ck_anchor_unix = anchor_unix, ck_anchor_instant = instant\<rparr>"

definition lease_clock_now_at :: "lease_clock \<Rightarrow> nat \<Rightarrow> authorization_error + i64" where
  "lease_clock_now_at ck instant =
    (let elapsed = int ((instant - ck_anchor_instant ck) div 1000000000)
     in if elapsed > i64_max then Inl (AE_Malformed ''lease clock overflow'')
        else if ck_anchor_unix ck + elapsed > i64_max then Inl (AE_Malformed ''lease clock overflow'')
        else Inr (ck_anchor_unix ck + elapsed))"

definition lease_validation_now :: "i64 \<Rightarrow> i64 \<Rightarrow> i64 option \<Rightarrow> i64" where
  "lease_validation_now server_time local_time minimum_now =
    (let response_now = max server_time local_time
     in case minimum_now of None \<Rightarrow> response_now | Some m \<Rightarrow> max response_now m)"

text \<open>\<^verbatim>\<open>current_unix_time\<close>: \<open>clock\<close> is the time since the epoch, \<open>None\<close> before it.\<close>

definition current_unix_time :: "u64 option \<Rightarrow> authorization_error + i64" where
  "current_unix_time clock = (case clock of
     None \<Rightarrow> Inl (AE_Malformed ''system clock is before Unix epoch'') | Some secs \<Rightarrow> Inr (sint secs))"

section \<open>Keys and bindings\<close>

definition identity :: "auth_client \<Rightarrow> authorization_error + device_identity" where
  "identity c = and_then (cn_material c) (\<lambda>m. Inr (fst m))"

definition signer :: "auth_client \<Rightarrow> authorization_error + device_signer" where
  "signer c = and_then (cn_material c) (\<lambda>m. Inr (snd m))"

definition ensure_registration_matches :: "registration_record \<Rightarrow> device_identity \<Rightarrow> authorization_error + unit" where
  "ensure_registration_matches r i =
    (if rg_device_id r = di_device_id i then Inr () else Inl AE_BindingMismatch)"

definition ensure_signer_matches_identity :: "device_identity \<Rightarrow> device_signer \<Rightarrow> authorization_error + unit" where
  "ensure_signer_matches_identity i sg =
    (if di_public_key i = ds_public_key sg then Inr () else Inl AE_BindingMismatch)"

definition trusted_key :: "auth_client \<Rightarrow> string \<Rightarrow> authorization_error + trusted_authorization_key" where
  "trusted_key c key_id =
    (case find (\<lambda>k. tk_key_id k = key_id) (cn_trusted_keys c) of
       None \<Rightarrow> Inl AE_UnknownKey | Some k \<Rightarrow> Inr k)"

definition sign_text :: "crates \<Rightarrow> device_signer \<Rightarrow> bytes \<Rightarrow> authorization_error + string" where
  "sign_text cr sg payload = map_err AE_SecureStore (and_then (ds_sign_canonical sg payload) (\<lambda>b. Inr (b64_encode cr b)))"

definition verify_lease ::
    "crates \<Rightarrow> auth_client \<Rightarrow> signed_lease \<Rightarrow> i64 \<Rightarrow> device_identity \<Rightarrow> protected_capability list
      \<Rightarrow> i64 option \<Rightarrow> u64 option \<Rightarrow> nat \<Rightarrow> authorization_error + lease_clock" where
  "verify_lease cr c lease server_time ident requested minimum_now clock instant =
    and_then (trusted_key c (sl_key_id lease)) (\<lambda>key.
    and_then (current_unix_time clock) (\<lambda>local_time.
    let now = lease_validation_now server_time local_time minimum_now in
    and_then (verify_signed_lease cr lease (tk_public_key_base64url key) now) (\<lambda>_.
      if lc_device_id (sl_claims lease) \<noteq> di_device_id ident
         \<or> lc_client_version (sl_claims lease) \<noteq> cn_client_version c
         \<or> lc_capabilities (sl_claims lease) \<noteq> requested
      then Inl AE_BindingMismatch
      else Inr (lease_clock_new now instant))))"

section \<open>Registration\<close>

definition client_register ::
    "crates \<Rightarrow> (register_request \<Rightarrow> authorization_error + register_response)
      \<Rightarrow> (complete_registration_request \<Rightarrow> authorization_error + complete_registration_response)
      \<Rightarrow> (registration_record \<Rightarrow> authorization_error + unit)
      \<Rightarrow> auth_client \<Rightarrow> (authorization_error + complete_registration_response) \<times> auth_client" where
  "client_register cr register complete save c =
    (case (and_then (identity c) (\<lambda>ident.
           and_then (signer c) (\<lambda>sg.
           and_then (ensure_signer_matches_identity ident sg) (\<lambda>_.
           and_then (register
             \<lparr>rr_install_id = di_install_id ident, rr_device_id = di_device_id ident,
              rr_client_version = cn_client_version c, rr_platform = cn_platform c,
              rr_device_public_key = ds_public_key sg, rr_client_key_algorithm = ds_algorithm sg,
              rr_requested_product = cn_product c\<rparr>) (\<lambda>response.
           if rs_device_id response \<noteq> di_device_id ident then Inl AE_BindingMismatch
           else and_then (sign_text cr sg (json_to_vec cr (registration_proof_json
                   \<lparr>rp_client_id = rs_client_id response, rp_challenge = rs_challenge response\<rparr>))) (\<lambda>signature.
           and_then (complete \<lparr>cq_client_id = rs_client_id response, cq_challenge = rs_challenge response,
                               cq_signature = signature\<rparr>) (\<lambda>done_response.
           if cs_client_id done_response \<noteq> rs_client_id response
              \<or> cs_device_id done_response \<noteq> di_device_id ident
           then Inl AE_BindingMismatch
           else and_then (save \<lparr>rg_client_id = cs_client_id done_response,
                                rg_device_id = cs_device_id done_response\<rparr>) (\<lambda>_.
                Inr done_response)))))))) of
       Inl e \<Rightarrow> (Inl e, c)
     | Inr done_response \<Rightarrow>
         (Inr done_response, c\<lparr>cn_registration := Inr (Some
            \<lparr>rg_client_id = cs_client_id done_response, rg_device_id = cs_device_id done_response\<rparr>)\<rparr>))"

section \<open>Sessions\<close>

definition registered :: "auth_client \<Rightarrow> device_identity \<Rightarrow> authorization_error + registration_record" where
  "registered c ident =
    and_then (cn_registration c) (\<lambda>r. case r of
       None \<Rightarrow> Inl AE_NotRegistered
     | Some reg \<Rightarrow> and_then (ensure_registration_matches reg ident) (\<lambda>_. Inr reg))"

definition session_request_of ::
    "crates \<Rightarrow> auth_client \<Rightarrow> protected_capability list \<Rightarrow> u64 option \<Rightarrow> string
      \<Rightarrow> authorization_error + (device_identity \<times> session_request)" where
  "session_request_of cr c capabilities clock nonce =
    and_then (identity c) (\<lambda>ident.
    and_then (signer c) (\<lambda>sg.
    and_then (ensure_signer_matches_identity ident sg) (\<lambda>_.
    and_then (registered c ident) (\<lambda>reg.
    and_then (current_unix_time clock) (\<lambda>iat.
    and_then (sign_text cr sg (json_to_vec cr (session_proof_json
        \<lparr>sp_client_id = rg_client_id reg, sp_device_id = di_device_id ident,
         sp_client_version = cn_client_version c, sp_nonce = nonce, sp_iat = iat,
         sp_capabilities = capabilities\<rparr>))) (\<lambda>signature.
      Inr (ident, \<lparr>sq_client_id = rg_client_id reg, sq_device_id = di_device_id ident,
           sq_client_version = cn_client_version c, sq_nonce = nonce, sq_iat = iat,
           sq_capabilities = capabilities, sq_signature = signature\<rparr>)))))))"

definition acquire_session ::
    "crates \<Rightarrow> (session_request \<Rightarrow> authorization_error + session_response) \<Rightarrow> protected_capability list
      \<Rightarrow> u64 option \<Rightarrow> string \<Rightarrow> u64 option \<Rightarrow> nat \<Rightarrow> auth_client
      \<Rightarrow> (authorization_error + authorization_session) \<times> auth_client" where
  "acquire_session cr transport capabilities clock0 nonce clock1 instant c =
    (case (and_then (session_request_of cr c capabilities clock0 nonce) (\<lambda>(ident, request).
           and_then (transport request) (\<lambda>response.
           and_then (verify_lease cr c (ss_lease response) (ss_server_time response) ident capabilities
                       None clock1 instant) (\<lambda>ck.
             Inr \<lparr>as_lease = ss_lease response, as_server_time = ss_server_time response,
                  as_lease_clock = ck\<rparr>)))) of
       Inl e \<Rightarrow> (Inl e, c)
     | Inr se \<Rightarrow> (Inr se, c\<lparr>cn_session := Some se\<rparr>))"

definition client_heartbeat ::
    "crates \<Rightarrow> (string \<Rightarrow> heartbeat_request \<Rightarrow> authorization_error + session_response)
      \<Rightarrow> u64 option \<Rightarrow> string \<Rightarrow> nat \<Rightarrow> u64 option \<Rightarrow> nat \<Rightarrow> auth_client
      \<Rightarrow> (authorization_error + authorization_session) \<times> auth_client" where
  "client_heartbeat cr transport clock0 nonce instant0 clock1 instant1 c =
    (case cn_session c of
       None \<Rightarrow> (Inl AE_NotRegistered, c)
     | Some current \<Rightarrow>
       (let claims = sl_claims (as_lease current) in
        case (and_then (identity c) (\<lambda>ident.
           and_then (signer c) (\<lambda>sg.
           and_then (ensure_signer_matches_identity ident sg) (\<lambda>_.
           and_then (registered c ident) (\<lambda>reg.
           and_then (current_unix_time clock0) (\<lambda>iat.
           and_then (sign_text cr sg (json_to_vec cr (heartbeat_proof_json
               \<lparr>hp_session_id = lc_session_id claims, hp_client_id = rg_client_id reg,
                hp_device_id = di_device_id ident, hp_nonce = nonce, hp_iat = iat\<rparr>))) (\<lambda>signature.
           and_then (transport (lc_session_id claims)
               \<lparr>hq_client_id = rg_client_id reg, hq_device_id = di_device_id ident, hq_nonce = nonce,
                hq_iat = iat, hq_signature = signature\<rparr>) (\<lambda>response.
           and_then (lease_clock_now_at (as_lease_clock current) instant0) (\<lambda>previous_now.
           and_then (verify_lease cr c (ss_lease response) (ss_server_time response) ident
                       (lc_capabilities claims) (Some previous_now) clock1 instant1) (\<lambda>ck.
             Inr \<lparr>as_lease = ss_lease response, as_server_time = ss_server_time response,
                  as_lease_clock = ck\<rparr>)))))))))) of
          Inl e \<Rightarrow> (Inl e, c)
        | Inr se \<Rightarrow> (Inr se, c\<lparr>cn_session := Some se\<rparr>)))"

section \<open>Artifacts and execution grants\<close>

definition current_session :: "auth_client \<Rightarrow> authorization_error + authorization_session" where
  "current_session c = (case cn_session c of None \<Rightarrow> Inl AE_NotRegistered | Some se \<Rightarrow> Inr se)"

definition client_prepare_artifact ::
    "crates \<Rightarrow> (string \<Rightarrow> string \<Rightarrow> artifact_prepare_request \<Rightarrow> authorization_error + signed_artifact_manifest)
      \<Rightarrow> nat \<Rightarrow> nat \<Rightarrow> string \<Rightarrow> string \<Rightarrow> string \<Rightarrow> string \<Rightarrow> auth_client
      \<Rightarrow> authorization_error + signed_artifact_manifest" where
  "client_prepare_artifact cr transport instant0 instant1 artifact_id target_abi target_android
      ephemeral_public_key c =
    and_then (current_session c) (\<lambda>se.
    and_then (identity c) (\<lambda>ident.
    let claims = sl_claims (as_lease se) in
    and_then (validate_session_binding claims (di_device_id ident) (lc_session_id claims)) (\<lambda>_.
    and_then (require_capability claims ProtectedArtifact) (\<lambda>_.
    and_then (lease_clock_now_at (as_lease_clock se) instant0) (\<lambda>now0.
    if lc_exp claims \<le> now0 then Inl AE_LeaseExpired
    else and_then (transport (lc_session_id claims) artifact_id
       \<lparr>pq_device_id = di_device_id ident, pq_target_abi = target_abi, pq_target_android = target_android,
        pq_ephemeral_public_key = ephemeral_public_key\<rparr>) (\<lambda>response.
    let m = sm_manifest response in
    if am_key_id m \<noteq> sm_key_id response then Inl AE_UnknownKey
    else and_then (trusted_key c (sm_key_id response)) (\<lambda>key.
    and_then (lease_clock_now_at (as_lease_clock se) instant1) (\<lambda>now.
    and_then (verify_signed_artifact_manifest cr m (sm_signature response) (tk_public_key_base64url key) now) (\<lambda>_.
    if am_artifact_id m \<noteq> artifact_id \<or> am_target_abi m \<noteq> target_abi
       \<or> am_target_android m \<noteq> target_android
    then Inl AE_TargetMismatch
    else and_then (validate_artifact_manifest m claims (di_device_id ident) (lc_session_id claims) now) (\<lambda>_.
      Inr response))))))))))"

definition request_execution_grant ::
    "crates \<Rightarrow> (string \<Rightarrow> execution_grant_request \<Rightarrow> authorization_error + signed_execution_grant)
      \<Rightarrow> nat \<Rightarrow> u64 option \<Rightarrow> string \<Rightarrow> string \<Rightarrow> string \<Rightarrow> string \<Rightarrow> string \<Rightarrow> string \<Rightarrow> auth_client
      \<Rightarrow> authorization_error + signed_execution_grant" where
  "request_execution_grant cr transport instant clock nonce artifact_id artifact_sha256 action vm instance_name c =
    and_then (current_session c) (\<lambda>se.
    and_then (identity c) (\<lambda>ident.
    and_then (signer c) (\<lambda>sg.
    and_then (ensure_signer_matches_identity ident sg) (\<lambda>_.
    let claims = sl_claims (as_lease se); session_id = lc_session_id claims in
    and_then (validate_session_binding claims (di_device_id ident) session_id) (\<lambda>_.
    and_then (require_capability claims ProtectedPreset) (\<lambda>_.
    and_then (require_capability claims ProtectedArtifact) (\<lambda>_.
    and_then (lease_clock_now_at (as_lease_clock se) instant) (\<lambda>now.
    if lc_exp claims \<le> now then Inl AE_LeaseExpired
    else and_then (current_unix_time clock) (\<lambda>iat.
    and_then (sign_text cr sg (json_to_vec cr (execution_grant_proof_json
       \<lparr>gp_artifact_id = artifact_id, gp_artifact_sha256 = artifact_sha256, gp_action = action,
        gp_vm = vm, gp_instance = instance_name, gp_nonce = nonce, gp_iat = iat\<rparr>))) (\<lambda>signature.
    and_then (transport session_id
       \<lparr>gq_artifact_id = artifact_id, gq_artifact_sha256 = artifact_sha256, gq_action = action,
        gq_vm = vm, gq_instance = instance_name, gq_nonce = nonce, gq_iat = iat,
        gq_signature = signature\<rparr>) (\<lambda>response.
    and_then (trusted_key c (sg_key_id response)) (\<lambda>key.
    and_then (verify_signed_execution_grant cr response (tk_public_key_base64url key) now) (\<lambda>grant.
    let expected_artifact_sha256 =
      (if blank artifact_sha256 then eg_artifact_sha256 grant else artifact_sha256) in
    and_then (validate_execution_grant grant claims
       \<lparr>cx_device_id = di_device_id ident, cx_session_id = session_id,
        cx_client_version = cn_client_version c, cx_artifact_id = artifact_id,
        cx_artifact_sha256 = expected_artifact_sha256, cx_action = action, cx_vm = vm,
        cx_instance = instance_name\<rparr> now) (\<lambda>_.
    and_then (sign_text cr sg (as_bytes (sg_payload response))) (\<lambda>proof_text.
      Inr (response\<lparr>sg_device_proof := Some proof_text\<rparr>))))))))))))))))"

section \<open>Downloading an artifact\<close>

text \<open>
  The directory of the destination: its files by name. What the operating system answers is
  \<open>dest_io\<close>: the error of opening, of writing the chunk with an index, of syncing and of renaming,
  \<open>None\<close> if the call succeeds.
\<close>

record dest_io =
  io_open :: "string option"
  io_write :: "u32 \<Rightarrow> string option"
  io_sync :: "string option"
  io_rename :: "string option"

text \<open>The loop over the chunk indices. \<open>acc\<close> is what was written to the file and fed to the hasher.\<close>

fun download_chunks ::
    "crates \<Rightarrow> bytes \<Rightarrow> artifact_manifest \<Rightarrow> (u32 \<Rightarrow> authorization_error + artifact_chunk_response)
      \<Rightarrow> dest_io \<Rightarrow> u32 list \<Rightarrow> u64 \<Rightarrow> bytes \<Rightarrow> authorization_error + (u64 \<times> bytes)" where
  "download_chunks cr key m fetch io [] written acc = Inr (written, acc)"
| "download_chunks cr key m fetch io (index # rest) written acc =
    and_then (fetch index) (\<lambda>chunk.
    if ac_index chunk \<noteq> index then Inl AE_ArtifactIntegrityFailed
    else and_then (map_err (\<lambda>_. AE_ArtifactIntegrityFailed) (b64_decode cr (ac_ciphertext chunk))) (\<lambda>ciphertext.
    and_then (client_decrypt_artifact_chunk cr key m index ciphertext) (\<lambda>plaintext.
    let expected = min (saturating_sub_u64 (am_size_bytes m) written) (ucast (am_chunk_size_bytes m)) in
    if expected = 0 \<or> length plaintext \<noteq> unat expected then Inl AE_ArtifactIntegrityFailed
    else case io_write io index of
      Some e \<Rightarrow> Inl (AE_SecureStore e)
    | None \<Rightarrow> download_chunks cr key m fetch io rest
        (saturating_add_u64 written (word_of_nat (length plaintext))) (acc @ plaintext))))"

definition chunk_indices :: "u32 \<Rightarrow> u32 list" where
  "chunk_indices n = map word_of_nat [0..<unat n]"

definition download_body ::
    "crates \<Rightarrow> bytes \<Rightarrow> artifact_manifest \<Rightarrow> (u32 \<Rightarrow> authorization_error + artifact_chunk_response)
      \<Rightarrow> dest_io \<Rightarrow> authorization_error + bytes" where
  "download_body cr key m fetch io =
    (case io_open io of
       Some e \<Rightarrow> Inl (AE_SecureStore e)
     | None \<Rightarrow>
       and_then (download_chunks cr key m fetch io (chunk_indices (am_chunk_count m)) 0 []) (\<lambda>(written, content).
       if written \<noteq> am_size_bytes m \<or> hex_string (sha256_digest cr content) \<noteq> am_sha256 m
       then Inl AE_ArtifactIntegrityFailed
       else case io_sync io of
         Some e \<Rightarrow> Inl (AE_SecureStore e)
       | None \<Rightarrow> (case io_rename io of
         Some e \<Rightarrow> Inl (AE_SecureStore e)
       | None \<Rightarrow> Inr content)))"

definition temporary_name :: "string \<Rightarrow> string \<Rightarrow> string" where
  "temporary_name file_name uuid = ''.'' @ file_name @ ''.part-'' @ uuid"

text \<open>
  \<open>parent_is_dir\<close> and the destination's \<^verbatim>\<open>file_name().to_str()\<close> are what the path operations
  yield. A failed body removes the temporary file, a successful one has renamed it.
\<close>

definition download_artifact_to ::
    "crates \<Rightarrow> (string \<Rightarrow> string \<Rightarrow> artifact_prepare_request \<Rightarrow> authorization_error + signed_artifact_manifest)
      \<Rightarrow> (string \<Rightarrow> string \<Rightarrow> string \<Rightarrow> u32 \<Rightarrow> authorization_error + artifact_chunk_response)
      \<Rightarrow> nat \<Rightarrow> nat \<Rightarrow> bytes \<Rightarrow> dest_io \<Rightarrow> bool \<Rightarrow> string option \<Rightarrow> string
      \<Rightarrow> string \<Rightarrow> string \<Rightarrow> string \<Rightarrow> auth_client \<Rightarrow> (string \<rightharpoonup> bytes)
      \<Rightarrow> (authorization_error + artifact_manifest) \<times> (string \<rightharpoonup> bytes)" where
  "download_artifact_to cr prepare fetch instant0 instant1 secret io parent_is_dir destination uuid
      artifact_id target_abi target_android c files =
    (let ephemeral = random_x25519_keypair cr secret in
     case client_prepare_artifact cr prepare instant0 instant1 artifact_id target_abi target_android
            (snd ephemeral) c of
       Inl e \<Rightarrow> (Inl e, files)
     | Inr answer \<Rightarrow> (let m = sm_manifest answer in
     case client_derive_x25519_shared_secret cr (fst ephemeral) (am_server_ephemeral_public_key m) of
       Inl e \<Rightarrow> (Inl e, files)
     | Inr shared \<Rightarrow> (case client_derive_artifact_key cr shared m of
       Inl e \<Rightarrow> (Inl e, files)
     | Inr key \<Rightarrow>
       if \<not> parent_is_dir \<or> (case destination of None \<Rightarrow> False | Some name \<Rightarrow> files name \<noteq> None)
       then (Inl AE_ArtifactIntegrityFailed, files)
       else case destination of
         None \<Rightarrow> (Inl (AE_Malformed ''artifact destination is invalid''), files)
       | Some name \<Rightarrow>
         (case download_body cr key m (fetch (am_session_id m) artifact_id (am_transfer_id m)) io of
            Inl e \<Rightarrow> (Inl e, files(temporary_name name uuid := None))
          | Inr content \<Rightarrow> (Inr m, files(temporary_name name uuid := None, name \<mapsto> content))))))"

end
