(* ===== verification/Auth_Transfer.thy ===== *)
theory Auth_Transfer imports Auth_Safety begin

text \<open>
  The artifact transfers that the service keeps in memory: what \<open>prepare_artifact\<close> records, the
  bound on their number, and that the chunks of a transfer put together are the published file.
\<close>

section \<open>The chunks of a file\<close>

lemma concat_chunks: "concat (map (\<lambda>i. take k (drop (i * k) xs)) [0..<n]) = take (n * k) xs"
proof (induction n)
  case (Suc n)
  have "take (Suc n * k) xs = take (n * k) xs @ take k (drop (n * k) xs)"
    by (metis add.commute mult_Suc take_add)
  with Suc show ?case by simp
qed simp

lemma chunk_count_of_Inr:
  assumes "chunk_count_of sz = Inr n"
  shows "unat n = (unat sz + 262143) div 262144" and "unat sz \<le> unat n * 262144"
proof -
  let ?q = "saturating_add_u64 sz (ARTIFACT_CHUNK_SIZE - 1) div ARTIFACT_CHUNK_SIZE"
  have c: "ARTIFACT_CHUNK_SIZE = (262144 :: u64)" "ARTIFACT_CHUNK_SIZE - 1 = (262143 :: u64)"
    by (simp_all add: ARTIFACT_CHUNK_SIZE_def)
  have q: "unat ?q = min 18446744073709551615 (unat sz + 262143) div 262144"
    by (simp only: unat_div c unat_saturating_add_u64) (simp add: unat_numeral [where ?'a = 64])
  have lt: "unat ?q < 4294967296" and n: "n = ucast ?q"
    using assms by (simp_all only: chunk_count_of_def Let_def split: if_splits) simp_all
  have "unat n = unat ?q" using lt by (simp add: n unsigned_ucast_eq take_bit_nat_eq_self)
  moreover have "unat sz + 262143 \<le> 18446744073709551615"
  proof (rule ccontr)
    assume "\<not> ?thesis"
    then have "unat ?q = 18446744073709551615 div 262144" unfolding q by (simp add: min_def)
    with lt show False by simp
  qed
  ultimately show "unat n = (unat sz + 262143) div 262144" by (simp add: q)
  then show "unat sz \<le> unat n * 262144" by linarith
qed

section \<open>What the service keeps of a transfer\<close>

definition transfer_ok :: "string \<Rightarrow> artifact_transfer \<Rightarrow> bool" where
  "transfer_ok tid t \<longleftrightarrow> (let m = at_manifest t in
     am_transfer_id m = tid \<and> am_artifact_id m = at_artifact_id t \<and> am_session_id m = at_session_id t
     \<and> am_device_id m = at_device_id t \<and> am_chunk_size_bytes m = 262144
     \<and> unat (am_chunk_count m) = (unat (am_size_bytes m) + 262143) div 262144)"

definition transfers_ok :: "app_state \<Rightarrow> bool" where
  "transfers_ok s \<longleftrightarrow> 1 \<le> ap_max_active_transfers s \<and> length (ap_transfers s) \<le> ap_max_active_transfers s
    \<and> distinct (map fst (ap_transfers s)) \<and> (\<forall>(tid, t) \<in> set (ap_transfers s). transfer_ok tid t)"

definition keeps_transfers :: "app_state \<Rightarrow> app_state \<Rightarrow> bool" where
  "keeps_transfers s s' \<longleftrightarrow> ap_max_active_transfers s' = ap_max_active_transfers s
    \<and> (ap_transfers s' = ap_transfers s \<or> (\<exists>now. ap_transfers s' = retain_live now (ap_transfers s)))"

lemma keeps_transfers_simps [simp]: "keeps_transfers s s" "keeps_transfers s (s\<lparr>ap_store := st\<rparr>)"
  "keeps_transfers s (s\<lparr>ap_store := st, ap_transfers := retain_live now (ap_transfers s)\<rparr>)"
  by (auto simp: keeps_transfers_def)

lemma transfers_ok_kept: "transfers_ok s \<Longrightarrow> keeps_transfers s s' \<Longrightarrow> transfers_ok s'"
  by (auto simp: transfers_ok_def keeps_transfers_def retain_live_def distinct_map_filter
      intro: le_trans [OF length_filter_le])

named_theorems keeps \<open>the handlers that start no transfer\<close>

lemma keeps_register_client [keeps]: "keeps_transfers s (snd (register_client cr clock uuid ch rq s))"
  unfolding register_client_def register_lookup_def Let_def case_prod_beta
  by (auto split: option.split sum.split bool.split)

lemma keeps_complete_registration [keeps]: "keeps_transfers s (snd (complete_registration cr clock rq s))"
  unfolding complete_registration_def Let_def case_prod_beta
  by (auto split: option.split sum.split bool.split)

lemma keeps_create_session_route [keeps]: "keeps_transfers s (snd (create_session_route cr clock sid jti rq s))"
  unfolding create_session_route_def Let_def case_prod_beta
  by (auto split: option.split sum.split bool.split)

lemma keeps_capabilities_route [keeps]: "keeps_transfers s (snd (capabilities_route clock au s))"
  unfolding capabilities_route_def Let_def case_prod_beta
  by (auto split: option.split sum.split bool.split)

lemma keeps_heartbeat [keeps]: "keeps_transfers s (snd (heartbeat cr clock jti sid rq s))"
  unfolding heartbeat_def Let_def case_prod_beta
  by (auto split: option.split sum.split bool.split)

lemma keeps_close_session [keeps]: "keeps_transfers s (snd (close_session clock sid au s))"
  unfolding close_session_def Let_def case_prod_beta
  by (auto split: option.split sum.split bool.split)

lemma keeps_issue_execution_grant [keeps]: "keeps_transfers s (snd (issue_execution_grant cr clock fs jti au rq s))"
  unfolding issue_execution_grant_def Let_def case_prod_beta
  by (auto split: option.split sum.split bool.split)

lemma keeps_release_execution_grant [keeps]: "keeps_transfers s (snd (release_execution_grant cr clock fs0 fs1 fs2 g s))"
  unfolding release_execution_grant_def Let_def case_prod_beta
  by (auto split: option.split sum.split bool.split)

lemma keeps_consume_execution_grant [keeps]: "keeps_transfers s (snd (consume_execution_grant cr clock fs g s))"
  unfolding consume_execution_grant_def Let_def case_prod_beta
  by (auto split: option.split sum.split bool.split)

lemma keeps_artifact_chunk [keeps]: "keeps_transfers s (snd (artifact_chunk cr clock fs aid tid i au s))"
  unfolding artifact_chunk_def Let_def case_prod_beta
  by (auto split: option.split sum.split bool.split)

lemma keeps_serve:
  "(\<exists>clock1 fs sec tid pre aid au rq. ev = EvPrepare clock1 fs sec tid pre aid au rq)
    \<or> keeps_transfers s (serve cr clock ev s)"
  by (cases ev) (auto simp: on_store_def intro: keeps)

lemma session_from_headers_store:
  "session_from_headers au now st = (Inr se, st') \<Longrightarrow> st' = st"
  by (elim session_from_headers_accepted)

lemma prepare_artifact_accepted:
  assumes "prepare_artifact cr clock0 clock1 fs sec tid pre aid au rq s = (Inr sm, s')"
  obtains now0 now se a p sz sha n shared where "now_secs clock1 = Inr now"
    and "now_secs clock0 = Inr now0"
    and "session_from_headers au now0 (ap_store s) = (Inr se, ap_store s)"
    and "se_device_id se = pq_device_id rq" and "ProtectedArtifact \<in> set (se_capabilities se)"
    and "artifact aid (ap_store s) = Some a"
    and "safe_artifact_path fs (ap_artifact_root s) a = Inr p"
    and "sha256_file cr fs p = Inr (sz, sha)" and "chunk_count_of sz = Inr n"
    and "derive_x25519_shared_secret cr (fst (random_x25519_keypair cr sec)) (pq_ephemeral_public_key rq) = Inr shared"
    and "length (retain_live now (ap_transfers s)) < ap_max_active_transfers s"
    and "sm = sign_manifest cr (ap_authority s)
       \<lparr>am_artifact_id = ar_artifact_id a, am_version = ar_version a,
        am_target_abi = ar_target_abi a, am_target_android = ar_target_android a,
        am_session_id = se_session_id se, am_device_id = se_device_id se,
        am_size_bytes = sz, am_sha256 = sha,
        am_expires_at = min (se_exp se) (saturating_add_i64 now ARTIFACT_TTL_SECS),
        am_key_id = sa_key_id (ap_authority s), am_transfer_id = tid,
        am_server_ephemeral_public_key = snd (random_x25519_keypair cr sec),
        am_chunk_size_bytes = ucast ARTIFACT_CHUNK_SIZE, am_chunk_count = n, am_nonce_prefix = pre\<rparr>"
    and "ap_max_active_transfers s' = ap_max_active_transfers s" and "ap_store s' = ap_store s"
    and "ap_transfers s' = insert_transfer tid
       \<lparr>at_artifact_id = ar_artifact_id a, at_session_id = se_session_id se,
        at_device_id = se_device_id se, at_path = p, at_manifest = sm_manifest sm,
        at_shared_secret = shared\<rparr> (retain_live now (ap_transfers s))"
proof -
  obtain now0 where now0: "now_secs clock0 = Inr now0"
    using assms by (cases "now_secs clock0") (simp_all add: prepare_artifact_def)
  obtain r st where r: "session_from_headers au now0 (ap_store s) = (r, st)" by fastforce
  obtain se where "r = Inr se"
    using assms now0 r by (cases r) (simp_all add: prepare_artifact_def)
  with r have se: "session_from_headers au now0 (ap_store s) = (Inr se, ap_store s)"
    using session_from_headers_store by blast
  show thesis
    using assms
    by (auto simp: prepare_artifact_def now0 se Let_def sign_manifest_def intro: that [OF _ now0 se]
        split: option.splits sum.splits if_splits prod.splits)
qed

lemma transfers_ok_prepare:
  assumes "transfers_ok s"
  shows "transfers_ok (snd (prepare_artifact cr clock0 clock1 fs sec tid pre aid au rq s))"
proof (cases "fst (prepare_artifact cr clock0 clock1 fs sec tid pre aid au rq s)")
  case (Inl e)
  have "keeps_transfers s (snd (prepare_artifact cr clock0 clock1 fs sec tid pre aid au rq s))"
    using Inl unfolding prepare_artifact_def Let_def case_prod_beta
    by (auto split: option.splits sum.splits if_splits)
  with assms show ?thesis by (rule transfers_ok_kept)
next
  case (Inr sm)
  then obtain s' where p: "prepare_artifact cr clock0 clock1 fs sec tid pre aid au rq s = (Inr sm, s')"
    by (metis prod.collapse)
  have live: "transfers_ok (s\<lparr>ap_transfers := retain_live now (ap_transfers s)\<rparr>)" for now
    by (rule transfers_ok_kept [OF assms]) (auto simp: keeps_transfers_def)
  have "transfers_ok s'"
    using p
  proof (rule prepare_artifact_accepted)
    fix now se a p sz sha n shared
    let ?live = "retain_live now (ap_transfers s)"
    let ?t = "\<lparr>at_artifact_id = ar_artifact_id a, at_session_id = se_session_id se,
        at_device_id = se_device_id se, at_path = p, at_manifest = sm_manifest sm, at_shared_secret = shared\<rparr>"
    assume cc: "chunk_count_of sz = Inr n" and lt: "length ?live < ap_max_active_transfers s"
      and m: "ap_max_active_transfers s' = ap_max_active_transfers s"
      and tr: "ap_transfers s' = insert_transfer tid ?t ?live"
      and sm: "sm = sign_manifest cr (ap_authority s)
       \<lparr>am_artifact_id = ar_artifact_id a, am_version = ar_version a,
        am_target_abi = ar_target_abi a, am_target_android = ar_target_android a,
        am_session_id = se_session_id se, am_device_id = se_device_id se,
        am_size_bytes = sz, am_sha256 = sha,
        am_expires_at = min (se_exp se) (saturating_add_i64 now ARTIFACT_TTL_SECS),
        am_key_id = sa_key_id (ap_authority s), am_transfer_id = tid,
        am_server_ephemeral_public_key = snd (random_x25519_keypair cr sec),
        am_chunk_size_bytes = ucast ARTIFACT_CHUNK_SIZE, am_chunk_count = n, am_nonce_prefix = pre\<rparr>"
    have t: "transfer_ok tid ?t"
      by (simp add: transfer_ok_def sm sign_manifest_def chunk_count_of_Inr(1) [OF cc] ARTIFACT_CHUNK_SIZE_def)
    have "length (filter (\<lambda>(k', _). k' \<noteq> tid) ?live) < ap_max_active_transfers s"
      by (rule le_less_trans [OF length_filter_le lt])
    then show "transfers_ok s'"
      using live [of now] t
      by (auto simp: Suc_le_eq transfers_ok_def m tr insert_transfer_def distinct_map_filter)
  qed
  then show ?thesis by (simp add: p)
qed

lemma transfers_ok_serve: "transfers_ok s \<Longrightarrow> transfers_ok (serve cr clock ev s)"
  using keeps_serve [of ev s cr clock] by (auto intro: transfers_ok_kept transfers_ok_prepare)

interpretation srv_transfers: stable_fact "\<lambda>(clock, ev). serve cr clock ev" transfers_ok for cr
  by unfold_locales (auto intro: transfers_ok_serve)

lemma transfers_ok_start: "transfers_ok (with_transfer_limit st authority root limit)"
  by (simp add: transfers_ok_def with_transfer_limit_def)

text \<open>
  C14: The service never holds more transfers than its limit, whatever is requested of it, and each
  one it holds is bound to the artifact, session and device of its signed manifest, in chunks of
  256 KiB of which there are just enough for the file.
\<close>

theorem transfers_bounded:
  "length (ap_transfers (run cr evs (with_transfer_limit st authority root limit)))
      \<le> ap_max_active_transfers (run cr evs (with_transfer_limit st authority root limit))
    \<and> list_all (\<lambda>(tid, t). transfer_ok tid t)
        (ap_transfers (run cr evs (with_transfer_limit st authority root limit)))"
proof -
  have "transfers_ok (run cr evs (with_transfer_limit st authority root limit))"
    unfolding run_def by (rule srv_transfers.stable_run) (rule transfers_ok_start)
  then show ?thesis by (auto simp: transfers_ok_def list_all_iff)
qed

section \<open>Serving a chunk\<close>

lemma chunk_range:
  assumes "transfer_ok tid t" and "m = at_manifest t" and "i < am_chunk_count m"
    and "length content = unat (am_size_bytes m)"
  defines "offset \<equiv> (ucast i :: u64) * ucast (am_chunk_size_bytes m)"
  defines "len \<equiv> min (saturating_sub_u64 (am_size_bytes m) offset) (ucast (am_chunk_size_bytes m))"
  shows "len \<noteq> 0"
    and "read_exact_at content (unat offset) (unat len) =
      Some (take 262144 (drop (unat i * 262144) content))"
proof -
  have cs: "am_chunk_size_bytes m = 262144" and cnt: "unat (am_chunk_count m) = (length content + 262143) div 262144"
    using assms(1,2,4) by (simp_all add: transfer_ok_def Let_def)
  have i: "unat i < (length content + 262143) div 262144" using assms(3) cnt by (simp add: word_less_nat_alt)
  have ilt: "unat i < 4294967296" using unsigned_less [of i] by simp
  have off: "unat offset = unat i * 262144"
    using ilt by (simp add: offset_def cs unat_mult_lem [THEN iffD1] unsigned_ucast_eq take_bit_nat_eq_self)
  have below: "unat i * 262144 < length content" using i by linarith
  have len: "unat len = min (length content - unat i * 262144) 262144"
  proof -
    have "unat (ucast (am_chunk_size_bytes m) :: u64) = 262144" by (simp add: cs)
    then show ?thesis
      by (simp add: len_def min_def word_le_nat_alt unat_saturating_sub_u64 off assms(4))
  qed
  then have "unat len \<noteq> 0" using below by simp
  then show "len \<noteq> 0" by auto
  show "read_exact_at content (unat offset) (unat len) =
      Some (take 262144 (drop (unat i * 262144) content))"
    using below by (auto simp add: read_exact_at_def off len min_def)
qed

lemma artifact_chunk_served:
  assumes "now_secs clock = Inr now" and "session_from_headers au now (ap_store s) = (Inr se, ap_store s)"
    and "map_of (retain_live now (ap_transfers s)) tid = Some t" and "transfer_ok tid t"
    and "at_artifact_id t = aid" and "at_session_id t = se_session_id se" and "at_device_id t = se_device_id se"
    and "i < am_chunk_count (at_manifest t)"
    and "fs_contents fs (at_path t) = Inr content" and "length content = unat (am_size_bytes (at_manifest t))"
    and "derive_artifact_key cr (at_shared_secret t) (at_manifest t) = Inr key"
    and "encrypt_artifact_chunk cr key (at_manifest t) i (take 262144 (drop (unat i * 262144) content)) = Inr c"
  shows "fst (artifact_chunk cr clock fs aid tid i au s) = Inr \<lparr>ac_index = i, ac_ciphertext = b64_encode cr c\<rparr>"
proof -
  note range = chunk_range [OF assms(4) refl assms(8,10)]
  have "\<not> am_chunk_count (at_manifest t) \<le> i" using assms(8) by simp
  then show ?thesis
    using assms range by (simp add: artifact_chunk_def Let_def)
qed

end
