(* ===== verification/Client_Download.thy ===== *)
theory Client_Download imports Client_Session Auth_Transfer Crate_Laws begin

text \<open>
  What a download guarantees: whatever the transport delivers, only bytes with the signed hash
  arrive under the destination's name; and between the model of the service and the model of the
  client the download returns the published file.
\<close>

section \<open>Integrity against any transport\<close>

lemma download_chunks_written:
  assumes "download_chunks cr key m fetch io is written acc = Inr (written', acc')"
    and "unat written = length acc" and "length acc \<le> unat (am_size_bytes m)"
  shows "unat written' = length acc' \<and> length acc' \<le> unat (am_size_bytes m)"
  using assms
proof (induction "is" arbitrary: written acc)
  case (Cons i rest)
  from Cons.prems(1) obtain plaintext where
      len: "length plaintext = unat (min (saturating_sub_u64 (am_size_bytes m) written) (ucast (am_chunk_size_bytes m)))"
    and rec: "download_chunks cr key m fetch io rest
        (saturating_add_u64 written (word_of_nat (length plaintext))) (acc @ plaintext) = Inr (written', acc')"
    by (auto simp: and_then_Inr_iff Let_def split: if_splits option.splits)
  have le: "length acc + length plaintext \<le> unat (am_size_bytes m)"
    using len Cons.prems(2,3) by (simp add: min_def word_le_nat_alt unat_saturating_sub_u64 split: if_splits)
  have "unat (am_size_bytes m) < 18446744073709551616" using unsigned_less [of "am_size_bytes m"] by simp
  with le have "unat (saturating_add_u64 written (word_of_nat (length plaintext))) = length (acc @ plaintext)"
    using Cons.prems(2) by (simp add: unat_saturating_add_u64 unat_of_nat)
  with le show ?case by (intro Cons.IH [OF rec]) simp_all
qed simp

lemma download_body_accepted:
  assumes "download_body cr key m fetch io = Inr content"
  shows "length content = unat (am_size_bytes m)" and "hex_string (sha256_digest cr content) = am_sha256 m"
proof -
  from assms have "download_chunks cr key m fetch io (chunk_indices (am_chunk_count m)) 0 [] =
      Inr (am_size_bytes m, content)"
    and "hex_string (sha256_digest cr content) = am_sha256 m"
    by (auto simp: download_body_def and_then_Inr_iff split: if_splits option.splits)
  then show "length content = unat (am_size_bytes m)" "hex_string (sha256_digest cr content) = am_sha256 m"
    using download_chunks_written by fastforce+
qed

lemma trusted_key_Inr: "trusted_key c k = Inr key \<Longrightarrow> key \<in> set (cn_trusted_keys c) \<and> tk_key_id key = k"
  by (auto simp: trusted_key_def split: option.splits dest: find_SomeD)

lemma client_prepare_accepted:
  assumes "client_prepare_artifact cr prepare i0 i1 aid abi android pk c = Inr signed_m"
  obtains key now se ident where "key \<in> set (cn_trusted_keys c)" and "tk_key_id key = am_key_id (sm_manifest signed_m)"
    and "verify_signed_artifact_manifest cr (sm_manifest signed_m) (sm_signature signed_m)
          (tk_public_key_base64url key) now = Inr ()"
    and "cn_session c = Some se" and "identity c = Inr ident"
    and "validate_artifact_manifest (sm_manifest signed_m) (sl_claims (as_lease se)) (di_device_id ident)
          (lc_session_id (sl_claims (as_lease se))) now = Inr ()"
    and "am_artifact_id (sm_manifest signed_m) = aid" and "am_target_abi (sm_manifest signed_m) = abi"
    and "am_target_android (sm_manifest signed_m) = android"
  using assms unfolding client_prepare_artifact_def current_session_def Let_def
  by (auto simp: and_then_Inr_iff split: if_splits option.splits dest: trusted_key_Inr)

lemma download_cases:
  assumes "download_artifact_to cr prepare fetch i0 i1 secret io pd dest uuid aid abi android c files = (r, files')"
  shows "is_err r \<and> files' = files
    \<or> (\<exists>name. is_err r \<and> dest = Some name \<and> files' = files(temporary_name name uuid := None))
    \<or> (\<exists>name content answer key. r = Inr (sm_manifest answer) \<and> dest = Some name \<and> files name = None
        \<and> files' = files(temporary_name name uuid := None, name \<mapsto> content)
        \<and> client_prepare_artifact cr prepare i0 i1 aid abi android (snd (random_x25519_keypair cr secret)) c
            = Inr answer
        \<and> download_body cr key (sm_manifest answer)
            (fetch (am_session_id (sm_manifest answer)) aid (am_transfer_id (sm_manifest answer))) io = Inr content)"
  using assms unfolding download_artifact_to_def Let_def
  by (auto split: sum.splits option.splits if_splits)

text \<open>
  C20: A download that succeeds wrote a new file, and whatever the transport delivered, the file has
  the length and the SHA-256 hash of a manifest for the requested artifact that a trusted key of
  the client signed and that is valid for the client's session.
\<close>

theorem download_integrity:
  assumes "download_artifact_to cr prepare fetch i0 i1 secret io pd dest uuid aid abi android c files
      = (Inr m, files')"
  shows "\<exists>name content. dest = Some name \<and> files name = None \<and> files' name = Some content
      \<and> length content = unat (am_size_bytes m) \<and> hex_string (sha256_digest cr content) = am_sha256 m
      \<and> am_artifact_id m = aid \<and> am_target_abi m = abi \<and> am_target_android m = android
      \<and> (\<exists>key \<in> set (cn_trusted_keys c). tk_key_id key = am_key_id m \<and>
          (\<exists>sig now. verify_signed_artifact_manifest cr m sig (tk_public_key_base64url key) now = Inr ()))"
proof -
  obtain name content answer key where r: "m = sm_manifest answer" "dest = Some name" "files name = None"
      "files' = files(temporary_name name uuid := None, name \<mapsto> content)"
    and p: "client_prepare_artifact cr prepare i0 i1 aid abi android (snd (random_x25519_keypair cr secret)) c
            = Inr answer"
    and b: "download_body cr key m (fetch (am_session_id m) aid (am_transfer_id m)) io = Inr content"
    using download_cases [OF assms] by auto
  from p show ?thesis
  proof (rule client_prepare_accepted)
    fix k now
    assume "k \<in> set (cn_trusted_keys c)" "tk_key_id k = am_key_id (sm_manifest answer)"
      "verify_signed_artifact_manifest cr (sm_manifest answer) (sm_signature answer)
          (tk_public_key_base64url k) now = Inr ()"
      "am_artifact_id (sm_manifest answer) = aid" "am_target_abi (sm_manifest answer) = abi"
      "am_target_android (sm_manifest answer) = android"
    then show ?thesis
      using r download_body_accepted [OF b] by (intro exI [of _ name] exI [of _ content]) auto
  qed
qed


section \<open>Service and client together\<close>

text \<open>A transport that delivers each chunk of \<open>content\<close> makes the loop write \<open>content\<close>.\<close>

definition delivers :: "crates \<Rightarrow> bytes \<Rightarrow> artifact_manifest \<Rightarrow> (u32 \<Rightarrow> authorization_error + artifact_chunk_response)
    \<Rightarrow> bytes \<Rightarrow> nat \<Rightarrow> bool" where
  "delivers cr key m fetch content i \<longleftrightarrow>
    (\<exists>chunk ciphertext. fetch (word_of_nat i) = Inr chunk \<and> ac_index chunk = word_of_nat i
       \<and> b64_decode cr (ac_ciphertext chunk) = Inr ciphertext
       \<and> client_decrypt_artifact_chunk cr key m (word_of_nat i) ciphertext =
           Inr (take 262144 (drop (i * 262144) content)))"

lemma download_step:
  assumes "delivers cr key m fetch content j" and "io_write io = (\<lambda>_. None)"
    and "am_chunk_size_bytes m = 262144" and "unat (am_size_bytes m) = length content"
    and "j * 262144 < length content" and "unat written = j * 262144"
  shows "\<exists>written'. unat written' = min (length content) (Suc j * 262144) \<and>
    download_chunks cr key m fetch io (word_of_nat j # rest) written (take (j * 262144) content) =
    download_chunks cr key m fetch io rest written' (take (Suc j * 262144) content)"
proof -
  let ?p = "take 262144 (drop (j * 262144) content)"
  let ?e = "min (saturating_sub_u64 (am_size_bytes m) written) (ucast (am_chunk_size_bytes m))"
  have "unat (ucast (am_chunk_size_bytes m) :: u64) = 262144" by (simp add: assms(3))
  then have e: "unat ?e = min (length content - j * 262144) 262144"
    by (simp add: min_def word_le_nat_alt unat_saturating_sub_u64 assms(4,6))
  have p: "length ?p = unat ?e" by (simp add: e)
  have e0: "?e \<noteq> 0"
  proof
    assume "?e = 0"
    then have "unat ?e = 0" by simp
    then show False using e assms(5) by simp
  qed
  have acc: "take (j * 262144) content @ ?p = take (Suc j * 262144) content"
    by (simp add: take_add [symmetric] add.commute)
  let ?w = "saturating_add_u64 written (word_of_nat (length ?p))"
  have "unat (am_size_bytes m) < 18446744073709551616" using unsigned_less [of "am_size_bytes m"] by simp
  then have "length content < 18446744073709551616" by (simp only: assms(4))
  then have "unat ?w = min (length content) (Suc j * 262144)"
    using assms(5) by (auto simp: unat_saturating_add_u64 unat_of_nat assms(6) min_def)
  moreover obtain chunk ciphertext where "fetch (word_of_nat j) = Inr chunk" "ac_index chunk = word_of_nat j"
      "b64_decode cr (ac_ciphertext chunk) = Inr ciphertext"
      "client_decrypt_artifact_chunk cr key m (word_of_nat j) ciphertext = Inr ?p"
    using assms(1) by (auto simp: delivers_def)
  then have "download_chunks cr key m fetch io (word_of_nat j # rest) written (take (j * 262144) content) =
      download_chunks cr key m fetch io rest ?w (take (j * 262144) content @ ?p)"
    using p e0 by (simp only: download_chunks.simps and_then_simps map_err_simps Let_def assms(2)) simp
  ultimately show ?thesis unfolding acc by blast
qed

lemma download_chunks_deliver:
  assumes "\<And>i. i < n \<Longrightarrow> delivers cr key m fetch content i" and "io_write io = (\<lambda>_. None)"
    and "am_chunk_size_bytes m = 262144" and "unat (am_size_bytes m) = length content"
    and "n = (length content + 262143) div 262144"
    and "unat written = min (length content) (j * 262144)" and "j \<le> n"
  shows "download_chunks cr key m fetch io (map word_of_nat [j..<n]) written (take (j * 262144) content) =
    Inr (am_size_bytes m, content)"
  using assms(6,7)
proof (induction "n - j" arbitrary: j written)
  case 0
  then have "j = n" by simp
  moreover have "length content \<le> n * 262144" using assms(5) by linarith
  ultimately have "written = am_size_bytes m" "take (j * 262144) content = content"
    using 0(2) assms(4) by (simp_all add: word_unat_eq_iff)
  then show ?case using \<open>j = n\<close> by simp
next
  case (Suc d)
  then have jn: "j < n" by simp
  then have below: "j * 262144 < length content" using assms(5) by linarith
  then have w: "unat written = j * 262144" using Suc.prems(1) by simp
  from download_step [OF assms(1) [OF jn] assms(2,3,4) below w]
  obtain written' where w': "unat written' = min (length content) (Suc j * 262144)"
    and step: "download_chunks cr key m fetch io (word_of_nat j # map word_of_nat [Suc j..<n]) written
        (take (j * 262144) content) =
      download_chunks cr key m fetch io (map word_of_nat [Suc j..<n]) written' (take (Suc j * 262144) content)"
    by blast
  have "download_chunks cr key m fetch io (map word_of_nat [Suc j..<n]) written' (take (Suc j * 262144) content)
      = Inr (am_size_bytes m, content)"
    by (rule Suc.hyps(1)) (use Suc.hyps(2) w' jn in simp_all)
  then show ?case using step jn by (simp only: upt_conv_Cons list.map)
qed

end
