(* ===== verification/Client_Service.thy ===== *)
theory Client_Service imports Client_Download begin

text \<open>
  The service and the client put together: the client's transport is the service's handler. A
  download returns the published file, a session that the service opens is one the client
  accepts, and an execution grant that the service issues is accepted by the client and, with the
  client's device proof, by the service.
\<close>

section \<open>Transports\<close>

text \<open>The HTTP transport turns a refusal of the service into some error of the client.\<close>

definition answer_of :: "(api_error \<Rightarrow> authorization_error) \<Rightarrow> (api_error + 'a) \<times> app_state \<Rightarrow> authorization_error + 'a" where
  "answer_of refusal r = map_err refusal (fst r)"

definition bearer :: "string \<Rightarrow> string option" where
  "bearer session_id = Some (''Bearer '' @ session_id)"

section \<open>Downloads\<close>

lemma header_later:
  assumes "session_from_headers au t0 st = (Inr se, st)" and "t1 < se_exp se"
  shows "session_from_headers au t1 st = (Inr se, st)"
proof -
  obtain v sid c where a: "au = Some v" and p: "strip_prefix ''Bearer '' v = Some sid" and b: "\<not> blank sid"
    and s: "session sid st = Some se" "\<not> se_revoked se" and c: "client (se_client_id se) st = Some c"
      "ensure_client_usable c (se_device_id se) = Inr ()"
    and e: "\<forall>cap \<in> set (se_capabilities se). has_entitlement (cl_account_id c) cap st"
    using assms(1) by (rule session_from_headers_accepted)
  have "\<not> list_ex (\<lambda>cap. \<not> has_entitlement (cl_account_id c) cap st) (se_capabilities se)"
    using e by (simp add: list_ex_iff)
  then show ?thesis
    unfolding session_from_headers_def a option.case p using b s c assms(2) by simp
qed

lemma client_nonce_ok: "artifact_nonce cr m i = Inr n \<Longrightarrow> client_artifact_nonce cr m i = Inr n"
  by (simp add: same_nonce)

lemma chunk_delivered:
  assumes "b64_law cr" and "aead_law cr" and "length key = 32"
    and "derive_artifact_key cr (at_shared_secret t) (at_manifest t) = Inr key"
    and "b64_decode cr (am_nonce_prefix (at_manifest t)) = Inr prefix" and "length prefix = 8"
    and "now_secs clock = Inr now" and "session_from_headers au now (ap_store s) = (Inr se, ap_store s)"
    and "map_of (retain_live now (ap_transfers s)) tid = Some t" and "transfer_ok tid t"
    and "at_artifact_id t = aid" and "at_session_id t = se_session_id se" and "at_device_id t = se_device_id se"
    and "i < unat (am_chunk_count (at_manifest t))"
    and "fs_contents fs (at_path t) = Inr content" and "length content = unat (am_size_bytes (at_manifest t))"
    and "fetch (word_of_nat i) =
      answer_of refusal (artifact_chunk cr clock fs aid tid (word_of_nat i) au s)"
  shows "delivers cr key (at_manifest t) fetch content i"
proof -
  let ?m = "at_manifest t" and ?i = "word_of_nat i :: u32"
  let ?p = "take 262144 (drop (i * 262144) content)"
  have "unat (am_chunk_count ?m) < 4294967296" using unsigned_less [of "am_chunk_count ?m"] by simp
  with assms(14) have "i < 4294967296" by linarith
  then have i: "unat ?i = i" by (simp add: unat_of_nat)
  then have lt: "?i < am_chunk_count ?m" using assms(14) by (simp add: word_less_nat_alt)
  have n: "artifact_nonce cr ?m ?i = Inr (prefix @ u32_to_be ?i)" (is "_ = Inr ?n")
    by (simp add: artifact_nonce_def assms(5,6))
  have "length ?n = 12" by (simp add: assms(6))
  then obtain c where c: "chacha_encrypt cr key ?n (artifact_aad ?m ?i) ?p = Some c"
      "chacha_decrypt cr key ?n (artifact_aad ?m ?i) c = Some ?p"
    using assms(2,3) unfolding aead_law_def by blast
  have enc: "encrypt_artifact_chunk cr key ?m ?i (take 262144 (drop (unat ?i * 262144) content)) = Inr c"
    by (simp add: encrypt_artifact_chunk_def n c i)
  have "fetch ?i = Inr \<lparr>ac_index = ?i, ac_ciphertext = b64_encode cr c\<rparr>"
    using artifact_chunk_served [OF assms(7-13) lt assms(15,16) assms(4) enc]
    by (simp add: assms(17) answer_of_def)
  moreover have "client_decrypt_artifact_chunk cr key ?m ?i c = Inr ?p"
    by (simp add: client_decrypt_artifact_chunk_def client_nonce_ok [OF n] same_aad c)
  moreover have "b64_decode cr (b64_encode cr c) = Inr c" using assms(1) by (simp add: b64_law_def)
  ultimately show ?thesis by (simp add: delivers_def)
qed

lemma retain_live_insert:
  assumes "now < am_expires_at (at_manifest t)"
  shows "map_of (retain_live now (insert_transfer tid t ts)) tid = Some t"
  using assms by (simp add: retain_live_def insert_transfer_def)

lemma validate_manifest_Inr:
  assumes "validate_artifact_manifest m claims d sid now = Inr ()"
  shows "am_device_id m = d" and "am_session_id m = sid" and "now < am_expires_at m"
    and "am_expires_at m \<le> lc_exp claims" and "am_size_bytes m \<noteq> 0"
  using assms by (auto simp: validate_artifact_manifest_def and_then_Inr_iff split: if_splits)

lemma validate_manifest_binding:
  "validate_artifact_manifest m claims d sid now = Inr () \<Longrightarrow> d = am_device_id m \<and> sid = am_session_id m"
  by (simp add: validate_manifest_Inr)

lemma client_prepare_called:
  assumes "client_prepare_artifact cr prepare i0 i1 aid abi android pk c = Inr answer"
  shows "prepare (am_session_id (sm_manifest answer)) aid
    \<lparr>pq_device_id = am_device_id (sm_manifest answer), pq_target_abi = abi, pq_target_android = android,
     pq_ephemeral_public_key = pk\<rparr> = Inr answer"
  using assms unfolding client_prepare_artifact_def Let_def
  by (auto simp: and_then_Inr_iff split: if_splits dest!: validate_manifest_binding)

text \<open>A transport that delivers every chunk gives the client the whole content.\<close>

lemma delivered_download:
  assumes "\<And>i. i < unat (am_chunk_count m) \<Longrightarrow> delivers cr key m fetch content i"
    and "am_chunk_size_bytes m = 262144" and "unat (am_size_bytes m) = length content"
    and "unat (am_chunk_count m) = (length content + 262143) div 262144"
    and "hex_string (sha256_digest cr content) = am_sha256 m"
    and "io = \<lparr>io_open = None, io_write = \<lambda>_. None, io_sync = None, io_rename = None\<rparr>"
  shows "download_body cr key m fetch io = Inr content"
proof -
  have "download_chunks cr key m fetch io (chunk_indices (am_chunk_count m)) 0 [] = Inr (am_size_bytes m, content)"
    using download_chunks_deliver [OF assms(1) _ assms(2,3,4), of io 0 0]
    by (simp add: assms(6) chunk_indices_def)
  then show ?thesis by (simp add: download_body_def assms(5,6))
qed

text \<open>
  C18: When the transport is the service, the files do not change and the chunks are requested
  before the transfer expires, a download whose preparation the client accepts ends with exactly
  the content of the published file under the destination's name.
\<close>

theorem download_delivers_published_file:
  assumes "b64_law cr" and "aead_law cr" and "x25519_law cr" and "hkdf_law cr"
    and "length secret = 32" and "length server_secret = 32"
    and "b64_decode cr prefix_text = Inr prefix" and "length prefix = 8"
    and "\<And>p content. fs_contents fs p = Inr content \<Longrightarrow> length content < 18446744073709551616"
    and "transfers_ok s" and "now_secs clock0 = Inr t0"
    and "prepare = (\<lambda>sid aid rq. answer_of refusal
          (prepare_artifact cr clock0 clock1 fs server_secret tid prefix_text aid (bearer sid) rq s))"
    and "client_prepare_artifact cr prepare i0 i1 aid abi android (snd (random_x25519_keypair cr secret)) c
          = Inr answer"
    and "m = sm_manifest answer"
    and "s1 = snd (prepare_artifact cr clock0 clock1 fs server_secret tid prefix_text aid
          (bearer (am_session_id m)) \<lparr>pq_device_id = am_device_id m, pq_target_abi = abi,
            pq_target_android = android, pq_ephemeral_public_key = snd (random_x25519_keypair cr secret)\<rparr> s)"
    and "fetch = (\<lambda>sid aid tid i. answer_of refusal (artifact_chunk cr (clock i) fs aid tid i (bearer sid) s1))"
    and "\<And>i. \<exists>t. now_secs (clock i) = Inr t \<and> t < am_expires_at m"
    and "files name = None"
    and "io = \<lparr>io_open = None, io_write = \<lambda>_. None, io_sync = None, io_rename = None\<rparr>"
  shows "\<exists>a p content. artifact aid (ap_store s) = Some a \<and> safe_artifact_path fs (ap_artifact_root s) a = Inr p
    \<and> fs_contents fs p = Inr content
    \<and> download_artifact_to cr prepare fetch i0 i1 secret io True (Some name) uuid aid abi android c files
        = (Inr m, files(temporary_name name uuid := None, name \<mapsto> content))"
proof -
  let ?pk = "snd (random_x25519_keypair cr secret)"
  let ?rq = "\<lparr>pq_device_id = am_device_id m, pq_target_abi = abi, pq_target_android = android,
     pq_ephemeral_public_key = ?pk\<rparr>"
  have "prepare (am_session_id m) aid ?rq = Inr answer"
    using client_prepare_called [OF assms(13)] by (simp add: assms(14))
  then have prep: "prepare_artifact cr clock0 clock1 fs server_secret tid prefix_text aid
      (bearer (am_session_id m)) ?rq s = (Inr answer, s1)"
    by (simp add: assms(12,15) answer_of_def prod_eq_iff)
  from prep show ?thesis
  proof (rule prepare_artifact_accepted)
    fix now0 now p sz sha n shared and se :: session_record and a :: artifact_record
    let ?t = "\<lparr>at_artifact_id = ar_artifact_id a, at_session_id = se_session_id se,
        at_device_id = se_device_id se, at_path = p, at_manifest = sm_manifest answer, at_shared_secret = shared\<rparr>"
    assume now0: "now_secs clock0 = Inr now0"
      and hdr: "session_from_headers (bearer (am_session_id m)) now0 (ap_store s) = (Inr se, ap_store s)"
      and art: "artifact aid (ap_store s) = Some a" and path: "safe_artifact_path fs (ap_artifact_root s) a = Inr p"
      and sha: "sha256_file cr fs p = Inr (sz, sha)" and cc: "chunk_count_of sz = Inr n"
      and shared: "derive_x25519_shared_secret cr (fst (random_x25519_keypair cr server_secret))
          (pq_ephemeral_public_key ?rq) = Inr shared"
      and answer: "answer = sign_manifest cr (ap_authority s)
         \<lparr>am_artifact_id = ar_artifact_id a, am_version = ar_version a,
          am_target_abi = ar_target_abi a, am_target_android = ar_target_android a,
          am_session_id = se_session_id se, am_device_id = se_device_id se,
          am_size_bytes = sz, am_sha256 = sha,
          am_expires_at = min (se_exp se) (saturating_add_i64 now ARTIFACT_TTL_SECS),
          am_key_id = sa_key_id (ap_authority s), am_transfer_id = tid,
          am_server_ephemeral_public_key = snd (random_x25519_keypair cr server_secret),
          am_chunk_size_bytes = ucast ARTIFACT_CHUNK_SIZE, am_chunk_count = n, am_nonce_prefix = prefix_text\<rparr>"
      and store: "ap_store s1 = ap_store s" and tr: "ap_transfers s1 = insert_transfer tid ?t (retain_live now (ap_transfers s))"
    have m: "am_session_id m = se_session_id se" "am_device_id m = se_device_id se"
        "am_artifact_id m = ar_artifact_id a" "am_size_bytes m = sz" "am_transfer_id m = tid"
        "am_server_ephemeral_public_key m = snd (random_x25519_keypair cr server_secret)"
        "am_chunk_size_bytes m = 262144" "am_chunk_count m = n" "am_nonce_prefix m = prefix_text"
        "am_expires_at m \<le> se_exp se"
      by (simp_all add: assms(14) answer sign_manifest_def ARTIFACT_CHUNK_SIZE_def)
    obtain content where content: "fs_contents fs p = Inr content"
      using sha by (auto simp: sha256_file_def split: sum.splits)
    have small: "length content < 18446744073709551616" by (rule assms(9) [OF content])
    have szw: "sz = word_of_nat (length content)" and "sha = hex_string (sha256_digest cr content)"
      using sha256_file_eq [OF content small, of cr] sha by simp_all
    then have digest: "hex_string (sha256_digest cr content) = am_sha256 m"
      by (simp add: assms(14) answer sign_manifest_def)
    have size: "unat sz = length content" using small szw by (simp add: unat_of_nat)
    have "b64_decode cr ?pk = Inr (x25519_public cr secret)" "length (x25519_public cr secret) = 32"
      using assms(1,3,5) by (auto simp: random_x25519_keypair_def b64_law_def x25519_law_def)
    then have sh: "shared = x25519_dh cr server_secret (x25519_public cr secret)"
      using shared by (simp add: derive_x25519_shared_secret_def random_x25519_keypair_def)
    have aid: "ar_artifact_id a = aid" using client_prepare_accepted [OF assms(13)] m(3) assms(14) by metis
    have cs: "client_derive_x25519_shared_secret cr secret (am_server_ephemeral_public_key m) = Inr shared"
      using assms(1,3,5,6)
      by (simp add: client_derive_x25519_shared_secret_def m random_x25519_keypair_def b64_law_def
          x25519_law_def sh)
    obtain key where hk: "hkdf_expand cr (as_bytes ''rdc-artifact-v1'') shared (artifact_key_context m) 32 = Some key"
        and kl: "length key = 32"
      using assms(4) unfolding hkdf_law_def by blast
    have key: "derive_artifact_key cr shared m = Inr key"
      by (simp only: derive_artifact_key_def hk option.case)
    have ck: "client_derive_artifact_key cr shared m = Inr key" by (simp add: same_key key)
    have "transfers_ok s1" using transfers_ok_prepare [OF assms(10)] assms(15) by simp
    then have tok: "transfer_ok tid ?t" by (simp add: transfers_ok_def tr insert_transfer_def)
    have del: "delivers cr key m (fetch (am_session_id m) aid (am_transfer_id m)) content i" if i: "i < unat n" for i
    proof -
      obtain t where t: "now_secs (clock (word_of_nat i)) = Inr t" "t < am_expires_at m" using assms(17) by blast
      have m': "sm_manifest answer = m" by (simp add: assms(14))
      have live: "map_of (retain_live t (ap_transfers s1)) tid = Some ?t"
        unfolding tr by (rule retain_live_insert) (simp add: m' t(2))
      have h: "session_from_headers (bearer (am_session_id m)) t (ap_store s1) = (Inr se, ap_store s1)"
        unfolding store by (rule header_later [OF hdr]) (use t(2) m(10) in linarith)
      have fetch: "fetch (am_session_id m) aid (am_transfer_id m) (word_of_nat i) =
          answer_of refusal (artifact_chunk cr (clock (word_of_nat i)) fs aid tid (word_of_nat i)
            (bearer (am_session_id m)) s1)"
        by (simp add: assms(16) m)
      have "delivers cr key (at_manifest ?t) (fetch (am_session_id m) aid (am_transfer_id m)) content i"
        by (rule chunk_delivered [where i = i and fetch = "fetch (am_session_id m) aid (am_transfer_id m)",
              OF assms(1,2) kl _ _ assms(8) t(1) h live tok _ _ _ _ _ _ fetch])
          (use key assms(7) aid m size content i m' in simp_all)
      then show ?thesis by (simp add: m')
    qed
    have cnt: "unat n = (length content + 262143) div 262144" using chunk_count_of_Inr(1) [OF cc] size by simp
    have "download_body cr key m (fetch (am_session_id m) aid (am_transfer_id m)) io = Inr content"
      by (rule delivered_download) (use del size cnt digest assms(19) in \<open>simp_all add: m\<close>)
    then have "download_artifact_to cr prepare fetch i0 i1 secret io True (Some name) uuid aid abi android c files
        = (Inr m, files(temporary_name name uuid := None, name \<mapsto> content))"
      using cs ck assms(13,14,18)
      by (simp add: download_artifact_to_def Let_def random_x25519_keypair_def)
    with art path content show ?thesis by blast
  qed
qed

section \<open>Sessions\<close>

lemma session_request_fields:
  assumes "session_request_of cr c caps clock nonce = Inr (ident, rq)"
  shows "sq_device_id rq = di_device_id ident" and "sq_client_version rq = cn_client_version c"
    and "sq_nonce rq = nonce" and "sq_capabilities rq = caps" and "identity c = Inr ident"
  using assms by (auto simp: session_request_of_def and_then_Inr_iff)

lemma blank_not_nonce: "\<not> is_err (validate_nonce n) \<Longrightarrow> n \<noteq> []"
  by (auto simp: validate_nonce_def)

text \<open>
  C19: A session that the service opens is one that the client accepts: if the client trusts the
  service's public key and its own clock is before the end of the lease, acquiring a session through
  the service stores the service's lease as the client's session.
\<close>

theorem acquired_session_accepted:
  assumes "b64_law cr" and "ed25519_law cr" and "length (sa_signing_key (ap_authority s)) = 32"
    and "trusted_key c (sa_key_id (ap_authority s)) = Inr key"
    and "tk_public_key_base64url key = public_key_base64url cr (ap_authority s)"
    and "session_request_of cr c caps clock0 nonce = Inr (ident, rq)"
    and "create_session_route cr sclock sid jti rq s = (Inr resp, s')"
    and "\<And>r. client (sq_client_id rq) (ap_store s) = Some r \<Longrightarrow> cl_account_id r \<noteq> []"
    and "sid \<noteq> []" and "jti \<noteq> []" and "sq_client_id rq \<noteq> []" and "sq_device_id rq \<noteq> []"
    and "current_unix_time clock1 = Inr local_time"
    and "local_time < lc_exp (sl_claims (ss_lease resp))" and "ss_server_time resp < i64_max"
  shows "\<exists>se. acquire_session cr (\<lambda>rq. answer_of refusal (create_session_route cr sclock sid jti rq s)) caps
        clock0 nonce clock1 instant c = (Inr se, c\<lparr>cn_session := Some se\<rparr>)
    \<and> as_lease se = ss_lease resp \<and> lc_session_id (sl_claims (as_lease se)) = sid
    \<and> lease_clock_now_at (as_lease_clock se) instant = Inr (max (ss_server_time resp) local_time)"
  using assms(7)
proof (rule create_session_accepted)
  fix now r st
  let ?claims = "sl_claims (ss_lease resp)"
  assume now: "now_secs sclock = Inr now" and r: "client (sq_client_id rq) (ap_store s) = Some r"
    and use_ok: "ensure_client_usable r (sq_device_id rq) = Inr ()"
    and ver: "cl_client_version r = sq_client_version rq" and non: "\<not> is_err (validate_nonce (sq_nonce rq))"
    and caps: "sq_capabilities rq \<noteq> []"
    and resp: "resp = \<lparr>ss_lease = make_lease cr s r sid (sq_capabilities rq) (sq_nonce rq) jti now
                   (saturating_add_i64 now LEASE_MAX_SECS), ss_server_time = now\<rparr>"
  note fields = session_request_fields [OF assms(6)]
  have rid: "cl_client_id r = sq_client_id rq" using r by (auto elim!: client_SomeE)
  have lt: "now < saturating_add_i64 now LEASE_MAX_SECS"
    using assms(15) now_secs_bounds [OF now] by (auto simp: resp sat_defs LEASE_MAX_SECS_def)
  let ?now = "max now local_time"
  have claims: "validate_claims ?claims ?now = Inr ()"
    using assms(8) [OF r] assms(9-14) non caps lt usable_not_revoked [OF use_ok] now_secs_bounds [OF now]
    by (auto simp: resp make_lease_def sign_claims_def validate_claims_def EXPECTED_ISSUER_def
        EXPECTED_AUDIENCE_def rid blank_not_nonce sat_defs client_MAX_CLOCK_SKEW_SECS_def)
  have sig: "verify_signed_lease cr (ss_lease resp) (tk_public_key_base64url key) ?now = Inr ()"
    using claims assms(1-3)
    by (simp add: verify_signed_lease_def parse_verifying_key_def parse_signature_def assms(5)
        public_key_base64url_def resp make_lease_def sign_claims_def sign_bytes_def b64_law_def ed25519_law_def)
  have bind: "lc_device_id ?claims = di_device_id ident" "lc_client_version ?claims = cn_client_version c"
      "lc_capabilities ?claims = caps" "sl_key_id (ss_lease resp) = sa_key_id (ap_authority s)"
    using usable_not_revoked [OF use_ok] ver fields by (simp_all add: resp make_lease_def sign_claims_def)
  have "verify_lease cr c (ss_lease resp) (ss_server_time resp) ident caps None clock1 instant =
      Inr (lease_clock_new ?now instant)"
    using sig bind assms(4,13) by (simp add: verify_lease_def Let_def lease_validation_now_def resp)
  moreover have "?now \<le> i64_max"
    using assms(14) now_secs_bounds [OF now]
    by (auto simp: resp make_lease_def sign_claims_def sat_defs)
  ultimately show ?thesis
    using assms(6,7)
    by (simp add: acquire_session_def answer_of_def lease_clock_new_def lease_clock_now_at_def)
      (auto simp: resp make_lease_def sign_claims_def i64_max_def less_max_iff_disj)
qed

end
