(* ===== verification/Auth_Demo.thy ===== *)
theory Auth_Demo imports Auth_Reachable Auth_Grants Auth_Separation Client_Service begin

text \<open>
  A concrete run of the service and the client on \<open>demo_crates\<close>: the properties of the
  authorization service applied to it, one theorem for each, which shows that their hypotheses
  can hold together.
\<close>

declare json_bytes.simps [simp del]

section \<open>The world\<close>

definition demo_text :: "bytes \<Rightarrow> string" where
  "demo_text bs = map (\<lambda>b. char_of (unat b)) bs"

definition demo_key :: bytes where "demo_key = replicate 32 65"

definition demo_authority :: signing_authority where
  "demo_authority = \<lparr>sa_key_id = ''k1'', sa_signing_key = replicate 32 66\<rparr>"

definition demo_client :: client_row where
  "demo_client = \<lparr>cl_client_id = ''c1'', cl_account_id = ''a1'', cl_device_id = ''d1'',
     cl_device_public_key = demo_text demo_key, cl_key_algorithm = Ed25519DpapiV1, cl_client_version = ''v1'',
     cl_approved = True, cl_revoked = False, cl_created_at = 0\<rparr>"

definition demo_session :: session_row where
  "demo_session = \<lparr>se_session_id = ''s1'', se_client_id = ''c1'', se_account_id = ''a1'', se_device_id = ''d1'',
     se_capabilities = [ProtectedPreset, ProtectedArtifact], se_exp = 1900, se_revoked = False,
     se_jti = ''j1'', se_created_at = 1000\<rparr>"

definition demo_artifact :: artifact_row where
  "demo_artifact = \<lparr>ar_artifact_id = ''qemu-guest-script'', ar_version = ''1'', ar_target_abi = ''x86_64'',
     ar_target_android = ''12'', ar_path = ''root/a'', ar_enabled = True\<rparr>"

definition demo_store :: auth_store where
  "demo_store = \<lparr>clients = [demo_client], challenges = [], used_nonces = [], sessions = [demo_session],
     entitlements = [\<lparr>en_account_id = ''a1'', en_capability = ''protected-preset'', en_enabled = True\<rparr>,
       \<lparr>en_account_id = ''a1'', en_capability = ''protected-artifact'', en_enabled = True\<rparr>],
     artifacts = [demo_artifact]\<rparr>"

definition demo_state :: app_state where
  "demo_state = \<lparr>ap_store = demo_store, ap_authority = demo_authority, ap_artifact_root = ''root'',
     ap_transfers = [], ap_max_active_transfers = 2\<rparr>"

definition demo_content :: bytes where "demo_content = [1, 2, 3]"

definition demo_fs :: file_system where
  "demo_fs = \<lparr>fs_canonicalize = (\<lambda>s. if s = ''root'' then Some [''root'']
       else if s = ''root/a'' then Some [''root'', ''a''] else None),
     fs_contents = (\<lambda>p. if p = [''root'', ''a''] then Inr demo_content else Inl ''not found'')\<rparr>"

definition demo_sign :: "json \<Rightarrow> string" where
  "demo_sign v = demo_text (demo_key @ json_bytes v)"

definition demo_session_request :: session_request where
  "demo_session_request = (let rq = \<lparr>sq_client_id = ''c1'', sq_device_id = ''d1'', sq_client_version = ''v1'',
       sq_nonce = ''n1'', sq_iat = 1000, sq_capabilities = [ProtectedPreset], sq_signature = []\<rparr>
     in rq\<lparr>sq_signature := demo_sign (session_proof_json (session_request_proof rq))\<rparr>)"

definition demo_heartbeat_request :: heartbeat_request where
  "demo_heartbeat_request = (let rq = \<lparr>hq_client_id = ''c1'', hq_device_id = ''d1'', hq_nonce = ''n1'',
       hq_iat = 1000, hq_signature = []\<rparr>
     in rq\<lparr>hq_signature := demo_sign (heartbeat_proof_json (heartbeat_request_proof ''s1'' rq))\<rparr>)"

definition demo_grant_request :: execution_grant_request where
  "demo_grant_request = (let rq = \<lparr>gq_artifact_id = ''qemu-guest-script'', gq_artifact_sha256 = [],
       gq_action = ''preset_apply'', gq_vm = ''v'', gq_instance = ''i'', gq_nonce = ''n1'', gq_iat = 1000,
       gq_signature = []\<rparr>
     in rq\<lparr>gq_signature := demo_sign (execution_grant_proof_json (grant_request_proof rq))\<rparr>)"

section \<open>Evaluating the handlers on it\<close>

lemma demo_text_decode [simp]: "as_bytes (demo_text bs) = bs"
  by (simp add: demo_text_def)

lemma demo_verify [simp]:
  "verify_client_signature demo_crates Ed25519DpapiV1 (demo_text demo_key) (json_bytes v) (demo_sign v) = Inr ()"
  by (simp add: verify_client_signature_def demo_sign_def demo_key_def)

lemma demo_not_blank [simp]:
  "\<not> blank (CHR ''c'' # s)" "\<not> blank (CHR ''d'' # s)" "\<not> blank (CHR ''v'' # s)" "\<not> blank (CHR ''n'' # s)"
  "\<not> blank (CHR ''s'' # s)" "\<not> blank (CHR ''p'' # s)" "\<not> blank (CHR ''q'' # s)" "\<not> blank (CHR ''i'' # s)"
  "\<not> blank (CHR ''j'' # s)"
  by (rule not_blank_graphic, simp add: ascii_graphic_def)+

lemma demo_key_text [simp]: "\<not> blank (demo_text (demo_key @ bs))"
proof -
  have "char_of (of_char CHR ''A'' :: nat) = CHR ''A''" by (rule char_of_char)
  then have "char_of (65 :: nat) = CHR ''A''" by simp
  then have "demo_text (demo_key @ bs) = CHR ''A'' # demo_text (replicate 31 65 @ bs)"
    using replicate_Suc [of 31 "65 :: u8"] by (simp add: demo_text_def demo_key_def)
  then show ?thesis by (simp add: not_blank_graphic ascii_graphic_def)
qed

lemma demo_sign_not_blank [simp]: "\<not> blank (demo_sign v)"
  by (simp add: demo_sign_def)

lemma demo_time [simp]: "now_secs (Some 1000) = Inr 1000" "now_secs (Some 1060) = Inr 1060"
  by (simp_all add: now_secs_def)

lemma demo_lookup [simp]:
  "client ''c1'' demo_store = Some (client_record.truncate demo_client)"
  "session ''s1'' demo_store = Some (session_record.truncate demo_session)"
  "artifact ''qemu-guest-script'' demo_store = Some (artifact_record.truncate demo_artifact)"
  "has_entitlement ''a1'' ProtectedPreset demo_store" "has_entitlement ''a1'' ProtectedArtifact demo_store"
  "used_nonces demo_store = []"
  by (simp_all add: demo_store_def client_def session_def artifact_def has_entitlement_def entitlement_key_def
      demo_client_def demo_session_def demo_artifact_def)

lemma demo_rows [simp]:
  "client_record.truncate demo_client = \<lparr>cl_client_id = ''c1'', cl_account_id = ''a1'', cl_device_id = ''d1'',
     cl_device_public_key = demo_text demo_key, cl_key_algorithm = Ed25519DpapiV1, cl_client_version = ''v1'',
     cl_approved = True, cl_revoked = False\<rparr>"
  "session_record.truncate demo_session = \<lparr>se_session_id = ''s1'', se_client_id = ''c1'', se_account_id = ''a1'',
     se_device_id = ''d1'', se_capabilities = [ProtectedPreset, ProtectedArtifact], se_exp = 1900,
     se_revoked = False\<rparr>"
  "artifact_record.truncate demo_artifact = \<lparr>ar_artifact_id = ''qemu-guest-script'', ar_version = ''1'',
     ar_target_abi = ''x86_64'', ar_target_android = ''12'', ar_path = ''root/a''\<rparr>"
  by (simp_all add: demo_client_def demo_session_def demo_artifact_def client_record.defs session_record.defs artifact_record.defs)

lemma demo_state_sel [simp]:
  "ap_store demo_state = demo_store" "ap_authority demo_state = demo_authority"
  "ap_artifact_root demo_state = ''root''" "ap_transfers demo_state = []" "ap_max_active_transfers demo_state = 2"
  by (simp_all add: demo_state_def)

lemma demo_nonce [simp]: "validate_nonce ''n1'' = Inr ()"
  by (simp add: validate_nonce_def MAX_NONCE_BYTES_def)

lemma demo_window [simp]: "validate_request_time 1000 1000 = Inr ()"
  by (simp add: validate_request_time_def saturating_sub_i64_def saturating_add_i64_def clamp_i64_def
      i64_min_def i64_max_def REQUEST_MAX_AGE_SECS_def MAX_CLOCK_SKEW_SECS_def)

lemma demo_header [simp]: "session_from_headers (bearer ''s1'') t demo_store =
    (if t < 1900 then (Inr (session_record.truncate demo_session), demo_store)
     else (Inl (unauthorized ''session lease has expired''), demo_store))"
  by (simp add: session_from_headers_def bearer_def ensure_client_usable_def)

lemma lookup_nonces [simp]:
  "client c (st\<lparr>used_nonces := u\<rparr>) = client c st" "session sid (st\<lparr>used_nonces := u\<rparr>) = session sid st"
  "artifact a (st\<lparr>used_nonces := u\<rparr>) = artifact a st"
  "has_entitlement acc cap (st\<lparr>used_nonces := u\<rparr>) = has_entitlement acc cap st"
  by (simp_all add: client_def session_def artifact_def has_entitlement_def)

lemma demo_tables [simp]: "sessions demo_store = [demo_session]" "clients demo_store = [demo_client]"
  by (simp_all add: demo_store_def)

lemma demo_fields [simp]:
  "se_session_id demo_session = ''s1''" "se_jti demo_session = ''j1''" "se_client_id demo_session = ''c1''"
  "se_exp demo_session = 1900" "\<not> se_revoked demo_session" "cl_client_id demo_client = ''c1''"
  "se_device_id demo_session = ''d1''" "se_capabilities demo_session = [ProtectedPreset, ProtectedArtifact]"
  by (simp_all add: demo_session_def demo_client_def)

lemma demo_create:
  "\<exists>resp s1. create_session_route demo_crates (Some 1000) ''s2'' ''j2'' demo_session_request demo_state = (Inr resp, s1)"
  by (simp add: create_session_route_def demo_session_request_def session_request_proof_def Let_def
      ensure_client_usable_def canonical_json_def consume_nonce_def create_session_def
      revoke_active_sessions_for_client_def some_row_iff set_update_where)

lemma demo_heartbeat:
  "\<exists>resp s1. heartbeat demo_crates (Some 1000) ''j2'' ''s1'' demo_heartbeat_request demo_state = (Inr resp, s1)"
  by (simp add: heartbeat_def demo_heartbeat_request_def heartbeat_request_proof_def Let_def
      ensure_client_usable_def canonical_json_def consume_nonce_def refresh_session_def some_row_iff)

lemma demo_path [simp]: "ar_path a = ''root/a'' \<Longrightarrow> safe_artifact_path demo_fs ''root'' a = Inr [''root'', ''a'']"
  by (simp add: safe_artifact_path_def demo_fs_def)

definition demo_sha256 :: string where
  "demo_sha256 = hex_string (sha256_digest demo_crates demo_content)"

lemma demo_sha256_form [simp]: "length demo_sha256 = 64" "list_all is_ascii_hexdigit demo_sha256"
  by (simp_all add: demo_sha256_def hex_string_hexdigits demo_content_def)

lemma demo_hash [simp]: "sha256_file demo_crates demo_fs [''root'', ''a''] = Inr (3, demo_sha256)"
  unfolding demo_sha256_def
  by (subst sha256_file_eq [where content = demo_content]) (simp_all add: demo_fs_def demo_content_def)

lemma demo_small: "fs_contents demo_fs p = Inr content \<Longrightarrow> length content < 18446744073709551616"
  by (auto simp: demo_fs_def demo_content_def split: if_splits)

definition demo_claims :: execution_grant_claims where
  "demo_claims = \<lparr>eg_iss = ''rdc-auth'', eg_aud = ''rdc-guest-runner'', eg_client_id = ''c1'',
     eg_device_id = ''d1'', eg_session_id = ''s1'', eg_client_version = ''v1'',
     eg_artifact_id = ''qemu-guest-script'', eg_artifact_sha256 = demo_sha256, eg_action = ''preset_apply'',
     eg_vm = ''v'', eg_instance = ''i'', eg_iat = 1000, eg_exp = 1120, eg_jti = ''j9'', eg_nonce = ''n1''\<rparr>"

definition demo_grant :: signed_execution_grant where
  "demo_grant = sign_execution_grant demo_crates demo_authority demo_claims"

definition demo_state1 :: app_state where
  "demo_state1 = demo_state\<lparr>ap_store := demo_store\<lparr>used_nonces := [(''n1'', 1000)]\<rparr>\<rparr>"

lemma demo_state1_sel [simp]:
  "ap_store demo_state1 = demo_store\<lparr>used_nonces := [(''n1'', 1000)]\<rparr>" "ap_authority demo_state1 = demo_authority"
  "ap_artifact_root demo_state1 = ''root''"
  by (simp_all add: demo_state1_def)

lemma demo_issue: "issue_execution_grant demo_crates (Some 1000) demo_fs ''j9'' (bearer ''s1'') demo_grant_request
    demo_state = (Inr demo_grant, demo_state1)"
  by (simp add: issue_execution_grant_def demo_grant_request_def grant_request_proof_def Let_def
      grant_request_invalid_def valid_execution_action_def artifact_allows_execution_action_def
      ensure_client_usable_def canonical_json_def consume_nonce_def EXECUTION_GRANT_TTL_SECS_def
      saturating_add_i64_def clamp_i64_def i64_min_def i64_max_def demo_grant_def demo_claims_def demo_state1_def)

definition demo_device_proof :: "signed_execution_grant \<Rightarrow> string" where
  "demo_device_proof g = demo_text (demo_key @ as_bytes (sg_payload g))"

lemma demo_device_verify [simp]: "verify_client_signature demo_crates Ed25519DpapiV1 (demo_text demo_key)
    (as_bytes (sg_payload g)) (demo_device_proof g) = Inr ()"
  by (simp add: verify_client_signature_def demo_device_proof_def demo_key_def)

lemma demo_device_proof_text [simp]: "\<not> blank (demo_device_proof g)"
  by (simp add: demo_device_proof_def demo_key_text)

definition demo_proved :: signed_execution_grant where
  "demo_proved = demo_grant\<lparr>sg_device_proof := Some (demo_device_proof demo_grant)\<rparr>"

lemma demo_proved_sel [simp]: "sg_device_proof demo_proved = Some (demo_device_proof demo_grant)"
  "sg_payload demo_proved = sg_payload demo_grant"
  by (simp_all add: demo_proved_def)

lemma demo_proved_verified [simp]: "verify_execution_grant demo_crates demo_authority demo_proved = Inr demo_claims"
  unfolding demo_proved_def demo_grant_def
  by (rule verify_signed_grant [OF demo_laws(1,7,2)])
    (simp_all add: demo_authority_def demo_claims_def in_i64_def i64_min_def i64_max_def)

lemma demo_validated: "validate_execution_grant_for_artifact demo_crates demo_fs demo_proved 1060 demo_state1 =
    (Inr (demo_claims, artifact_record.truncate demo_artifact, [''root'', ''a'']), ap_store demo_state1)"
  by (simp add: validate_execution_grant_for_artifact_def Let_def demo_claims_def
      grant_claims_invalid_def valid_execution_action_def artifact_allows_execution_action_def
      ensure_client_usable_def MAX_NONCE_BYTES_def saturating_add_i64_def saturating_sub_i64_def
      clamp_i64_def i64_min_def i64_max_def REQUEST_MAX_AGE_SECS_def)

lemma demo_consume:
  "\<exists>receipt s2. consume_execution_grant demo_crates (Some 1060) demo_fs demo_proved demo_state1 = (Inr receipt, s2)"
  by (simp add: consume_execution_grant_def demo_validated consume_nonce_def grant_reservation_def
      demo_claims_def)

lemma demo_release:
  "\<exists>r s2. release_execution_grant demo_crates (Some 1060) demo_fs demo_fs demo_fs demo_proved demo_state1 = (Inr r, s2)"
proof -
  have "fs_contents demo_fs [''root'', ''a''] = Inr demo_content" by (simp add: demo_fs_def)
  moreover have "hex_string (sha256_digest demo_crates demo_content) = eg_artifact_sha256 demo_claims"
    by (simp add: demo_claims_def demo_sha256_def)
  moreover have "length demo_content = 3" by (simp add: demo_content_def)
  ultimately show ?thesis
    by (simp add: release_execution_grant_def demo_validated MAX_EXECUTION_RELEASE_BYTES_def del: demo_crates_sel)
qed

lemma demo_state_wf [simp]: "store_wf demo_store"
  by (simp add: store_wf_def demo_store_def demo_client_def demo_session_def entitlement_id_def)

section \<open>The properties on it\<close>

lemma demo_clocks [simp]: "clocks_upto 1060 [(Some 1060, EvAdminApprove ''c1'')]"
  by (simp add: clocks_upto_def)

theorem session_request_not_replayable_witness:
  "\<exists>resp s1. create_session_route demo_crates (Some 1000) ''s2'' ''j2'' demo_session_request demo_state = (Inr resp, s1)
    \<and> is_err (fst (create_session_route demo_crates (Some 1060) ''s3'' ''j3'' demo_session_request
        (run demo_crates [(Some 1060, EvAdminApprove ''c1'')] s1)))"
  using demo_create session_request_not_replayable [OF _ demo_time(2) demo_clocks] by blast

theorem heartbeat_not_replayable_witness:
  "\<exists>resp s1. heartbeat demo_crates (Some 1000) ''j2'' ''s1'' demo_heartbeat_request demo_state = (Inr resp, s1)
    \<and> is_err (fst (heartbeat demo_crates (Some 1060) ''j3'' ''s1'' demo_heartbeat_request
        (run demo_crates [(Some 1060, EvAdminApprove ''c1'')] s1)))"
  using demo_heartbeat heartbeat_not_replayable [OF _ demo_time(2) demo_clocks] by blast

theorem grant_consumed_at_most_once_witness:
  "\<exists>receipt s1. consume_execution_grant demo_crates (Some 1060) demo_fs demo_proved demo_state1 = (Inr receipt, s1)
    \<and> is_err (fst (consume_execution_grant demo_crates (Some 1060) demo_fs demo_proved
        (run demo_crates [(Some 1060, EvAdminApprove ''c1'')] s1)))"
  using demo_consume grant_consumed_at_most_once [OF _ refl demo_time(2) demo_clocks] by blast


theorem closed_session_stays_closed_witness:
  "\<exists>s1. close_session (Some 1000) ''s1'' (bearer ''s1'') demo_state = (Inr (), s1)
    \<and> is_err (fst (heartbeat demo_crates (Some 1060) ''j3'' ''s1'' demo_heartbeat_request
        (run demo_crates [(Some 1060, EvAdminApprove ''c1'')] s1)))"
proof -
  obtain s1 where c: "close_session (Some 1000) ''s1'' (bearer ''s1'') demo_state = (Inr (), s1)"
    by (simp add: close_session_def)
  have "store_wf (ap_store demo_state)" by simp
  from closed_session_stays_closed [OF this c refl] c show ?thesis by blast
qed

theorem client_binding_fixed_witness:
  "\<exists>r'. client ''c1'' (ap_store (run demo_crates [(Some 1000, EvSession ''s2'' ''j2'' demo_session_request)] demo_state)) = Some r'
    \<and> cl_device_id r' = ''d1'' \<and> cl_device_public_key r' = demo_text demo_key \<and> cl_key_algorithm r' = Ed25519DpapiV1"
proof -
  have "store_wf (ap_store demo_state)" "client ''c1'' (ap_store demo_state) = Some (client_record.truncate demo_client)"
    by simp_all
  from client_binding_fixed [OF this, where cr = demo_crates
      and evs = "[(Some 1000, EvSession ''s2'' ''j2'' demo_session_request)]"] show ?thesis by simp
qed


theorem issued_grant_bounds_witness:
  "\<exists>claims. grant_claims_of demo_crates demo_grant = Some claims \<and> eg_iat claims = 1000 \<and> eg_exp claims \<le> 1120"
  using issued_grant_bounds [OF demo_laws(1,7) demo_time(1) demo_issue] by fastforce

theorem released_bytes_match_grant_witness:
  "\<exists>r s2. release_execution_grant demo_crates (Some 1060) demo_fs demo_fs demo_fs demo_proved demo_state1 = (Inr r, s2)
    \<and> al_artifact_sha256 r = demo_sha256"
proof -
  obtain r s2 where c: "release_execution_grant demo_crates (Some 1060) demo_fs demo_fs demo_fs demo_proved demo_state1
      = (Inr r, s2)" using demo_release by blast
  from released_bytes_match_grant [OF this] c show ?thesis
    by (auto simp: demo_claims_def)
qed

theorem issued_grant_is_consumable_witness:
  "\<exists>receipt. fst (consume_execution_grant demo_crates (Some 1060) demo_fs demo_proved demo_state1) = Inr receipt"
  unfolding demo_proved_def
  by (rule issued_grant_is_consumable [where se = "session_record.truncate demo_session"
      and c = "client_record.truncate demo_client", OF demo_laws(1,7,2,6) _ demo_small demo_time(1) demo_issue _ _ _ _ _ _ _ _ _ _ _ _ _ demo_time(2)])
    (simp_all add: demo_authority_def demo_fs_def demo_content_def grant_reservation_def demo_grant_request_def
      saturating_add_i64_def clamp_i64_def i64_min_def i64_max_def split: if_splits)

theorem signed_bytes_determine_request_witness:
  "canonical_json demo_crates (signed_payload (SignedRegistration \<lparr>rp_client_id = ''c1'', rp_challenge = ''x''\<rparr>))
    \<noteq> canonical_json demo_crates (signed_payload (SignedRegistration \<lparr>rp_client_id = ''c1'', rp_challenge = ''y''\<rparr>))"
proof -
  have inj: "inj (json_to_vec demo_crates)" by (simp add: json_bytes_inj)
  show ?thesis unfolding signed_bytes_determine_request [OF inj] by simp
qed

end
