(* ===== verification/Client_Demo.thy ===== *)
theory Client_Demo imports Auth_Demo begin

text \<open>
  The concrete run continued on the client's side: a session that the client acquires, a transfer
  that it prepares and the download of the published file.
\<close>

section \<open>The client\<close>

definition demo_device :: device_identity where
  "demo_device = \<lparr>di_install_id = ''x1'', di_device_id = ''d1'', di_public_key = demo_text demo_key\<rparr>"

definition demo_signer :: device_signer where
  "demo_signer = \<lparr>ds_public_key = demo_text demo_key, ds_algorithm = Ed25519DpapiV1,
     ds_sign_canonical = (\<lambda>m. Inr (demo_key @ m))\<rparr>"

definition demo_trusted :: trusted_authorization_key where
  "demo_trusted = \<lparr>tk_key_id = ''k1'', tk_public_key_base64url = public_key_base64url demo_crates demo_authority\<rparr>"

definition demo_lease :: signed_lease where
  "demo_lease = \<lparr>sl_key_id = ''k1'', sl_claims = \<lparr>lc_iss = ''rdc-auth'', lc_aud = ''rdc-client'', lc_sub = ''a1'',
     lc_client_id = ''c1'', lc_device_id = ''d1'', lc_session_id = ''s1'',
     lc_capabilities = [ProtectedPreset, ProtectedArtifact], lc_client_version = ''v1'',
     lc_iat = 1000, lc_exp = 1900, lc_jti = ''j1'', lc_nonce = ''n0''\<rparr>, sl_signature = []\<rparr>"

definition demo_auth_client :: auth_client where
  "demo_auth_client = \<lparr>cn_trusted_keys = [demo_trusted], cn_client_version = ''v1'', cn_platform = ''linux'',
     cn_product = ''rdc'', cn_material = Inr (demo_device, demo_signer),
     cn_registration = Inr (Some \<lparr>rg_client_id = ''c1'', rg_device_id = ''d1''\<rparr>),
     cn_session = Some \<lparr>as_lease = demo_lease, as_server_time = 1000,
       as_lease_clock = \<lparr>ck_anchor_unix = 1000, ck_anchor_instant = 0\<rparr>\<rparr>\<rparr>"

lemma demo_client_sel [simp]:
  "cn_trusted_keys demo_auth_client = [demo_trusted]" "cn_client_version demo_auth_client = ''v1''"
  "identity demo_auth_client = Inr demo_device" "signer demo_auth_client = Inr demo_signer"
  "cn_registration demo_auth_client = Inr (Some \<lparr>rg_client_id = ''c1'', rg_device_id = ''d1''\<rparr>)"
  "current_session demo_auth_client = Inr \<lparr>as_lease = demo_lease, as_server_time = 1000,
       as_lease_clock = \<lparr>ck_anchor_unix = 1000, ck_anchor_instant = 0\<rparr>\<rparr>"
  "di_device_id demo_device = ''d1''" "tk_key_id demo_trusted = ''k1''"
  "trusted_key demo_auth_client ''k1'' = Inr demo_trusted"
  "ensure_signer_matches_identity demo_device demo_signer = Inr ()"
  by (simp_all add: demo_auth_client_def identity_def signer_def current_session_def demo_device_def demo_trusted_def
      demo_signer_def trusted_key_def ensure_signer_matches_identity_def)

lemma demo_sign_text [simp]: "sign_text demo_crates demo_signer (json_bytes v) = Inr (demo_sign v)"
  by (simp add: sign_text_def demo_signer_def demo_sign_def demo_text_def)

lemma demo_b64: "b64_encode demo_crates = demo_text"
  by (rule ext) (simp add: demo_text_def)

section \<open>A session\<close>

lemma demo_unix [simp]: "current_unix_time (Some 1000) = Inr 1000" "current_unix_time (Some 1060) = Inr 1060"
  by (simp_all add: current_unix_time_def)

lemma demo_request: "session_request_of demo_crates demo_auth_client [ProtectedPreset] (Some 1000) ''n1'' =
    Inr (demo_device, demo_session_request)"
  by (simp add: session_request_of_def registered_def ensure_registration_matches_def demo_session_request_def
      session_request_proof_def Let_def)

theorem acquired_session_accepted_witness:
  "\<exists>se c. acquire_session demo_crates (\<lambda>rq. answer_of (\<lambda>_. AE_Revoked)
      (create_session_route demo_crates (Some 1000) ''s2'' ''j2'' rq demo_state)) [ProtectedPreset]
      (Some 1000) ''n1'' (Some 1060) 5 demo_auth_client = (Inr se, c)
    \<and> lc_session_id (sl_claims (as_lease se)) = ''s2''"
proof -
  obtain resp s' where r: "create_session_route demo_crates (Some 1000) ''s2'' ''j2'' demo_session_request demo_state
      = (Inr resp, s')" using demo_create by blast
  have t: "ss_server_time resp = 1000 \<and> lc_exp (sl_claims (ss_lease resp)) = 1900"
    using r by (auto simp: create_session_route_def demo_session_request_def session_request_proof_def Let_def
      ensure_client_usable_def canonical_json_def consume_nonce_def create_session_def
      revoke_active_sessions_for_client_def some_row_iff set_update_where make_lease_def sign_claims_def
      saturating_add_i64_def clamp_i64_def i64_min_def i64_max_def LEASE_MAX_SECS_def)
  note a = acquired_session_accepted [where ?clock1.0 = "Some 1060" and instant = 5 and refusal = "\<lambda>_. AE_Revoked"
      and local_time = 1060 and key = demo_trusted, OF demo_laws(1,2) _ _ _ demo_request r]
  have "\<exists>se. acquire_session demo_crates (\<lambda>rq. answer_of (\<lambda>_. AE_Revoked)
      (create_session_route demo_crates (Some 1000) ''s2'' ''j2'' rq demo_state)) [ProtectedPreset]
      (Some 1000) ''n1'' (Some 1060) 5 demo_auth_client = (Inr se, demo_auth_client\<lparr>cn_session := Some se\<rparr>)
    \<and> as_lease se = ss_lease resp \<and> lc_session_id (sl_claims (as_lease se)) = ''s2''
    \<and> lease_clock_now_at (as_lease_clock se) 5 = Inr (max (ss_server_time resp) 1060)"
    by (rule a) (use t in \<open>auto simp: demo_authority_def demo_trusted_def demo_session_request_def Let_def i64_max_def\<close>)
  then show ?thesis by blast
qed

section \<open>A transfer\<close>

definition demo_prefix :: bytes where "demo_prefix = [1, 2, 3, 4, 5, 6, 7, 8]"

definition demo_secret :: bytes where "demo_secret = replicate 32 65"

definition demo_server_secret :: bytes where "demo_server_secret = replicate 32 67"

definition demo_manifest :: artifact_manifest where
  "demo_manifest = \<lparr>am_artifact_id = ''qemu-guest-script'', am_version = ''1'', am_target_abi = ''x86_64'',
     am_target_android = ''12'', am_session_id = ''s1'', am_device_id = ''d1'', am_size_bytes = 3,
     am_sha256 = demo_sha256, am_expires_at = 1300, am_key_id = ''k1'', am_transfer_id = ''t1'',
     am_server_ephemeral_public_key = demo_text demo_server_secret, am_chunk_size_bytes = 262144,
     am_chunk_count = 1, am_nonce_prefix = demo_text demo_prefix\<rparr>"

definition demo_prepare :: "string \<Rightarrow> string \<Rightarrow> artifact_prepare_request \<Rightarrow> authorization_error + signed_artifact_manifest" where
  "demo_prepare = (\<lambda>sid aid rq. answer_of (\<lambda>_. AE_Revoked) (prepare_artifact demo_crates (Some 1000) (Some 1000) demo_fs
     demo_server_secret ''t1'' (demo_text demo_prefix) aid (bearer sid) rq demo_state))"

definition demo_prepare_request :: artifact_prepare_request where
  "demo_prepare_request = \<lparr>pq_device_id = ''d1'', pq_target_abi = ''x86_64'', pq_target_android = ''12'',
     pq_ephemeral_public_key = demo_text demo_secret\<rparr>"

lemma demo_secret_text [simp]: "\<not> blank (demo_text demo_secret)"
  using demo_key_text [of "[]"] by (simp add: demo_secret_def demo_key_def)

definition demo_transfer :: artifact_transfer where
  "demo_transfer = \<lparr>at_artifact_id = ''qemu-guest-script'', at_session_id = ''s1'', at_device_id = ''d1'',
     at_path = [''root'', ''a''], at_manifest = demo_manifest,
     at_shared_secret = x25519_dh demo_crates demo_server_secret demo_secret\<rparr>"

definition demo_state2 :: app_state where
  "demo_state2 = demo_state\<lparr>ap_transfers := [(''t1'', demo_transfer)]\<rparr>"

lemma demo_chunk_count [simp]: "chunk_count_of 3 = Inr 1"
  by (simp add: chunk_count_of_def saturating_add_u64_def ARTIFACT_CHUNK_SIZE_def)

lemma demo_expiry [simp]: "saturating_add_i64 1000 ARTIFACT_TTL_SECS = 1300"
  by (simp add: saturating_add_i64_def clamp_i64_def i64_min_def i64_max_def ARTIFACT_TTL_SECS_def)

lemma demo_prepared: "prepare_artifact demo_crates (Some 1000) (Some 1000) demo_fs
     demo_server_secret ''t1'' (demo_text demo_prefix) ''qemu-guest-script'' (bearer ''s1'') demo_prepare_request demo_state
    = (Inr (sign_manifest demo_crates demo_authority demo_manifest), demo_state2)"
  using demo_secret_text [unfolded demo_secret_def]
  by (simp add: prepare_artifact_def demo_prepare_request_def random_x25519_keypair_def
      derive_x25519_shared_secret_def Let_def retain_live_def demo_secret_def insert_transfer_def
      demo_state2_def demo_state_def demo_transfer_def demo_manifest_def ARTIFACT_CHUNK_SIZE_def
      demo_b64 demo_authority_def del: demo_crates_sel(1))

lemma signed_manifest_verified:
  assumes "b64_law cr" and "ed25519_law cr" and "length (sa_signing_key sa) = 32" and "now < am_expires_at m"
  shows "verify_signed_artifact_manifest cr m (sm_signature (sign_manifest cr sa m)) (public_key_base64url cr sa) now = Inr ()"
  using assms by (simp add: verify_signed_artifact_manifest_def parse_verifying_key_def parse_signature_def
      sign_manifest_def sign_bytes_def public_key_base64url_def b64_law_def ed25519_law_def)

lemma demo_manifest_verified: "verify_signed_artifact_manifest demo_crates demo_manifest
    (sm_signature (sign_manifest demo_crates demo_authority demo_manifest)) (tk_public_key_base64url demo_trusted) 1000 = Inr ()"
proof -
  have "tk_public_key_base64url demo_trusted = public_key_base64url demo_crates demo_authority"
    by (simp add: demo_trusted_def)
  then show ?thesis
    using signed_manifest_verified [OF demo_laws(1,2), of demo_authority 1000 demo_manifest]
    by (simp only: demo_authority_def demo_manifest_def) simp
qed

lemma demo_client_prepared: "client_prepare_artifact demo_crates demo_prepare 0 0 ''qemu-guest-script'' ''x86_64'' ''12''
    (demo_text demo_secret) demo_auth_client = Inr (sign_manifest demo_crates demo_authority demo_manifest)"
proof -
  have p: "demo_prepare ''s1'' ''qemu-guest-script'' demo_prepare_request
      = Inr (sign_manifest demo_crates demo_authority demo_manifest)"
    by (simp add: demo_prepare_def answer_of_def demo_prepared)
  have s: "sm_manifest (sign_manifest demo_crates demo_authority demo_manifest) = demo_manifest"
    "sm_key_id (sign_manifest demo_crates demo_authority demo_manifest) = ''k1''"
    by (simp_all add: sign_manifest_def demo_authority_def)
  have v: "validate_artifact_manifest demo_manifest (sl_claims demo_lease) ''d1'' ''s1'' 1000 = Inr ()"
    by (simp add: validate_artifact_manifest_def demo_manifest_def demo_lease_def validate_claims_def
      EXPECTED_ISSUER_def EXPECTED_AUDIENCE_def validate_session_binding_def validate_device_binding_def
      require_capability_def client_ARTIFACT_CHUNK_SIZE_def client_MAX_CLOCK_SKEW_SECS_def saturating_add_u64_def
      saturating_add_i64_def clamp_i64_def i64_min_def i64_max_def demo_text_def demo_prefix_def demo_server_secret_def)
  have l: "lc_session_id (sl_claims demo_lease) = ''s1''"
    "lc_exp (sl_claims demo_lease) = 1900" by (simp_all add: demo_lease_def)
  have n: "am_key_id demo_manifest = ''k1''" "am_artifact_id demo_manifest = ''qemu-guest-script''"
    "am_target_abi demo_manifest = ''x86_64''" "am_target_android demo_manifest = ''12''"
    by (simp_all add: demo_manifest_def)
  have b: "validate_session_binding (sl_claims demo_lease) ''d1'' ''s1'' = Inr ()"
    "require_capability (sl_claims demo_lease) ProtectedArtifact = Inr ()"
    by (simp_all add: validate_session_binding_def validate_device_binding_def require_capability_def demo_lease_def)
  have c: "lease_clock_now_at \<lparr>ck_anchor_unix = 1000, ck_anchor_instant = 0\<rparr> 0 = Inr 1000"
    by (simp add: lease_clock_now_at_def i64_max_def)
  show ?thesis
    unfolding client_prepare_artifact_def
    by (simp add: l b c p [unfolded demo_prepare_request_def] s n v Let_def demo_manifest_verified)
qed

lemma demo_download: "\<exists>files'. download_artifact_to demo_crates demo_prepare
      (\<lambda>sid aid tid i. answer_of (\<lambda>_. AE_Revoked) (artifact_chunk demo_crates (Some 1060) demo_fs aid tid i (bearer sid) demo_state2))
      0 0 demo_secret \<lparr>io_open = None, io_write = \<lambda>_. None, io_sync = None, io_rename = None\<rparr> True (Some ''f'') ''u''
      ''qemu-guest-script'' ''x86_64'' ''12'' demo_auth_client (\<lambda>_. None) = (Inr demo_manifest, files')
    \<and> files' ''f'' = Some demo_content"
proof -
  let ?fetch = "\<lambda>i. answer_of (\<lambda>_. AE_Revoked) (artifact_chunk demo_crates (Some 1060) demo_fs ''qemu-guest-script''
      ''t1'' i (bearer ''s1'') demo_state2)"
  let ?io = "\<lparr>io_open = None, io_write = \<lambda>_. None, io_sync = None, io_rename = None\<rparr>"
  have m: "am_chunk_count demo_manifest = 1" "am_size_bytes demo_manifest = 3" "am_chunk_size_bytes demo_manifest = 262144"
    "am_sha256 demo_manifest = demo_sha256" "am_session_id demo_manifest = ''s1''" "am_transfer_id demo_manifest = ''t1''"
    "am_nonce_prefix demo_manifest = demo_text demo_prefix" "am_expires_at demo_manifest = 1300"
    "am_server_ephemeral_public_key demo_manifest = demo_text demo_server_secret"
    by (simp_all add: demo_manifest_def)
  have t: "at_manifest demo_transfer = demo_manifest" "at_artifact_id demo_transfer = ''qemu-guest-script''"
    "at_session_id demo_transfer = ''s1''" "at_device_id demo_transfer = ''d1''" "at_path demo_transfer = [''root'', ''a'']"
    "at_shared_secret demo_transfer = x25519_dh demo_crates demo_server_secret demo_secret"
    by (simp_all add: demo_transfer_def)
  have s: "ap_store demo_state2 = demo_store" "ap_transfers demo_state2 = [(''t1'', demo_transfer)]"
    by (simp_all add: demo_state2_def)
  have ok: "transfer_ok ''t1'' demo_transfer"
    by (simp add: transfer_ok_def Let_def demo_transfer_def demo_manifest_def)
  have content: "fs_contents demo_fs [''root'', ''a''] = Inr demo_content" "length demo_content = 3"
    by (simp_all add: demo_fs_def demo_content_def)
  have p8: "length demo_prefix = 8" by (simp add: demo_prefix_def)
  obtain key where hk: "hkdf_expand demo_crates (as_bytes ''rdc-artifact-v1'') (at_shared_secret demo_transfer)
      (artifact_key_context demo_manifest) 32 = Some key" and kl: "length key = 32"
    using demo_laws(4) unfolding hkdf_law_def by blast
  have key: "derive_artifact_key demo_crates (at_shared_secret demo_transfer) demo_manifest = Inr key"
    by (simp only: derive_artifact_key_def hk option.case)
  have del: "delivers demo_crates key (at_manifest demo_transfer) ?fetch demo_content 0"
    by (rule chunk_delivered [where i = 0 and fetch = ?fetch and prefix = demo_prefix
          and se = "session_record.truncate demo_session",
          OF demo_laws(1,5) kl key [folded t(1)] _ p8 demo_time(2) _ _ ok])
      (simp_all add: t s m content retain_live_def)
  have body: "download_body demo_crates key demo_manifest ?fetch ?io = Inr demo_content"
    by (rule delivered_download) (use del in \<open>simp_all add: m t content demo_sha256_def del: demo_crates_sel\<close>)
  have shared: "client_derive_x25519_shared_secret demo_crates demo_secret (demo_text demo_server_secret)
      = Inr (at_shared_secret demo_transfer)"
    using demo_laws(3) by (simp add: client_derive_x25519_shared_secret_def x25519_law_def t demo_secret_def
        demo_server_secret_def)
  have ck: "client_derive_artifact_key demo_crates (at_shared_secret demo_transfer) demo_manifest = Inr key"
    by (simp add: same_key key)
  have sm: "sm_manifest (sign_manifest demo_crates demo_authority demo_manifest) = demo_manifest"
    by (simp add: sign_manifest_def)
  show ?thesis
    using demo_client_prepared body shared ck
    by (simp add: download_artifact_to_def Let_def random_x25519_keypair_def demo_b64 sm m del: demo_crates_sel(1))
qed

section \<open>The properties on it\<close>

definition demo_fetch :: "string \<Rightarrow> string \<Rightarrow> string \<Rightarrow> u32 \<Rightarrow> authorization_error + artifact_chunk_response" where
  "demo_fetch = (\<lambda>sid aid tid i. answer_of (\<lambda>_. AE_Revoked)
     (artifact_chunk demo_crates (Some 1060) demo_fs aid tid i (bearer sid) demo_state2))"

definition demo_io :: dest_io where
  "demo_io = \<lparr>io_open = None, io_write = \<lambda>_. None, io_sync = None, io_rename = None\<rparr>"

lemmas demo_downloaded = demo_download [folded demo_fetch_def demo_io_def]

theorem download_integrity_witness:
  "\<exists>files' content. download_artifact_to demo_crates demo_prepare demo_fetch 0 0 demo_secret demo_io True (Some ''f'') ''u''
      ''qemu-guest-script'' ''x86_64'' ''12'' demo_auth_client (\<lambda>_. None) = (Inr demo_manifest, files')
    \<and> files' ''f'' = Some content \<and> length content = unat (am_size_bytes demo_manifest)
    \<and> hex_string (sha256_digest demo_crates content) = am_sha256 demo_manifest"
proof -
  obtain files' where f: "download_artifact_to demo_crates demo_prepare demo_fetch 0 0 demo_secret demo_io True (Some ''f'') ''u''
      ''qemu-guest-script'' ''x86_64'' ''12'' demo_auth_client (\<lambda>_. None) = (Inr demo_manifest, files')"
    using demo_downloaded by blast
  from download_integrity [OF this] f show ?thesis by auto
qed


theorem download_delivers_published_file_witness:
  "\<exists>content. download_artifact_to demo_crates demo_prepare demo_fetch 0 0 demo_secret demo_io True (Some ''f'') ''u''
      ''qemu-guest-script'' ''x86_64'' ''12'' demo_auth_client (\<lambda>_. None)
    = (Inr demo_manifest, (\<lambda>_. None)(temporary_name ''f'' ''u'' := None, ''f'' \<mapsto> content))
    \<and> fs_contents demo_fs [''root'', ''a''] = Inr content"
proof -
  have len: "length demo_secret = 32" "length demo_server_secret = 32" "length demo_prefix = 8"
    by (simp_all add: demo_secret_def demo_server_secret_def demo_prefix_def)
  have tr: "transfers_ok demo_state" by (simp add: transfers_ok_def)
  have m: "sm_manifest (sign_manifest demo_crates demo_authority demo_manifest) = demo_manifest"
    by (simp add: sign_manifest_def)
  have rq: "\<lparr>pq_device_id = am_device_id demo_manifest, pq_target_abi = ''x86_64'', pq_target_android = ''12'',
      pq_ephemeral_public_key = snd (random_x25519_keypair demo_crates demo_secret)\<rparr> = demo_prepare_request"
    by (simp add: demo_prepare_request_def random_x25519_keypair_def demo_manifest_def demo_text_def)
  have prep: "client_prepare_artifact demo_crates demo_prepare 0 0 ''qemu-guest-script'' ''x86_64'' ''12''
      (snd (random_x25519_keypair demo_crates demo_secret)) demo_auth_client = Inr (sign_manifest demo_crates demo_authority demo_manifest)"
    using demo_client_prepared by (simp add: random_x25519_keypair_def demo_b64 del: demo_crates_sel(1))
  have e: "am_expires_at demo_manifest = 1300" "am_session_id demo_manifest = ''s1''" by (simp_all add: demo_manifest_def)
  have "\<exists>a p content. artifact ''qemu-guest-script'' (ap_store demo_state) = Some a
      \<and> safe_artifact_path demo_fs (ap_artifact_root demo_state) a = Inr p \<and> fs_contents demo_fs p = Inr content
      \<and> download_artifact_to demo_crates demo_prepare demo_fetch 0 0 demo_secret demo_io True (Some ''f'') ''u''
          ''qemu-guest-script'' ''x86_64'' ''12'' demo_auth_client (\<lambda>_. None)
        = (Inr demo_manifest, (\<lambda>_. None)(temporary_name ''f'' ''u'' := None, ''f'' \<mapsto> content))"
    by (rule download_delivers_published_file [where answer = "sign_manifest demo_crates demo_authority demo_manifest"
          and s = demo_state and fs = demo_fs and prefix = demo_prefix and clock = "\<lambda>_. Some 1060"
          and ?s1.0 = demo_state2 and fetch = demo_fetch and refusal = "\<lambda>_. AE_Revoked" and tid = "''t1''",
          OF demo_laws(1,5,3,4) _ _ _ _ demo_small tr demo_time(1) demo_prepare_def prep])
      (simp_all add: m rq e len demo_prepared demo_fetch_def demo_io_def)
  then show ?thesis by auto
qed

section \<open>Key contexts\<close>

theorem key_context_determines_transfer_witness:
  "artifact_key_context demo_manifest \<noteq> artifact_key_context (demo_manifest\<lparr>am_transfer_id := ''t2''\<rparr>)"
proof -
  have n: "list_all no_nul (transfer_fields demo_manifest)"
      "list_all no_nul (transfer_fields (demo_manifest\<lparr>am_transfer_id := ''t2''\<rparr>))"
  proof -
    have "list_all is_ascii_hexdigit s \<Longrightarrow> no_nul s" for s
      by (auto simp: no_nul_def list_all_iff is_ascii_hexdigit_def)
    then have h: "no_nul demo_sha256" by simp
    show "list_all no_nul (transfer_fields demo_manifest)"
        "list_all no_nul (transfer_fields (demo_manifest\<lparr>am_transfer_id := ''t2''\<rparr>))"
      by (simp_all add: transfer_fields_def demo_manifest_def h, simp_all add: no_nul_def)
  qed
  show ?thesis
    unfolding key_context_determines_transfer [OF n] by (simp add: transfer_fields_def demo_manifest_def)
qed

end
