(* ===== verification/Strings.thy ===== *)
theory Strings imports Prelude begin

text \<open>
  The operations of Rust's \<^verbatim>\<open>str\<close> that the parsers and validators of the program use, on strings of
  UTF-8 bytes. A pattern is an ASCII character or a string, so working on bytes and working on
  characters agree.
\<close>

section \<open>Characters\<close>

definition is_ascii_alphanumeric :: "char \<Rightarrow> bool" where
  "is_ascii_alphanumeric c = (let n = (of_char c :: nat) in
     (48 \<le> n \<and> n \<le> 57) \<or> (65 \<le> n \<and> n \<le> 90) \<or> (97 \<le> n \<and> n \<le> 122))"

definition to_ascii_lowercase_char :: "char \<Rightarrow> char" where
  "to_ascii_lowercase_char c = (let n = (of_char c :: nat) in if 65 \<le> n \<and> n \<le> 90 then char_of (n + 32) else c)"

definition to_ascii_lowercase :: "string \<Rightarrow> string" where
  "to_ascii_lowercase s = map to_ascii_lowercase_char s"

definition to_ascii_uppercase_char :: "char \<Rightarrow> char" where
  "to_ascii_uppercase_char c = (let n = (of_char c :: nat) in if 97 \<le> n \<and> n \<le> 122 then char_of (n - 32) else c)"

definition to_ascii_uppercase :: "string \<Rightarrow> string" where
  "to_ascii_uppercase s = map to_ascii_uppercase_char s"

definition is_ascii_lowercase :: "char \<Rightarrow> bool" where
  "is_ascii_lowercase c = (let n = (of_char c :: nat) in 97 \<le> n \<and> n \<le> 122)"

definition is_ascii_digit :: "char \<Rightarrow> bool" where
  "is_ascii_digit c = (let n = (of_char c :: nat) in 48 \<le> n \<and> n \<le> 57)"

section \<open>Splitting\<close>

text \<open>\<^verbatim>\<open>s.split(c)\<close>: the parts between the occurrences of \<open>c\<close>, at least one.\<close>

fun split_char :: "char \<Rightarrow> string \<Rightarrow> string list" where
  "split_char c [] = [[]]"
| "split_char c (x # xs) =
    (if x = c then [] # split_char c xs
     else (case split_char c xs of [] \<Rightarrow> [[x]] | p # ps \<Rightarrow> (x # p) # ps))"

lemma split_char_nonempty [simp]: "split_char c s \<noteq> []"
  by (induction s) (auto split: list.split)

lemma split_char_parts: "(\<exists>p \<in> set (split_char c s). x \<in> set p) \<longleftrightarrow> x \<in> set s \<and> x \<noteq> c"
proof (induction s)
  case (Cons a s)
  then show ?case by (cases "split_char c s") auto
qed simp

section \<open>Searching and replacing\<close>

definition starts_with :: "string \<Rightarrow> string \<Rightarrow> bool" where
  "starts_with s p = (take (length p) s = p)"

fun str_contains :: "string \<Rightarrow> string \<Rightarrow> bool" where
  "str_contains [] p = (p = [])"
| "str_contains (x # xs) p = (take (length p) (x # xs) = p \<or> str_contains xs p)"

lemma str_contains_iff: "str_contains s p \<longleftrightarrow> (\<exists>a b. s = a @ p @ b)"
proof (induction s)
  case (Cons x xs)
  show ?case
  proof
    assume c: "str_contains (x # xs) p"
    show "\<exists>a b. x # xs = a @ p @ b"
    proof (cases "take (length p) (x # xs) = p")
      case True
      then have "x # xs = [] @ p @ drop (length p) (x # xs)" by (metis append_Nil append_take_drop_id)
      then show ?thesis by blast
    next
      case False
      with c Cons obtain a b where "xs = a @ p @ b" by auto
      then have "x # xs = (x # a) @ p @ b" by simp
      then show ?thesis by blast
    qed
  next
    assume "\<exists>a b. x # xs = a @ p @ b"
    then obtain a b where ab: "x # xs = a @ p @ b" by blast
    show "str_contains (x # xs) p"
    proof (cases a)
      case Nil
      then have "take (length p) (x # xs) = p" using ab by simp
      then show ?thesis by simp
    next
      case (Cons y a')
      then have "xs = a' @ p @ b" using ab by simp
      then show ?thesis using Cons.IH by auto
    qed
  qed
qed auto

text \<open>\<^verbatim>\<open>s.replace(from, to)\<close> for a non-empty \<open>from\<close>: left to right, without overlaps.\<close>

function str_replace :: "string \<Rightarrow> string \<Rightarrow> string \<Rightarrow> string" where
  "str_replace p t [] = []"
| "str_replace p t (x # xs) =
    (if p \<noteq> [] \<and> take (length p) (x # xs) = p then t @ str_replace p t (drop (length p) (x # xs))
     else x # str_replace p t xs)"
  by pat_completeness auto
termination
  by (relation "measure (\<lambda>(p, t, s). length s)") (auto simp: length_greater_0_conv [symmetric] simp del: length_greater_0_conv)

lemma str_replace_char: "str_replace [c] t s = concat (map (\<lambda>x. if x = c then t else [x]) s)"
  by (induction s) auto

section \<open>Lines and parts\<close>

fun join :: "string \<Rightarrow> string list \<Rightarrow> string" where
  "join sep [] = []"
| "join sep [x] = x"
| "join sep (x # xs) = x @ sep @ join sep xs"

text \<open>
  \<^verbatim>\<open>str::lines\<close>: a line ends with a newline, which may follow a carriage return; what follows the last
  newline is a line when it is not empty, and keeps a trailing carriage return.
\<close>

definition strip_cr :: "string \<Rightarrow> string" where
  "strip_cr l = (if l \<noteq> [] \<and> last l = CHR 0x0D then butlast l else l)"

definition lines :: "string \<Rightarrow> string list" where
  "lines s = (let ps = split_char (CHR 0x0A) s in
     map strip_cr (butlast ps) @ (if last ps = [] then [] else [last ps]))"

text \<open>\<^verbatim>\<open>s.split_once(p)\<close>: the parts around the first occurrence of \<open>p\<close>.\<close>

fun split_once :: "string \<Rightarrow> string \<Rightarrow> (string \<times> string) option" where
  "split_once p [] = (if p = [] then Some ([], []) else None)"
| "split_once p (x # xs) =
    (if take (length p) (x # xs) = p then Some ([], drop (length p) (x # xs))
     else map_option (\<lambda>(a, b). (x # a, b)) (split_once p xs))"

lemma split_once_Some: "split_once p s = Some (a, b) \<Longrightarrow> s = a @ p @ b"
proof (induction s arbitrary: a)
  case (Cons x xs)
  then show ?case by (auto split: if_splits) (metis append_take_drop_id)
qed (auto split: if_splits)

definition ends_with :: "string \<Rightarrow> string \<Rightarrow> bool" where
  "ends_with s p = (length p \<le> length s \<and> drop (length s - length p) s = p)"

text \<open>\<^verbatim>\<open>s.trim_start_matches(c)\<close> for a character.\<close>

definition trim_start_char :: "char \<Rightarrow> string \<Rightarrow> string" where
  "trim_start_char c s = dropWhile (\<lambda>x. x = c) s"

lemma join_Cons: "xs \<noteq> [] \<Longrightarrow> join sep (x # xs) = x @ sep @ join sep xs"
  by (cases xs) simp_all

lemma join_split_char: "join [c] (split_char c s) = s"
proof (induction s)
  case (Cons x xs)
  show ?case
  proof (cases "split_char c xs")
    case Nil
    then show ?thesis by simp
  next
    case (Cons p ps)
    with \<open>join [c] (split_char c xs) = xs\<close> show ?thesis by (cases ps) auto
  qed
qed simp

lemma split_char_no_sep: "c \<notin> set s \<Longrightarrow> split_char c s = [s]"
  by (induction s) auto

lemma split_char_append: "c \<notin> set a \<Longrightarrow> split_char c (a @ c # b) = a # split_char c b"
  by (induction a) auto

lemma split_char_join:
  assumes "xs \<noteq> []" and "\<And>x. x \<in> set xs \<Longrightarrow> c \<notin> set x"
  shows "split_char c (join [c] xs) = xs"
  using assms
proof (induction xs)
  case (Cons x xs)
  show ?case
  proof (cases xs)
    case Nil
    then show ?thesis using Cons.prems by (simp add: split_char_no_sep)
  next
    case (Cons y ys)
    then have "split_char c (join [c] xs) = xs" using Cons.IH Cons.prems by simp
    then show ?thesis using Cons Cons.prems(2) [of x] by (simp add: join_Cons split_char_append)
  qed
qed simp

section \<open>Words and numbers\<close>

text \<open>\<^verbatim>\<open>str::split_whitespace\<close>: the maximal runs without white space.\<close>

function split_whitespace_from :: "string \<Rightarrow> string \<Rightarrow> string list" where
  "split_whitespace_from cur [] = (if cur = [] then [] else [cur])"
| "split_whitespace_from cur (c # cs) =
    (let k = ws_prefix (c # cs) in
     if k = 0 then split_whitespace_from (cur @ [c]) cs
     else (if cur = [] then [] else [cur]) @ split_whitespace_from [] (drop (k - 1) cs))"
  by pat_completeness auto
termination by (relation "measure (\<lambda>(cur, s). length s)") auto

definition split_whitespace :: "string \<Rightarrow> string list" where
  "split_whitespace s = split_whitespace_from [] s"

definition eq_ignore_ascii_case :: "string \<Rightarrow> string \<Rightarrow> bool" where
  "eq_ignore_ascii_case s t = (to_ascii_lowercase s = to_ascii_lowercase t)"

text \<open>
  \<^verbatim>\<open>str::parse\<close> of an integer: an optional sign (a minus sign only for a signed type) and decimal digits
  whose value fits.
\<close>

definition dec_value :: "string \<Rightarrow> nat" where
  "dec_value s = fold (\<lambda>c n. n * 10 + (of_char c - 48)) s 0"

definition parse_below :: "nat \<Rightarrow> string \<Rightarrow> nat option" where
  "parse_below n s = (let d = (case s of c # cs \<Rightarrow> if c = CHR ''+'' then cs else s | [] \<Rightarrow> []) in
     if d \<noteq> [] \<and> list_all is_ascii_digit d \<and> dec_value d < n then Some (dec_value d) else None)"

definition parse_u16 :: "string \<Rightarrow> u16 option" where
  "parse_u16 s = map_option of_nat (parse_below 65536 s)"

definition parse_u32 :: "string \<Rightarrow> u32 option" where
  "parse_u32 s = map_option of_nat (parse_below 4294967296 s)"

definition parse_u64 :: "string \<Rightarrow> u64 option" where
  "parse_u64 s = map_option of_nat (parse_below 18446744073709551616 s)"

definition parse_signed :: "nat \<Rightarrow> string \<Rightarrow> int option" where
  "parse_signed n s = (case s of
     [] \<Rightarrow> None
   | c # cs \<Rightarrow>
     if c = CHR ''-''
     then (if cs \<noteq> [] \<and> list_all is_ascii_digit cs \<and> dec_value cs \<le> n then Some (- int (dec_value cs)) else None)
     else map_option int (parse_below n s))"

definition parse_i32 :: "string \<Rightarrow> int option" where
  "parse_i32 s = parse_signed 2147483648 s"

definition parse_i64 :: "string \<Rightarrow> i64 option" where
  "parse_i64 s = parse_signed 9223372036854775808 s"

definition show_int :: "int \<Rightarrow> string" where
  "show_int i = (if i < 0 then CHR ''-'' # dec_string (nat (- i)) else dec_string (nat i))"

text \<open>\<^verbatim>\<open>s.chars().take(n)\<close>: a character is a byte that does not continue one, and the bytes that continue it.\<close>

definition is_utf8_continuation :: "char \<Rightarrow> bool" where
  "is_utf8_continuation c = (let n = (of_char c :: nat) in 128 \<le> n \<and> n < 192)"

fun take_chars :: "nat \<Rightarrow> string \<Rightarrow> string" where
  "take_chars n [] = []"
| "take_chars n (c # cs) =
    (if is_utf8_continuation c then c # take_chars n cs
     else case n of 0 \<Rightarrow> [] | Suc m \<Rightarrow> c # take_chars m cs)"

text \<open>A character of \<open>s\<close> is white space exactly when trimming from it removes something.\<close>

fun has_whitespace :: "string \<Rightarrow> bool" where
  "has_whitespace [] = False"
| "has_whitespace (c # cs) = (ws_prefix (c # cs) \<noteq> 0 \<or> has_whitespace cs)"

abbreviation (input) SQ :: string where "SQ \<equiv> [CHR 0x27]"
abbreviation (input) DQ :: string where "DQ \<equiv> [CHR 0x22]"
abbreviation (input) BS :: string where "BS \<equiv> [CHR 0x5C]"
abbreviation (input) NL :: string where "NL \<equiv> [CHR 0x0A]"
abbreviation (input) TAB :: string where "TAB \<equiv> [CHR 0x09]"

end
