(* ===== verification/Scheduler.thy ===== *)
theory Scheduler imports Strings begin

text \<open>
  \<^verbatim>\<open>src-tauri/src/services/runtime_scheduler.rs\<close>: which instances may start now, which wait in the
  queue, and which idle instances may be stopped. A \<^verbatim>\<open>SystemTime\<close> is its number of nanoseconds.
\<close>

section \<open>State\<close>

datatype memory_pressure = Normal | Caution | Critical | Unknown

record lifecycle_policy =
  lp_idle_timeout_minutes :: u32
  lp_keep_vm_warm :: bool
  lp_max_parallel_starts :: u32
  lp_protected_instance_ids :: "string list"
  lp_auto_release_idle_on_critical :: bool

definition default_policy :: lifecycle_policy where
  "default_policy = \<lparr>lp_idle_timeout_minutes = 30, lp_keep_vm_warm = False, lp_max_parallel_starts = 1,
     lp_protected_instance_ids = [], lp_auto_release_idle_on_critical = True\<rparr>"

datatype activity_kind = UserWindow | Adb | Stream | Recording | Transfer | Automation

datatype start_decision = Starting | Ready | Queued | Blocked memory_pressure | Failed string

record activity_record =
  av_instance :: string
  av_kind :: activity_kind
  av_at :: int

record start_request =
  st_vm :: string
  st_instance :: string

record scheduler_state =
  sc_policy :: lifecycle_policy
  sc_starts_in_flight :: u32
  sc_starting :: "start_request list"
  sc_queued_starts :: "start_request list"
  sc_activities :: "activity_record list"
  sc_reclaim_in_flight :: bool

definition clamp_policy :: "lifecycle_policy \<Rightarrow> lifecycle_policy" where
  "clamp_policy p = p\<lparr>lp_max_parallel_starts := max (lp_max_parallel_starts p) 1\<rparr>"

definition with_policy :: "lifecycle_policy \<Rightarrow> scheduler_state" where
  "with_policy p = \<lparr>sc_policy = clamp_policy p, sc_starts_in_flight = 0, sc_starting = [],
     sc_queued_starts = [], sc_activities = [], sc_reclaim_in_flight = False\<rparr>"

definition update_policy :: "lifecycle_policy \<Rightarrow> scheduler_state \<Rightarrow> scheduler_state" where
  "update_policy p s = s\<lparr>sc_policy := clamp_policy p\<rparr>"

section \<open>Starts\<close>

definition request :: "string \<Rightarrow> string \<Rightarrow> start_request" where
  "request vm i = \<lparr>st_vm = vm, st_instance = i\<rparr>"

definition matches :: "string \<Rightarrow> string \<Rightarrow> start_request \<Rightarrow> bool" where
  "matches vm i r = (st_vm r = vm \<and> st_instance r = i)"

fun position :: "('a \<Rightarrow> bool) \<Rightarrow> 'a list \<Rightarrow> nat option" where
  "position P [] = None"
| "position P (x # xs) = (if P x then Some 0 else map_option Suc (position P xs))"

definition remove_at :: "nat \<Rightarrow> 'a list \<Rightarrow> 'a list" where
  "remove_at i xs = take i xs @ drop (Suc i) xs"

definition request_start :: "string \<Rightarrow> string \<Rightarrow> scheduler_state \<Rightarrow> start_decision \<times> scheduler_state" where
  "request_start vm i s =
    (if list_ex (matches vm i) (sc_starting s) \<or> list_ex (matches vm i) (sc_queued_starts s)
     then (Failed (''start already tracked for VM '' @ vm @ '' instance '' @ i), s)
     else if sc_starts_in_flight s \<ge> lp_max_parallel_starts (sc_policy s)
        \<or> list_ex (\<lambda>r. st_vm r = vm) (sc_starting s)
     then (Queued, s\<lparr>sc_queued_starts := sc_queued_starts s @ [request vm i]\<rparr>)
     else (Starting, s\<lparr>sc_starts_in_flight := sc_starts_in_flight s + 1,
                       sc_starting := sc_starting s @ [request vm i]\<rparr>))"

definition finish_start :: "string \<Rightarrow> string \<Rightarrow> bool \<Rightarrow> scheduler_state \<Rightarrow> start_decision \<times> scheduler_state" where
  "finish_start vm i success s =
    (case position (matches vm i) (sc_starting s) of
       None \<Rightarrow> (Failed (''start was not tracked for VM '' @ vm @ '' instance '' @ i), s)
     | Some index \<Rightarrow>
         (if success then Ready else Failed (''start failed for VM '' @ vm),
          s\<lparr>sc_starts_in_flight := (if sc_starts_in_flight s = 0 then 0 else sc_starts_in_flight s - 1),
            sc_starting := remove_at index (sc_starting s)\<rparr>))"

definition promote_next_start :: "scheduler_state \<Rightarrow> (string \<times> string) option \<times> scheduler_state" where
  "promote_next_start s =
    (if sc_starts_in_flight s \<ge> lp_max_parallel_starts (sc_policy s) then (None, s)
     else case sc_queued_starts s of
       [] \<Rightarrow> (None, s)
     | r # rest \<Rightarrow>
         if list_ex (\<lambda>q. st_vm q = st_vm r) (sc_starting s) then (None, s)
         else (Some (st_vm r, st_instance r),
               s\<lparr>sc_queued_starts := rest, sc_starts_in_flight := sc_starts_in_flight s + 1,
                 sc_starting := sc_starting s @ [r]\<rparr>))"

definition is_starting :: "string \<Rightarrow> string \<Rightarrow> scheduler_state \<Rightarrow> bool" where
  "is_starting vm i s = list_ex (matches vm i) (sc_starting s)"

definition is_queued :: "string \<Rightarrow> string \<Rightarrow> scheduler_state \<Rightarrow> bool" where
  "is_queued vm i s = list_ex (matches vm i) (sc_queued_starts s)"

definition has_other_start :: "string \<Rightarrow> string \<Rightarrow> scheduler_state \<Rightarrow> bool" where
  "has_other_start vm i s =
    list_ex (\<lambda>r. st_vm r \<noteq> vm \<or> st_instance r \<noteq> i) (sc_starting s @ sc_queued_starts s)"

definition cancel_queued_start :: "string \<Rightarrow> string \<Rightarrow> scheduler_state \<Rightarrow> bool \<times> scheduler_state" where
  "cancel_queued_start vm i s =
    (case position (matches vm i) (sc_queued_starts s) of
       None \<Rightarrow> (False, s)
     | Some index \<Rightarrow> (True, s\<lparr>sc_queued_starts := remove_at index (sc_queued_starts s)\<rparr>))"

section \<open>Activity and reclaim\<close>

definition mark_activity :: "string \<Rightarrow> activity_kind \<Rightarrow> int \<Rightarrow> scheduler_state \<Rightarrow> scheduler_state" where
  "mark_activity i kind at_time s =
    s\<lparr>sc_activities := filter (\<lambda>a. av_instance a \<noteq> i \<or> av_kind a \<noteq> kind) (sc_activities s)
        @ [\<lparr>av_instance = i, av_kind = kind, av_at = at_time\<rparr>]\<rparr>"

definition clear_instance :: "string \<Rightarrow> scheduler_state \<Rightarrow> scheduler_state" where
  "clear_instance i s = s\<lparr>sc_activities := filter (\<lambda>a. av_instance a \<noteq> i) (sc_activities s)\<rparr>"

definition is_reclaimable :: "string \<Rightarrow> int \<Rightarrow> scheduler_state \<Rightarrow> bool" where
  "is_reclaimable i now s =
    (if list_ex (\<lambda>p. p = i) (lp_protected_instance_ids (sc_policy s)) then False
     else
       (let timeout = int (unat (max (lp_idle_timeout_minutes (sc_policy s)) 1)) * 60 * 1000000000;
            records = filter (\<lambda>a. av_instance a = i) (sc_activities s)
        in records \<noteq> [] \<and> list_all (\<lambda>a. max 0 (now - av_at a) \<ge> timeout) records))"

primrec collect_reclaimable :: "int \<Rightarrow> scheduler_state \<Rightarrow> activity_record list \<Rightarrow> string list \<Rightarrow> string list" where
  "collect_reclaimable now s [] candidates = candidates"
| "collect_reclaimable now s (a # as) candidates =
    (if av_instance a \<in> set candidates then collect_reclaimable now s as candidates
     else if is_reclaimable (av_instance a) now s
     then collect_reclaimable now s as (candidates @ [av_instance a])
     else collect_reclaimable now s as candidates)"

definition reclaimable_instances :: "int \<Rightarrow> scheduler_state \<Rightarrow> string list" where
  "reclaimable_instances now s = collect_reclaimable now s (sc_activities s) []"

definition begin_reclaim :: "scheduler_state \<Rightarrow> bool \<times> scheduler_state" where
  "begin_reclaim s =
    (if sc_reclaim_in_flight s then (False, s) else (True, s\<lparr>sc_reclaim_in_flight := True\<rparr>))"

definition finish_reclaim :: "scheduler_state \<Rightarrow> scheduler_state" where
  "finish_reclaim s = s\<lparr>sc_reclaim_in_flight := False\<rparr>"

section \<open>Parsers\<close>

text \<open>The error quotes the value in \<^verbatim>\<open>Debug\<close> format, which is not modelled: the value stands as it is.\<close>

definition parse_activity_kind :: "string \<Rightarrow> string + activity_kind" where
  "parse_activity_kind value =
    (let v = to_ascii_lowercase (trim value) in
     if v = ''user_window'' \<or> v = ''userwindow'' then Inr UserWindow
     else if v = ''adb'' then Inr Adb
     else if v = ''stream'' then Inr Stream
     else if v = ''recording'' then Inr Recording
     else if v = ''transfer'' then Inr Transfer
     else if v = ''automation'' then Inr Automation
     else Inl (''unknown runtime activity kind: '' @ v))"

definition is_valid_android_package :: "string \<Rightarrow> bool" where
  "is_valid_android_package package =
    (let p = trim package in
     p \<noteq> [] \<and> list_all (\<lambda>part. part \<noteq> [] \<and> list_all (\<lambda>c. is_ascii_alphanumeric c \<or> c = CHR ''_'') part)
       (split_char CHR ''.'' p))"

section \<open>Runs of operations\<close>

datatype sched_op = OpRequest string string | OpFinish string string bool | OpPromote
  | OpCancel string string | OpMark string activity_kind int | OpClear string
  | OpUpdatePolicy lifecycle_policy | OpBeginReclaim | OpFinishReclaim

fun exec_sched :: "sched_op \<Rightarrow> scheduler_state \<Rightarrow> scheduler_state" where
  "exec_sched (OpRequest vm i) s = snd (request_start vm i s)"
| "exec_sched (OpFinish vm i ok) s = snd (finish_start vm i ok s)"
| "exec_sched OpPromote s = snd (promote_next_start s)"
| "exec_sched (OpCancel vm i) s = snd (cancel_queued_start vm i s)"
| "exec_sched (OpMark i k t) s = mark_activity i k t s"
| "exec_sched (OpClear i) s = clear_instance i s"
| "exec_sched (OpUpdatePolicy p) s = update_policy p s"
| "exec_sched OpBeginReclaim s = snd (begin_reclaim s)"
| "exec_sched OpFinishReclaim s = finish_reclaim s"

lemmas sched_defs = request_start_def finish_start_def promote_next_start_def cancel_queued_start_def
  mark_activity_def clear_instance_def update_policy_def begin_reclaim_def finish_reclaim_def

section \<open>Well-formed states\<close>

definition tracked :: "scheduler_state \<Rightarrow> start_request list" where
  "tracked s = sc_starting s @ sc_queued_starts s"

definition activity_key :: "activity_record \<Rightarrow> string \<times> activity_kind" where
  "activity_key a = (av_instance a, av_kind a)"

definition sched_wf :: "scheduler_state \<Rightarrow> bool" where
  "sched_wf s \<longleftrightarrow> unat (sc_starts_in_flight s) = length (sc_starting s)
    \<and> distinct (tracked s) \<and> distinct (map st_vm (sc_starting s))
    \<and> 1 \<le> lp_max_parallel_starts (sc_policy s)
    \<and> distinct (map activity_key (sc_activities s))"

lemma matches_iff [simp]: "matches vm i r \<longleftrightarrow> r = request vm i"
  by (cases r) (auto simp: matches_def request_def)

lemma request_sel [simp]: "st_vm (request vm i) = vm" "st_instance (request vm i) = i"
  by (simp_all add: request_def)

lemma request_surj [simp]: "request (st_vm r) (st_instance r) = r"
  by (cases r) (simp add: request_def)

lemma request_inject [simp]: "request vm i = request vm' i' \<longleftrightarrow> vm = vm' \<and> i = i'"
  by (simp add: request_def)

lemma list_ex_matches: "list_ex (matches vm i) rs \<longleftrightarrow> request vm i \<in> set rs"
  by (auto simp: list_ex_iff)

lemma position_None: "position P xs = None \<longleftrightarrow> (\<forall>x \<in> set xs. \<not> P x)"
  by (induction xs) auto

lemma position_remove:
  "position (matches vm i) xs = Some n \<Longrightarrow> distinct xs \<Longrightarrow>
    n < length xs \<and> remove_at n xs = filter (\<lambda>r. r \<noteq> request vm i) xs \<and> request vm i \<in> set xs"
proof (induction xs arbitrary: n)
  case (Cons x xs)
  show ?case
  proof (cases "x = request vm i")
    case True
    then have "filter (\<lambda>r. r \<noteq> request vm i) xs = xs" using Cons.prems(2) by (intro filter_True) auto
    with True Cons.prems show ?thesis by (simp add: remove_at_def)
  next
    case False
    with Cons.prems Cons.IH show ?thesis by (auto simp: remove_at_def)
  qed
qed simp

lemma unat_succ:
  assumes "a < (b :: u32)"
  shows "unat (a + 1) = Suc (unat a)"
proof -
  have "unat a < unat b" using assms by (simp add: word_less_nat_alt)
  then have "Suc (unat a) < 4294967296" using unat_u32_less [of b] by linarith
  then show ?thesis by (simp add: unat_word_ariths)
qed

lemma unat_pred: "unat (if a = 0 then 0 else a - 1 :: u32) = unat a - 1"
  by (auto simp: unat_minus_one)

lemma sched_wf_request: "sched_wf s \<Longrightarrow> sched_wf (snd (request_start vm i s))"
  using unat_succ [of "sc_starts_in_flight s" "lp_max_parallel_starts (sc_policy s)"]
  by (auto simp: sched_wf_def request_start_def tracked_def list_ex_matches list_ex_iff not_le)

lemma sched_wf_promote: "sched_wf s \<Longrightarrow> sched_wf (snd (promote_next_start s))"
  using unat_succ [of "sc_starts_in_flight s" "lp_max_parallel_starts (sc_policy s)"]
  by (auto simp: sched_wf_def promote_next_start_def tracked_def list_ex_iff not_le split: list.split)

lemma length_filter_remove:
  "distinct xs \<Longrightarrow> x \<in> set xs \<Longrightarrow> length (filter (\<lambda>r. r \<noteq> x) xs) = length xs - 1"
proof (induction xs)
  case (Cons a xs)
  show ?case
  proof (cases "a = x")
    case True
    then have "filter (\<lambda>r. r \<noteq> x) xs = xs" using Cons.prems by (intro filter_True) auto
    with True show ?thesis by simp
  next
    case False
    then have "x \<in> set xs" using Cons.prems(2) by simp
    moreover from this have "0 < length xs" by (rule length_pos_if_in_set)
    ultimately show ?thesis using False Cons by simp
  qed
qed simp

lemma finish_start_tracked:
  assumes "distinct (sc_starting s)" and "position (matches vm i) (sc_starting s) = Some n"
  shows "snd (finish_start vm i ok s) = s\<lparr>sc_starts_in_flight := (if sc_starts_in_flight s = 0 then 0
      else sc_starts_in_flight s - 1), sc_starting := filter (\<lambda>r. r \<noteq> request vm i) (sc_starting s)\<rparr>"
    and "request vm i \<in> set (sc_starting s)"
  using position_remove [OF assms(2,1)] assms(2) by (auto simp: finish_start_def)

lemma cancel_tracked:
  assumes "distinct (sc_queued_starts s)" and "position (matches vm i) (sc_queued_starts s) = Some n"
  shows "snd (cancel_queued_start vm i s) =
      s\<lparr>sc_queued_starts := filter (\<lambda>r. r \<noteq> request vm i) (sc_queued_starts s)\<rparr>"
    and "request vm i \<in> set (sc_queued_starts s)"
  using position_remove [OF assms(2,1)] assms(2) by (auto simp: cancel_queued_start_def)

lemma finish_start_untracked:
  "position (matches vm i) (sc_starting s) = None \<Longrightarrow> snd (finish_start vm i ok s) = s"
  by (simp add: finish_start_def)

lemma cancel_untracked:
  "position (matches vm i) (sc_queued_starts s) = None \<Longrightarrow> snd (cancel_queued_start vm i s) = s"
  by (simp add: cancel_queued_start_def)

lemma sched_wf_finish:
  assumes "sched_wf s"
  shows "sched_wf (snd (finish_start vm i ok s))"
proof (cases "position (matches vm i) (sc_starting s)")
  case None
  with assms show ?thesis by (simp only: finish_start_untracked)
next
  case (Some n)
  have "distinct (sc_starting s)" using assms by (simp add: sched_wf_def tracked_def)
  note f = finish_start_tracked [OF this Some]
  have "unat (if sc_starts_in_flight s = 0 then 0 else sc_starts_in_flight s - 1) =
      length (filter (\<lambda>r. r \<noteq> request vm i) (sc_starting s))"
    using assms f(2) by (simp only: unat_pred length_filter_remove sched_wf_def tracked_def distinct_append)
  then show ?thesis
    using assms unfolding f(1) by (auto simp: sched_wf_def tracked_def distinct_map_filter)
qed

lemma sched_wf_cancel:
  assumes "sched_wf s"
  shows "sched_wf (snd (cancel_queued_start vm i s))"
proof (cases "position (matches vm i) (sc_queued_starts s)")
  case None
  with assms show ?thesis by (simp only: cancel_untracked)
next
  case (Some n)
  have "distinct (sc_queued_starts s)" using assms by (simp add: sched_wf_def tracked_def)
  then show ?thesis
    using assms by (auto simp: cancel_tracked(1) [OF _ Some] sched_wf_def tracked_def)
qed

lemma sched_wf_exec:
  assumes "sched_wf s"
  shows "sched_wf (exec_sched op s)"
  using assms sched_wf_request sched_wf_promote sched_wf_finish sched_wf_cancel
  by (cases op)
    (auto simp: sched_wf_def tracked_def mark_activity_def clear_instance_def update_policy_def
      begin_reclaim_def finish_reclaim_def clamp_policy_def activity_key_def distinct_map_filter)

interpretation sched: stable_fact exec_sched sched_wf
  by unfold_locales (rule sched_wf_exec)

lemma sched_wf_start: "sched_wf (with_policy p)"
  by (simp add: sched_wf_def with_policy_def tracked_def clamp_policy_def)

end
