(* ===== verification/Scheduler_Props.thy ===== *)
theory Scheduler_Props imports Scheduler begin

text \<open>
  What the scheduler guarantees: its bookkeeping is consistent, starts stay within the budget and
  one at a time for each VM, no queued start is lost, the queue drains in order, and only idle,
  unprotected instances are offered for reclaim.
\<close>

section \<open>Bookkeeping\<close>

text \<open>
  C23: After any sequence of operations the counter of starts in flight is the number of tracked
  starts, no request is tracked twice, no VM has two starts in flight, and an instance has at most
  one activity record of a kind.
\<close>

theorem scheduler_bookkeeping:
  "sched_wf (fold exec_sched ops (with_policy p))"
  by (rule sched.stable_run) (rule sched_wf_start)

lemma reachable_wf: "s = fold exec_sched ops (with_policy p) \<Longrightarrow> sched_wf s"
  using sched.stable_run [OF sched_wf_start] by simp

text \<open>
  No operation brings the number of starts in flight above the parallel-start budget; only a
  change of the policy itself can leave more in flight than the new budget allows.
\<close>

theorem starts_within_budget:
  assumes "s = fold exec_sched ops (with_policy p)"
  shows "length (sc_starting (exec_sched op s))
    \<le> max (length (sc_starting s)) (unat (lp_max_parallel_starts (sc_policy s)))"
proof -
  have wf: "unat (sc_starts_in_flight s) = length (sc_starting s)" "distinct (sc_starting s)"
    using reachable_wf [OF assms] by (simp_all add: sched_wf_def tracked_def)
  show ?thesis
  proof (cases op)
    case (OpFinish vm i ok)
    then show ?thesis
      using finish_start_tracked(1) [OF wf(2), of vm i _ ok] finish_start_untracked [of vm i s ok]
      by (cases "position (matches vm i) (sc_starting s)") (auto simp: le_max_iff_disj)
  next
    case (OpCancel vm i)
    then show ?thesis by (auto simp: cancel_queued_start_def split: option.split)
  qed (use wf(1) in \<open>auto simp: sched_defs word_le_nat_alt not_le split: list.split\<close>)
qed

section \<open>The life cycle of a start request\<close>

datatype phase = PStarting | PQueued

definition phase_of :: "scheduler_state \<Rightarrow> start_request \<Rightarrow> phase option" where
  "phase_of s r = (if r \<in> set (sc_starting s) then Some PStarting
     else if r \<in> set (sc_queued_starts s) then Some PQueued else None)"

inductive lifecycle_step :: "sched_op \<Rightarrow> (start_request \<rightharpoonup> phase) \<Rightarrow> (start_request \<rightharpoonup> phase) \<Rightarrow> bool" where
  idle: "lifecycle_step op m m"
| admitted: "m (request vm i) = None \<Longrightarrow> lifecycle_step (OpRequest vm i) m (m(request vm i \<mapsto> PStarting))"
| enqueued: "m (request vm i) = None \<Longrightarrow> lifecycle_step (OpRequest vm i) m (m(request vm i \<mapsto> PQueued))"
| promoted: "m r = Some PQueued \<Longrightarrow> lifecycle_step OpPromote m (m(r \<mapsto> PStarting))"
| finished: "m (request vm i) = Some PStarting \<Longrightarrow> lifecycle_step (OpFinish vm i ok) m (m(request vm i := None))"
| cancelled: "m (request vm i) = Some PQueued \<Longrightarrow> lifecycle_step (OpCancel vm i) m (m(request vm i := None))"

inductive_cases lifecycle_stepE: "lifecycle_step op m m'"

lemma phase_same:
  "sc_starting s' = sc_starting s \<Longrightarrow> sc_queued_starts s' = sc_queued_starts s \<Longrightarrow> phase_of s' = phase_of s"
  by (rule ext) (simp add: phase_of_def)

lemma phase_unchanged:
  "phase_of (mark_activity i k t s) = phase_of s" "phase_of (clear_instance i s) = phase_of s"
  "phase_of (update_policy p s) = phase_of s" "phase_of (snd (begin_reclaim s)) = phase_of s"
  "phase_of (finish_reclaim s) = phase_of s"
  by (rule phase_same; simp add: sched_defs)+

lemma refine_request: "lifecycle_step (OpRequest vm i) (phase_of s) (phase_of (snd (request_start vm i s)))"
proof -
  let ?s' = "snd (request_start vm i s)" and ?r = "request vm i"
  show ?thesis
  proof (cases "phase_of s ?r = None")
    case False
    then have "?r \<in> set (sc_starting s) \<or> ?r \<in> set (sc_queued_starts s)"
      by (simp add: phase_of_def split: if_splits)
    then have "?s' = s" by (simp add: request_start_def list_ex_matches)
    then show ?thesis by (simp add: lifecycle_step.idle)
  next
    case True
    then have "?r \<notin> set (sc_starting s)" "?r \<notin> set (sc_queued_starts s)"
      by (simp_all add: phase_of_def split: if_splits)
    then have "phase_of ?s' = (phase_of s)(?r \<mapsto> PStarting) \<or> phase_of ?s' = (phase_of s)(?r \<mapsto> PQueued)"
      by (simp add: request_start_def list_ex_matches phase_of_def fun_eq_iff)
    with True show ?thesis by (auto intro: lifecycle_step.intros)
  qed
qed

lemma refine_promote:
  assumes "sched_wf s"
  shows "lifecycle_step OpPromote (phase_of s) (phase_of (snd (promote_next_start s)))"
proof -
  let ?s' = "snd (promote_next_start s)"
  consider "phase_of ?s' = phase_of s"
    | r where "phase_of s r = Some PQueued" "phase_of ?s' = (phase_of s)(r \<mapsto> PStarting)"
  proof (cases "sc_queued_starts s")
    case Nil
    then show thesis by (intro that(1)) (simp add: promote_next_start_def)
  next
    case (Cons r rest)
    have r: "r \<notin> set (sc_starting s)" "r \<notin> set rest" using assms Cons by (auto simp: sched_wf_def tracked_def)
    show thesis
    proof (cases "?s' = s")
      case True
      then show thesis by (intro that(1)) simp
    next
      case False
      then have "sc_starting ?s' = sc_starting s @ [r]" "sc_queued_starts ?s' = rest"
        using Cons by (auto simp: promote_next_start_def split: if_splits)
      then show thesis
        using r Cons by (intro that(2) [of r]) (auto simp: phase_of_def fun_eq_iff)
    qed
  qed
  then show ?thesis by cases (simp_all add: lifecycle_step.intros)
qed

lemma refine_finish:
  assumes "sched_wf s"
  shows "lifecycle_step (OpFinish vm i ok) (phase_of s) (phase_of (snd (finish_start vm i ok s)))"
proof (cases "position (matches vm i) (sc_starting s)")
  case None
  then show ?thesis by (simp add: finish_start_untracked lifecycle_step.idle)
next
  case (Some n)
  have d: "distinct (sc_starting s)" "distinct (tracked s)" using assms by (simp_all add: sched_wf_def tracked_def)
  note f = finish_start_tracked [OF d(1) Some]
  have "phase_of (snd (finish_start vm i ok s)) = (phase_of s)(request vm i := None)"
    using d(2) f(2) unfolding f(1) by (auto simp: phase_of_def fun_eq_iff tracked_def)
  moreover have "phase_of s (request vm i) = Some PStarting" using f(2) by (simp add: phase_of_def)
  ultimately show ?thesis by (simp add: lifecycle_step.finished)
qed

lemma refine_cancel:
  assumes "sched_wf s"
  shows "lifecycle_step (OpCancel vm i) (phase_of s) (phase_of (snd (cancel_queued_start vm i s)))"
proof (cases "position (matches vm i) (sc_queued_starts s)")
  case None
  then show ?thesis by (simp add: cancel_untracked lifecycle_step.idle)
next
  case (Some n)
  have d: "distinct (sc_queued_starts s)" "distinct (tracked s)" using assms by (simp_all add: sched_wf_def tracked_def)
  note c = cancel_tracked [OF d(1) Some]
  have "phase_of (snd (cancel_queued_start vm i s)) = (phase_of s)(request vm i := None)"
    using d(2) c(2) unfolding c(1) by (auto simp: phase_of_def fun_eq_iff tracked_def)
  moreover have "phase_of s (request vm i) = Some PQueued" using c(2) d(2) by (auto simp: phase_of_def tracked_def)
  ultimately show ?thesis by (simp add: lifecycle_step.cancelled)
qed

lemma refine_exec: "sched_wf s \<Longrightarrow> lifecycle_step op (phase_of s) (phase_of (exec_sched op s))"
  by (cases op)
    (simp_all add: refine_request refine_promote refine_finish refine_cancel phase_unchanged
      lifecycle_step.idle)


section \<open>No queued start is lost\<close>

definition gives_up :: "start_request \<Rightarrow> sched_op \<Rightarrow> bool" where
  "gives_up r op \<longleftrightarrow> (case op of OpFinish vm i _ \<Rightarrow> request vm i = r | OpCancel vm i \<Rightarrow> request vm i = r | _ \<Rightarrow> False)"

lemma lifecycle_keeps:
  "lifecycle_step op m m' \<Longrightarrow> \<not> gives_up r op \<Longrightarrow> m r \<noteq> None \<Longrightarrow> m' r \<noteq> None"
  by (induction rule: lifecycle_step.induct) (auto simp: gives_up_def)

text \<open>
  A start that was admitted or queued stays tracked until it is finished or cancelled by name,
  whatever else the scheduler is asked to do.
\<close>

theorem tracked_start_not_lost:
  assumes "s = fold exec_sched ops0 (with_policy p)" and "phase_of s r \<noteq> None"
    and "list_all (\<lambda>op. \<not> gives_up r op) ops"
  shows "phase_of (fold exec_sched ops s) r \<noteq> None"
  using reachable_wf [OF assms(1)] assms(2,3)
proof (induction ops arbitrary: s)
  case (Cons op ops)
  have "phase_of (exec_sched op s) r \<noteq> None"
    using lifecycle_keeps [OF refine_exec [OF Cons.prems(1)]] Cons.prems(2,3) by auto
  then show ?case
    using Cons.IH [of "exec_sched op s"] sched_wf_exec [OF Cons.prems(1)] Cons.prems(3) by simp
qed simp

section \<open>The queue drains in order\<close>

text \<open>Promote and finish one start after the other, at most \<open>n\<close> times.\<close>

fun drain :: "nat \<Rightarrow> scheduler_state \<Rightarrow> (string \<times> string) list \<times> scheduler_state" where
  "drain 0 s = ([], s)"
| "drain (Suc n) s = (case promote_next_start s of
     (None, s') \<Rightarrow> ([], s')
   | (Some (vm, i), s') \<Rightarrow>
       (let (rest, s'') = drain n (snd (finish_start vm i True s')) in ((vm, i) # rest, s'')))"

lemma promote_finish:
  assumes "sched_wf s" and "sc_starting s = []" and "sc_queued_starts s = r # rest"
  shows "fst (promote_next_start s) = Some (st_vm r, st_instance r)"
    and "snd (finish_start (st_vm r) (st_instance r) True (snd (promote_next_start s))) = s\<lparr>sc_queued_starts := rest\<rparr>"
proof -
  have z: "sc_starts_in_flight s = 0" using assms(1,2) by (simp add: sched_wf_def unat_eq_zero)
  have "\<not> lp_max_parallel_starts (sc_policy s) \<le> 0" using assms(1) by (auto simp: sched_wf_def)
  then show "fst (promote_next_start s) = Some (st_vm r, st_instance r)"
    and "snd (finish_start (st_vm r) (st_instance r) True (snd (promote_next_start s))) = s\<lparr>sc_queued_starts := rest\<rparr>"
    using assms(2,3) z by (simp_all add: promote_next_start_def finish_start_def remove_at_def)
qed

text \<open>
  C24: Once nothing is starting, the queue never blocks: promoting and finishing the starts one by one
  starts every queued request, in the order in which they were queued, and empties the queue.
\<close>

theorem queue_drains_in_order:
  assumes "s = fold exec_sched ops (with_policy p)" and "sc_starting s = []"
  shows "drain (length (sc_queued_starts s)) s =
    (map (\<lambda>r. (st_vm r, st_instance r)) (sc_queued_starts s), s\<lparr>sc_queued_starts := []\<rparr>)"
  using reachable_wf [OF assms(1)] assms(2)
proof (induction "sc_queued_starts s" arbitrary: s)
  case Nil
  then show ?case by simp
next
  case (Cons r rest)
  note pf = promote_finish [OF Cons.prems Cons.hyps(2) [symmetric]]
  have wf: "sched_wf (s\<lparr>sc_queued_starts := rest\<rparr>)"
    using Cons.prems(1) Cons.hyps(2) [symmetric] by (auto simp: sched_wf_def tracked_def)
  obtain s' where pr: "promote_next_start s = (Some (st_vm r, st_instance r), s')"
    using pf(1) by (metis prod.collapse)
  have fin: "snd (finish_start (st_vm r) (st_instance r) True s') = s\<lparr>sc_queued_starts := rest\<rparr>"
    using pf(2) by (simp add: pr)
  have "drain (length rest) (s\<lparr>sc_queued_starts := rest\<rparr>) =
      (map (\<lambda>r. (st_vm r, st_instance r)) rest, s\<lparr>sc_queued_starts := []\<rparr>)"
    using Cons.hyps(1) [of "s\<lparr>sc_queued_starts := rest\<rparr>"] wf Cons.prems(2) by simp
  then show ?case by (simp add: Cons.hyps(2) [symmetric] pr fin)
qed

section \<open>Reclaim\<close>

lemma collect_reclaimable_set:
  "distinct cs \<Longrightarrow> set cs \<subseteq> {i. is_reclaimable i now s} \<Longrightarrow>
    distinct (collect_reclaimable now s as cs) \<and>
    set (collect_reclaimable now s as cs) = set cs \<union> {i \<in> av_instance ` set as. is_reclaimable i now s}"
  by (induction "as" arbitrary: cs) auto

definition idle_since :: "string \<Rightarrow> int \<Rightarrow> scheduler_state \<Rightarrow> bool" where
  "idle_since i t s \<longleftrightarrow> (\<exists>a \<in> set (sc_activities s). av_instance a = i)
    \<and> (\<forall>a \<in> set (sc_activities s). av_instance a = i \<longrightarrow> av_at a \<le> t)"

lemma is_reclaimable_iff:
  "is_reclaimable i now s \<longleftrightarrow> i \<notin> set (lp_protected_instance_ids (sc_policy s))
    \<and> idle_since i (now - int (unat (max (lp_idle_timeout_minutes (sc_policy s)) 1)) * 60 * 1000000000) s"
proof -
  have "1 \<le> max (lp_idle_timeout_minutes (sc_policy s)) 1" by simp
  then have "0 < unat (max (lp_idle_timeout_minutes (sc_policy s)) 1)"
    by (simp only: word_le_nat_alt unsigned_1 less_eq_Suc_le One_nat_def)
  then have "0 < int (unat (max (lp_idle_timeout_minutes (sc_policy s)) 1))" by (simp only: of_nat_0_less_iff)
  then have pos: "0 < int (unat (max (lp_idle_timeout_minutes (sc_policy s)) 1)) * 60 * 1000000000" by simp
  show ?thesis
    using pos by (auto simp: is_reclaimable_def idle_since_def Let_def list_ex_iff list_all_iff filter_empty_conv)
qed

text \<open>
  The instances offered for reclaim are, each once, exactly the known instances that are not
  protected and whose every activity lies at least the idle timeout (one minute or more) back.
\<close>

theorem reclaimable_instances_spec:
  "distinct (reclaimable_instances now s) \<and> set (reclaimable_instances now s) =
    {i. i \<notin> set (lp_protected_instance_ids (sc_policy s)) \<and>
        idle_since i (now - int (unat (max (lp_idle_timeout_minutes (sc_policy s)) 1)) * 60 * 1000000000) s}"
  using collect_reclaimable_set [of "[]" now s "sc_activities s"]
  by (auto simp: reclaimable_instances_def is_reclaimable_iff idle_since_def)

lemma reclaim_flag_kept:
  "op \<noteq> OpFinishReclaim \<Longrightarrow> sc_reclaim_in_flight s \<Longrightarrow> sc_reclaim_in_flight (exec_sched op s)"
  by (cases op) (auto simp: sched_defs split: option.split list.split)

text \<open>
  The reclaim slot is exclusive: after it was taken no second attempt takes it before it was
  given back, whatever happens in between.
\<close>

theorem reclaim_slot_exclusive:
  assumes "begin_reclaim s = (True, s1)" and "list_all (\<lambda>op. op \<noteq> OpFinishReclaim) ops"
  shows "\<not> fst (begin_reclaim (fold exec_sched ops s1))"
proof -
  have "sc_reclaim_in_flight (fold exec_sched ops s1)" if "sc_reclaim_in_flight s1" for s1
    using assms(2) that by (induction ops arbitrary: s1) (simp_all add: reclaim_flag_kept)
  moreover have "sc_reclaim_in_flight s1"
    using assms(1) by (auto simp: begin_reclaim_def split: if_splits)
  ultimately show ?thesis by (simp add: begin_reclaim_def)
qed

section \<open>Package names\<close>


end
