(* ===== verification/Scheduler_Demo.thy ===== *)
theory Scheduler_Demo imports Scheduler_Props begin

text \<open>
  The properties of the scheduler on concrete runs.
\<close>

theorem starts_within_budget_witness:
  "length (sc_starting (exec_sched (OpRequest ''v'' ''i'') (with_policy default_policy))) \<le> 1"
  using starts_within_budget [where ops = "[]" and p = default_policy, OF refl, of "OpRequest ''v'' ''i''"]
  by (simp add: with_policy_def clamp_policy_def default_policy_def)


lemma demo_started: "request_start ''v'' ''i'' (with_policy default_policy) =
    (Starting, (with_policy default_policy)\<lparr>sc_starts_in_flight := 1, sc_starting := [request ''v'' ''i'']\<rparr>)"
  by (simp add: request_start_def with_policy_def clamp_policy_def default_policy_def)

theorem tracked_start_not_lost_witness:
  "phase_of (fold exec_sched [OpPromote, OpMark ''i'' Adb 5]
      (exec_sched (OpRequest ''v'' ''i'') (with_policy default_policy))) (request ''v'' ''i'') \<noteq> None"
proof -
  have "phase_of (exec_sched (OpRequest ''v'' ''i'') (with_policy default_policy)) (request ''v'' ''i'') \<noteq> None"
    by (simp add: demo_started phase_of_def)
  then have "phase_of (fold exec_sched [OpRequest ''v'' ''i''] (with_policy default_policy)) (request ''v'' ''i'') \<noteq> None"
    by simp
  from tracked_start_not_lost [OF refl this, of "[OpPromote, OpMark ''i'' Adb 5]"] show ?thesis
    by (simp add: gives_up_def)
qed

theorem queue_drains_in_order_witness:
  "fst (drain 1 (fold exec_sched [OpRequest ''v'' ''i'', OpRequest ''v'' ''j'', OpFinish ''v'' ''i'' True]
      (with_policy default_policy))) = [(''v'', ''j'')]"
proof -
  let ?s = "fold exec_sched [OpRequest ''v'' ''i'', OpRequest ''v'' ''j'', OpFinish ''v'' ''i'' True]
      (with_policy default_policy)"
  have s: "sc_starting ?s = []" "sc_queued_starts ?s = [request ''v'' ''j'']"
    by (simp_all add: demo_started, simp_all add: request_start_def finish_start_def remove_at_def with_policy_def)
  show ?thesis using queue_drains_in_order [OF refl s(1)] s(2) by simp
qed

theorem reclaim_slot_exclusive_witness:
  "\<not> fst (begin_reclaim (fold exec_sched [OpPromote, OpClear ''i''] (snd (begin_reclaim (with_policy default_policy)))))"
  by (rule reclaim_slot_exclusive [where s = "with_policy default_policy"])
    (simp_all add: begin_reclaim_def with_policy_def)


end
