(* ===== verification/Buffers.thy ===== *)
theory Buffers imports Strings begin

text \<open>
  Byte buffers: writing a slice at an offset, reading one back, and images that are built by a list
  of writes. An index or a range out of bounds panics in Rust: reading returns an option, with
  \<open>None\<close> for the panic.
\<close>

section \<open>Reading and writing\<close>

definition byte_at :: "bytes \<Rightarrow> nat \<Rightarrow> u8 option" where
  "byte_at buf i = (if i < length buf then Some (buf ! i) else None)"

definition slice :: "bytes \<Rightarrow> nat \<Rightarrow> nat \<Rightarrow> bytes" where
  "slice buf pos n = take n (drop pos buf)"

text \<open>\<^verbatim>\<open>&buf[a..b]\<close>\<close>

definition range_at :: "bytes \<Rightarrow> nat \<Rightarrow> nat \<Rightarrow> bytes option" where
  "range_at buf a b = (if a \<le> b \<and> b \<le> length buf then Some (slice buf a (b - a)) else None)"

text \<open>\<^verbatim>\<open>buf[pos..pos + v.len()].copy_from_slice(v)\<close>, in bounds.\<close>

definition put_at :: "bytes \<Rightarrow> nat \<Rightarrow> bytes \<Rightarrow> bytes" where
  "put_at buf pos v = take pos buf @ v @ drop (pos + length v) buf"

lemma length_put_at [simp]: "pos + length v \<le> length buf \<Longrightarrow> length (put_at buf pos v) = length buf"
  by (simp add: put_at_def)

lemma length_slice [simp]: "pos + n \<le> length buf \<Longrightarrow> length (slice buf pos n) = n"
  by (simp add: slice_def)

lemma slice_put_same: "pos + length v \<le> length buf \<Longrightarrow> slice (put_at buf pos v) pos (length v) = v"
  by (simp add: slice_def put_at_def)

lemma slice_put_before:
  "pos + length v \<le> length buf \<Longrightarrow> a + n \<le> pos \<Longrightarrow> slice (put_at buf pos v) a n = slice buf a n"
proof -
  assume a: "pos + length v \<le> length buf" "a + n \<le> pos"
  then have "slice (put_at buf pos v) a n = take n (take (pos - a) (drop a buf))"
    by (simp add: slice_def put_at_def drop_take)
  moreover have "min n (pos - a) = n" using a by simp
  ultimately show ?thesis by (simp only: slice_def take_take)
qed

lemma slice_put_after:
  "pos + length v \<le> length buf \<Longrightarrow> pos + length v \<le> a \<Longrightarrow> slice (put_at buf pos v) a n = slice buf a n"
  by (simp add: slice_def put_at_def)

lemma byte_at_slice: "i < length buf \<Longrightarrow> byte_at buf i = Some (hd (slice buf i 1))"
  by (simp add: byte_at_def slice_def hd_drop_conv_nth take_Suc)

lemma range_at_slice: "a + n \<le> length buf \<Longrightarrow> range_at buf a (a + n) = Some (slice buf a n)"
  by (simp add: range_at_def)

lemma slice_slice: "k + n \<le> m \<Longrightarrow> slice (slice buf pos m) k n = slice buf (pos + k) n"
  by (simp add: slice_def drop_take min_def add.commute)

section \<open>Images made of writes\<close>

type_synonym region = "nat \<times> bytes"

definition apply_writes :: "region list \<Rightarrow> bytes \<Rightarrow> bytes" where
  "apply_writes ws buf = fold (\<lambda>(pos, v) b. put_at b pos v) ws buf"

definition in_bounds :: "nat \<Rightarrow> region \<Rightarrow> bool" where
  "in_bounds n w \<longleftrightarrow> fst w + length (snd w) \<le> n"

definition apart :: "region \<Rightarrow> region \<Rightarrow> bool" where
  "apart w u \<longleftrightarrow> fst w + length (snd w) \<le> fst u \<or> fst u + length (snd u) \<le> fst w"

lemma apply_writes_simps [simp]:
  "apply_writes [] buf = buf" "apply_writes (w # ws) buf = apply_writes ws (put_at buf (fst w) (snd w))"
  by (simp_all add: apply_writes_def case_prod_beta)

lemma apply_writes_append [simp]: "apply_writes (ws @ us) buf = apply_writes us (apply_writes ws buf)"
  by (simp add: apply_writes_def)

lemma length_apply_writes [simp]:
  "list_all (in_bounds (length buf)) ws \<Longrightarrow> length (apply_writes ws buf) = length buf"
  by (induction ws arbitrary: buf) (simp_all add: in_bounds_def)

lemma slice_apart:
  "list_all (in_bounds (length buf)) ws \<Longrightarrow> list_all (apart (pos, v)) ws \<Longrightarrow>
    slice (apply_writes ws buf) pos (length v) = slice buf pos (length v)"
proof (induction ws arbitrary: buf)
  case (Cons w ws)
  have b: "fst w + length (snd w) \<le> length buf" using Cons.prems(1) by (simp add: in_bounds_def)
  have "slice (put_at buf (fst w) (snd w)) pos (length v) = slice buf pos (length v)"
    using Cons.prems(2) b by (auto simp: apart_def slice_put_before slice_put_after)
  then show ?case using Cons b by simp
qed simp

lemma slice_written:
  assumes "list_all (in_bounds (length buf)) (ws @ (pos, v) # us)" and "list_all (apart (pos, v)) us"
  shows "slice (apply_writes (ws @ (pos, v) # us) buf) pos (length v) = v"
proof -
  have "pos + length v \<le> length buf" "list_all (in_bounds (length buf)) ws" "list_all (in_bounds (length buf)) us"
    using assms(1) by (simp_all add: in_bounds_def)
  then show ?thesis using assms(2) by (simp add: slice_apart slice_put_same)
qed

text \<open>A write that is apart from all the later ones is read back; this is the form for a member.\<close>

definition written :: "region list \<Rightarrow> nat \<Rightarrow> bytes \<Rightarrow> bool" where
  "written ws pos v \<longleftrightarrow> (\<exists>as bs. ws = as @ (pos, v) # bs \<and> list_all (apart (pos, v)) bs)"

lemma written_slice:
  "written ws pos v \<Longrightarrow> list_all (in_bounds (length buf)) ws \<Longrightarrow> slice (apply_writes ws buf) pos (length v) = v"
  unfolding written_def by (elim exE conjE) (simp only: slice_written)

lemma written_Cons: "written (w # ws) pos v \<longleftrightarrow> (w = (pos, v) \<and> list_all (apart (pos, v)) ws) \<or> written ws pos v"
proof
  assume "written (w # ws) pos v"
  then obtain as bs where eq: "w # ws = as @ (pos, v) # bs" and ap: "list_all (apart (pos, v)) bs"
    by (auto simp: written_def)
  show "(w = (pos, v) \<and> list_all (apart (pos, v)) ws) \<or> written ws pos v"
  proof (cases as)
    case Nil
    then show ?thesis using eq ap by simp
  next
    case (Cons x xs)
    then have "ws = xs @ (pos, v) # bs" using eq by simp
    then show ?thesis using ap by (auto simp: written_def)
  qed
next
  assume "(w = (pos, v) \<and> list_all (apart (pos, v)) ws) \<or> written ws pos v"
  then show "written (w # ws) pos v"
  proof
    assume "w = (pos, v) \<and> list_all (apart (pos, v)) ws"
    then have "w # ws = [] @ (pos, v) # ws \<and> list_all (apart (pos, v)) ws" by simp
    then show ?thesis unfolding written_def by blast
  next
    assume "written ws pos v"
    then obtain as bs where "ws = as @ (pos, v) # bs" "list_all (apart (pos, v)) bs"
      by (auto simp: written_def)
    then have "w # ws = (w # as) @ (pos, v) # bs \<and> list_all (apart (pos, v)) bs" by simp
    then show ?thesis unfolding written_def by blast
  qed
qed

lemma written_Nil [simp]: "\<not> written [] pos v"
  by (simp add: written_def)

lemma written_append:
  "written (ws @ us) pos v \<longleftrightarrow> (written ws pos v \<and> list_all (apart (pos, v)) us) \<or> written us pos v"
  by (induction ws) (auto simp: written_Cons)

section \<open>Lossy decoding\<close>

text \<open>
  \<^verbatim>\<open>String::from_utf8_lossy\<close>: \<open>utf8_step bs\<close> is whether \<open>bs\<close> starts with a well-formed character,
  and the number of bytes of it or of the ill-formed part that one U+FFFD replaces.
\<close>

definition between :: "nat \<Rightarrow> nat \<Rightarrow> u8 \<Rightarrow> bool" where
  "between a b w = (a \<le> unat w \<and> unat w \<le> b)"

definition utf8_tail :: "u8 \<Rightarrow> (u8 \<Rightarrow> bool) list option" where
  "utf8_tail b = (let n = unat b; c = between 128 191 in
     if n < 128 then Some []
     else if 194 \<le> n \<and> n \<le> 223 then Some [c]
     else if n = 224 then Some [between 160 191, c]
     else if 225 \<le> n \<and> n \<le> 236 \<or> n = 238 \<or> n = 239 then Some [c, c]
     else if n = 237 then Some [between 128 159, c]
     else if n = 240 then Some [between 144 191, c, c]
     else if 241 \<le> n \<and> n \<le> 243 then Some [c, c, c]
     else if n = 244 then Some [between 128 143, c, c]
     else None)"

fun match_tail :: "(u8 \<Rightarrow> bool) list \<Rightarrow> bytes \<Rightarrow> bool \<times> nat" where
  "match_tail [] bs = (True, 0)"
| "match_tail (P # Ps) [] = (False, 0)"
| "match_tail (P # Ps) (b # bs) = (if P b then (let (ok, n) = match_tail Ps bs in (ok, Suc n)) else (False, 0))"

definition utf8_step :: "u8 \<Rightarrow> bytes \<Rightarrow> bool \<times> nat" where
  "utf8_step b bs = (case utf8_tail b of None \<Rightarrow> (False, 0) | Some Ps \<Rightarrow> match_tail Ps bs)"

definition byte_char :: "u8 \<Rightarrow> char" where
  "byte_char b = char_of (unat b)"

function from_utf8_lossy :: "bytes \<Rightarrow> string" where
  "from_utf8_lossy [] = []"
| "from_utf8_lossy (b # bs) = (let (ok, n) = utf8_step b bs in
     (if ok then map byte_char (b # take n bs) else [CHR 0xEF, CHR 0xBF, CHR 0xBD])
       @ from_utf8_lossy (drop n bs))"
  by pat_completeness auto
termination
  by (relation "measure length") auto

lemma from_utf8_lossy_ascii: "list_all (\<lambda>b. unat b < 128) bs \<Longrightarrow> from_utf8_lossy bs = map byte_char bs"
  by (induction bs) (simp_all add: utf8_step_def utf8_tail_def)

end
