(* ===== verification/Iso.thy ===== *)
theory Iso imports Buffers "HOL-Library.List_Lexorder" "HOL-Library.Char_ord" begin

text \<open>
  \<^verbatim>\<open>qemu-center/src/iso.rs\<close>: the builder of single-directory ISO9660 images and the parser that
  reads them back. The image is the list of writes of the builder applied to zeros; the parser
  returns \<open>None\<close> where the code panics on an index out of bounds. \<^verbatim>\<open>usize\<close> is \<open>nat\<close>.
\<close>

unbundle bit_operations_syntax

section \<open>Constants and errors\<close>

definition SECTOR :: nat where [layout_simps]: "SECTOR = 2048"
definition PVD_LBA :: nat where [layout_simps]: "PVD_LBA = 16"
definition TERMINATOR_LBA :: nat where [layout_simps]: "TERMINATOR_LBA = 17"
definition PATH_TABLE_L_LBA :: nat where [layout_simps]: "PATH_TABLE_L_LBA = 18"
definition PATH_TABLE_M_LBA :: nat where [layout_simps]: "PATH_TABLE_M_LBA = 19"
definition ROOT_DIR_LBA :: u32 where "ROOT_DIR_LBA = 20"
definition CIDATA_VOLUME_ID :: string where "CIDATA_VOLUME_ID = ''CIDATA''"
definition FIXED_DATE_7 :: bytes where "FIXED_DATE_7 = [126, 1, 1, 0, 0, 0, 0]"
definition SYSTEM_ID :: string where "SYSTEM_ID = ''QEMUCENTER''"
definition MAX_TOTAL_FILE_BYTES :: nat where "MAX_TOTAL_FILE_BYTES = 16 * 1024 * 1024"
definition MAX_FILES :: nat where "MAX_FILES = 32"

datatype iso_error = BadName string | TooManyFiles nat | FileTooLarge nat | NotIso string | Truncated string

section \<open>Building\<close>

definition sectors_for :: "nat \<Rightarrow> u32" where
  "sectors_for n = word_of_nat ((n + SECTOR - 1) div SECTOR)"

definition validate_name :: "string \<Rightarrow> iso_error + string" where
  "validate_name name =
    (let up = to_ascii_uppercase name in
     if up = [] \<or> length up > 24 then Inl (BadName name)
     else if \<not> list_all (\<lambda>c. is_ascii_alphanumeric c \<or> c = CHR ''_'' \<or> c = CHR ''-'') up
     then Inl (BadName name)
     else Inr up)"

primrec validate_all :: "(string \<times> bytes) list \<Rightarrow> iso_error + (string \<times> bytes) list" where
  "validate_all [] = Inr []"
| "validate_all (f # fs) =
    and_then (validate_name (fst f)) (\<lambda>u. and_then (validate_all fs) (\<lambda>rest. Inr ((u, snd f) # rest)))"

definition pad_str :: "nat \<Rightarrow> nat \<Rightarrow> string \<Rightarrow> region" where
  "pad_str pos len s = (let n = min (length s) len in
     (pos, take n (as_bytes s) @ replicate (len - n) 0x20))"

definition dir_record :: "u32 \<Rightarrow> u32 \<Rightarrow> u8 \<Rightarrow> bytes \<Rightarrow> bytes" where
  "dir_record extent data_len flags ident =
    (let rl = 32 + length ident + length ident mod 2 in
     apply_writes
       [(0, [word_of_nat rl]), (1, u32_to_le extent), (5, u32_to_be extent),
        (9, u32_to_le data_len), (13, u32_to_be data_len), (17, FIXED_DATE_7), (24, [flags]),
        (25, [0]), (26, [0]), (27, u16_to_le 1), (29, u16_to_be 1),
        (31, [word_of_nat (length ident)]), (32, ident)]
       (replicate rl 0))"

function pad_to_sector :: "bytes \<Rightarrow> bytes" where
  "pad_to_sector buf = (if length buf mod SECTOR = 0 then buf else pad_to_sector (buf @ [0]))"
  by pat_completeness auto
termination
proof (relation "measure (\<lambda>buf. if length buf mod SECTOR = 0 then 0 else SECTOR - length buf mod SECTOR)")
  fix buf :: bytes
  assume "length buf mod SECTOR \<noteq> 0"
  moreover have "length buf mod SECTOR < SECTOR" by (simp add: SECTOR_def)
  ultimately show "(buf @ [0], buf) \<in>
      measure (\<lambda>buf. if length buf mod SECTOR = 0 then 0 else SECTOR - length buf mod SECTOR)"
    by (auto simp: mod_Suc)
qed simp

declare pad_to_sector.simps [simp del]

definition write_dir_record :: "bytes \<Rightarrow> nat \<Rightarrow> u32 \<Rightarrow> u32 \<Rightarrow> u8 \<Rightarrow> bytes \<Rightarrow> bytes" where
  "write_dir_record buf sector_start extent data_len flags ident =
    (let rec = dir_record extent data_len flags ident;
         buf' = (if length buf - sector_start + length rec > SECTOR then pad_to_sector buf else buf)
     in buf' @ rec)"

definition file_ident :: "string \<Rightarrow> bytes" where
  "file_ident n = as_bytes (n @ ''.;1'')"

definition root_extent :: "u32 \<Rightarrow> u32 \<Rightarrow> (string \<times> u32 \<times> nat) list \<Rightarrow> bytes" where
  "root_extent self_lba self_len extents =
    fold (\<lambda>(n, lba, len) buf. write_dir_record buf 0 lba (word_of_nat len) 0 (file_ident n)) extents
      (write_dir_record (write_dir_record [] 0 self_lba self_len 2 [0]) 0 self_lba self_len 2 [1])"

primrec assign_extents :: "u32 \<Rightarrow> (string \<times> bytes) list \<Rightarrow> (string \<times> u32 \<times> nat) list \<times> u32" where
  "assign_extents lba [] = ([], lba)"
| "assign_extents lba (f # fs) =
    (let (rest, end_lba) = assign_extents (lba + sectors_for (length (snd f))) fs
     in ((fst f, lba, length (snd f)) # rest, end_lba))"

definition path_table_l :: bytes where
  "path_table_l = apply_writes
    [(0, [1]), (1, [0]), (2, u32_to_le ROOT_DIR_LBA), (6, u16_to_le 1), (8, [0])] (replicate SECTOR 0)"

definition path_table_m :: bytes where
  "path_table_m = apply_writes [(2, u32_to_be ROOT_DIR_LBA), (6, u16_to_be 1)] path_table_l"

definition volume_date :: bytes where
  "volume_date = as_bytes ''2026010100000000'' @ [0]"

definition pvd_writes :: "u32 \<Rightarrow> bytes \<Rightarrow> region list" where
  "pvd_writes volume_space root = (let pvd_at = PVD_LBA * SECTOR in
    [(pvd_at, [1]), (pvd_at + 1, as_bytes ''CD001''), (pvd_at + 6, [1]),
     pad_str (pvd_at + 8) 32 SYSTEM_ID, pad_str (pvd_at + 40) 32 CIDATA_VOLUME_ID,
     (pvd_at + 72, u32_to_le volume_space), (pvd_at + 76, u32_to_be volume_space),
     (pvd_at + 80, u16_to_le 1), (pvd_at + 82, u16_to_be 1),
     (pvd_at + 84, u16_to_le 1), (pvd_at + 86, u16_to_be 1),
     (pvd_at + 88, u16_to_le (word_of_nat SECTOR)), (pvd_at + 90, u16_to_be (word_of_nat SECTOR)),
     (pvd_at + 92, u32_to_le 10), (pvd_at + 96, u32_to_be 10),
     (pvd_at + 100, u32_to_le (word_of_nat PATH_TABLE_L_LBA)), (pvd_at + 104, u32_to_le 0),
     (pvd_at + 108, u32_to_be (word_of_nat PATH_TABLE_M_LBA)), (pvd_at + 112, u32_to_be 0),
     (pvd_at + 116, take 34 root),
     pad_str (pvd_at + 190) 32 CIDATA_VOLUME_ID, pad_str (pvd_at + 318) 128 ''qemu-center'',
     pad_str (pvd_at + 446) 128 ''qemu-center iso.rs'', pad_str (pvd_at + 574) 128 ''QEMU-CENTER'',
     (pvd_at + 813, volume_date), (pvd_at + 830, volume_date), (pvd_at + 847, volume_date),
     (pvd_at + 864, volume_date), (pvd_at + 881, [1])])"

definition fixed_writes :: "bytes \<Rightarrow> region list" where
  "fixed_writes root = (let t_at = TERMINATOR_LBA * SECTOR in
    [(t_at, [255]), (t_at + 1, as_bytes ''CD001''), (t_at + 6, [1]),
     (PATH_TABLE_L_LBA * SECTOR, path_table_l), (PATH_TABLE_M_LBA * SECTOR, path_table_m),
     (unat ROOT_DIR_LBA * SECTOR, root)])"

definition file_writes :: "(string \<times> bytes) list \<Rightarrow> (string \<times> u32 \<times> nat) list \<Rightarrow> region list" where
  "file_writes norm extents = map (\<lambda>((_, contents), (_, lba, _)). (unat lba * SECTOR, contents)) (zip norm extents)"

fun has_adjacent_duplicate :: "(string \<times> bytes) list \<Rightarrow> string option" where
  "has_adjacent_duplicate (f # g # fs) = (if fst g = fst f then Some (fst f) else has_adjacent_duplicate (g # fs))"
| "has_adjacent_duplicate _ = None"

definition total_bytes :: "(string \<times> bytes) list \<Rightarrow> nat" where
  "total_bytes fs = sum_list (map (\<lambda>f. length (snd f)) fs)"

definition assemble :: "(string \<times> bytes) list \<Rightarrow> bytes" where
  "assemble norm =
    (let probe = root_extent 0 0 (map (\<lambda>f. (fst f, 0, 0)) norm);
         root_sectors = sectors_for (length probe);
         (extents, file_lba) = assign_extents (ROOT_DIR_LBA + root_sectors) norm;
         total_sectors = max file_lba (ROOT_DIR_LBA + root_sectors + 1);
         root = root_extent ROOT_DIR_LBA (root_sectors * word_of_nat SECTOR) extents
     in apply_writes (pvd_writes total_sectors root @ fixed_writes root @ file_writes norm extents)
          (replicate (unat total_sectors * SECTOR) 0))"

definition build_iso :: "(string \<times> bytes) list \<Rightarrow> iso_error + bytes" where
  "build_iso files =
    (if length files > MAX_FILES then Inl (TooManyFiles (length files))
     else and_then (validate_all files) (\<lambda>named.
       let norm = sort_key fst named in
       case has_adjacent_duplicate norm of
         Some n \<Rightarrow> Inl (BadName (n @ '' (duplicate)''))
       | None \<Rightarrow> (case find (\<lambda>f. length (snd f) > MAX_TOTAL_FILE_BYTES) norm of
         Some f \<Rightarrow> Inl (FileTooLarge (length (snd f)))
       | None \<Rightarrow>
           if total_bytes norm > MAX_TOTAL_FILE_BYTES then Inl (FileTooLarge (total_bytes norm))
           else Inr (assemble norm))))"

definition iso_size_bytes :: "(string \<times> bytes) list \<Rightarrow> nat" where
  "iso_size_bytes files =
    (let root_bytes = 2 * 34 + sum_list (map (\<lambda>f. 32 + (length (fst f) + 3) + (length (fst f) + 3) mod 2) files);
         root_sectors = unat (sectors_for root_bytes)
     in (unat ROOT_DIR_LBA + root_sectors + sum_list (map (\<lambda>f. unat (sectors_for (length (snd f)))) files)) * SECTOR)"

section \<open>Parsing\<close>

text \<open>
  A result of type \<open>(iso_error + 'a) option\<close>: \<open>None\<close> is a panic. \<open>go\<close> continues with the value of an
  index or range expression.
\<close>

definition go :: "'v option \<Rightarrow> ('v \<Rightarrow> (iso_error + 'a) option) \<Rightarrow> (iso_error + 'a) option" where
  "go x k = (case x of None \<Rightarrow> None | Some v \<Rightarrow> k v)"

lemma go_simps [simp]: "go None k = None" "go (Some v) k = k v"
  by (simp_all add: go_def)

record parsed_iso =
  pi_volume_id :: string
  pi_files :: "(string \<times> bytes) list"

definition get_u32_le :: "bytes \<Rightarrow> nat \<Rightarrow> u32 option" where
  "get_u32_le buf pos = map_option u32_from_le (range_at buf pos (pos + 4))"

definition checked_mul_usize :: "nat \<Rightarrow> nat \<Rightarrow> nat option" where
  "checked_mul_usize a b = (if a * b < 18446744073709551616 then Some (a * b) else None)"

definition trim_end_char :: "char \<Rightarrow> string \<Rightarrow> string" where
  "trim_end_char c s = rev (dropWhile (\<lambda>x. x = c) (rev s))"

text \<open>\<^verbatim>\<open>name.rfind(';')\<close> and \<^verbatim>\<open>truncate\<close>: everything before the last semicolon.\<close>

definition truncate_version :: "string \<Rightarrow> string" where
  "truncate_version name =
    (if CHR '';'' \<in> set name then rev (tl (dropWhile (\<lambda>x. x \<noteq> CHR '';'') (rev name))) else name)"

definition logical_name :: "bytes \<Rightarrow> string" where
  "logical_name ident = to_ascii_lowercase (trim_end_char CHR ''.'' (truncate_version (from_utf8_lossy ident)))"

definition parse_record :: "bytes \<Rightarrow> bytes \<Rightarrow> (iso_error + (string \<times> bytes) option) option" where
  "parse_record img rec =
    go (byte_at rec 24) (\<lambda>flags.
    if flags AND 1 \<noteq> 0 then Some (Inr None)
    else go (byte_at rec 31) (\<lambda>ident_len.
    go (range_at rec 32 (32 + unat ident_len)) (\<lambda>ident.
    if ident = [0] \<or> ident = [1] then Some (Inr None)
    else go (get_u32_le rec 1) (\<lambda>extent.
    go (get_u32_le rec 9) (\<lambda>dlen.
    case checked_mul_usize (unat extent) SECTOR of
      None \<Rightarrow> Some (Inl (Truncated ''file extent overflow''))
    | Some data_off \<Rightarrow>
        if data_off + unat dlen > length img then Some (Inl (Truncated ''file data out of bounds''))
        else go (range_at img data_off (data_off + unat dlen)) (\<lambda>content.
             Some (Inr (Some (logical_name ident, content)))))))))"

function dir_loop :: "bytes \<Rightarrow> nat \<Rightarrow> nat \<Rightarrow> (string \<times> bytes) list \<Rightarrow> (iso_error + (string \<times> bytes) list) option" where
  "dir_loop img pos limit files =
    (if pos < limit then
       (case byte_at img pos of
          None \<Rightarrow> None
        | Some b \<Rightarrow>
            if b = 0 then dir_loop img ((pos div SECTOR + 1) * SECTOR) limit files
            else if pos + unat b > limit then Some (Inl (Truncated ''directory record overruns extent''))
            else (case range_at img pos (pos + unat b) of
                None \<Rightarrow> None
              | Some rec \<Rightarrow> (case parse_record img rec of
                  None \<Rightarrow> None
                | Some (Inl e) \<Rightarrow> Some (Inl e)
                | Some (Inr None) \<Rightarrow> dir_loop img (pos + unat b) limit files
                | Some (Inr (Some f)) \<Rightarrow> dir_loop img (pos + unat b) limit (files @ [f]))))
     else Some (Inr files))"
  by pat_completeness auto
termination
proof (relation "measure (\<lambda>(img, pos, limit, files). limit - pos)")
  fix img :: bytes and pos limit :: nat and files :: "(string \<times> bytes) list"
  assume "pos < limit"
  moreover have "pos < (pos div SECTOR + 1) * SECTOR"
    by (simp add: SECTOR_def)
  ultimately show "((img, (pos div SECTOR + 1) * SECTOR, limit, files), img, pos, limit, files)
      \<in> measure (\<lambda>(img, pos, limit, files). limit - pos)"
    by simp
qed (auto simp: unat_gt_0 intro!: diff_less_mono2)

declare dir_loop.simps [simp del]

definition parse_iso :: "bytes \<Rightarrow> (iso_error + parsed_iso) option" where
  "parse_iso img =
    (if length img < 3 * SECTOR then Some (Inl (Truncated ''shorter than 3 sectors''))
     else let pvd_at = PVD_LBA * SECTOR; t_at = TERMINATOR_LBA * SECTOR in
     go (byte_at img pvd_at) (\<lambda>b0.
     if b0 \<noteq> 1 then Some (Inl (NotIso ''LBA 16 is not a Primary Volume Descriptor''))
     else go (range_at img (pvd_at + 1) (pvd_at + 6)) (\<lambda>std_id.
     if std_id \<noteq> as_bytes ''CD001'' then Some (Inl (NotIso ''missing CD001 standard identifier''))
     else go (byte_at img (pvd_at + 881)) (\<lambda>version.
     if version \<noteq> 1 then Some (Inl (NotIso ''unexpected file structure version''))
     else go (range_at img (pvd_at + 40) (pvd_at + 72)) (\<lambda>vol.
     let rest = (go (range_at img (pvd_at + 116) (pvd_at + 190)) (\<lambda>root_rec.
       go (byte_at root_rec 0) (\<lambda>root_len.
       if root_len = 0 \<or> unat root_len > 74 \<or> pvd_at + 116 + unat root_len > length img
       then Some (Inl (Truncated ''bad root directory record''))
       else go (get_u32_le root_rec 1) (\<lambda>root_lba.
       go (get_u32_le root_rec 9) (\<lambda>root_size.
       case checked_mul_usize (unat root_lba) SECTOR of
         None \<Rightarrow> Some (Inl (Truncated ''root extent overflow''))
       | Some root_off \<Rightarrow>
           if root_off + unat root_size > length img
           then Some (Inl (Truncated ''root extent out of bounds''))
           else (case dir_loop img root_off (root_off + unat root_size) [] of
               None \<Rightarrow> None
             | Some (Inl e) \<Rightarrow> Some (Inl e)
             | Some (Inr files) \<Rightarrow>
                 Some (Inr \<lparr>pi_volume_id = trim_end_char CHR '' '' (from_utf8_lossy vol),
                            pi_files = files\<rparr>)))))))
     in if length img > t_at
        then go (byte_at img t_at) (\<lambda>t0.
          if t0 = 255
          then go (range_at img (t_at + 1) (t_at + 6)) (\<lambda>tid.
            if tid \<noteq> as_bytes ''CD001'' then Some (Inl (NotIso ''terminator lacks CD001 id'')) else rest)
          else rest)
        else rest)))))"

end
