(* ===== verification/Iso_Props.thy ===== *)
theory Iso_Props imports Iso begin

text \<open>
  The ISO image round trip: what \<open>build_iso\<close> accepts, that \<open>parse_iso\<close> reads back the volume
  label and the files of every image it builds, that the image does not depend on the order of the
  files, and how large it is.
\<close>

section \<open>Directory records\<close>

definition record_writes :: "u32 \<Rightarrow> u32 \<Rightarrow> u8 \<Rightarrow> bytes \<Rightarrow> region list" where
  "record_writes extent data_len flags ident =
       [(0, [word_of_nat (32 + length ident + length ident mod 2)]), (1, u32_to_le extent), (5, u32_to_be extent),
        (9, u32_to_le data_len), (13, u32_to_be data_len), (17, FIXED_DATE_7), (24, [flags]),
        (25, [0]), (26, [0]), (27, u16_to_le 1), (29, u16_to_be 1),
        (31, [word_of_nat (length ident)]), (32, ident)]"

lemma dir_record_writes:
  "dir_record e l f ident = apply_writes (record_writes e l f ident) (replicate (32 + length ident + length ident mod 2) 0)"
  by (simp add: dir_record_def record_writes_def Let_def)

lemma record_in_bounds:
  "list_all (in_bounds (length (replicate (32 + length ident + length ident mod 2) (0::u8)))) (record_writes e l f ident)"
  by (simp add: record_writes_def in_bounds_def FIXED_DATE_7_def)

lemma length_dir_record [simp]: "length (dir_record e l f ident) = 32 + length ident + length ident mod 2"
  unfolding dir_record_writes by (simp only: length_apply_writes [OF record_in_bounds] length_replicate)

lemma record_slice:
  "written (record_writes e l f ident) pos v \<Longrightarrow> slice (dir_record e l f ident) pos (length v) = v"
  unfolding dir_record_writes by (rule written_slice [OF _ record_in_bounds])

lemma record_fields:
  "slice (dir_record e l f ident) 0 1 = [word_of_nat (32 + length ident + length ident mod 2)]"
  "slice (dir_record e l f ident) 1 4 = u32_to_le e"
  "slice (dir_record e l f ident) 9 4 = u32_to_le l"
  "slice (dir_record e l f ident) 24 1 = [f]"
  "slice (dir_record e l f ident) 31 1 = [word_of_nat (length ident)]"
  "slice (dir_record e l f ident) 32 (length ident) = ident"
  using record_slice [of e l f ident 0 "[word_of_nat (32 + length ident + length ident mod 2)]"]
    record_slice [of e l f ident 1 "u32_to_le e"] record_slice [of e l f ident 9 "u32_to_le l"]
    record_slice [of e l f ident 24 "[f]"] record_slice [of e l f ident 31 "[word_of_nat (length ident)]"]
    record_slice [of e l f ident 32 ident]
  by (simp_all add: record_writes_def written_Cons apart_def FIXED_DATE_7_def)

section \<open>The root directory extent\<close>

definition file_record :: "string \<times> u32 \<times> nat \<Rightarrow> bytes" where
  "file_record x = (case x of (n, lba, len) \<Rightarrow> dir_record lba (word_of_nat len) 0 (file_ident n))"

lemma length_file_ident [simp]: "length (file_ident n) = length n + 3"
  by (simp add: file_ident_def as_bytes_def)

lemma write_dir_record_append:
  "length buf + length (dir_record e l f ident) \<le> SECTOR \<Longrightarrow>
    write_dir_record buf 0 e l f ident = buf @ dir_record e l f ident"
  by (simp add: write_dir_record_def Let_def)

lemma fold_records:
  "list_all (\<lambda>x. length (fst x) \<le> 24) ext \<Longrightarrow> length buf + 60 * length ext \<le> SECTOR \<Longrightarrow>
    fold (\<lambda>(n, lba, len) b. write_dir_record b 0 lba (word_of_nat len) 0 (file_ident n)) ext buf =
      buf @ concat (map file_record ext)
    \<and> length (concat (map file_record ext)) \<le> 60 * length ext"
proof (induction ext arbitrary: buf)
  case (Cons x ext)
  obtain n lba len where x: "x = (n, lba, len)" by (cases x)
  let ?r = "dir_record lba (word_of_nat len) 0 (file_ident n)"
  have r: "length ?r \<le> 60"
  proof -
    have "length n \<le> 24" using Cons.prems(1) by (simp add: x)
    moreover have "(length n + 3) mod 2 < 2" by simp
    ultimately show ?thesis unfolding length_dir_record length_file_ident by linarith
  qed
  then have w: "write_dir_record buf 0 lba (word_of_nat len) 0 (file_ident n) = buf @ ?r"
    using Cons.prems(2) by (intro write_dir_record_append) simp
  have "length (buf @ ?r) + 60 * length ext \<le> SECTOR" using Cons.prems(2) r by simp
  with Cons.IH [of "buf @ ?r"] Cons.prems(1) r w show ?case by (simp add: x file_record_def)
qed simp

lemma root_extent_eq:
  assumes "list_all (\<lambda>x. length (fst x) \<le> 24) ext" and "length ext \<le> 32"
  shows "root_extent a l ext = dir_record a l 2 [0] @ dir_record a l 2 [1] @ concat (map file_record ext)"
    and "length (root_extent a l ext) \<le> 1988"
proof -
  have w1: "write_dir_record [] 0 a l 2 [0] = dir_record a l 2 [0]"
    by (subst write_dir_record_append) (simp_all add: SECTOR_def)
  have w2: "write_dir_record (dir_record a l 2 [0]) 0 a l 2 [1] = dir_record a l 2 [0] @ dir_record a l 2 [1]"
    by (rule write_dir_record_append) (simp add: SECTOR_def)
  have "length (dir_record a l 2 [0] @ dir_record a l 2 [1]) + 60 * length ext \<le> SECTOR"
    using assms(2) by (simp add: SECTOR_def)
  note f = fold_records [OF assms(1) this]
  then show "root_extent a l ext = dir_record a l 2 [0] @ dir_record a l 2 [1] @ concat (map file_record ext)"
    by (simp add: root_extent_def w1 w2)
  then show "length (root_extent a l ext) \<le> 1988" using f assms(2) by simp
qed

section \<open>Names\<close>

definition name_ok :: "string \<Rightarrow> bool" where
  "name_ok n \<longleftrightarrow> n \<noteq> [] \<and> length n \<le> 24 \<and>
    list_all (\<lambda>c. is_ascii_alphanumeric c \<or> c = CHR ''_'' \<or> c = CHR ''-'') n"

lemma name_char:
  assumes "is_ascii_alphanumeric c \<or> c = CHR ''_'' \<or> c = CHR ''-''"
  shows "(of_char c :: nat) < 128" and "c \<noteq> CHR ''.''" and "c \<noteq> CHR '';''"
  using assms by (auto simp: is_ascii_alphanumeric_def Let_def)

lemma byte_char_of_char [simp]: "byte_char (of_char c) = c"
  by (simp add: byte_char_def)

lemma map_byte_char_as_bytes [simp]: "map byte_char (as_bytes s) = s"
  by (simp add: as_bytes_def comp_def)

lemma logical_name_ident:
  assumes "name_ok n"
  shows "logical_name (file_ident n) = to_ascii_lowercase n"
proof -
  have chars: "\<forall>c \<in> set n. (of_char c :: nat) < 128 \<and> c \<noteq> CHR ''.'' \<and> c \<noteq> CHR '';''"
    using assms name_char by (auto simp: name_ok_def list_all_iff)
  have "list_all (\<lambda>b. unat b < 128) (file_ident n)"
    using chars by (simp add: file_ident_def as_bytes_def list_all_iff)
  then have "from_utf8_lossy (file_ident n) = map byte_char (file_ident n)" by (rule from_utf8_lossy_ascii)
  also have "\<dots> = n @ ''.;1''" by (simp only: file_ident_def map_byte_char_as_bytes)
  finally have l: "from_utf8_lossy (file_ident n) = n @ ''.;1''" .
  have t: "truncate_version (n @ ''.;1'') = n @ ''.''" by (simp add: truncate_version_def)
  have "trim_end_char CHR ''.'' (n @ ''.'') = n"
  proof (cases n rule: rev_cases)
    case Nil
    then show ?thesis using assms by (simp add: name_ok_def)
  next
    case (snoc m c)
    then have "c \<noteq> CHR ''.''" using chars by simp
    then show ?thesis by (simp add: snoc trim_end_char_def)
  qed
  then show ?thesis by (simp add: logical_name_def l t)
qed

section \<open>Extents\<close>

definition nsec :: "nat \<Rightarrow> nat" where
  "nsec n = (n + 2047) div 2048"

definition file_sectors :: "(string \<times> bytes) list \<Rightarrow> nat" where
  "file_sectors fs = sum_list (map (\<lambda>f. nsec (length (snd f))) fs)"

lemma sectors_for_nsec: "sectors_for n = word_of_nat (nsec n)"
  by (simp add: sectors_for_def nsec_def SECTOR_def add.commute)

lemma nsec_covers: "n \<le> nsec n * 2048"
  unfolding nsec_def by linarith

lemma unat_lba_add:
  "unat lba + k < 4294967296 \<Longrightarrow> unat (lba + word_of_nat k :: u32) = unat lba + k"
  by (simp add: unat_word_ariths unat_of_nat)

lemma file_writes_Cons:
  "file_writes (f # fs) (fst (assign_extents lba (f # fs))) =
    (unat lba * SECTOR, snd f) # file_writes fs (fst (assign_extents (lba + sectors_for (length (snd f))) fs))"
  by (simp add: file_writes_def Let_def case_prod_beta)

lemma extents_end:
  "unat lba + file_sectors fs < 4294967296 \<Longrightarrow> unat (snd (assign_extents lba fs)) = unat lba + file_sectors fs"
proof (induction fs arbitrary: lba)
  case (Cons f fs)
  have "unat (lba + sectors_for (length (snd f))) = unat lba + nsec (length (snd f))"
    unfolding sectors_for_nsec by (rule unat_lba_add) (use Cons.prems in \<open>simp add: file_sectors_def\<close>)
  with Cons show ?case by (simp add: file_sectors_def Let_def case_prod_beta)
qed (simp add: file_sectors_def)

lemma file_writes_layout:
  assumes "unat lba + file_sectors fs < 4294967296"
  shows "(\<forall>w \<in> set (file_writes fs (fst (assign_extents lba fs))). unat lba * 2048 \<le> fst w
        \<and> fst w + length (snd w) \<le> (unat lba + file_sectors fs) * 2048
        \<and> written (file_writes fs (fst (assign_extents lba fs))) (fst w) (snd w))"
  using assms
proof (induction fs arbitrary: lba)
  case Nil
  then show ?case by (simp add: file_writes_def)
next
  case (Cons f fs)
  let ?lba' = "lba + sectors_for (length (snd f))"
  let ?ws = "file_writes fs (fst (assign_extents ?lba' fs))"
  have next_lba: "unat ?lba' = unat lba + nsec (length (snd f))"
    unfolding sectors_for_nsec by (rule unat_lba_add) (use Cons.prems in \<open>simp add: file_sectors_def\<close>)
  have sum: "file_sectors (f # fs) = nsec (length (snd f)) + file_sectors fs" by (simp add: file_sectors_def)
  have IH: "\<forall>w \<in> set ?ws. unat ?lba' * 2048 \<le> fst w \<and> fst w + length (snd w) \<le> (unat ?lba' + file_sectors fs) * 2048
      \<and> written ?ws (fst w) (snd w)"
    by (rule Cons.IH) (use Cons.prems next_lba sum in linarith)
  have head: "unat lba * 2048 + length (snd f) \<le> unat ?lba' * 2048"
    using nsec_covers [of "length (snd f)"] next_lba by (simp add: add_mult_distrib)
  then have "list_all (apart (unat lba * 2048, snd f)) ?ws"
    using IH by (auto simp: list_all_iff apart_def intro: le_trans)
  then show ?case
    unfolding file_writes_Cons using IH head next_lba sum
    by (auto simp: written_Cons SECTOR_def intro: le_trans)
qed

section \<open>Reading the directory\<close>

lemma unat_u8_of_nat: "k < 256 \<Longrightarrow> unat (word_of_nat k :: u8) = k"
  by (simp add: unat_of_nat)

lemma byte_at_slice1: "i < length img \<Longrightarrow> slice img i 1 = [b] \<Longrightarrow> byte_at img i = Some b"
  by (simp add: byte_at_slice)

lemma get_u32_le_slice:
  "pos + 4 \<le> length buf \<Longrightarrow> slice buf pos 4 = u32_to_le v \<Longrightarrow> get_u32_le buf pos = Some v"
  by (simp add: get_u32_le_def range_at_slice)

definition content_at :: "bytes \<Rightarrow> string \<times> u32 \<times> nat \<Rightarrow> string \<times> bytes" where
  "content_at img x = (case x of (n, lba, len) \<Rightarrow> (to_ascii_lowercase n, slice img (unat lba * 2048) len))"

lemma parse_file_record:
  assumes "name_ok n" and "unat lba * 2048 + len \<le> length img" and "len < 4294967296"
  shows "parse_record img (file_record (n, lba, len)) = Some (Inr (Some (content_at img (n, lba, len))))"
proof -
  let ?id = "file_ident n" and ?r = "file_record (n, lba, len)"
  have r: "?r = dir_record lba (word_of_nat len) 0 ?id" by (simp add: file_record_def)
  have n: "length n \<le> 24" using assms(1) by (simp add: name_ok_def)
  have len: "length ?r = 32 + length ?id + length ?id mod 2" unfolding r by (rule length_dir_record)
  then have l32: "32 + length ?id \<le> length ?r" "32 \<le> length ?r" by simp_all
  note f = record_fields [of lba "word_of_nat len" 0 ?id, folded r]
  have b24: "byte_at ?r 24 = Some 0" by (rule byte_at_slice1) (use l32 f in simp_all)
  have b31: "byte_at ?r 31 = Some (word_of_nat (length ?id))" by (rule byte_at_slice1) (use l32 f in simp_all)
  have idl: "unat (word_of_nat (length ?id) :: u8) = length ?id" by (rule unat_u8_of_nat) (use n in simp)
  have ident: "range_at ?r 32 (32 + length ?id) = Some ?id" using l32 f by (simp only: range_at_slice)
  have ext: "get_u32_le ?r 1 = Some lba" by (rule get_u32_le_slice) (use l32 f in simp_all)
  have dl: "get_u32_le ?r 9 = Some (word_of_nat len)" by (rule get_u32_le_slice) (use l32 f in simp_all)
  have dlen: "unat (word_of_nat len :: u32) = len" using assms(3) by (simp add: unat_of_nat)
  have dots: "\<not> (?id = [0] \<or> ?id = [1])"
    using length_file_ident [of n] by (auto simp del: length_file_ident)
  have mul: "checked_mul_usize (unat lba) SECTOR = Some (unat lba * 2048)"
    using unat_u32_less [of lba] by (simp add: checked_mul_usize_def SECTOR_def)
  have data: "range_at img (unat lba * 2048) (unat lba * 2048 + len) = Some (slice img (unat lba * 2048) len)"
    using assms(2) by (rule range_at_slice)
  show ?thesis
    using assms(2)
    by (simp add: parse_record_def b24 b31 idl ident ext dl dlen dots mul data content_at_def
        logical_name_ident [OF assms(1)] del: length_file_ident One_nat_def)
qed

lemma parse_dot_record:
  assumes "ident = [0] \<or> ident = [1]"
  shows "parse_record img (dir_record a l 2 ident) = Some (Inr None)"
proof -
  let ?r = "dir_record a l 2 ident"
  have l: "length ident = 1" using assms by auto
  then have lr: "length ?r = 34" by simp
  note f = record_fields [of a l 2 ident]
  have b24: "byte_at ?r 24 = Some 2" by (rule byte_at_slice1) (use lr f in simp_all)
  have b31: "byte_at ?r 31 = Some 1" by (rule byte_at_slice1) (use lr f l in simp_all)
  have id: "range_at ?r 32 (32 + 1) = Some ident" using lr f(6) l by (simp only: range_at_slice)
  have "(2 :: u8) AND 1 = 0" by simp
  then show ?thesis using assms by (simp add: parse_record_def b24 b31 id [simplified])
qed

lemma dir_loop_step:
  assumes "slice img pos (length rec) = rec" and "pos + length rec \<le> limit" and "limit \<le> length img"
    and "rec = dir_record e l f ident" and "length ident \<le> 200"
    and "parse_record img rec = Some (Inr r)"
  shows "dir_loop img pos limit files =
    dir_loop img (pos + length rec) limit (files @ (case r of None \<Rightarrow> [] | Some x \<Rightarrow> [x]))"
proof -
  have lr: "length rec = 32 + length ident + length ident mod 2" by (simp add: assms(4))
  have "length ident mod 2 < 2" by simp
  then have small: "length rec < 256" "32 \<le> length rec" using assms(5) lr by linarith+
  have "slice (slice img pos (length rec)) 0 1 = slice img (pos + 0) 1"
    using small by (intro slice_slice) simp
  then have "slice img pos 1 = slice rec 0 1" by (simp add: assms(1))
  also have "\<dots> = [word_of_nat (length rec)]" using record_fields(1) [of e l f ident] by (simp add: assms(4))
  finally have b: "byte_at img pos = Some (word_of_nat (length rec))"
    using assms(2,3) small by (intro byte_at_slice1) linarith+
  have ub: "unat (word_of_nat (length rec) :: u8) = length rec" using small by (simp add: unat_of_nat)
  then have nz: "(word_of_nat (length rec) :: u8) \<noteq> 0" using small by (metis unat_0 not_numeral_le_zero)
  have rng: "range_at img pos (pos + length rec) = Some rec"
    using assms(1,2,3) by (simp add: range_at_slice)
  show ?thesis
    using assms(2) small
    by (subst dir_loop.simps) (simp add: b ub nz rng assms(6) split: option.split)
qed

lemma slice_append_iff:
  "pos + (length a + length b) \<le> length buf \<Longrightarrow>
    slice buf pos (length (a @ b)) = a @ b \<longleftrightarrow> slice buf pos (length a) = a \<and> slice buf (pos + length a) (length b) = b"
  unfolding slice_def length_append take_add by (subst append_eq_append_conv) (auto simp: add.commute)

lemma dir_loop_files:
  assumes "slice img pos (length (concat (map file_record ext))) = concat (map file_record ext)"
    and "pos + length (concat (map file_record ext)) \<le> limit" and "limit \<le> length img"
    and "\<forall>(n, lba, len) \<in> set ext. name_ok n \<and> unat lba * 2048 + len \<le> length img \<and> len < 4294967296"
  shows "dir_loop img pos limit files =
    dir_loop img (pos + length (concat (map file_record ext))) limit (files @ map (content_at img) ext)"
  using assms
proof (induction ext arbitrary: pos files)
  case (Cons x ext)
  obtain n lba len where x: "x = (n, lba, len)" by (cases x)
  let ?r = "file_record x" and ?rest = "concat (map file_record ext)"
  have ok: "name_ok n" "unat lba * 2048 + len \<le> length img" "len < 4294967296"
    using Cons.prems(4) by (simp_all add: x)
  have "slice img pos (length (?r @ ?rest)) = ?r @ ?rest" using Cons.prems(1) by simp
  moreover have "pos + (length ?r + length ?rest) \<le> length img" using Cons.prems(2,3) by simp
  ultimately have s: "slice img pos (length ?r) = ?r" "slice img (pos + length ?r) (length ?rest) = ?rest"
    by (simp_all only: slice_append_iff)
  have "dir_loop img pos limit files = dir_loop img (pos + length ?r) limit (files @ [content_at img x])"
  proof -
    have "length n \<le> 24" using ok(1) by (simp add: name_ok_def)
    then have "length (file_ident n) \<le> 200" by simp
    from dir_loop_step [OF s(1) _ Cons.prems(3) _ this, of lba "word_of_nat len" 0 "Some (content_at img x)"]
    show ?thesis
      using Cons.prems(2) parse_file_record [OF ok] by (simp add: x file_record_def)
  qed
  also have "\<dots> = dir_loop img (pos + length ?r + length ?rest) limit ((files @ [content_at img x]) @ map (content_at img) ext)"
    by (rule Cons.IH) (use Cons.prems s in auto)
  finally show ?case by (simp add: add.assoc)
qed simp

end
