(* ===== verification/Iso_Image.thy ===== *)
theory Iso_Image imports Iso_Props begin

text \<open>
  The layout of a whole ISO image and its round trip through the parser.
\<close>

section \<open>The layout\<close>

definition norm_ok :: "(string \<times> bytes) list \<Rightarrow> bool" where
  "norm_ok norm \<longleftrightarrow> length norm \<le> 32 \<and> list_all (\<lambda>f. name_ok (fst f)) norm \<and> total_bytes norm \<le> 16777216"

abbreviation iso_extents :: "(string \<times> bytes) list \<Rightarrow> (string \<times> u32 \<times> nat) list" where
  "iso_extents norm \<equiv> fst (assign_extents 21 norm)"

abbreviation iso_root :: "(string \<times> bytes) list \<Rightarrow> bytes" where
  "iso_root norm \<equiv> root_extent 20 2048 (iso_extents norm)"

abbreviation iso_sectors :: "(string \<times> bytes) list \<Rightarrow> u32" where
  "iso_sectors norm \<equiv> max (snd (assign_extents 21 norm)) 22"

abbreviation iso_writes :: "(string \<times> bytes) list \<Rightarrow> region list" where
  "iso_writes norm \<equiv> pvd_writes (iso_sectors norm) (iso_root norm) @ fixed_writes (iso_root norm)
     @ file_writes norm (iso_extents norm)"

lemma extents_names: "map fst (fst (assign_extents lba fs)) = map fst fs"
  by (induction fs arbitrary: lba) (simp_all add: Let_def case_prod_beta)

lemma extents_length: "length (fst (assign_extents lba fs)) = length fs"
  using arg_cong [OF extents_names, of length] by simp

lemma extents_lens: "map (\<lambda>x. snd (snd x)) (fst (assign_extents lba fs)) = map (\<lambda>f. length (snd f)) fs"
  by (induction fs arbitrary: lba) (simp_all add: Let_def case_prod_beta)

lemma short_names:
  assumes "norm_ok norm" and "map fst ext = map fst norm"
  shows "list_all (\<lambda>x. length (fst x) \<le> 24) ext" and "length ext \<le> 32"
proof -
  have "list_all (\<lambda>n. length n \<le> 24) (map fst norm)"
    using assms(1) by (auto simp: norm_ok_def name_ok_def list_all_iff)
  then show "list_all (\<lambda>x. length (fst x) \<le> 24) ext"
    unfolding assms(2) [symmetric] by (simp add: list_all_iff)
  show "length ext \<le> 32" using arg_cong [OF assms(2), of length] assms(1) by (simp add: norm_ok_def)
qed

lemma one_root_sector:
  assumes "68 \<le> n" and "n \<le> 1988"
  shows "sectors_for n = 1"
proof -
  have "nsec n = 1" using assms unfolding nsec_def by linarith
  then show ?thesis by (simp add: sectors_for_nsec)
qed

lemma assemble_eq:
  assumes "norm_ok norm"
  shows "assemble norm = apply_writes (iso_writes norm) (replicate (unat (iso_sectors norm) * 2048) 0)"
proof -
  let ?probe = "root_extent 0 0 (map (\<lambda>f. (fst f, 0, 0)) norm)"
  have "map fst (map (\<lambda>f. (fst f, 0 :: u32, 0 :: nat)) norm) = map fst norm" by simp
  note short = short_names [OF assms this]
  have "68 \<le> length ?probe" by (simp add: root_extent_eq(1) [OF short])
  moreover have "length ?probe \<le> 1988" by (rule root_extent_eq(2) [OF short])
  ultimately have rs: "sectors_for (length ?probe) = 1" by (rule one_root_sector)
  have c: "ROOT_DIR_LBA + 1 = 21" "ROOT_DIR_LBA + 1 + 1 = 22" "1 * word_of_nat SECTOR = (2048 :: u32)"
    by (simp_all add: ROOT_DIR_LBA_def SECTOR_def)
  show ?thesis
    unfolding assemble_def Let_def rs c case_prod_beta by (simp add: ROOT_DIR_LBA_def SECTOR_def)
qed

lemma file_sectors_bound: "file_sectors fs * 2048 \<le> total_bytes fs + 2047 * length fs"
proof (induction fs)
  case (Cons f fs)
  have "nsec (length (snd f)) * 2048 \<le> length (snd f) + 2047" unfolding nsec_def by simp
  with Cons show ?case by (simp add: file_sectors_def total_bytes_def add_mult_distrib)
qed (simp add: file_sectors_def total_bytes_def)

lemma iso_sectors_unat:
  assumes "norm_ok norm"
  shows "unat (iso_sectors norm) = max (21 + file_sectors norm) 22" and "21 + file_sectors norm < 4294967296"
proof -
  have "total_bytes norm \<le> 16777216" "length norm \<le> 32" using assms by (simp_all add: norm_ok_def)
  then show b: "21 + file_sectors norm < 4294967296" using file_sectors_bound [of norm] by linarith
  have "unat (snd (assign_extents 21 norm)) = 21 + file_sectors norm"
    using extents_end [of 21 norm] b by simp
  then show "unat (iso_sectors norm) = max (21 + file_sectors norm) 22"
    by (simp add: max_def word_le_nat_alt)
qed

section \<open>The writes of the image\<close>

lemma length_path_tables [simp]: "length path_table_l = 2048" "length path_table_m = 2048"
proof -
  show "length path_table_l = 2048"
    unfolding path_table_l_def by (subst length_apply_writes) (simp_all add: in_bounds_def SECTOR_def)
  then show "length path_table_m = 2048"
    unfolding path_table_m_def by (subst length_apply_writes) (simp_all add: in_bounds_def)
qed

lemma length_volume_date [simp]: "length volume_date = 17"
  by (simp add: volume_date_def as_bytes_def)

lemma pad_str_simps: "fst (pad_str pos len s) = pos" "length (snd (pad_str pos len s)) = len"
  by (simp_all add: pad_str_def Let_def as_bytes_def)

lemma iso_root_length:
  assumes "norm_ok norm"
  shows "68 \<le> length (iso_root norm)" and "length (iso_root norm) \<le> 1988"
    and "iso_root norm = dir_record 20 2048 2 [0] @ dir_record 20 2048 2 [1]
          @ concat (map file_record (iso_extents norm))"
proof -
  note short = short_names [OF assms extents_names]
  show "iso_root norm = dir_record 20 2048 2 [0] @ dir_record 20 2048 2 [1]
          @ concat (map file_record (iso_extents norm))"
    by (rule root_extent_eq(1) [OF short])
  then show "68 \<le> length (iso_root norm)" by simp
  show "length (iso_root norm) \<le> 1988" by (rule root_extent_eq(2) [OF short])
qed

lemma pvd_writes_fields:
  assumes "34 \<le> length root"
  shows "list_all (\<lambda>w. 32768 \<le> fst w \<and> fst w + length (snd w) \<le> 33650) (pvd_writes t root)"
  using assms by (simp add: pvd_writes_def Let_def layout_simps pad_str_simps as_bytes_def)

lemma fixed_writes_fields:
  assumes "length root \<le> 2048"
  shows "list_all (\<lambda>w. 34816 \<le> fst w \<and> fst w + length (snd w) \<le> 43008) (fixed_writes root)"
  using assms by (simp add: fixed_writes_def Let_def layout_simps ROOT_DIR_LBA_def as_bytes_def)

lemma file_writes_fields:
  assumes "norm_ok norm"
  shows "list_all (\<lambda>w. 43008 \<le> fst w \<and> fst w + length (snd w) \<le> (21 + file_sectors norm) * 2048)
    (file_writes norm (iso_extents norm))"
  using file_writes_layout [of 21 norm] iso_sectors_unat(2) [OF assms] by (simp add: list_all_iff)

lemma iso_in_bounds:
  assumes "norm_ok norm"
  shows "list_all (in_bounds (length (replicate (unat (iso_sectors norm) * 2048) (0::u8)))) (iso_writes norm)"
proof -
  have r: "34 \<le> length (iso_root norm)" "length (iso_root norm) \<le> 2048"
    using iso_root_length(1,2) [OF assms] by simp_all
  have t: "45056 \<le> unat (iso_sectors norm) * 2048" "(21 + file_sectors norm) * 2048 \<le> unat (iso_sectors norm) * 2048"
    unfolding iso_sectors_unat(1) [OF assms] by (simp_all add: max_def)
  show ?thesis
    using pvd_writes_fields [OF r(1), of "iso_sectors norm"] fixed_writes_fields [OF r(2)]
      file_writes_fields [OF assms] t
    unfolding list_all_append length_replicate in_bounds_def list_all_iff by fastforce
qed

lemma length_assemble: "norm_ok norm \<Longrightarrow> length (assemble norm) = unat (iso_sectors norm) * 2048"
  by (simp only: assemble_eq length_apply_writes [OF iso_in_bounds] length_replicate)

lemma iso_slice:
  "norm_ok norm \<Longrightarrow> written (iso_writes norm) pos v \<Longrightarrow> slice (assemble norm) pos (length v) = v"
  by (simp only: assemble_eq written_slice [OF _ iso_in_bounds])

lemma written_pvd:
  assumes "norm_ok norm" and "written (pvd_writes t root) pos v" and "pos + length v \<le> 33650"
    and "t = iso_sectors norm" and "root = iso_root norm"
  shows "written (iso_writes norm) pos v"
proof -
  have r: "length (iso_root norm) \<le> 2048" using iso_root_length(2) [OF assms(1)] by simp
  have "list_all (apart (pos, v)) (fixed_writes (iso_root norm))"
    using fixed_writes_fields [OF r] assms(3) unfolding list_all_iff apart_def by fastforce
  moreover have "list_all (apart (pos, v)) (file_writes norm (iso_extents norm))"
    using file_writes_fields [OF assms(1)] assms(3) unfolding list_all_iff apart_def by fastforce
  ultimately show ?thesis using assms(2) unfolding assms(4,5) by (simp add: written_append)
qed

lemma written_fixed:
  assumes "norm_ok norm" and "written (fixed_writes root) pos v" and "pos + length v \<le> 43008"
    and "root = iso_root norm"
  shows "written (iso_writes norm) pos v"
proof -
  have "list_all (apart (pos, v)) (file_writes norm (iso_extents norm))"
    using file_writes_fields [OF assms(1)] assms(3) unfolding list_all_iff apart_def by fastforce
  then show ?thesis using assms(2) unfolding assms(4) by (simp add: written_append)
qed

lemma written_file:
  assumes "norm_ok norm" and "w \<in> set (file_writes norm (iso_extents norm))"
  shows "written (iso_writes norm) (fst w) (snd w)"
  using file_writes_layout [of 21 norm] iso_sectors_unat(2) [OF assms(1)] assms(2)
  by (simp add: written_append)

lemma written_pvd_fields:
  "written (pvd_writes t root) 32768 [1]"
  "written (pvd_writes t root) 32769 (as_bytes ''CD001'')"
  "written (pvd_writes t root) 33649 [1]"
  "written (pvd_writes t root) 32808 (snd (pad_str 32808 32 CIDATA_VOLUME_ID))"
  "34 \<le> length root \<Longrightarrow> written (pvd_writes t root) 32884 (take 34 root)"
  by (simp_all add: pvd_writes_def Let_def written_Cons apart_def layout_simps pad_str_def as_bytes_def)

lemma written_fixed_fields:
  "written (fixed_writes root) 34816 [255]"
  "written (fixed_writes root) 34817 (as_bytes ''CD001'')"
  "written (fixed_writes root) 40960 root"
  by (simp_all add: fixed_writes_def Let_def written_Cons apart_def layout_simps ROOT_DIR_LBA_def as_bytes_def)

section \<open>Reading the image back\<close>

lemma iso_fields:
  assumes "norm_ok norm"
  defines "img \<equiv> assemble norm"
  shows "byte_at img 32768 = Some 1" and "slice img 32769 5 = as_bytes ''CD001''"
    and "byte_at img 33649 = Some 1" and "slice img 32808 32 = snd (pad_str 32808 32 CIDATA_VOLUME_ID)"
    and "slice img 32884 34 = dir_record 20 2048 2 [0]"
    and "byte_at img 34816 = Some 255" and "slice img 34817 5 = as_bytes ''CD001''"
    and "slice img 40960 (length (iso_root norm)) = iso_root norm"
    and "45056 \<le> length img"
proof -
  show len: "45056 \<le> length img"
    unfolding img_def length_assemble [OF assms(1)] iso_sectors_unat(1) [OF assms(1)] by (simp add: max_def)
  let ?root = "iso_root norm"
  have r: "34 \<le> length ?root" "length ?root \<le> 2048" using iso_root_length(1,2) [OF assms(1)] by simp_all
  note wp = written_pvd [OF assms(1) _ _ refl refl] and wf = written_fixed [OF assms(1) _ _ refl]
  note pf = written_pvd_fields [where t = "iso_sectors norm" and root = ?root]
  note ff = written_fixed_fields [where root = ?root]
  have s: "slice img pos (length v) = v" if "written (iso_writes norm) pos v" for pos v
    unfolding img_def by (rule iso_slice [OF assms(1) that])
  have l5: "length (as_bytes ''CD001'') = 5" by (simp add: as_bytes_def)
  have "slice img 32768 1 = [1]" using s [OF wp [OF pf(1)]] by simp
  then show "byte_at img 32768 = Some 1" using len by (intro byte_at_slice1) simp_all
  show "slice img 32769 5 = as_bytes ''CD001''" using s [OF wp [OF pf(2)]] unfolding l5 by simp
  have "slice img 33649 1 = [1]" using s [OF wp [OF pf(3)]] by simp
  then show "byte_at img 33649 = Some 1" using len by (intro byte_at_slice1) simp_all
  have "length (snd (pad_str 32808 32 CIDATA_VOLUME_ID)) = 32" by (rule pad_str_simps(2))
  then show "slice img 32808 32 = snd (pad_str 32808 32 CIDATA_VOLUME_ID)" using s [OF wp [OF pf(4)]] by simp
  have "slice img 32884 34 = take 34 ?root" using s [OF wp [OF pf(5) [OF r(1)]]] r(1) by (simp add: min_absorb2)
  also have "\<dots> = dir_record 20 2048 2 [0]" unfolding iso_root_length(3) [OF assms(1)] by simp
  finally show "slice img 32884 34 = dir_record 20 2048 2 [0]" .
  have "slice img 34816 1 = [255]" using s [OF wf [OF ff(1)]] by simp
  then show "byte_at img 34816 = Some 255" using len by (intro byte_at_slice1) simp_all
  show "slice img 34817 5 = as_bytes ''CD001''" using s [OF wf [OF ff(2)]] unfolding l5 by simp
  show "slice img 40960 (length ?root) = ?root" using s [OF wf [OF ff(3)]] r(2) by simp
qed

text \<open>The rest of the root directory's sector is still zero.\<close>

lemma iso_padding:
  assumes "norm_ok norm"
  shows "byte_at (assemble norm) (40960 + length (iso_root norm)) = Some 0"
proof -
  let ?root = "iso_root norm" and ?pos = "40960 + length (iso_root norm)"
  let ?zero = "replicate (unat (iso_sectors norm) * 2048) (0 :: u8)"
  have r: "34 \<le> length ?root" "length ?root \<le> 1988" using iso_root_length(1,2) [OF assms] by simp_all
  have z: "45056 \<le> unat (iso_sectors norm) * 2048"
    unfolding iso_sectors_unat(1) [OF assms] by (simp add: max_def)
  have "list_all (apart (?pos, [0])) (pvd_writes (iso_sectors norm) ?root)"
    using pvd_writes_fields [OF r(1), of "iso_sectors norm"] unfolding list_all_iff apart_def by fastforce
  moreover have "list_all (apart (?pos, [0])) (fixed_writes ?root)"
    using r by (simp add: fixed_writes_def Let_def apart_def layout_simps ROOT_DIR_LBA_def as_bytes_def)
  moreover have "list_all (apart (?pos, [0])) (file_writes norm (iso_extents norm))"
    using file_writes_fields [OF assms] r(2) unfolding list_all_iff apart_def by fastforce
  ultimately have "list_all (apart (?pos, [0])) (iso_writes norm)" by simp
  then have "slice (assemble norm) ?pos (length [0 :: u8]) = slice ?zero ?pos (length [0 :: u8])"
    unfolding assemble_eq [OF assms] by (rule slice_apart [OF iso_in_bounds [OF assms]])
  also have "\<dots> = [0]" using z r(2) by (simp add: slice_def)
  finally have "slice (assemble norm) ?pos 1 = [0]" by simp
  moreover have "?pos < length (assemble norm)" unfolding length_assemble [OF assms] using z r(2) by linarith
  ultimately show ?thesis by (intro byte_at_slice1)
qed

lemma extents_contents:
  "\<forall>w \<in> set (file_writes fs (fst (assign_extents lba fs))). slice img (fst w) (length (snd w)) = snd w
      \<and> fst w + length (snd w) \<le> length img \<Longrightarrow>
    map (content_at img) (fst (assign_extents lba fs)) = map (\<lambda>f. (to_ascii_lowercase (fst f), snd f)) fs
    \<and> (\<forall>(n, l, len) \<in> set (fst (assign_extents lba fs)). unat l * 2048 + len \<le> length img)"
proof (induction fs arbitrary: lba)
  case (Cons f fs)
  from Cons.prems have h: "slice img (unat lba * 2048) (length (snd f)) = snd f"
      "unat lba * 2048 + length (snd f) \<le> length img"
    and t: "\<forall>w \<in> set (file_writes fs (fst (assign_extents (lba + sectors_for (length (snd f))) fs))).
        slice img (fst w) (length (snd w)) = snd w \<and> fst w + length (snd w) \<le> length img"
    unfolding file_writes_Cons by (simp_all add: SECTOR_def)
  from Cons.IH [OF t] h show ?case by (simp add: Let_def case_prod_beta content_at_def)
qed simp

lemma iso_files_read:
  assumes "norm_ok norm"
  shows "dir_loop (assemble norm) 40960 43008 [] =
    Some (Inr (map (\<lambda>f. (to_ascii_lowercase (fst f), snd f)) norm))"
proof -
  define img where "img = assemble norm"
  let ?root = "iso_root norm" and ?ext = "iso_extents norm"
  let ?d0 = "dir_record 20 2048 2 [0]" and ?d1 = "dir_record 20 2048 2 [1]" and ?fs = "concat (map file_record ?ext)"
  have f: "slice img 40960 (length ?root) = ?root" and len: "45056 \<le> length img"
    using iso_fields(8,9) [OF assms] by (simp_all add: img_def)
  have root: "?root = ?d0 @ ?d1 @ ?fs" and rl: "length ?root \<le> 1988" using iso_root_length [OF assms] by simp_all
  have bound: "40960 + length ?root \<le> length img" using len rl by linarith
  have s: "slice img 40960 (length ?d0) = ?d0" "slice img 40994 (length ?d1) = ?d1" "slice img 41028 (length ?fs) = ?fs"
  proof -
    have "slice img 40960 (length (?d0 @ ?d1 @ ?fs)) = ?d0 @ ?d1 @ ?fs" using f unfolding root .
    moreover have b: "40960 + (length ?d0 + length (?d1 @ ?fs)) \<le> length img" using bound unfolding root by simp
    ultimately have "slice img 40960 (length ?d0) = ?d0" and r1: "slice img (40960 + length ?d0) (length (?d1 @ ?fs)) = ?d1 @ ?fs"
      by (simp_all only: slice_append_iff [OF b])
    then show "slice img 40960 (length ?d0) = ?d0" by simp
    have b: "40960 + length ?d0 + (length ?d1 + length ?fs) \<le> length img" using b by simp
    have "slice img (40960 + length ?d0) (length ?d1) = ?d1" "slice img (40960 + length ?d0 + length ?d1) (length ?fs) = ?fs"
      using r1 by (simp_all only: slice_append_iff [OF b])
    then show "slice img 40994 (length ?d1) = ?d1" "slice img 41028 (length ?fs) = ?fs" by simp_all
  qed
  have lim: "43008 \<le> length img" using len by simp
  have contents: "map (content_at img) ?ext = map (\<lambda>f. (to_ascii_lowercase (fst f), snd f)) norm
      \<and> (\<forall>(n, l, k) \<in> set ?ext. unat l * 2048 + k \<le> length img)"
  proof (rule extents_contents, intro ballI conjI)
    fix w assume w: "w \<in> set (file_writes norm ?ext)"
    show "slice img (fst w) (length (snd w)) = snd w"
      unfolding img_def by (rule iso_slice [OF assms written_file [OF assms w]])
    show "fst w + length (snd w) \<le> length img"
      using bspec [OF file_writes_fields [OF assms, unfolded list_all_iff] w]
      unfolding img_def length_assemble [OF assms] iso_sectors_unat(1) [OF assms] by (simp add: max_def)
  qed
  have "dir_loop img 40960 43008 [] = dir_loop img 40994 43008 []"
    using dir_loop_step [OF s(1) _ lim refl _ parse_dot_record] by simp
  also have "\<dots> = dir_loop img 41028 43008 []"
    using dir_loop_step [OF s(2) _ lim refl _ parse_dot_record] by simp
  also have "\<dots> = dir_loop img (41028 + length ?fs) 43008 ([] @ map (content_at img) ?ext)"
  proof (rule dir_loop_files [OF s(3) _ lim])
    show "41028 + length ?fs \<le> 43008" using rl unfolding root by simp
    show "\<forall>(n, lba, len) \<in> set ?ext. name_ok n \<and> unat lba * 2048 + len \<le> length img \<and> len < 4294967296"
    proof (intro ballI, clarify)
      fix n lba len assume x: "(n, lba, len) \<in> set ?ext"
      have "n \<in> set (map fst norm)" using imageI [OF x, of fst] unfolding extents_names [of 21 norm, symmetric] by simp
      then have "name_ok n" using assms by (auto simp: norm_ok_def list_all_iff)
      moreover have "unat lba * 2048 + len \<le> length img" using contents x by fastforce
      moreover have "len \<in> set (map (\<lambda>f. length (snd f)) norm)"
        using imageI [OF x, of "\<lambda>x. snd (snd x)"] unfolding extents_lens [of 21 norm, symmetric] by simp
      then have "len < 4294967296"
        using assms member_le_sum_list [of len "map (\<lambda>f. length (snd f)) norm"]
        by (simp add: norm_ok_def total_bytes_def)
      ultimately show "name_ok n \<and> unat lba * 2048 + len \<le> length img \<and> len < 4294967296" by simp
    qed
  qed
  also have "\<dots> = Some (Inr (map (\<lambda>f. (to_ascii_lowercase (fst f), snd f)) norm))"
  proof -
    let ?stop = "41028 + length ?fs" and ?files = "map (content_at img) ?ext"
    have e: "?stop = 40960 + length ?root" unfolding root by simp
    have z: "byte_at img ?stop = Some 0" unfolding e img_def by (rule iso_padding [OF assms])
    have d: "?stop < 43008" "(?stop div 2048 + 1) * 2048 = 43008"
      using rl unfolding e by (linarith, simp add: div_nat_eqI)
    have "dir_loop img ?stop 43008 ?files = dir_loop img 43008 43008 ?files"
      by (subst dir_loop.simps) (simp only: z d if_True option.case SECTOR_def refl)
    also have "\<dots> = Some (Inr ?files)" by (subst dir_loop.simps) simp
    finally show ?thesis using contents by simp
  qed
  finally show ?thesis by (simp add: img_def)
qed

section \<open>The round trip\<close>

lemma trim_volume: "trim_end_char CHR '' '' (from_utf8_lossy (snd (pad_str p 32 CIDATA_VOLUME_ID))) = CIDATA_VOLUME_ID"
proof -
  let ?v = "as_bytes ''CIDATA'' @ replicate 26 0x20"
  have "snd (pad_str p 32 CIDATA_VOLUME_ID) = ?v"
    by (simp add: pad_str_def Let_def CIDATA_VOLUME_ID_def as_bytes_def)
  moreover have b: "byte_char 32 = CHR '' ''" using byte_char_of_char [of "CHR '' ''"] by simp
  moreover have "from_utf8_lossy ?v = map byte_char ?v"
    by (rule from_utf8_lossy_ascii) (simp add: as_bytes_def list_all_iff)
  ultimately show ?thesis
    unfolding map_append map_replicate map_byte_char_as_bytes b by (simp add: trim_end_char_def CIDATA_VOLUME_ID_def dropWhile_append)
qed

lemma parse_assemble:
  assumes "norm_ok norm"
  shows "parse_iso (assemble norm) = Some (Inr \<lparr>pi_volume_id = CIDATA_VOLUME_ID,
      pi_files = map (\<lambda>f. (to_ascii_lowercase (fst f), snd f)) norm\<rparr>)"
proof -
  define img where "img = assemble norm"
  let ?rec = "slice img 32884 74" and ?dot = "dir_record 20 2048 2 [0]"
  note f = iso_fields [OF assms, folded img_def]
  have r: "range_at img 32769 32774 = Some (as_bytes ''CD001'')"
      "range_at img 32808 32840 = Some (snd (pad_str 32808 32 CIDATA_VOLUME_ID))"
      "range_at img 34817 34822 = Some (as_bytes ''CD001'')" "range_at img 32884 32958 = Some ?rec"
    using f(2,4,7,9) by (simp_all add: range_at_def)
  have dot: "slice ?rec k n = slice ?dot k n" if "k + n \<le> 34" for k n
    using that f(5) slice_slice [of k n 74 img 32884] slice_slice [of k n 34 img 32884] by simp
  have len: "length ?rec = 74" using f(9) by simp
  have b0: "byte_at ?rec 0 = Some 34"
    using byte_at_slice1 [of 0 ?rec 34] dot [of 0 1] record_fields(1) [of 20 2048 2 "[0]"] len by simp
  have u1: "get_u32_le ?rec 1 = Some 20"
    using len dot [of 1 4] record_fields(2) [of 20 2048 2 "[0]"] by (intro get_u32_le_slice) simp_all
  have u9: "get_u32_le ?rec 9 = Some 2048"
    using len dot [of 9 4] record_fields(3) [of 20 2048 2 "[0]"] by (intro get_u32_le_slice) simp_all
  have l: "\<not> length img < 6144" "34816 < length img" "\<not> 43008 > length img" "\<not> 32918 > length img"
    using f(9) by simp_all
  show ?thesis
    unfolding parse_iso_def Let_def img_def [symmetric]
    by (simp add: layout_simps r f(1,3,6) b0 u1 u1 [unfolded One_nat_def] u9 l checked_mul_usize_def iso_files_read [OF assms, folded img_def]
        trim_volume)
qed

end
