(* ===== verification/Iso_Roundtrip.thy ===== *)
theory Iso_Roundtrip imports Iso_Image "HOL-Library.Multiset" begin

text \<open>
  What \<^verbatim>\<open>build_iso\<close> accepts, what \<^verbatim>\<open>parse_iso\<close> reads back from what it builds, and the size it has.
\<close>

section \<open>Acceptance\<close>

abbreviation upper_file :: "string \<times> bytes \<Rightarrow> string \<times> bytes" where
  "upper_file f \<equiv> (to_ascii_uppercase (fst f), snd f)"

lemma validate_name_iff: "validate_name n = Inr u \<longleftrightarrow> name_ok (to_ascii_uppercase n) \<and> u = to_ascii_uppercase n"
  by (auto simp: validate_name_def Let_def name_ok_def)

lemma validate_all_iff:
  "validate_all fs = Inr named \<longleftrightarrow> list_all (\<lambda>f. name_ok (to_ascii_uppercase (fst f))) fs \<and> named = map upper_file fs"
proof (induction fs arbitrary: named)
  case (Cons f fs)
  show ?case
  proof (cases "name_ok (to_ascii_uppercase (fst f))")
    case True
    then have v: "validate_name (fst f) = Inr (to_ascii_uppercase (fst f))" by (simp add: validate_name_iff)
    show ?thesis
    proof (cases "validate_all fs")
      case (Inl e)
      then have "\<not> list_all (\<lambda>f. name_ok (to_ascii_uppercase (fst f))) fs"
        using Cons.IH [of "map upper_file fs"] by auto
      then show ?thesis using Inl v by simp
    next
      case (Inr r)
      then have "list_all (\<lambda>f. name_ok (to_ascii_uppercase (fst f))) fs" "r = map upper_file fs"
        using Cons.IH [of r] by auto
      then show ?thesis using Inr v True by auto
    qed
  next
    case False
    then have "\<nexists>u. validate_name (fst f) = Inr u" by (simp add: validate_name_iff)
    then show ?thesis using False by (cases "validate_name (fst f)") auto
  qed
qed auto

lemma adjacent_distinct:
  "sorted (map fst fs) \<Longrightarrow> has_adjacent_duplicate fs = None \<longleftrightarrow> distinct (map fst fs)"
proof (induction fs rule: has_adjacent_duplicate.induct)
  case (1 f g fs)
  have "fst f \<notin> set (map fst (g # fs)) \<longleftrightarrow> fst g \<noteq> fst f"
    using "1.prems" by (auto dest: antisym)
  with 1 show ?case by auto
qed simp_all

lemma no_big_file:
  "total_bytes fs \<le> MAX_TOTAL_FILE_BYTES \<Longrightarrow> find (\<lambda>f. length (snd f) > MAX_TOTAL_FILE_BYTES) fs = None"
  unfolding find_None_iff total_bytes_def by (auto dest!: split_list)

lemma total_bytes_sort: "total_bytes (sort_key fst (map upper_file fs)) = total_bytes fs"
proof -
  have "mset (map (\<lambda>f. length (snd f)) (sort_key fst (map upper_file fs))) = mset (map (\<lambda>f. length (snd f)) fs)"
    by (simp add: multiset.map_comp comp_def)
  then show ?thesis unfolding total_bytes_def by (simp only: sum_mset_sum_list [symmetric])
qed

definition acceptable :: "(string \<times> bytes) list \<Rightarrow> bool" where
  "acceptable files \<longleftrightarrow> length files \<le> 32 \<and> list_all (\<lambda>f. name_ok (to_ascii_uppercase (fst f))) files
     \<and> distinct (map (\<lambda>f. to_ascii_uppercase (fst f)) files) \<and> total_bytes files \<le> 16777216"

lemma acceptable_inj:
  assumes "acceptable files"
  shows "inj_on (\<lambda>f. to_ascii_uppercase (fst f)) (set files)" and "inj_on fst (set (map upper_file files))"
proof -
  show i: "inj_on (\<lambda>f. to_ascii_uppercase (fst f)) (set files)"
    using assms by (simp add: acceptable_def distinct_map)
  show "inj_on fst (set (map upper_file files))"
  proof (rule inj_onI)
    fix x y assume x: "x \<in> set (map upper_file files)" and y: "y \<in> set (map upper_file files)" and eq: "fst x = fst y"
    obtain f g where f: "f \<in> set files" "x = upper_file f" and g: "g \<in> set files" "y = upper_file g" using x y by auto
    then have "f = g" using eq by (intro inj_onD [OF i]) simp_all
    then show "x = y" using f g by simp
  qed
qed

lemma build_iff:
  "build_iso files = Inr img \<longleftrightarrow> acceptable files \<and> img = assemble (sort_key fst (map upper_file files))"
proof -
  let ?norm = "sort_key fst (map upper_file files)"
  have d: "has_adjacent_duplicate ?norm = None \<longleftrightarrow> distinct (map (\<lambda>f. to_ascii_uppercase (fst f)) files)"
  proof -
    have "mset (map fst ?norm) = mset (map (\<lambda>f. to_ascii_uppercase (fst f)) files)" by (simp add: multiset.map_comp comp_def)
    from mset_eq_imp_distinct_iff [OF this] show ?thesis using adjacent_distinct [OF sorted_sort_key [of fst]] by blast
  qed
  have M: "MAX_FILES = 32" "MAX_TOTAL_FILE_BYTES = 16777216" by (simp_all add: MAX_FILES_def MAX_TOTAL_FILE_BYTES_def)
  show ?thesis
  proof (cases "length files \<le> 32 \<and> list_all (\<lambda>f. name_ok (to_ascii_uppercase (fst f))) files")
    case True
    then have "validate_all files = Inr (map upper_file files)" by (simp add: validate_all_iff)
    then have "build_iso files = (case has_adjacent_duplicate ?norm of
          Some n \<Rightarrow> Inl (BadName (n @ '' (duplicate)''))
        | None \<Rightarrow> (case find (\<lambda>f. length (snd f) > MAX_TOTAL_FILE_BYTES) ?norm of
            Some f \<Rightarrow> Inl (FileTooLarge (length (snd f)))
          | None \<Rightarrow> if total_bytes ?norm > MAX_TOTAL_FILE_BYTES then Inl (FileTooLarge (total_bytes ?norm))
              else Inr (assemble ?norm)))"
      using True by (simp add: build_iso_def M(1) Let_def)
    then have "build_iso files = Inr img \<longleftrightarrow> has_adjacent_duplicate ?norm = None
        \<and> find (\<lambda>f. length (snd f) > MAX_TOTAL_FILE_BYTES) ?norm = None
        \<and> total_bytes ?norm \<le> MAX_TOTAL_FILE_BYTES \<and> img = assemble ?norm"
      by (cases "has_adjacent_duplicate ?norm"; cases "find (\<lambda>f. length (snd f) > MAX_TOTAL_FILE_BYTES) ?norm")
        (auto simp del: has_adjacent_duplicate.simps)
    then show ?thesis
      using True d no_big_file [of ?norm] by (auto simp: acceptable_def total_bytes_sort M)
  next
    case False
    then have "\<nexists>named. validate_all files = Inr named \<and> length files \<le> 32" by (auto simp: validate_all_iff)
    then show ?thesis
      using False by (cases "validate_all files") (auto simp: build_iso_def M acceptable_def)
  qed
qed

lemma acceptable_norm: "acceptable files \<Longrightarrow> norm_ok (sort_key fst (map upper_file files))"
  by (auto simp: acceptable_def norm_ok_def total_bytes_sort list_all_iff)

lemma lower_upper: "to_ascii_lowercase (to_ascii_uppercase s) = to_ascii_lowercase s"
proof -
  have "to_ascii_lowercase_char (to_ascii_uppercase_char c) = to_ascii_lowercase_char c" for c
    by (auto simp: to_ascii_lowercase_char_def to_ascii_uppercase_char_def Let_def)
  then show ?thesis by (simp add: to_ascii_lowercase_def to_ascii_uppercase_def comp_def)
qed

lemma file_sectors_empty: "file_sectors fs = 0 \<longleftrightarrow> list_all (\<lambda>f. snd f = []) fs"
proof -
  have "nsec n = 0 \<longleftrightarrow> n = 0" for n unfolding nsec_def by (cases n) simp_all
  then show ?thesis by (simp add: file_sectors_def list_all_iff)
qed

lemma iso_size_eq:
  assumes "acceptable files"
  shows "iso_size_bytes files = (21 + file_sectors files) * 2048"
proof -
  let ?root = "2 * 34 + sum_list (map (\<lambda>f. 32 + (length (fst f) + 3) + (length (fst f) + 3) mod 2) files)"
  have n: "\<forall>f \<in> set files. length (fst f) \<le> 24" "length files \<le> 32" "total_bytes files \<le> 16777216"
    using assms by (auto simp: acceptable_def list_all_iff name_ok_def to_ascii_uppercase_def)
  have "sum_list (map (\<lambda>f. 32 + (length (fst f) + 3) + (length (fst f) + 3) mod 2) files) \<le> sum_list (map (\<lambda>_. 60) files)"
  proof (rule sum_list_mono)
    fix f assume "f \<in> set files"
    then have "length (fst f) \<le> 24" using n(1) by simp
    then show "32 + (length (fst f) + 3) + (length (fst f) + 3) mod 2 \<le> 60" by presburger
  qed
  then have "?root \<le> 1988" using n(2) by (simp add: sum_list_triv)
  then have r: "sectors_for ?root = 1" by (intro one_root_sector) simp_all
  have s: "map (\<lambda>f. unat (sectors_for (length (snd f)))) files = map (\<lambda>f. nsec (length (snd f))) files"
  proof (rule map_cong [OF refl])
    fix f assume "f \<in> set files"
    then have "length (snd f) \<le> total_bytes files"
      unfolding total_bytes_def by (intro member_le_sum_list) simp_all
    then have "nsec (length (snd f)) < 4294967296" using n(3) unfolding nsec_def by linarith
    then show "unat (sectors_for (length (snd f))) = nsec (length (snd f))"
      by (simp add: sectors_for_nsec unat_of_nat)
  qed
  show ?thesis
    unfolding iso_size_bytes_def Let_def r s
    by (simp add: ROOT_DIR_LBA_def SECTOR_def file_sectors_def)
qed

lemma file_sectors_sort: "file_sectors (sort_key fst (map upper_file files)) = file_sectors files"
proof -
  have "mset (map (\<lambda>f. nsec (length (snd f))) (sort_key fst (map upper_file files)))
      = mset (map (\<lambda>f. nsec (length (snd f))) files)" by (simp add: multiset.map_comp comp_def)
  then show ?thesis unfolding file_sectors_def by (simp only: sum_mset_sum_list [symmetric])
qed

lemma demo_names:
  "to_ascii_uppercase ''user-data'' = ''USER-DATA''" "to_ascii_uppercase ''Meta_data'' = ''META_DATA''"
  "to_ascii_lowercase ''user-data'' = ''user-data''" "to_ascii_lowercase ''Meta_data'' = ''meta_data''"
  "(''USER-DATA'' \<le> ''META_DATA'') = False" "(''META_DATA'' \<le> ''USER-DATA'') = True"
  by code_simp+

lemma demo_built:
  "build_iso [(''user-data'', [1, 2]), (''Meta_data'', [])] =
    Inr (assemble [(''META_DATA'', []), (''USER-DATA'', [1, 2])])"
  "build_iso [(''Meta_data'', []), (''user-data'', [1, 2])] =
    Inr (assemble [(''META_DATA'', []), (''USER-DATA'', [1, 2])])"
proof -
  have alnum: "list_all (\<lambda>c. is_ascii_alphanumeric c \<or> c = CHR ''_'' \<or> c = CHR ''-'') ''USER-DATA''"
    "list_all (\<lambda>c. is_ascii_alphanumeric c \<or> c = CHR ''_'' \<or> c = CHR ''-'') ''META_DATA''"
    by code_simp+
  show "build_iso [(''user-data'', [1, 2]), (''Meta_data'', [])] =
      Inr (assemble [(''META_DATA'', []), (''USER-DATA'', [1, 2])])"
    "build_iso [(''Meta_data'', []), (''user-data'', [1, 2])] =
      Inr (assemble [(''META_DATA'', []), (''USER-DATA'', [1, 2])])"
    by (simp_all only: build_iff, simp_all add: acceptable_def name_ok_def total_bytes_def demo_names
        alnum [unfolded list_all_iff] list_all_iff)
qed

section \<open>The contract\<close>

text \<open>
  C30: \<^verbatim>\<open>build_iso\<close> succeeds exactly when there are at most 32 files whose upper-cased names are valid
  (1 to 24 letters, digits, underscores and hyphens) and pairwise different and whose contents sum to at most 16 MiB.
\<close>

theorem build_iso_accepts_exactly:
  "(\<exists>img. build_iso files = Inr img) =
    (length files \<le> 32 \<and> total_bytes files \<le> 16 * 1024 * 1024
     \<and> distinct (map (\<lambda>f. to_ascii_uppercase (fst f)) files)
     \<and> list_all (\<lambda>f. to_ascii_uppercase (fst f) \<noteq> [] \<and> length (fst f) \<le> 24
         \<and> list_all (\<lambda>c. is_ascii_alphanumeric c \<or> c = CHR ''_'' \<or> c = CHR ''-'') (to_ascii_uppercase (fst f))) files)"
  unfolding build_iff by (auto simp: acceptable_def name_ok_def list_all_iff to_ascii_uppercase_def)

text \<open>
  C25: the round trip: parsing a built image gives back the volume id \<^verbatim>\<open>CIDATA\<close> and every file with its
  exact contents, under its lower-cased name and in the order of the upper-cased names.
\<close>

theorem iso_roundtrip:
  assumes "build_iso files = Inr img"
  shows "parse_iso img = Some (Inr \<lparr>pi_volume_id = ''CIDATA'',
    pi_files = map (\<lambda>f. (to_ascii_lowercase (fst f), snd f)) (sort_key (\<lambda>f. to_ascii_uppercase (fst f)) files)\<rparr>)"
proof -
  have a: "acceptable files" and img: "img = assemble (sort_key fst (map upper_file files))"
    using assms by (simp_all add: build_iff)
  have "sort_key fst (map upper_file files) = map upper_file (sort_key (\<lambda>f. to_ascii_uppercase (fst f)) files)"
    by (rule sort_key_inj_key_eq [OF _ acceptable_inj(2) [OF a]]) (simp_all add: comp_def)
  then show ?thesis
    using parse_assemble [OF acceptable_norm [OF a]] by (simp add: img lower_upper CIDATA_VOLUME_ID_def comp_def)
qed

theorem iso_roundtrip_witness:
  "parse_iso (assemble [(''META_DATA'', []), (''USER-DATA'', [1, 2])]) =
    Some (Inr \<lparr>pi_volume_id = ''CIDATA'', pi_files = [(''meta_data'', []), (''user-data'', [1, 2])]\<rparr>)"
  using iso_roundtrip [OF demo_built(1)]
  by (simp add: demo_names del: Cons_le_Cons Cons_less_Cons)

text \<open>
  The image does not depend on the order in which the caller lists the files.
\<close>

theorem iso_order_independent:
  assumes "mset files = mset files'" and "build_iso files = Inr img"
  shows "build_iso files' = Inr img"
proof -
  have a: "acceptable files" using assms(2) by (simp add: build_iff)
  have s: "set files = set files'" by (rule mset_eq_setD [OF assms(1)])
  have "mset (map upper_file files) = mset (map upper_file files')" using assms(1) by simp
  then have "sort_key fst (map upper_file files) = sort_key fst (map upper_file files')"
    by (intro sort_key_inj_key_eq [OF _ acceptable_inj(2) [OF a]]) (simp_all del: mset_map)
  moreover have "acceptable files'"
  proof -
    have "mset (map (\<lambda>f. to_ascii_uppercase (fst f)) files) = mset (map (\<lambda>f. to_ascii_uppercase (fst f)) files')"
      "mset (map (\<lambda>f. length (snd f)) files) = mset (map (\<lambda>f. length (snd f)) files')" using assms(1) by simp_all
    note m = this
    have "distinct (map (\<lambda>f. to_ascii_uppercase (fst f)) files')"
      using a mset_eq_imp_distinct_iff [OF m(1)] by (simp add: acceptable_def)
    moreover have "total_bytes files' = total_bytes files"
      using m(2) unfolding total_bytes_def by (simp only: sum_mset_sum_list [symmetric])
    moreover have "length files' = length files" using mset_eq_length [OF assms(1)] by simp
    ultimately show ?thesis using a s by (simp add: acceptable_def list_all_iff)
  qed
  ultimately show ?thesis using assms(2) by (simp add: build_iff)
qed

theorem iso_order_independent_witness:
  "build_iso [(''Meta_data'', []), (''user-data'', [1, 2])] =
    Inr (assemble [(''META_DATA'', []), (''USER-DATA'', [1, 2])])"
  by (rule iso_order_independent [OF _ demo_built(1)]) simp

text \<open>
  C26: \<^verbatim>\<open>iso_size_bytes\<close> is the length of the image that is built, except that it is one sector short when
  every file is empty, since the builder keeps a sector after the root directory.
\<close>

theorem iso_size_bytes_of_image:
  assumes "build_iso files = Inr img"
  shows "length img = iso_size_bytes files + (if list_all (\<lambda>f. snd f = []) files then 2048 else 0)"
proof -
  let ?norm = "sort_key fst (map upper_file files)"
  have a: "acceptable files" and img: "img = assemble ?norm" using assms by (simp_all add: build_iff)
  show ?thesis
    unfolding img length_assemble [OF acceptable_norm [OF a]] iso_sectors_unat(1) [OF acceptable_norm [OF a]]
      iso_size_eq [OF a] file_sectors_sort file_sectors_empty [symmetric]
    by (simp add: max_def)
qed

theorem iso_size_bytes_of_image_witness:
  "length (assemble [(''META_DATA'', []), (''USER-DATA'', [1, 2])]) =
    iso_size_bytes [(''user-data'', [1, 2]), (''Meta_data'', [])]"
  using iso_size_bytes_of_image [OF demo_built(1)] by simp

text \<open>
  An image of 3 to 16 sectors passes the length check of the parser and then indexes the volume
  descriptor out of bounds.
\<close>

theorem short_image_panics:
  assumes "3 * 2048 \<le> length img" and "length img \<le> 16 * 2048"
  shows "parse_iso img = None"
  using assms by (simp add: parse_iso_def Let_def layout_simps byte_at_def)

theorem short_image_panics_witness: "parse_iso (replicate 6144 0) = None"
  by (rule short_image_panics) simp_all

end
