(* ===== verification/Host.thy ===== *)
theory Host imports Strings begin

text \<open>
  The host as \<^verbatim>\<open>qemu-center\<close> sees it: messages, paths, files, child processes and the QMP endpoint of
  a VM. The operating system, the tools that are run as child processes and the QEMU at the other
  end of a QMP socket are not code of the repository: they are the fields of the record \<open>host\<close>,
  arbitrary functions, one record for each run of the command line tool. A run threads a \<open>sys\<close>:
  the files, and the log of the processes started and the QMP commands sent.
\<close>

section \<open>Messages and results\<close>

text \<open>A message is kept as its format string and its arguments, not rendered.\<close>

datatype message = Message string "string list"

abbreviation text_message :: "string \<Rightarrow> message" where
  "text_message s \<equiv> Message s []"

section \<open>Paths\<close>

text \<open>
  A path is its root or prefix (\<^verbatim>\<open>/\<close>, \<^verbatim>\<open>C:\\<close> or nothing) and its components. \<^verbatim>\<open>Path::join\<close> is modelled for
  one relative component, which is how the sources use it.
\<close>

datatype path = Path string "string list"

definition path_join :: "path \<Rightarrow> string \<Rightarrow> path" where
  "path_join p c = (case p of Path r cs \<Rightarrow> Path r (cs @ [c]))"

definition path_parent :: "path \<Rightarrow> path option" where
  "path_parent p = (case p of Path r cs \<Rightarrow> if cs = [] then None else Some (Path r (butlast cs)))"

text \<open>\<^verbatim>\<open>path.display().to_string()\<close> with the separator of the platform.\<close>

definition display :: "char \<Rightarrow> path \<Rightarrow> string" where
  "display sep p = (case p of Path r cs \<Rightarrow> r @ join [sep] cs)"

definition below :: "path \<Rightarrow> path \<Rightarrow> bool" where
  "below d p = (case (d, p) of (Path r ds, Path r' cs) \<Rightarrow> r = r' \<and> take (length ds) cs = ds)"

lemma path_join_inject [simp]: "path_join p c = path_join q d \<longleftrightarrow> p = q \<and> c = d"
  by (cases p; cases q) (simp add: path_join_def)

lemma path_parent_join [simp]: "path_parent (path_join p c) = Some p"
  by (cases p) (simp add: path_join_def path_parent_def)

lemma below_refl [simp]: "below p p"
  by (cases p) (simp add: below_def)

lemma below_iff: "below (Path r ds) (Path q cs) \<longleftrightarrow> r = q \<and> (\<exists>es. cs = ds @ es)"
  by (auto simp: below_def) (metis append_take_drop_id)

lemma below_join: "below d p \<Longrightarrow> below d (path_join p c)"
  by (cases d; cases p) (auto simp: below_iff path_join_def)

lemma below_parents: "below d p \<Longrightarrow> below d' p \<Longrightarrow> below d d' \<or> below d' d"
proof (cases d, cases d', cases p)
  fix r ds r' ds' q cs
  assume eq: "d = Path r ds" "d' = Path r' ds'" "p = Path q cs" and "below d p" "below d' p"
  then have r: "r = q" "r' = q" and t: "take (length ds) cs = ds" "take (length ds') cs = ds'"
    by (simp_all add: below_def)
  show ?thesis
  proof (cases "length ds \<le> length ds'")
    case True
    then have "take (length ds) ds' = ds" using t by (metis min.absorb1 take_take)
    then show ?thesis using eq r by (simp add: below_def)
  next
    case False
    then have "take (length ds') ds = ds'" using t by (metis linear min.absorb1 take_take)
    then show ?thesis using eq r by (simp add: below_def)
  qed
qed

section \<open>Files\<close>

datatype node = Dir | File string

type_synonym files = "path \<rightharpoonup> node"

definition is_file :: "files \<Rightarrow> path \<Rightarrow> bool" where
  "is_file fs p = (case fs p of Some (File s) \<Rightarrow> True | _ \<Rightarrow> False)"

definition path_exists :: "files \<Rightarrow> path \<Rightarrow> bool" where
  "path_exists fs p = (fs p \<noteq> None)"

datatype io_error = NotFound | AlreadyExists | OtherError string

primrec io_text :: "io_error \<Rightarrow> string" where
  "io_text NotFound = ''entity not found''"
| "io_text AlreadyExists = ''entity already exists''"
| "io_text (OtherError s) = s"

section \<open>Processes\<close>

record run_outcome =
  ro_exit_code :: int
  ro_success :: bool
  ro_stdout :: string
  ro_stderr :: string
  ro_timed_out :: bool

definition spawn_failure :: "string \<Rightarrow> run_outcome" where
  "spawn_failure err = \<lparr>ro_exit_code = - 1, ro_success = False, ro_stdout = [],
     ro_stderr = ''spawn failed: '' @ err, ro_timed_out = False\<rparr>"

definition stderr_last_line :: "run_outcome \<Rightarrow> string" where
  "stderr_last_line out = (case find (\<lambda>l. \<not> blank l) (rev (lines (ro_stderr out))) of
     None \<Rightarrow> [] | Some l \<Rightarrow> trim l)"

datatype connect_outcome = Connected | ConnectionRefused | ConnectTimeout | ConnectFailed string

datatype action = Ran "string list" | Spawned "string list" | QmpSent u16 string

text \<open>
  What the operating system and the tools answer during one run. \<open>ho_io op p\<close> is the error, if any, of
  the file operation \<open>op\<close> on \<open>p\<close>; a child process may change the files. \<open>ho_qmp_lines port frames\<close> are the
  results of the reads from the QMP socket after the \<open>frames\<close> were written to it, up to the next write.
  \<open>ho_env\<close> are the environment variables, \<open>ho_path\<close> is \<^verbatim>\<open>PathBuf::from\<close>, \<open>ho_self_exe\<close> the path of the running
  binary and \<open>ho_elapsed_ms\<close> the time that passed while the logged actions ran.
\<close>

record host =
  ho_windows :: bool
  ho_sep :: char
  ho_now :: nat
  ho_io :: "string \<Rightarrow> path \<Rightarrow> string option"
  ho_run :: "string list \<Rightarrow> files \<Rightarrow> run_outcome \<times> files"
  ho_spawn :: "string list \<Rightarrow> path option \<Rightarrow> string + u32"
  ho_connect :: "u16 \<Rightarrow> connect_outcome"
  ho_qmp_write :: "u16 \<Rightarrow> string list \<Rightarrow> string option"
  ho_qmp_lines :: "u16 \<Rightarrow> string list \<Rightarrow> (string + string) list"
  ho_qemu_process :: "string + bool"
  ho_pid_alive :: "u32 \<Rightarrow> string + bool"
  ho_port_free :: "u16 \<Rightarrow> bool"
  ho_linux :: bool
  ho_env :: "string \<Rightarrow> string option"
  ho_path :: "string \<Rightarrow> path"
  ho_self_exe :: string
  ho_elapsed_ms :: "action list \<Rightarrow> nat"

record sys =
  sy_files :: files
  sy_log :: "action list"

type_synonym exit = "int \<times> message option"

definition err_exit :: "message \<Rightarrow> exit" where
  "err_exit m = (1, Some m)"

abbreviation exit_ok :: exit where
  "exit_ok \<equiv> (0, None)"

text \<open>\<^verbatim>\<open>exec::run_command\<close>: an empty argument vector is refused without starting anything.\<close>

definition run_command :: "host \<Rightarrow> string list \<Rightarrow> sys \<Rightarrow> run_outcome \<times> sys" where
  "run_command h argv s = (if argv = [] then (spawn_failure ''empty argv'', s)
     else (let (out, fs) = ho_run h argv (sy_files s)
           in (out, \<lparr>sy_files = fs, sy_log = sy_log s @ [Ran argv]\<rparr>)))"

definition argv_to_display :: "string list \<Rightarrow> string" where
  "argv_to_display argv = join '' '' (map (\<lambda>a.
     if a = [] \<or> CHR '' '' \<in> set a \<or> CHR 0x22 \<in> set a
     then [CHR 0x22] @ str_replace [CHR 0x22] [CHR 0x5C, CHR 0x22] a @ [CHR 0x22] else a) argv)"

section \<open>File operations\<close>

definition create_dir_all :: "host \<Rightarrow> path \<Rightarrow> sys \<Rightarrow> (io_error + unit) \<times> sys" where
  "create_dir_all h p s = (case ho_io h ''create_dir_all'' p of
     Some e \<Rightarrow> (Inl (OtherError e), s)
   | None \<Rightarrow> (Inr (), s\<lparr>sy_files := (\<lambda>q. if below q p \<and> sy_files s q = None then Some Dir else sy_files s q)\<rparr>))"

definition fs_write :: "host \<Rightarrow> path \<Rightarrow> string \<Rightarrow> sys \<Rightarrow> (io_error + unit) \<times> sys" where
  "fs_write h p content s = (case ho_io h ''write'' p of
     Some e \<Rightarrow> (Inl (OtherError e), s)
   | None \<Rightarrow> (Inr (), s\<lparr>sy_files := (sy_files s)(p \<mapsto> File content)\<rparr>))"

definition read_to_string :: "host \<Rightarrow> path \<Rightarrow> files \<Rightarrow> io_error + string" where
  "read_to_string h p fs = (case ho_io h ''read'' p of
     Some e \<Rightarrow> Inl (OtherError e)
   | None \<Rightarrow> (case fs p of Some (File content) \<Rightarrow> Inr content | _ \<Rightarrow> Inl NotFound))"

definition fs_rename :: "host \<Rightarrow> path \<Rightarrow> path \<Rightarrow> sys \<Rightarrow> (io_error + unit) \<times> sys" where
  "fs_rename h p q s = (case ho_io h ''rename'' p of
     Some e \<Rightarrow> (Inl (OtherError e), s)
   | None \<Rightarrow> (case sy_files s p of
       None \<Rightarrow> (Inl NotFound, s)
     | Some n \<Rightarrow> (Inr (), s\<lparr>sy_files := (sy_files s)(p := None, q \<mapsto> n)\<rparr>)))"

definition remove_file :: "host \<Rightarrow> path \<Rightarrow> sys \<Rightarrow> (io_error + unit) \<times> sys" where
  "remove_file h p s = (case ho_io h ''remove_file'' p of
     Some e \<Rightarrow> (Inl (OtherError e), s)
   | None \<Rightarrow> (if is_file (sy_files s) p then (Inr (), s\<lparr>sy_files := (sy_files s)(p := None)\<rparr>) else (Inl NotFound, s)))"

definition remove_dir_all :: "host \<Rightarrow> path \<Rightarrow> sys \<Rightarrow> (io_error + unit) \<times> sys" where
  "remove_dir_all h d s = (case ho_io h ''remove_dir_all'' d of
     Some e \<Rightarrow> (Inl (OtherError e), s)
   | None \<Rightarrow> (if sy_files s d = None then (Inl NotFound, s)
       else (Inr (), s\<lparr>sy_files := (\<lambda>q. if below d q then None else sy_files s q)\<rparr>)))"

definition fs_copy :: "host \<Rightarrow> path \<Rightarrow> path \<Rightarrow> sys \<Rightarrow> (io_error + unit) \<times> sys" where
  "fs_copy h p q s = (case ho_io h ''copy'' q of
     Some e \<Rightarrow> (Inl (OtherError e), s)
   | None \<Rightarrow> (case sy_files s p of
       Some (File content) \<Rightarrow> (Inr (), s\<lparr>sy_files := (sy_files s)(q \<mapsto> File content)\<rparr>)
     | _ \<Rightarrow> (Inl NotFound, s)))"

text \<open>\<^verbatim>\<open>OpenOptions::new().write(true).create_new(true).open(p)\<close>\<close>

definition create_new :: "host \<Rightarrow> path \<Rightarrow> sys \<Rightarrow> (io_error + unit) \<times> sys" where
  "create_new h p s = (if path_exists (sy_files s) p then (Inl AlreadyExists, s)
     else (case ho_io h ''create_new'' p of
       Some e \<Rightarrow> (Inl (OtherError e), s)
     | None \<Rightarrow> (Inr (), s\<lparr>sy_files := (sy_files s)(p \<mapsto> File [])\<rparr>)))"

named_theorems file_ops \<open>the definitions of the file operations\<close>

lemmas [file_ops] = create_dir_all_def fs_write_def fs_rename_def remove_file_def
  remove_dir_all_def fs_copy_def create_new_def

text \<open>No file operation starts a process or talks to QEMU.\<close>

lemma file_op_log [simp]:
  "sy_log (snd (create_dir_all h p s)) = sy_log s" "sy_log (snd (fs_write h p c s)) = sy_log s"
  "sy_log (snd (fs_rename h p q s)) = sy_log s" "sy_log (snd (remove_file h p s)) = sy_log s"
  "sy_log (snd (remove_dir_all h p s)) = sy_log s" "sy_log (snd (fs_copy h p q s)) = sy_log s"
  "sy_log (snd (create_new h p s)) = sy_log s"
  by (auto simp: file_ops split: option.splits node.splits)

end
