(* ===== verification/Vm.thy ===== *)
theory Vm imports Host begin

text \<open>
  \<^verbatim>\<open>qemu-center/src/vm.rs\<close>: the QEMU and qemu-img command lines, the names and tags that may appear in
  them, the allocation of host ports, the records of the registry, and the decisions that keep the
  disk of a running VM from being written. The QMP frames that serde\_json renders or parses are
  in the theory of the QMP client.
\<close>

section \<open>Constants\<close>

definition DEFAULT_ADB_PORT_BASE :: u16 where "DEFAULT_ADB_PORT_BASE = 24500"
definition DEFAULT_SSH_PORT_BASE :: u16 where "DEFAULT_SSH_PORT_BASE = 22300"
definition DEFAULT_QMP_PORT_BASE :: u16 where "DEFAULT_QMP_PORT_BASE = 23300"
definition DEFAULT_ADB_PORT_COUNT :: u16 where "DEFAULT_ADB_PORT_COUNT = 32"
definition STATE_VERSION :: u32 where "STATE_VERSION = 1"
definition DISK_DEVICE_ID :: string where "DISK_DEVICE_ID = ''disk0''"
definition BALLOON_DEVICE_ID :: string where "BALLOON_DEVICE_ID = ''balloon0''"
definition WHPX_CPU_SPEC :: string where "WHPX_CPU_SPEC = ''max,-svm,-vmx''"
definition CONSOLE_LOG_FILENAME :: string where "CONSOLE_LOG_FILENAME = ''console.log''"
definition RESERVED_HOST_PORT_RANGES :: "(u16 \<times> u16) list" where
  "RESERVED_HOST_PORT_RANGES = [(5555, 6000)]"

abbreviation show_u16 :: "u16 \<Rightarrow> string" where "show_u16 w \<equiv> dec_string (unat w)"
abbreviation show_u32 :: "u32 \<Rightarrow> string" where "show_u32 w \<equiv> dec_string (unat w)"

section \<open>The QEMU command line\<close>

datatype accel = Whpx | Tcg

primrec as_qemu_arg :: "accel \<Rightarrow> string" where
  "as_qemu_arg Whpx = ''whpx''"
| "as_qemu_arg Tcg = ''tcg''"

datatype detach = Foreground | Daemonize | SpawnDetached

definition platform_default :: "bool \<Rightarrow> detach" where
  "platform_default windows = (if windows then SpawnDetached else Daemonize)"

definition uses_daemonize :: "detach \<Rightarrow> bool" where
  "uses_daemonize d = (d = Daemonize)"

record port_forward =
  pf_host_port :: u16
  pf_guest_port :: u16
  pf_udp :: bool

definition tcp :: "u16 \<Rightarrow> u16 \<Rightarrow> port_forward" where
  "tcp hp gp = \<lparr>pf_host_port = hp, pf_guest_port = gp, pf_udp = False\<rparr>"

definition to_hostfwd :: "port_forward \<Rightarrow> string" where
  "to_hostfwd f = str_replace '' -:'' ''-:''
     ((if pf_udp f then ''udp'' else ''tcp'') @ ''::'' @ show_u16 (pf_host_port f) @ '' -:'' @ show_u16 (pf_guest_port f))"

definition hostfwd_rules :: "u16 \<Rightarrow> u16 list \<Rightarrow> port_forward list" where
  "hostfwd_rules ssh_host_port adb_ports = tcp ssh_host_port 22 # map (\<lambda>p. tcp p p) adb_ports"

definition netdev_user_arg :: "u16 \<Rightarrow> u16 list \<Rightarrow> string" where
  "netdev_user_arg ssh_host_port adb_ports =
     ''user,id=net0'' @ concat (map (\<lambda>r. '',hostfwd='' @ to_hostfwd r) (hostfwd_rules ssh_host_port adb_ports))"

record launch_options =
  lo_qemu_bin :: string
  lo_name :: string
  lo_vcpus :: u16
  lo_mem_mib :: u32
  lo_accel :: accel
  lo_detach :: detach
  lo_disk :: path
  lo_seed_image :: "path option"
  lo_ssh_host_port :: u16
  lo_adb_ports :: "u16 list"
  lo_qmp_host_port :: u16

definition console_log_path :: "path \<Rightarrow> path" where
  "console_log_path disk = (case path_parent disk of
     Some dir \<Rightarrow> if dir \<noteq> Path [] [] then path_join dir CONSOLE_LOG_FILENAME else Path [] [CONSOLE_LOG_FILENAME]
   | None \<Rightarrow> Path [] [CONSOLE_LOG_FILENAME])"

definition qemu_path_arg :: "char \<Rightarrow> path \<Rightarrow> string" where
  "qemu_path_arg sep p = str_replace [CHR 0x5C] ''/'' (display sep p)"

definition qemu_command :: "char \<Rightarrow> launch_options \<Rightarrow> string list" where
  "qemu_command sep lo =
    [lo_qemu_bin lo, ''-name'', ''qemu-center-'' @ lo_name lo, ''-machine'', ''q35'',
     ''-accel'', as_qemu_arg (lo_accel lo)]
    @ (if lo_accel lo = Whpx then [''-cpu'', WHPX_CPU_SPEC] else [])
    @ [''-m'', show_u32 (lo_mem_mib lo), ''-smp'', show_u16 (lo_vcpus lo),
       ''-drive'', ''file='' @ display sep (lo_disk lo) @ '',if=virtio,format=qcow2,cache=writeback,id='' @ DISK_DEVICE_ID]
    @ (case lo_seed_image lo of
         Some seed \<Rightarrow> [''-drive'', ''file='' @ display sep seed @ '',if=virtio,format=raw,read-only=on'']
       | None \<Rightarrow> [])
    @ [''-device'', ''virtio-rng-pci'', ''-device'', ''virtio-balloon-pci,id='' @ BALLOON_DEVICE_ID,
       ''-netdev'', netdev_user_arg (lo_ssh_host_port lo) (lo_adb_ports lo),
       ''-device'', ''virtio-net-pci,netdev=net0'', ''-display'', ''none'',
       ''-serial'', ''file:'' @ qemu_path_arg sep (console_log_path (lo_disk lo)),
       ''-qmp'', ''tcp:127.0.0.1:'' @ show_u16 (lo_qmp_host_port lo) @ '',server=on,wait=off'']
    @ (if uses_daemonize (lo_detach lo) then [''-daemonize''] else [])"

definition qemu_binary_name :: "bool \<Rightarrow> string" where
  "qemu_binary_name windows = (if windows then ''qemu-system-x86_64.exe'' else ''qemu-system-x86_64'')"

section \<open>The qemu-img command lines\<close>

definition qemu_img_create :: "char \<Rightarrow> string \<Rightarrow> path \<Rightarrow> u32 \<Rightarrow> string list" where
  "qemu_img_create sep bin p size_gib =
     [bin, ''create'', ''-f'', ''qcow2'', display sep p, show_u32 size_gib @ ''G'']"

definition qemu_img_create_overlay :: "char \<Rightarrow> string \<Rightarrow> path \<Rightarrow> path \<Rightarrow> u32 option \<Rightarrow> string list" where
  "qemu_img_create_overlay sep bin p base size_gib =
     [bin, ''create'', ''-f'', ''qcow2'', ''-b'', display sep base, ''-F'', ''qcow2'', display sep p]
     @ (case size_gib of Some g \<Rightarrow> [show_u32 g @ ''G''] | None \<Rightarrow> [])"

definition qemu_img_snapshot_create :: "char \<Rightarrow> string \<Rightarrow> path \<Rightarrow> string \<Rightarrow> string list" where
  "qemu_img_snapshot_create sep bin disk tag = [bin, ''snapshot'', ''-c'', tag, display sep disk]"

definition qemu_img_snapshot_delete :: "char \<Rightarrow> string \<Rightarrow> path \<Rightarrow> string \<Rightarrow> string list" where
  "qemu_img_snapshot_delete sep bin disk tag = [bin, ''snapshot'', ''-d'', tag, display sep disk]"

definition qemu_img_snapshot_apply :: "char \<Rightarrow> string \<Rightarrow> path \<Rightarrow> string \<Rightarrow> string list" where
  "qemu_img_snapshot_apply sep bin disk tag = [bin, ''snapshot'', ''-a'', tag, display sep disk]"

definition qemu_img_info :: "char \<Rightarrow> string \<Rightarrow> path \<Rightarrow> string list" where
  "qemu_img_info sep bin disk = [bin, ''info'', ''--output=json'', display sep disk]"

section \<open>Names\<close>

definition validate_snapshot_tag :: "string \<Rightarrow> message + unit" where
  "validate_snapshot_tag tag =
    (if tag = [] \<or> length tag > 32 then Inl (text_message ''snapshot tag must be 1..=32 chars'')
     else if \<not> list_all (\<lambda>c. is_ascii_alphanumeric c \<or> c = CHR ''-'' \<or> c = CHR ''_'' \<or> c = CHR ''.'') tag
     then Inl (Message ''snapshot tag {:?} has unsafe characters'' [tag])
     else Inr ())"

definition validate_vm_name :: "string \<Rightarrow> message + unit" where
  "validate_vm_name name =
    (if name = [] \<or> length name > 24 then Inl (text_message ''VM name must be 1..=24 chars'')
     else if \<not> list_all (\<lambda>c. is_ascii_lowercase c \<or> is_ascii_digit c \<or> c = CHR ''-'') name
     then Inl (Message ''VM name {:?} must be lowercase [a-z0-9-] (it is used as a path component)'' [name])
     else if starts_with name ''-'' \<or> ends_with name ''-''
     then Inl (text_message (''VM name must not start or end with '' @ [CHR 0x27, CHR ''-'', CHR 0x27]))
     else Inr ())"

section \<open>Host ports\<close>

datatype port_error = ZeroCount | Exhausted u16 u16

definition port_is_reserved :: "u16 \<Rightarrow> bool" where
  "port_is_reserved p = list_ex (\<lambda>(lo, hi). p \<ge> lo \<and> p \<le> hi) RESERVED_HOST_PORT_RANGES"

definition port_free :: "u16 set \<Rightarrow> u16 \<Rightarrow> bool" where
  "port_free used p = (p \<notin> used \<and> \<not> port_is_reserved p)"

text \<open>\<^verbatim>\<open>(base..=u16::MAX).find(p)\<close>\<close>

function find_port :: "(u16 \<Rightarrow> bool) \<Rightarrow> u16 \<Rightarrow> u16 option" where
  "find_port P base = (if P base then Some base else if base = - 1 then None else find_port P (base + 1))"
  by pat_completeness auto

lemma unat_Suc_u16: "w \<noteq> - 1 \<Longrightarrow> unat (w + 1 :: u16) = Suc (unat w)"
proof -
  assume "w \<noteq> - 1"
  then have "1 + w \<noteq> 0" by (metis add.commute add_neg_numeral_special(8) diff_eq_eq diff_minus_eq_add minus_minus)
  then show ?thesis using unatSuc [of w] by (simp add: add.commute)
qed

lemma unat_u16_less: "unat (w :: u16) < 65536"
  using unsigned_less [of w] by simp

termination find_port
proof (relation "measure (\<lambda>(P, base). 65536 - unat base)")
  fix P :: "u16 \<Rightarrow> bool" and base :: u16
  assume "base \<noteq> - 1"
  then have "unat (base + 1) = Suc (unat base)" by (rule unat_Suc_u16)
  then show "((P, base + 1), P, base) \<in> measure (\<lambda>(P, base). 65536 - unat base)"
    using unat_u16_less [of "base + 1"] by simp
qed simp

declare find_port.simps [simp del]

definition next_free_port :: "u16 set \<Rightarrow> u16 \<Rightarrow> u16 option" where
  "next_free_port used base = find_port (port_free used) base"

text \<open>The range \<^verbatim>\<open>a..b\<close> of \<^verbatim>\<open>u16\<close>: empty when \<open>b\<close> does not exceed \<open>a\<close>.\<close>

definition port_range :: "u16 \<Rightarrow> u16 \<Rightarrow> u16 list" where
  "port_range a b = map of_nat [unat a..<unat b]"

text \<open>
  \<^verbatim>\<open>allocate_port_block\<close>. The end \<^verbatim>\<open>start + count\<close> of the range is a \<^verbatim>\<open>u16\<close>: \<open>checks\<close> says whether the
  program is built with overflow checks (then the addition panics, \<open>None\<close>) or without (then it wraps).
\<close>

function port_block_loop :: "bool \<Rightarrow> u16 set \<Rightarrow> u16 \<Rightarrow> u16 \<Rightarrow> u16 \<Rightarrow> (port_error + u16 list) option" where
  "port_block_loop checks used base count start =
    (if unat start + unat count - 1 \<le> 65535
     then (if checks \<and> unat start + unat count > 65535 then None
           else (let block = port_range start (start + count)
                 in if list_all (port_free used) block then Some (Inr block)
                    else port_block_loop checks used base count (start + 1)))
     else Some (Inl (Exhausted base count)))"
  by pat_completeness auto

termination
proof (relation "measure (\<lambda>(checks, used, base, count, start). 65536 - unat start)")
  fix checks :: bool and used :: "u16 set" and base count start :: u16 and block
  assume b: "block = port_range start (start + count)" and n: "\<not> list_all (port_free used) block"
  then have "unat start < unat (start + count)" by (cases "unat start < unat (start + count)") (simp_all add: port_range_def)
  then have "start \<noteq> - 1" using unat_u16_less [of "start + count"] by (auto simp: unsigned_minus_1_eq_mask mask_eq_exp_minus_1)
  then have "unat (start + 1) = Suc (unat start)" by (rule unat_Suc_u16)
  then show "((checks, used, base, count, start + 1), checks, used, base, count, start)
      \<in> measure (\<lambda>(checks, used, base, count, start). 65536 - unat start)"
    using unat_u16_less [of "start + 1"] by simp
qed simp

declare port_block_loop.simps [simp del]

definition allocate_port_block :: "bool \<Rightarrow> u16 set \<Rightarrow> u16 \<Rightarrow> u16 \<Rightarrow> (port_error + u16 list) option" where
  "allocate_port_block checks used base count =
    (if count = 0 then Some (Inl ZeroCount) else port_block_loop checks used base count base)"

section \<open>The registry\<close>

record cloud_init_config =
  ci_hostname :: string
  ci_ssh_pubkey :: string
  ci_docker_install :: string

text \<open>
  A \<^verbatim>\<open>BTreeMap\<close> is the list of its entries in the order of the keys, the lexicographic order of their
  bytes.
\<close>

fun str_less :: "string \<Rightarrow> string \<Rightarrow> bool" where
  "str_less [] t = (t \<noteq> [])"
| "str_less (a # s) [] = False"
| "str_less (a # s) (b # t) = ((of_char a :: nat) < of_char b \<or> a = b \<and> str_less s t)"

fun btree_insert :: "string \<Rightarrow> 'v \<Rightarrow> (string \<times> 'v) list \<Rightarrow> (string \<times> 'v) list" where
  "btree_insert k v [] = [(k, v)]"
| "btree_insert k v ((k', v') # kvs) =
    (if k = k' then (k, v) # kvs
     else if str_less k k' then (k, v) # (k', v') # kvs
     else (k', v') # btree_insert k v kvs)"

record vm_entry =
  ve_name :: string
  ve_base_image :: "path option"
  ve_disk :: path
  ve_vcpus :: u16
  ve_mem_mib :: u32
  ve_accel :: accel
  ve_ssh_host_port :: u16
  ve_qmp_host_port :: u16
  ve_adb_ports :: "u16 list"
  ve_adb_assignments :: "(string \<times> u16) list"
  ve_snapshots :: "string list"
  ve_created_at_unix :: nat
  ve_cloud_init :: cloud_init_config
  ve_redroid_image :: string

definition assigned_ports :: "vm_entry \<Rightarrow> u16 set" where
  "assigned_ports v = set (map snd (ve_adb_assignments v))"

definition next_free_adb_port :: "vm_entry \<Rightarrow> u16 option" where
  "next_free_adb_port v = find (\<lambda>p. p \<notin> assigned_ports v) (ve_adb_ports v)"

record registry =
  rg_version :: u32
  rg_vms :: "vm_entry list"

definition default_registry :: registry where
  "default_registry = \<lparr>rg_version = STATE_VERSION, rg_vms = []\<rparr>"

definition registry_get :: "string \<Rightarrow> registry \<Rightarrow> vm_entry option" where
  "registry_get name r = find (\<lambda>v. ve_name v = name) (rg_vms r)"

text \<open>\<^verbatim>\<open>get_mut(name)\<close> followed by a change of the entry: the first entry of that name.\<close>

fun update_first :: "('a \<Rightarrow> bool) \<Rightarrow> ('a \<Rightarrow> 'a) \<Rightarrow> 'a list \<Rightarrow> 'a list" where
  "update_first P f [] = []"
| "update_first P f (x # xs) = (if P x then f x # xs else x # update_first P f xs)"

definition registry_update :: "string \<Rightarrow> (vm_entry \<Rightarrow> vm_entry) \<Rightarrow> registry \<Rightarrow> registry" where
  "registry_update name f r = r\<lparr>rg_vms := update_first (\<lambda>v. ve_name v = name) f (rg_vms r)\<rparr>"

definition registry_contains :: "string \<Rightarrow> registry \<Rightarrow> bool" where
  "registry_contains name r = (registry_get name r \<noteq> None)"

definition entry_ports :: "vm_entry \<Rightarrow> u16 list" where
  "entry_ports v = ve_ssh_host_port v # ve_qmp_host_port v # ve_adb_ports v"

definition used_ports :: "registry \<Rightarrow> u16 set" where
  "used_ports r = set (concat (map entry_ports (rg_vms r)))"

definition registry_path :: "path \<Rightarrow> path" where
  "registry_path state_dir = path_join state_dir ''state.json''"

definition vm_dir :: "path \<Rightarrow> string \<Rightarrow> path" where
  "vm_dir state_dir name = path_join (path_join state_dir ''vms'') name"

definition vm_disk_path :: "path \<Rightarrow> string \<Rightarrow> path" where
  "vm_disk_path state_dir name = path_join (vm_dir state_dir name) ''disk.qcow2''"

definition vm_seed_image :: "path \<Rightarrow> string \<Rightarrow> path" where
  "vm_seed_image state_dir name = path_join (vm_dir state_dir name) ''seed.img''"

definition vm_ssh_key_path :: "path \<Rightarrow> string \<Rightarrow> path" where
  "vm_ssh_key_path state_dir name = path_join (path_join state_dir ''keys'') (name @ ''_ed25519'')"

definition vm_ssh_key_pub_path :: "path \<Rightarrow> string \<Rightarrow> path" where
  "vm_ssh_key_pub_path state_dir name = path_join (path_join state_dir ''keys'') (name @ ''_ed25519.pub'')"

definition vm_known_hosts_path :: "path \<Rightarrow> string \<Rightarrow> path" where
  "vm_known_hosts_path state_dir name = path_join (vm_dir state_dir name) ''known_hosts''"

definition vm_qemu_log_path :: "path \<Rightarrow> string \<Rightarrow> path" where
  "vm_qemu_log_path state_dir name = path_join (vm_dir state_dir name) ''qemu.log''"

definition vm_pid_path :: "path \<Rightarrow> string \<Rightarrow> path" where
  "vm_pid_path state_dir name = path_join (vm_dir state_dir name) ''qemu.pid''"

definition vm_console_log_path :: "path \<Rightarrow> string \<Rightarrow> path" where
  "vm_console_log_path state_dir name = console_log_path (vm_disk_path state_dir name)"

text \<open>serde\_json on the registry: what renders it and what reads it back.\<close>

record codec =
  to_string_pretty :: "registry \<Rightarrow> string + string"
  from_str :: "string \<Rightarrow> string + registry"

definition load_registry :: "codec \<Rightarrow> host \<Rightarrow> path \<Rightarrow> files \<Rightarrow> message + registry" where
  "load_registry cd h state_dir fs =
    (let p = registry_path state_dir in
     if \<not> path_exists fs p then Inr default_registry
     else and_then (map_err (\<lambda>e. Message ''read {}: {}'' [display (ho_sep h) p, io_text e]) (read_to_string h p fs)) (\<lambda>raw.
       if blank raw then Inr default_registry
       else map_err (\<lambda>e. Message ''parse {}: {}'' [display (ho_sep h) p, e]) (from_str cd raw)))"

definition save_registry :: "codec \<Rightarrow> host \<Rightarrow> path \<Rightarrow> registry \<Rightarrow> sys \<Rightarrow> (message + unit) \<times> sys" where
  "save_registry cd h state_dir reg s =
    (case create_dir_all h state_dir s of
       (Inl e, s1) \<Rightarrow> (Inl (Message ''mkdir {}: {}'' [display (ho_sep h) state_dir, io_text e]), s1)
     | (Inr _, s1) \<Rightarrow>
       (let p = registry_path state_dir; tmp = path_join state_dir ''state.json.tmp'' in
        case to_string_pretty cd reg of
          Inl e \<Rightarrow> (Inl (Message ''serialize: {}'' [e]), s1)
        | Inr body \<Rightarrow> (case fs_write h tmp body s1 of
            (Inl e, s2) \<Rightarrow> (Inl (Message ''write {}: {}'' [display (ho_sep h) tmp, io_text e]), s2)
          | (Inr _, s2) \<Rightarrow> (case fs_rename h tmp p s2 of
              (Inl e, s3) \<Rightarrow> (Inl (Message ''rename {} -> {}: {}''
                 [display (ho_sep h) tmp, display (ho_sep h) p, io_text e]), s3)
            | (Inr _, s3) \<Rightarrow> (Inr (), s3)))))"

definition default_redroid_image :: string where
  "default_redroid_image = []"

section \<open>What may be done to a disk\<close>

datatype qmp_probe = Answered | Refused | TimedOut

datatype vm_liveness = Running | Stopped | Unknown

primrec vm_liveness_from_qmp_probe :: "qmp_probe \<Rightarrow> vm_liveness" where
  "vm_liveness_from_qmp_probe Answered = Running"
| "vm_liveness_from_qmp_probe Refused = Stopped"
| "vm_liveness_from_qmp_probe TimedOut = Unknown"

definition vm_liveness_from_qmp_probe_with_host_process_check :: "qmp_probe \<Rightarrow> bool option \<Rightarrow> vm_liveness" where
  "vm_liveness_from_qmp_probe_with_host_process_check probe host_has_qemu_process =
    (if probe = TimedOut \<and> host_has_qemu_process = Some False then Stopped
     else vm_liveness_from_qmp_probe probe)"

definition MIN_VM_MEMORY_MIB :: u32 where "MIN_VM_MEMORY_MIB = 1536"
definition MAX_VM_MEMORY_MIB :: u32 where "MAX_VM_MEMORY_MIB = 16384"
definition VM_START_HEADROOM_MIB :: u64 where "VM_START_HEADROOM_MIB = 1024"
definition BYTES_PER_MIB :: u64 where "BYTES_PER_MIB = 1024 * 1024"

definition saturating_mul_u64 :: "u64 \<Rightarrow> u64 \<Rightarrow> u64" where
  "saturating_mul_u64 a b = (if unat a * unat b < 18446744073709551616 then a * b else - 1)"

definition should_block_vm_start :: "u64 option \<Rightarrow> u32 \<Rightarrow> bool" where
  "should_block_vm_start host_available_bytes vm_memory_mib =
    (case host_available_bytes of
       None \<Rightarrow> False
     | Some available \<Rightarrow>
       if vm_memory_mib = 0 then True
       else available < saturating_mul_u64 (saturating_add_u64 (ucast vm_memory_mib) VM_START_HEADROOM_MIB) BYTES_PER_MIB)"

definition vm_start_required_memory_mib :: "u32 \<Rightarrow> u64" where
  "vm_start_required_memory_mib vm_memory_mib = saturating_add_u64 (ucast vm_memory_mib) VM_START_HEADROOM_MIB"

definition validate_memory_reconfiguration :: "vm_liveness \<Rightarrow> u32 \<Rightarrow> message + unit" where
  "validate_memory_reconfiguration liveness memory_mib =
    (case liveness of
       Running \<Rightarrow> Inl (text_message ''cannot change VM memory while QEMU is running'')
     | Unknown \<Rightarrow> Inl (text_message ''cannot change VM memory while QEMU state is unknown'')
     | Stopped \<Rightarrow>
       if \<not> (MIN_VM_MEMORY_MIB \<le> memory_mib \<and> memory_mib \<le> MAX_VM_MEMORY_MIB)
       then Inl (Message ''VM memory must be between {} and {} MiB'' [show_u32 MIN_VM_MEMORY_MIB, show_u32 MAX_VM_MEMORY_MIB])
       else Inr ())"

primrec clone_plan :: "vm_liveness \<Rightarrow> message + unit" where
  "clone_plan Stopped = Inr ()"
| "clone_plan Running = Inl (text_message ''cannot clone a VM while QEMU is running'')"
| "clone_plan Unknown = Inl (text_message ''cannot clone a VM while QEMU state is unknown'')"

primrec delete_plan :: "vm_liveness \<Rightarrow> message + unit" where
  "delete_plan Stopped = Inr ()"
| "delete_plan Running = Inl (text_message ''cannot delete a VM while QEMU is running'')"
| "delete_plan Unknown = Inl (text_message ''cannot delete a VM while QEMU state is unknown'')"

definition delete_plan_with_shutdown_proof ::
    "vm_liveness \<Rightarrow> bool \<Rightarrow> bool option \<Rightarrow> bool \<Rightarrow> message + unit" where
  "delete_plan_with_shutdown_proof liveness recorded_pid process_alive qmp_port_free =
    (if liveness \<noteq> Unknown then delete_plan liveness
     else if recorded_pid \<and> process_alive = Some False \<and> qmp_port_free then Inr ()
     else Inl (text_message ''cannot delete a VM while QEMU state is unknown''))"

datatype snapshot_plan = QemuImg | QmpInternal | Skip string

definition snapshot_plan_for :: "vm_liveness \<Rightarrow> bool \<Rightarrow> snapshot_plan" where
  "snapshot_plan_for liveness qmp_usable =
    (case liveness of
       Stopped \<Rightarrow> QemuImg
     | Running \<Rightarrow> if qmp_usable then QmpInternal
         else Skip (''the VM is running but its QMP endpoint is unusable: refusing to write ''
           @ ''to the live disk with qemu-img (that corrupts qcow2 images)'')
     | Unknown \<Rightarrow> Skip (''could not prove the disk is idle (no QMP answer): refusing to write ''
         @ ''to a possibly live disk with qemu-img''))"

end
