(* ===== verification/Redroid.thy ===== *)
theory Redroid imports Vm Complex_Main begin

text \<open>
  \<^verbatim>\<open>qemu-center/src/redroid.rs\<close>: the docker command lines of the redroid containers inside a guest,
  the validation of what goes into them, the resource profiles and budgets, and the planner of
  the memory reclaim. An \<^verbatim>\<open>f64\<close> is a rational number or not finite; how a fractional one is printed
  is a parameter.
\<close>

section \<open>Arithmetic\<close>

definition saturating_add_u32 :: "u32 \<Rightarrow> u32 \<Rightarrow> u32" where
  "saturating_add_u32 a b = (if unat a + unat b < 4294967296 then a + b else - 1)"

definition saturating_sub_u32 :: "u32 \<Rightarrow> u32 \<Rightarrow> u32" where
  "saturating_sub_u32 a b = (if a \<le> b then 0 else a - b)"

definition saturating_mul_u32 :: "u32 \<Rightarrow> u32 \<Rightarrow> u32" where
  "saturating_mul_u32 a b = (if unat a * unat b < 4294967296 then a * b else - 1)"

definition clamp_u32 :: "u32 \<Rightarrow> u32 \<Rightarrow> u32 \<Rightarrow> u32" where
  "clamp_u32 x lo hi = (if x < lo then lo else if x > hi then hi else x)"

datatype f64 = Finite rat | NotFinite

section \<open>Instances\<close>

datatype gpu_mode = Guest | Host

primrec androidboot_value :: "gpu_mode \<Rightarrow> string" where
  "androidboot_value Guest = ''androidboot.redroid_gpu_mode=guest''"
| "androidboot_value Host = ''androidboot.redroid_gpu_mode=host''"

record redroid_spec =
  rs_name :: string
  rs_adb_port :: u16
  rs_cpus :: f64
  rs_memory_mib :: u32
  rs_width :: u32
  rs_height :: u32
  rs_dpi :: u32
  rs_gpu_mode :: gpu_mode
  rs_image :: string

definition container_name :: "string \<Rightarrow> string" where
  "container_name name = ''qc-'' @ name"

definition image_char :: "char \<Rightarrow> bool" where
  "image_char c = (is_ascii_alphanumeric c \<or> c \<in> set ''._-/:'')"

definition validate_image_ref :: "string \<Rightarrow> message + unit" where
  "validate_image_ref img =
    (case split_once ''@sha256:'' img of
       None \<Rightarrow> Inl (text_message ''redroid image must use an immutable @sha256 digest'')
     | Some (name, digest) \<Rightarrow>
       if name = [] \<or> \<not> is_ascii_alphanumeric (hd name) \<or> \<not> list_all image_char name
          \<or> length digest \<noteq> 64 \<or> \<not> list_all is_ascii_hexdigit digest
       then Inl (text_message ''redroid image digest is invalid'')
       else Inr ())"

definition data_volume_name :: "string \<Rightarrow> string" where
  "data_volume_name name = ''qc-'' @ name @ ''-data''"

definition validate_instance_name :: "string \<Rightarrow> message + unit" where
  "validate_instance_name name =
    (if name = [] \<or> length name > 24 then Inl (text_message ''instance name must be 1..=24 chars'')
     else if \<not> list_all (\<lambda>c. is_ascii_lowercase c \<or> is_ascii_digit c \<or> c = CHR ''-'') name
     then Inl (Message ''instance name {:?} must be lowercase [a-z0-9-]'' [name])
     else if starts_with name ''-'' \<or> ends_with name ''-''
     then Inl (text_message (''instance name must not start or end with '' @ [CHR 0x27, CHR ''-'', CHR 0x27]))
     else Inr ())"

section \<open>Docker command lines\<close>

definition docker_volume_create_args :: "string \<Rightarrow> string list" where
  "docker_volume_create_args name = [''volume'', ''create'', data_volume_name name]"

text \<open>\<^verbatim>\<open>cpus as u64\<close> truncates and saturates; \<open>pr\<close> is the display of \<^verbatim>\<open>f64\<close>.\<close>

definition format_cpus :: "(f64 \<Rightarrow> string) \<Rightarrow> f64 \<Rightarrow> string" where
  "format_cpus pr cpus = (case cpus of
     Finite x \<Rightarrow>
       let whole = (if x < 0 then - \<lfloor>- x\<rfloor> else \<lfloor>x\<rfloor>) in
       if \<bar>x - of_int whole\<bar> < 1 / 4503599627370496
       then dec_string (min (nat whole) 18446744073709551615)
       else pr cpus
   | NotFinite \<Rightarrow> pr cpus)"

definition redroid_create_args :: "(f64 \<Rightarrow> string) \<Rightarrow> redroid_spec \<Rightarrow> string list" where
  "redroid_create_args pr spec =
    [''run'', ''-d'', ''--name'', container_name (rs_name spec), ''--privileged'',
     ''--cpus'', format_cpus pr (rs_cpus spec), ''--memory'', show_u32 (rs_memory_mib spec) @ ''m'',
     ''-v'', data_volume_name (rs_name spec) @ '':/data'',
     ''-p'', ''0.0.0.0:'' @ show_u16 (rs_adb_port spec) @ '':5555'',
     rs_image spec,
     ''androidboot.redroid_width='' @ show_u32 (rs_width spec),
     ''androidboot.redroid_height='' @ show_u32 (rs_height spec),
     ''androidboot.redroid_dpi='' @ show_u32 (rs_dpi spec),
     androidboot_value (rs_gpu_mode spec)]"

definition redroid_create_args_with_mounts ::
    "(f64 \<Rightarrow> string) \<Rightarrow> redroid_spec \<Rightarrow> string list \<Rightarrow> string option \<Rightarrow> string list" where
  "redroid_create_args_with_mounts pr spec binds cgroup_parent =
    (let args = redroid_create_args pr spec;
         image_index = length args - 5;
         options = [''--restart'', ''unless-stopped'']
           @ concat (map (\<lambda>bind. [''--volume'', bind]) binds)
           @ (case cgroup_parent of Some parent \<Rightarrow> [''--cgroup-parent'', parent] | None \<Rightarrow> [])
     in take image_index args @ options @ drop image_index args)"

definition docker_lifecycle_args :: "string \<Rightarrow> string \<Rightarrow> string list" where
  "docker_lifecycle_args action name = [action, container_name name]"

definition boot_completed_args :: "string \<Rightarrow> string list" where
  "boot_completed_args name = [''exec'', container_name name, ''getprop'', ''sys.boot_completed'']"

definition docker_ps_args :: "string list" where
  "docker_ps_args = [''ps'', ''-a'', ''--filter'', ''name=^qc-'', ''--format'',
     ''{{.Names}}'' @ [CHR 0x5C] @ ''t{{.Status}}'' @ [CHR 0x5C] @ ''t{{.Ports}}'']"

section \<open>Memory reclaim\<close>

record redroid_runtime_stats =
  rt_instance :: string
  rt_container :: string
  rt_status :: string
  rt_memory_limit_bytes :: "u64 option"
  rt_memory_current_bytes :: "u64 option"
  rt_memory_peak_bytes :: "u64 option"
  rt_oom_kills :: "u64 option"
  rt_cpu_usage_percent :: "f64 option"
  rt_boot_completed :: "bool option"

definition redroid_stats_args :: "string \<Rightarrow> string option \<Rightarrow> string list" where
  "redroid_stats_args vm_name inst = [''redroid'', ''stats'', vm_name]
     @ (case inst of Some i \<Rightarrow> if i \<noteq> [] then [i] else [] | None \<Rightarrow> []) @ [''--json'']"

definition MIN_BALLOON_TARGET_MIB :: u32 where "MIN_BALLOON_TARGET_MIB = 1536"
definition BALLOON_QUANTUM_MIB :: u32 where "BALLOON_QUANTUM_MIB = 256"
definition BALLOON_BASE_RESERVE_MIB :: u32 where "BALLOON_BASE_RESERVE_MIB = 768"
definition BALLOON_PER_INSTANCE_RESERVE_MIB :: u32 where "BALLOON_PER_INSTANCE_RESERVE_MIB = 512"

datatype reclaim_plan = Reclaim u32 u32 u32 | Noop string | UnknownMetrics string

definition reclaim_active_status :: "string \<Rightarrow> bool" where
  "reclaim_active_status status =
    (let n = to_ascii_lowercase (trim status) in n = ''running'' \<or> n = ''up'' \<or> starts_with n ''up '')"

definition reclaim_inactive_status :: "string \<Rightarrow> bool" where
  "reclaim_inactive_status status =
    (to_ascii_lowercase (trim status) \<in> set [''exited'', ''created'', ''dead'', ''paused'']
     \<or> starts_with (to_ascii_lowercase (trim status)) ''exited '')"

definition current_mib :: "u64 \<Rightarrow> u32" where
  "current_mib current_bytes =
    ucast (min (saturating_add_u64 current_bytes 1048575 div 1048576) 4294967295)"

fun reclaim_usage :: "u32 \<Rightarrow> u32 \<Rightarrow> redroid_runtime_stats list \<Rightarrow> string + u32 \<times> u32" where
  "reclaim_usage used active [] = Inr (used, active)"
| "reclaim_usage used active (row # rows) =
    (if reclaim_active_status (rt_status row)
     then (case rt_memory_current_bytes row of
         None \<Rightarrow> Inl (rt_instance row)
       | Some current_bytes \<Rightarrow> reclaim_usage (saturating_add_u32 used (current_mib current_bytes)) (saturating_add_u32 active 1) rows)
     else if \<not> reclaim_inactive_status (rt_status row) then Inl (rt_instance row)
     else reclaim_usage used active rows)"

definition plan_memory_reclaim :: "u32 \<Rightarrow> redroid_runtime_stats list \<Rightarrow> reclaim_plan" where
  "plan_memory_reclaim node_mem_mib rows =
    (if node_mem_mib \<le> MIN_BALLOON_TARGET_MIB
     then Noop ''node memory is already at the safe reclaim floor''
     else (case reclaim_usage 0 0 rows of
       Inl i \<Rightarrow> UnknownMetrics i
     | Inr (used_mib, active_instances) \<Rightarrow>
       (let reserve_mib = max BALLOON_BASE_RESERVE_MIB (saturating_mul_u32 active_instances BALLOON_PER_INSTANCE_RESERVE_MIB);
            raw_target = max MIN_BALLOON_TARGET_MIB (saturating_add_u32 used_mib reserve_mib);
            aligned_target = saturating_add_u32 raw_target (BALLOON_QUANTUM_MIB - 1) div BALLOON_QUANTUM_MIB * BALLOON_QUANTUM_MIB;
            target_mib = min aligned_target node_mem_mib
        in if target_mib > saturating_sub_u32 node_mem_mib BALLOON_QUANTUM_MIB
           then Noop ''current usage leaves less than one reclaim quantum''
           else Reclaim target_mib used_mib active_instances)))"

section \<open>Judging guest output\<close>

definition judge_boot_completed :: "string \<Rightarrow> bool" where
  "judge_boot_completed stdout = (trim stdout = ''1'')"

definition judge_container_listed :: "string \<Rightarrow> string \<Rightarrow> bool" where
  "judge_container_listed stdout name =
    list_ex (\<lambda>l. takeWhile (\<lambda>c. c \<noteq> CHR 0x09 \<and> c \<noteq> CHR '' '') l = container_name name) (lines stdout)"

section \<open>Resource profiles\<close>

record instance_defaults =
  id_cpus :: u32
  id_memory_mib :: u32
  id_width :: u32
  id_height :: u32
  id_dpi :: u32
  id_install_gapps :: bool
  id_install_magisk :: bool

datatype resource_profile = Lean | Standard | Full

definition FULL_PROFILE_MIN_NODE_MEMORY_MIB :: u32 where "FULL_PROFILE_MIN_NODE_MEMORY_MIB = 6144"

definition resource_profile_parse :: "string \<Rightarrow> message + resource_profile" where
  "resource_profile_parse value =
    (let v = to_ascii_lowercase (trim value) in
     if v = ''lean'' then Inr Lean
     else if v = ''standard'' \<or> v = [] then Inr Standard
     else if v = ''full'' then Inr Full
     else Inl (Message ''resource profile must be lean, standard, or full (got {:?})'' [v]))"

primrec profile_as_str :: "resource_profile \<Rightarrow> string" where
  "profile_as_str Lean = ''lean''"
| "profile_as_str Standard = ''standard''"
| "profile_as_str Full = ''full''"

definition container_defaults :: "resource_profile \<Rightarrow> u16 \<Rightarrow> u32 \<Rightarrow> instance_defaults" where
  "container_defaults profile node_vcpus node_mem =
    (let node_mem_mib = max node_mem 1024;
         reserved = max (node_mem_mib div 4) 512;
         available = saturating_sub_u32 node_mem_mib reserved;
         vcpus = (ucast node_vcpus :: u32);
         (cpus, memory_mib, gapps, magisk) = (case profile of
           Lean \<Rightarrow> (max (vcpus div 4) 1,
                    clamp_u32 (available div 2) (if node_mem_mib \<ge> 3072 then 1536 else 1024) 4096, False, False)
         | Standard \<Rightarrow> (max (vcpus div 3) 1,
                    clamp_u32 (min (max available 1024) (max (node_mem_mib div 4) 2048)) 1024 8192, False, False)
         | Full \<Rightarrow> (max (vcpus div 2) 1, clamp_u32 (available div 1) 1536 8192, True, True))
     in \<lparr>id_cpus = cpus, id_memory_mib = memory_mib, id_width = 720, id_height = 1280, id_dpi = 320,
         id_install_gapps = gapps, id_install_magisk = magisk\<rparr>)"

datatype resource_budget_error =
  InvalidNodeMemory | InvalidInstanceMemory | InsufficientHeadroom u64 u64 u64

definition validate_resource_budget :: "u32 \<Rightarrow> u32 \<Rightarrow> u32 \<Rightarrow> resource_budget_error + unit" where
  "validate_resource_budget node_memory_mib instance_memory_mib running_instances =
    (if node_memory_mib = 0 then Inl InvalidNodeMemory
     else if instance_memory_mib < 512 then Inl InvalidInstanceMemory
     else (let headroom_mib = (ucast (max (node_memory_mib div 4) 512) :: u64);
               available_mib = saturating_sub_u64 (ucast node_memory_mib) headroom_mib;
               requested_mib = saturating_mul_u64 (ucast instance_memory_mib) (ucast running_instances)
           in if requested_mib > available_mib
              then Inl (InsufficientHeadroom requested_mib available_mib headroom_mib)
              else Inr ()))"

definition defaults_for_node :: "u16 \<Rightarrow> u32 \<Rightarrow> instance_defaults" where
  "defaults_for_node node_vcpus node_mem_mib =
    (let d = container_defaults Standard node_vcpus node_mem_mib in d\<lparr>id_cpus := clamp_u32 (id_cpus d) 1 8\<rparr>)"

definition f64_of_u32 :: "u32 \<Rightarrow> f64" where
  "f64_of_u32 w = Finite (of_nat (unat w))"

definition resolve_instance_resources ::
    "resource_profile \<Rightarrow> u16 \<Rightarrow> u32 \<Rightarrow> f64 option \<Rightarrow> u32 option \<Rightarrow> message + f64 \<times> u32" where
  "resolve_instance_resources profile node_vcpus node_mem_mib cpus_override memory_override =
    (if profile = Full \<and> node_mem_mib < FULL_PROFILE_MIN_NODE_MEMORY_MIB
     then Inl (Message ''full profile requires a node with at least {} MiB; choose lean/standard or a larger node''
            [show_u32 FULL_PROFILE_MIN_NODE_MEMORY_MIB])
     else (let defaults = container_defaults profile node_vcpus node_mem_mib;
               cpus = (case cpus_override of Some c \<Rightarrow> c | None \<Rightarrow> f64_of_u32 (id_cpus defaults));
               memory_mib = (case memory_override of Some m \<Rightarrow> m | None \<Rightarrow> id_memory_mib defaults)
           in if (case cpus of Finite x \<Rightarrow> x \<le> 0 | NotFinite \<Rightarrow> True)
              then Inl (text_message ''cpus must be a finite positive number'')
              else if memory_mib < 512 then Inl (text_message ''memory must be at least 512 MiB'')
              else Inr (cpus, memory_mib)))"

section \<open>Properties\<close>

lemma unat_saturating_add_u32: "unat (saturating_add_u32 a b) = min 4294967295 (unat a + unat b)"
  by (auto simp: saturating_add_u32_def unat_word_ariths unsigned_minus_1_eq_mask mask_eq_exp_minus_1)

lemma unat_saturating_mul_u32: "unat (saturating_mul_u32 a b) = min 4294967295 (unat a * unat b)"
  by (auto simp: saturating_mul_u32_def unat_word_ariths unsigned_minus_1_eq_mask mask_eq_exp_minus_1)

lemma unat_saturating_sub_u32: "unat (saturating_sub_u32 a b) = unat a - unat b"
  by (auto simp: saturating_sub_u32_def word_le_nat_alt unat_sub)

lemma unat_saturating_mul_u64: "unat (saturating_mul_u64 a b) = min 18446744073709551615 (unat a * unat b)"
  by (auto simp: saturating_mul_u64_def unat_word_ariths unsigned_minus_1_eq_mask mask_eq_exp_minus_1)

lemmas sat_unat = unat_saturating_add_u32 unat_saturating_mul_u32 unat_saturating_sub_u32
  unat_saturating_mul_u64 unat_saturating_add_u64 unat_saturating_sub_u64

lemma current_mib_ceil: "unat (current_mib b) = min 4294967295 ((unat b + 1048575) div 1048576)"
proof -
  have "unat (ucast (min w 4294967295 :: u64) :: u32) = min (unat w) 4294967295" for w :: u64
    by (auto simp: min_def word_le_nat_alt unsigned_ucast_eq take_bit_eq_mod)
  then show ?thesis using unat_u64_less [of b]
    by (simp add: current_mib_def unat_div unat_saturating_add_u64)
qed

text \<open>What the planner knows of a row: the memory of a running instance, rounded up to MiB.\<close>

definition known_row :: "redroid_runtime_stats \<Rightarrow> bool" where
  "known_row row = (if reclaim_active_status (rt_status row) then rt_memory_current_bytes row \<noteq> None
     else reclaim_inactive_status (rt_status row))"

definition active_rows :: "redroid_runtime_stats list \<Rightarrow> redroid_runtime_stats list" where
  "active_rows rows = filter (\<lambda>row. reclaim_active_status (rt_status row)) rows"

definition row_mib :: "redroid_runtime_stats \<Rightarrow> nat" where
  "row_mib row = (case rt_memory_current_bytes row of
     Some b \<Rightarrow> (unat b + 1048575) div 1048576 | None \<Rightarrow> 0)"

lemma min_add_min: "min m (a + min m b) = min m (a + b)" for a b m :: nat
  by (simp add: min_def)

lemma min_min_add: "min m (min m a + b) = min m (a + b)" for a b m :: nat
  by (simp add: min_def)

lemma reclaim_usage_cases:
  "case reclaim_usage used active rows of
     Inl i \<Rightarrow> (\<exists>row \<in> set rows. rt_instance row = i \<and> \<not> known_row row)
   | Inr (u, a) \<Rightarrow> list_all known_row rows
       \<and> unat u = min 4294967295 (unat used + sum_list (map row_mib (active_rows rows)))
       \<and> unat a = min 4294967295 (unat active + length (active_rows rows))"
proof (induction used active rows rule: reclaim_usage.induct)
  case (1 used active)
  then show ?case using unat_u32_less [of used] unat_u32_less [of active] by (simp add: active_rows_def)
next
  case (2 used active row rows)
  show ?case
  proof (cases "reclaim_active_status (rt_status row)")
    case True
    show ?thesis
    proof (cases "rt_memory_current_bytes row")
      case None
      then show ?thesis using True by (simp add: known_row_def)
    next
      case (Some b)
      let ?u = "saturating_add_u32 used (current_mib b)" and ?a = "saturating_add_u32 active 1"
      have u: "unat ?u = min 4294967295 (unat used + row_mib row)"
        using Some by (simp add: unat_saturating_add_u32 current_mib_ceil row_mib_def min_add_min)
      have a: "unat ?a = min 4294967295 (unat active + 1)" by (simp add: unat_saturating_add_u32)
      have eq: "reclaim_usage used active (row # rows) = reclaim_usage ?u ?a rows" using True Some by simp
      have k: "known_row row" "active_rows (row # rows) = row # active_rows rows"
        using True Some by (simp_all add: known_row_def active_rows_def)
      show ?thesis unfolding eq using "2.IH"(1) [OF True Some]
        by (cases "reclaim_usage ?u ?a rows") (auto simp: k u a min_min_add add.assoc)
    qed
  next
    case False
    show ?thesis
    proof (cases "reclaim_inactive_status (rt_status row)")
      case True
      have eq: "reclaim_usage used active (row # rows) = reclaim_usage used active rows" using True False by simp
      have k: "known_row row" "active_rows (row # rows) = active_rows rows"
        using True False by (simp_all add: known_row_def active_rows_def)
      have "\<not> \<not> reclaim_inactive_status (rt_status row)" using True by simp
      from "2.IH"(2) [OF False this] show ?thesis unfolding eq
        by (cases "reclaim_usage used active rows") (auto simp: k)
    next
      case nf: False
      then show ?thesis using False by (auto simp: known_row_def)
    qed
  qed
qed

end
