(* ===== verification/Redroid_Props.thy ===== *)
theory Redroid_Props imports Redroid begin

text \<open>
  The memory reclaim never asks a node to give up memory that its running instances use, and the
  resource budget that a new container has to fit into.
\<close>

lemma unat_max_u32: "unat (max a b :: u32) = max (unat a) (unat b)"
  by (simp add: max_def word_le_nat_alt)

lemma unat_min_u32: "unat (min a b :: u32) = min (unat a) (unat b)"
  by (simp add: min_def word_le_nat_alt)

lemma align_256:
  fixes x :: nat
  shows "x \<le> (x + 255) div 256 * 256" and "(x + 255) div 256 * 256 < x + 256" and "256 dvd x div 256 * 256"
  by (linarith | simp)+

lemma capped_target:
  fixes u a node raw al :: nat
  assumes node: "node \<le> 4294967295" and "raw = max 1536 (min 4294967295 (min 4294967295 u + max 768 (min 4294967295 (min 4294967295 a * 512))))"
    and al: "al = min 4294967295 (raw + 255) div 256 * 256" and t: "min al node + 256 \<le> node"
  shows "min al node = al" and "raw = max 1536 (u + max 768 (a * 512))" and "al = (raw + 255) div 256 * 256"
    and "u < 4294967295" and "a < 4294967295"
proof -
  show m: "min al node = al" using t by linarith
  have "raw + 255 < 4294967295"
  proof (rule ccontr)
    assume "\<not> raw + 255 < 4294967295"
    then have "al = 4294967040" using al by simp
    then show False using m t node by linarith
  qed
  then show "al = (raw + 255) div 256 * 256" using al by simp
  have r: "raw < 4294967040" using \<open>raw + 255 < 4294967295\<close> by simp
  let ?inner = "min 4294967295 (min 4294967295 a * 512)"
  have s: "min 4294967295 u + max 768 ?inner < 4294967040" using r assms(2) by linarith
  then show "u < 4294967295" by linarith
  have "?inner < 4294967040" using s by linarith
  then have i: "min 4294967295 a * 512 < 4294967040" by linarith
  then show "a < 4294967295" by linarith
  have e: "min 4294967295 a = a" "min 4294967295 u = u" using \<open>a < 4294967295\<close> \<open>u < 4294967295\<close> by simp_all
  have f: "min 4294967295 (a * 512) = a * 512" using i e by simp
  have "min 4294967295 (u + max 768 (a * 512)) = u + max 768 (a * 512)" using s e f by simp
  then show "raw = max 1536 (u + max 768 (a * 512))" using assms(2) by (simp only: e f)
qed

lemma unat_align: "unat (x div 256 * 256 :: u32) = unat x div 256 * 256"
proof -
  have "unat (x div 256) = unat x div 256" by (simp add: unat_div)
  moreover have "unat x div 256 * 256 \<le> unat x" by simp
  moreover have "unat x < 4294967296" by (rule unat_u32_less)
  ultimately show ?thesis by (simp add: unat_word_ariths)
qed

lemma reclaim_target:
  assumes plan: "plan_memory_reclaim node rows = Reclaim target used active"
  defines "demand \<equiv> sum_list (map row_mib (active_rows rows)) + max 768 (512 * length (active_rows rows))"
  shows "list_all known_row rows" and "unat used = sum_list (map row_mib (active_rows rows))"
    and "unat active = length (active_rows rows)" and "unat target + 256 \<le> unat node"
    and "256 dvd unat target" and "max 1536 demand \<le> unat target" and "unat target < max 1536 demand + 256"
proof -
  have big: "\<not> node \<le> MIN_BALLOON_TARGET_MIB" using plan by (auto simp: plan_memory_reclaim_def)
  obtain u a where ua: "reclaim_usage 0 0 rows = Inr (u, a)"
    using plan big by (cases "reclaim_usage 0 0 rows") (auto simp: plan_memory_reclaim_def)
  let ?U = "sum_list (map row_mib (active_rows rows))" and ?A = "length (active_rows rows)"
  have usage: "list_all known_row rows" "unat u = min 4294967295 ?U" "unat a = min 4294967295 ?A"
    using reclaim_usage_cases [where used = 0 and active = 0 and rows = rows] ua by simp_all
  let ?res = "max BALLOON_BASE_RESERVE_MIB (saturating_mul_u32 a BALLOON_PER_INSTANCE_RESERVE_MIB)"
  let ?raw = "max MIN_BALLOON_TARGET_MIB (saturating_add_u32 u ?res)"
  let ?al = "saturating_add_u32 ?raw (BALLOON_QUANTUM_MIB - 1) div BALLOON_QUANTUM_MIB * BALLOON_QUANTUM_MIB"
  have t: "target = min ?al node" "used = u" "active = a" "\<not> min ?al node > saturating_sub_u32 node BALLOON_QUANTUM_MIB"
    using plan big ua by (auto simp: plan_memory_reclaim_def Let_def split: if_splits)
  note cns = BALLOON_BASE_RESERVE_MIB_def BALLOON_PER_INSTANCE_RESERVE_MIB_def MIN_BALLOON_TARGET_MIB_def BALLOON_QUANTUM_MIB_def
  have res: "unat ?res = max 768 (min 4294967295 (min 4294967295 ?A * 512))"
    by (simp add: unat_max_u32 unat_saturating_mul_u32 cns usage)
  have raw: "unat ?raw = max 1536 (min 4294967295 (min 4294967295 ?U + max 768 (min 4294967295 (min 4294967295 ?A * 512))))"
    unfolding unat_max_u32 [of MIN_BALLOON_TARGET_MIB] unat_saturating_add_u32 [of u] res usage
    by (simp add: MIN_BALLOON_TARGET_MIB_def)
  have quantum: "BALLOON_QUANTUM_MIB = 256" "unat (BALLOON_QUANTUM_MIB - 1) = 255"
    by (simp_all add: BALLOON_QUANTUM_MIB_def)
  have al: "unat ?al = min 4294967295 (unat ?raw + 255) div 256 * 256"
    using quantum(2) unfolding quantum(1) unat_align unat_saturating_add_u32 by simp
  have nd: "unat node \<le> 4294967295" using unat_u32_less [of node] by simp
  have "1536 < unat node" using big by (simp add: word_le_nat_alt MIN_BALLOON_TARGET_MIB_def)
  then have sub: "unat (saturating_sub_u32 node BALLOON_QUANTUM_MIB) + 256 = unat node"
    by (simp add: unat_saturating_sub_u32 BALLOON_QUANTUM_MIB_def)
  have "unat target \<le> unat (saturating_sub_u32 node BALLOON_QUANTUM_MIB)"
    using t(4) unfolding t(1) not_less word_le_nat_alt .
  then have le: "min (unat ?al) (unat node) + 256 \<le> unat node"
    using sub t(1) by (simp add: unat_min_u32)
  note cap = capped_target [OF nd raw al le]
  have tn: "unat target = unat ?al" using cap(1) t(1) by (simp add: unat_min_u32)
  have dem: "unat ?raw = max 1536 demand" using cap(2) by (simp add: demand_def mult.commute)
  show "list_all known_row rows" by (rule usage)
  show "unat used = ?U" "unat active = ?A" using usage t cap(4,5) by simp_all
  show "unat target + 256 \<le> unat node" using le tn cap(1) by simp
  show "256 dvd unat target" unfolding tn cap(3) by simp
  show "max 1536 demand \<le> unat target" "unat target < max 1536 demand + 256"
    unfolding tn cap(3) dem [symmetric] by (rule align_256)+
qed

text \<open>A rejected plan leaves the node alone; this is when nothing can be reclaimed.\<close>

lemma budget_ok:
  assumes "validate_resource_budget node mem n = Inr ()" and n: "n \<noteq> 0"
  shows "512 \<le> unat mem" and "unat mem * unat n + max (unat node div 4) 512 \<le> unat node"
proof -
  have uc: "unat (ucast w :: u64) = unat w" for w :: u32
    using unat_u32_less [of w] by (simp add: unsigned_ucast_eq take_bit_eq_mod)
  have "unat mem * unat n \<le> 4294967295 * 4294967295"
    using unat_u32_less [of mem] unat_u32_less [of n] by (intro mult_mono) simp_all
  then have nm: "unat (saturating_mul_u64 (ucast mem) (ucast n)) = unat mem * unat n"
    by (simp add: unat_saturating_mul_u64 uc)
  have n0: "node \<noteq> 0" "\<not> mem < 512"
    and le: "\<not> saturating_mul_u64 (ucast mem) (ucast n) >
      saturating_sub_u64 (ucast node) (ucast (max (node div 4) 512))"
    using assms(1) by (auto simp: validate_resource_budget_def Let_def split: if_splits)
  show "512 \<le> unat mem" using n0(2) by (simp add: word_less_nat_alt)
  have "unat (max (node div 4) 512) = max (unat node div 4) 512" by (simp add: unat_max_u32 unat_div)
  then have "unat mem * unat n \<le> unat node - max (unat node div 4) 512"
    using le by (simp add: not_less word_le_nat_alt nm unat_saturating_sub_u64 uc)
  moreover have "max (unat node div 4) 512 \<le> unat node"
  proof (rule ccontr)
    assume a: "\<not> max (unat node div 4) 512 \<le> unat node"
    have "512 * 1 \<le> unat mem * unat n"
      using n0(2) n by (intro mult_mono) (simp_all add: word_less_nat_alt unat_gt_0 Suc_leI)
    then show False using a \<open>unat mem * unat n \<le> unat node - max (unat node div 4) 512\<close> by linarith
  qed
  ultimately show "unat mem * unat n + max (unat node div 4) 512 \<le> unat node" by linarith
qed

end
