(* ===== verification/Guest.thy ===== *)
theory Guest imports Vm begin

text \<open>
  \<^verbatim>\<open>qemu-center/src/guest.rs\<close> and \<^verbatim>\<open>cloudinit.rs\<close>: the commands that are run inside a guest over ssh and the
  readers of what they print, and the cloud-init files of the seed disk.
\<close>

section \<open>Cloud-init\<close>

definition BINDER_PREP_SNIPPET :: string where
  "BINDER_PREP_SNIPPET =
     ''# --- redroid kernel preparation (see redroid docs: devel/kernel) ---'' @ NL @
     ''apt-get install -y linux-modules-extra-$(uname -r) || true'' @ NL @
     ''printf '' @ SQ @ ''binder_linux'' @ BS @ ''n'' @ SQ @ '' | tee /etc/modules-load.d/binder.conf > /dev/null'' @ NL @
     ''modprobe binder_linux devices='' @ DQ @ ''binder,hwbinder,vndbinder'' @ DQ @ '' || true''"

definition runcmd_lines :: "cloud_init_config \<Rightarrow> string list" where
  "runcmd_lines cfg = filter (\<lambda>l. \<not> blank l) (drop 1 (lines BINDER_PREP_SNIPPET))
    @ [''DEBIAN_FRONTEND=noninteractive apt-get install -y docker.io'',
       ''systemctl enable --now docker || true'',
       ''usermod -aG docker rdc || true'',
       ''install -d -o rdc -g rdc -m 700 /run/rdc-presets'',
       ''getent group binder >/dev/null || groupadd binder || true'']"

definition yaml_single_quoted :: "string \<Rightarrow> string" where
  "yaml_single_quoted s = SQ @ str_replace SQ (SQ @ SQ) s @ SQ"

definition render_user_data :: "cloud_init_config \<Rightarrow> string" where
  "render_user_data cfg =
    (let key = trim (ci_ssh_pubkey cfg) in
     ''#cloud-config'' @ NL
     @ ''hostname: '' @ ci_hostname cfg @ NL
     @ ''manage_etc_hosts: true'' @ NL @
     ''users:'' @ NL @
     ''  - name: rdc'' @ NL @
     ''    gecos: QemuCenter node user'' @ NL @
     ''    sudo: ALL=(ALL) NOPASSWD:ALL'' @ NL @
     ''    groups: [adm, sudo, dip, plugdev]'' @ NL @
     ''    lock_passwd: true'' @ NL @
     ''    shell: /bin/bash'' @ NL @
     ''    ssh_authorized_keys:'' @ NL
     @ (if key \<noteq> [] then ''      - '' @ key @ NL
        else ''      - ssh-ed25519 PLACEHOLDER-recreate-seed-with-a-real-key'' @ NL)
     @ ''ssh_pwauth: false'' @ NL @
     ''chpasswd:'' @ NL @
     ''  expire: false'' @ NL @
     ''package_update: true'' @ NL @
     ''packages:'' @ NL @
     ''  - docker.io'' @ NL @
     ''runcmd:'' @ NL
     @ concat (map (\<lambda>line. ''  - '' @ yaml_single_quoted line @ NL) (runcmd_lines cfg))
     @ ''final_message: '' @ DQ @ ''qemu-center guest ready after $UPTIME seconds'' @ DQ @ NL)"

definition render_meta_data :: "cloud_init_config \<Rightarrow> string" where
  "render_meta_data cfg =
     ''instance-id: iid-qemu-center-'' @ ci_hostname cfg @ NL @ ''local-hostname: '' @ ci_hostname cfg @ NL"

definition render_network_config :: "cloud_init_config \<Rightarrow> string" where
  "render_network_config cfg =
     ''version: 2'' @ NL @
     ''ethernets:'' @ NL @
     ''  all-eth:'' @ NL @
     ''    match:'' @ NL @
     ''      name: '' @ DQ @ ''en*'' @ DQ @ NL @
     ''    dhcp4: true'' @ NL @
     ''    optional: true'' @ NL"

definition seed_files :: "cloud_init_config \<Rightarrow> (string \<times> bytes) list" where
  "seed_files cfg = [(''user-data'', as_bytes (render_user_data cfg)),
     (''meta-data'', as_bytes (render_meta_data cfg)),
     (''network-config'', as_bytes (render_network_config cfg))]"

definition seed_dir_files :: "cloud_init_config \<Rightarrow> (string \<times> bytes) list" where
  "seed_dir_files cfg = [(''user-data'', as_bytes (render_user_data cfg)),
     (''meta-data'', as_bytes (render_meta_data cfg)),
     (''network-config'', as_bytes (render_network_config cfg))]"

definition seed_image_files :: "cloud_init_config \<Rightarrow> (string \<times> bytes) list" where
  "seed_image_files cfg = seed_dir_files cfg"

section \<open>Commands over ssh\<close>

definition GUEST_USER :: string where "GUEST_USER = ''rdc''"
definition DOCKER_COMMAND :: string where "DOCKER_COMMAND = ''sudo -n docker''"
definition PROVISION_DONE_MARKER :: string where "PROVISION_DONE_MARKER = ''QC_PROVISION_DONE''"

definition shell_quote :: "string \<Rightarrow> string" where
  "shell_quote value = SQ @ str_replace SQ (SQ @ DQ @ SQ @ DQ @ SQ) value @ SQ"

definition docker_command :: "string list \<Rightarrow> string" where
  "docker_command docker_args =
    (if docker_args = [] then DOCKER_COMMAND
     else DOCKER_COMMAND @ '' '' @ join '' ''
       (map (\<lambda>s. SQ @ str_replace SQ (SQ @ DQ @ SQ @ DQ @ SQ) s @ SQ) docker_args))"

definition ssh_command :: "char \<Rightarrow> path \<Rightarrow> path \<Rightarrow> u16 \<Rightarrow> string \<Rightarrow> string list" where
  "ssh_command sep key_path known_hosts ssh_host_port remote_cmd =
    [''ssh'', ''-p'', show_u16 ssh_host_port, ''-i'', display sep key_path,
     ''-o'', ''BatchMode=yes'', ''-o'', ''StrictHostKeyChecking=accept-new'',
     ''-o'', ''UserKnownHostsFile='' @ display sep known_hosts, ''-o'', ''ConnectTimeout=8'',
     GUEST_USER @ ''@127.0.0.1'', remote_cmd]"

definition ssh_keygen_command :: "char \<Rightarrow> path \<Rightarrow> string \<Rightarrow> string list" where
  "ssh_keygen_command sep key_path comment =
    [''ssh-keygen'', ''-t'', ''ed25519'', ''-N'', [], ''-f'', display sep key_path, ''-C'', comment]"

definition render_provision_script :: string where
  "render_provision_script =
     ''sudo -n bash -s <<'' @ SQ @ ''QC_PROVISION_ROOT'' @ SQ @ NL @
     ''set +e'' @ NL @
     BINDER_PREP_SNIPPET @ NL @
     ''command -v docker >/dev/null 2>&1 || DEBIAN_FRONTEND=noninteractive apt-get install -y docker.io'' @ NL @
     ''systemctl enable --now docker || true'' @ NL @
     ''usermod -aG docker rdc || true'' @ NL @
     ''install -d -o rdc -g rdc -m 700 /run/rdc-presets'' @ NL @
     ''getent group binder >/dev/null || groupadd binder || true'' @ NL @
     ''echo '' @ PROVISION_DONE_MARKER @ NL @
     ''QC_PROVISION_ROOT'' @ NL"

definition cmd_guest_bootstrap_ready :: string where
  "cmd_guest_bootstrap_ready =
     ''grep -qw binder /proc/filesystems && sudo -n docker version --format '' @ SQ @ ''{{.Server.Version}}'' @ SQ @ '' >/dev/null 2>&1''"

definition render_readiness_script :: string where
  "render_readiness_script =
     ''echo BINDERFS=$(grep -qw binder /proc/filesystems && echo ok || echo missing)'' @ NL @
     ''echo DOCKER=$('' @ DOCKER_COMMAND @ '' version --format '' @ SQ @ ''{{.Server.Version}}'' @ SQ @ '' >/dev/null 2>&1 && echo ok || echo missing)'' @ NL"

definition cmd_cat_proc_filesystems :: string where
  "cmd_cat_proc_filesystems = ''cat /proc/filesystems''"

definition cmd_docker_server_version :: string where
  "cmd_docker_server_version = ''sudo -n docker version --format '' @ SQ @ ''{{.Server.Version}}'' @ SQ"

definition cmd_execution_authorization_check :: "string \<Rightarrow> string" where
  "cmd_execution_authorization_check marker =
     ''test -f '' @ shell_quote marker @ '' && cat '' @ shell_quote marker"

definition cmd_docker_exec_getprop :: "string \<Rightarrow> string \<Rightarrow> string" where
  "cmd_docker_exec_getprop container prop = DOCKER_COMMAND @ '' exec '' @ container @ '' getprop '' @ prop"

definition cmd_docker_ps_qc :: string where
  "cmd_docker_ps_qc =
     ''sudo -n docker ps -a --filter name=^qc- --format '' @ SQ @ ''{{.Names}}'' @ BS @ ''t{{.Status}}'' @ BS @ ''t{{.Ports}}'' @ SQ"

definition cmd_redroid_stats :: "string option \<Rightarrow> string" where
  "cmd_redroid_stats inst =
    (let name_filter = (case inst of Some name \<Rightarrow> ''^qc-'' @ name @ ''$'' | None \<Rightarrow> ''^qc-'') in
     ''set +e'' @ NL @
     ''for id in $(sudo -n docker ps -a --filter '' @ SQ @ ''name='' @ name_filter @
     SQ @ '' --format '' @ SQ @ ''{{.ID}}'' @ SQ @ ''); do'' @ NL @
     ''  status=$(sudo -n docker inspect '' @ DQ @ ''$id'' @ DQ @ '' --format '' @ SQ @ ''{{.State.Status}}'' @ SQ @ '' 2>/dev/null)'' @ NL @
     ''  sudo -n docker inspect '' @ DQ @ ''$id'' @ DQ @ '' --format '' @ SQ @ ''QC_INSPECT'' @ TAB @ ''{{json .}}'' @ SQ @ NL @
     ''  if [ '' @ DQ @ ''$status'' @ DQ @ '' = '' @ DQ @ ''running'' @ DQ @ '' ]; then'' @ NL @
     ''  metrics=$(sudo -n docker exec '' @ DQ @ ''$id'' @ DQ @ '' sh -c '' @ SQ @ NL @
     ''    current='' @ NL @
     ''    peak='' @ NL @
     ''    oom='' @ NL @
     ''    if [ -r /sys/fs/cgroup/memory.current ]; then current=$(cat /sys/fs/cgroup/memory.current); elif [ -r /sys/fs/cgroup/memory.usage_in_bytes ]; then current=$(cat /sys/fs/cgroup/memory.usage_in_bytes); fi'' @ NL @
     ''    if [ -r /sys/fs/cgroup/memory.peak ]; then peak=$(cat /sys/fs/cgroup/memory.peak); elif [ -r /sys/fs/cgroup/memory.max_usage_in_bytes ]; then peak=$(cat /sys/fs/cgroup/memory.max_usage_in_bytes); fi'' @ NL @
     ''    if [ -r /sys/fs/cgroup/memory.events ]; then oom=$(grep ^oom_kill /sys/fs/cgroup/memory.events | tr -s '' @ DQ @ '' '' @ DQ @ '' | cut -d'' @ DQ @ '' '' @ DQ @ '' -f2); fi'' @ NL @
     ''    printf '' @ DQ @ ''%s|%s|%s'' @ DQ @ '' '' @ DQ @ ''$current'' @ DQ @ '' '' @ DQ @ ''$peak'' @ DQ @ '' '' @ DQ @ ''$oom'' @ DQ @ NL @
     ''  '' @ SQ @ '' 2>/dev/null)'' @ NL @
     ''  printf '' @ SQ @ ''QC_CGROUP'' @ BS @ ''t%s'' @ BS @ ''t%s'' @ BS @ ''n'' @ SQ @ '' '' @ DQ @ ''$id'' @ DQ @ '' '' @ DQ @ ''$metrics'' @ DQ @ NL @
     ''  cpu=$(sudo -n docker stats --no-stream --format '' @ SQ @ ''{{.CPUPerc}}'' @ SQ @ '' '' @ DQ @ ''$id'' @ DQ @ '' 2>/dev/null | tr -d '' @ SQ @ ''%'' @ SQ @ '')'' @ NL @
     ''  printf '' @ SQ @ ''QC_CPU'' @ BS @ ''t%s'' @ BS @ ''t%s'' @ BS @ ''n'' @ SQ @ '' '' @ DQ @ ''$id'' @ DQ @ '' '' @ DQ @ ''$cpu'' @ DQ @ NL @
     ''  boot=$(sudo -n docker exec '' @ DQ @ ''$id'' @ DQ @ '' getprop sys.boot_completed 2>/dev/null | tr -d '' @ SQ @ BS @ ''r'' @ BS @ ''n'' @ SQ @ '')'' @ NL @
     ''  printf '' @ SQ @ ''QC_BOOT'' @ BS @ ''t%s'' @ BS @ ''t%s'' @ BS @ ''n'' @ SQ @ '' '' @ DQ @ ''$id'' @ DQ @ '' '' @ DQ @ ''$boot'' @ DQ @ NL @
     ''  fi'' @ NL @
     ''done'')"

section \<open>Readers of guest output\<close>

definition parse_docker_ps_line :: "string \<Rightarrow> (string \<times> string \<times> string) option" where
  "parse_docker_ps_line l =
    (let parts = split_char (CHR 0x09) l; name = trim (hd parts) in
     if \<not> starts_with name ''qc-'' then None
     else Some (name, if length parts > 1 then trim (parts ! 1) else [],
                if length parts > 2 then trim (parts ! 2) else []))"

fun count_running :: "string list \<Rightarrow> string list \<Rightarrow> message + string list" where
  "count_running running [] = Inr running"
| "count_running running (l # ls) =
    (case parse_docker_ps_line l of
       None \<Rightarrow> count_running running ls
     | Some (name, status, _) \<Rightarrow>
       if status = [] then Inl (Message ''docker ps row has no status for {}'' [name])
       else (let st = to_ascii_lowercase status in
         count_running (if st = ''running'' \<or> st = ''up'' \<or> starts_with st ''up ''
            then (if name \<in> set running then running else running @ [name]) else running) ls))"

definition parse_running_redroid_count :: "string \<Rightarrow> message + u32" where
  "parse_running_redroid_count stdout =
    (case count_running [] (filter (\<lambda>l. \<not> blank l) (lines stdout)) of
       Inl e \<Rightarrow> Inl e
     | Inr running \<Rightarrow> if length running < 4294967296 then Inr (of_nat (length running))
         else Inl (text_message ''too many redroid containers''))"

datatype readiness = Ok | Missing | UnknownReadiness

fun judge_readiness :: "string \<Rightarrow> string list \<Rightarrow> readiness" where
  "judge_readiness key [] = UnknownReadiness"
| "judge_readiness key (l # ls) =
    (case strip_prefix key (trim l) of
       None \<Rightarrow> judge_readiness key ls
     | Some rest \<Rightarrow> (case strip_prefix ''='' rest of
         None \<Rightarrow> judge_readiness key ls
       | Some v \<Rightarrow> if trim v = ''ok'' then Ok else if trim v = ''missing'' then Missing else UnknownReadiness))"

definition judge_readiness_line :: "string \<Rightarrow> string \<Rightarrow> readiness" where
  "judge_readiness_line output key = judge_readiness key (lines output)"

definition judge_proc_filesystems_binder :: "string \<Rightarrow> bool" where
  "judge_proc_filesystems_binder output =
    list_ex (\<lambda>l. list_ex (\<lambda>w. w = ''binder'' \<or> w = ''binderfs'') (split_whitespace l)) (lines output)"

end
