(* ===== verification/Shell.thy ===== *)
theory Shell imports Strings begin

text \<open>
  A reader of POSIX shell commands, on the commands where only word splitting, quote removal and an
  output redirection happen. The command lines that the program composes are judged against it.
\<close>

definition plain_char :: "char \<Rightarrow> bool" where
  "plain_char c = (is_ascii_alphanumeric c \<or> c \<in> set ''-_./:,%'')"

datatype quoting = Plain | Single | Double

datatype shell_token = Word string | Output

definition pending :: "string option \<Rightarrow> shell_token list" where
  "pending w = (case w of None \<Rightarrow> [] | Some x \<Rightarrow> [Word x])"

text \<open>
  Outside quotes plain characters, blanks, a backslash before any character but a newline, and a
  \<^verbatim>\<open>>\<close> between blanks are understood; in double quotes no expansion; in single quotes every
  character stands for itself. Everything else is \<open>None\<close>. \<open>w\<close> is the word read so far.
\<close>

fun sh_read :: "quoting \<Rightarrow> string option \<Rightarrow> string \<Rightarrow> shell_token list option" where
  "sh_read Plain w [] = Some (pending w)"
| "sh_read Single w [] = None"
| "sh_read Double w [] = None"
| "sh_read Plain w (c # cs) =
    (let cur = (case w of None \<Rightarrow> [] | Some x \<Rightarrow> x) in
     if c = CHR '' '' then map_option ((@) (pending w)) (sh_read Plain None cs)
     else if c = CHR 0x27 then sh_read Single (Some cur) cs
     else if c = CHR 0x22 then sh_read Double (Some cur) cs
     else if c = CHR 0x5C then
       (case cs of [] \<Rightarrow> None
        | d # ds \<Rightarrow> if d = CHR 0x0A then None else sh_read Plain (Some (cur @ [d])) ds)
     else if c = CHR ''>'' then
       (if w = None \<and> take 1 cs = '' '' then map_option ((#) Output) (sh_read Plain None cs) else None)
     else if plain_char c then sh_read Plain (Some (cur @ [c])) cs
     else None)"
| "sh_read Single w (c # cs) =
    (if c = CHR 0x27 then sh_read Plain w cs
     else sh_read Single (Some ((case w of None \<Rightarrow> [] | Some x \<Rightarrow> x) @ [c])) cs)"
| "sh_read Double w (c # cs) =
    (if c = CHR 0x22 then sh_read Plain w cs
     else if c \<in> set [CHR ''$'', CHR 0x60, CHR 0x5C, CHR ''!''] then None
     else sh_read Double (Some ((case w of None \<Rightarrow> [] | Some x \<Rightarrow> x) @ [c])) cs)"

definition sh_tokens :: "string \<Rightarrow> shell_token list option" where
  "sh_tokens cmd = sh_read Plain None cmd"

text \<open>The words of a command without redirection.\<close>

fun only_words :: "shell_token list \<Rightarrow> string list option" where
  "only_words [] = Some []"
| "only_words (Word w # ts) = map_option ((#) w) (only_words ts)"
| "only_words (Output # ts) = None"

definition sh_words :: "string \<Rightarrow> string list option" where
  "sh_words cmd = (case sh_tokens cmd of None \<Rightarrow> None | Some ts \<Rightarrow> only_words ts)"

lemma only_words_map [simp]: "only_words (map Word ws) = Some ws"
  by (induction ws) simp_all

lemma sh_words_of_tokens: "sh_tokens cmd = Some (map Word ws) \<Longrightarrow> sh_words cmd = Some ws"
  by (simp add: sh_words_def)

lemma plain_char_ordinary:
  "plain_char c \<Longrightarrow> c \<noteq> CHR '' '' \<and> c \<noteq> CHR 0x27 \<and> c \<noteq> CHR 0x22 \<and> c \<noteq> CHR 0x5C \<and> c \<noteq> CHR ''>''"
  by (auto simp: plain_char_def is_ascii_alphanumeric_def)

lemma sh_read_plain:
  "list_all plain_char w \<Longrightarrow> sh_read Plain (Some a) (w @ rest) = sh_read Plain (Some (a @ w)) rest"
proof (induction w arbitrary: a)
  case (Cons c w)
  then show ?case using plain_char_ordinary [of c] by simp
qed simp

definition plain_word :: "string \<Rightarrow> bool" where
  "plain_word w = (w \<noteq> [] \<and> list_all plain_char w)"

lemma sh_read_word:
  assumes "plain_word w"
  shows "sh_read Plain None (w @ CHR '' '' # rest) = map_option ((#) (Word w)) (sh_read Plain None rest)"
proof (cases w)
  case (Cons c cs)
  then show ?thesis using assms plain_char_ordinary [of c] by (simp add: plain_word_def sh_read_plain pending_def append_Cons [abs_def])
qed (use assms in \<open>simp add: plain_word_def\<close>)

lemma sh_read_last_word: "plain_word w \<Longrightarrow> sh_read Plain None w = Some [Word w]"
  using sh_read_word [of w "[]"] sh_read_plain [of "tl w" "[hd w]" "[]"] plain_char_ordinary [of "hd w"]
  by (cases w) (simp_all add: plain_word_def pending_def)

text \<open>
  A quoting function is sound when the reader takes the quoted text for one word, the text itself,
  wherever it stands. The lemmas about command lines are proved once, for every such function.
\<close>

locale quoter =
  fixes quote :: "string \<Rightarrow> string"
  assumes read_quoted: "sh_read Plain None (quote s @ rest) = sh_read Plain (Some s) rest"
begin

lemma read_quoted_blank:
  "sh_read Plain None (quote s @ CHR '' '' # rest) = map_option ((#) (Word s)) (sh_read Plain None rest)"
  by (simp add: read_quoted pending_def append_Cons [abs_def])

lemma read_quoted_last: "sh_read Plain None (quote s) = Some [Word s]"
  using read_quoted [of s "[]"] by (simp add: pending_def)

lemma read_joined:
  "args \<noteq> [] \<Longrightarrow> sh_read Plain None (join '' '' (map quote args)) = Some (map Word args)"
proof (induction args)
  case (Cons a args)
  then show ?case by (cases "args = []") (simp_all add: read_quoted_last read_quoted_blank join_Cons)
qed simp

end

text \<open>The two ways in which the program writes a single quote inside single quotes.\<close>

lemma sh_read_double_quoted_quote:
  "sh_read Single (Some w) (str_replace [CHR 0x27] [CHR 0x27, CHR 0x22, CHR 0x27, CHR 0x22, CHR 0x27] s @ CHR 0x27 # rest)
   = sh_read Plain (Some (w @ s)) rest"
  unfolding str_replace_char by (induction s arbitrary: w) simp_all

lemma sh_read_escaped_quote:
  "sh_read Single (Some w) (str_replace [CHR 0x27] [CHR 0x27, CHR 0x5C, CHR 0x27, CHR 0x27] s @ CHR 0x27 # rest)
   = sh_read Plain (Some (w @ s)) rest"
  unfolding str_replace_char by (induction s arbitrary: w) simp_all

end
