(* ===== verification/Guest_Props.thy ===== *)
theory Guest_Props imports Guest Shell begin

text \<open>
  What the quoting of guest commands and seed files guarantees, against readers of the two formats:
  the words that a POSIX shell makes of a command, and the value of a YAML single-quoted scalar.
\<close>

section \<open>The words of a shell command\<close>

interpretation gq: quoter shell_quote
  by unfold_locales (simp add: shell_quote_def sh_read_double_quoted_quote [where w = "[]", simplified])

text \<open>
  C36: The shell of the guest reads back exactly the arguments that \<^verbatim>\<open>docker_command\<close> was given, whatever bytes they
  contain, after the words \<^verbatim>\<open>sudo -n docker\<close>: no argument is split, expanded or dropped.
\<close>

theorem docker_command_words: "sh_words (docker_command args) = Some ([''sudo'', ''-n'', ''docker''] @ args)"
proof (rule sh_words_of_tokens, cases "args = []")
  case True
  have "sh_tokens ''sudo -n docker'' = Some (map Word [''sudo'', ''-n'', ''docker''])" by code_simp
  then show "sh_tokens (docker_command args) = Some (map Word ([''sudo'', ''-n'', ''docker''] @ args))"
    using True by (simp add: docker_command_def DOCKER_COMMAND_def)
next
  case False
  have q: "(\<lambda>s. SQ @ str_replace SQ (SQ @ DQ @ SQ @ DQ @ SQ) s @ SQ) = shell_quote"
    by (simp add: shell_quote_def fun_eq_iff)
  have p: "plain_word ''sudo''" "plain_word ''-n''" "plain_word ''docker''"
    by code_simp+
  have "sh_tokens (''sudo'' @ CHR '' '' # ''-n'' @ CHR '' '' # ''docker'' @ CHR '' '' # join '' '' (map shell_quote args))
      = Some (map Word ([''sudo'', ''-n'', ''docker''] @ args))"
    unfolding sh_tokens_def
    by (simp only: sh_read_word [OF p(1)] sh_read_word [OF p(2)] sh_read_word [OF p(3)] gq.read_joined [OF False]) simp
  then show "sh_tokens (docker_command args) = Some (map Word ([''sudo'', ''-n'', ''docker''] @ args))"
    using False by (simp only: docker_command_def DOCKER_COMMAND_def q) simp
qed

section \<open>YAML scalars\<close>

text \<open>The value of a single-quoted scalar on one line; \<open>None\<close> when it is not one.\<close>

fun yaml_body :: "string \<Rightarrow> string option" where
  "yaml_body [] = None"
| "yaml_body [c] = (if c = CHR 0x27 then Some [] else None)"
| "yaml_body (c # d # cs) =
    (if c = CHR 0x27 then (if d = CHR 0x27 then map_option ((#) c) (yaml_body cs) else None)
     else if c = CHR 0x0A then None
     else map_option ((#) c) (yaml_body (d # cs)))"

definition yaml_value :: "string \<Rightarrow> string option" where
  "yaml_value s = (case s of c # cs \<Rightarrow> if c = CHR 0x27 then yaml_body cs else None | [] \<Rightarrow> None)"

lemma yaml_body_doubled:
  "CHR 0x0A \<notin> set s \<Longrightarrow> yaml_body (str_replace SQ (SQ @ SQ) s @ SQ) = Some s"
  unfolding str_replace_char
proof (induction s)
  case (Cons c s)
  define r where "r = concat (map (\<lambda>x. if x = CHR 0x27 then SQ @ SQ else [x]) s) @ SQ"
  have "r \<noteq> []" by (simp add: r_def)
  then obtain d ds where r: "r = d # ds" by (cases r) auto
  then show ?case using Cons by (auto simp: r_def [symmetric] r)
qed simp

lemma yaml_value_quoted: "CHR 0x0A \<notin> set s \<Longrightarrow> yaml_value (yaml_single_quoted s) = Some s"
  using yaml_body_doubled [of s] by (simp add: yaml_value_def yaml_single_quoted_def)

text \<open>Every command that cloud-init runs is one list entry of the user data, with that value.\<close>

lemma runcmd_lines_eq:
  "runcmd_lines cfg =
    [''apt-get install -y linux-modules-extra-$(uname -r) || true'',
     ''printf '' @ SQ @ ''binder_linux'' @ BS @ ''n'' @ SQ @ '' | tee /etc/modules-load.d/binder.conf > /dev/null'',
     ''modprobe binder_linux devices='' @ DQ @ ''binder,hwbinder,vndbinder'' @ DQ @ '' || true'',
     ''DEBIAN_FRONTEND=noninteractive apt-get install -y docker.io'',
     ''systemctl enable --now docker || true'',
     ''usermod -aG docker rdc || true'',
     ''install -d -o rdc -g rdc -m 700 /run/rdc-presets'',
     ''getent group binder >/dev/null || groupadd binder || true'']"
proof -
  have l: "lines BINDER_PREP_SNIPPET =
    [''# --- redroid kernel preparation (see redroid docs: devel/kernel) ---'',
     ''apt-get install -y linux-modules-extra-$(uname -r) || true'',
     ''printf '' @ SQ @ ''binder_linux'' @ BS @ ''n'' @ SQ @ '' | tee /etc/modules-load.d/binder.conf > /dev/null'',
     ''modprobe binder_linux devices='' @ DQ @ ''binder,hwbinder,vndbinder'' @ DQ @ '' || true'']"
    by code_simp
  have g: "ascii_graphic c" if "c \<in> {CHR ''a'', CHR ''p'', CHR ''m''}" for c
    using that by (auto simp: ascii_graphic_def)
  show ?thesis unfolding runcmd_lines_def l by (simp add: not_blank_graphic g)
qed

lemma runcmd_values: "map (yaml_value \<circ> yaml_single_quoted) (runcmd_lines cfg) = map Some (runcmd_lines cfg)"
proof -
  have "CHR 0x0A \<notin> set l" if "l \<in> set (runcmd_lines cfg)" for l
    using that unfolding runcmd_lines_eq by auto
  then show ?thesis by (simp add: yaml_value_quoted)
qed

end
