(* ===== verification/Vm_Props.thy ===== *)
theory Vm_Props imports Vm "HOL-Library.Multiset" begin

text \<open>
  What the allocation of host ports gives, the invariant of the registry and the changes that keep it:
  no host port belongs to two nodes or serves two purposes, and the ADB port of an instance lies
  in the block of its node.
\<close>

section \<open>Searching ports\<close>

lemma u16_less_le: "(p :: u16) < q \<longleftrightarrow> unat p < unat q" "p \<le> q \<longleftrightarrow> unat p \<le> unat q"
  by (simp_all add: word_less_nat_alt word_le_nat_alt)

lemma find_port_cases:
  "case find_port P base of
     Some p \<Rightarrow> base \<le> p \<and> P p \<and> (\<forall>q. base \<le> q \<and> q < p \<longrightarrow> \<not> P q)
   | None \<Rightarrow> (\<forall>q. base \<le> q \<longrightarrow> \<not> P q)"
proof (induction P base rule: find_port.induct)
  case (1 P base)
  have ge: "base \<le> q \<longleftrightarrow> q = base \<or> base + 1 \<le> q" if "base \<noteq> - 1" for q
    using unat_Suc_u16 [OF that] by (auto simp: u16_less_le word_unat_eq_iff)
  show ?case
  proof (cases "P base")
    case True
    then show ?thesis by (auto simp: find_port.simps [of P base])
  next
    case False
    show ?thesis
    proof (cases "base = - 1")
      case True
      then have le: "base \<le> q \<longleftrightarrow> q = base" for q
        by (metis order_antisym_conv word_n1_ge)
      have "find_port P base = None" by (subst find_port.simps) (use False True in simp)
      then show ?thesis using False by (simp add: le)
    next
      case nm: False
      from "1" [OF False nm] False nm ge [OF nm] show ?thesis
        by (auto simp: find_port.simps [of P base] split: option.splits)
    qed
  qed
qed

lemma find_port_SomeD: "find_port P base = Some p \<Longrightarrow> base \<le> p \<and> P p \<and> (\<forall>q. base \<le> q \<and> q < p \<longrightarrow> \<not> P q)"
  using find_port_cases [where P = P and base = base] by simp

lemma next_free_port_SomeD: "next_free_port used base = Some p \<Longrightarrow> port_free used p \<and> base \<le> p"
  using find_port_SomeD by (auto simp: next_free_port_def)

section \<open>Blocks of ports\<close>

definition free_block :: "u16 set \<Rightarrow> u16 \<Rightarrow> u16 \<Rightarrow> bool" where
  "free_block used cnt s =
    (unat s + unat cnt \<le> 65535 \<and> list_all (port_free used) (port_range s (s + cnt)))"

lemma unat_add_u16: "unat s + unat cnt \<le> 65535 \<Longrightarrow> unat (s + cnt :: u16) = unat s + unat cnt"
  by (simp add: unat_word_ariths)

lemma add_wrap_u16: "unat s + unat cnt = 65536 \<Longrightarrow> s + cnt = (0 :: u16)"
  by (simp add: word_unat_eq_iff unat_word_ariths)

lemma length_port_range [simp]: "length (port_range a b) = unat b - unat a"
  by (simp add: port_range_def)

lemma set_port_range: "set (port_range a b) = {p. a \<le> p \<and> p < b}"
proof
  show "set (port_range a b) \<subseteq> {p. a \<le> p \<and> p < b}"
    using unat_u16_less [of b] by (auto simp: port_range_def u16_less_le unat_of_nat)
  show "{p. a \<le> p \<and> p < b} \<subseteq> set (port_range a b)"
  proof
    fix p assume "p \<in> {p. a \<le> p \<and> p < b}"
    then have "unat p \<in> {unat a..<unat b}" by (simp add: u16_less_le)
    then show "p \<in> set (port_range a b)" by (auto simp: port_range_def intro!: image_eqI [of _ _ "unat p"])
  qed
qed

lemma distinct_port_range [simp]: "distinct (port_range a b)"
proof -
  have "inj_on (of_nat :: nat \<Rightarrow> u16) {unat a..<unat b}"
    using unat_u16_less [of b] by (intro inj_onI) (simp add: word_of_nat_eq_iff take_bit_eq_mod)
  then show ?thesis by (simp add: port_range_def distinct_map)
qed

lemma port_range_wrap: "unat s + unat cnt = 65536 \<Longrightarrow> port_range s (s + cnt) = []"
  by (simp add: add_wrap_u16 port_range_def)

lemma port_block_loop_cases:
  assumes "cnt \<noteq> 0"
  shows "case port_block_loop checks used base cnt start of
      None \<Rightarrow> checks \<and> unat start + unat cnt \<le> 65536 \<and> (\<forall>q. start \<le> q \<longrightarrow> \<not> free_block used cnt q)
    | Some (Inl e) \<Rightarrow> e = Exhausted base cnt \<and> 65536 < unat start + unat cnt
    | Some (Inr block) \<Rightarrow> unat start + unat cnt \<le> 65536 \<and>
        (if block = [] then \<not> checks \<and> (\<forall>q. start \<le> q \<longrightarrow> \<not> free_block used cnt q)
         else \<exists>s. start \<le> s \<and> free_block used cnt s \<and> block = port_range s (s + cnt)
                \<and> (\<forall>q. start \<le> q \<and> q < s \<longrightarrow> \<not> free_block used cnt q))"
  using assms
proof (induction checks used base cnt start rule: port_block_loop.induct)
  case (1 checks used base cnt start)
  have c0: "0 < unat cnt" using "1.prems" by (simp add: unat_gt_0)
  consider (out) "65536 < unat start + unat cnt" | (wrap) "unat start + unat cnt = 65536"
    | (inn) "unat start + unat cnt \<le> 65535" by linarith
  then show ?case
  proof cases
    case out
    then have "\<not> unat start + unat cnt - 1 \<le> 65535" by linarith
    with out show ?thesis by (simp add: port_block_loop.simps [of checks used base cnt start])
  next
    case wrap
    have nf: "\<not> free_block used cnt q" if "start \<le> q" for q
      using that wrap by (simp add: free_block_def u16_less_le)
    show ?thesis
      using wrap c0 nf port_range_wrap [OF wrap]
      by (simp add: port_block_loop.simps [of checks used base cnt start])
  next
    case inn
    have ne: "port_range start (start + cnt) \<noteq> []"
      using c0 unat_add_u16 [OF inn] by (simp add: port_range_def)
    show ?thesis
    proof (cases "list_all (port_free used) (port_range start (start + cnt))")
      case True
      then have "port_block_loop checks used base cnt start = Some (Inr (port_range start (start + cnt)))"
        using inn by (simp add: port_block_loop.simps [of checks used base cnt start])
      moreover have "free_block used cnt start" using True inn by (simp add: free_block_def)
      ultimately show ?thesis using ne inn by (auto simp: u16_less_le)
    next
      case False
      have nm: "start \<noteq> - 1"
        using inn c0 by (auto simp: unsigned_minus_1_eq_mask mask_eq_exp_minus_1)
      have s1: "unat (start + 1) = Suc (unat start)" by (rule unat_Suc_u16 [OF nm])
      have g: "unat start + unat cnt - 1 \<le> 65535" using inn by linarith
      have eq: "port_block_loop checks used base cnt start = port_block_loop checks used base cnt (start + 1)"
        using inn False g by (simp add: port_block_loop.simps [of checks used base cnt start])
      have ge: "start \<le> q \<longleftrightarrow> q = start \<or> start + 1 \<le> q" for q
        using s1 by (auto simp: u16_less_le word_unat_eq_iff)
      have nf: "\<not> free_block used cnt start" using False by (simp add: free_block_def)
      have IH: "case port_block_loop checks used base cnt (start + 1) of
          None \<Rightarrow> checks \<and> unat (start + 1) + unat cnt \<le> 65536 \<and> (\<forall>q. start + 1 \<le> q \<longrightarrow> \<not> free_block used cnt q)
        | Some (Inl e) \<Rightarrow> e = Exhausted base cnt \<and> 65536 < unat (start + 1) + unat cnt
        | Some (Inr block) \<Rightarrow> unat (start + 1) + unat cnt \<le> 65536 \<and>
            (if block = [] then \<not> checks \<and> (\<forall>q. start + 1 \<le> q \<longrightarrow> \<not> free_block used cnt q)
             else \<exists>s. start + 1 \<le> s \<and> free_block used cnt s \<and> block = port_range s (s + cnt)
                    \<and> (\<forall>q. start + 1 \<le> q \<and> q < s \<longrightarrow> \<not> free_block used cnt q))"
        using inn False "1.prems" by (intro "1.IH") simp_all
      show ?thesis unfolding eq using IH s1 inn nf
        by (auto simp: ge split: option.splits sum.splits if_splits)
    qed
  qed
qed

text \<open>
  C37: \<^verbatim>\<open>allocate_port_block\<close> gives the lowest block of \<open>count\<close> consecutive ports at or above \<open>base\<close> that are free
  and not reserved and do not include port 65535. When there is none, it reports \<^verbatim>\<open>Exhausted\<close> only if not even the block
  at \<open>base\<close> fits; otherwise its loop reaches the block that ends with port 65535, and the end \<^verbatim>\<open>start + count\<close> of that range
  overflows: the program panics when it is built with overflow checks, and gives an empty block when it is not.
\<close>

theorem allocate_port_block_spec:
  "case allocate_port_block checks used base cnt of
     None \<Rightarrow> checks \<and> cnt \<noteq> 0 \<and> unat base + unat cnt \<le> 65536 \<and> (\<forall>q \<ge> base. \<not> free_block used cnt q)
   | Some (Inl ZeroCount) \<Rightarrow> cnt = 0
   | Some (Inl (Exhausted b n)) \<Rightarrow> b = base \<and> n = cnt \<and> cnt \<noteq> 0 \<and> 65536 < unat base + unat cnt
   | Some (Inr block) \<Rightarrow> cnt \<noteq> 0 \<and> unat base + unat cnt \<le> 65536 \<and>
       (if block = [] then \<not> checks \<and> (\<forall>q \<ge> base. \<not> free_block used cnt q)
        else \<exists>s \<ge> base. free_block used cnt s \<and> block = port_range s (s + cnt)
               \<and> (\<forall>q. base \<le> q \<and> q < s \<longrightarrow> \<not> free_block used cnt q))"
proof (cases "cnt = 0")
  case True
  then show ?thesis by (simp add: allocate_port_block_def)
next
  case False
  then have "allocate_port_block checks used base cnt = port_block_loop checks used base cnt base"
    by (simp add: allocate_port_block_def)
  then show ?thesis using port_block_loop_cases [OF False, where checks = checks and used = used and base = base and start = base] False
    by (auto split: option.splits sum.splits port_error.splits if_splits)
qed

theorem allocate_port_block_spec_witness:
  "allocate_port_block True {} 65535 1 = None \<and> \<not> free_block {} 1 65535
    \<and> allocate_port_block False {} 65535 1 = Some (Inr [])"
proof -
  have "allocate_port_block True {} 65535 1 = None" "allocate_port_block False {} 65535 1 = Some (Inr [])"
    by (simp_all add: allocate_port_block_def port_block_loop.simps [of _ _ _ _ 65535] port_range_def Let_def)
  then show ?thesis using allocate_port_block_spec [where checks = True and used = "{}" and base = 65535 and cnt = 1] by simp
qed

section \<open>The invariant of the registry\<close>

definition entry_wf :: "vm_entry \<Rightarrow> bool" where
  "entry_wf v \<longleftrightarrow> distinct (map fst (ve_adb_assignments v)) \<and> distinct (map snd (ve_adb_assignments v))
     \<and> assigned_ports v \<subseteq> set (ve_adb_ports v)"

definition registry_wf :: "registry \<Rightarrow> bool" where
  "registry_wf r \<longleftrightarrow> distinct (map ve_name (rg_vms r))
     \<and> distinct (concat (map entry_ports (rg_vms r)))
     \<and> list_all (\<lambda>p. \<not> port_is_reserved p) (concat (map entry_ports (rg_vms r)))
     \<and> list_all entry_wf (rg_vms r)"

lemma registry_wf_default [simp]: "registry_wf default_registry"
  by (simp add: registry_wf_def default_registry_def)

lemma map_update_first: "(\<And>x. k (f x) = k x) \<Longrightarrow> map k (update_first P f xs) = map k xs"
  by (induction xs) simp_all

lemma set_update_first: "y \<in> set (update_first P f xs) \<Longrightarrow> y \<in> set xs \<or> (\<exists>x \<in> set xs. P x \<and> y = f x)"
  by (induction xs) (auto split: if_splits)

lemma update_first_find:
  "y \<in> set (update_first P f xs) \<Longrightarrow> y \<in> set xs \<or> (\<exists>x. find P xs = Some x \<and> y = f x)"
  by (induction xs) (auto split: if_splits)

lemma registry_wf_update:
  assumes wf: "registry_wf r" and keep: "\<And>v. ve_name (f v) = ve_name v" "\<And>v. entry_ports (f v) = entry_ports v"
    and ent: "\<And>v. registry_get name r = Some v \<Longrightarrow> entry_wf v \<Longrightarrow> entry_wf (f v)"
  shows "registry_wf (registry_update name f r)"
proof -
  have "entry_wf y" if "y \<in> set (update_first (\<lambda>v. ve_name v = name) f (rg_vms r))" for y
    using update_first_find [OF that]
  proof
    assume "y \<in> set (rg_vms r)"
    then show ?thesis using wf by (simp add: registry_wf_def list_all_iff)
  next
    assume "\<exists>x. find (\<lambda>v. ve_name v = name) (rg_vms r) = Some x \<and> y = f x"
    then obtain x where x: "registry_get name r = Some x" "y = f x" by (auto simp: registry_get_def)
    then have "x \<in> set (rg_vms r)" by (auto simp: registry_get_def dest: find_SomeD)
    then have "entry_wf x" using wf by (simp add: registry_wf_def list_all_iff)
    then show ?thesis using ent x by simp
  qed
  then show ?thesis
    using wf keep by (simp add: registry_wf_def registry_update_def map_update_first list_all_iff)
qed

lemma registry_wf_push:
  assumes wf: "registry_wf r" and new: "\<not> registry_contains (ve_name v) r"
    and fresh: "set (entry_ports v) \<inter> used_ports r = {}" and d: "distinct (entry_ports v)"
    and unres: "list_all (\<lambda>p. \<not> port_is_reserved p) (entry_ports v)" and a: "ve_adb_assignments v = []"
  shows "registry_wf (r\<lparr>rg_vms := rg_vms r @ [v]\<rparr>)"
  using assms
  by (auto simp: registry_wf_def entry_wf_def assigned_ports_def registry_contains_def registry_get_def find_None_iff used_ports_def)

lemma distinct_concat_filter: "distinct (concat (map f xs)) \<Longrightarrow> distinct (concat (map f (filter P xs)))"
  by (induction xs) auto

lemma registry_wf_retain: "registry_wf r \<Longrightarrow> registry_wf (r\<lparr>rg_vms := filter P (rg_vms r)\<rparr>)"
  by (auto simp: registry_wf_def distinct_map_filter distinct_concat_filter list_all_iff)

lemma set_btree_insert: "k \<notin> fst ` set kvs \<Longrightarrow> mset (btree_insert k v kvs) = add_mset (k, v) (mset kvs)"
  by (induction kvs rule: btree_insert.induct) auto

lemma next_free_adb_port_SomeD: "next_free_adb_port v = Some p \<Longrightarrow> p \<in> set (ve_adb_ports v) \<and> p \<notin> assigned_ports v"
  by (auto simp: next_free_adb_port_def dest!: find_SomeD)

lemma entry_wf_assign:
  assumes wf: "entry_wf v" and p: "next_free_adb_port v = Some p" and k: "k \<notin> fst ` set (ve_adb_assignments v)"
  shows "entry_wf (v\<lparr>ve_adb_assignments := btree_insert k p (ve_adb_assignments v)\<rparr>)"
proof -
  let ?kvs = "ve_adb_assignments v" let ?new = "btree_insert k p ?kvs"
  have m: "mset ?new = mset ((k, p) # ?kvs)" using set_btree_insert [OF k] by simp
  have s: "set ?new = set ((k, p) # ?kvs)" by (rule mset_eq_setD [OF m])
  have f: "distinct (map fst ?new) \<longleftrightarrow> distinct (map fst ((k, p) # ?kvs))"
    by (rule mset_eq_imp_distinct_iff) (simp only: mset_map m)
  have g: "distinct (map snd ?new) \<longleftrightarrow> distinct (map snd ((k, p) # ?kvs))"
    by (rule mset_eq_imp_distinct_iff) (simp only: mset_map m)
  have "distinct (map fst ?new)" "distinct (map snd ?new)"
    using wf k next_free_adb_port_SomeD [OF p] unfolding f g by (simp_all add: entry_wf_def assigned_ports_def)
  then show ?thesis using wf next_free_adb_port_SomeD [OF p] s by (auto simp: entry_wf_def assigned_ports_def)
qed

end
