(* ===== verification/Fat.thy ===== *)
theory Fat imports Buffers Host begin

text \<open>
  \<^verbatim>\<open>qemu-center/src/fat.rs\<close>: the builder of the FAT16 image that carries the cloud-init files. The image
  is the result of the builder's writes, in their order, into zeroed bytes. Lengths and cluster
  counts are natural numbers: a slice has fewer than \<open>2 ^ 43\<close> bytes, so none of the \<^verbatim>\<open>u32\<close> counts
  computed from one wraps.
\<close>

section \<open>Geometry\<close>

definition SEED_IMAGE_BYTES :: nat where [layout_simps]: "SEED_IMAGE_BYTES = 64 * 1024 * 1024"
definition BYTES_PER_SECTOR :: nat where [layout_simps]: "BYTES_PER_SECTOR = 512"
definition SECTORS_PER_CLUSTER :: nat where [layout_simps]: "SECTORS_PER_CLUSTER = 4"
definition CLUSTER_BYTES :: nat where [layout_simps]: "CLUSTER_BYTES = BYTES_PER_SECTOR * SECTORS_PER_CLUSTER"
definition RESERVED_SECTORS :: nat where [layout_simps]: "RESERVED_SECTORS = 4"
definition NUM_FATS :: nat where [layout_simps]: "NUM_FATS = 2"
definition ROOT_ENTRIES :: nat where [layout_simps]: "ROOT_ENTRIES = 512"
definition ROOT_DIR_BYTES :: nat where [layout_simps]: "ROOT_DIR_BYTES = ROOT_ENTRIES * 32"
definition ROOT_DIR_SECTORS :: nat where [layout_simps]: "ROOT_DIR_SECTORS = ROOT_DIR_BYTES div BYTES_PER_SECTOR"
definition TOTAL_SECTORS :: nat where [layout_simps]: "TOTAL_SECTORS = SEED_IMAGE_BYTES div BYTES_PER_SECTOR"
definition MEDIA_DESCRIPTOR :: u8 where "MEDIA_DESCRIPTOR = 0xF8"
definition SECTORS_PER_TRACK :: u16 where "SECTORS_PER_TRACK = 32"
definition HEADS :: u16 where "HEADS = 8"
definition DRIVE_NUMBER :: u8 where "DRIVE_NUMBER = 0x80"
definition EXTENDED_BOOT_SIG :: u8 where "EXTENDED_BOOT_SIG = 0x29"
definition OEM_NAME_8 :: string where "OEM_NAME_8 = ''MSDOS5.0''"
definition FS_TYPE_8 :: string where "FS_TYPE_8 = ''FAT16   ''"
definition VOLUME_LABEL_11 :: string where "VOLUME_LABEL_11 = ''CIDATA     ''"
definition VOLUME_ID :: u32 where "VOLUME_ID = 1"
definition FIXED_DOS_DATE :: u16 where "FIXED_DOS_DATE = or (or (push_bit 9 (2026 - 1980)) (push_bit 5 1)) 1"
definition FIXED_DOS_TIME :: u16 where "FIXED_DOS_TIME = 0"
definition FAT_ENTRY_EOC :: u16 where "FAT_ENTRY_EOC = 0xFFFF"
definition FAT_ENTRY_MEDIA :: u16 where "FAT_ENTRY_MEDIA = or 0xFF00 (ucast MEDIA_DESCRIPTOR)"
definition FIRST_DATA_CLUSTER :: nat where [layout_simps]: "FIRST_DATA_CLUSTER = 2"

text \<open>The loop that finds the sectors of a FAT; \<open>None\<close> would be a loop that does not end.\<close>

partial_function (option) converge_fat_sectors :: "nat \<Rightarrow> nat option" where
  "converge_fat_sectors fat_sectors =
    (let data_sectors = TOTAL_SECTORS - RESERVED_SECTORS - NUM_FATS * fat_sectors - ROOT_DIR_SECTORS;
         clusters = data_sectors div SECTORS_PER_CLUSTER;
         needed = ((clusters + 2) * 2 + BYTES_PER_SECTOR - 1) div BYTES_PER_SECTOR
     in if needed = fat_sectors then Some fat_sectors else converge_fat_sectors needed)"

definition FAT_SECTORS :: nat where
  "FAT_SECTORS = (case converge_fat_sectors 256 of Some n \<Rightarrow> n | None \<Rightarrow> 0)"

definition CLUSTER_COUNT :: nat where
  "CLUSTER_COUNT = (TOTAL_SECTORS - RESERVED_SECTORS - NUM_FATS * FAT_SECTORS - ROOT_DIR_SECTORS) div SECTORS_PER_CLUSTER"

definition FAT_START :: nat where [layout_simps]: "FAT_START = RESERVED_SECTORS * BYTES_PER_SECTOR"
definition FAT_BYTES :: nat where [layout_simps]: "FAT_BYTES = FAT_SECTORS * BYTES_PER_SECTOR"
definition ROOT_DIR_START :: nat where [layout_simps]:
  "ROOT_DIR_START = (RESERVED_SECTORS + NUM_FATS * FAT_SECTORS) * BYTES_PER_SECTOR"
definition DATA_START :: nat where [layout_simps]: "DATA_START = ROOT_DIR_START + ROOT_DIR_BYTES"

lemma converge_fat_sectors_eq: "converge_fat_sectors 256 = Some 128"
  by (subst converge_fat_sectors.simps, simp add: layout_simps)
     (subst converge_fat_sectors.simps, simp add: layout_simps)

lemma FAT_SECTORS_eq [layout_simps]: "FAT_SECTORS = 128"
  by (simp add: FAT_SECTORS_def converge_fat_sectors_eq)

lemma CLUSTER_COUNT_eq [layout_simps]: "CLUSTER_COUNT = 32695"
  by (simp add: CLUSTER_COUNT_def layout_simps)

section \<open>Names\<close>

definition ILLEGAL_SHORT_CHARS :: string where
  "ILLEGAL_SHORT_CHARS = [CHR 0x22] @ ''*+,./:;<=>?['' @ [CHR 0x5C] @ '']|''"

definition is_continuation :: "char \<Rightarrow> bool" where
  "is_continuation c = (let n = (of_char c :: nat) in 128 \<le> n \<and> n < 192)"

text \<open>\<^verbatim>\<open>str::encode_utf16\<close> of well-formed UTF-8: the units of a code point and of a string.\<close>

definition units_of :: "nat \<Rightarrow> u16 list" where
  "units_of cp = (if cp < 65536 then [of_nat cp]
     else [of_nat (55296 + (cp - 65536) div 1024), of_nat (56320 + (cp - 65536) mod 1024)])"

fun encode_utf16 :: "string \<Rightarrow> u16 list" where
  "encode_utf16 [] = []"
| "encode_utf16 (a # cs) =
    (let v = (\<lambda>c. (of_char c :: nat)); b = v a in
     if b < 192 then units_of b @ encode_utf16 cs
     else if b < 224 then (case cs of c1 # cs' \<Rightarrow>
         units_of ((b mod 32) * 64 + v c1 mod 64) @ encode_utf16 cs' | _ \<Rightarrow> [])
     else if b < 240 then (case cs of c1 # c2 # cs' \<Rightarrow>
         units_of ((b mod 16) * 4096 + (v c1 mod 64) * 64 + v c2 mod 64) @ encode_utf16 cs' | _ \<Rightarrow> [])
     else (case cs of c1 # c2 # c3 # cs' \<Rightarrow>
         units_of ((b mod 8) * 262144 + (v c1 mod 64) * 4096 + (v c2 mod 64) * 64 + v c3 mod 64)
           @ encode_utf16 cs' | _ \<Rightarrow> []))"

definition lfn_slot_pos :: "nat \<Rightarrow> nat" where
  "lfn_slot_pos k = (if k < 5 then 1 + k * 2 else if k < 11 then 14 + (k - 5) * 2 else 28 + (k - 11) * 2)"

definition lfn_checksum :: "bytes \<Rightarrow> u8" where
  "lfn_checksum short = fold (\<lambda>b sum. word_rotr 1 sum + b) short 0"

definition lfn_unit :: "u16 list \<Rightarrow> nat \<Rightarrow> u16" where
  "lfn_unit units g = (if g < length units then units ! g else if g = length units then 0 else 0xFFFF)"

definition lfn_entry :: "u16 list \<Rightarrow> nat \<Rightarrow> u8 \<Rightarrow> nat \<Rightarrow> bytes" where
  "lfn_entry units cnt checksum seq =
    apply_writes
      ([(0, [if seq = cnt then or 0x40 (of_nat seq) else of_nat seq]), (11, [0x0F]), (12, [0]), (13, [checksum])]
       @ map (\<lambda>k. (lfn_slot_pos k, u16_to_le (lfn_unit units ((seq - 1) * 13 + k)))) [0..<13])
      (replicate 32 0)"

definition lfn_entries :: "string \<Rightarrow> u8 \<Rightarrow> message + bytes list" where
  "lfn_entries long checksum =
    (if CHR 0x00 \<in> set long \<or> CHR ''/'' \<in> set long
     then Inl (Message ''file name {:?} contains a path/illegal character'' [long])
     else (let units = encode_utf16 long; cnt = (length units + 12) div 13 in
       if units = [] then Inl (text_message ''file name must not be empty'')
       else if length units > 255
       then Inl (Message ''file name {:?} is {} UTF-16 units; the VFAT LFN limit is 255'' [long, dec_string (length units)])
       else Inr (map (lfn_entry units cnt checksum) (rev [1..<Suc cnt]))))"

definition pack_short :: "string \<Rightarrow> string \<Rightarrow> bytes" where
  "pack_short base ext =
    (let pad = (\<lambda>n s. as_bytes (take n s) @ replicate (n - length s) 32) in pad 8 base @ pad 3 ext)"

definition is_ascii_punctuation :: "char \<Rightarrow> bool" where
  "is_ascii_punctuation c = (let n = (of_char c :: nat) in
     33 \<le> n \<and> n \<le> 47 \<or> 58 \<le> n \<and> n \<le> 64 \<or> 91 \<le> n \<and> n \<le> 96 \<or> 123 \<le> n \<and> n \<le> 126)"

text \<open>One character of \<^verbatim>\<open>sanitize_chunk\<close>; a character beyond ASCII counts once, at its first byte.\<close>

fun sanitize_chars :: "string \<Rightarrow> string \<times> bool \<times> bool" where
  "sanitize_chars [] = ([], False, False)"
| "sanitize_chars (c # cs) =
    (let (out, lossy, had_lower) = sanitize_chars cs in
     if c = CHR '' '' then (out, True, had_lower)
     else if is_continuation c then (out, lossy, had_lower)
     else if is_ascii_lowercase c then (to_ascii_uppercase_char c # out, lossy, True)
     else if is_ascii_alphanumeric c \<or> (is_ascii_punctuation c \<and> c \<notin> set ILLEGAL_SHORT_CHARS)
     then (c # out, lossy, had_lower)
     else (CHR ''_'' # out, True, had_lower))"

definition sanitize_chunk :: "string \<Rightarrow> string \<times> bool \<times> bool" where
  "sanitize_chunk s = sanitize_chars s"

record short_name =
  sn_bytes :: bytes
  sn_nt_flags :: u8

definition split_extension :: "string \<Rightarrow> string \<times> string" where
  "split_extension long =
    (let ext = rev (takeWhile (\<lambda>c. c \<noteq> CHR ''.'') (rev long)) in
     if CHR ''.'' \<in> set long \<and> ext \<noteq> [] then (take (length long - length ext - 1) long, ext) else (long, []))"

text \<open>The loop over the numeric tails. It ends: at 1000000 the tail has seven digits.\<close>

function short_tail_loop :: "string \<Rightarrow> string \<Rightarrow> string \<Rightarrow> bytes list \<Rightarrow> nat \<Rightarrow> message + bytes" where
  "short_tail_loop long base ext3 used tail =
    (let digits = length (dec_string tail) in
     if digits > 6 then Inl (Message ''cannot derive a unique 8.3 short name for {:?}'' [long])
     else (let taken = min 6 (8 - (1 + digits));
               candidate = pack_short (take taken base @ ''~'' @ dec_string tail) ext3
           in if candidate \<notin> set used then Inr candidate
              else short_tail_loop long base ext3 used (tail + 1)))"
  by pat_completeness auto

lemma length_dec_string_ge: "10 ^ k \<le> n \<Longrightarrow> k < length (dec_string n)"
proof (induction k arbitrary: n)
  case 0
  then show ?case using dec_string_nonempty [of n] by (cases "dec_string n") auto
next
  case (Suc k)
  then have "10 ^ k \<le> n div 10" "\<not> n < 10"
    by (auto simp: less_eq_div_iff_mult_less_eq mult.commute) (metis less_le_trans mult_less_cancel1 not_less one_le_numeral one_le_power order_trans power_Suc mult.right_neutral not_numeral_le_zero)
  with Suc.IH show ?case by (subst dec_string.simps) simp
qed

termination short_tail_loop
proof (relation "measure (\<lambda>(long, base, ext3, used, tail). 1000000 - tail)")
  fix tail :: nat and digits
  assume "digits = length (dec_string tail)" "\<not> 6 < digits"
  then have "tail < 1000000" using length_dec_string_ge [of 6 tail] by (simp add: not_less) (meson not_le)
  then show "((long, base, ext3, used, tail + 1), long, base, ext3, used, tail)
      \<in> measure (\<lambda>(long, base, ext3, used, tail). 1000000 - tail)" for long base ext3 used
    by simp
qed simp

declare short_tail_loop.simps [simp del]

text \<open>The name, and the set of used names with the new one.\<close>

definition derive_short_name :: "string \<Rightarrow> bytes list \<Rightarrow> message + short_name \<times> bytes list" where
  "derive_short_name long used =
    (let (raw_base, raw_ext) = split_extension long;
         (base, base_lossy, base_lower) = sanitize_chunk raw_base;
         (ext, ext_lossy, ext_lower) = sanitize_chunk raw_ext in
     if base = [] \<and> ext = []
     then Inl (Message ''file name {:?} has no characters usable in an 8.3 short name'' [long])
     else (let lossy = (base_lossy \<or> ext_lossy \<or> length base > 8 \<or> length ext > 3);
               nt_flags = or (if base_lower then 0x08 else 0) (if ext_lower then 0x10 else 0);
               candidate = pack_short base ext in
       if \<not> lossy \<and> candidate \<notin> set used
       then Inr (\<lparr>sn_bytes = candidate, sn_nt_flags = nt_flags\<rparr>, candidate # used)
       else and_then (short_tail_loop long base (take 3 ext) used 1) (\<lambda>bs.
         Inr (\<lparr>sn_bytes = bs, sn_nt_flags = nt_flags\<rparr>, bs # used))))"

section \<open>The image\<close>

definition boot_sector_writes :: "region list" where
  "boot_sector_writes =
    [(0, [0xEB]), (1, [0x3C]), (2, [0x90]), (3, as_bytes OEM_NAME_8),
     (0x0B, u16_to_le (of_nat BYTES_PER_SECTOR)), (0x0D, [of_nat SECTORS_PER_CLUSTER]),
     (0x0E, u16_to_le (of_nat RESERVED_SECTORS)), (0x10, [of_nat NUM_FATS]),
     (0x11, u16_to_le (of_nat ROOT_ENTRIES)), (0x13, u16_to_le 0), (0x15, [MEDIA_DESCRIPTOR]),
     (0x16, u16_to_le (of_nat FAT_SECTORS)), (0x18, u16_to_le SECTORS_PER_TRACK), (0x1A, u16_to_le HEADS),
     (0x1C, u32_to_le 0), (0x20, u32_to_le (of_nat TOTAL_SECTORS)), (0x24, [DRIVE_NUMBER]), (0x25, [0]),
     (0x26, [EXTENDED_BOOT_SIG]), (0x27, u32_to_le VOLUME_ID), (0x2B, as_bytes VOLUME_LABEL_11),
     (0x36, as_bytes FS_TYPE_8), (0x1FE, [0x55]), (0x1FF, [0xAA])]"

definition put_fat_entry :: "nat \<Rightarrow> u16 \<Rightarrow> region list" where
  "put_fat_entry idx value = (let off = FAT_START + idx * 2 in
     [(off, u16_to_le value), (off + FAT_BYTES, u16_to_le value)])"

definition slot_off :: "nat \<Rightarrow> nat" where
  "slot_off slot = ROOT_DIR_START + slot * 32"

definition label_entry :: bytes where
  "label_entry = apply_writes [(0, as_bytes VOLUME_LABEL_11), (11, [0x08])] (replicate 32 0)"

definition cluster_off :: "nat \<Rightarrow> nat" where
  "cluster_off c = DATA_START + (c - FIRST_DATA_CLUSTER) * CLUSTER_BYTES"

text \<open>The writes of one file's cluster chain: \<open>n\<close> clusters from \<open>first\<close> on.\<close>

definition chain_writes :: "bytes \<Rightarrow> nat \<Rightarrow> nat \<Rightarrow> region list" where
  "chain_writes content first n =
    concat (map (\<lambda>i. put_fat_entry (first + i) (if i + 1 = n then FAT_ENTRY_EOC else of_nat (first + i + 1))
      @ [(cluster_off (first + i), take CLUSTER_BYTES (drop (i * CLUSTER_BYTES) content))]) [0..<n])"

definition dir_entry :: "short_name \<Rightarrow> u16 \<Rightarrow> nat \<Rightarrow> bytes" where
  "dir_entry short first_cluster len =
    apply_writes
      [(0, sn_bytes short), (11, [0x20]), (12, [sn_nt_flags short]), (0x10, u16_to_le FIXED_DOS_DATE),
       (0x12, u16_to_le FIXED_DOS_DATE), (0x16, u16_to_le FIXED_DOS_TIME), (0x18, u16_to_le FIXED_DOS_DATE),
       (0x1A, u16_to_le first_cluster), (0x1C, u32_to_le (of_nat len))]
      (replicate 32 0)"

record fat_builder =
  fb_writes :: "region list"
  fb_used_short :: "bytes list"
  fb_root_slot :: nat
  fb_next_cluster :: nat

definition add_file :: "string \<times> bytes \<Rightarrow> fat_builder \<Rightarrow> message + fat_builder" where
  "add_file file b =
    (let name = fst file; content = snd file in
     and_then (derive_short_name name (fb_used_short b)) (\<lambda>(short, used).
     and_then (lfn_entries name (lfn_checksum (sn_bytes short))) (\<lambda>lfn.
     if fb_root_slot b + 1 + length lfn > ROOT_ENTRIES
     then Inl (Message ''root directory full: {ROOT_ENTRIES} entries, cannot add {:?}'' [name])
     else (let lfn_writes = map (\<lambda>i. (slot_off (fb_root_slot b + i), lfn ! i)) [0..<length lfn];
               slot = fb_root_slot b + length lfn;
               n = (length content + CLUSTER_BYTES - 1) div CLUSTER_BYTES in
       if content \<noteq> [] \<and> fb_next_cluster b + n > CLUSTER_COUNT + FIRST_DATA_CLUSTER
       then Inl (Message ''seed data area exhausted: {} bytes free, {:?} needs {}''
              [dec_string ((CLUSTER_COUNT + FIRST_DATA_CLUSTER - fb_next_cluster b) * CLUSTER_BYTES), name,
               dec_string (length content)])
       else (let chain = (if content = [] then [] else chain_writes content (fb_next_cluster b) n);
                 first_cluster = (if content = [] then 0 else of_nat (fb_next_cluster b))
             in Inr \<lparr>fb_writes = fb_writes b @ lfn_writes @ chain
                       @ [(slot_off slot, dir_entry short first_cluster (length content))],
                     fb_used_short = used, fb_root_slot = slot + 1,
                     fb_next_cluster = (if content = [] then fb_next_cluster b else fb_next_cluster b + n)\<rparr>)))))"

fun add_files :: "(string \<times> bytes) list \<Rightarrow> fat_builder \<Rightarrow> message + fat_builder" where
  "add_files [] b = Inr b"
| "add_files (f # fs) b = and_then (add_file f b) (add_files fs)"

definition empty_builder :: fat_builder where
  "empty_builder = \<lparr>fb_writes = boot_sector_writes @ put_fat_entry 0 FAT_ENTRY_MEDIA @ put_fat_entry 1 FAT_ENTRY_EOC
       @ [(ROOT_DIR_START, label_entry)],
     fb_used_short = [], fb_root_slot = 1, fb_next_cluster = FIRST_DATA_CLUSTER\<rparr>"

definition build_fat16_image :: "(string \<times> bytes) list \<Rightarrow> message + bytes" where
  "build_fat16_image files =
    and_then (add_files files empty_builder) (\<lambda>b. Inr (apply_writes (fb_writes b) (replicate SEED_IMAGE_BYTES 0)))"

end
