(* ===== verification/Node_Grants.thy ===== *)
theory Node_Grants imports Auth_Crypto Host begin

text \<open>
  The first part of \<^verbatim>\<open>qemu-center/src/main.rs\<close>: the checks of the execution grant that the desktop client
  stored in a file, of the receipt that the authorization service signed when the guest consumed
  that grant, and the ledger on the host that lets a receipt be used once.

  \<^verbatim>\<open>ExecutionGrantFile\<close>, \<^verbatim>\<open>ExecutionGrantClaims\<close> and the two receipt structs have the fields of the
  service's own structs, whose records are used here; \<open>node_serde\<close> is serde\_json at the two outer
  ones, \<open>crates\<close> has it at the claims.
\<close>

definition EXECUTION_GRANT_MAX_REQUEST_AGE_SECS :: i64 where "EXECUTION_GRANT_MAX_REQUEST_AGE_SECS = 5 * 60"
definition MAX_EXECUTION_GRANT_FIELD_BYTES :: nat where "MAX_EXECUTION_GRANT_FIELD_BYTES = 256"

record node_serde =
  grant_file_from_slice :: "bytes \<Rightarrow> string + signed_execution_grant"
  receipt_from_str :: "string \<Rightarrow> string + signed_receipt"

definition decode_grant_base64 :: "crates \<Rightarrow> string \<Rightarrow> string \<Rightarrow> message + bytes" where
  "decode_grant_base64 cr value lab =
    (if blank value then Inl (Message ''execution grant {} is empty'' [lab])
     else map_err (\<lambda>e. Message ''execution grant {} is invalid: {}'' [lab, e]) (b64_decode cr value))"

text \<open>The keys of the ring, by identifier; \<open>keys\<close> is what the loop has inserted so far.\<close>

fun parse_key_items :: "crates \<Rightarrow> string list \<Rightarrow> (string \<times> bytes) list \<Rightarrow> message + (string \<times> bytes) list" where
  "parse_key_items cr [] keys = Inr keys"
| "parse_key_items cr (raw # items) keys =
    (case split_once ''='' (trim raw) of
       None \<Rightarrow> Inl (text_message ''execution public-key ring entry must be key-id=base64url'')
     | Some (raw_id, encoded_key) \<Rightarrow>
       (let key_id = trim raw_id in
        if key_id = [] \<or> blank encoded_key
        then Inl (text_message ''execution public-key ring contains an empty entry'')
        else and_then (decode_grant_base64 cr (trim encoded_key) ''public key'') (\<lambda>bs.
          if length bs \<noteq> 32 then Inl (text_message ''execution public key must be 32 bytes'')
          else and_then (map_err (\<lambda>e. Message ''execution public key is invalid: {}'' [e]) (ed25519_key cr bs)) (\<lambda>key.
            if key_id \<in> fst ` set keys then Inl (Message ''execution public-key ring repeats key id {:?}'' [key_id])
            else parse_key_items cr items (keys @ [(key_id, key)])))))"

definition parse_execution_key_ring :: "crates \<Rightarrow> string \<Rightarrow> message + (string \<times> bytes) list" where
  "parse_execution_key_ring cr encoded =
    and_then (parse_key_items cr (split_char (CHR '','') encoded) []) (\<lambda>keys.
      if keys = [] then Inl (text_message ''execution public-key ring is empty'') else Inr keys)"

definition node_grant_incomplete :: "execution_grant_claims \<Rightarrow> bool" where
  "node_grant_incomplete claims =
    (eg_client_id claims = [] \<or> eg_device_id claims = [] \<or> eg_session_id claims = []
     \<or> eg_client_version claims = [] \<or> eg_artifact_id claims = [] \<or> eg_action claims = []
     \<or> eg_vm claims = [] \<or> eg_instance claims = [] \<or> eg_jti claims = []
     \<or> length (eg_jti claims) > MAX_EXECUTION_GRANT_FIELD_BYTES
     \<or> eg_nonce claims = [] \<or> length (eg_nonce claims) > MAX_EXECUTION_GRANT_FIELD_BYTES
     \<or> length (eg_artifact_sha256 claims) \<noteq> 64
     \<or> \<not> list_all is_ascii_hexdigit (eg_artifact_sha256 claims))"

text \<open>What is checked of a grant once its file is parsed.\<close>

definition verify_parsed_grant ::
    "crates \<Rightarrow> string \<Rightarrow> string \<Rightarrow> i64 \<Rightarrow> string \<Rightarrow> signed_execution_grant \<Rightarrow> message + execution_grant_claims" where
  "verify_parsed_grant cr expected_vm expected_instance now encoded_key_ring grant =
    (if (case sg_device_proof grant of None \<Rightarrow> True | Some p \<Rightarrow> p = [])
     then Inl (text_message ''execution grant device proof is required'')
     else and_then (parse_execution_key_ring cr encoded_key_ring) (\<lambda>ring.
     case map_of ring (sg_key_id grant) of
       None \<Rightarrow> Inl (text_message ''execution grant key is not trusted'')
     | Some key \<Rightarrow>
     and_then (decode_grant_base64 cr (sg_payload grant) ''payload'') (\<lambda>payload.
     and_then (decode_grant_base64 cr (sg_signature grant) ''signature'') (\<lambda>signature_bytes.
     and_then (map_err (\<lambda>e. Message ''execution grant signature is invalid: {}'' [e]) (ed25519_signature cr signature_bytes)) (\<lambda>sig.
     if \<not> ed25519_verify cr key payload sig then Inl (text_message ''execution grant signature is invalid'')
     else and_then (map_err (\<lambda>e. Message ''execution grant payload is invalid: {}'' [e]) (grant_claims_from_slice cr payload)) (\<lambda>claims.
     if eg_iss claims \<noteq> ''rdc-auth'' \<or> eg_aud claims \<noteq> ''rdc-guest-runner''
     then Inl (text_message ''execution grant issuer or audience is invalid'')
     else if node_grant_incomplete claims then Inl (text_message ''execution grant payload is incomplete'')
     else if eg_exp claims \<le> now
        \<or> eg_iat claims < saturating_sub_i64 now EXECUTION_GRANT_MAX_REQUEST_AGE_SECS
        \<or> eg_iat claims > saturating_add_i64 now 300
        \<or> eg_exp claims \<le> eg_iat claims
     then Inl (text_message ''execution grant is expired or not yet valid'')
     else if eg_action claims \<noteq> ''preset_apply'' \<or> eg_vm claims \<noteq> expected_vm \<or> eg_instance claims \<noteq> expected_instance
     then Inl (text_message ''execution grant is bound to another VM or instance'')
     else Inr claims))))))"

definition verify_execution_grant_file_with_keys ::
    "crates \<Rightarrow> node_serde \<Rightarrow> host \<Rightarrow> files \<Rightarrow> path \<Rightarrow> string \<Rightarrow> string \<Rightarrow> i64 \<Rightarrow> string
      \<Rightarrow> message + execution_grant_claims" where
  "verify_execution_grant_file_with_keys cr ns h fs p expected_vm expected_instance now encoded_key_ring =
    (case (case ho_io h ''metadata'' p of
        Some e \<Rightarrow> Inl (OtherError e)
      | None \<Rightarrow> (case fs p of None \<Rightarrow> Inl NotFound | Some n \<Rightarrow> Inr n)) of
       Inl e \<Rightarrow> Inl (Message ''execution grant file cannot be read: {}'' [io_text e])
     | Inr Dir \<Rightarrow> Inl (text_message ''execution grant file is not a regular file'')
     | Inr (File content) \<Rightarrow>
       if length content > 64 * 1024 then Inl (text_message ''execution grant file is too large'')
       else and_then (map_err (\<lambda>e. Message ''execution grant file cannot be read: {}'' [io_text e]) (read_to_string h p fs)) (\<lambda>raw.
         and_then (map_err (\<lambda>e. Message ''execution grant file is invalid JSON: {}'' [e]) (grant_file_from_slice ns (as_bytes raw)))
           (verify_parsed_grant cr expected_vm expected_instance now encoded_key_ring)))"

text \<open>\<^verbatim>\<open>option_env!\<close> reads the key ring when the program is built: the parameter \<open>built_keys\<close>.\<close>

definition unix_now :: "host \<Rightarrow> i64" where
  "unix_now h = (let secs = int (ho_now h mod 18446744073709551616) in
     if secs \<le> i64_max then secs else secs - 18446744073709551616)"

definition verify_execution_grant_file ::
    "crates \<Rightarrow> node_serde \<Rightarrow> string option \<Rightarrow> host \<Rightarrow> files \<Rightarrow> path \<Rightarrow> string \<Rightarrow> string
      \<Rightarrow> message + execution_grant_claims" where
  "verify_execution_grant_file cr ns built_keys h fs p expected_vm expected_instance =
    (case built_keys of
       None \<Rightarrow> Inl (text_message
         ''qemu-center was built without RDC_AUTH_PUBLIC_KEYS; protected redroid creation is disabled'')
     | Some key_ring \<Rightarrow>
       verify_execution_grant_file_with_keys cr ns h fs p expected_vm expected_instance (unix_now h) key_ring)"

definition receipt_incomplete :: "receipt_claims \<Rightarrow> bool" where
  "receipt_incomplete claims =
    (rc_client_id claims = [] \<or> rc_device_id claims = [] \<or> rc_session_id claims = []
     \<or> rc_client_version claims = [] \<or> rc_artifact_id claims = [] \<or> rc_action claims = []
     \<or> rc_vm claims = [] \<or> rc_instance claims = [] \<or> rc_grant_jti claims = []
     \<or> length (rc_artifact_sha256 claims) \<noteq> 64
     \<or> \<not> list_all is_ascii_hexdigit (rc_artifact_sha256 claims))"

definition receipt_matches_grant :: "receipt_claims \<Rightarrow> execution_grant_claims \<Rightarrow> bool" where
  "receipt_matches_grant claims grant =
    (rc_client_id claims = eg_client_id grant \<and> rc_device_id claims = eg_device_id grant
     \<and> rc_session_id claims = eg_session_id grant \<and> rc_client_version claims = eg_client_version grant
     \<and> rc_artifact_id claims = eg_artifact_id grant
     \<and> eq_ignore_ascii_case (rc_artifact_sha256 claims) (eg_artifact_sha256 grant)
     \<and> rc_action claims = eg_action grant \<and> rc_vm claims = eg_vm grant
     \<and> rc_instance claims = eg_instance grant \<and> rc_grant_jti claims = eg_jti grant)"

definition verify_execution_authorization_receipt_with_keys ::
    "crates \<Rightarrow> node_serde \<Rightarrow> string \<Rightarrow> execution_grant_claims \<Rightarrow> i64 \<Rightarrow> string \<Rightarrow> message + unit" where
  "verify_execution_authorization_receipt_with_keys cr ns receipt_json grant now encoded_key_ring =
    (if blank receipt_json \<or> length receipt_json > 64 * 1024
     then Inl (text_message ''execution authorization receipt has an invalid size'')
     else and_then (map_err (\<lambda>e. Message ''execution authorization receipt is invalid JSON: {}'' [e]) (receipt_from_str ns receipt_json)) (\<lambda>receipt.
     if sr_key_id receipt = [] then Inl (text_message ''execution authorization receipt key is empty'')
     else and_then (parse_execution_key_ring cr encoded_key_ring) (\<lambda>ring.
     case map_of ring (sr_key_id receipt) of
       None \<Rightarrow> Inl (text_message ''execution authorization receipt key is not trusted'')
     | Some key \<Rightarrow>
     and_then (map_err (\<lambda>e. Message ''execution authorization receipt payload is invalid: {}'' [e]) (b64_decode cr (sr_payload receipt))) (\<lambda>payload.
     and_then (map_err (\<lambda>e. Message ''execution authorization receipt signature is invalid: {}'' [e]) (b64_decode cr (sr_signature receipt))) (\<lambda>signature_bytes.
     and_then (map_err (\<lambda>e. Message ''execution authorization receipt signature is invalid: {}'' [e]) (ed25519_signature cr signature_bytes)) (\<lambda>sig.
     if \<not> ed25519_verify cr key payload sig then Inl (text_message ''execution authorization receipt signature is invalid'')
     else and_then (map_err (\<lambda>e. Message ''execution authorization receipt payload is invalid: {}'' [e]) (receipt_claims_from_slice cr payload)) (\<lambda>claims.
     if rc_iss claims \<noteq> ''rdc-auth'' \<or> rc_aud claims \<noteq> ''rdc-qemu-center''
     then Inl (text_message ''execution authorization receipt issuer or audience is invalid'')
     else if receipt_incomplete claims then Inl (text_message ''execution authorization receipt payload is incomplete'')
     else if rc_exp claims \<le> now \<or> rc_iat claims > saturating_add_i64 now 300 \<or> rc_exp claims \<le> rc_iat claims
     then Inl (text_message ''execution authorization receipt is expired or not yet valid'')
     else if \<not> receipt_matches_grant claims grant
     then Inl (text_message ''execution authorization receipt is bound to a different grant'')
     else Inr ())))))))"

text \<open>The path is given as the text of \<^verbatim>\<open>to_string_lossy\<close>.\<close>

definition validate_execution_authorization_path :: "string \<Rightarrow> message + unit" where
  "validate_execution_authorization_path value =
    (if \<not> starts_with value ''/run/rdc-presets/'' \<or> str_contains value ''..''
        \<or> list_ex (\<lambda>c. c = CHR 0x0A \<or> c = CHR 0x0D \<or> c = CHR 0x00) value \<or> ends_with value ''/''
     then Inl (text_message ''execution authorization file must be a concrete path below /run/rdc-presets'')
     else Inr ())"

definition ledger_dir :: "path \<Rightarrow> path" where
  "ledger_dir state_dir = path_join state_dir ''execution-receipts''"

definition ledger_file :: "crates \<Rightarrow> path \<Rightarrow> string \<Rightarrow> path" where
  "ledger_file cr state_dir grant_jti =
     path_join (ledger_dir state_dir) (b64_encode cr (as_bytes grant_jti) @ ''.receipt'')"

definition consume_execution_receipt_once ::
    "crates \<Rightarrow> host \<Rightarrow> path \<Rightarrow> string \<Rightarrow> sys \<Rightarrow> (message + unit) \<times> sys" where
  "consume_execution_receipt_once cr h state_dir grant_jti s =
    (if blank grant_jti \<or> length grant_jti > 256
        \<or> list_ex (\<lambda>c. c = CHR 0x00 \<or> c = CHR 0x0A \<or> c = CHR 0x0D) grant_jti
     then (Inl (text_message ''execution authorization receipt JTI is invalid''), s)
     else (case create_dir_all h (ledger_dir state_dir) s of
       (Inl e, s1) \<Rightarrow> (Inl (Message ''execution authorization receipt ledger cannot be created: {}'' [io_text e]), s1)
     | (Inr _, s1) \<Rightarrow> (case create_new h (ledger_file cr state_dir grant_jti) s1 of
         (Inr _, s2) \<Rightarrow> (Inr (), s2)
       | (Inl AlreadyExists, s2) \<Rightarrow>
           (Inl (text_message ''execution authorization receipt has already been consumed on this host''), s2)
       | (Inl e, s2) \<Rightarrow>
           (Inl (Message ''execution authorization receipt ledger cannot be written: {}'' [io_text e]), s2))))"

section \<open>Properties\<close>

lemma verified_grant:
  assumes "verify_parsed_grant cr vm inst now ring grant = Inr claims"
  obtains keys key payload sig_bytes sig where "parse_execution_key_ring cr ring = Inr keys"
    and "map_of keys (sg_key_id grant) = Some key"
    and "b64_decode cr (sg_payload grant) = Inr payload" and "b64_decode cr (sg_signature grant) = Inr sig_bytes"
    and "ed25519_signature cr sig_bytes = Inr sig" and "ed25519_verify cr key payload sig"
    and "grant_claims_from_slice cr payload = Inr claims"
    and "eg_vm claims = vm" and "eg_instance claims = inst" and "eg_action claims = ''preset_apply''"
    and "now < eg_exp claims" and "eg_jti claims \<noteq> []"
  using assms
  by (auto simp: verify_parsed_grant_def decode_grant_base64_def and_then_Inr_iff node_grant_incomplete_def
      split: if_splits option.splits)

lemma consumed_once:
  assumes "consume_execution_receipt_once cr h d jti s = (Inr (), s')"
  shows "\<not> path_exists (sy_files s) (ledger_file cr d jti) \<and> path_exists (sy_files s') (ledger_file cr d jti)"
proof -
  obtain s1 where s1: "create_dir_all h (ledger_dir d) s = (Inr (), s1)"
    and c: "create_new h (ledger_file cr d jti) s1 = (Inr (), s')"
    using assms by (auto simp: consume_execution_receipt_once_def split: if_splits prod.splits sum.splits io_error.splits)
  have nb: "\<not> below (ledger_file cr d jti) (ledger_dir d)"
    by (cases d) (simp add: ledger_file_def ledger_dir_def path_join_def below_iff)
  have "sy_files s1 (ledger_file cr d jti) = sy_files s (ledger_file cr d jti)"
    using s1 nb by (auto simp: create_dir_all_def split: option.splits)
  then show ?thesis using c by (auto simp: create_new_def path_exists_def split: if_splits option.splits)
qed

lemma consumed_refused:
  assumes "path_exists (sy_files s) (ledger_file cr d jti)"
  shows "is_err (fst (consume_execution_receipt_once cr h d jti s))"
proof -
  have "path_exists (sy_files (snd (create_dir_all h (ledger_dir d) s))) (ledger_file cr d jti)"
    using assms by (auto simp: create_dir_all_def path_exists_def split: option.splits)
  then show ?thesis
    by (auto simp: consume_execution_receipt_once_def create_new_def is_err_def split: prod.splits sum.splits)
qed

end
