(* ===== verification/Json.thy ===== *)
theory Json imports Strings begin

text \<open>
  JSON values. JSON text is read and written by serde\_json, the record \<open>json_lib\<close>; an object keeps its entries
  in the order in which the program iterates over them.
\<close>

datatype jvalue = JNull | JBool bool | JNum int | JFloat string | JText string
    | JList "jvalue list" | JDict "(string \<times> jvalue) list"

record json_lib =
  jl_parse :: "string \<Rightarrow> string + jvalue"
  jl_print :: "jvalue \<Rightarrow> string"

definition jget :: "string \<Rightarrow> jvalue \<Rightarrow> jvalue option" where
  "jget k v = (case v of JDict kvs \<Rightarrow> map_of kvs k | _ \<Rightarrow> None)"

text \<open>\<^verbatim>\<open>Value::pointer\<close> through objects.\<close>

fun pointer :: "string list \<Rightarrow> jvalue \<Rightarrow> jvalue option" where
  "pointer [] v = Some v"
| "pointer (k # ks) v = (case jget k v of None \<Rightarrow> None | Some w \<Rightarrow> pointer ks w)"

definition as_text :: "jvalue \<Rightarrow> string option" where
  "as_text v = (case v of JText s \<Rightarrow> Some s | _ \<Rightarrow> None)"

definition as_u64 :: "jvalue \<Rightarrow> u64 option" where
  "as_u64 v = (case v of JNum i \<Rightarrow> if 0 \<le> i \<and> i < 18446744073709551616 then Some (of_int i) else None | _ \<Rightarrow> None)"

end
