(* ===== verification/Qmp.thy ===== *)
theory Qmp imports Vm Json begin

text \<open>
  The QMP client: \<^verbatim>\<open>qemu-center/src/qmp.rs\<close> and the frames and replies of \<^verbatim>\<open>vm.rs\<close>. What arrives on the socket is given by the \<open>host\<close>.
\<close>

section \<open>Frames and replies\<close>

definition qmp_capabilities_frame :: string where
  "qmp_capabilities_frame = ''{'' @ [CHR 0x22] @ ''execute'' @ [CHR 0x22] @ '':'' @ [CHR 0x22] @ ''qmp_capabilities'' @ [CHR 0x22] @ ''}''"

definition qmp_powerdown_frame :: string where
  "qmp_powerdown_frame = ''{'' @ [CHR 0x22] @ ''execute'' @ [CHR 0x22] @ '':'' @ [CHR 0x22] @ ''system_powerdown'' @ [CHR 0x22] @ ''}''"

definition qmp_stop_frames :: "string list" where
  "qmp_stop_frames = [qmp_capabilities_frame, qmp_powerdown_frame]"

definition qmp_reply_is_ok :: "json_lib \<Rightarrow> string \<Rightarrow> bool" where
  "qmp_reply_is_ok jl reply = (case jl_parse jl (trim reply) of
     Inr v \<Rightarrow> (case jget ''error'' v of Some e \<Rightarrow> e = JNull | None \<Rightarrow> True)
   | Inl _ \<Rightarrow> False)"

definition qmp_greeting_received :: "string \<Rightarrow> bool" where
  "qmp_greeting_received l = str_contains l ([CHR 0x22] @ ''QMP'' @ [CHR 0x22])"

definition qmp_internal_snapshot_frame :: "json_lib \<Rightarrow> string \<Rightarrow> string \<Rightarrow> string" where
  "qmp_internal_snapshot_frame jl device tag = jl_print jl (JDict
     [(''arguments'', JDict [(''device'', JText device), (''name'', JText tag)]),
      (''execute'', JText ''blockdev-snapshot-internal-sync'')])"

definition qmp_delete_internal_snapshot_frame :: "json_lib \<Rightarrow> string \<Rightarrow> string \<Rightarrow> string" where
  "qmp_delete_internal_snapshot_frame jl device tag = jl_print jl (JDict
     [(''arguments'', JDict [(''device'', JText device), (''name'', JText tag)]),
      (''execute'', JText ''blockdev-snapshot-delete-internal-sync'')])"

definition qmp_query_block_frame :: string where
  "qmp_query_block_frame = ''{'' @ [CHR 0x22] @ ''execute'' @ [CHR 0x22] @ '':'' @ [CHR 0x22] @ ''query-block'' @ [CHR 0x22] @ ''}''"

definition qmp_balloon_frame :: "json_lib \<Rightarrow> u64 \<Rightarrow> string" where
  "qmp_balloon_frame jl value = jl_print jl (JDict
     [(''arguments'', JDict [(''value'', JNum (uint value))]), (''execute'', JText ''balloon'')])"

definition qmp_query_balloon_frame :: string where
  "qmp_query_balloon_frame = ''{'' @ [CHR 0x22] @ ''execute'' @ [CHR 0x22] @ '':'' @ [CHR 0x22] @ ''query-balloon'' @ [CHR 0x22] @ ''}''"

definition qmp_reply_error :: "json_lib \<Rightarrow> string \<Rightarrow> string option" where
  "qmp_reply_error jl reply = (case jl_parse jl (trim reply) of
     Inl _ \<Rightarrow> None
   | Inr v \<Rightarrow> (case jget ''error'' v of
       None \<Rightarrow> None
     | Some e \<Rightarrow> if e = JNull then None
         else Some (case Option.bind (jget ''desc'' e) as_text of Some d \<Rightarrow> d | None \<Rightarrow> ''unspecified QMP error'')))"

definition normalize_image_path :: "string \<Rightarrow> string" where
  "normalize_image_path p = to_ascii_lowercase (str_replace [CHR 0x5C] ''/'' p)"

text \<open>\<^verbatim>\<open>find_map\<close>: the first device for which every step of the closure gives a value.\<close>

fun find_device :: "string \<Rightarrow> jvalue list \<Rightarrow> string option" where
  "find_device want [] = None"
| "find_device want (dev # devs) =
    (case Option.bind (pointer [''inserted'', ''file''] dev) as_text of
       None \<Rightarrow> find_device want devs
     | Some file \<Rightarrow>
       if normalize_image_path file = want
       then (case Option.bind (jget ''device'' dev) as_text of Some d \<Rightarrow> Some d | None \<Rightarrow> find_device want devs)
       else find_device want devs)"

definition qmp_device_for_disk :: "json_lib \<Rightarrow> string \<Rightarrow> string \<Rightarrow> string option" where
  "qmp_device_for_disk jl query_block_reply disk = (case jl_parse jl (trim query_block_reply) of
     Inl _ \<Rightarrow> None
   | Inr v \<Rightarrow> (case jget ''return'' v of
       Some (JList devs) \<Rightarrow> find_device (normalize_image_path disk) devs
     | _ \<Rightarrow> None))"

section \<open>The client\<close>

datatype qmp_error = Transport message | Rejected string

definition probe :: "host \<Rightarrow> u16 \<Rightarrow> qmp_probe" where
  "probe h port = (case ho_connect h port of
     Connected \<Rightarrow> (case ho_qmp_lines h port [] of
         Inr l # _ \<Rightarrow> if qmp_greeting_received l then Answered else TimedOut
       | _ \<Rightarrow> TimedOut)
   | ConnectionRefused \<Rightarrow> Refused
   | ConnectTimeout \<Rightarrow> TimedOut
   | ConnectFailed _ \<Rightarrow> TimedOut)"

record qmp_client =
  qc_port :: u16
  qc_sent :: "string list"
  qc_unread :: "(string + string) list"

definition read_line :: "(string + string) list \<Rightarrow> (string + string) \<times> (string + string) list" where
  "read_line unread = (case unread of
     [] \<Rightarrow> (Inl ''connection closed by QEMU'', [])
   | r # rs \<Rightarrow> (r, rs))"

fun reply_loop :: "json_lib \<Rightarrow> (string + string) list \<Rightarrow> (qmp_error + string) \<times> (string + string) list" where
  "reply_loop jl [] = (Inl (Transport (Message ''read reply: {}'' [''connection closed by QEMU''])), [])"
| "reply_loop jl (r # rs) = (case r of
     Inl e \<Rightarrow> (Inl (Transport (Message ''read reply: {}'' [e])), rs)
   | Inr l \<Rightarrow> (case qmp_reply_error jl l of
       Some desc \<Rightarrow> (Inl (Rejected desc), rs)
     | None \<Rightarrow>
       if qmp_reply_is_ok jl l then (Inr l, rs)
       else if \<not> str_contains l ([CHR 0x22] @ ''event'' @ [CHR 0x22])
       then (Inl (Transport (Message ''unexpected QMP frame: {}'' [trim l])), rs)
       else reply_loop jl rs))"

definition client_command :: "json_lib \<Rightarrow> host \<Rightarrow> string \<Rightarrow> qmp_client \<Rightarrow> sys \<Rightarrow> (qmp_error + string) \<times> qmp_client \<times> sys" where
  "client_command jl h frame c s =
    (case ho_qmp_write h (qc_port c) (qc_sent c @ [frame]) of
       Some e \<Rightarrow> (Inl (Transport (Message ''write: {}'' [e])), c, s)
     | None \<Rightarrow>
       (let sent = qc_sent c @ [frame];
            (r, unread) = reply_loop jl (qc_unread c @ ho_qmp_lines h (qc_port c) sent)
        in (r, c\<lparr>qc_sent := sent, qc_unread := unread\<rparr>, s\<lparr>sy_log := sy_log s @ [QmpSent (qc_port c) frame]\<rparr>)))"

definition client_connect :: "json_lib \<Rightarrow> host \<Rightarrow> u16 \<Rightarrow> sys \<Rightarrow> (qmp_error + qmp_client) \<times> sys" where
  "client_connect jl h port s =
    (case ho_connect h port of
       ConnectionRefused \<Rightarrow> (Inl (Transport (Message ''connect 127.0.0.1:{}: connection refused (is the VM running?)'' [show_u16 port])), s)
     | ConnectTimeout \<Rightarrow> (Inl (Transport (Message ''connect 127.0.0.1:{}: no answer within {}'' [show_u16 port])), s)
     | ConnectFailed e \<Rightarrow> (Inl (Transport (Message ''connect 127.0.0.1:{}: {}'' [show_u16 port, e])), s)
     | Connected \<Rightarrow>
       (case read_line (ho_qmp_lines h port []) of
          (Inl e, _) \<Rightarrow> (Inl (Transport (Message ''read greeting: {}'' [e])), s)
        | (Inr greeting, unread) \<Rightarrow>
          if \<not> qmp_greeting_received greeting
          then (Inl (Transport (Message ''no QMP greeting: endpoint is not a QEMU QMP socket (got {:?})'' [trim greeting])), s)
          else (case client_command jl h qmp_capabilities_frame \<lparr>qc_port = port, qc_sent = [], qc_unread = unread\<rparr> s of
              (Inl e, _, s') \<Rightarrow> (Inl e, s')
            | (Inr _, c, s') \<Rightarrow> (Inr c, s'))))"

definition device_for_disk :: "json_lib \<Rightarrow> host \<Rightarrow> u16 \<Rightarrow> string \<Rightarrow> sys \<Rightarrow> (qmp_error + string) \<times> sys" where
  "device_for_disk jl h port disk s = (case client_connect jl h port s of
     (Inl e, s1) \<Rightarrow> (Inl e, s1)
   | (Inr c, s1) \<Rightarrow> (case client_command jl h qmp_query_block_frame c s1 of
       (Inl e, _, s2) \<Rightarrow> (Inl e, s2)
     | (Inr reply, _, s2) \<Rightarrow>
         (Inr (case qmp_device_for_disk jl reply disk of Some d \<Rightarrow> d | None \<Rightarrow> DISK_DEVICE_ID), s2)))"

definition internal_snapshot :: "json_lib \<Rightarrow> host \<Rightarrow> u16 \<Rightarrow> string \<Rightarrow> string \<Rightarrow> sys \<Rightarrow> (qmp_error + unit) \<times> sys" where
  "internal_snapshot jl h port device tag s = (case client_connect jl h port s of
     (Inl e, s1) \<Rightarrow> (Inl e, s1)
   | (Inr c, s1) \<Rightarrow> (case client_command jl h (qmp_internal_snapshot_frame jl device tag) c s1 of
       (Inl e, _, s2) \<Rightarrow> (Inl e, s2)
     | (Inr _, _, s2) \<Rightarrow> (Inr (), s2)))"

definition delete_internal_snapshot :: "json_lib \<Rightarrow> host \<Rightarrow> u16 \<Rightarrow> string \<Rightarrow> string \<Rightarrow> sys \<Rightarrow> (qmp_error + unit) \<times> sys" where
  "delete_internal_snapshot jl h port device tag s = (case client_connect jl h port s of
     (Inl e, s1) \<Rightarrow> (Inl e, s1)
   | (Inr c, s1) \<Rightarrow> (case client_command jl h (qmp_delete_internal_snapshot_frame jl device tag) c s1 of
       (Inl e, _, s2) \<Rightarrow> (Inl e, s2)
     | (Inr _, _, s2) \<Rightarrow> (Inr (), s2)))"

definition reclaim_memory :: "json_lib \<Rightarrow> host \<Rightarrow> u16 \<Rightarrow> u32 \<Rightarrow> sys \<Rightarrow> (qmp_error + u64) \<times> sys" where
  "reclaim_memory jl h port target_mib s =
    (let target_bytes = (ucast target_mib :: u64) * (1024 * 1024) in
     case client_connect jl h port s of
       (Inl e, s1) \<Rightarrow> (Inl e, s1)
     | (Inr c, s1) \<Rightarrow> (case client_command jl h (qmp_balloon_frame jl target_bytes) c s1 of
         (Inl e, _, s2) \<Rightarrow> (Inl e, s2)
       | (Inr _, c2, s2) \<Rightarrow> (case client_command jl h qmp_query_balloon_frame c2 s2 of
           (Inl e, _, s3) \<Rightarrow> (Inl e, s3)
         | (Inr reply, _, s3) \<Rightarrow>
           (case (case jl_parse jl (trim reply) of Inl _ \<Rightarrow> None | Inr v \<Rightarrow> Option.bind (pointer [''return'', ''actual''] v) as_u64) of
              Some actual \<Rightarrow> if actual > 0 then (Inr actual, s3)
                else (Inl (Transport (text_message ''query-balloon reply has no positive actual byte count'')), s3)
            | None \<Rightarrow> (Inl (Transport (text_message ''query-balloon reply has no positive actual byte count'')), s3)))))"

section \<open>Properties\<close>

text \<open>The multiplication of \<open>reclaim_memory\<close> never overflows, so \<^verbatim>\<open>checked_mul\<close> never gives \<^verbatim>\<open>None\<close>.\<close>

lemma balloon_target_fits: "unat ((ucast target_mib :: u64) * (1024 * 1024)) = unat target_mib * 1048576" for target_mib :: u32
proof -
  have "unat target_mib < 4294967296" by (rule unat_u32_less)
  moreover have "unat (ucast target_mib :: u64) = unat target_mib"
    using \<open>unat target_mib < 4294967296\<close> by (simp add: unsigned_ucast_eq take_bit_eq_mod)
  ultimately show ?thesis by (simp add: unat_word_ariths)
qed

lemma reply_loop_files: "reply_loop jl (Inr l # rs) = (Inr l, rs)"
  if "qmp_reply_error jl l = None" "qmp_reply_is_ok jl l"
  using that by simp

lemma client_command_files: "sy_files (snd (snd (client_command jl h frame c s))) = sy_files s"
  by (auto simp: client_command_def Let_def split: option.splits prod.splits)

lemma client_connect_files: "sy_files (snd (client_connect jl h port s)) = sy_files s"
  using client_command_files [of jl h qmp_capabilities_frame _ s]
  by (auto simp: client_connect_def split: connect_outcome.splits prod.splits sum.splits) (metis snd_conv)+

text \<open>What the QMP commands write to the log: only frames to the port they are given.\<close>

definition qmp_only :: "u16 \<Rightarrow> action list \<Rightarrow> bool" where
  "qmp_only port log = list_all (\<lambda>a. case a of QmpSent p _ \<Rightarrow> p = port | _ \<Rightarrow> False) log"

lemma client_command_log:
  "\<exists>log. sy_log (snd (snd (client_command jl h frame c s))) = sy_log s @ log \<and> qmp_only (qc_port c) log
    \<and> qc_port (fst (snd (client_command jl h frame c s))) = qc_port c"
  by (auto simp: client_command_def Let_def qmp_only_def split: option.splits prod.splits)

text \<open>
  C39: The reply of a command is not told from an event. When the next line on the connection parses and has
  no \<^verbatim>\<open>error\<close> member, as no event has, \<^verbatim>\<open>command\<close> returns it as the successful reply at once, and the
  reply, even one that reports an error, is left unread for the next command.
\<close>

theorem event_taken_for_reply:
  assumes "ho_qmp_write h (qc_port c) (qc_sent c @ [frame]) = None"
    and "qc_unread c @ ho_qmp_lines h (qc_port c) (qc_sent c @ [frame]) = Inr event # Inr reply # rest"
    and "jl_parse jl (trim event) = Inr v" and "jget ''error'' v = None"
  shows "\<exists>c' s'. client_command jl h frame c s = (Inr event, c', s') \<and> qc_unread c' = Inr reply # rest"
  using assms by (simp add: client_command_def qmp_reply_error_def qmp_reply_is_ok_def Let_def)

text \<open>A snapshot that QEMU rejects after an event.\<close>

definition event_host :: host where
  "event_host = \<lparr>ho_windows = False, ho_sep = CHR ''/'', ho_now = 0, ho_io = (\<lambda>_ _. None),
     ho_run = (\<lambda>_ fs. (spawn_failure [], fs)), ho_spawn = (\<lambda>_ _. Inr 1), ho_connect = (\<lambda>_. Connected), ho_qmp_write = (\<lambda>_ _. None),
     ho_qmp_lines = (\<lambda>_ sent. [Inr ''E'', Inr ''R'']), ho_qemu_process = Inr True, ho_pid_alive = (\<lambda>_. Inr True),
     ho_port_free = (\<lambda>_. True), ho_linux = True, ho_env = (\<lambda>_. None), ho_path = (\<lambda>_. Path [] []),
     ho_self_exe = ''qemu-center'', ho_elapsed_ms = (\<lambda>_. 0)\<rparr>"

definition event_json :: json_lib where
  "event_json = \<lparr>jl_parse = (\<lambda>l. Inr (JDict (if l = ''E'' then [(''event'', JText ''JOB_STATUS_CHANGE'')]
       else [(''error'', JDict [(''desc'', JText ''rejected'')])]))), jl_print = (\<lambda>_. [])\<rparr>"

theorem event_taken_for_reply_witness:
  "\<exists>c' s'. client_command event_json event_host ''f'' \<lparr>qc_port = 1, qc_sent = [], qc_unread = []\<rparr> \<lparr>sy_files = Map.empty, sy_log = []\<rparr>
      = (Inr ''E'', c', s')
    \<and> qc_unread c' = [Inr ''R''] \<and> qmp_reply_error event_json ''R'' = Some ''rejected''"
proof -
  have t: "trim ''E'' = ''E''" "trim ''R'' = ''R''" by code_simp+
  have "qmp_reply_error event_json ''R'' = Some ''rejected''"
    by (simp add: qmp_reply_error_def event_json_def jget_def as_text_def t)
  moreover have "\<exists>c' s'. client_command event_json event_host ''f'' \<lparr>qc_port = 1, qc_sent = [], qc_unread = []\<rparr>
      \<lparr>sy_files = Map.empty, sy_log = []\<rparr> = (Inr ''E'', c', s') \<and> qc_unread c' = [Inr ''R'']"
    by (rule event_taken_for_reply [where v = "JDict [(''event'', JText ''JOB_STATUS_CHANGE'')]"])
      (simp_all add: event_host_def event_json_def jget_def t)
  ultimately show ?thesis by blast
qed

end
