(* ===== verification/Doctor.thy ===== *)
theory Doctor imports Qmp begin

text \<open>
  \<^verbatim>\<open>qemu-center/src/doctor.rs\<close>: the checks of the host (state directory, WHPX, the QEMU binaries, free disk
  space, memory, tools), each a command line, a parser of what the command printed and a judgement. The
  rendering of a report and the hints for the operator in it are not modelled; a message is kept as its format string and arguments.
\<close>

section \<open>Available memory\<close>

definition MIN_FREE_BYTES :: u64 where "MIN_FREE_BYTES = 40 * 1024 * 1024 * 1024"

definition free_physical_memory_command :: "string list" where
  "free_physical_memory_command = [''powershell'', ''-NoProfile'', ''-Command'',
     ''(Get-CimInstance -ClassName Win32_OperatingSystem).FreePhysicalMemory'']"

definition checked_mul_u64 :: "u64 \<Rightarrow> u64 \<Rightarrow> u64 option" where
  "checked_mul_u64 a b = (if unat a * unat b < 18446744073709551616 then Some (a * b) else None)"

definition parse_free_physical_memory_kib :: "string \<Rightarrow> u64 option" where
  "parse_free_physical_memory_kib stdout =
    (let value = trim stdout in
     if value = [] \<or> \<not> list_all is_ascii_digit value then None
     else Option.bind (parse_u64 value) (\<lambda>kib. checked_mul_u64 kib 1024))"

fun meminfo_lines :: "string list \<Rightarrow> u64 option" where
  "meminfo_lines [] = None"
| "meminfo_lines (l # ls) =
    (case split_whitespace l of
       [] \<Rightarrow> meminfo_lines ls
     | key # vals \<Rightarrow>
       if key \<noteq> ''MemAvailable:'' then meminfo_lines ls
       else (case vals of
           value # unit # _ \<Rightarrow>
             Option.bind (parse_u64 value) (\<lambda>kib. if unit \<noteq> ''kB'' then None else checked_mul_u64 kib 1024)
         | _ \<Rightarrow> None))"

definition parse_meminfo_available_bytes :: "string \<Rightarrow> u64 option" where
  "parse_meminfo_available_bytes contents = meminfo_lines (lines contents)"

definition host_available_memory_bytes :: "host \<Rightarrow> sys \<Rightarrow> u64 option \<times> sys" where
  "host_available_memory_bytes h s =
    (if ho_windows h
     then (case run_command h free_physical_memory_command s of (result, s1) \<Rightarrow>
       (if ro_success result then parse_free_physical_memory_kib (ro_stdout result) else None, s1))
     else if ho_linux h
     then (case read_to_string h (Path ''/'' [''proc'', ''meminfo'']) (sy_files s) of
         Inr contents \<Rightarrow> (parse_meminfo_available_bytes contents, s)
       | Inl _ \<Rightarrow> (None, s))
     else (None, s))"

section \<open>Reports\<close>

datatype check_status = CheckOk | CheckFail | CheckUnknown

record doctor_check =
  dc_id :: string
  dc_title :: string
  dc_status :: check_status
  dc_detail :: message

record doctor_report =
  dr_state_dir :: string
  dr_checks :: "doctor_check list"

section \<open>The WHPX feature\<close>

definition powershell_feature_command :: "string \<Rightarrow> string list" where
  "powershell_feature_command feature = [''powershell'', ''-NoProfile'', ''-Command'',
     ''Get-WindowsOptionalFeature -Online -FeatureName '' @ feature @ '' | ConvertTo-Json -Compress'']"

definition cim_feature_command :: "string \<Rightarrow> string list" where
  "cim_feature_command feature = [''powershell'', ''-NoProfile'', ''-Command'',
     ''(Get-CimInstance -ClassName Win32_OptionalFeature -Filter '' @ [CHR 0x22] @ ''Name='' @ [CHR 0x27] @ feature
     @ [CHR 0x27, CHR 0x22] @ '').InstallState'']"

datatype feature_state = Enabled | Disabled | Absent | UnknownState

definition from_raw :: "int \<Rightarrow> feature_state" where
  "from_raw v = (if v = 1 then Enabled else if v = 2 then Disabled else if v = 3 then Absent else UnknownState)"

definition from_name :: "string \<Rightarrow> feature_state" where
  "from_name s = (let n = to_ascii_lowercase (trim s) in
     if n = ''enabled'' \<or> n = ''1'' then Enabled
     else if n = ''disabled'' \<or> n = ''2'' then Disabled
     else if n = ''absent'' \<or> n = ''3'' then Absent
     else UnknownState)"

primrec feature_text :: "feature_state \<Rightarrow> string" where
  "feature_text Enabled = ''Enabled''"
| "feature_text Disabled = ''Disabled''"
| "feature_text Absent = ''Absent''"
| "feature_text UnknownState = ''Unknown''"

text \<open>The textual layout: the first line \<^verbatim>\<open>State : v\<close> whose value is a known name or a number.\<close>

fun feature_lines :: "string list \<Rightarrow> feature_state" where
  "feature_lines [] = UnknownState"
| "feature_lines (l # ls) =
    (case split_char (CHR '':'') (trim l) of
       k # v # _ \<Rightarrow>
         if eq_ignore_ascii_case (trim k) ''State''
         then (if from_name v \<noteq> UnknownState then from_name v
               else (case parse_i64 (trim v) of Some n \<Rightarrow> from_raw n | None \<Rightarrow> feature_lines ls))
         else feature_lines ls
     | _ \<Rightarrow> feature_lines ls)"

definition parse_feature_state :: "json_lib \<Rightarrow> string \<Rightarrow> feature_state" where
  "parse_feature_state jl stdout =
    (case jl_parse jl (trim stdout) of
       Inl _ \<Rightarrow> feature_lines (lines stdout)
     | Inr v \<Rightarrow> (case jget ''State'' v of
           Some (JNum n) \<Rightarrow> from_raw (if - 9223372036854775808 \<le> n \<and> n < 9223372036854775808 then n else - 1)
         | Some (JFloat _) \<Rightarrow> from_raw (- 1)
         | Some (JText t) \<Rightarrow> from_name t
         | _ \<Rightarrow> feature_lines (lines stdout)))"

definition parse_cim_install_state :: "string \<Rightarrow> feature_state" where
  "parse_cim_install_state stdout =
    (let trimmed = trim stdout in
     if trimmed = [] then Absent
     else (case parse_i64 trimmed of Some n \<Rightarrow> from_raw n | None \<Rightarrow> from_name trimmed))"

section \<open>Where QEMU is\<close>

definition parse_path_env :: "host \<Rightarrow> string \<Rightarrow> path list" where
  "parse_path_env h path_env =
    map (ho_path h) (filter (\<lambda>p. \<not> blank p) (split_char (if ho_windows h then CHR '';'' else CHR '':'') path_env))"

text \<open>\<^verbatim>\<open>retain\<close> with the set of what was seen keeps the first occurrence of each.\<close>

definition keep_first :: "'a list \<Rightarrow> 'a list" where
  "keep_first xs = rev (remdups (rev xs))"

definition candidate_qemu_dirs :: "host \<Rightarrow> string \<Rightarrow> path option \<Rightarrow> path option \<Rightarrow> path option \<Rightarrow> path list" where
  "candidate_qemu_dirs h path_env home program_files program_data =
    keep_first (parse_path_env h path_env
      @ (case home of None \<Rightarrow> [] | Some p \<Rightarrow>
          [path_join (path_join p ''scoop'') ''shims'',
           path_join (path_join (path_join (path_join (path_join p ''AppData'') ''Local'') ''Microsoft'') ''WinGet'') ''Links''])
      @ (case program_files of None \<Rightarrow> [] | Some p \<Rightarrow> [path_join p ''QEMU'', path_join p ''qemu''])
      @ (case program_data of None \<Rightarrow> [] | Some p \<Rightarrow> [path_join (path_join p ''chocolatey'') ''bin'']))"

definition candidate_qemu_dirs_from_env :: "host \<Rightarrow> path list" where
  "candidate_qemu_dirs_from_env h =
    candidate_qemu_dirs h (case ho_env h ''PATH'' of Some p \<Rightarrow> p | None \<Rightarrow> [])
      (map_option (ho_path h) (case ho_env h ''USERPROFILE'' of Some p \<Rightarrow> Some p | None \<Rightarrow> ho_env h ''HOME''))
      (map_option (ho_path h) (ho_env h ''ProgramFiles''))
      (map_option (ho_path h) (ho_env h ''ProgramData''))"

definition portable_qemu_dir :: "path \<Rightarrow> path" where
  "portable_qemu_dir state_dir = path_join state_dir ''qemu''"

definition candidate_qemu_dirs_with :: "host \<Rightarrow> path option \<Rightarrow> path list" where
  "candidate_qemu_dirs_with h state_dir =
    keep_first (candidate_qemu_dirs_from_env h
      @ (case state_dir of Some sd \<Rightarrow> [portable_qemu_dir sd] | None \<Rightarrow> []))"

definition find_qemu_in :: "host \<Rightarrow> path list \<Rightarrow> files \<Rightarrow> path option" where
  "find_qemu_in h dirs fs = find (is_file fs) (map (\<lambda>d. path_join d (qemu_binary_name (ho_windows h))) dirs)"

definition find_qemu_img_in :: "host \<Rightarrow> path list \<Rightarrow> files \<Rightarrow> path option" where
  "find_qemu_img_in h dirs fs =
    find (is_file fs) (map (\<lambda>d. path_join d (if ho_windows h then ''qemu-img.exe'' else ''qemu-img'')) dirs)"

definition discover_qemu_bin_with :: "host \<Rightarrow> path option \<Rightarrow> files \<Rightarrow> path option" where
  "discover_qemu_bin_with h state_dir fs = find_qemu_in h (candidate_qemu_dirs_with h state_dir) fs"

definition discover_qemu_img_with :: "host \<Rightarrow> path option \<Rightarrow> files \<Rightarrow> path option" where
  "discover_qemu_img_with h state_dir fs = find_qemu_img_in h (candidate_qemu_dirs_with h state_dir) fs"

section \<open>The WHPX probe\<close>

definition qemu_whpx_probe_command :: "host \<Rightarrow> path \<Rightarrow> string list" where
  "qemu_whpx_probe_command h qemu_bin = [display (ho_sep h) qemu_bin, ''-name'', ''qemu-center-whpx-probe'', ''-accel'', ''whpx'',
     ''-machine'', ''q35'', ''-display'', ''none'', ''-S'']"

datatype probe_verdict = Available | NotAvailable string | Undecided message

datatype probe_outcome_kind = ProbeExited | ProbeTimedOut

definition classify_whpx_probe :: "probe_outcome_kind \<Rightarrow> int \<Rightarrow> string \<Rightarrow> probe_verdict" where
  "classify_whpx_probe kind exit_code stderr =
    (case kind of
       ProbeTimedOut \<Rightarrow> Available
     | ProbeExited \<Rightarrow>
       if exit_code = 0 then Available
       else (case find (\<lambda>l. str_contains (to_ascii_lowercase l) ''whpx'') (rev (lines stderr)) of
           Some l \<Rightarrow> NotAvailable (trim l)
         | None \<Rightarrow> Undecided (Message ''probe exited nonzero without a WHPX error: {}''
             [case find (\<lambda>l. \<not> blank l) (rev (lines stderr)) of Some l \<Rightarrow> trim l | None \<Rightarrow> ''(no stderr)''])))"

definition probe_kind :: "run_outcome \<Rightarrow> probe_outcome_kind" where
  "probe_kind out = (if ro_timed_out out then ProbeTimedOut else ProbeExited)"

section \<open>Free disk space\<close>

definition cim_diskfree_command :: "string \<Rightarrow> string list" where
  "cim_diskfree_command drive = [''powershell'', ''-NoProfile'', ''-Command'',
     ''(Get-CimInstance -ClassName Win32_LogicalDisk -Filter '' @ [CHR 0x22] @ ''DeviceID='' @ [CHR 0x27] @ drive
     @ [CHR 0x27, CHR 0x22] @ '').FreeSpace'']"

definition parse_cim_free_bytes :: "string \<Rightarrow> u64 option" where
  "parse_cim_free_bytes stdout =
    (let t = trim stdout in if t \<noteq> [] \<and> list_all is_ascii_digit t then parse_u64 t else None)"

definition fsutil_diskfree_command :: "string \<Rightarrow> string list" where
  "fsutil_diskfree_command drive = [''fsutil'', ''volume'', ''diskfree'', drive]"

definition largest_candidate :: "string \<Rightarrow> u64 option" where
  "largest_candidate l =
    (case List.map_filter (\<lambda>tok. let digits = filter is_ascii_digit tok in
         if digits = [] then None else parse_u64 digits) (split_whitespace l) of
       [] \<Rightarrow> None
     | v # vs \<Rightarrow> Some (fold max vs v))"

fun fsutil_lines :: "u64 option \<Rightarrow> string list \<Rightarrow> u64 option" where
  "fsutil_lines fallback [] = fallback"
| "fsutil_lines fallback (l # ls) =
    (let lower = to_ascii_lowercase l;
         is_label = starts_with lower ''total'' \<and> str_contains lower ''free bytes'' \<and> \<not> str_contains lower ''avail'' in
     case largest_candidate l of
       None \<Rightarrow> fsutil_lines fallback ls
     | Some v \<Rightarrow> if is_label then Some v else fsutil_lines (if fallback = None then Some v else fallback) ls)"

definition parse_fsutil_free_bytes :: "string \<Rightarrow> u64 option" where
  "parse_fsutil_free_bytes stdout = fsutil_lines None (lines stdout)"

definition first_line_snippet :: "string \<Rightarrow> string" where
  "first_line_snippet stdout =
    (let l = trim (case lines stdout of [] \<Rightarrow> [] | x # _ \<Rightarrow> x) in
     if l = [] then ''empty'' else take_chars 80 l)"

definition diskfree_unknown_detail :: "string \<Rightarrow> string \<Rightarrow> message" where
  "diskfree_unknown_detail cim_stdout fsutil_stdout =
    Message ''could not determine free space (cim: {}; fsutil: {})''
      [first_line_snippet cim_stdout, first_line_snippet fsutil_stdout]"

text \<open>The floating-point quotient that is displayed with one digit is kept as its expression.\<close>

definition gib_text :: "u64 \<Rightarrow> string" where
  "gib_text b = dec_string (unat b) @ '' / 1073741824''"

definition judge_disk_free :: "u64 option \<Rightarrow> check_status \<times> message" where
  "judge_disk_free free =
    (case free of
       Some b \<Rightarrow>
         if b \<ge> MIN_FREE_BYTES
         then (CheckOk, Message ''{:.1} GiB free (>= {} GiB)'' [gib_text b, dec_string (unat (drop_bit 30 MIN_FREE_BYTES))])
         else (CheckFail, Message ''{:.1} GiB free, but at least {} GiB is needed for a node disk''
                 [gib_text b, dec_string (unat (drop_bit 30 MIN_FREE_BYTES))])
     | None \<Rightarrow> (CheckUnknown, text_message ''could not determine free space''))"

section \<open>Tools\<close>

definition where_command :: "bool \<Rightarrow> string \<Rightarrow> string list" where
  "where_command windows exe = (if windows then [''where'', exe] else [''which'', exe])"

definition parse_where_output :: "string \<Rightarrow> string option" where
  "parse_where_output stdout = find (\<lambda>l. l \<noteq> []) (map trim (lines stdout))"

section \<open>The checks\<close>

definition check_state_dir :: "host \<Rightarrow> path \<Rightarrow> sys \<Rightarrow> doctor_check \<times> sys" where
  "check_state_dir h state_dir s =
    (let mk = (\<lambda>status detail. \<lparr>dc_id = ''state-dir'', dc_title = ''state directory writable'', dc_status = status, dc_detail = detail\<rparr>) in
     case create_dir_all h state_dir s of
       (Inl e, s1) \<Rightarrow> (mk CheckFail (Message ''cannot create {}: {}'' [display (ho_sep h) state_dir, io_text e]), s1)
     | (Inr _, s1) \<Rightarrow> (let p = path_join state_dir ''.doctor-probe'' in
         case fs_write h p ''ok'' s1 of
           (Inl e, s2) \<Rightarrow> (mk CheckFail (Message ''cannot write into {}: {}'' [display (ho_sep h) state_dir, io_text e]), s2)
         | (Inr _, s2) \<Rightarrow> (mk CheckOk (text_message (display (ho_sep h) state_dir)), snd (remove_file h p s2))))"

definition check_whpx_feature :: "host \<Rightarrow> sys \<Rightarrow> doctor_check \<times> sys" where
  "check_whpx_feature h s =
    (let mk = (\<lambda>status detail. \<lparr>dc_id = ''whpx-feature'', dc_title = ''WHPX optional feature (HypervisorPlatform)'',
                 dc_status = status, dc_detail = detail\<rparr>) in
     case run_command h (cim_feature_command ''HypervisorPlatform'') s of (out, s1) \<Rightarrow>
       (if ro_timed_out out
        then mk CheckUnknown (text_message ''CIM query timed out'')
        else if \<not> ro_success out \<and> blank (ro_stdout out)
        then mk CheckUnknown (Message ''CIM query failed: {}'' [stderr_last_line out])
        else (case parse_cim_install_state (ro_stdout out) of
            Enabled \<Rightarrow> mk CheckOk (text_message ''HypervisorPlatform is Enabled'')
          | UnknownState \<Rightarrow> mk CheckUnknown (Message ''unrecognized CIM output: {:?}'' [take_chars 80 (trim (ro_stdout out))])
          | st \<Rightarrow> mk CheckFail (Message ''HypervisorPlatform state: {}'' [feature_text st])), s1))"

definition check_qemu_binary :: "host \<Rightarrow> path option \<Rightarrow> sys \<Rightarrow> (doctor_check \<times> path option) \<times> sys" where
  "check_qemu_binary h state_dir s =
    (let mk = (\<lambda>status detail. \<lparr>dc_id = ''qemu-binary'', dc_title = ''QEMU binary (qemu-system-x86_64)'', dc_status = status, dc_detail = detail\<rparr>) in
     case find_qemu_in h (candidate_qemu_dirs_with h state_dir) (sy_files s) of
       Some p \<Rightarrow> ((mk CheckOk (text_message (display (ho_sep h) p)), Some p), s)
     | None \<Rightarrow> ((mk CheckFail (Message
           ''{} not found on PATH, in known install locations, or in the portable <state-dir>/qemu folder''
           [qemu_binary_name (ho_windows h)]), None), s))"

definition check_whpx_probe :: "host \<Rightarrow> path option \<Rightarrow> sys \<Rightarrow> doctor_check \<times> sys" where
  "check_whpx_probe h qemu_bin s =
    (let mk = (\<lambda>status detail. \<lparr>dc_id = ''whpx-accel'', dc_title = ''WHPX acceleration probe (qemu -accel whpx)'',
                 dc_status = status, dc_detail = detail\<rparr>) in
     case qemu_bin of
       None \<Rightarrow> (mk CheckUnknown (text_message ''skipped: QEMU binary not found''), s)
     | Some bin \<Rightarrow> (case run_command h (qemu_whpx_probe_command h bin) s of (out, s1) \<Rightarrow>
         (case classify_whpx_probe (probe_kind out) (ro_exit_code out) (ro_stderr out) of
            Available \<Rightarrow> mk CheckOk (text_message ''WHPX acceleration available (q35 probe kept running with WHPX initialized, or exited cleanly)'')
          | NotAvailable l \<Rightarrow> mk CheckFail (text_message l)
          | Undecided m \<Rightarrow> mk CheckUnknown m, s1)))"

text \<open>The drive letter that the state directory begins with, \<^verbatim>\<open>C:\<close> when there is not exactly one letter.\<close>

definition drive_of :: "string \<Rightarrow> string" where
  "drive_of p = (let drive = takeWhile (\<lambda>c. is_ascii_alphanumeric c \<and> \<not> is_ascii_digit c) p in
     if length drive = 1 then drive @ '':'' else ''C:'')"

definition check_disk_free :: "host \<Rightarrow> path \<Rightarrow> sys \<Rightarrow> doctor_check \<times> sys" where
  "check_disk_free h state_dir s =
    (let mk = (\<lambda>status detail. \<lparr>dc_id = ''disk-free'', dc_title = ''disk space (state dir drive)'', dc_status = status, dc_detail = detail\<rparr>) in
     if \<not> ho_windows h
     then (mk CheckUnknown (text_message ''disk-space probes are Windows-only; skipped on this platform''), s)
     else (let drive = drive_of (display (ho_sep h) state_dir) in
       case run_command h (cim_diskfree_command drive) s of (cim_out, s1) \<Rightarrow>
         (let cim_free = (if ro_success cim_out then parse_cim_free_bytes (ro_stdout cim_out) else None) in
          case (case cim_free of
              Some _ \<Rightarrow> ((cim_free, []), s1)
            | None \<Rightarrow> (case run_command h (fsutil_diskfree_command drive) s1 of (out, s2) \<Rightarrow>
                ((if ro_success out then parse_fsutil_free_bytes (ro_stdout out) else None, ro_stdout out), s2))) of
            ((free, fsutil_stdout), s2) \<Rightarrow>
              (case (case free of Some _ \<Rightarrow> judge_disk_free free
                     | None \<Rightarrow> (CheckUnknown, diskfree_unknown_detail (ro_stdout cim_out) fsutil_stdout)) of
                 (status, detail) \<Rightarrow> (mk status detail, s2)))))"

definition check_tool :: "host \<Rightarrow> string \<Rightarrow> string \<Rightarrow> string \<Rightarrow> bool \<Rightarrow> sys \<Rightarrow> doctor_check \<times> sys" where
  "check_tool h i title exe required s =
    (case run_command h (where_command (ho_windows h) exe) s of (out, s1) \<Rightarrow>
      (case (case parse_where_output (ro_stdout out) of
           Some p \<Rightarrow> if ro_success out then Some p else None | None \<Rightarrow> None) of
         Some p \<Rightarrow> \<lparr>dc_id = i, dc_title = title, dc_status = CheckOk, dc_detail = text_message p\<rparr>
       | None \<Rightarrow> \<lparr>dc_id = i, dc_title = title, dc_status = (if required then CheckFail else CheckUnknown),
             dc_detail = Message ''{exe} not found'' [exe]\<rparr>, s1))"

definition check_qemu_img :: "host \<Rightarrow> path option \<Rightarrow> sys \<Rightarrow> doctor_check \<times> sys" where
  "check_qemu_img h state_dir s =
    (let mk = (\<lambda>status detail. \<lparr>dc_id = ''qemu-img'', dc_title = ''qemu-img (disks, snapshots, clones)'', dc_status = status, dc_detail = detail\<rparr>) in
     case run_command h (where_command (ho_windows h) ''qemu-img'') s of (out, s1) \<Rightarrow>
       (case (case parse_where_output (ro_stdout out) of
            Some p \<Rightarrow> if ro_success out then Some p else None | None \<Rightarrow> None) of
          Some p \<Rightarrow> (mk CheckOk (text_message p), s1)
        | None \<Rightarrow> (case discover_qemu_img_with h state_dir (sy_files s1) of
            Some p \<Rightarrow> (mk CheckOk (text_message (display (ho_sep h) p)), s1)
          | None \<Rightarrow> (mk CheckUnknown (text_message ''qemu-img not found''), s1))))"

definition run_doctor :: "host \<Rightarrow> path \<Rightarrow> sys \<Rightarrow> doctor_report \<times> sys" where
  "run_doctor h state_dir s0 =
    (case check_state_dir h state_dir s0 of (c1, s1) \<Rightarrow>
     case check_whpx_feature h s1 of (c2, s2) \<Rightarrow>
     case check_qemu_binary h (Some state_dir) s2 of ((c3, qemu_bin), s3) \<Rightarrow>
     case check_whpx_probe h qemu_bin s3 of (c4, s4) \<Rightarrow>
     case check_disk_free h state_dir s4 of (c5, s5) \<Rightarrow>
     case check_tool h ''ssh'' ''OpenSSH client (guest provisioning)'' ''ssh'' True s5 of (c6, s6) \<Rightarrow>
     case check_tool h ''adb'' ''adb (verify item 6, host-side)'' ''adb'' False s6 of (c7, s7) \<Rightarrow>
     case check_qemu_img h (Some state_dir) s7 of (c8, s8) \<Rightarrow>
     (\<lparr>dr_state_dir = display (ho_sep h) state_dir, dr_checks = [c1, c2, c3, c4, c5, c6, c7, c8]\<rparr>, s8))"

definition cmd_doctor :: "host \<Rightarrow> path \<Rightarrow> sys \<Rightarrow> exit \<times> sys" where
  "cmd_doctor h state_dir s =
    (case run_doctor h state_dir s of (report, s1) \<Rightarrow>
      ((if list_ex (\<lambda>c. dc_status c = CheckFail) (dr_checks report) then 2 else 0, None), s1))"

end
