(* ===== verification/Setup.thy ===== *)
theory Setup imports Doctor begin

text \<open>
  \<^verbatim>\<open>qemu-center/src/setup.rs\<close> and the setup commands of \<^verbatim>\<open>main.rs\<close>: enabling WHPX through an elevated copy of the
  tool, installing QEMU from a pinned installer or a package manager, downloading and verifying a
  cloud image, and the check of the prerequisites of \<^verbatim>\<open>vm create\<close>. What is printed is not modelled.
\<close>

section \<open>Cloud images\<close>

definition IMAGES_DIR_NAME :: string where "IMAGES_DIR_NAME = ''images''"
definition QEMU_INSTALLER_SHA256_ENV :: string where "QEMU_INSTALLER_SHA256_ENV = ''RDC_QEMU_INSTALLER_SHA256''"

definition image_url :: "string \<Rightarrow> string option" where
  "image_url distro =
    (if distro = ''jammy'' then Some ''https://cloud-images.ubuntu.com/jammy/current/jammy-server-cloudimg-amd64.img''
     else if distro = ''noble'' then Some ''https://cloud-images.ubuntu.com/noble/current/noble-server-cloudimg-amd64.img''
     else None)"

definition sha256sums_url :: "string \<Rightarrow> string option" where
  "sha256sums_url distro =
    (if distro = ''jammy'' then Some ''https://cloud-images.ubuntu.com/jammy/current/SHA256SUMS''
     else if distro = ''noble'' then Some ''https://cloud-images.ubuntu.com/noble/current/SHA256SUMS''
     else None)"

definition image_file_name :: "string \<Rightarrow> string option" where
  "image_file_name distro = map_option (\<lambda>u. last (split_char (CHR ''/'') u)) (image_url distro)"

section \<open>Enabling WHPX\<close>

definition powershell_literal :: "string \<Rightarrow> string" where
  "powershell_literal value = str_replace [CHR 0x27] [CHR 0x27, CHR 0x27] value"

definition powershell_quote :: "string \<Rightarrow> string" where
  "powershell_quote value = [CHR 0x27] @ powershell_literal value @ [CHR 0x27]"

definition dism_enable_command :: "string list" where
  "dism_enable_command = [''dism.exe'', ''/Online'', ''/Enable-Feature'', ''/All'', ''/FeatureName:HypervisorPlatform'', ''/NoRestart'']"

definition elevate_command :: "string \<Rightarrow> string list \<Rightarrow> string list" where
  "elevate_command self_exe args = [''powershell'', ''-NoProfile'', ''-Command'',
     ''Start-Process -FilePath '' @ powershell_quote self_exe @ '' -ArgumentList ''
     @ join '','' (map powershell_quote (self_exe # args)) @ '' -Verb RunAs -Wait'']"

definition elevated_run_command :: "string \<Rightarrow> string list \<Rightarrow> string list" where
  "elevated_run_command self_exe args = [''powershell'', ''-NoProfile'', ''-Command'',
     ''Start-Process -FilePath '' @ powershell_quote self_exe @ '' -ArgumentList ''
     @ join '','' (map powershell_quote args) @ '' -Verb RunAs -Wait'']"

datatype dism_outcome = DismCompleted | AlreadyEnabled | NeedsRestart | DismUnknown

text \<open>
  The Chinese markers are given by their UTF-8 bytes. \<^verbatim>\<open>to_lowercase\<close> and the ASCII lower case agree on
  whether these words occur.
\<close>

definition zh_reboot :: string where "zh_reboot = map char_of [0xE9, 0x87, 0x8D, 0xE5, 0x90, 0xAF :: nat]"
definition zh_restart :: string where
  "zh_restart = map char_of [0xE9, 0x87, 0x8D, 0xE6, 0x96, 0xB0, 0xE5, 0x90, 0xAF, 0xE5, 0x8A, 0xA8 :: nat]"
definition zh_already :: "string list" where
  "zh_already = [map char_of [0xE5, 0xB7, 0xB2, 0xE7, 0xBB, 0x8F, 0xE5, 0x90, 0xAF, 0xE7, 0x94, 0xA8 :: nat],
     map char_of [0xE5, 0xB7, 0xB2, 0xE5, 0x90, 0xAF, 0xE7, 0x94, 0xA8 :: nat]]"
definition zh_success :: string where
  "zh_success = map char_of [0xE6, 0x93, 0x8D, 0xE4, 0xBD, 0x9C, 0xE6, 0x88, 0x90, 0xE5, 0x8A, 0x9F,
     0xE5, 0xAE, 0x8C, 0xE6, 0x88, 0x90 :: nat]"

definition classify_dism_output :: "int \<Rightarrow> string \<Rightarrow> dism_outcome" where
  "classify_dism_output exit_code stdout =
    (let hay = to_ascii_lowercase stdout;
         mentions_restart = str_contains hay ''restart'' \<or> str_contains hay zh_reboot \<or> str_contains hay zh_restart in
     if exit_code = 0 then (if mentions_restart then NeedsRestart else DismCompleted)
     else if exit_code = 3010 then NeedsRestart
     else if exit_code = 1168 then AlreadyEnabled
     else if str_contains hay ''already enabled'' \<or> list_ex (str_contains hay) zh_already then AlreadyEnabled
     else if str_contains hay ''completed successfully'' \<or> str_contains hay zh_success then DismCompleted
     else if mentions_restart then NeedsRestart
     else DismUnknown)"

definition run_elevated_capture :: "host \<Rightarrow> path \<Rightarrow> string \<Rightarrow> string list \<Rightarrow> string \<Rightarrow> sys \<Rightarrow> (message + string) \<times> sys" where
  "run_elevated_capture h state_dir self_exe args marker_name s =
    (let marker = path_join state_dir marker_name;
         s1 = snd (remove_file h marker s) in
     case run_command h (elevated_run_command self_exe args) s1 of (out, s2) \<Rightarrow>
       if ro_timed_out out then (Inl (text_message ''elevated run timed out (UAC dialog unanswered?)''), s2)
       else (map_err (\<lambda>e. Message ''elevated run produced no marker ({}): {}'' [display (ho_sep h) marker, io_text e])
               (read_to_string h marker (sy_files s2)), s2))"

definition write_marker :: "host \<Rightarrow> path \<Rightarrow> string \<Rightarrow> string \<Rightarrow> sys \<Rightarrow> sys" where
  "write_marker h state_dir marker_name body s =
    snd (fs_write h (path_join state_dir marker_name) body (snd (create_dir_all h state_dir s)))"

definition MARKER_WHPX :: string where "MARKER_WHPX = ''setup-whpx.marker''"

definition marker_body :: "int \<Rightarrow> string \<Rightarrow> string" where
  "marker_body exit_code stdout = show_int exit_code @ [CHR 0x0A] @ stdout"

text \<open>The two parts of a marker: the exit code, \<open>-1\<close> when it does not parse, and the rest.\<close>

definition read_marker :: "string \<Rightarrow> int \<times> string" where
  "read_marker body =
    (case (case split_once [CHR 0x0A] body of Some p \<Rightarrow> p | None \<Rightarrow> (body, [])) of (code, rest) \<Rightarrow>
      (case parse_i32 (trim code) of Some c \<Rightarrow> c | None \<Rightarrow> - 1, rest))"

text \<open>The child half: it runs DISM elevated and leaves its result in the marker file.\<close>

definition cmd_elevated_whpx :: "host \<Rightarrow> path \<Rightarrow> sys \<Rightarrow> exit \<times> sys" where
  "cmd_elevated_whpx h state_dir s =
    (if \<not> ho_windows h then ((1, None), s)
     else (case run_command h dism_enable_command s of (out, s1) \<Rightarrow>
       (if ro_success out \<or> ro_exit_code out = 1168 then exit_ok else (1, None),
        write_marker h state_dir MARKER_WHPX (marker_body (ro_exit_code out) (ro_stdout out)) s1)))"

fun elevated_state_dir_arg :: "string list \<Rightarrow> string option" where
  "elevated_state_dir_arg (a # b # rest) =
    (if a = ''--state-dir'' then Some b else elevated_state_dir_arg (b # rest))"
| "elevated_state_dir_arg _ = None"

text \<open>The hidden dispatch of \<^verbatim>\<open>main\<close> before its arguments are parsed; \<open>resolve\<close> is \<^verbatim>\<open>resolve_state_dir\<close>.\<close>

definition elevated_main :: "host \<Rightarrow> (path option \<Rightarrow> path) \<Rightarrow> string list \<Rightarrow> sys \<Rightarrow> (exit \<times> sys) option" where
  "elevated_main h resolve raw_args s =
    (case raw_args of
       _ # e # act # rest \<Rightarrow>
         if e = ''__elevated''
         then Some (if act = ''whpx''
                then cmd_elevated_whpx h (resolve (map_option (ho_path h) (elevated_state_dir_arg rest))) s
                else ((1, Some (Message ''unknown elevated action: {other}'' [act])), s))
         else None
     | _ \<Rightarrow> None)"

definition cmd_setup_whpx :: "json_lib \<Rightarrow> host \<Rightarrow> path \<Rightarrow> sys \<Rightarrow> exit \<times> sys" where
  "cmd_setup_whpx jl h state_dir s =
    (case run_command h (powershell_feature_command ''HypervisorPlatform'') s of (out, s1) \<Rightarrow>
      if parse_feature_state jl (ro_stdout out) = Enabled then (exit_ok, s1)
      else if ho_windows h
      then (case run_elevated_capture h state_dir (ho_self_exe h)
                [''__elevated'', ''whpx'', ''--state-dir'', display (ho_sep h) state_dir] MARKER_WHPX s1 of
          (Inl e, s2) \<Rightarrow> (err_exit e, s2)
        | (Inr body, s2) \<Rightarrow> (case read_marker body of (exit_code, dism_stdout) \<Rightarrow>
            (case classify_dism_output exit_code dism_stdout of
               DismUnknown \<Rightarrow> (err_exit (Message ''DISM ended with an unrecognized result (exit {exit_code})''
                 [show_int exit_code]), s2)
             | _ \<Rightarrow> (exit_ok, s2))))
      else (err_exit (text_message ''setup whpx is Windows-only (WHPX does not exist on this platform)''), s1))"

section \<open>Installing QEMU\<close>

definition winget_install_command :: "string list" where
  "winget_install_command = [''winget'', ''install'', ''--id'', ''SoftwareFreedomConservancy.Qemu'', ''--silent'',
     ''--accept-package-agreements'', ''--accept-source-agreements'']"

definition scoop_install_command :: "string list" where
  "scoop_install_command = [''scoop'', ''install'', ''qemu'']"

definition choco_install_command :: "string list" where
  "choco_install_command = [''choco'', ''install'', ''qemu'', ''-y'', ''--no-progress'']"

definition nsis_install_command :: "host \<Rightarrow> path \<Rightarrow> string list" where
  "nsis_install_command h installer_path = [display (ho_sep h) installer_path, ''/S'']"

definition nsis_portable_command :: "host \<Rightarrow> path \<Rightarrow> path \<Rightarrow> string list" where
  "nsis_portable_command h installer target_dir =
    [display (ho_sep h) installer, ''/S'', ''/D='' @ display (ho_sep h) target_dir]"

definition TMP_DIR_NAME :: string where "TMP_DIR_NAME = ''tmp''"
definition WEILNETZ_LISTING_URL :: string where "WEILNETZ_LISTING_URL = ''https://qemu.weilnetz.de/w64/''"

definition validate_portable_target :: "host \<Rightarrow> path \<Rightarrow> message + unit" where
  "validate_portable_target h dir =
    (if has_whitespace (display (ho_sep h) dir)
     then Inl (Message ''portable install target {text:?} contains whitespace; NSIS /D= cannot take it reliably.''
            [display (ho_sep h) dir])
     else Inr ())"

definition LISTING_HEAD :: string where "LISTING_HEAD = ''qemu-w64-setup-''"

text \<open>Every occurrence of the name pattern with at least eight digits; the largest number wins.\<close>

function listing_loop :: "(u64 \<times> string) option \<Rightarrow> string \<Rightarrow> (u64 \<times> string) option" where
  "listing_loop best rest =
    (case split_once LISTING_HEAD rest of
       None \<Rightarrow> best
     | Some (_, after) \<Rightarrow>
       (let digits = takeWhile is_ascii_digit after in
        listing_loop
          (if length digits \<ge> 8 \<and> starts_with (drop (length digits) after) ''.exe''
           then (case parse_u64 digits of
               None \<Rightarrow> best
             | Some date \<Rightarrow>
               if (case best of None \<Rightarrow> True | Some (d, _) \<Rightarrow> date > d)
               then Some (date, LISTING_HEAD @ digits @ ''.exe'') else best)
           else best) after))"
  by pat_completeness auto
termination
  by (relation "measure (\<lambda>(best, rest). length rest)") (auto simp: LISTING_HEAD_def dest!: split_once_Some)

declare listing_loop.simps [simp del]

definition parse_weilnetz_listing :: "string \<Rightarrow> string option" where
  "parse_weilnetz_listing html = map_option snd (listing_loop None html)"

definition weilnetz_installer_url :: "string \<Rightarrow> string" where
  "weilnetz_installer_url file_name = WEILNETZ_LISTING_URL @ file_name"

datatype portable_qemu_plan = AlreadyInstalled | BlockedByWhitespace | PortableInstall

definition portable_qemu_plan_for :: "host \<Rightarrow> path \<Rightarrow> bool \<Rightarrow> portable_qemu_plan" where
  "portable_qemu_plan_for h target_dir qemu_exe_present =
    (if qemu_exe_present then AlreadyInstalled
     else if validate_portable_target h target_dir \<noteq> Inr () then BlockedByWhitespace
     else PortableInstall)"

definition download_command :: "host \<Rightarrow> string \<Rightarrow> path \<Rightarrow> string list" where
  "download_command h url dest = [''powershell'', ''-NoProfile'', ''-Command'',
     ''$ProgressPreference='' @ [CHR 0x27] @ ''SilentlyContinue'' @ [CHR 0x27] @ ''; Invoke-WebRequest -Uri '' @ powershell_quote url
     @ '' -OutFile '' @ powershell_quote (display (ho_sep h) dest) @ '' -UseBasicParsing'']"

definition get_file_hash_command :: "host \<Rightarrow> path \<Rightarrow> string list" where
  "get_file_hash_command h p = [''powershell'', ''-NoProfile'', ''-Command'',
     ''(Get-FileHash -Algorithm SHA256 -LiteralPath '' @ powershell_quote (display (ho_sep h) p) @ '').Hash.ToLowerInvariant()'']"

definition validate_sha256_hex :: "string \<Rightarrow> bool" where
  "validate_sha256_hex value = (length value = 64 \<and> list_all is_ascii_hexdigit value)"

fun sums_lines :: "string \<Rightarrow> string list \<Rightarrow> string option" where
  "sums_lines file_name [] = None"
| "sums_lines file_name (l # ls) =
    (let t = trim l in
     if t = [] \<or> starts_with t ''#'' then sums_lines file_name ls
     else (case split_whitespace t of
         hash # f # _ \<Rightarrow>
           if trim_start_char (CHR ''*'') f = file_name \<and> length hash = 64 \<and> list_all is_ascii_hexdigit hash
           then Some (to_ascii_lowercase hash) else sums_lines file_name ls
       | _ \<Rightarrow> None))"

definition expected_sha256_from_sums :: "string \<Rightarrow> string \<Rightarrow> string option" where
  "expected_sha256_from_sums sums_body file_name = sums_lines file_name (lines sums_body)"

text \<open>\<^verbatim>\<open>to_lowercase\<close> on digests; beyond ASCII the two sides are compared as they are.\<close>

definition sha_matches :: "string \<Rightarrow> string \<Rightarrow> bool" where
  "sha_matches actual expected =
    (let a = to_ascii_lowercase (trim actual); e = to_ascii_lowercase (trim expected) in length a = 64 \<and> a = e)"

datatype qemu_channel = Winget | Scoop | Choco | NsisDownload

definition qemu_channel_plan :: "bool \<Rightarrow> bool \<Rightarrow> bool \<Rightarrow> qemu_channel" where
  "qemu_channel_plan winget_present scoop_present choco_present =
    (if winget_present then Winget else if scoop_present then Scoop else if choco_present then Choco else NsisDownload)"

primrec channel_label :: "qemu_channel \<Rightarrow> string" where
  "channel_label Winget = ''winget''"
| "channel_label Scoop = ''scoop''"
| "channel_label Choco = ''choco''"
| "channel_label NsisDownload = ''direct NSIS download (digest-pinned)''"

definition where_exists :: "host \<Rightarrow> string \<Rightarrow> sys \<Rightarrow> bool \<times> sys" where
  "where_exists h exe s = (case run_command h [''where'', exe] s of (out, s1) \<Rightarrow> (ro_success out, s1))"

text \<open>The installer is handed out only when its digest is the one the operator pinned.\<close>

definition fetch_installer :: "host \<Rightarrow> path \<Rightarrow> string \<Rightarrow> string \<Rightarrow> sys \<Rightarrow> (message + path) \<times> sys" where
  "fetch_installer h tmp file_name expected s =
    (let installer = path_join tmp file_name in
     case run_command h (download_command h (weilnetz_installer_url file_name) installer) s of (out, s1) \<Rightarrow>
       if \<not> ro_success out then (Inl (Message ''installer download failed: {}'' [stderr_last_line out]), s1)
       else (case run_command h (get_file_hash_command h installer) s1 of (hash, s2) \<Rightarrow>
         if \<not> ro_success hash \<or> \<not> sha_matches (trim (ro_stdout hash)) (trim expected)
         then (Inl (Message ''downloaded QEMU installer digest does not match {}'' [QEMU_INSTALLER_SHA256_ENV]), s2)
         else (Inr installer, s2)))"

definition download_latest_weilnetz_installer :: "host \<Rightarrow> path \<Rightarrow> sys \<Rightarrow> (message + path) \<times> sys" where
  "download_latest_weilnetz_installer h state_dir s =
    (case ho_env h QEMU_INSTALLER_SHA256_ENV of
       None \<Rightarrow> (Inl (Message ''{} must be set before direct QEMU installer download'' [QEMU_INSTALLER_SHA256_ENV]), s)
     | Some expected \<Rightarrow>
       if \<not> validate_sha256_hex (trim expected)
       then (Inl (Message ''{} must contain a 64-character hexadecimal SHA256 digest'' [QEMU_INSTALLER_SHA256_ENV]), s)
       else (let tmp = path_join state_dir TMP_DIR_NAME; listing_path = path_join tmp ''w64-listing.html'' in
         case create_dir_all h tmp s of
           (Inl e, s1) \<Rightarrow> (Inl (Message ''mkdir {}: {}'' [display (ho_sep h) tmp, io_text e]), s1)
         | (Inr _, s1) \<Rightarrow> (case run_command h (download_command h WEILNETZ_LISTING_URL listing_path) s1 of (out, s2) \<Rightarrow>
           if \<not> ro_success out
           then (Inl (Message ''could not fetch the QEMU Windows builds listing ({}): {}''
                   [WEILNETZ_LISTING_URL, stderr_last_line out]), s2)
           else (case read_to_string h listing_path (sy_files s2) of
               Inl e \<Rightarrow> (Inl (Message ''read {}: {}'' [display (ho_sep h) listing_path, io_text e]), s2)
             | Inr body \<Rightarrow> (case parse_weilnetz_listing body of
                 None \<Rightarrow> (Inl (text_message
                   ''no qemu-w64-setup-*.exe entry found in the builds listing (site layout changed?)''), s2)
               | Some file_name \<Rightarrow> fetch_installer h tmp file_name expected s2)))))"

definition cleanup_setup_tmp :: "host \<Rightarrow> path \<Rightarrow> sys \<Rightarrow> sys" where
  "cleanup_setup_tmp h state_dir s = snd (remove_dir_all h (path_join state_dir TMP_DIR_NAME) s)"

definition cmd_setup_qemu_portable :: "host \<Rightarrow> path \<Rightarrow> sys \<Rightarrow> exit \<times> sys" where
  "cmd_setup_qemu_portable h state_dir s =
    (let target = portable_qemu_dir state_dir; exe = path_join target (qemu_binary_name (ho_windows h)) in
     case portable_qemu_plan_for h target (is_file (sy_files s) exe) of
       AlreadyInstalled \<Rightarrow> (exit_ok, s)
     | BlockedByWhitespace \<Rightarrow> ((1, (case validate_portable_target h target of Inl m \<Rightarrow> Some m | Inr _ \<Rightarrow> None)), s)
     | PortableInstall \<Rightarrow> (case download_latest_weilnetz_installer h state_dir s of
         (Inl e, s1) \<Rightarrow> (err_exit e, s1)
       | (Inr installer, s1) \<Rightarrow> (case run_command h (nsis_portable_command h installer target) s1 of (out, s2) \<Rightarrow>
           if \<not> is_file (sy_files s2) exe
           then (err_exit (Message ''portable install did not produce {} (NSIS exit {})''
                   [display (ho_sep h) exe, show_int (ro_exit_code out)]), s2)
           else (exit_ok, cleanup_setup_tmp h state_dir s2))))"

definition run_installer :: "host \<Rightarrow> path \<Rightarrow> qemu_channel \<Rightarrow> string list \<Rightarrow> sys \<Rightarrow> exit \<times> sys" where
  "run_installer h state_dir channel argv s =
    (case run_command h argv s of (out, s1) \<Rightarrow>
      if \<not> ro_success out
      then (err_exit (Message (if channel = NsisDownload
               then ''QEMU install failed ({}): {} (machine-wide NSIS needs an elevated shell)''
               else ''QEMU install failed ({}): {}'') [channel_label channel, stderr_last_line out]), s1)
      else (exit_ok, cleanup_setup_tmp h state_dir s1))"

definition cmd_setup_qemu_machine :: "host \<Rightarrow> path \<Rightarrow> sys \<Rightarrow> exit \<times> sys" where
  "cmd_setup_qemu_machine h state_dir s =
    (case where_exists h ''winget'' s of (winget, s1) \<Rightarrow>
     case where_exists h ''scoop'' s1 of (scoop, s2) \<Rightarrow>
     case where_exists h ''choco'' s2 of (choco, s3) \<Rightarrow>
     (let channel = qemu_channel_plan winget scoop choco in
      case channel of
        NsisDownload \<Rightarrow> (case download_latest_weilnetz_installer h state_dir s3 of
            (Inl e, s4) \<Rightarrow> (err_exit e, s4)
          | (Inr installer, s4) \<Rightarrow> run_installer h state_dir channel (nsis_install_command h installer) s4)
      | Winget \<Rightarrow> run_installer h state_dir channel winget_install_command s3
      | Scoop \<Rightarrow> run_installer h state_dir channel scoop_install_command s3
      | Choco \<Rightarrow> run_installer h state_dir channel choco_install_command s3))"

definition cmd_setup_qemu :: "host \<Rightarrow> path \<Rightarrow> bool \<Rightarrow> sys \<Rightarrow> exit \<times> sys" where
  "cmd_setup_qemu h state_dir machine s =
    (if discover_qemu_bin_with h (Some state_dir) (sy_files s) \<noteq> None then (exit_ok, s)
     else if machine then cmd_setup_qemu_machine h state_dir s
     else cmd_setup_qemu_portable h state_dir s)"

section \<open>Downloading a cloud image\<close>

datatype image_plan = SkipVerified path | Download

definition image_download_plan :: "path option \<Rightarrow> string option \<Rightarrow> string option \<Rightarrow> image_plan" where
  "image_download_plan existing_file existing_sha expected_sha =
    (case (existing_file, existing_sha, expected_sha) of
       (Some p, Some actual, Some expected) \<Rightarrow> if sha_matches actual expected then SkipVerified p else Download
     | _ \<Rightarrow> Download)"

text \<open>The digest that upstream publishes for the image, fetched first.\<close>

definition fetch_expected_sha :: "host \<Rightarrow> path \<Rightarrow> string \<Rightarrow> string \<Rightarrow> sys \<Rightarrow> (message + string) \<times> sys" where
  "fetch_expected_sha h sums_path distro file_name s =
    (case sha256sums_url distro of
       None \<Rightarrow> (Inl (text_message ''no trusted SHA256SUMS URL is configured for this distro''), s)
     | Some surl \<Rightarrow> (case run_command h (download_command h surl sums_path) s of (out, s1) \<Rightarrow>
         if \<not> ro_success out
         then (Inl (Message ''could not fetch SHA256SUMS: {}; refusing to use an unverifiable cloud image'' [stderr_last_line out]), s1)
         else (case read_to_string h sums_path (sy_files s1) of
             Inl e \<Rightarrow> (Inl (Message ''read {}: {error}'' [display (ho_sep h) sums_path, io_text e]), s1)
           | Inr body \<Rightarrow> (case expected_sha256_from_sums body file_name of
               Some digest \<Rightarrow> (Inr digest, s1)
             | None \<Rightarrow> (Inl (text_message
                 ''SHA256SUMS did not contain the selected cloud image; refusing to continue''), s1)))))"

definition existing_sha :: "host \<Rightarrow> path \<Rightarrow> sys \<Rightarrow> string option \<times> sys" where
  "existing_sha h dest s =
    (if path_exists (sy_files s) dest
     then (case run_command h (get_file_hash_command h dest) s of (out, s1) \<Rightarrow>
       (if ro_success out then Some (trim (ro_stdout out)) else None, s1))
     else (None, s))"

definition download_image :: "host \<Rightarrow> string \<Rightarrow> path \<Rightarrow> string \<Rightarrow> sys \<Rightarrow> exit \<times> sys" where
  "download_image h url dest expected s =
    (case (case path_parent dest of None \<Rightarrow> (Inr (), s) | Some parent \<Rightarrow> (case create_dir_all h parent s of
         (Inl e, s1) \<Rightarrow> (Inl (Message ''mkdir {}: {}'' [display (ho_sep h) parent, io_text e]), s1)
       | (Inr _, s1) \<Rightarrow> (Inr (), s1))) of
       (Inl m, s1) \<Rightarrow> (err_exit m, s1)
     | (Inr _, s1) \<Rightarrow> (case run_command h (download_command h url dest) s1 of (out, s2) \<Rightarrow>
         if \<not> ro_success out then (err_exit (Message ''download failed: {}'' [stderr_last_line out]), s2)
         else (case run_command h (get_file_hash_command h dest) s2 of (hash, s3) \<Rightarrow>
           if \<not> ro_success hash \<or> \<not> sha_matches (trim (ro_stdout hash)) expected
           then (err_exit (Message ''SHA256 mismatch for {}: expected {expected}, got {actual}''
                   [display (ho_sep h) dest, expected, trim (ro_stdout hash)]), s3)
           else (exit_ok, s3))))"

definition cmd_setup_image :: "host \<Rightarrow> path \<Rightarrow> string \<Rightarrow> sys \<Rightarrow> exit \<times> sys" where
  "cmd_setup_image h state_dir distro s =
    (case image_url distro of
       None \<Rightarrow> (err_exit (text_message (''distro must be '' @ [CHR 0x27] @ ''jammy'' @ [CHR 0x27] @ '' or '' @ [CHR 0x27]
                  @ ''noble'' @ [CHR 0x27])), s)
     | Some url \<Rightarrow> (case image_file_name distro of
         None \<Rightarrow> (err_exit (text_message ''cannot derive image file name''), s)
       | Some file_name \<Rightarrow>
         (let images_dir = path_join state_dir IMAGES_DIR_NAME; dest = path_join images_dir file_name;
              sums_path = path_join images_dir (''SHA256SUMS-'' @ distro) in
          case fetch_expected_sha h sums_path distro file_name s of
            (Inl m, s1) \<Rightarrow> (err_exit m, s1)
          | (Inr expected, s1) \<Rightarrow>
            (let existing = (if path_exists (sy_files s1) dest then Some dest else None) in
             case existing_sha h dest s1 of (sha, s2) \<Rightarrow>
             (case image_download_plan existing sha (Some expected) of
                SkipVerified p \<Rightarrow> (exit_ok, s2)
              | Download \<Rightarrow> download_image h url dest expected s2)))))"

definition cmd_setup_all :: "json_lib \<Rightarrow> host \<Rightarrow> path \<Rightarrow> string \<Rightarrow> sys \<Rightarrow> exit \<times> sys" where
  "cmd_setup_all jl h state_dir distro s =
    (case cmd_setup_image h state_dir distro s of (image_exit, s1) \<Rightarrow>
     case cmd_setup_qemu h state_dir False s1 of (qemu_exit, s2) \<Rightarrow>
     case cmd_setup_whpx jl h state_dir s2 of (whpx_exit, s3) \<Rightarrow>
     (let s4 = (if fst whpx_exit = 0 then snd (run_command h (powershell_feature_command ''HypervisorPlatform'') s3) else s3) in
      ((if list_ex (\<lambda>c. fst c \<noteq> 0) [image_exit, qemu_exit, whpx_exit] then 1 else 0, None), s4)))"

section \<open>The prerequisites of vm create\<close>

datatype prereq = WhpxFeature | QemuBinary | CloudImage

primrec prereq_id :: "prereq \<Rightarrow> string" where
  "prereq_id WhpxFeature = ''whpx-feature''"
| "prereq_id QemuBinary = ''qemu-binary''"
| "prereq_id CloudImage = ''cloud-image''"

primrec setup_hint :: "prereq \<Rightarrow> string" where
  "setup_hint WhpxFeature = ''qemu-center setup whpx''"
| "setup_hint QemuBinary = ''qemu-center setup qemu''"
| "setup_hint CloudImage = ''qemu-center setup image''"

record prereq_state =
  pq_whpx_enabled :: bool
  pq_qemu_found :: bool
  pq_image_present :: bool

definition precheck :: "host \<Rightarrow> path \<Rightarrow> path \<Rightarrow> sys \<Rightarrow> prereq_state \<times> sys" where
  "precheck h state_dir img s =
    (case run_command h (cim_feature_command ''HypervisorPlatform'') s of (out, s1) \<Rightarrow>
      (\<lparr>pq_whpx_enabled = (parse_cim_install_state (ro_stdout out) = Enabled),
        pq_qemu_found = (discover_qemu_bin_with h (Some state_dir) (sy_files s1) \<noteq> None),
        pq_image_present = is_file (sy_files s1) img\<rparr>, s1))"

definition missing_prereqs :: "prereq_state \<Rightarrow> prereq list" where
  "missing_prereqs st = (if \<not> pq_whpx_enabled st then [WhpxFeature] else [])
     @ (if \<not> pq_qemu_found st then [QemuBinary] else [])
     @ (if \<not> pq_image_present st then [CloudImage] else [])"

datatype whpx_action = SkipAlreadyEnabled | EnableElevated

definition whpx_plan :: "feature_state \<Rightarrow> whpx_action" where
  "whpx_plan current = (case current of Enabled \<Rightarrow> SkipAlreadyEnabled | _ \<Rightarrow> EnableElevated)"

end
