(* ===== verification/Verify.thy ===== *)
theory Verify imports Doctor Guest Redroid begin

text \<open>
  \<^verbatim>\<open>qemu-center/src/verify.rs\<close> and the command \<^verbatim>\<open>verify\<close> of \<^verbatim>\<open>main.rs\<close>: the seven acceptance checks of a node, the
  judgement of each over what a command printed, and the run that collects them. What may be done to the
  disk of the node for the last check is decided first. The rendering of the report is not modelled.
\<close>

definition SSH_OK_MARKER :: string where "SSH_OK_MARKER = ''__QC_SSH_OK__''"

definition CHECK_SPECS :: "(string \<times> string) list" where
  "CHECK_SPECS = [(''whpx'', ''WHPX acceleration available on the host''),
     (''ssh'', ''guest reachable over SSH (rdc@127.0.0.1:<port>)''),
     (''binderfs'', ''binder support visible in the guest (/proc/filesystems)''),
     (''docker'', ''docker engine usable inside the guest''),
     (''boot-completed'', ''redroid container reports sys.boot_completed=1''),
     (''adb-connect'', ''host adb connects to 127.0.0.1:<port> and getprop answers''),
     (''clone-timing'', ''qcow2 snapshot + clone complete (informational timing)'')]"

datatype verdict = Pass | Fail | Untested

record verify_check =
  vc_id :: string
  vc_title :: string
  vc_verdict :: verdict
  vc_detail :: message

record verify_report =
  vr_vm :: string
  vr_container :: "string option"
  vr_checks :: "verify_check list"

definition verify_counts :: "verify_report \<Rightarrow> nat \<times> nat \<times> nat" where
  "verify_counts r =
    (let p = length (filter (\<lambda>c. vc_verdict c = Pass) (vr_checks r));
         f = length (filter (\<lambda>c. vc_verdict c = Fail) (vr_checks r))
     in (p, f, length (vr_checks r) - p - f))"

definition all_pass :: "verify_report \<Rightarrow> bool" where
  "all_pass r = (length (vr_checks r) = length CHECK_SPECS \<and> list_all (\<lambda>c. vc_verdict c = Pass) (vr_checks r))"

section \<open>Judgements\<close>

definition first_line :: "string \<Rightarrow> string" where
  "first_line s = (case find (\<lambda>l. l \<noteq> []) (map trim (lines s)) of Some l \<Rightarrow> l | None \<Rightarrow> ''(no output)'')"

primrec judge_whpx :: "probe_verdict \<Rightarrow> verdict \<times> message" where
  "judge_whpx Available = (Pass, text_message ''qemu -accel whpx -machine q35 initialized OK'')"
| "judge_whpx (NotAvailable l) = (Fail, text_message l)"
| "judge_whpx (Undecided m) = (Untested, m)"

definition judge_ssh_reachable :: "bool \<Rightarrow> string \<Rightarrow> verdict \<times> message" where
  "judge_ssh_reachable success stdout =
    (if success \<and> str_contains stdout SSH_OK_MARKER then (Pass, text_message ''marker echoed back over ssh'')
     else (Fail, if blank stdout then text_message ''no output (stopped VM / key not accepted?)''
        else Message ''unexpected output: {}'' [first_line stdout]))"

definition judge_binderfs :: "bool \<Rightarrow> string \<Rightarrow> verdict \<times> message" where
  "judge_binderfs success stdout =
    (if \<not> success then (Untested, text_message ''could not read /proc/filesystems'')
     else if judge_proc_filesystems_binder stdout then (Pass, text_message ''kernel reports binder support'')
     else (Fail, text_message ''no binder/binderfs in /proc/filesystems (linux-modules-extra missing?)''))"

definition judge_docker :: "bool \<Rightarrow> string \<Rightarrow> verdict \<times> message" where
  "judge_docker success stdout =
    (let v = trim stdout in
     if \<not> success then (Fail, Message ''docker version failed: {}'' [first_line stdout])
     else if v = [] \<or> str_contains (to_ascii_lowercase v) ''cannot connect''
     then (Fail, text_message ''docker daemon not answering'')
     else (Pass, Message ''server version {v}'' [v]))"

definition judge_boot :: "bool \<Rightarrow> string \<Rightarrow> verdict \<times> message" where
  "judge_boot success stdout =
    (if success \<and> judge_boot_completed stdout then (Pass, text_message ''sys.boot_completed=1'')
     else if \<not> success then (Fail, text_message ''docker exec failed (container missing?)'')
     else (Untested, Message ''still booting (getprop returned {:?})'' [trim stdout]))"

definition judge_adb_connect :: "bool \<Rightarrow> string \<Rightarrow> verdict \<times> message" where
  "judge_adb_connect success stdout =
    (let s = to_ascii_lowercase stdout;
         connects = str_contains s ''connected to'' \<or> str_contains s ''already connected to'' in
     if \<not> success \<or> \<not> connects then (Fail, Message ''adb connect said: {}'' [first_line stdout])
     else if str_contains s ''cannot'' \<or> str_contains s ''failed'' then (Fail, text_message (first_line stdout))
     else (Pass, text_message (first_line stdout)))"

definition judge_adb_getprop :: "bool \<Rightarrow> string \<Rightarrow> verdict \<times> message" where
  "judge_adb_getprop success stdout =
    (let v = trim stdout in
     if success \<and> v \<noteq> [] \<and> \<not> str_contains (to_ascii_lowercase v) ''error'' then (Pass, Message ''getprop -> {v}'' [v])
     else (Fail, Message ''no usable getprop output: {:?}'' [first_line stdout]))"

datatype snapshot_path = ByQemuImg | ByQmp

record timing_probe =
  tp_path :: snapshot_path
  tp_snapshot_ok :: bool
  tp_clone_ok :: bool
  tp_snapshot_ms :: nat
  tp_clone_ms :: nat
  tp_tag :: string
  tp_note :: message

text \<open>Messages are put together before they are rendered.\<close>

definition with_suffix :: "string \<Rightarrow> string list \<Rightarrow> message \<Rightarrow> message" where
  "with_suffix f args m = (case m of Message g gs \<Rightarrow> Message (f @ g) (args @ gs))"

definition enclose :: "string \<Rightarrow> string \<Rightarrow> string list \<Rightarrow> message \<Rightarrow> message" where
  "enclose f t args m = (case m of Message g gs \<Rightarrow> Message (f @ g @ t) (args @ gs))"

definition judge_clone_timing_probe :: "timing_probe \<Rightarrow> verdict \<times> message" where
  "judge_clone_timing_probe p =
    (let timing = [dec_string (tp_snapshot_ms p), dec_string (tp_clone_ms p)];
         how = (case tp_path p of ByQemuImg \<Rightarrow> ''qemu-img snapshot'' | ByQmp \<Rightarrow> ''qmp internal snapshot'');
         extra = (if tp_tag p = [] then (if tp_note p = text_message [] then text_message [] else with_suffix ''; '' [] (tp_note p))
           else if tp_note p = text_message [] then Message ''; {how} {} removed after the probe'' [how, tp_tag p]
           else with_suffix ''; {how} {}: '' [how, tp_tag p] (tp_note p)) in
     case (tp_path p, tp_snapshot_ok p, tp_clone_ok p) of
       (ByQemuImg, True, True) \<Rightarrow> (Pass, with_suffix ''snapshot {} ms, clone {} ms (informational)'' timing extra)
     | (ByQemuImg, False, _) \<Rightarrow> (Fail, with_suffix ''qemu-img snapshot failed; snapshot {} ms, clone {} ms'' timing extra)
     | (_, True, False) \<Rightarrow> (Fail, with_suffix ''qemu-img backing clone failed; snapshot {} ms, clone {} ms'' timing extra)
     | (ByQmp, True, True) \<Rightarrow> (Pass, with_suffix ''snapshot {} ms, clone {} ms (informational, live via QMP)'' timing extra)
     | (ByQmp, False, _) \<Rightarrow> (Fail, with_suffix ''qmp internal snapshot failed; snapshot {} ms, clone {} ms'' timing extra))"

definition judge_clone_timing :: "bool \<Rightarrow> bool \<Rightarrow> nat \<Rightarrow> nat \<Rightarrow> verdict \<times> message" where
  "judge_clone_timing snapshot_ok clone_ok snapshot_ms clone_ms =
    judge_clone_timing_probe \<lparr>tp_path = ByQemuImg, tp_snapshot_ok = snapshot_ok, tp_clone_ok = clone_ok,
      tp_snapshot_ms = snapshot_ms, tp_clone_ms = clone_ms, tp_tag = [], tp_note = text_message []\<rparr>"

definition judge_clone_timing_skipped :: "string \<Rightarrow> verdict \<times> message" where
  "judge_clone_timing_skipped why = (Untested, Message ''snapshot step skipped for disk safety: {why}'' [why])"

section \<open>Command lines\<close>

definition ssh_marker_command :: string where "ssh_marker_command = ''echo __QC_SSH_OK__''"

definition adb_serial :: "u16 \<Rightarrow> string" where
  "adb_serial port = ''127.0.0.1:'' @ show_u16 port"

definition adb_connect_command :: "u16 \<Rightarrow> string list" where
  "adb_connect_command port = [''adb'', ''connect'', ''127.0.0.1:'' @ show_u16 port]"

definition adb_getprop_command :: "u16 \<Rightarrow> string \<Rightarrow> string list" where
  "adb_getprop_command port prop = [''adb'', ''-s'', adb_serial port, ''shell'', ''getprop'', prop]"

definition untested_report :: "string \<Rightarrow> string option \<Rightarrow> message \<Rightarrow> verify_report" where
  "untested_report vm container reason =
    \<lparr>vr_vm = vm, vr_container = container,
     vr_checks = map (\<lambda>(i, t). \<lparr>vc_id = i, vc_title = t, vc_verdict = Untested, vc_detail = reason\<rparr>) CHECK_SPECS\<rparr>"

section \<open>The timing of a snapshot and a clone\<close>

definition qmp_error_message :: "qmp_error \<Rightarrow> message" where
  "qmp_error_message e = (case e of Transport m \<Rightarrow> m | Rejected desc \<Rightarrow> text_message desc)"

definition elapsed_ms :: "host \<Rightarrow> sys \<Rightarrow> sys \<Rightarrow> nat" where
  "elapsed_ms h s t = ho_elapsed_ms h (drop (length (sy_log s)) (sy_log t))"

text \<open>The snapshot with \<^verbatim>\<open>qemu-img\<close> on a disk that nobody has open; it is deleted again.\<close>

definition timed_qemu_img_snapshot :: "host \<Rightarrow> string \<Rightarrow> path \<Rightarrow> string \<Rightarrow> sys \<Rightarrow> (bool \<times> nat \<times> message) \<times> sys" where
  "timed_qemu_img_snapshot h bin disk tag s =
    (case run_command h (qemu_img_snapshot_create (ho_sep h) bin disk tag) s of (out, s1) \<Rightarrow>
      (let ms = elapsed_ms h s s1 in
       if ro_success out
       then (case run_command h (qemu_img_snapshot_delete (ho_sep h) bin disk tag) s1 of (del, s2) \<Rightarrow>
         ((True, ms, if ro_success del then text_message [] else Message ''left behind (delete failed: {})'' [stderr_last_line del]), s2))
       else ((False, ms, text_message (stderr_last_line out)), s1)))"

text \<open>The snapshot through the QEMU that has the disk open, on the device that holds it; it is deleted again.\<close>

definition timed_qmp_snapshot :: "json_lib \<Rightarrow> host \<Rightarrow> u16 \<Rightarrow> string \<Rightarrow> string \<Rightarrow> sys \<Rightarrow> (bool \<times> nat \<times> message) \<times> sys" where
  "timed_qmp_snapshot jl h port device tag s =
    (case internal_snapshot jl h port device tag s of
       (Inr _, s1) \<Rightarrow> (case delete_internal_snapshot jl h port device tag s1 of
           (Inr _, s2) \<Rightarrow> ((True, elapsed_ms h s s1, Message ''on {device}'' [device]), s2)
         | (Inl e, s2) \<Rightarrow> ((True, elapsed_ms h s s1, enclose
             ''on {device} LEFT BEHIND: delete it with QMP blockdev-snapshot-delete-internal-sync ('' '')'' [device] (qmp_error_message e)), s2))
     | (Inl e, s1) \<Rightarrow> ((False, elapsed_ms h s s1, with_suffix ''device {device}: '' [device] (qmp_error_message e)), s1))"

definition clone_path :: "path \<Rightarrow> string \<Rightarrow> path" where
  "clone_path disk tag = path_join (case path_parent disk of Some d \<Rightarrow> d | None \<Rightarrow> Path [] [''.'']) (''clone-'' @ tag @ ''.qcow2'')"

definition time_clone :: "host \<Rightarrow> string \<Rightarrow> path \<Rightarrow> string \<Rightarrow> snapshot_path \<Rightarrow> (bool \<times> nat \<times> message) \<Rightarrow> sys \<Rightarrow> (verdict \<times> message) \<times> sys" where
  "time_clone h bin disk tag how snap s =
    (let cp = clone_path disk tag in
     case run_command h (qemu_img_create_overlay (ho_sep h) bin cp disk None) s of (clone, s1) \<Rightarrow>
       (judge_clone_timing_probe \<lparr>tp_path = how, tp_snapshot_ok = fst snap, tp_clone_ok = ro_success clone,
          tp_snapshot_ms = fst (snd snap), tp_clone_ms = elapsed_ms h s s1, tp_tag = tag, tp_note = snd (snd snap)\<rparr>,
        snd (remove_file h cp s1)))"

definition run_clone_timing_probe :: "json_lib \<Rightarrow> host \<Rightarrow> path \<Rightarrow> vm_entry \<Rightarrow> sys \<Rightarrow> (verdict \<times> message) \<times> sys" where
  "run_clone_timing_probe jl h state_dir v s =
    (let liveness = vm_liveness_from_qmp_probe (probe h (ve_qmp_host_port v)); plan = snapshot_plan_for liveness True in
     case plan of
       Skip why \<Rightarrow> (judge_clone_timing_skipped why, s)
     | _ \<Rightarrow> (case discover_qemu_img_with h (Some state_dir) (sy_files s) of
         None \<Rightarrow> ((Untested, text_message ''qemu-img not found (run `doctor`)''), s)
       | Some img \<Rightarrow>
         (let img_bin = display (ho_sep h) img; tag = ''verify-'' @ dec_string (ho_now h) in
          case plan of
            Skip why \<Rightarrow> (judge_clone_timing_skipped why, s)
          | QemuImg \<Rightarrow> (case timed_qemu_img_snapshot h img_bin (ve_disk v) tag s of (snap, s1) \<Rightarrow>
              time_clone h img_bin (ve_disk v) tag ByQemuImg snap s1)
          | QmpInternal \<Rightarrow>
            (case device_for_disk jl h (ve_qmp_host_port v) (display (ho_sep h) (ve_disk v)) s of
               (Inl e, s1) \<Rightarrow> ((Fail, enclose ''could not address the live disk over QMP ('' ''); no qemu-img write was attempted'' []
                    (qmp_error_message e)), s1)
             | (Inr device, s1) \<Rightarrow> (case timed_qmp_snapshot jl h (ve_qmp_host_port v) device tag s1 of (snap, s2) \<Rightarrow>
                 time_clone h img_bin (ve_disk v) tag ByQmp snap s2)))))"

section \<open>The run\<close>

definition spec_check :: "string \<Rightarrow> verdict \<times> message \<Rightarrow> verify_check" where
  "spec_check i r = \<lparr>vc_id = i, vc_title = (case map_of CHECK_SPECS i of Some t \<Rightarrow> t | None \<Rightarrow> []),
     vc_verdict = fst r, vc_detail = snd r\<rparr>"

definition check_whpx :: "host \<Rightarrow> path \<Rightarrow> sys \<Rightarrow> (verdict \<times> message) \<times> sys" where
  "check_whpx h state_dir s =
    (case discover_qemu_bin_with h (Some state_dir) (sy_files s) of
       Some bin \<Rightarrow> (case run_command h (qemu_whpx_probe_command h bin) s of (out, s1) \<Rightarrow>
         (judge_whpx (classify_whpx_probe (probe_kind out) (ro_exit_code out) (ro_stderr out)), s1))
     | None \<Rightarrow> ((Untested, text_message ''QEMU binary not found (run `doctor`)''), s))"

definition check_ssh :: "host \<Rightarrow> path \<Rightarrow> vm_entry \<Rightarrow> string \<Rightarrow> (bool \<Rightarrow> string \<Rightarrow> verdict \<times> message) \<Rightarrow> sys
    \<Rightarrow> (verdict \<times> message) \<times> sys" where
  "check_ssh h state_dir v remote judge s =
    (case run_command h (ssh_command (ho_sep h) (vm_ssh_key_path state_dir (ve_name v)) (vm_known_hosts_path state_dir (ve_name v))
        (ve_ssh_host_port v) remote) s of (out, s1) \<Rightarrow> (judge (ro_success out) (ro_stdout out), s1))"

definition check_adb :: "host \<Rightarrow> u16 \<Rightarrow> sys \<Rightarrow> (verdict \<times> message) \<times> sys" where
  "check_adb h port s =
    (case run_command h (adb_connect_command port) s of (con, s1) \<Rightarrow>
     case run_command h (adb_getprop_command port ''ro.build.version.release'') s1 of (getprop, s2) \<Rightarrow>
     (case (judge_adb_connect (ro_success con) (ro_stdout con), judge_adb_getprop (ro_success getprop) (ro_stdout getprop)) of
        ((cv, Message cf cargs), (gv, gd)) \<Rightarrow>
          ((if cv = Pass \<and> gv = Pass then Pass else if cv = Fail \<or> gv = Fail then Fail else Untested,
            with_suffix (cf @ ''; '') cargs gd), s2)))"

definition verify_target :: "vm_entry \<Rightarrow> string option \<Rightarrow> message + string \<times> u16" where
  "verify_target v container =
    (case container of
       Some c \<Rightarrow> (case map_of (ve_adb_assignments v) c of
           Some p \<Rightarrow> Inr (c, p)
         | None \<Rightarrow> Inl (Message ''instance {c:?} has no port assignment on VM {vm_name:?}'' [c, ve_name v]))
     | None \<Rightarrow> (case ve_adb_assignments v of
           a # _ \<Rightarrow> Inr a
         | [] \<Rightarrow> Inl (text_message ''no redroid instance assigned on this VM (run `redroid create`)'')))"

definition run_checks :: "json_lib \<Rightarrow> host \<Rightarrow> path \<Rightarrow> vm_entry \<Rightarrow> string \<Rightarrow> u16 \<Rightarrow> sys \<Rightarrow> verify_check list \<times> sys" where
  "run_checks jl h state_dir v inst port s0 =
    (case check_whpx h state_dir s0 of (r1, s1) \<Rightarrow>
     case check_ssh h state_dir v ssh_marker_command judge_ssh_reachable s1 of (r2, s2) \<Rightarrow>
     case check_ssh h state_dir v cmd_cat_proc_filesystems judge_binderfs s2 of (r3, s3) \<Rightarrow>
     case check_ssh h state_dir v cmd_docker_server_version judge_docker s3 of (r4, s4) \<Rightarrow>
     case check_ssh h state_dir v (cmd_docker_exec_getprop (container_name inst) ''sys.boot_completed'') judge_boot s4 of (r5, s5) \<Rightarrow>
     case check_adb h port s5 of (r6, s6) \<Rightarrow>
     case run_clone_timing_probe jl h state_dir v s6 of (r7, s7) \<Rightarrow>
     ([spec_check ''whpx'' r1, spec_check ''ssh'' r2, spec_check ''binderfs'' r3, spec_check ''docker'' r4,
       spec_check ''boot-completed'' r5, spec_check ''adb-connect'' r6, spec_check ''clone-timing'' r7], s7))"

definition run_verify :: "codec \<Rightarrow> json_lib \<Rightarrow> host \<Rightarrow> path \<Rightarrow> string \<Rightarrow> string option \<Rightarrow> sys \<Rightarrow> verify_report \<times> sys" where
  "run_verify cd jl h state_dir vm_name container s =
    (case load_registry cd h state_dir (sy_files s) of
       Inl m \<Rightarrow> (untested_report vm_name container (with_suffix ''state.json unreadable: '' [] m), s)
     | Inr reg \<Rightarrow> (case registry_get vm_name reg of
         None \<Rightarrow> (untested_report vm_name container
             (Message ''VM {vm_name:?} is not in state.json (run `vm create` first)'' [vm_name]), s)
       | Some v \<Rightarrow> (case verify_target v container of
           Inl reason \<Rightarrow> (untested_report vm_name container reason, s)
         | Inr (inst, port) \<Rightarrow> (case run_checks jl h state_dir v inst port s of (checks, s1) \<Rightarrow>
             (\<lparr>vr_vm = vm_name, vr_container = Some inst, vr_checks = checks\<rparr>, s1)))))"

definition finish_verify :: "verify_report \<Rightarrow> exit" where
  "finish_verify r = (if all_pass r then exit_ok else if fst (snd (verify_counts r)) > 0 then (1, None) else (3, None))"

definition cmd_verify :: "codec \<Rightarrow> json_lib \<Rightarrow> host \<Rightarrow> path \<Rightarrow> string option \<Rightarrow> string option \<Rightarrow> sys \<Rightarrow> exit \<times> sys" where
  "cmd_verify cd jl h state_dir vm_name container s =
    (case (case vm_name of
         Some n \<Rightarrow> Inr (Some n)
       | None \<Rightarrow> map_sum id (\<lambda>reg. map_option ve_name (find (\<lambda>_. True) (rg_vms reg))) (load_registry cd h state_dir (sy_files s))) of
       Inl m \<Rightarrow> (err_exit (with_suffix ''read state: '' [] m), s)
     | Inr None \<Rightarrow> (finish_verify (untested_report ''(none)'' container
           (text_message ''no VMs registered (run `vm create` first)'')), s)
     | Inr (Some n) \<Rightarrow> (case run_verify cd jl h state_dir n container s of (report, s1) \<Rightarrow> (finish_verify report, s1)))"

end
