(* ===== verification/Node.thy ===== *)
theory Node imports Vm_Props Fat Node_Grants Setup Verify begin

text \<open>
  The commands of \<^verbatim>\<open>qemu-center/src/main.rs\<close> that manage nodes, snapshots and redroid instances. A command
  takes the build (\<open>build\<close>: the libraries and the compile-time settings), the host and the state
  directory, and gives the exit code with the error message and the new \<open>sys\<close>. What is printed is not
  modelled.
\<close>

record build =
  bd_crates :: crates
  bd_serde :: node_serde
  bd_codec :: codec
  bd_json :: json_lib
  bd_keys :: "string option"
  bd_overflow_checks :: bool
  bd_show_f64 :: "f64 \<Rightarrow> string"

section \<open>Helpers\<close>

text \<open>The pattern \<^verbatim>\<open>match r { Ok(a) => .., Err(e) => return err_exit(&e) }\<close>.\<close>

definition try_exit :: "(message + 'a) \<times> sys \<Rightarrow> ('a \<Rightarrow> sys \<Rightarrow> exit \<times> sys) \<Rightarrow> exit \<times> sys" where
  "try_exit r k = (case r of (Inl m, s) \<Rightarrow> (err_exit m, s) | (Inr a, s) \<Rightarrow> k a s)"

definition panic_exit :: exit where
  "panic_exit = (101, Some (text_message ''panicked''))"

definition ssh_cmd_for :: "host \<Rightarrow> path \<Rightarrow> vm_entry \<Rightarrow> string \<Rightarrow> string list" where
  "ssh_cmd_for h state_dir v remote =
    ssh_command (ho_sep h) (vm_ssh_key_path state_dir (ve_name v)) (vm_known_hosts_path state_dir (ve_name v))
      (ve_ssh_host_port v) remote"

definition guest_docker :: "host \<Rightarrow> path \<Rightarrow> vm_entry \<Rightarrow> string list \<Rightarrow> sys \<Rightarrow> run_outcome \<times> sys" where
  "guest_docker h state_dir v docker_args s =
    run_command h (ssh_cmd_for h state_dir v (docker_command docker_args)) s"

definition parse_accel :: "string \<Rightarrow> accel option" where
  "parse_accel t = (let v = to_ascii_lowercase t in
     if v = ''whpx'' then Some Whpx else if v = ''tcg'' then Some Tcg else None)"

definition parse_gpu_mode :: "string \<Rightarrow> gpu_mode option" where
  "parse_gpu_mode t = (let v = to_ascii_lowercase t in
     if v = ''guest'' then Some Guest else if v = ''host'' then Some Host else None)"

definition probe_vm_liveness :: "host \<Rightarrow> u16 \<Rightarrow> vm_liveness" where
  "probe_vm_liveness h qmp_port =
    (let pr = probe h qmp_port;
         host_has_qemu_process =
           (if pr = TimedOut then (case ho_qemu_process h of Inr b \<Rightarrow> Some b | Inl _ \<Rightarrow> None) else None)
     in vm_liveness_from_qmp_probe_with_host_process_check pr host_has_qemu_process)"

definition ensure_parent_dir :: "host \<Rightarrow> path \<Rightarrow> sys \<Rightarrow> (message + path) \<times> sys" where
  "ensure_parent_dir h p s = (case path_parent p of
     None \<Rightarrow> (Inl (Message ''{} has no parent directory'' [display (ho_sep h) p]), s)
   | Some parent \<Rightarrow>
     if parent = Path [] [] then (Inr parent, s)
     else (case create_dir_all h parent s of
         (Inl e, s1) \<Rightarrow> (Inl (Message ''mkdir {}: {}'' [display (ho_sep h) parent, io_text e]), s1)
       | (Inr _, s1) \<Rightarrow> (Inr parent, s1)))"

section \<open>vm create\<close>

text \<open>The steps of \<^verbatim>\<open>--auto-setup\<close>; the image is always the default distribution.\<close>

definition setup_step :: "build \<Rightarrow> host \<Rightarrow> path \<Rightarrow> prereq \<Rightarrow> sys \<Rightarrow> exit \<times> sys" where
  "setup_step bd h state_dir p s = (case p of
     WhpxFeature \<Rightarrow> cmd_setup_whpx (bd_json bd) h state_dir s
   | QemuBinary \<Rightarrow> cmd_setup_qemu h state_dir False s
   | CloudImage \<Rightarrow> cmd_setup_image h state_dir ''noble'' s)"

fun run_setup_steps :: "build \<Rightarrow> host \<Rightarrow> path \<Rightarrow> prereq list \<Rightarrow> sys \<Rightarrow> (message + unit) \<times> sys" where
  "run_setup_steps bd h state_dir [] s = (Inr (), s)"
| "run_setup_steps bd h state_dir (p # ps) s = (case setup_step bd h state_dir p s of (code, s1) \<Rightarrow>
     if fst code \<noteq> 0
     then (Inl (Message ''auto-setup of {} failed (exit {code}); fix it and rerun vm create'' [prereq_id p, show_int (fst code)]), s1)
     else run_setup_steps bd h state_dir ps s1)"

definition vm_create_prereqs :: "build \<Rightarrow> host \<Rightarrow> path \<Rightarrow> path \<Rightarrow> bool \<Rightarrow> sys \<Rightarrow> exit option \<times> sys" where
  "vm_create_prereqs bd h state_dir base_image auto_setup s =
    (case precheck h state_dir base_image s of (pre, s1) \<Rightarrow>
     let missing = missing_prereqs pre in
     if missing = [] then (None, s1)
     else if \<not> auto_setup
     then (Some (3, Some (Message ''missing prerequisites: run one of'' (map setup_hint missing))), s1)
     else (case run_setup_steps bd h state_dir missing s1 of
         (Inl m, s2) \<Rightarrow> (Some (err_exit m), s2)
       | (Inr _, s2) \<Rightarrow> (case precheck h state_dir base_image s2 of (pre2, s3) \<Rightarrow>
           if missing_prereqs pre2 \<noteq> []
           then (Some (3, Some (Message ''still missing after setup'' (map prereq_id (missing_prereqs pre2)))), s3)
           else (None, s3))))"

text \<open>The SSH port is the operator's or the first free one; then the QMP port and the ADB block.\<close>

datatype ('e, 'a) port_result = PortsErr 'e | PortsPanic | PortsOk 'a

definition allocate_vm_ports ::
    "bool \<Rightarrow> registry \<Rightarrow> u16 option \<Rightarrow> u16 \<Rightarrow> u16 \<Rightarrow> (message, u16 \<times> u16 \<times> u16 list) port_result" where
  "allocate_vm_ports checks reg ssh_host_port adb_port_base adb_port_count =
    (let used = used_ports reg in
     case (case ssh_host_port of
        Some p \<Rightarrow> if p \<notin> used \<and> \<not> port_is_reserved p then Inr p
          else Inl (Message ''ssh host port {} is already in use/reserved'' [show_u16 p])
      | None \<Rightarrow> (case next_free_port used DEFAULT_SSH_PORT_BASE of
          Some p \<Rightarrow> Inr p | None \<Rightarrow> Inl (text_message ''no free ssh host port''))) of
       Inl m \<Rightarrow> PortsErr m
     | Inr ssh_port \<Rightarrow> (let used1 = insert ssh_port used in
       case next_free_port used1 DEFAULT_QMP_PORT_BASE of
         None \<Rightarrow> PortsErr (text_message ''no free qmp host port'')
       | Some qmp_port \<Rightarrow> (let used2 = insert qmp_port used1 in
         case allocate_port_block checks used2 adb_port_base adb_port_count of
           None \<Rightarrow> PortsPanic
         | Some (Inl ZeroCount) \<Rightarrow> PortsErr (text_message ''adb_port_count must be > 0'')
         | Some (Inl (Exhausted b n)) \<Rightarrow> PortsErr (Message
             ''no free block of {} ports at or above {} (65535 limit / reserved ranges)'' [show_u16 n, show_u16 b])
         | Some (Inr adb_ports) \<Rightarrow> PortsOk (ssh_port, qmp_port, adb_ports))))"

definition vm_create_pubkey :: "host \<Rightarrow> path \<Rightarrow> string \<Rightarrow> string option \<Rightarrow> sys \<Rightarrow> (message + string) \<times> sys" where
  "vm_create_pubkey h state_dir name ssh_pubkey s =
    (let key_path = vm_ssh_key_path state_dir name in
     case ssh_pubkey of
       Some k \<Rightarrow> (Inr (trim k), s)
     | None \<Rightarrow>
       (case (if path_exists (sy_files s) key_path then (Inr (), s)
              else (case ensure_parent_dir h key_path s of
                  (Inl m, s1) \<Rightarrow> (Inl m, s1)
                | (Inr _, s1) \<Rightarrow>
                  (case run_command h (ssh_keygen_command (ho_sep h) key_path (''qemu-center-'' @ name)) s1 of (out, s2) \<Rightarrow>
                    if ro_success out then (Inr (), s2)
                    else (Inl (Message ''ssh-keygen failed: {} (install the Windows OpenSSH client)'' [stderr_last_line out]), s2)))) of
          (Inl m, s1) \<Rightarrow> (Inl m, s1)
        | (Inr _, s1) \<Rightarrow> (case read_to_string h (vm_ssh_key_pub_path state_dir name) (sy_files s1) of
            Inr k \<Rightarrow> (Inr (trim k), s1)
          | Inl e \<Rightarrow> (Inl (Message ''read {}: {}'' [display (ho_sep h) key_path, io_text e]), s1))))"

definition byte_string :: "bytes \<Rightarrow> string" where
  "byte_string bs = map byte_char bs"

definition write_seed :: "host \<Rightarrow> path \<Rightarrow> string \<Rightarrow> cloud_init_config \<Rightarrow> sys \<Rightarrow> (message + unit) \<times> sys" where
  "write_seed h state_dir name cfg s =
    (let dir = vm_dir state_dir name in
     case create_dir_all h dir s of
       (Inl e, s1) \<Rightarrow> (Inl (Message ''mkdir {}: {}'' [display (ho_sep h) dir, io_text e]), s1)
     | (Inr _, s1) \<Rightarrow> (case build_fat16_image (seed_image_files cfg) of
         Inl (Message f args) \<Rightarrow> (Inl (Message (''build FAT16 seed image: '' @ f) args), s1)
       | Inr img \<Rightarrow>
         (let seed_path = vm_seed_image state_dir name in
          case fs_write h seed_path (byte_string img) s1 of
            (Inl e, s2) \<Rightarrow> (Inl (Message ''write {}: {}'' [display (ho_sep h) seed_path, io_text e]), s2)
          | (Inr _, s2) \<Rightarrow> (Inr (), s2))))"

definition cmd_vm_create ::
    "build \<Rightarrow> host \<Rightarrow> path \<Rightarrow> string \<Rightarrow> path \<Rightarrow> u16 \<Rightarrow> u32 \<Rightarrow> u32 \<Rightarrow> string \<Rightarrow> u16 option \<Rightarrow> u16 \<Rightarrow> u16
      \<Rightarrow> string \<Rightarrow> string option \<Rightarrow> bool \<Rightarrow> sys \<Rightarrow> exit \<times> sys" where
  "cmd_vm_create bd h state_dir name base_image cpus mem disk_gib accel_name ssh_host_port adb_port_base adb_port_count
      docker_install ssh_pubkey auto_setup s0 =
    (case vm_create_prereqs bd h state_dir base_image auto_setup s0 of
       (Some code, s) \<Rightarrow> (code, s)
     | (None, s) \<Rightarrow>
     try_exit (validate_vm_name name, s) (\<lambda>_ s.
     case parse_accel accel_name of
       None \<Rightarrow> (err_exit (text_message ''accel must be whpx or tcg''), s)
     | Some acc \<Rightarrow>
     if \<not> is_file (sy_files s) base_image
     then (err_exit (Message ''base cloud image {} not found'' [display (ho_sep h) base_image]), s)
     else if adb_port_count = 0 then (err_exit (text_message ''adb_port_count must be > 0''), s)
     else if \<not> (1536 \<le> mem \<and> mem \<le> 16384)
     then (err_exit (text_message ''mem must be between 1536 MiB and 16384 MiB''), s)
     else
     try_exit (load_registry (bd_codec bd) h state_dir (sy_files s), s) (\<lambda>reg s.
     if registry_contains name reg then (err_exit (Message ''VM {:?} already exists in state.json'' [name]), s)
     else case allocate_vm_ports (bd_overflow_checks bd) reg ssh_host_port adb_port_base adb_port_count of
       PortsPanic \<Rightarrow> (panic_exit, s)
     | PortsErr m \<Rightarrow> (err_exit m, s)
     | PortsOk (ssh_port, qmp_port, adb_ports) \<Rightarrow>
     try_exit (vm_create_pubkey h state_dir name ssh_pubkey s) (\<lambda>pubkey s.
     let cfg = \<lparr>ci_hostname = name, ci_ssh_pubkey = pubkey, ci_docker_install = docker_install\<rparr> in
     try_exit (write_seed h state_dir name cfg s) (\<lambda>_ s.
     let disk = vm_disk_path state_dir name in
     case discover_qemu_img_with h (Some state_dir) (sy_files s) of
       None \<Rightarrow> (err_exit (text_message ''qemu-img not found''), s)
     | Some bin \<Rightarrow>
     (case run_command h (qemu_img_create_overlay (ho_sep h) (display (ho_sep h) bin) disk base_image (Some disk_gib)) s of (out, s) \<Rightarrow>
      if \<not> ro_success out then (err_exit (Message ''qemu-img create failed: {}'' [stderr_last_line out]), s)
      else
      (let v = \<lparr>ve_name = name, ve_base_image = Some base_image, ve_disk = disk, ve_vcpus = cpus,
                ve_mem_mib = mem, ve_accel = acc, ve_ssh_host_port = ssh_port, ve_qmp_host_port = qmp_port,
                ve_adb_ports = adb_ports, ve_adb_assignments = [], ve_snapshots = [],
                ve_created_at_unix = ho_now h, ve_cloud_init = cfg, ve_redroid_image = default_redroid_image\<rparr> in
      try_exit (save_registry (bd_codec bd) h state_dir (reg\<lparr>rg_vms := rg_vms reg @ [v]\<rparr>) s) (\<lambda>_ s.
      (exit_ok, s)))))))))"

section \<open>vm start, set-memory and stop\<close>

definition launch_options_of :: "host \<Rightarrow> path \<Rightarrow> vm_entry \<Rightarrow> files \<Rightarrow> launch_options" where
  "launch_options_of h state_dir v fs =
    \<lparr>lo_qemu_bin = (case discover_qemu_bin_with h (Some state_dir) fs of Some p \<Rightarrow> display (ho_sep h) p | None \<Rightarrow> qemu_binary_name (ho_windows h)),
     lo_name = ve_name v, lo_vcpus = ve_vcpus v, lo_mem_mib = ve_mem_mib v, lo_accel = ve_accel v,
     lo_detach = platform_default (ho_windows h), lo_disk = ve_disk v,
     lo_seed_image = (let img = vm_seed_image state_dir (ve_name v) in if path_exists fs img then Some img else None),
     lo_ssh_host_port = ve_ssh_host_port v, lo_adb_ports = ve_adb_ports v, lo_qmp_host_port = ve_qmp_host_port v\<rparr>"

definition cmd_vm_start :: "build \<Rightarrow> host \<Rightarrow> path \<Rightarrow> string \<Rightarrow> sys \<Rightarrow> exit \<times> sys" where
  "cmd_vm_start bd h state_dir name s =
    try_exit (load_registry (bd_codec bd) h state_dir (sy_files s), s) (\<lambda>reg s.
    case registry_get name reg of
      None \<Rightarrow> (err_exit (Message ''VM {:?} not registered (run `vm create`)'' [name]), s)
    | Some v \<Rightarrow>
    (case probe_vm_liveness h (ve_qmp_host_port v) of
       Running \<Rightarrow> (err_exit (Message ''VM {:?} is already running'' [name]), s)
     | Unknown \<Rightarrow> (err_exit (Message ''cannot start VM {:?} while QMP state is unknown'' [name]), s)
     | Stopped \<Rightarrow>
     (case host_available_memory_bytes h s of (host_available_bytes, s) \<Rightarrow>
     if should_block_vm_start host_available_bytes (ve_mem_mib v)
     then (err_exit (Message ''host available memory is too low to start VM {:?}'' [name]), s)
     else
     (let argv = qemu_command (ho_sep h) (launch_options_of h state_dir v (sy_files s));
          log_path = vm_qemu_log_path state_dir name in
      if ho_windows h
      then (case ho_spawn h argv (Some log_path) of
          Inl e \<Rightarrow> (err_exit (Message ''QEMU failed to start: {}'' [e]), s)
        | Inr pid \<Rightarrow>
          (case fs_write h (vm_pid_path state_dir name) (show_u32 pid @ [CHR 0x0A]) (s\<lparr>sy_log := sy_log s @ [Spawned argv]\<rparr>) of
             (Inl e, s1) \<Rightarrow> (err_exit (Message ''record QEMU PID for {}: {}'' [name, io_text e]), s1)
           | (Inr _, s1) \<Rightarrow> (exit_ok, s1)))
      else (case run_command h argv s of (out, s1) \<Rightarrow>
        if ro_success out then (exit_ok, s1)
        else (err_exit (Message ''QEMU failed to start: {}'' [stderr_last_line out]), s1))))))"

definition cmd_vm_set_memory :: "build \<Rightarrow> host \<Rightarrow> path \<Rightarrow> string \<Rightarrow> u32 \<Rightarrow> sys \<Rightarrow> exit \<times> sys" where
  "cmd_vm_set_memory bd h state_dir name memory_mib s =
    try_exit (load_registry (bd_codec bd) h state_dir (sy_files s), s) (\<lambda>reg s.
    case registry_get name reg of
      None \<Rightarrow> (err_exit (Message ''VM {:?} not registered'' [name]), s)
    | Some v \<Rightarrow>
      try_exit (validate_memory_reconfiguration (probe_vm_liveness h (ve_qmp_host_port v)) memory_mib, s) (\<lambda>_ s.
      try_exit (save_registry (bd_codec bd) h state_dir (registry_update name (\<lambda>u. u\<lparr>ve_mem_mib := memory_mib\<rparr>) reg) s) (\<lambda>_ s.
      (exit_ok, s))))"

text \<open>\<^verbatim>\<open>stop_via_qmp\<close> reads one line for each frame it sends.\<close>

fun stop_frames :: "json_lib \<Rightarrow> host \<Rightarrow> u16 \<Rightarrow> string list \<Rightarrow> string list \<Rightarrow> (string + string) list \<Rightarrow> sys \<Rightarrow> (message + unit) \<times> sys" where
  "stop_frames jl h port sent [] unread s = (Inr (), s)"
| "stop_frames jl h port sent (frame # frames) unread s =
    (case ho_qmp_write h port (sent @ [frame]) of
       Some e \<Rightarrow> (Inl (Message ''write: {}'' [e]), s)
     | None \<Rightarrow>
       (let s1 = s\<lparr>sy_log := sy_log s @ [QmpSent port frame]\<rparr>;
            pending = unread @ ho_qmp_lines h port (sent @ [frame]) in
        case (case pending of [] \<Rightarrow> Inr [] | r # _ \<Rightarrow> r) of
          Inl e \<Rightarrow> (Inl (Message ''read: {}'' [e]), s1)
        | Inr reply \<Rightarrow>
          if \<not> qmp_reply_is_ok jl reply then (Inl (Message ''QMP rejected {}: {}'' [frame, trim reply]), s1)
          else stop_frames jl h port (sent @ [frame]) frames (tl pending) s1))"

definition stop_via_qmp :: "json_lib \<Rightarrow> host \<Rightarrow> u16 \<Rightarrow> sys \<Rightarrow> (message + unit) \<times> sys" where
  "stop_via_qmp jl h port s =
    (case ho_connect h port of
       ConnectFailed e \<Rightarrow> (Inl (Message ''connect 127.0.0.1:{}: {}'' [show_u16 port, e]), s)
     | ConnectionRefused \<Rightarrow> (Inl (Message ''connect 127.0.0.1:{}: connection refused'' [show_u16 port]), s)
     | ConnectTimeout \<Rightarrow> (Inl (Message ''connect 127.0.0.1:{}: timed out'' [show_u16 port]), s)
     | Connected \<Rightarrow>
       (case (case ho_qmp_lines h port [] of [] \<Rightarrow> Inr [] | r # _ \<Rightarrow> r) of
          Inl e \<Rightarrow> (Inl (Message ''read greeting: {}'' [e]), s)
        | Inr l \<Rightarrow>
          if \<not> qmp_greeting_received l then (Inl (text_message ''no QMP greeting: endpoint is not a QEMU QMP socket''), s)
          else stop_frames jl h port [] qmp_stop_frames (tl (ho_qmp_lines h port [])) s))"

definition cmd_vm_stop :: "build \<Rightarrow> host \<Rightarrow> path \<Rightarrow> string \<Rightarrow> sys \<Rightarrow> exit \<times> sys" where
  "cmd_vm_stop bd h state_dir name s =
    try_exit (load_registry (bd_codec bd) h state_dir (sy_files s), s) (\<lambda>reg s.
    case registry_get name reg of
      None \<Rightarrow> (err_exit (Message ''VM {:?} not registered'' [name]), s)
    | Some v \<Rightarrow> (case stop_via_qmp (bd_json bd) h (ve_qmp_host_port v) s of
        (Inr _, s1) \<Rightarrow> (exit_ok, s1)
      | (Inl (Message f args), s1) \<Rightarrow>
          (err_exit (Message (''QMP connect to 127.0.0.1:{} failed: '' @ f @ '' (is the VM running?)'')
             (show_u16 (ve_qmp_host_port v) # args)), s1)))"

end
