(* ===== verification/Node_Ops.thy ===== *)
theory Node_Ops imports Node begin

text \<open>
  The second part of the commands of \<^verbatim>\<open>qemu-center/src/main.rs\<close>: deletion, snapshots, clones, the creation
  of redroid instances under an execution grant, and the listing of the ADB serials.
\<close>

section \<open>vm delete\<close>

fun remove_keys :: "host \<Rightarrow> path list \<Rightarrow> sys \<Rightarrow> (message + unit) \<times> sys" where
  "remove_keys h [] s = (Inr (), s)"
| "remove_keys h (key # keys) s = (case remove_file h key s of
     (Inr _, s1) \<Rightarrow> remove_keys h keys s1
   | (Inl NotFound, s1) \<Rightarrow> remove_keys h keys s1
   | (Inl e, s1) \<Rightarrow> (Inl (Message ''remove {}: {}'' [display (ho_sep h) key, io_text e]), s1))"

definition purge_vm_artifacts :: "host \<Rightarrow> path \<Rightarrow> string \<Rightarrow> sys \<Rightarrow> (message + unit) \<times> sys" where
  "purge_vm_artifacts h state_dir name s =
    (let dir = vm_dir state_dir name; keys = [vm_ssh_key_path state_dir name, vm_ssh_key_pub_path state_dir name] in
     case remove_dir_all h dir s of
       (Inr _, s1) \<Rightarrow> remove_keys h keys s1
     | (Inl NotFound, s1) \<Rightarrow> remove_keys h keys s1
     | (Inl e, s1) \<Rightarrow> (Inl (Message ''remove {}: {}'' [display (ho_sep h) dir, io_text e]), s1))"

definition delete_check :: "host \<Rightarrow> path \<Rightarrow> vm_entry \<Rightarrow> string \<Rightarrow> files \<Rightarrow> message + unit" where
  "delete_check h state_dir v name fs =
    (let liveness = probe_vm_liveness h (ve_qmp_host_port v) in
     if liveness = Unknown
     then (let pid = (case read_to_string h (vm_pid_path state_dir name) fs of Inr value \<Rightarrow> parse_u32 (trim value) | Inl _ \<Rightarrow> None);
               process_alive = (case pid of None \<Rightarrow> None | Some p \<Rightarrow> (case ho_pid_alive h p of Inr b \<Rightarrow> Some b | Inl _ \<Rightarrow> None))
           in delete_plan_with_shutdown_proof liveness (pid \<noteq> None) process_alive (ho_port_free h (ve_qmp_host_port v)))
     else delete_plan liveness)"

definition cmd_vm_delete :: "build \<Rightarrow> host \<Rightarrow> path \<Rightarrow> string \<Rightarrow> bool \<Rightarrow> sys \<Rightarrow> exit \<times> sys" where
  "cmd_vm_delete bd h state_dir name purge s =
    try_exit (load_registry (bd_codec bd) h state_dir (sy_files s), s) (\<lambda>reg s.
    case registry_get name reg of
      None \<Rightarrow> (err_exit (Message ''VM {:?} not registered'' [name]), s)
    | Some v \<Rightarrow>
    (case delete_check h state_dir v name (sy_files s) of
       Inl (Message f args) \<Rightarrow> (err_exit (Message (''refusing to delete {}: '' @ f) (name # args)), s)
     | Inr _ \<Rightarrow>
       try_exit (save_registry (bd_codec bd) h state_dir (reg\<lparr>rg_vms := filter (\<lambda>u. ve_name u \<noteq> name) (rg_vms reg)\<rparr>) s) (\<lambda>_ s.
       if purge then try_exit (purge_vm_artifacts h state_dir name s) (\<lambda>_ s. (exit_ok, s))
       else (exit_ok, snd (remove_file h (vm_pid_path state_dir name) s)))))"

section \<open>vm snapshot and restore\<close>

definition register_snapshot :: "build \<Rightarrow> host \<Rightarrow> path \<Rightarrow> registry \<Rightarrow> string \<Rightarrow> string \<Rightarrow> sys \<Rightarrow> (message + unit) \<times> sys" where
  "register_snapshot bd h state_dir reg name tag s =
    (case registry_get name reg of
       None \<Rightarrow> (Inl (text_message ''VM disappeared from registry''), s)
     | Some _ \<Rightarrow> save_registry (bd_codec bd) h state_dir
         (registry_update name (\<lambda>u. if tag \<in> set (ve_snapshots u) then u
            else u\<lparr>ve_snapshots := ve_snapshots u @ [tag]\<rparr>) reg) s)"

definition cmd_vm_snapshot :: "build \<Rightarrow> host \<Rightarrow> path \<Rightarrow> string \<Rightarrow> string \<Rightarrow> sys \<Rightarrow> exit \<times> sys" where
  "cmd_vm_snapshot bd h state_dir name tag s =
    try_exit (validate_snapshot_tag tag, s) (\<lambda>_ s.
    try_exit (load_registry (bd_codec bd) h state_dir (sy_files s), s) (\<lambda>reg s.
    case registry_get name reg of
      None \<Rightarrow> (err_exit (Message ''VM {:?} not registered'' [name]), s)
    | Some v \<Rightarrow>
    (case discover_qemu_img_with h (Some state_dir) (sy_files s) of
       None \<Rightarrow> (err_exit (text_message ''qemu-img not found''), s)
     | Some bin \<Rightarrow>
     (case snapshot_plan_for (probe_vm_liveness h (ve_qmp_host_port v)) True of
        Skip why \<Rightarrow> (err_exit (Message ''refusing to snapshot {}: {}'' [name, why]), s)
      | QmpInternal \<Rightarrow>
        (case device_for_disk (bd_json bd) h (ve_qmp_host_port v) (display (ho_sep h) (ve_disk v)) s of
           (Inl e, s1) \<Rightarrow> (err_exit (text_message ''cannot address the live disk over QMP: no qemu-img write was attempted''), s1)
         | (Inr device, s1) \<Rightarrow>
           (case internal_snapshot (bd_json bd) h (ve_qmp_host_port v) device tag s1 of
              (Inl e, s2) \<Rightarrow> (err_exit (text_message ''QMP internal snapshot failed: no qemu-img write was attempted''), s2)
            | (Inr _, s2) \<Rightarrow> try_exit (register_snapshot bd h state_dir reg name tag s2) (\<lambda>_ s. (exit_ok, s))))
      | QemuImg \<Rightarrow>
        (case run_command h (qemu_img_snapshot_create (ho_sep h) (display (ho_sep h) bin) (ve_disk v) tag) s of (out, s1) \<Rightarrow>
         if \<not> ro_success out then (err_exit (Message ''qemu-img snapshot failed: {}'' [stderr_last_line out]), s1)
         else try_exit (register_snapshot bd h state_dir reg name tag s1) (\<lambda>_ s. (exit_ok, s)))))))"

definition cmd_vm_restore :: "build \<Rightarrow> host \<Rightarrow> path \<Rightarrow> string \<Rightarrow> string \<Rightarrow> sys \<Rightarrow> exit \<times> sys" where
  "cmd_vm_restore bd h state_dir name tag s =
    try_exit (validate_snapshot_tag tag, s) (\<lambda>_ s.
    try_exit (load_registry (bd_codec bd) h state_dir (sy_files s), s) (\<lambda>reg s.
    case registry_get name reg of
      None \<Rightarrow> (err_exit (Message ''VM {:?} not registered'' [name]), s)
    | Some v \<Rightarrow>
    (case snapshot_plan_for (probe_vm_liveness h (ve_qmp_host_port v)) True of
       QmpInternal \<Rightarrow> (err_exit (Message ''VM {} is running: run vm stop first'' [name]), s)
     | Skip why \<Rightarrow> (err_exit (Message ''refusing to restore {}: {}'' [name, why]), s)
     | QemuImg \<Rightarrow>
       if tag \<notin> set (ve_snapshots v)
       then (err_exit (Message ''snapshot {:?} is not registered on VM {:?} (create it with `vm snapshot`)'' [tag, name]), s)
       else (case discover_qemu_img_with h (Some state_dir) (sy_files s) of
          None \<Rightarrow> (err_exit (text_message ''qemu-img not found''), s)
        | Some bin \<Rightarrow>
          (case run_command h (qemu_img_snapshot_apply (ho_sep h) (display (ho_sep h) bin) (ve_disk v) tag) s of (out, s1) \<Rightarrow>
           if ro_success out then (exit_ok, s1)
           else (err_exit (Message ''qemu-img restore failed (is the VM stopped?): {}'' [stderr_last_line out]), s1))))))"

section \<open>vm clone\<close>

definition harden_private_key_permissions :: "host \<Rightarrow> path \<Rightarrow> sys \<Rightarrow> (message + unit) \<times> sys" where
  "harden_private_key_permissions h p s =
    (if ho_windows h
     then (case run_command h [''whoami''] s of (who, s1) \<Rightarrow>
       if \<not> ro_success who then (Inl (Message ''whoami failed: {}'' [stderr_last_line who]), s1)
       else (case find (\<lambda>l. l \<noteq> []) (map trim (lines (ro_stdout who))) of
          None \<Rightarrow> (Inl (text_message ''whoami returned no principal''), s1)
        | Some account \<Rightarrow>
          if length (split_whitespace account) > 1
          then (Inl (text_message ''whoami returned an invalid principal''), s1)
          else (case run_command h [''icacls'', display (ho_sep h) p, ''/inheritance:r'', ''/grant:r'',
                  ''*S-1-5-18:F'', ''*S-1-5-32-544:F'', account @ '':F''] s1 of (out, s2) \<Rightarrow>
            if ro_success out then (Inr (), s2)
            else (Inl (Message ''icacls failed: {}'' [stderr_last_line out]), s2))))
     else (case ho_io h ''set_permissions'' p of
         Some e \<Rightarrow> (Inl (text_message e), s)
       | None \<Rightarrow> (Inr (), s)))"

definition copy_clone_ssh_identity :: "host \<Rightarrow> path \<Rightarrow> string \<Rightarrow> string \<Rightarrow> sys \<Rightarrow> (message + unit) \<times> sys" where
  "copy_clone_ssh_identity h state_dir source_name clone_name s =
    (let src0 = vm_ssh_key_path state_dir source_name; dst0 = vm_ssh_key_path state_dir clone_name;
         src1 = vm_ssh_key_pub_path state_dir source_name; dst1 = vm_ssh_key_pub_path state_dir clone_name in
     case find (\<lambda>d. path_exists (sy_files s) d) [dst0, dst1] of
       Some d \<Rightarrow> (Inl (Message ''refusing to overwrite existing clone SSH key {}'' [display (ho_sep h) d]), s)
     | None \<Rightarrow> (case find (\<lambda>p. \<not> is_file (sy_files s) p) [src0, src1] of
         Some p \<Rightarrow> (Inl (Message ''source VM SSH key is missing: {}'' [display (ho_sep h) p]), s)
       | None \<Rightarrow> (case fs_copy h src0 dst0 s of
           (Inl e, s1) \<Rightarrow> (Inl (Message ''copy source VM SSH private key to {} failed: {}'' [display (ho_sep h) dst0, io_text e]), s1)
         | (Inr _, s1) \<Rightarrow> (case harden_private_key_permissions h dst0 s1 of
             (Inl (Message f args), s2) \<Rightarrow>
               (Inl (Message (''secure cloned VM SSH private key {} failed: '' @ f) (display (ho_sep h) dst0 # args)),
                snd (remove_file h dst0 s2))
           | (Inr _, s2) \<Rightarrow> (case fs_copy h src1 dst1 s2 of
               (Inl e, s3) \<Rightarrow> (Inl (Message ''copy source VM SSH public key to {} failed: {}'' [display (ho_sep h) dst1, io_text e]),
                  snd (remove_file h dst1 (snd (remove_file h dst0 s3))))
             | (Inr _, s3) \<Rightarrow> (Inr (), s3))))))"

definition cmd_vm_clone :: "build \<Rightarrow> host \<Rightarrow> path \<Rightarrow> string \<Rightarrow> string \<Rightarrow> sys \<Rightarrow> exit \<times> sys" where
  "cmd_vm_clone bd h state_dir name new_name s =
    try_exit (validate_vm_name new_name, s) (\<lambda>_ s.
    try_exit (load_registry (bd_codec bd) h state_dir (sy_files s), s) (\<lambda>reg s.
    if registry_contains new_name reg then (err_exit (Message ''VM {:?} already exists'' [new_name]), s)
    else case registry_get name reg of
      None \<Rightarrow> (err_exit (Message ''VM {:?} not registered'' [name]), s)
    | Some src \<Rightarrow>
    (case clone_plan (probe_vm_liveness h (ve_qmp_host_port src)) of
       Inl (Message f args) \<Rightarrow> (err_exit (Message (''refusing to clone {}: '' @ f) (name # args)), s)
     | Inr _ \<Rightarrow>
    (case discover_qemu_img_with h (Some state_dir) (sy_files s) of
       None \<Rightarrow> (err_exit (text_message ''qemu-img not found''), s)
     | Some bin \<Rightarrow>
    (let clone_dir = vm_dir state_dir new_name; clone_disk = vm_disk_path state_dir new_name in
     if path_exists (sy_files s) clone_dir
     then (err_exit (Message ''refusing to clone into existing VM artifact directory {}'' [display (ho_sep h) clone_dir]), s)
     else (case create_dir_all h clone_dir s of
       (Inl e, s) \<Rightarrow> (err_exit (Message ''cannot create clone directory {}: {}'' [display (ho_sep h) clone_dir, io_text e]), s)
     | (Inr _, s) \<Rightarrow>
     (case run_command h (qemu_img_create_overlay (ho_sep h) (display (ho_sep h) bin) clone_disk (ve_disk src) None) s of (out, s) \<Rightarrow>
      if \<not> ro_success out
      then (err_exit (Message ''qemu-img clone failed: {}'' [stderr_last_line out]), snd (remove_dir_all h clone_dir s))
      else (case copy_clone_ssh_identity h state_dir name new_name s of
        (Inl (Message f args), s) \<Rightarrow>
          (err_exit (Message (''cannot prepare clone SSH identity: '' @ f) args), snd (remove_dir_all h clone_dir s))
      | (Inr _, s) \<Rightarrow>
      (case allocate_vm_ports (bd_overflow_checks bd) reg None DEFAULT_ADB_PORT_BASE
              (of_nat (max (length (ve_adb_ports src)) 1)) of
         PortsPanic \<Rightarrow> (panic_exit, s)
       | PortsErr m \<Rightarrow> (err_exit m, snd (purge_vm_artifacts h state_dir new_name s))
       | PortsOk (ssh_port, qmp_port, adb_ports) \<Rightarrow>
         (let v = \<lparr>ve_name = new_name, ve_base_image = None, ve_disk = clone_disk, ve_vcpus = ve_vcpus src,
                   ve_mem_mib = ve_mem_mib src, ve_accel = ve_accel src, ve_ssh_host_port = ssh_port,
                   ve_qmp_host_port = qmp_port, ve_adb_ports = adb_ports, ve_adb_assignments = [], ve_snapshots = [],
                   ve_created_at_unix = ho_now h, ve_cloud_init = ve_cloud_init src,
                   ve_redroid_image = ve_redroid_image src\<rparr> in
          case save_registry (bd_codec bd) h state_dir (reg\<lparr>rg_vms := rg_vms reg @ [v]\<rparr>) s of
            (Inl m, s) \<Rightarrow> (err_exit m, snd (purge_vm_artifacts h state_dir new_name s))
          | (Inr _, s) \<Rightarrow> (exit_ok, s)))))))))))"

section \<open>Guest commands\<close>

definition get_vm :: "build \<Rightarrow> host \<Rightarrow> path \<Rightarrow> string \<Rightarrow> files \<Rightarrow> message + vm_entry" where
  "get_vm bd h state_dir name fs =
    and_then (load_registry (bd_codec bd) h state_dir fs) (\<lambda>reg.
      case registry_get name reg of Some v \<Rightarrow> Inr v | None \<Rightarrow> Inl (Message ''VM {:?} not registered'' [name]))"

definition cmd_guest_provision :: "build \<Rightarrow> host \<Rightarrow> path \<Rightarrow> string \<Rightarrow> sys \<Rightarrow> exit \<times> sys" where
  "cmd_guest_provision bd h state_dir name s =
    try_exit (get_vm bd h state_dir name (sy_files s), s) (\<lambda>v s.
    case run_command h (ssh_cmd_for h state_dir v render_provision_script) s of (out, s) \<Rightarrow>
      if \<not> str_contains (ro_stdout out) PROVISION_DONE_MARKER
      then (err_exit (Message ''provision did not complete: {}'' [stderr_last_line out]), s)
      else (case run_command h (ssh_cmd_for h state_dir v render_readiness_script) s of (out, s) \<Rightarrow>
        if judge_readiness_line (ro_stdout out) ''BINDERFS'' = Ok \<and> judge_readiness_line (ro_stdout out) ''DOCKER'' = Ok
        then (exit_ok, s)
        else ((1, Some (text_message ''guest is NOT fully ready'')), s)))"

definition cmd_redroid_lifecycle :: "build \<Rightarrow> host \<Rightarrow> path \<Rightarrow> string \<Rightarrow> string \<Rightarrow> string \<Rightarrow> sys \<Rightarrow> exit \<times> sys" where
  "cmd_redroid_lifecycle bd h state_dir vm_name inst action s =
    try_exit (get_vm bd h state_dir vm_name (sy_files s), s) (\<lambda>v s.
    if action \<noteq> ''start'' \<and> action \<noteq> ''stop'' then (err_exit (text_message ''action must be start|stop''), s)
    else (case guest_docker h state_dir v (docker_lifecycle_args action inst) s of (out, s) \<Rightarrow>
      if ro_success out then (exit_ok, s)
      else (err_exit (Message ''docker {} failed: {}'' [action, stderr_last_line out]), s)))"

section \<open>redroid create\<close>

definition bind_ok :: "string \<Rightarrow> bool" where
  "bind_ok b = (let parts = split_char (CHR '':'') b in
     length parts = 3 \<and> starts_with (parts ! 0) ''/'' \<and> starts_with (parts ! 1) ''/'' \<and> parts ! 2 = ''ro''
     \<and> \<not> list_ex (\<lambda>c. c = CHR '','' \<or> c = CHR 0x0A \<or> c = CHR 0x0D) b)"

text \<open>What the command line gives to \<^verbatim>\<open>redroid create\<close>.\<close>

record redroid_args =
  ra_vm :: string
  ra_name :: string
  ra_grant_file :: path
  ra_authorization_file :: string
  ra_cpus :: "f64 option"
  ra_memory :: "u32 option"
  ra_profile :: string
  ra_width :: u32
  ra_height :: u32
  ra_dpi :: u32
  ra_gpu_mode :: string
  ra_image :: "string option"
  ra_binds :: "string list"
  ra_cgroup_parent :: "string option"

definition running_instances :: "host \<Rightarrow> path \<Rightarrow> vm_entry \<Rightarrow> sys \<Rightarrow> u32 \<times> sys" where
  "running_instances h state_dir v s =
    (let registered = (of_nat (length (ve_adb_assignments v)) :: u32) in
     case guest_docker h state_dir v docker_ps_args s of (live, s1) \<Rightarrow>
       (if ro_success live
        then (case parse_running_redroid_count (ro_stdout live) of Inr n \<Rightarrow> n | Inl _ \<Rightarrow> registered)
        else registered, s1))"

text \<open>The part of \<^verbatim>\<open>redroid create\<close> after the grant was verified and its receipt consumed.\<close>

definition create_instance ::
    "build \<Rightarrow> host \<Rightarrow> path \<Rightarrow> redroid_args \<Rightarrow> gpu_mode \<Rightarrow> resource_profile \<Rightarrow> registry \<Rightarrow> vm_entry \<Rightarrow> sys \<Rightarrow> exit \<times> sys" where
  "create_instance bd h state_dir ra gpu profile reg v s =
    (let inst = ra_name ra in
     try_exit (resolve_instance_resources profile (ve_vcpus v) (ve_mem_mib v) (ra_cpus ra) (ra_memory ra), s) (\<lambda>(cpus, memory) s.
     if inst \<in> fst ` set (ve_adb_assignments v)
     then (err_exit (Message ''instance {:?} already assigned on VM {:?}'' [inst, ra_vm ra]), s)
     else (case running_instances h state_dir v s of (running, s) \<Rightarrow>
     if is_err (validate_resource_budget (ve_mem_mib v) memory (saturating_add_u32 running 1))
     then (err_exit (Message ''resource profile {} cannot fit this VM'' [profile_as_str profile]), s)
     else (case next_free_adb_port v of
       None \<Rightarrow> (err_exit (Message ''VM {:?} adb block exhausted ({} ports)'' [ra_vm ra, dec_string (length (ve_adb_ports v))]), s)
     | Some port \<Rightarrow>
       (let img = (case ra_image ra of Some i \<Rightarrow> i | None \<Rightarrow> default_redroid_image) in
        try_exit (validate_image_ref img, s) (\<lambda>_ s.
        let spec = \<lparr>rs_name = inst, rs_adb_port = port, rs_cpus = cpus, rs_memory_mib = memory, rs_width = ra_width ra,
                    rs_height = ra_height ra, rs_dpi = ra_dpi ra, rs_gpu_mode = gpu, rs_image = img\<rparr> in
        (case guest_docker h state_dir v (docker_volume_create_args inst) s of (vol, s) \<Rightarrow>
        (case guest_docker h state_dir v (redroid_create_args_with_mounts (bd_show_f64 bd) spec (ra_binds ra) (ra_cgroup_parent ra)) s of (run, s) \<Rightarrow>
         if \<not> ro_success run then (err_exit (Message ''docker run failed in guest: {}'' [stderr_last_line run]), s)
         else
         try_exit (save_registry (bd_codec bd) h state_dir
             (registry_update (ra_vm ra) (\<lambda>u. u\<lparr>ve_adb_assignments := btree_insert inst port (ve_adb_assignments u)\<rparr>) reg) s) (\<lambda>_ s.
         (exit_ok, s))))))))))"

definition cmd_redroid_create :: "build \<Rightarrow> host \<Rightarrow> path \<Rightarrow> redroid_args \<Rightarrow> sys \<Rightarrow> exit \<times> sys" where
  "cmd_redroid_create bd h state_dir ra s =
    try_exit (verify_execution_grant_file (bd_crates bd) (bd_serde bd) (bd_keys bd) h (sy_files s)
        (ra_grant_file ra) (ra_vm ra) (ra_name ra), s) (\<lambda>claims s.
    try_exit (validate_execution_authorization_path (ra_authorization_file ra), s) (\<lambda>_ s.
    if \<not> list_all bind_ok (ra_binds ra)
    then (err_exit (text_message ''bind must be an absolute guest source:target:ro without commas/newlines''), s)
    else try_exit (validate_instance_name (ra_name ra), s) (\<lambda>_ s.
    case parse_gpu_mode (ra_gpu_mode ra) of
      None \<Rightarrow> (err_exit (text_message ''gpu-mode must be guest or host''), s)
    | Some gpu \<Rightarrow>
    try_exit (resource_profile_parse (ra_profile ra), s) (\<lambda>profile s.
    try_exit (load_registry (bd_codec bd) h state_dir (sy_files s), s) (\<lambda>reg s.
    case registry_get (ra_vm ra) reg of
      None \<Rightarrow> (err_exit (Message ''VM {:?} not registered'' [ra_vm ra]), s)
    | Some v \<Rightarrow>
    (case run_command h (ssh_cmd_for h state_dir v (cmd_execution_authorization_check (ra_authorization_file ra))) s of (authorization, s) \<Rightarrow>
     if \<not> ro_success authorization
     then (err_exit (text_message ''execution grant has not completed the online guest authorization preflight''), s)
     else (case bd_keys bd of
       None \<Rightarrow> (err_exit (text_message
         ''qemu-center was built without RDC_AUTH_PUBLIC_KEYS; protected redroid creation is disabled''), s)
     | Some key_ring \<Rightarrow>
     (case verify_execution_authorization_receipt_with_keys (bd_crates bd) (bd_serde bd) (ro_stdout authorization) claims
             (unix_now h) key_ring of
        Inl (Message f args) \<Rightarrow> (err_exit (Message (''execution authorization receipt was rejected: '' @ f) args), s)
      | Inr _ \<Rightarrow>
        try_exit (consume_execution_receipt_once (bd_crates bd) h state_dir (eg_jti claims) s) (\<lambda>_ s.
        create_instance bd h state_dir ra gpu profile reg v s)))))))))"

section \<open>adb list\<close>

definition adb_rows :: "registry \<Rightarrow> (string \<times> string \<times> string) list" where
  "adb_rows reg = concat (map (\<lambda>v. map (\<lambda>(n, p). (adb_serial p, ve_name v, n)) (ve_adb_assignments v)) (rg_vms reg))"

definition adb_map_rows :: "vm_entry \<Rightarrow> string option \<Rightarrow> (string \<times> string) list" where
  "adb_map_rows v inst = map (\<lambda>(n, p). (adb_serial p, n))
     (filter (\<lambda>(n, _). case inst of Some i \<Rightarrow> n = i | None \<Rightarrow> True) (ve_adb_assignments v))"

end
