(* ===== verification/Node_Stats.thy ===== *)
theory Node_Stats imports Node_Ops begin

text \<open>
  The remaining commands of \<^verbatim>\<open>qemu-center/src/main.rs\<close> over a registered node: the runtime statistics of the
  redroid containers and the memory reclaim that is planned from them, the listings, and the wait for
  the guest, which polls the host until it answers or the deadline has passed.
\<close>

section \<open>Reading the statistics\<close>

definition as_i64 :: "jvalue \<Rightarrow> int option" where
  "as_i64 v = (case v of JNum i \<Rightarrow> if - 9223372036854775808 \<le> i \<and> i < 9223372036854775808 then Some i else None | _ \<Rightarrow> None)"

definition optional_u64 :: "jvalue option \<Rightarrow> u64 option" where
  "optional_u64 value = Option.bind value (\<lambda>v. case as_u64 v of
     Some n \<Rightarrow> Some n
   | None \<Rightarrow> (case as_i64 v of Some n \<Rightarrow> if 0 \<le> n then Some (of_int n) else None | None \<Rightarrow> None))"

definition optional_metric :: "string \<Rightarrow> u64 option" where
  "optional_metric raw = (let value = trim raw in
     if value = [] \<or> value = ''max'' then None else parse_u64 value)"

text \<open>The four maps that the loop over the lines fills, each a \<^verbatim>\<open>BTreeMap\<close> by container identifier.\<close>

record stats_maps =
  sm_rows :: "(string \<times> redroid_runtime_stats) list"
  sm_cgroups :: "(string \<times> (u64 option \<times> u64 option \<times> u64 option)) list"
  sm_cpus :: "(string \<times> f64 option) list"
  sm_boots :: "(string \<times> bool option) list"

definition inspect_row :: "jvalue \<Rightarrow> message + (string \<times> redroid_runtime_stats) option" where
  "inspect_row value =
    (case Option.bind (jget ''Id'' value) as_text of
       None \<Rightarrow> Inl (text_message ''Docker inspect row has no Id'')
     | Some cid \<Rightarrow>
       if cid = [] then Inl (text_message ''Docker inspect row has no Id'')
       else (let container = trim_start_char (CHR ''/'')
                   (case Option.bind (jget ''Name'' value) as_text of Some n \<Rightarrow> n | None \<Rightarrow> []) in
         case strip_prefix ''qc-'' container of
           None \<Rightarrow> Inr None
         | Some inst \<Rightarrow> Inr (Some (cid,
             \<lparr>rt_instance = inst, rt_container = container,
              rt_status = (case Option.bind (pointer [''State'', ''Status''] value) as_text of Some s \<Rightarrow> s | None \<Rightarrow> ''unknown''),
              rt_memory_limit_bytes = (case optional_u64 (pointer [''HostConfig'', ''Memory''] value) of
                 Some l \<Rightarrow> if l > 0 then Some l else None | None \<Rightarrow> None),
              rt_memory_current_bytes = None, rt_memory_peak_bytes = None, rt_oom_kills = None,
              rt_cpu_usage_percent = None, rt_boot_completed = None\<rparr>))))"

definition id_and_value :: "string \<Rightarrow> string \<times> string" where
  "id_and_value fs = (case split_once [CHR 0x09] fs of Some (i, v) \<Rightarrow> (i, v) | None \<Rightarrow> (fs, []))"

definition stats_line :: "json_lib \<Rightarrow> (string \<Rightarrow> f64 option) \<Rightarrow> string \<Rightarrow> stats_maps \<Rightarrow> message + stats_maps" where
  "stats_line jl parse_f64 l m =
    (case strip_prefix (''QC_INSPECT'' @ [CHR 0x09]) l of
       Some json \<Rightarrow>
         and_then (map_err (\<lambda>e. Message ''invalid Docker inspect row: {}'' [e]) (jl_parse jl json)) (\<lambda>value.
         and_then (inspect_row value) (\<lambda>r. case r of
             None \<Rightarrow> Inr m
           | Some (cid, row) \<Rightarrow> Inr (m\<lparr>sm_rows := btree_insert cid row (sm_rows m)\<rparr>)))
     | None \<Rightarrow> (case strip_prefix (''QC_CGROUP'' @ [CHR 0x09]) l of
       Some fs \<Rightarrow> (let (cid, value) = id_and_value fs; values = split_char (CHR ''|'') value in
         Inr (if length values = 3
              then m\<lparr>sm_cgroups := btree_insert cid
                 (optional_metric (values ! 0), optional_metric (values ! 1), optional_metric (values ! 2)) (sm_cgroups m)\<rparr>
              else m))
     | None \<Rightarrow> (case strip_prefix (''QC_CPU'' @ [CHR 0x09]) l of
       Some fs \<Rightarrow> (let (cid, value) = id_and_value fs in
         Inr (m\<lparr>sm_cpus := btree_insert cid
            (case parse_f64 (trim value) of Some (Finite q) \<Rightarrow> if q \<ge> 0 then Some (Finite q) else None | _ \<Rightarrow> None) (sm_cpus m)\<rparr>))
     | None \<Rightarrow> (case strip_prefix (''QC_BOOT'' @ [CHR 0x09]) l of
       Some fs \<Rightarrow> (let (cid, value) = id_and_value fs; v = trim value in
         Inr (m\<lparr>sm_boots := btree_insert cid
            (if v = ''1'' then Some True else if v = ''0'' then Some False else None) (sm_boots m)\<rparr>))
     | None \<Rightarrow> Inr m))))"

fun stats_lines :: "json_lib \<Rightarrow> (string \<Rightarrow> f64 option) \<Rightarrow> string list \<Rightarrow> stats_maps \<Rightarrow> message + stats_maps" where
  "stats_lines jl parse_f64 [] m = Inr m"
| "stats_lines jl parse_f64 (l # ls) m = and_then (stats_line jl parse_f64 l m) (stats_lines jl parse_f64 ls)"

definition metric_for_id :: "(string \<times> 'v) list \<Rightarrow> string \<Rightarrow> 'v option" where
  "metric_for_id metrics cid = (case map_of metrics cid of
     Some v \<Rightarrow> Some v
   | None \<Rightarrow> map_option snd (find (\<lambda>(metric_id, v). starts_with cid metric_id \<or> starts_with metric_id cid) metrics))"

definition join_metrics :: "stats_maps \<Rightarrow> string \<times> redroid_runtime_stats \<Rightarrow> redroid_runtime_stats" where
  "join_metrics m = (\<lambda>(cid, row).
    (let row1 = (case metric_for_id (sm_cgroups m) cid of
           Some (current, peak, oom) \<Rightarrow> row\<lparr>rt_memory_current_bytes := current, rt_memory_peak_bytes := peak, rt_oom_kills := oom\<rparr>
         | None \<Rightarrow> row);
         row2 = (case metric_for_id (sm_cpus m) cid of Some cpu \<Rightarrow> row1\<lparr>rt_cpu_usage_percent := cpu\<rparr> | None \<Rightarrow> row1)
     in (case metric_for_id (sm_boots m) cid of Some boot \<Rightarrow> row2\<lparr>rt_boot_completed := boot\<rparr> | None \<Rightarrow> row2)))"

definition parse_guest_redroid_stats :: "json_lib \<Rightarrow> (string \<Rightarrow> f64 option) \<Rightarrow> string \<Rightarrow> message + redroid_runtime_stats list" where
  "parse_guest_redroid_stats jl parse_f64 raw =
    and_then (stats_lines jl parse_f64 (lines raw) \<lparr>sm_rows = [], sm_cgroups = [], sm_cpus = [], sm_boots = []\<rparr>)
      (\<lambda>m. Inr (map (join_metrics m) (sm_rows m)))"

text \<open>The row that stands for an instance of the registry which the guest did not report.\<close>

definition unknown_row :: "string \<Rightarrow> redroid_runtime_stats" where
  "unknown_row name = \<lparr>rt_instance = name, rt_container = container_name name, rt_status = ''unknown'',
     rt_memory_limit_bytes = None, rt_memory_current_bytes = None, rt_memory_peak_bytes = None,
     rt_oom_kills = None, rt_cpu_usage_percent = None, rt_boot_completed = None\<rparr>"

fun add_missing_rows :: "string option \<Rightarrow> string list \<Rightarrow> redroid_runtime_stats list \<Rightarrow> redroid_runtime_stats list" where
  "add_missing_rows inst [] rows = rows"
| "add_missing_rows inst (name # names) rows =
    (if (case inst of Some wanted \<Rightarrow> wanted \<noteq> name | None \<Rightarrow> False) then add_missing_rows inst names rows
     else if list_ex (\<lambda>row. rt_instance row = name) rows then add_missing_rows inst names rows
     else add_missing_rows inst names (rows @ [unknown_row name]))"

text \<open>\<^verbatim>\<open>sort_by\<close> on the instance name, which is stable.\<close>

fun insert_row :: "redroid_runtime_stats \<Rightarrow> redroid_runtime_stats list \<Rightarrow> redroid_runtime_stats list" where
  "insert_row r [] = [r]"
| "insert_row r (x # xs) = (if str_less (rt_instance x) (rt_instance r) then x # insert_row r xs else r # x # xs)"

definition sort_rows :: "redroid_runtime_stats list \<Rightarrow> redroid_runtime_stats list" where
  "sort_rows rows = foldr insert_row rows []"

definition load_guest_redroid_stats ::
    "build \<Rightarrow> (string \<Rightarrow> f64 option) \<Rightarrow> host \<Rightarrow> path \<Rightarrow> vm_entry \<Rightarrow> string option \<Rightarrow> sys
      \<Rightarrow> (message + redroid_runtime_stats list) \<times> sys" where
  "load_guest_redroid_stats bd parse_f64 h state_dir v inst s =
    (case run_command h (ssh_cmd_for h state_dir v (cmd_redroid_stats inst)) s of (out, s1) \<Rightarrow>
      (if \<not> ro_success out then Inl (Message ''guest command failed: {}'' [stderr_last_line out])
       else and_then (parse_guest_redroid_stats (bd_json bd) parse_f64 (ro_stdout out)) (\<lambda>rows.
         Inr (sort_rows (add_missing_rows inst (map fst (ve_adb_assignments v)) rows))), s1))"

section \<open>vm memory-reclaim\<close>

primrec memory_reclaim_liveness_error :: "vm_liveness \<Rightarrow> message option" where
  "memory_reclaim_liveness_error Running = None"
| "memory_reclaim_liveness_error Stopped = Some (text_message ''VM is stopped; start it before reclaiming guest memory'')"
| "memory_reclaim_liveness_error Unknown = Some (text_message ''VM liveness is unknown; refusing to send a balloon command'')"

definition format_memory_reclaim_summary :: "u32 \<Rightarrow> reclaim_plan \<Rightarrow> u64 \<Rightarrow> message + message" where
  "format_memory_reclaim_summary node_mem_mib plan actual_bytes =
    (case plan of
       Noop reason \<Rightarrow> Inr (Message ''memory reclaim skipped: {}'' [reason])
     | UnknownMetrics inst \<Rightarrow> Inl (Message
         ''memory reclaim refused: runtime metrics for active or unknown instance {:?} are incomplete'' [inst])
     | Reclaim target_mib used_mib active_instances \<Rightarrow>
       (let max_bytes = (ucast node_mem_mib :: u64) * 1048576 in
        if actual_bytes = 0 \<or> actual_bytes > max_bytes
        then Inl (Message
          ''memory reclaim verification returned an invalid actual value: {} bytes for a {} MiB node''
          [dec_string (unat actual_bytes), show_u32 node_mem_mib])
        else (let actual_mib = saturating_add_u64 actual_bytes 1048575 div 1048576;
                  reclaimed_mib = (if ucast node_mem_mib \<le> actual_mib then 0 else ucast node_mem_mib - actual_mib) in
          Inr (Message
            ''memory reclaim verified: target={} MiB actual={} MiB reclaimed={} MiB used={} MiB active={}''
            [show_u32 target_mib, dec_string (unat actual_mib), dec_string (unat reclaimed_mib),
             show_u32 used_mib, show_u32 active_instances]))))"

definition cmd_vm_memory_reclaim :: "build \<Rightarrow> (string \<Rightarrow> f64 option) \<Rightarrow> host \<Rightarrow> path \<Rightarrow> string \<Rightarrow> sys \<Rightarrow> exit \<times> sys" where
  "cmd_vm_memory_reclaim bd parse_f64 h state_dir name s =
    try_exit (load_registry (bd_codec bd) h state_dir (sy_files s), s) (\<lambda>reg s.
    case registry_get name reg of
      None \<Rightarrow> (err_exit (Message ''VM {:?} not registered (run `vm create`)'' [name]), s)
    | Some v \<Rightarrow>
    (case memory_reclaim_liveness_error (probe_vm_liveness h (ve_qmp_host_port v)) of
       Some m \<Rightarrow> (err_exit m, s)
     | None \<Rightarrow>
    (case load_guest_redroid_stats bd parse_f64 h state_dir v None s of
       (Inl (Message f args), s) \<Rightarrow> (err_exit (Message (''memory reclaim stats failed: '' @ f) args), s)
     | (Inr rows, s) \<Rightarrow>
       (let plan = plan_memory_reclaim (ve_mem_mib v) rows in
        case plan of
          Reclaim target_mib _ _ \<Rightarrow>
            (case reclaim_memory (bd_json bd) h (ve_qmp_host_port v) target_mib s of
               (Inl _, s) \<Rightarrow> (err_exit (text_message ''memory reclaim failed''), s)
             | (Inr actual_bytes, s) \<Rightarrow>
               (case format_memory_reclaim_summary (ve_mem_mib v) plan actual_bytes of
                  Inr _ \<Rightarrow> (exit_ok, s)
                | Inl m \<Rightarrow> (err_exit m, s)))
        | _ \<Rightarrow> (case format_memory_reclaim_summary (ve_mem_mib v) plan 0 of
             Inr _ \<Rightarrow> (exit_ok, s)
           | Inl m \<Rightarrow> (err_exit m, s))))))"

section \<open>Listings\<close>

definition cmd_redroid_stats_rows ::
    "build \<Rightarrow> (string \<Rightarrow> f64 option) \<Rightarrow> host \<Rightarrow> path \<Rightarrow> string \<Rightarrow> string option \<Rightarrow> sys
      \<Rightarrow> (message + redroid_runtime_stats list) \<times> sys" where
  "cmd_redroid_stats_rows bd parse_f64 h state_dir vm_name inst s =
    (case (case inst of Some i \<Rightarrow> validate_instance_name i | None \<Rightarrow> Inr ()) of
       Inl m \<Rightarrow> (Inl m, s)
     | Inr _ \<Rightarrow> (case get_vm bd h state_dir vm_name (sy_files s) of
         Inl m \<Rightarrow> (Inl m, s)
       | Inr v \<Rightarrow> (case load_guest_redroid_stats bd parse_f64 h state_dir v inst s of
           (Inl (Message f args), s1) \<Rightarrow> (Inl (Message (''redroid stats failed: '' @ f) args), s1)
         | (Inr rows, s1) \<Rightarrow> (Inr rows, s1))))"

fun status_map :: "string list \<Rightarrow> (string \<times> string) list \<Rightarrow> (string \<times> string) list" where
  "status_map [] m = m"
| "status_map (l # ls) m = (case parse_docker_ps_line l of
     Some (name, status, _) \<Rightarrow> status_map ls (btree_insert name status m)
   | None \<Rightarrow> status_map ls m)"

text \<open>The columns instance, port, serial and status of \<^verbatim>\<open>redroid list\<close>.\<close>

definition cmd_redroid_list_rows ::
    "build \<Rightarrow> host \<Rightarrow> path \<Rightarrow> string \<Rightarrow> sys \<Rightarrow> (message + (string \<times> u16 \<times> string \<times> string) list) \<times> sys" where
  "cmd_redroid_list_rows bd h state_dir vm_name s =
    (case get_vm bd h state_dir vm_name (sy_files s) of
       Inl m \<Rightarrow> (Inl m, s)
     | Inr v \<Rightarrow> (case run_command h (ssh_cmd_for h state_dir v cmd_docker_ps_qc) s of (live, s1) \<Rightarrow>
         (let st = (if ro_success live then status_map (lines (ro_stdout live)) [] else []) in
          (Inr (map (\<lambda>(name, port). (name, port, adb_serial port,
             case map_of st (container_name name) of Some status \<Rightarrow> status
             | None \<Rightarrow> if ro_success live then ''not found'' else ''unknown (vm down?)'')) (ve_adb_assignments v)), s1))))"

section \<open>guest wait\<close>

text \<open>
  The host at the \<open>k\<close>-th poll is \<open>hs k\<close>, and \<open>past k\<close> says whether the deadline has passed after it. The
  loop returns the number of the poll that succeeded. It may run forever, so it is an option.
\<close>

partial_function (option) wait_loop :: "(nat \<Rightarrow> host) \<Rightarrow> (nat \<Rightarrow> bool) \<Rightarrow> string list \<Rightarrow> nat \<Rightarrow> sys \<Rightarrow> (nat option \<times> sys) option" where
  "wait_loop hs past argv k s =
    (case run_command (hs k) argv s of (out, s1) \<Rightarrow>
      if ro_success out then Some (Some k, s1)
      else if past k then Some (None, s1)
      else wait_loop hs past argv (k + 1) s1)"

definition cmd_guest_wait :: "build \<Rightarrow> (nat \<Rightarrow> host) \<Rightarrow> (nat \<Rightarrow> bool) \<Rightarrow> path \<Rightarrow> string \<Rightarrow> sys \<Rightarrow> (exit \<times> sys) option" where
  "cmd_guest_wait bd hs past state_dir name s =
    (case get_vm bd (hs 0) state_dir name (sy_files s) of
       Inl m \<Rightarrow> Some (err_exit m, s)
     | Inr v \<Rightarrow> Option.bind (wait_loop hs past (ssh_cmd_for (hs 0) state_dir v ''true'') 0 s) (\<lambda>r. case r of
         (None, s1) \<Rightarrow> Some (err_exit (text_message ''guest not reachable''), s1)
       | (Some k, s1) \<Rightarrow> Option.bind
           (wait_loop hs past (ssh_cmd_for (hs 0) state_dir v cmd_guest_bootstrap_ready) (k + 1) s1) (\<lambda>r. case r of
             (None, s2) \<Rightarrow> Some (err_exit (text_message ''guest SSH is reachable but provisioning was not ready''), s2)
           | (Some _, s2) \<Rightarrow> Some (exit_ok, s2))))"

section \<open>The command line\<close>

definition cmd_vm_list :: "build \<Rightarrow> host \<Rightarrow> path \<Rightarrow> sys \<Rightarrow> exit \<times> sys" where
  "cmd_vm_list bd h state_dir s =
    try_exit (load_registry (bd_codec bd) h state_dir (sy_files s), s) (\<lambda>_ s. (exit_ok, s))"

definition cmd_redroid_list :: "build \<Rightarrow> host \<Rightarrow> path \<Rightarrow> string \<Rightarrow> sys \<Rightarrow> exit \<times> sys" where
  "cmd_redroid_list bd h state_dir vm_name s =
    try_exit (cmd_redroid_list_rows bd h state_dir vm_name s) (\<lambda>_ s. (exit_ok, s))"

definition cmd_redroid_stats_command ::
    "build \<Rightarrow> (string \<Rightarrow> f64 option) \<Rightarrow> host \<Rightarrow> path \<Rightarrow> string \<Rightarrow> string option \<Rightarrow> sys \<Rightarrow> exit \<times> sys" where
  "cmd_redroid_stats_command bd parse_f64 h state_dir vm_name inst s =
    try_exit (cmd_redroid_stats_rows bd parse_f64 h state_dir vm_name inst s) (\<lambda>_ s. (exit_ok, s))"

definition cmd_adb_map :: "build \<Rightarrow> host \<Rightarrow> path \<Rightarrow> string \<Rightarrow> string option \<Rightarrow> sys \<Rightarrow> exit \<times> sys" where
  "cmd_adb_map bd h state_dir vm_name inst s =
    try_exit (get_vm bd h state_dir vm_name (sy_files s), s) (\<lambda>v s.
      if adb_map_rows v inst = []
      then (err_exit (Message ''no matching instance on VM {:?} (try `redroid list {vm_name}`)'' [vm_name]), s)
      else (exit_ok, s))"

definition cmd_adb_list :: "build \<Rightarrow> host \<Rightarrow> path \<Rightarrow> sys \<Rightarrow> exit \<times> sys" where
  "cmd_adb_list bd h state_dir s =
    try_exit (load_registry (bd_codec bd) h state_dir (sy_files s), s) (\<lambda>_ s. (exit_ok, s))"

text \<open>\<^verbatim>\<open>guest wait\<close>, which polls, is not among the commands of a session; it changes no file of the state directory itself.\<close>

datatype node_command =
    RunDoctor
  | SetupWhpx
  | SetupQemu bool
  | SetupImage string
  | SetupAll string
  | RunVerify "string option" "string option"
  | VmCreate string path u16 u32 u32 string "u16 option" u16 u16 string "string option" bool
  | VmStart string
  | VmSetMemory string u32
  | VmMemoryReclaim string
  | VmStop string
  | VmList
  | VmDelete string bool
  | VmSnapshot string string
  | VmRestore string string
  | VmClone string string
  | GuestProvision string
  | RedroidCreate redroid_args
  | RedroidStart string string
  | RedroidStop string string
  | RedroidList string
  | RedroidStats string "string option"
  | AdbMap string "string option"
  | AdbList

primrec node_main :: "build \<Rightarrow> (string \<Rightarrow> f64 option) \<Rightarrow> host \<Rightarrow> path \<Rightarrow> node_command \<Rightarrow> sys \<Rightarrow> exit \<times> sys" where
  "node_main bd pf h d RunDoctor = cmd_doctor h d"
| "node_main bd pf h d SetupWhpx = cmd_setup_whpx (bd_json bd) h d"
| "node_main bd pf h d (SetupQemu machine) = cmd_setup_qemu h d machine"
| "node_main bd pf h d (SetupImage distro) = cmd_setup_image h d distro"
| "node_main bd pf h d (SetupAll distro) = cmd_setup_all (bd_json bd) h d distro"
| "node_main bd pf h d (RunVerify name container) = cmd_verify (bd_codec bd) (bd_json bd) h d name container"
| "node_main bd pf h d (VmCreate name img cpus mem disk_gib acc ssh base cnt docker key auto) =
     cmd_vm_create bd h d name img cpus mem disk_gib acc ssh base cnt docker key auto"
| "node_main bd pf h d (VmStart name) = cmd_vm_start bd h d name"
| "node_main bd pf h d (VmSetMemory name mem) = cmd_vm_set_memory bd h d name mem"
| "node_main bd pf h d (VmMemoryReclaim name) = cmd_vm_memory_reclaim bd pf h d name"
| "node_main bd pf h d (VmStop name) = cmd_vm_stop bd h d name"
| "node_main bd pf h d VmList = cmd_vm_list bd h d"
| "node_main bd pf h d (VmDelete name purge) = cmd_vm_delete bd h d name purge"
| "node_main bd pf h d (VmSnapshot name tag) = cmd_vm_snapshot bd h d name tag"
| "node_main bd pf h d (VmRestore name tag) = cmd_vm_restore bd h d name tag"
| "node_main bd pf h d (VmClone name new_name) = cmd_vm_clone bd h d name new_name"
| "node_main bd pf h d (GuestProvision name) = cmd_guest_provision bd h d name"
| "node_main bd pf h d (RedroidCreate ra) = cmd_redroid_create bd h d ra"
| "node_main bd pf h d (RedroidStart name inst) = cmd_redroid_lifecycle bd h d name inst ''start''"
| "node_main bd pf h d (RedroidStop name inst) = cmd_redroid_lifecycle bd h d name inst ''stop''"
| "node_main bd pf h d (RedroidList name) = cmd_redroid_list bd h d name"
| "node_main bd pf h d (RedroidStats name inst) = cmd_redroid_stats_command bd pf h d name inst"
| "node_main bd pf h d (AdbMap name inst) = cmd_adb_map bd h d name inst"
| "node_main bd pf h d AdbList = cmd_adb_list bd h d"

text \<open>A sequence of runs of the tool, each with what the host answers during it.\<close>

definition node_session :: "build \<Rightarrow> (string \<Rightarrow> f64 option) \<Rightarrow> path \<Rightarrow> (host \<times> node_command) list \<Rightarrow> sys \<Rightarrow> sys" where
  "node_session bd pf d runs s = fold (\<lambda>(h, c) s. snd (node_main bd pf h d c s)) runs s"

end
