(* ===== verification/Node_Props.thy ===== *)
theory Node_Props imports Node_Stats begin

text \<open>
  What every command keeps of the state directory: the registry stays well formed and no receipt is
  ever forgotten, provided the external tools leave \<^verbatim>\<open>state.json\<close> and the receipt ledger alone.
\<close>

section \<open>The stored registry\<close>

definition stored :: "codec \<Rightarrow> path \<Rightarrow> files \<Rightarrow> registry option" where
  "stored cd d fs = (case fs (registry_path d) of
     None \<Rightarrow> Some default_registry
   | Some Dir \<Rightarrow> None
   | Some (File raw) \<Rightarrow> if blank raw then Some default_registry
       else (case from_str cd raw of Inr reg \<Rightarrow> Some reg | Inl _ \<Rightarrow> None))"

text \<open>serde\_json reads back what it wrote, and never writes blank text.\<close>

definition codec_law :: "codec \<Rightarrow> bool" where
  "codec_law cd \<longleftrightarrow> (\<forall>reg raw. to_string_pretty cd reg = Inr raw \<longrightarrow> \<not> blank raw \<and> from_str cd raw = Inr reg)"

lemma stored_cong: "fs' (registry_path d) = fs (registry_path d) \<Longrightarrow> stored cd d fs' = stored cd d fs"
  by (simp only: stored_def)

lemma load_stored:
  assumes "load_registry cd h d fs = Inr reg"
  shows "stored cd d fs = Some reg"
proof (cases "fs (registry_path d)")
  case None
  then show ?thesis using assms by (simp add: load_registry_def stored_def path_exists_def)
next
  case (Some n)
  then have ex: "path_exists fs (registry_path d)" by (simp add: path_exists_def)
  show ?thesis
  proof (cases n)
    case Dir
    then have "is_err (read_to_string h (registry_path d) fs)"
      using Some by (simp add: read_to_string_def is_err_def split: option.splits)
    then show ?thesis using assms ex
      by (cases "read_to_string h (registry_path d) fs") (simp_all add: load_registry_def Let_def is_err_def)
  next
    case (File raw)
    consider e where "read_to_string h (registry_path d) fs = Inl e" | "read_to_string h (registry_path d) fs = Inr raw"
      using Some File by (cases "ho_io h ''read'' (registry_path d)") (simp_all add: read_to_string_def)
    then show ?thesis
    proof cases
      case 1
      then show ?thesis using assms ex by (simp add: load_registry_def Let_def)
    next
      case 2
      then show ?thesis using assms ex Some File
        by (cases "from_str cd raw") (simp_all add: load_registry_def stored_def Let_def split: if_splits)
    qed
  qed
qed

definition stored_wf :: "codec \<Rightarrow> path \<Rightarrow> sys \<Rightarrow> bool" where
  "stored_wf cd d s \<longleftrightarrow> (\<forall>reg. stored cd d (sy_files s) = Some reg \<longrightarrow> registry_wf reg)"

text \<open>The files of the ledger: a receipt for each consumed grant.\<close>

definition receipt_path :: "path \<Rightarrow> path \<Rightarrow> bool" where
  "receipt_path d p \<longleftrightarrow> (\<exists>n. p = path_join (ledger_dir d) (n @ ''.receipt''))"

lemma receipt_below: "receipt_path d p \<Longrightarrow> below (ledger_dir d) p"
  by (auto simp: receipt_path_def intro: below_join)

lemma receipt_ledger_file [simp]: "receipt_path d (ledger_file cr d jti)"
  by (auto simp: receipt_path_def ledger_file_def)

definition ledger_kept :: "path \<Rightarrow> sys \<Rightarrow> sys \<Rightarrow> bool" where
  "ledger_kept d s s' \<longleftrightarrow> (\<forall>p. receipt_path d p \<longrightarrow> path_exists (sy_files s) p \<longrightarrow> path_exists (sy_files s') p)"

definition good :: "codec \<Rightarrow> path \<Rightarrow> sys \<Rightarrow> sys \<Rightarrow> bool" where
  "good cd d s s' \<longleftrightarrow> (stored_wf cd d s \<longrightarrow> stored_wf cd d s') \<and> ledger_kept d s s'"

named_theorems goods \<open>steps that keep the registry well formed and the ledger\<close>

lemma good_refl [simp]: "good cd d s s"
  by (simp add: good_def ledger_kept_def)

lemma good_trans: "good cd d s t \<Longrightarrow> good cd d t u \<Longrightarrow> good cd d s u"
  by (auto simp: good_def ledger_kept_def)

lemma good_files: "good cd d s t \<Longrightarrow> sy_files t = sy_files u \<Longrightarrow> good cd d s u"
  unfolding good_def ledger_kept_def stored_wf_def by metis

section \<open>Steps\<close>

definition untouched :: "path \<Rightarrow> files \<Rightarrow> files \<Rightarrow> bool" where
  "untouched d fs fs' \<longleftrightarrow> fs' (registry_path d) = fs (registry_path d)
     \<and> (\<forall>p. receipt_path d p \<longrightarrow> path_exists fs p \<longrightarrow> path_exists fs' p)"

definition tame_host :: "path \<Rightarrow> host \<Rightarrow> bool" where
  "tame_host d h \<longleftrightarrow> (\<forall>argv fs. untouched d fs (snd (ho_run h argv fs)))"

lemma good_untouched:
  assumes u: "untouched d (sy_files t) (sy_files u)" and g: "good cd d s t"
  shows "good cd d s u"
proof -
  have "stored cd d (sy_files u) = stored cd d (sy_files t)"
    using u by (intro stored_cong) (simp add: untouched_def)
  then have "stored_wf cd d t \<longrightarrow> stored_wf cd d u" unfolding stored_wf_def by metis
  moreover have "ledger_kept d t u" using u unfolding untouched_def ledger_kept_def by blast
  ultimately show ?thesis using g good_trans unfolding good_def by (metis good_def)
qed

lemma good_run: "tame_host d h \<Longrightarrow> good cd d s t \<Longrightarrow> good cd d s (snd (run_command h argv t))"
proof (cases "argv = []")
  case False
  assume t: "tame_host d h" and g: "good cd d s t"
  have "sy_files (snd (run_command h argv t)) = snd (ho_run h argv (sy_files t))"
    using False by (simp add: run_command_def Let_def case_prod_beta)
  then have "untouched d (sy_files t) (sy_files (snd (run_command h argv t)))"
    using t by (simp add: tame_host_def)
  then show ?thesis using g by (rule good_untouched)
qed (simp add: run_command_def)

text \<open>Paths of the state directory outside the registry and the ledger.\<close>

definition elsewhere :: "path \<Rightarrow> path \<Rightarrow> bool" where
  "elsewhere d p \<longleftrightarrow> p \<noteq> registry_path d \<and> \<not> receipt_path d p"

lemma elsewhereI: "p \<noteq> registry_path d \<Longrightarrow> \<not> below (ledger_dir d) p \<Longrightarrow> elsewhere d p"
  using receipt_below by (auto simp: elsewhere_def)

definition disjoint_dir :: "path \<Rightarrow> path \<Rightarrow> bool" where
  "disjoint_dir d p \<longleftrightarrow> \<not> below p (registry_path d) \<and> (\<forall>q. receipt_path d q \<longrightarrow> \<not> below p q)"

lemma elsewhere_join: "elsewhere d (path_join d c)" if "c \<noteq> ''state.json''" "c \<noteq> ''execution-receipts''"
  using that by (intro elsewhereI; cases d) (simp_all add: registry_path_def ledger_dir_def path_join_def below_iff)

lemma elsewhere_join2:
  "elsewhere d (path_join (path_join d c) e)" if "c \<noteq> ''execution-receipts''"
  using that by (intro elsewhereI; cases d) (simp_all add: registry_path_def ledger_dir_def path_join_def below_iff)

lemma elsewhere_join3:
  "elsewhere d (path_join (path_join (path_join d c) e) f)" if "c \<noteq> ''execution-receipts''"
  using that by (intro elsewhereI; cases d) (simp_all add: registry_path_def ledger_dir_def path_join_def below_iff)

lemma disjointI: "\<not> below p (registry_path d) \<Longrightarrow> \<not> below p (ledger_dir d) \<Longrightarrow> \<not> below (ledger_dir d) p \<Longrightarrow> disjoint_dir d p"
  using below_parents [of "ledger_dir d" _ p] receipt_below by (auto simp: disjoint_dir_def)

lemma disjoint_dirs [simp]: "disjoint_dir d (vm_dir d n)" "disjoint_dir d (path_join d TMP_DIR_NAME)"
  by (intro disjointI; cases d; simp add: registry_path_def ledger_dir_def vm_dir_def TMP_DIR_NAME_def path_join_def below_iff)+

lemma state_paths [simp]:
  "elsewhere d (path_join d ''state.json.tmp'')" "elsewhere d (vm_seed_image d n)" "elsewhere d (vm_pid_path d n)"
  "elsewhere d (vm_ssh_key_path d n)" "elsewhere d (vm_ssh_key_pub_path d n)"
  "elsewhere d (path_join d MARKER_WHPX)" "elsewhere d (path_join d ''.doctor-probe'')"
  by (simp_all add: MARKER_WHPX_def elsewhere_join elsewhere_join2 elsewhere_join3 vm_seed_image_def vm_dir_def
      vm_pid_path_def vm_ssh_key_path_def vm_ssh_key_pub_path_def)

lemma not_below_registry [simp]:
  "\<not> below (registry_path d) (vm_dir d n)" "\<not> below (registry_path d) d" "\<not> below (registry_path d) (ledger_dir d)"
  "\<not> below (registry_path d) (path_join d ''keys'')" "\<not> below (registry_path d) (path_join d TMP_DIR_NAME)"
  "\<not> below (registry_path d) (path_join d IMAGES_DIR_NAME)"
  by (cases d; simp add: TMP_DIR_NAME_def IMAGES_DIR_NAME_def registry_path_def ledger_dir_def vm_dir_def path_join_def below_iff)+

lemma untouched_ops:
  "elsewhere d p \<Longrightarrow> untouched d (sy_files s) (sy_files (snd (fs_write h p c s)))"
  "elsewhere d p \<Longrightarrow> untouched d (sy_files s) (sy_files (snd (remove_file h p s)))"
  "elsewhere d q \<Longrightarrow> untouched d (sy_files s) (sy_files (snd (fs_copy h p q s)))"
  "disjoint_dir d p \<Longrightarrow> untouched d (sy_files s) (sy_files (snd (remove_dir_all h p s)))"
  "\<not> below (registry_path d) p \<Longrightarrow> untouched d (sy_files s) (sy_files (snd (create_dir_all h p s)))"
  "p \<noteq> registry_path d \<Longrightarrow> untouched d (sy_files s) (sy_files (snd (create_new h p s)))"
  by (auto simp: untouched_def elsewhere_def disjoint_dir_def file_ops path_exists_def is_file_def
      split: option.splits node.splits)

lemmas good_ops = untouched_ops [THEN good_untouched]

lemma good_log: "good cd d s t \<Longrightarrow> good cd d s (t\<lparr>sy_log := l\<rparr>)"
  by (erule good_files) simp

lemma untouched_trans: "untouched d a b \<Longrightarrow> untouched d b c \<Longrightarrow> untouched d a c"
  by (simp add: untouched_def)

text \<open>Saving either leaves the stored registry as it was or replaces it; a failure never destroys it.\<close>

lemma save_registry_cases:
  assumes law: "codec_law cd" and eq: "save_registry cd h d reg s = (r, s')"
  shows "untouched d (sy_files s) (sy_files s') \<or> r = Inr () \<and> stored cd d (sy_files s') = Some reg \<and> ledger_kept d s s'"
proof -
  let ?tmp = "path_join d ''state.json.tmp''"
  obtain r1 s1 where mk: "create_dir_all h d s = (r1, s1)" by fastforce
  have u1: "untouched d (sy_files s) (sy_files s1)"
    using untouched_ops(5) [of d d s h] mk by simp
  show ?thesis
  proof (cases r1)
    case (Inl e)
    then have "s' = s1" using eq mk by (simp add: save_registry_def)
    then show ?thesis using u1 by simp
  next
    case mkok: (Inr u)
    show ?thesis
    proof (cases "to_string_pretty cd reg")
      case (Inl e)
      then have "s' = s1" using eq mk mkok by (simp add: save_registry_def Let_def)
      then show ?thesis using u1 by simp
    next
      case body: (Inr body)
      obtain r2 s2 where wr: "fs_write h ?tmp body s1 = (r2, s2)" by fastforce
      have "untouched d (sy_files s1) (sy_files s2)"
        using untouched_ops(1) [of d ?tmp s1 h body] wr by simp
      then have u2: "untouched d (sy_files s) (sy_files s2)" using u1 untouched_trans by blast
      obtain r3 s3 where rn: "fs_rename h ?tmp (registry_path d) s2 = (r3, s3)" by fastforce
      show ?thesis
      proof (cases r2)
        case (Inl e)
        then have "s' = s2" using eq mk mkok body wr by (simp add: save_registry_def Let_def)
        then show ?thesis using u2 by simp
      next
        case w: (Inr w)
        have s': "s' = s3" "is_err r3 \<or> r = Inr ()"
          using eq mk mkok body wr w rn by (cases r3; simp add: save_registry_def Let_def)+
        have tmp: "sy_files s2 ?tmp = Some (File body)" using wr w by (auto simp: fs_write_def split: option.splits)
        show ?thesis
        proof (cases r3)
          case (Inl e)
          then have "s3 = s2" using rn by (auto simp: fs_rename_def split: option.splits)
          then show ?thesis using s' u2 by simp
        next
          case (Inr v)
          then have s3: "s3 = s2\<lparr>sy_files := (sy_files s2)(?tmp := None, registry_path d \<mapsto> File body)\<rparr>"
            using rn tmp by (auto simp: fs_rename_def split: option.splits)
          have "stored cd d (sy_files s') = Some reg"
            using law body by (simp add: s' s3 stored_def codec_law_def)
          moreover have "?tmp \<noteq> q" if "receipt_path d q" for q
            using that state_paths(1) [of d] by (auto simp: elsewhere_def)
          then have "ledger_kept d s s'" using u2 by (auto simp: ledger_kept_def untouched_def s' s3 path_exists_def)
          ultimately show ?thesis using s' Inr by simp
        qed
      qed
    qed
  qed
qed

lemma good_save:
  assumes "codec_law cd" and "good cd d s t" and "stored_wf cd d s \<Longrightarrow> registry_wf reg"
  shows "good cd d s (snd (save_registry cd h d reg t))"
proof -
  obtain r u where e: "save_registry cd h d reg t = (r, u)" by fastforce
  from save_registry_cases [OF assms(1) e] show ?thesis
  proof
    assume "untouched d (sy_files t) (sy_files u)"
    then show ?thesis using assms(2) unfolding e by (simp add: good_untouched [of d t u])
  next
    assume a: "r = Inr () \<and> stored cd d (sy_files u) = Some reg \<and> ledger_kept d t u"
    then have "stored_wf cd d s \<longrightarrow> stored_wf cd d u" using assms(3) by (simp add: stored_wf_def)
    moreover have "ledger_kept d s u" using a assms(2) by (simp add: ledger_kept_def good_def)
    ultimately show ?thesis by (simp add: e good_def)
  qed
qed

lemma good_try:
  assumes "good cd d s (snd r)" and "\<And>a t. r = (Inr a, t) \<Longrightarrow> good cd d s t \<Longrightarrow> good cd d s (snd (k a t))"
  shows "good cd d s (snd (try_exit r k))"
  using assms by (cases r; cases "fst r") (auto simp: try_exit_def)

lemma loaded_wf:
  "good cd d s t \<Longrightarrow> load_registry cd h d (sy_files t) = Inr reg \<Longrightarrow> stored_wf cd d s \<Longrightarrow> registry_wf reg"
  using load_stored [of cd h d "sy_files t" reg] unfolding good_def stored_wf_def by blast

text \<open>The rules follow the shape of a command: a branch, a result, the state it returns.\<close>

lemma good_shapes [goods]:
  "good cd d s t \<Longrightarrow> good cd d s (snd (res, t))"
  "(b \<Longrightarrow> good cd d s (snd x)) \<Longrightarrow> (\<not> b \<Longrightarrow> good cd d s (snd y)) \<Longrightarrow> good cd d s (snd (if b then x else y))"
  "(\<And>e. r = Inl e \<Longrightarrow> good cd d s (snd (f e))) \<Longrightarrow> (\<And>a. r = Inr a \<Longrightarrow> good cd d s (snd (g a)))
     \<Longrightarrow> good cd d s (snd (case_sum f g r))"
  "(ov = None \<Longrightarrow> good cd d s (snd x)) \<Longrightarrow> (\<And>a. ov = Some a \<Longrightarrow> good cd d s (snd (k a)))
     \<Longrightarrow> good cd d s (snd (case_option x k ov))"
  "(\<And>f' args. m = Message f' args \<Longrightarrow> good cd d s (snd (k' f' args))) \<Longrightarrow> good cd d s (snd (case_message k' m))"
  "good cd d s (snd p) \<Longrightarrow> (\<And>a t. p = (a, t) \<Longrightarrow> good cd d s t \<Longrightarrow> good cd d s (snd (h a t)))
     \<Longrightarrow> good cd d s (snd (case_prod h p))"
  "(\<And>x y. q = (x, y) \<Longrightarrow> good cd d s (snd (l x y t))) \<Longrightarrow> good cd d s (snd (case_prod l q t))"
  "(\<And>x y. q = (x, y) \<Longrightarrow> good cd d s (snd (l' x y))) \<Longrightarrow> good cd d s (snd (case_prod (\<lambda>x y. l' x y) q))"
  "good cd d s (snd nf) \<Longrightarrow> good cd d s (snd ae) \<Longrightarrow> (\<And>x. good cd d s (snd (oe x))) \<Longrightarrow> good cd d s (snd (case_io_error nf ae oe ie))"
  by (auto split: sum.splits option.splits message.splits prod.splits io_error.splits)

lemma good_enums:
  "good cd d s (snd x1) \<Longrightarrow> good cd d s (snd x2) \<Longrightarrow> good cd d s (snd x3) \<Longrightarrow> good cd d s (snd x4)
     \<Longrightarrow> good cd d s (snd (case_dism_outcome x1 x2 x3 x4 c))"
  "good cd d s (snd x1) \<Longrightarrow> good cd d s (snd x2) \<Longrightarrow> good cd d s (snd x3) \<Longrightarrow> good cd d s (snd x4)
     \<Longrightarrow> good cd d s (snd (case_qemu_channel x1 x2 x3 x4 ch))"
  "good cd d s (snd x1) \<Longrightarrow> good cd d s (snd x2) \<Longrightarrow> good cd d s (snd x3) \<Longrightarrow> good cd d s (snd (case_portable_qemu_plan x1 x2 x3 pl))"
  "(\<And>q. good cd d s (snd (f q))) \<Longrightarrow> good cd d s (snd x2) \<Longrightarrow> good cd d s (snd (case_image_plan f x2 ip))"
  by (auto split: dism_outcome.split qemu_channel.split portable_qemu_plan.split image_plan.split)

declare good_try [goods] good_run [goods] good_ops [goods] good_log [goods]

section \<open>The operations keep the registry and the ledger\<close>

lemma good_same_files: "good cd d s t \<Longrightarrow> sy_files (snd r) = sy_files t \<Longrightarrow> good cd d s (snd r)"
  using good_files [of cd d s t "snd r"] by simp

lemma good_ensure_parent_dir [goods]:
  assumes "\<And>q. path_parent p = Some q \<Longrightarrow> \<not> below (registry_path d) q" and "good cd d s t"
  shows "good cd d s (snd (ensure_parent_dir h p t))"
  unfolding ensure_parent_dir_def by (intro goods) (use assms in auto)

section \<open>Setup, doctor and verify\<close>

lemma good_elevated [goods]:
  "tame_host d h \<Longrightarrow> good cd d s t \<Longrightarrow> good cd d s (snd (run_elevated_capture h d exe args MARKER_WHPX t))"
  unfolding run_elevated_capture_def Let_def by (intro goods) simp_all

lemma good_setup_whpx [goods]:
  "tame_host d h \<Longrightarrow> good cd d s t \<Longrightarrow> good cd d s (snd (cmd_setup_whpx jl h d t))"
  unfolding cmd_setup_whpx_def by (intro goods good_enums) simp_all

lemma good_cleanup [goods]: "good cd d s t \<Longrightarrow> good cd d s (cleanup_setup_tmp h d t)"
  unfolding cleanup_setup_tmp_def by (intro goods) simp_all

lemma good_installer [goods]:
  "tame_host d h \<Longrightarrow> good cd d s t \<Longrightarrow> good cd d s (snd (fetch_installer h tmp f e t))"
  "tame_host d h \<Longrightarrow> good cd d s t \<Longrightarrow> good cd d s (snd (download_latest_weilnetz_installer h d t))"
  "tame_host d h \<Longrightarrow> good cd d s t \<Longrightarrow> good cd d s (snd (run_installer h d ch argv t))"
  "tame_host d h \<Longrightarrow> good cd d s t \<Longrightarrow> good cd d s (snd (where_exists h exe t))"
proof -
  show f: "tame_host d h \<Longrightarrow> good cd d s t \<Longrightarrow> good cd d s (snd (fetch_installer h tmp f e t))" for tmp f e t
    unfolding fetch_installer_def Let_def by (intro goods)
  show "tame_host d h \<Longrightarrow> good cd d s t \<Longrightarrow> good cd d s (snd (download_latest_weilnetz_installer h d t))"
    unfolding download_latest_weilnetz_installer_def Let_def by (intro goods f) simp_all
  show "tame_host d h \<Longrightarrow> good cd d s t \<Longrightarrow> good cd d s (snd (run_installer h d ch argv t))"
    unfolding run_installer_def by (intro goods)
  show "tame_host d h \<Longrightarrow> good cd d s t \<Longrightarrow> good cd d s (snd (where_exists h exe t))"
    unfolding where_exists_def by (intro goods)
qed

lemma good_setup_qemu [goods]:
  "tame_host d h \<Longrightarrow> good cd d s t \<Longrightarrow> good cd d s (snd (cmd_setup_qemu h d machine t))"
  unfolding cmd_setup_qemu_def cmd_setup_qemu_machine_def cmd_setup_qemu_portable_def Let_def
  by (intro goods good_enums) simp_all

lemma good_setup_image [goods]:
  "tame_host d h \<Longrightarrow> good cd d s t \<Longrightarrow> good cd d s (snd (cmd_setup_image h d distro t))"
  unfolding cmd_setup_image_def fetch_expected_sha_def existing_sha_def download_image_def Let_def
  by (intro goods good_enums) auto

lemma good_setup_all [goods]:
  "tame_host d h \<Longrightarrow> good cd d s t \<Longrightarrow> good cd d s (snd (cmd_setup_all jl h d distro t))"
  unfolding cmd_setup_all_def Let_def by (intro goods) (auto intro: good_run)

lemma good_available_memory [goods]:
  "tame_host d h \<Longrightarrow> good cd d s t \<Longrightarrow> good cd d s (snd (host_available_memory_bytes h t))"
  unfolding host_available_memory_bytes_def by (intro goods)

lemma good_doctor [goods]:
  "tame_host d h \<Longrightarrow> good cd d s t \<Longrightarrow> good cd d s (snd (cmd_doctor h d t))"
  unfolding cmd_doctor_def run_doctor_def check_state_dir_def check_whpx_feature_def check_qemu_binary_def check_whpx_probe_def
    check_disk_free_def check_tool_def check_qemu_img_def Let_def
  by (intro goods) simp_all

lemma good_setup_step [goods]:
  "tame_host d h \<Longrightarrow> good cd d s t \<Longrightarrow> good cd d s (snd (setup_step bd h d p t))"
  unfolding setup_step_def by (cases p) (simp_all, (intro goods; assumption)+)

lemma good_setup_steps [goods]:
  "tame_host d h \<Longrightarrow> good cd d s t \<Longrightarrow> good cd d s (snd (run_setup_steps bd h d ps t))"
proof (induction ps arbitrary: t)
  case (Cons p ps)
  have "good cd d s (snd (setup_step bd h d p t))" using Cons.prems by (intro goods)
  then show ?case using Cons by (auto split: prod.splits)
qed simp

lemma good_prereqs [goods]:
  "tame_host d h \<Longrightarrow> good cd d s t \<Longrightarrow> good cd d s (snd (vm_create_prereqs bd h d img auto t))"
  unfolding vm_create_prereqs_def precheck_def Let_def by (intro goods)

lemma good_pubkey [goods]:
  assumes "tame_host d h" and "good cd d s t"
  shows "good cd d s (snd (vm_create_pubkey h d name key t))"
  unfolding vm_create_pubkey_def Let_def
  using assms by (intro goods) (simp_all add: vm_ssh_key_path_def, auto)

lemma good_write_seed [goods]: "good cd d s t \<Longrightarrow> good cd d s (snd (write_seed h d name cfg t))"
  unfolding write_seed_def Let_def by (intro goods) auto

lemma good_remove_keys [goods]:
  "list_all (elsewhere d) keys \<Longrightarrow> good cd d s t \<Longrightarrow> good cd d s (snd (remove_keys h keys t))"
proof (induction h keys t rule: remove_keys.induct)
  case (2 h key keys t)
  then have "good cd d s (snd (remove_file h key t))" by (intro goods) simp_all
  then show ?case using 2
    by (cases "remove_file h key t") (auto split: sum.splits io_error.splits)
qed simp

lemma good_purge [goods]: "good cd d s t \<Longrightarrow> good cd d s (snd (purge_vm_artifacts h d name t))"
  unfolding purge_vm_artifacts_def Let_def by (intro goods) simp_all

lemma good_harden [goods]: "tame_host d h \<Longrightarrow> good cd d s t \<Longrightarrow> good cd d s (snd (harden_private_key_permissions h p t))"
  unfolding harden_private_key_permissions_def by (intro goods)

lemma good_copy_identity [goods]:
  "tame_host d h \<Longrightarrow> good cd d s t \<Longrightarrow> good cd d s (snd (copy_clone_ssh_identity h d name new_name t))"
  unfolding copy_clone_ssh_identity_def Let_def by (intro goods) simp_all

lemma good_consume [goods]: "good cd d s t \<Longrightarrow> good cd d s (snd (consume_execution_receipt_once cr h d jti t))"
proof -
  assume g: "good cd d s t"
  have "ledger_file cr d jti \<noteq> registry_path d"
    by (cases d) (simp add: ledger_file_def ledger_dir_def registry_path_def path_join_def)
  then show ?thesis unfolding consume_execution_receipt_once_def
    using g untouched_ops(6) [of "ledger_file cr d jti" d] untouched_ops(5) [of d "ledger_dir d"]
    by (intro goods) (auto split: io_error.splits sum.splits prod.splits intro: good_untouched)
qed

section \<open>The changes of the registry\<close>

lemma allocate_port_block_free:
  assumes "allocate_port_block checks used base cnt = Some (Inr block)"
  shows "distinct block \<and> list_all (port_free used) block"
proof -
  have c: "cnt \<noteq> 0" and l: "port_block_loop checks used base cnt base = Some (Inr block)"
    using assms by (simp_all add: allocate_port_block_def split: if_splits)
  show ?thesis
    using port_block_loop_cases [OF c, where checks = checks and used = used and base = base and start = base] unfolding l
    by (auto simp: free_block_def split: if_splits)
qed

lemma allocate_vm_ports_free:
  assumes "allocate_vm_ports checks reg ssh base cnt = PortsOk (p, q, block)"
  shows "distinct (p # q # block) \<and> list_all (port_free (used_ports reg)) (p # q # block)"
proof -
  have p: "port_free (used_ports reg) p"
    and q: "next_free_port (insert p (used_ports reg)) DEFAULT_QMP_PORT_BASE = Some q"
    and b: "allocate_port_block checks (insert q (insert p (used_ports reg))) base cnt = Some (Inr block)"
    using assms next_free_port_SomeD [of "used_ports reg" DEFAULT_SSH_PORT_BASE]
    by (auto simp: allocate_vm_ports_def Let_def port_free_def split: option.splits sum.splits if_splits port_error.splits)
  from next_free_port_SomeD [OF q] allocate_port_block_free [OF b] p show ?thesis
    by (auto simp: port_free_def list_all_iff)
qed

lemma new_entry_wf:
  assumes "registry_wf reg" and "\<not> registry_contains (ve_name v) reg"
    and "allocate_vm_ports checks reg ssh base cnt = PortsOk (ve_ssh_host_port v, ve_qmp_host_port v, ve_adb_ports v)"
    and "ve_adb_assignments v = []"
  shows "registry_wf (reg\<lparr>rg_vms := rg_vms reg @ [v]\<rparr>)"
  using allocate_vm_ports_free [OF assms(3)] assms
  by (intro registry_wf_push) (auto simp: entry_ports_def port_free_def list_all_iff)

lemma set_memory_wf: "registry_wf reg \<Longrightarrow> registry_wf (registry_update name (\<lambda>u. u\<lparr>ve_mem_mib := m\<rparr>) reg)"
  by (rule registry_wf_update) (simp_all add: entry_ports_def entry_wf_def assigned_ports_def)

lemma snapshot_wf:
  "registry_wf reg \<Longrightarrow> registry_wf (registry_update name (\<lambda>u. if tag \<in> set (ve_snapshots u) then u
     else u\<lparr>ve_snapshots := ve_snapshots u @ [tag]\<rparr>) reg)"
  by (rule registry_wf_update) (simp_all add: entry_ports_def entry_wf_def assigned_ports_def)

lemma assign_wf:
  assumes "registry_wf reg" and "registry_get name reg = Some v" and "inst \<notin> fst ` set (ve_adb_assignments v)"
    and "next_free_adb_port v = Some port"
  shows "registry_wf (registry_update name (\<lambda>u. u\<lparr>ve_adb_assignments := btree_insert inst port (ve_adb_assignments u)\<rparr>) reg)"
  using assms by (intro registry_wf_update) (auto simp: entry_ports_def intro: entry_wf_assign)

section \<open>The commands\<close>

declare good_save [goods]

lemma good_register [goods]:
  assumes "codec_law (bd_codec bd)" and "good (bd_codec bd) d s t"
    and "stored_wf (bd_codec bd) d s \<Longrightarrow> registry_wf reg"
  shows "good (bd_codec bd) d s (snd (register_snapshot bd h d reg name tag t))"
  unfolding register_snapshot_def by (intro goods assms snapshot_wf)

lemma good_set_memory:
  assumes "codec_law (bd_codec bd)" and "good (bd_codec bd) d s t"
  shows "good (bd_codec bd) d s (snd (cmd_vm_set_memory bd h d name m t))"
  unfolding cmd_vm_set_memory_def
  by (intro goods assms set_memory_wf) (use loaded_wf in auto)

lemma good_cases [goods]:
  "good cd d s (snd x) \<Longrightarrow> (\<And>e. r = PortsErr e \<Longrightarrow> good cd d s (snd (f e))) \<Longrightarrow> (\<And>a. r = PortsOk a \<Longrightarrow> good cd d s (snd (g a)))
     \<Longrightarrow> good cd d s (snd (case_port_result f x g r))"
  "good cd d s (snd x1) \<Longrightarrow> good cd d s (snd x2) \<Longrightarrow> good cd d s (snd x3) \<Longrightarrow> good cd d s (snd (case_vm_liveness x1 x2 x3 l))"
  "good cd d s (snd x1) \<Longrightarrow> good cd d s (snd x2) \<Longrightarrow> (\<And>w. good cd d s (snd (k w))) \<Longrightarrow> good cd d s (snd (case_snapshot_plan x1 x2 k sp))"
  "(\<And>u v w. good cd d s (snd (c u v w))) \<Longrightarrow> (\<And>w. good cd d s (snd (k w))) \<Longrightarrow> (\<And>w. good cd d s (snd (k' w)))
     \<Longrightarrow> good cd d s (snd (case_reclaim_plan c k k' rp))"
  by (auto split: port_result.splits vm_liveness.splits snapshot_plan.splits reclaim_plan.splits)

lemma good_create:
  assumes "codec_law (bd_codec bd)" and "tame_host d h" and "good (bd_codec bd) d s t"
  shows "good (bd_codec bd) d s (snd (cmd_vm_create bd h d name img cpus mem disk acc ssh base cnt docker key auto t))"
  unfolding cmd_vm_create_def Let_def
  by (intro goods assms new_entry_wf) (simp_all add: loaded_wf)

lemma good_start:
  assumes "tame_host d h" and "good (bd_codec bd) d s t"
  shows "good (bd_codec bd) d s (snd (cmd_vm_start bd h d name t))"
  unfolding cmd_vm_start_def Let_def
  by (intro goods assms) simp_all

lemma good_delete:
  assumes "codec_law (bd_codec bd)" and "good (bd_codec bd) d s t"
  shows "good (bd_codec bd) d s (snd (cmd_vm_delete bd h d name purge t))"
  unfolding cmd_vm_delete_def
  by (intro goods assms registry_wf_retain) (simp_all add: loaded_wf)

lemma good_qmp [goods]:
  "good cd d s t \<Longrightarrow> good cd d s (snd (client_connect jl h port t))"
  by (erule good_same_files) (rule client_connect_files)

lemma good_restore:
  assumes "tame_host d h" and "good (bd_codec bd) d s t"
  shows "good (bd_codec bd) d s (snd (cmd_vm_restore bd h d name tag t))"
  unfolding cmd_vm_restore_def snapshot_plan_for_def
  by (intro goods assms) simp_all

lemma good_clone:
  assumes "codec_law (bd_codec bd)" and "tame_host d h" and "good (bd_codec bd) d s t"
  shows "good (bd_codec bd) d s (snd (cmd_vm_clone bd h d name new_name t))"
  unfolding cmd_vm_clone_def Let_def
  by (intro goods assms new_entry_wf) (simp_all add: loaded_wf)

lemma qmp_files:
  "client_command jl h frame c s = (r, c', s') \<Longrightarrow> sy_files s' = sy_files s"
  "client_connect jl h port s = (q, s') \<Longrightarrow> sy_files s' = sy_files s"
  using client_command_files [of jl h frame c s] client_connect_files [of jl h port s] by simp_all

lemma qmp_session_files:
  "sy_files (snd (device_for_disk jl h port disk s)) = sy_files s"
  "sy_files (snd (internal_snapshot jl h port dev tag s)) = sy_files s"
  "sy_files (snd (reclaim_memory jl h port target s)) = sy_files s"
  by (auto simp: device_for_disk_def internal_snapshot_def reclaim_memory_def Let_def dest!: qmp_files
      split: prod.splits sum.splits option.splits)

lemma stop_frames_files: "sy_files (snd (stop_frames jl h port sent frames unread s)) = sy_files s"
  by (induction jl h port sent frames unread s rule: stop_frames.induct)
    (auto simp: Let_def split: option.splits sum.splits list.splits)

lemma stop_via_qmp_files: "sy_files (snd (stop_via_qmp jl h port s)) = sy_files s"
  by (auto simp: stop_via_qmp_def stop_frames_files split: connect_outcome.splits sum.splits list.splits)

lemmas good_qmp_sessions [goods] = qmp_session_files [THEN good_same_files [rotated]] stop_via_qmp_files [THEN good_same_files [rotated]]

lemma good_snapshot:
  assumes "codec_law (bd_codec bd)" and "tame_host d h" and "good (bd_codec bd) d s t"
  shows "good (bd_codec bd) d s (snd (cmd_vm_snapshot bd h d name tag t))"
  unfolding cmd_vm_snapshot_def
  by (intro goods assms) (simp_all add: loaded_wf)

lemma good_stop:
  assumes "good (bd_codec bd) d s t"
  shows "good (bd_codec bd) d s (snd (cmd_vm_stop bd h d name t))"
  unfolding cmd_vm_stop_def
  by (intro goods assms) simp_all

lemma good_guest_docker [goods]: "tame_host d h \<Longrightarrow> good cd d s t \<Longrightarrow> good cd d s (snd (guest_docker h d v args t))"
  unfolding guest_docker_def by (rule good_run)

lemma good_provision:
  assumes "tame_host d h" and "good (bd_codec bd) d s t"
  shows "good (bd_codec bd) d s (snd (cmd_guest_provision bd h d name t))"
  unfolding cmd_guest_provision_def by (intro goods assms) simp_all

lemma good_lifecycle:
  assumes "tame_host d h" and "good (bd_codec bd) d s t"
  shows "good (bd_codec bd) d s (snd (cmd_redroid_lifecycle bd h d name inst action t))"
  unfolding cmd_redroid_lifecycle_def by (intro goods assms) simp_all

lemma good_running [goods]:
  "tame_host d h \<Longrightarrow> good cd d s t \<Longrightarrow> good cd d s (snd (running_instances h d v t))"
  unfolding running_instances_def Let_def by (intro goods)

lemma good_create_instance [goods]:
  assumes "codec_law (bd_codec bd)" and "tame_host d h" and "good (bd_codec bd) d s t"
    and "stored_wf (bd_codec bd) d s \<Longrightarrow> registry_wf reg" and "registry_get (ra_vm ra) reg = Some v"
  shows "good (bd_codec bd) d s (snd (create_instance bd h d ra gpu profile reg v t))"
  unfolding create_instance_def Let_def
  by (intro goods assms assign_wf) (simp_all add: assms)

lemma good_redroid_create:
  assumes "codec_law (bd_codec bd)" and "tame_host d h" and "good (bd_codec bd) d s t"
  shows "good (bd_codec bd) d s (snd (cmd_redroid_create bd h d ra t))"
  unfolding cmd_redroid_create_def
  by (intro goods assms) (simp_all add: loaded_wf)

lemma good_stats [goods]:
  "tame_host d h \<Longrightarrow> good cd d s t \<Longrightarrow> good cd d s (snd (load_guest_redroid_stats bd pf h d v inst t))"
  unfolding load_guest_redroid_stats_def by (intro goods)

lemma good_reclaim:
  assumes "tame_host d h" and "good (bd_codec bd) d s t"
  shows "good (bd_codec bd) d s (snd (cmd_vm_memory_reclaim bd pf h d name t))"
  unfolding cmd_vm_memory_reclaim_def Let_def
  by (intro goods assms) simp_all

lemma good_listings:
  assumes "tame_host d h" and "good (bd_codec bd) d s t"
  shows "good (bd_codec bd) d s (snd (cmd_vm_list bd h d t))"
    "good (bd_codec bd) d s (snd (cmd_adb_list bd h d t))"
    "good (bd_codec bd) d s (snd (cmd_adb_map bd h d name inst t))"
    "good (bd_codec bd) d s (snd (cmd_redroid_list bd h d name t))"
    "good (bd_codec bd) d s (snd (cmd_redroid_stats_command bd pf h d name inst t))"
  unfolding cmd_vm_list_def cmd_adb_list_def cmd_adb_map_def cmd_redroid_list_def cmd_redroid_list_rows_def
    cmd_redroid_stats_command_def cmd_redroid_stats_rows_def Let_def
  by (intro goods assms; simp add: assms)+

lemma clone_elsewhere [simp]: "elsewhere d (clone_path disk tag)"
proof -
  have l: "a \<noteq> b" if "last a \<noteq> last b" for a b :: string using that by blast
  have "''clone-'' @ tag @ ''.qcow2'' \<noteq> n @ ''.receipt''" "''clone-'' @ tag @ ''.qcow2'' \<noteq> ''state.json''" for n
    by (rule l, simp)+
  then show ?thesis by (simp add: elsewhere_def clone_path_def receipt_path_def registry_path_def)
qed

lemma delete_internal_snapshot_files: "sy_files (snd (delete_internal_snapshot jl h port dev tag s)) = sy_files s"
  by (auto simp: delete_internal_snapshot_def dest!: qmp_files split: prod.splits sum.splits)

lemma good_timed_snapshot [goods]:
  "tame_host d h \<Longrightarrow> good cd d s t \<Longrightarrow> good cd d s (snd (timed_qemu_img_snapshot h bin disk tag t))"
  "good cd d s t \<Longrightarrow> good cd d s (snd (timed_qmp_snapshot jl h port dev tag t))"
proof -
  show "tame_host d h \<Longrightarrow> good cd d s t \<Longrightarrow> good cd d s (snd (timed_qemu_img_snapshot h bin disk tag t))"
    unfolding timed_qemu_img_snapshot_def Let_def by (intro goods)
  have "sy_files (snd (timed_qmp_snapshot jl h port dev tag t)) = sy_files t"
    using qmp_session_files(2) [of jl h port dev tag t] delete_internal_snapshot_files [of jl h port dev tag]
    by (auto simp: timed_qmp_snapshot_def split: prod.splits sum.splits) (metis snd_conv)+
  then show "good cd d s t \<Longrightarrow> good cd d s (snd (timed_qmp_snapshot jl h port dev tag t))"
    by (rule good_same_files [rotated])
qed

lemma good_time_clone [goods]:
  "tame_host d h \<Longrightarrow> good cd d s t \<Longrightarrow> good cd d s (snd (time_clone h bin disk tag how snap t))"
  unfolding time_clone_def Let_def by (intro goods) simp_all

lemma good_clone_timing [goods]:
  assumes "tame_host d h" and "good cd d s t"
  shows "good cd d s (snd (run_clone_timing_probe jl h d v t))"
proof (cases "snapshot_plan_for (vm_liveness_from_qmp_probe (probe h (ve_qmp_host_port v))) True")
  case QemuImg
  show ?thesis unfolding run_clone_timing_probe_def Let_def QemuImg snapshot_plan.case by (intro goods assms)
next
  case QmpInternal
  show ?thesis unfolding run_clone_timing_probe_def Let_def QmpInternal snapshot_plan.case by (intro goods assms)
next
  case (Skip why)
  show ?thesis unfolding run_clone_timing_probe_def Let_def Skip snapshot_plan.case by (intro goods assms)
qed

lemma good_verify_checks [goods]:
  "tame_host d h \<Longrightarrow> good cd d s t \<Longrightarrow> good cd d s (snd (check_whpx h d t))"
  "tame_host d h \<Longrightarrow> good cd d s t \<Longrightarrow> good cd d s (snd (check_ssh h d v remote judge t))"
  "tame_host d h \<Longrightarrow> good cd d s t \<Longrightarrow> good cd d s (snd (check_adb h port t))"
  unfolding check_whpx_def check_ssh_def check_adb_def by ((intro goods; assumption)+)

lemma good_run_checks [goods]:
  "tame_host d h \<Longrightarrow> good cd d s t \<Longrightarrow> good cd d s (snd (run_checks jl h d v inst port t))"
  unfolding run_checks_def by (intro goods)

lemma good_verify [goods]:
  "tame_host d h \<Longrightarrow> good cd d s t \<Longrightarrow> good cd d s (snd (cmd_verify cd jl h d name container t))"
  unfolding cmd_verify_def run_verify_def by (intro goods)

lemma good_node_main:
  assumes "codec_law (bd_codec bd)" and "tame_host d h"
  shows "good (bd_codec bd) d s (snd (node_main bd pf h d c s))"
  using assms by (cases c) (simp_all add: good_doctor good_setup_whpx good_setup_qemu good_setup_image good_setup_all good_verify good_create good_start good_set_memory good_reclaim good_stop good_listings
      good_delete good_snapshot good_restore good_clone good_provision good_redroid_create good_lifecycle)

lemma good_node_session:
  assumes "codec_law (bd_codec bd)"
  shows "\<forall>(h, c) \<in> set runs. tame_host d h \<Longrightarrow> good (bd_codec bd) d s (node_session bd pf d runs s)"
proof (induction runs rule: rev_induct)
  case Nil
  then show ?case by (simp add: node_session_def)
next
  case (snoc r runs)
  obtain h c where r: "r = (h, c)" by fastforce
  let ?t = "node_session bd pf d runs s"
  have "good (bd_codec bd) d ?t (snd (node_main bd pf h d c ?t))"
    using snoc.prems assms by (intro good_node_main) (auto simp: r)
  moreover have "good (bd_codec bd) d s ?t" using snoc by simp
  ultimately have "good (bd_codec bd) d s (snd (node_main bd pf h d c ?t))" by (rule good_trans [rotated])
  then show ?case by (simp add: node_session_def r)
qed

end
