(* ===== verification/Node_Safety.thy ===== *)
theory Node_Safety imports Node_Props Redroid_Props begin

text \<open>
  The properties of the node commands: the registry stays consistent over any sequence of runs, an
  execution grant starts at most one container on a host, a VM that may be running is never
  touched behind the back of its QEMU, a memory reclaim respects what the instances use, and the wait
  for the guest ends.
\<close>

section \<open>The registry over many runs\<close>

lemma adb_serial_inject [simp]: "adb_serial p = adb_serial q \<longleftrightarrow> p = q"
  by (simp add: adb_serial_def dec_string_inject word_unat_eq_iff)

lemma adb_rows_serials: "map fst (adb_rows reg) = map adb_serial (concat (map (\<lambda>v. map snd (ve_adb_assignments v)) (rg_vms reg)))"
  by (simp add: adb_rows_def map_concat o_def case_prod_beta)

lemma distinct_concat_sub:
  assumes "distinct (concat (map f xs))" and "\<And>x. x \<in> set xs \<Longrightarrow> distinct (g x) \<and> set (g x) \<subseteq> set (f x)"
  shows "distinct (concat (map g xs))"
  using assms
proof (induction xs)
  case (Cons x xs)
  have "set (concat (map g xs)) \<subseteq> set (concat (map f xs))" using Cons.prems(2) by fastforce
  moreover have "set (g x) \<subseteq> set (f x)" using Cons.prems(2) [of x] by simp
  ultimately have "set (g x) \<inter> set (concat (map g xs)) = {}" using Cons.prems(1) by fastforce
  moreover have "distinct (concat (map g xs))" using Cons by simp
  moreover have "distinct (g x)" using Cons.prems(2) [of x] by simp
  ultimately show ?case by simp
qed simp

lemma registry_wf_serials: "registry_wf reg \<Longrightarrow> distinct (map fst (adb_rows reg))"
proof -
  assume wf: "registry_wf reg"
  have "distinct (concat (map (\<lambda>v. map snd (ve_adb_assignments v)) (rg_vms reg)))"
  proof (rule distinct_concat_sub [of entry_ports])
    show "distinct (concat (map entry_ports (rg_vms reg)))" using wf by (simp add: registry_wf_def)
    show "distinct (map snd (ve_adb_assignments v)) \<and> set (map snd (ve_adb_assignments v)) \<subseteq> set (entry_ports v)"
      if "v \<in> set (rg_vms reg)" for v
    proof -
      have "entry_wf v" using wf that by (simp add: registry_wf_def list_all_iff)
      then show ?thesis by (auto simp: entry_wf_def assigned_ports_def entry_ports_def)
    qed
  qed
  then show ?thesis by (simp add: adb_rows_serials distinct_map inj_on_def)
qed

text \<open>
  C8: After any sequence of runs of the tool that began with no \<^verbatim>\<open>state.json\<close>, whatever the host answered,
  the registry that loads has different names, no host port of it is reserved or belongs to two nodes
  or purposes, every instance has its own port in the block of its node, and no two
  instances of any nodes have the same ADB serial.
\<close>

theorem registry_consistent:
  assumes "codec_law (bd_codec bd)" and "\<forall>(h, c) \<in> set runs. tame_host d h"
    and "sy_files s (registry_path d) = None"
    and "load_registry (bd_codec bd) h d (sy_files (node_session bd pf d runs s)) = Inr reg"
  shows "distinct (map ve_name (rg_vms reg)) \<and> distinct (concat (map entry_ports (rg_vms reg)))
    \<and> (\<forall>p. p \<in> used_ports reg \<longrightarrow> \<not> port_is_reserved p)
    \<and> (\<forall>v inst p. v \<in> set (rg_vms reg) \<longrightarrow> (inst, p) \<in> set (ve_adb_assignments v) \<longrightarrow> p \<in> set (ve_adb_ports v))
    \<and> distinct (map fst (adb_rows reg))"
proof -
  have "stored_wf (bd_codec bd) d s" using assms(3) by (simp add: stored_wf_def stored_def)
  then have wf: "registry_wf reg"
    using loaded_wf [OF good_node_session [OF assms(1,2)] assms(4)] by simp
  show ?thesis
    using wf registry_wf_serials [OF wf]
    by (auto simp: registry_wf_def used_ports_def list_all_iff entry_wf_def assigned_ports_def) force
qed

section \<open>One container for a grant\<close>

lemma consume_log [simp]: "sy_log (snd (consume_execution_receipt_once cr h d jti s)) = sy_log s"
proof -
  have "sy_log (snd (create_new h p (snd (create_dir_all h q s)))) = sy_log s" for p q by simp
  then show ?thesis
    by (auto simp: consume_execution_receipt_once_def split: prod.splits sum.splits io_error.splits)
      (metis file_op_log snd_conv)+
qed

lemma consume_same_log: "consume_execution_receipt_once cr h d jti s = (r, t) \<Longrightarrow> sy_log t = sy_log s"
  using consume_log [of cr h d jti s] by simp

lemma run_command_log: "run_command h argv s = (out, t) \<Longrightarrow> length (sy_log t) \<le> Suc (length (sy_log s))"
  by (auto simp: run_command_def split: prod.splits if_splits)

text \<open>
  A property of the result of a command, and the rules that follow the shape of the command down to
  the points where it returns.
\<close>

definition holds :: "('a \<Rightarrow> bool) \<Rightarrow> 'a \<Rightarrow> bool" where
  "holds P r = P r"

named_theorems shapes \<open>the case distinctions of a command\<close>

lemma holds_shapes [shapes]:
  "(b \<Longrightarrow> holds P x) \<Longrightarrow> (\<not> b \<Longrightarrow> holds P y) \<Longrightarrow> holds P (if b then x else y)"
  "(\<And>e. r = Inl e \<Longrightarrow> holds P (f e)) \<Longrightarrow> (\<And>a. r = Inr a \<Longrightarrow> holds P (g a)) \<Longrightarrow> holds P (case_sum f g r)"
  "(ov = None \<Longrightarrow> holds P x) \<Longrightarrow> (\<And>a. ov = Some a \<Longrightarrow> holds P (k a)) \<Longrightarrow> holds P (case_option x k ov)"
  "(\<And>f' args. m = Message f' args \<Longrightarrow> holds P (k' f' args)) \<Longrightarrow> holds P (case_message k' m)"
  "(\<And>a c. p = (a, c) \<Longrightarrow> holds P (h a c)) \<Longrightarrow> holds P (case_prod h p)"
  "(\<And>a c. q = (a, c) \<Longrightarrow> holds P (l a c t)) \<Longrightarrow> holds P (case_prod l q t)"
  "(w = PortsPanic \<Longrightarrow> holds P x) \<Longrightarrow> (\<And>e. w = PortsErr e \<Longrightarrow> holds P (f e)) \<Longrightarrow> (\<And>a. w = PortsOk a \<Longrightarrow> holds P (g a))
     \<Longrightarrow> holds P (case_port_result f x g w)"
  "(v = Running \<Longrightarrow> holds P x) \<Longrightarrow> (v = Stopped \<Longrightarrow> holds P y) \<Longrightarrow> (v = Unknown \<Longrightarrow> holds P z)
     \<Longrightarrow> holds P (case_vm_liveness x y z v)"
  "(sp = QemuImg \<Longrightarrow> holds P x) \<Longrightarrow> (sp = QmpInternal \<Longrightarrow> holds P y) \<Longrightarrow> (\<And>why. sp = Skip why \<Longrightarrow> holds P (j why))
     \<Longrightarrow> holds P (case_snapshot_plan x y j sp)"
  "(\<And>u' v' w'. rp = Reclaim u' v' w' \<Longrightarrow> holds P (c' u' v' w')) \<Longrightarrow> (\<And>n. rp = Noop n \<Longrightarrow> holds P (d' n))
     \<Longrightarrow> (\<And>n. rp = UnknownMetrics n \<Longrightarrow> holds P (e' n)) \<Longrightarrow> holds P (case_reclaim_plan c' d' e' rp)"
  by (auto split: reclaim_plan.splits sum.splits option.splits message.splits prod.splits port_result.splits vm_liveness.splits snapshot_plan.splits)

lemma holds_try [shapes]:
  "(\<And>m t. r = (Inl m, t) \<Longrightarrow> holds P (err_exit m, t)) \<Longrightarrow> (\<And>a t. r = (Inr a, t) \<Longrightarrow> holds P (k a t)) \<Longrightarrow> holds P (try_exit r k)"
  by (auto simp: try_exit_def split: prod.splits sum.splits)

text \<open>A run of \<^verbatim>\<open>redroid create\<close> that starts anything after the preflight in the guest has consumed the grant.\<close>

definition went_on :: "sys \<Rightarrow> exit \<times> sys \<Rightarrow> bool" where
  "went_on s r \<longleftrightarrow> Suc (length (sy_log s)) < length (sy_log (snd r)) \<or> fst r = exit_ok"

lemma redroid_create_consumes:
  "holds (\<lambda>r. went_on s r \<longrightarrow> (\<exists>claims argv gpu profile reg v t.
      verify_execution_grant_file (bd_crates bd) (bd_serde bd) (bd_keys bd) h (sy_files s) (ra_grant_file ra)
        (ra_vm ra) (ra_name ra) = Inr claims
    \<and> consume_execution_receipt_once (bd_crates bd) h d (eg_jti claims) (snd (run_command h argv s)) = (Inr (), t)
    \<and> load_registry (bd_codec bd) h d (sy_files s) = Inr reg \<and> registry_get (ra_vm ra) reg = Some v
    \<and> r = create_instance bd h d ra gpu profile reg v t)) (cmd_redroid_create bd h d ra s)"
  unfolding cmd_redroid_create_def
  by (intro shapes) (simp_all add: holds_def err_exit_def went_on_def, (metis consume_same_log not_le run_command_log snd_conv)+)

lemma ledger_file_below [simp]: "below (ledger_dir d) (ledger_file cr d jti)"
  by (simp add: ledger_file_def below_join)

text \<open>
  C7: An execution grant starts at most one container on a host. In any history of the state directory,
  once a run of \<^verbatim>\<open>redroid create\<close> under a grant did more than the preflight in the guest, a later run
  under a grant with the same identifier, for whatever instance, does nothing beyond its preflight
  and fails.
\<close>

theorem grant_starts_one_container:
  assumes "codec_law (bd_codec bd)"
    and "\<forall>(h, c) \<in> set (runs @ (h1, RedroidCreate ra1) # runs'). tame_host d h" and "tame_host d h2"
    and "sy_files s0 (registry_path d) = None"
    and "s = node_session bd pf d runs s0" and "r1 = node_main bd pf h1 d (RedroidCreate ra1) s" and "went_on s r1"
    and "t = node_session bd pf d runs' (snd r1)"
    and "verify_execution_grant_file (bd_crates bd) (bd_serde bd) (bd_keys bd) h1 (sy_files s)
       (ra_grant_file ra1) (ra_vm ra1) (ra_name ra1) = Inr claims1"
    and "verify_execution_grant_file (bd_crates bd) (bd_serde bd) (bd_keys bd) h2 (sy_files t)
       (ra_grant_file ra2) (ra_vm ra2) (ra_name ra2) = Inr claims2"
    and "eg_jti claims2 = eg_jti claims1"
  shows "\<not> went_on t (node_main bd pf h2 d (RedroidCreate ra2) t)"
proof
  let ?cd = "bd_codec bd" let ?ledger = "ledger_file (bd_crates bd) d (eg_jti claims1)"
  have hosts: "\<forall>(h, c) \<in> set runs. tame_host d h" "tame_host d h1" "\<forall>(h, c) \<in> set runs'. tame_host d h"
    using assms(2) by auto
  have wf: "stored_wf ?cd d s"
    using good_node_session [OF assms(1) hosts(1), of s0 pf] assms(4,5)
    by (simp add: good_def stored_wf_def stored_def)
  from redroid_create_consumes [where s = s and bd = bd and h = h1 and d = d and ra = ra1] assms(6,7,9)
  obtain argv gpu profile reg v t1 where
    c1: "consume_execution_receipt_once (bd_crates bd) h1 d (eg_jti claims1) (snd (run_command h1 argv s)) = (Inr (), t1)"
    and reg: "load_registry ?cd h1 d (sy_files s) = Inr reg" "registry_get (ra_vm ra1) reg = Some v"
    and r1: "r1 = create_instance bd h1 d ra1 gpu profile reg v t1"
    by (auto simp: holds_def)
  have "good ?cd d t1 (snd r1)" unfolding r1
    using loaded_wf [OF good_refl reg(1) wf] reg(2) by (intro good_create_instance assms(1) hosts(2) good_refl) simp_all
  moreover have "good ?cd d (snd r1) t" unfolding assms(8) by (rule good_node_session [OF assms(1) hosts(3)])
  ultimately have "good ?cd d t1 t" by (rule good_trans)
  then have there: "path_exists (sy_files t) ?ledger"
    using consumed_once [OF c1] by (auto simp: good_def ledger_kept_def)
  assume "went_on t (node_main bd pf h2 d (RedroidCreate ra2) t)"
  with redroid_create_consumes [where s = t and bd = bd and h = h2 and d = d and ra = ra2] assms(10) obtain argv' t2 where
    c2: "consume_execution_receipt_once (bd_crates bd) h2 d (eg_jti claims2) (snd (run_command h2 argv' t)) = (Inr (), t2)"
    by (auto simp: holds_def)
  have "good ?cd d t (snd (run_command h2 argv' t))" by (rule good_run [OF assms(3) good_refl])
  then have "path_exists (sy_files (snd (run_command h2 argv' t))) ?ledger"
    using there by (auto simp: good_def ledger_kept_def)
  with consumed_once [OF c2] assms(11) show False by simp
qed

section \<open>A VM that may be running\<close>

lemma save_registry_log [simp]: "sy_log (snd (save_registry cd h d reg s)) = sy_log s"
proof -
  have *: "sy_log t = sy_log s" if "create_dir_all h d s = (r, t)" for r t
    using file_op_log(1) [of h d s] that by simp
  have w: "sy_log u = sy_log t" if "fs_write h p c t = (r, u)" for r p c t u
    using file_op_log(2) [of h p c t] that by simp
  have m: "sy_log u = sy_log t" if "fs_rename h p q t = (r, u)" for r p q t u
    using file_op_log(3) [of h p q t] that by simp
  show ?thesis
    by (auto simp: save_registry_def Let_def dest!: * w m split: prod.splits sum.splits)
qed

definition qmp_step :: "u16 \<Rightarrow> sys \<Rightarrow> sys \<Rightarrow> bool" where
  "qmp_step port s t \<longleftrightarrow> (\<exists>log. sy_log t = sy_log s @ log \<and> qmp_only port log)"

lemma qmp_step_refl [simp]: "qmp_step port s s"
  by (auto simp: qmp_step_def qmp_only_def)

lemma qmp_step_trans: "qmp_step port s t \<Longrightarrow> qmp_step port t u \<Longrightarrow> qmp_step port s u"
  by (auto simp: qmp_step_def qmp_only_def)

lemma client_command_step:
  "client_command jl h frame c s = (r, c', t) \<Longrightarrow> qmp_step (qc_port c) s t \<and> qc_port c' = qc_port c"
  using client_command_log [of jl h frame c s] by (auto simp: qmp_step_def)

lemma client_connect_step:
  "client_connect jl h port s = (r, t) \<Longrightarrow> qmp_step port s t \<and> (\<forall>c. r = Inr c \<longrightarrow> qc_port c = port)"
  by (auto simp: client_connect_def dest!: client_command_step split: connect_outcome.splits prod.splits sum.splits if_splits)

lemma device_for_disk_step: "device_for_disk jl h port disk s = (r, t) \<Longrightarrow> qmp_step port s t"
  by (auto simp: device_for_disk_def dest!: client_command_step client_connect_step intro: qmp_step_trans
      split: prod.splits sum.splits)

lemma internal_snapshot_step: "internal_snapshot jl h port dev tag s = (r, t) \<Longrightarrow> qmp_step port s t"
  by (auto simp: internal_snapshot_def dest!: client_command_step client_connect_step intro: qmp_step_trans
      split: prod.splits sum.splits)

lemma save_registry_step: "save_registry cd h d reg s = (r, t) \<Longrightarrow> qmp_step port s t"
  using save_registry_log [of cd h d reg s] by (simp add: qmp_step_def qmp_only_def)

lemma register_snapshot_step: "register_snapshot bd h d reg name tag s = (r, t) \<Longrightarrow> qmp_step port s t"
  by (auto simp: register_snapshot_def dest: save_registry_step split: option.splits)

lemma liveness_stopped:
  "probe_vm_liveness h port = Stopped \<longleftrightarrow> probe h port = Refused \<or> probe h port = TimedOut \<and> ho_qemu_process h = Inr False"
  by (cases "probe h port"; cases "ho_qemu_process h")
    (auto simp: probe_vm_liveness_def vm_liveness_from_qmp_probe_with_host_process_check_def)

lemma liveness_running: "probe h port = Answered \<Longrightarrow> probe_vm_liveness h port = Running"
  by (simp add: probe_vm_liveness_def vm_liveness_from_qmp_probe_with_host_process_check_def)


section \<open>Memory reclaim\<close>

lemma add_missing_rows_covers:
  "set rows \<subseteq> set (add_missing_rows None names rows)
   \<and> (\<forall>name \<in> set names. \<exists>row \<in> set (add_missing_rows None names rows). rt_instance row = name
        \<and> (row \<in> set rows \<or> row = unknown_row name))"
proof (induction names arbitrary: rows)
  case (Cons name names)
  show ?case
  proof (cases "list_ex (\<lambda>row. rt_instance row = name) rows")
    case True
    then obtain row where "row \<in> set rows" "rt_instance row = name" by (auto simp: list_ex_iff)
    then show ?thesis using Cons [of rows] True by auto
  next
    case False
    have "rt_instance (unknown_row name) = name" by (simp add: unknown_row_def)
    then show ?thesis using Cons [of "rows @ [unknown_row name]"] False by fastforce
  qed
qed simp

lemma set_insert_row: "set (insert_row r xs) = insert r (set xs)"
  by (induction r xs rule: insert_row.induct) auto

lemma set_sort_rows [simp]: "set (sort_rows rows) = set rows"
  by (induction rows) (simp_all add: sort_rows_def set_insert_row)

text \<open>The frames of a reclaim, in the log.\<close>

definition reclaim_frames :: "json_lib \<Rightarrow> u32 \<Rightarrow> string set" where
  "reclaim_frames jl target_mib =
    {qmp_capabilities_frame, qmp_balloon_frame jl (ucast target_mib * (1024 * 1024)), qmp_query_balloon_frame}"

definition sends :: "u16 \<Rightarrow> string set \<Rightarrow> sys \<Rightarrow> sys \<Rightarrow> bool" where
  "sends port frames s t \<longleftrightarrow> (\<exists>log. sy_log t = sy_log s @ log \<and> set log \<subseteq> QmpSent port ` frames)"

lemma sends_trans: "sends port fr s t \<Longrightarrow> sends port fr t u \<Longrightarrow> sends port fr s u"
  by (auto simp: sends_def)

lemma client_command_sends:
  "client_command jl h frame c s = (r, c', t) \<Longrightarrow> frame \<in> fr \<Longrightarrow> sends (qc_port c) fr s t"
  by (auto simp: client_command_def sends_def Let_def split: option.splits prod.splits)

lemma client_connect_sends:
  "client_connect jl h port s = (r, t) \<Longrightarrow> qmp_capabilities_frame \<in> fr \<Longrightarrow> sends port fr s t"
proof -
  assume a: "client_connect jl h port s = (r, t)" and f: "qmp_capabilities_frame \<in> fr"
  have "sends port fr s s" by (simp add: sends_def)
  moreover have "sends port fr s u" if "client_command jl h qmp_capabilities_frame c s = (q, c', u)" "qc_port c = port" for c q c' u
    using client_command_sends [OF that(1) f] that(2) by simp
  ultimately show ?thesis using a
    by (auto simp: client_connect_def split: connect_outcome.splits prod.splits sum.splits if_splits)
qed

lemma reclaim_memory_sends: "reclaim_memory jl h port target s = (r, t) \<Longrightarrow> sends port (reclaim_frames jl target) s t"
proof -
  assume a: "reclaim_memory jl h port target s = (r, t)"
  let ?fr = "reclaim_frames jl target"
  obtain r1 s1 where c: "client_connect jl h port s = (r1, s1)" by fastforce
  have s1: "sends port ?fr s s1" by (rule client_connect_sends [OF c]) (simp add: reclaim_frames_def)
  show ?thesis
  proof (cases r1)
    case (Inl e)
    then show ?thesis using a c s1 by (simp add: reclaim_memory_def Let_def)
  next
    case (Inr cl)
    then have port: "qc_port cl = port" using client_connect_step [OF c] by simp
    obtain r2 cl2 s2 where b: "client_command jl h (qmp_balloon_frame jl (ucast target * (1024 * 1024))) cl s1 = (r2, cl2, s2)"
      by (metis prod_cases3)
    have s2: "sends port ?fr s1 s2" using client_command_sends [OF b, of ?fr] port by (simp add: reclaim_frames_def)
    have port2: "qc_port cl2 = port" using client_command_step [OF b] port by simp
    obtain r3 cl3 s3 where q: "client_command jl h qmp_query_balloon_frame cl2 s2 = (r3, cl3, s3)" by (metis prod_cases3)
    have s3: "sends port ?fr s2 s3" using client_command_sends [OF q, of ?fr] port2 by (simp add: reclaim_frames_def)
    have "t = s2 \<or> t = s3"
      using a c Inr b q by (auto simp: reclaim_memory_def Let_def split: sum.splits option.splits if_splits)
    then show ?thesis using sends_trans s1 s2 s3 by blast
  qed
qed

lemma load_stats_log: "load_guest_redroid_stats bd pf h d v inst s = (r, t) \<Longrightarrow> \<exists>argv. sy_log t = sy_log s @ [Ran argv] \<or> t = s"
  by (auto simp: load_guest_redroid_stats_def run_command_def split: prod.splits if_splits)

lemma load_stats_rows:
  assumes "load_guest_redroid_stats bd pf h d v None s = (Inr rows, t)" and "inst \<in> fst ` set (ve_adb_assignments v)"
  shows "\<exists>row \<in> set rows. rt_instance row = inst"
proof -
  from assms(1) obtain rows0 where "rows = sort_rows (add_missing_rows None (map fst (ve_adb_assignments v)) rows0)"
    by (auto simp: load_guest_redroid_stats_def and_then_Inr_iff split: prod.splits if_splits)
  then show ?thesis
    using add_missing_rows_covers [of rows0 "map fst (ve_adb_assignments v)"] assms(2) by auto
qed

lemma reclaim_liveness: "memory_reclaim_liveness_error (probe_vm_liveness h port) = None \<Longrightarrow> probe h port = Answered"
  by (cases "probe h port"; cases "ho_qemu_process h")
    (auto simp: probe_vm_liveness_def vm_liveness_from_qmp_probe_with_host_process_check_def split: if_splits)

text \<open>
  C13: A memory reclaim fails closed. When it sends anything over QMP, the node answered; the guest's
  statistics cover every instance of the registry, and every row is of a stopped container or of a running one whose
  memory is known; and the balloon target leaves the running instances what they use plus the
  reserve (768 MiB or 512 MiB for each of them), never goes below 1536 MiB and
  gives back at least 256 MiB.
\<close>

theorem reclaim_fails_closed:
  assumes "load_registry (bd_codec bd) h d (sy_files s) = Inr reg" and "registry_get name reg = Some v"
    and "sy_log (snd (node_main bd pf h d (VmMemoryReclaim name) s)) = sy_log s @ acts" and "QmpSent port frame \<in> set acts"
  shows "\<exists>rows target used active. port = ve_qmp_host_port v \<and> probe h port = Answered
    \<and> frame \<in> {qmp_capabilities_frame, qmp_balloon_frame (bd_json bd) (ucast target * (1024 * 1024)), qmp_query_balloon_frame}
    \<and> fst (load_guest_redroid_stats bd pf h d v None s) = Inr rows
    \<and> plan_memory_reclaim (ve_mem_mib v) rows = Reclaim target used active
    \<and> fst ` set (ve_adb_assignments v) \<subseteq> rt_instance ` set rows \<and> list_all known_row rows
    \<and> max 1536 (sum_list (map row_mib (active_rows rows)) + max 768 (512 * length (active_rows rows))) \<le> unat target
    \<and> unat target + 256 \<le> unat (ve_mem_mib v)"
proof -
  obtain r1 t1 where ld: "load_guest_redroid_stats bd pf h d v None s = (r1, t1)" by fastforce
  obtain argv where t1: "sy_log t1 = sy_log s @ [Ran argv] \<or> t1 = s" using load_stats_log [OF ld] by auto
  have quiet: "QmpSent port frame \<notin> set (drop (length (sy_log s)) (sy_log t1))" using t1 by auto
  have "holds (\<lambda>r. QmpSent port frame \<in> set (drop (length (sy_log s)) (sy_log (snd r))) \<longrightarrow>
      memory_reclaim_liveness_error (probe_vm_liveness h (ve_qmp_host_port v)) = None
      \<and> (\<exists>rows target used active q t. r1 = Inr rows \<and> plan_memory_reclaim (ve_mem_mib v) rows = Reclaim target used active
        \<and> reclaim_memory (bd_json bd) h (ve_qmp_host_port v) target t1 = (q, t) \<and> snd r = t))
    (cmd_vm_memory_reclaim bd pf h d name s)"
    unfolding cmd_vm_memory_reclaim_def Let_def
    by (intro shapes) (use assms(1,2) ld quiet in \<open>simp_all add: holds_def err_exit_def\<close>)
  then obtain rows target used active q t where
    live: "memory_reclaim_liveness_error (probe_vm_liveness h (ve_qmp_host_port v)) = None"
    and rows: "r1 = Inr rows" and plan: "plan_memory_reclaim (ve_mem_mib v) rows = Reclaim target used active"
    and mem: "reclaim_memory (bd_json bd) h (ve_qmp_host_port v) target t1 = (q, t)"
    and t: "snd (node_main bd pf h d (VmMemoryReclaim name) s) = t"
    using assms(3,4) by (auto simp: holds_def)
  obtain acts' where acts': "sy_log t = sy_log t1 @ acts'"
    "set acts' \<subseteq> QmpSent (ve_qmp_host_port v) ` reclaim_frames (bd_json bd) target"
    using reclaim_memory_sends [OF mem] by (auto simp: sends_def)
  have "acts = acts' \<or> acts = Ran argv # acts'" using assms(3) t acts'(1) t1 by auto
  then have "QmpSent port frame \<in> QmpSent (ve_qmp_host_port v) ` reclaim_frames (bd_json bd) target"
    using acts'(2) assms(4) by auto
  then have sent: "port = ve_qmp_host_port v" "frame \<in> reclaim_frames (bd_json bd) target" by auto
  have cover: "fst ` set (ve_adb_assignments v) \<subseteq> rt_instance ` set rows"
    using load_stats_rows [OF ld [unfolded rows]] by (metis (no_types, lifting) image_eqI subsetI)
  show ?thesis
    using sent cover plan reclaim_liveness [OF live] reclaim_target [OF plan] ld rows
    by (intro exI [of _ rows] exI [of _ target] exI [of _ used] exI [of _ active]) (simp add: reclaim_frames_def)
qed

section \<open>The wait for the guest\<close>

declare wait_loop.simps [simp del]

text \<open>A result of the loop names a poll that succeeded.\<close>

definition polled :: "(nat \<Rightarrow> host) \<Rightarrow> string list \<Rightarrow> nat \<Rightarrow> nat \<Rightarrow> nat option \<Rightarrow> bool" where
  "polled hs argv k n r = (case r of
     Some j \<Rightarrow> k \<le> j \<and> j \<le> n \<and> (\<exists>u. ro_success (fst (run_command (hs j) argv u)))
   | None \<Rightarrow> True)"

lemma wait_loop_returns:
  assumes "past n" and "k \<le> n"
  shows "\<exists>r t. wait_loop hs past argv k s = Some (r, t) \<and> polled hs argv k n r"
  using assms(2)
proof (induction "n - k" arbitrary: k s)
  case 0
  then have k: "k = n" by simp
  obtain out s1 where "run_command (hs k) argv s = (out, s1)" by fastforce
  then show ?case using assms(1) k
    by (subst wait_loop.simps) (auto simp: polled_def intro: exI [of _ s])
next
  case (Suc m)
  obtain out s1 where rc: "run_command (hs k) argv s = (out, s1)" by fastforce
  have "\<exists>r t. wait_loop hs past argv (k + 1) s1 = Some (r, t) \<and> polled hs argv (k + 1) n r"
    using Suc by (intro Suc.hyps) simp_all
  moreover have "polled hs argv (k + 1) n r \<Longrightarrow> polled hs argv k n r" for r by (auto simp: polled_def split: option.splits)
  ultimately show ?case using rc Suc.prems
    by (subst wait_loop.simps) (auto simp: polled_def intro: exI [of _ s])
qed

text \<open>
  C34: \<^verbatim>\<open>guest wait\<close> ends: once the deadline has passed for good, it returns after at most that many polls. It
  answers with success only if the VM is registered and a poll of the readiness marker succeeded after one of the
  SSH login did.
\<close>

theorem guest_wait_ends:
  assumes "\<forall>k. n \<le> k \<longrightarrow> past k"
  shows "\<exists>code t. cmd_guest_wait bd hs past d name s = Some (code, t)
    \<and> (code = exit_ok \<longrightarrow> (\<exists>v j k u u'. get_vm bd (hs 0) d name (sy_files s) = Inr v \<and> j < k \<and> k \<le> Suc n
        \<and> ro_success (fst (run_command (hs j) (ssh_cmd_for (hs 0) d v ''true'') u))
        \<and> ro_success (fst (run_command (hs k) (ssh_cmd_for (hs 0) d v cmd_guest_bootstrap_ready) u'))))"
proof (cases "get_vm bd (hs 0) d name (sy_files s)")
  case (Inl m)
  then show ?thesis by (simp add: cmd_guest_wait_def err_exit_def)
next
  case (Inr v)
  obtain r t where l1: "wait_loop hs past (ssh_cmd_for (hs 0) d v ''true'') 0 s = Some (r, t)"
    and p1: "polled hs (ssh_cmd_for (hs 0) d v ''true'') 0 n r"
    using wait_loop_returns [of past n 0] assms by blast
  show ?thesis
  proof (cases r)
    case None
    then show ?thesis using Inr l1 by (simp add: cmd_guest_wait_def err_exit_def)
  next
    case (Some j)
    have j: "j \<le> n" using p1 Some by (simp add: polled_def)
    obtain r' t' where l2: "wait_loop hs past (ssh_cmd_for (hs 0) d v cmd_guest_bootstrap_ready) (j + 1) t = Some (r', t')"
      and p2: "polled hs (ssh_cmd_for (hs 0) d v cmd_guest_bootstrap_ready) (j + 1) (Suc n) r'"
      using wait_loop_returns [of past "Suc n" "j + 1"] assms j by fastforce
    show ?thesis
    proof (cases r')
      case None
      then show ?thesis using Inr l1 l2 Some by (simp add: cmd_guest_wait_def err_exit_def)
    next
      case k: (Some k)
      have "cmd_guest_wait bd hs past d name s = Some (exit_ok, t')"
        using Inr l1 l2 Some k by (simp add: cmd_guest_wait_def)
      moreover have "\<exists>u. ro_success (fst (run_command (hs j) (ssh_cmd_for (hs 0) d v ''true'') u))"
        using p1 Some by (simp add: polled_def)
      moreover have "j < k" "k \<le> Suc n"
        and "\<exists>u'. ro_success (fst (run_command (hs k) (ssh_cmd_for (hs 0) d v cmd_guest_bootstrap_ready) u'))"
        using p2 k by (auto simp: polled_def)
      ultimately show ?thesis using Inr by blast
    qed
  qed
qed

end
