(* ===== verification/Verify_Props.thy ===== *)
theory Verify_Props imports Node_Safety begin

text \<open>
  What a run of \<^verbatim>\<open>verify\<close> does to the node it looks at: the command lines and QMP frames it may use in each state
  of the node, the one file it removes, and what must have been run before it reports success.
\<close>

section \<open>The actions of the checks\<close>

definition check_remotes :: "string \<Rightarrow> string list" where
  "check_remotes inst = [ssh_marker_command, cmd_cat_proc_filesystems, cmd_docker_server_version,
     cmd_docker_exec_getprop (container_name inst) ''sys.boot_completed'']"

definition verify_tag :: "host \<Rightarrow> string" where
  "verify_tag h = ''verify-'' @ dec_string (ho_now h)"

text \<open>The command lines that look: the probe of WHPX, four fixed commands in the guest, and two of adb.\<close>

definition looks :: "host \<Rightarrow> path \<Rightarrow> vm_entry \<Rightarrow> string list \<Rightarrow> bool" where
  "looks h d v argv \<longleftrightarrow> (\<exists>bin. argv = qemu_whpx_probe_command h bin)
     \<or> (\<exists>(inst, port) \<in> set (ve_adb_assignments v). argv \<in> set (map (ssh_cmd_for h d v) (check_remotes inst))
          \<or> argv = adb_connect_command port \<or> argv = adb_getprop_command port ''ro.build.version.release'')"

text \<open>A clone in a new file over the disk, and the snapshot of the disk by \<^verbatim>\<open>qemu-img\<close>.\<close>

definition clones_disk :: "host \<Rightarrow> vm_entry \<Rightarrow> string list \<Rightarrow> bool" where
  "clones_disk h v argv \<longleftrightarrow> (\<exists>bin. argv = qemu_img_create_overlay (ho_sep h) bin (clone_path (ve_disk v) (verify_tag h)) (ve_disk v) None)"

definition snapshots_disk :: "host \<Rightarrow> vm_entry \<Rightarrow> string list \<Rightarrow> bool" where
  "snapshots_disk h v argv \<longleftrightarrow> (\<exists>bin. argv = qemu_img_snapshot_create (ho_sep h) bin (ve_disk v) (verify_tag h)
     \<or> argv = qemu_img_snapshot_delete (ho_sep h) bin (ve_disk v) (verify_tag h))"

definition verify_action :: "host \<Rightarrow> path \<Rightarrow> vm_entry \<Rightarrow> action \<Rightarrow> bool" where
  "verify_action h d v a = (case a of
     Ran argv \<Rightarrow> looks h d v argv \<or> clones_disk h v argv \<and> probe h (ve_qmp_host_port v) \<noteq> TimedOut
       \<or> snapshots_disk h v argv \<and> probe h (ve_qmp_host_port v) = Refused
   | Spawned argv \<Rightarrow> False
   | QmpSent port frame \<Rightarrow> port = ve_qmp_host_port v \<and> probe h (ve_qmp_host_port v) = Answered)"

definition acts :: "host \<Rightarrow> path \<Rightarrow> vm_entry \<Rightarrow> sys \<Rightarrow> action list \<Rightarrow> sys \<Rightarrow> bool" where
  "acts h d v s lg t \<longleftrightarrow> sy_log t = sy_log s @ lg \<and> list_all (verify_action h d v) lg"

lemma looks_probe: "looks h d v (qemu_whpx_probe_command h bin)"
  by (auto simp: looks_def)

lemma looks_instance:
  assumes "(inst, port) \<in> set (ve_adb_assignments v)"
  shows "remote \<in> set (check_remotes inst) \<Longrightarrow> looks h d v (ssh_cmd_for h d v remote)"
    "looks h d v (adb_connect_command port)" "looks h d v (adb_getprop_command port ''ro.build.version.release'')"
  unfolding looks_def by (rule disjI2, rule bexI [OF _ assms], simp)+

lemma looks_action: "looks h d v argv \<Longrightarrow> verify_action h d v (Ran argv)"
  by (simp add: verify_action_def)

lemma acts_append: "acts h d v s l t \<Longrightarrow> acts h d v t m u \<Longrightarrow> acts h d v s (l @ m) u"
  by (simp add: acts_def)

lemma acts_run:
  "run_command h argv s = (out, t) \<Longrightarrow> argv \<noteq> [] \<Longrightarrow> verify_action h d v (Ran argv) \<Longrightarrow> acts h d v s [Ran argv] t"
  by (auto simp: acts_def run_command_def split: prod.splits)

lemma acts_qmp:
  "qmp_step (ve_qmp_host_port v) s t \<Longrightarrow> probe h (ve_qmp_host_port v) = Answered \<Longrightarrow> \<exists>lg. acts h d v s lg t"
  by (force simp: qmp_step_def qmp_only_def acts_def list_all_iff verify_action_def split: action.splits)

lemma argv_nonempty [simp]:
  "qemu_whpx_probe_command h bin \<noteq> []" "ssh_cmd_for h d v cmd \<noteq> []" "adb_connect_command port \<noteq> []"
  "adb_getprop_command port prop \<noteq> []" "qemu_img_snapshot_create sep exe disk tag \<noteq> []"
  "qemu_img_snapshot_delete sep exe disk tag \<noteq> []" "qemu_img_create_overlay sep exe p base sz \<noteq> []"
  by (simp_all add: qemu_whpx_probe_command_def ssh_cmd_for_def ssh_command_def adb_connect_command_def adb_getprop_command_def
      qemu_img_snapshot_create_def qemu_img_snapshot_delete_def qemu_img_create_overlay_def)

section \<open>Each check\<close>

lemma check_whpx_acts:
  assumes "check_whpx h d s = (r, t)"
  shows "\<exists>lg. acts h d v s lg t \<and> (fst r = Pass \<longrightarrow> (\<exists>bin. Ran (qemu_whpx_probe_command h bin) \<in> set lg))"
proof (cases "discover_qemu_bin_with h (Some d) (sy_files s)")
  case None
  then have "acts h d v s [] t" "fst r = Untested" using assms by (auto simp: check_whpx_def acts_def)
  then show ?thesis by auto
next
  case (Some bin)
  then have "acts h d v s [Ran (qemu_whpx_probe_command h bin)] t"
    using assms by (auto simp: check_whpx_def intro!: acts_run looks_action looks_probe split: prod.splits)
  then show ?thesis by (intro exI [of _ "[Ran (qemu_whpx_probe_command h bin)]"]) auto
qed

lemma check_ssh_acts:
  assumes "check_ssh h d v remote judge s = (r, t)" and "(inst, port) \<in> set (ve_adb_assignments v)" and "remote \<in> set (check_remotes inst)"
  shows "acts h d v s [Ran (ssh_cmd_for h d v remote)] t"
  using assms(1) looks_instance(1) [OF assms(2,3)]
  by (auto simp: check_ssh_def ssh_cmd_for_def [symmetric] intro!: acts_run looks_action split: prod.splits)

lemma check_adb_acts:
  assumes "check_adb h port s = (r, t)" and "(inst, port) \<in> set (ve_adb_assignments v)"
  shows "acts h d v s [Ran (adb_connect_command port), Ran (adb_getprop_command port ''ro.build.version.release'')] t"
proof -
  obtain o1 s1 o2 where "run_command h (adb_connect_command port) s = (o1, s1)"
    "run_command h (adb_getprop_command port ''ro.build.version.release'') s1 = (o2, t)"
    using assms(1) by (auto simp: check_adb_def split: prod.splits message.splits)
  moreover have "verify_action h d v (Ran (adb_connect_command port))"
    "verify_action h d v (Ran (adb_getprop_command port ''ro.build.version.release''))"
    using looks_instance(2,3) [OF assms(2)] by (auto intro: looks_action)
  ultimately show ?thesis
    using acts_append [of h d v s "[Ran (adb_connect_command port)]" s1 "[Ran (adb_getprop_command port ''ro.build.version.release'')]" t]
      acts_run by simp
qed

section \<open>The snapshot and the clone\<close>

definition snapshot_taken :: "json_lib \<Rightarrow> host \<Rightarrow> vm_entry \<Rightarrow> action list \<Rightarrow> bool" where
  "snapshot_taken jl h v lg \<longleftrightarrow> (\<exists>bin. Ran (qemu_img_snapshot_create (ho_sep h) bin (ve_disk v) (verify_tag h)) \<in> set lg)
     \<or> (\<exists>dev. QmpSent (ve_qmp_host_port v) (qmp_internal_snapshot_frame jl dev (verify_tag h)) \<in> set lg)"

definition clone_made :: "host \<Rightarrow> vm_entry \<Rightarrow> action list \<Rightarrow> bool" where
  "clone_made h v lg \<longleftrightarrow> (\<exists>argv. clones_disk h v argv \<and> Ran argv \<in> set lg)"

lemma qemu_img_snapshot_acts:
  assumes "timed_qemu_img_snapshot h bin (ve_disk v) (verify_tag h) s = (snap, t)" and "probe h (ve_qmp_host_port v) = Refused"
  shows "\<exists>lg. acts h d v s lg t \<and> snapshot_taken jl h v lg"
proof -
  let ?c = "qemu_img_snapshot_create (ho_sep h) bin (ve_disk v) (verify_tag h)"
  let ?x = "qemu_img_snapshot_delete (ho_sep h) bin (ve_disk v) (verify_tag h)"
  have ok: "verify_action h d v (Ran ?c)" "verify_action h d v (Ran ?x)"
    using assms(2) by (auto simp: verify_action_def snapshots_disk_def)
  obtain out s1 where c: "run_command h ?c s = (out, s1)" by fastforce
  obtain o2 s2 where x: "run_command h ?x s1 = (o2, s2)" by fastforce
  have "acts h d v s [Ran ?c] s1" by (rule acts_run [OF c _ ok(1)]) simp
  moreover have "acts h d v s1 [Ran ?x] s2" by (rule acts_run [OF x _ ok(2)]) simp
  moreover have "t = s1 \<or> t = s2" using assms(1) c x by (auto simp: timed_qemu_img_snapshot_def Let_def split: if_splits)
  ultimately have "acts h d v s [Ran ?c] t \<or> acts h d v s ([Ran ?c] @ [Ran ?x]) t" using acts_append by blast
  moreover have "snapshot_taken jl h v ([Ran ?c] @ m)" for m by (auto simp: snapshot_taken_def)
  ultimately show ?thesis by (metis append_Nil2)
qed

lemma delete_snapshot_step: "delete_internal_snapshot jl h port dev tag s = (r, t) \<Longrightarrow> qmp_step port s t"
  by (auto simp: delete_internal_snapshot_def dest!: client_command_step client_connect_step intro: qmp_step_trans
      split: prod.splits sum.splits)

lemma client_command_sent:
  "client_command jl h frame c s = (Inr reply, c', t) \<Longrightarrow> QmpSent (qc_port c) frame \<in> set (sy_log t)"
  by (auto simp: client_command_def Let_def split: option.splits prod.splits)

lemma internal_snapshot_sent:
  assumes "internal_snapshot jl h port dev tag s = (Inr u, t)"
  shows "\<exists>lg. sy_log t = sy_log s @ lg \<and> qmp_only port lg \<and> QmpSent port (qmp_internal_snapshot_frame jl dev tag) \<in> set lg"
proof -
  obtain c s1 where c: "client_connect jl h port s = (Inr c, s1)"
    using assms by (auto simp: internal_snapshot_def split: prod.splits sum.splits)
  then obtain reply c' where k: "client_command jl h (qmp_internal_snapshot_frame jl dev tag) c s1 = (Inr reply, c', t)"
    using assms by (auto simp: internal_snapshot_def split: prod.splits sum.splits)
  have "qc_port c = port" "qmp_step port s s1" using client_connect_step [OF c] by simp_all
  moreover have "sy_log t = sy_log s1 @ [QmpSent (qc_port c) (qmp_internal_snapshot_frame jl dev tag)]"
    using k by (auto simp: client_command_def Let_def split: option.splits prod.splits)
  ultimately show ?thesis by (auto simp: qmp_step_def qmp_only_def)
qed

lemma qmp_snapshot_acts:
  assumes "timed_qmp_snapshot jl h (ve_qmp_host_port v) dev (verify_tag h) s = (snap, t)"
    and "probe h (ve_qmp_host_port v) = Answered"
  shows "\<exists>lg. acts h d v s lg t \<and> (fst snap \<longrightarrow> snapshot_taken jl h v lg)"
proof -
  let ?p = "ve_qmp_host_port v"
  obtain r s1 where i: "internal_snapshot jl h ?p dev (verify_tag h) s = (r, s1)" by fastforce
  show ?thesis
  proof (cases r)
    case (Inl e)
    then have "t = s1" "\<not> fst snap" using assms(1) i by (auto simp: timed_qmp_snapshot_def)
    then show ?thesis using acts_qmp [OF internal_snapshot_step [OF i] assms(2)] by blast
  next
    case (Inr u)
    obtain lg where l: "sy_log s1 = sy_log s @ lg" "qmp_only ?p lg"
      "QmpSent ?p (qmp_internal_snapshot_frame jl dev (verify_tag h)) \<in> set lg"
      using internal_snapshot_sent i Inr by blast
    have a: "acts h d v s lg s1"
      using l(1,2) assms(2) by (force simp: qmp_only_def acts_def list_all_iff verify_action_def split: action.splits)
    obtain q s2 where x: "delete_internal_snapshot jl h ?p dev (verify_tag h) s1 = (q, s2)" by fastforce
    have "t = s2" using assms(1) i Inr x by (cases q) (auto simp: timed_qmp_snapshot_def)
    then obtain m where "acts h d v s1 m t" using acts_qmp [OF delete_snapshot_step [OF x] assms(2)] by blast
    then have "acts h d v s (lg @ m) t" using acts_append [OF a] by blast
    moreover have "snapshot_taken jl h v (lg @ m)" using l(3) by (auto simp: snapshot_taken_def)
    ultimately show ?thesis by blast
  qed
qed

lemma time_clone_acts:
  assumes "time_clone h bin (ve_disk v) (verify_tag h) how snap s = (r, t)" and "probe h (ve_qmp_host_port v) \<noteq> TimedOut"
  shows "\<exists>lg. acts h d v s lg t \<and> clone_made h v lg \<and> (fst r = Pass \<longrightarrow> fst snap)"
proof -
  let ?argv = "qemu_img_create_overlay (ho_sep h) bin (clone_path (ve_disk v) (verify_tag h)) (ve_disk v) None"
  obtain out s1 where c: "run_command h ?argv s = (out, s1)" by fastforce
  have "clones_disk h v ?argv" by (auto simp: clones_disk_def)
  moreover from this have "acts h d v s [Ran ?argv] s1" using assms(2) by (intro acts_run [OF c]) (simp_all add: verify_action_def)
  moreover have "t = snd (remove_file h (clone_path (ve_disk v) (verify_tag h)) s1)" using assms(1) c by (simp add: time_clone_def Let_def)
  moreover have "fst r = Pass \<longrightarrow> fst snap"
    using assms(1) c by (auto simp: time_clone_def Let_def judge_clone_timing_probe_def split: snapshot_path.splits bool.splits)
  ultimately show ?thesis by (auto simp: acts_def clone_made_def)
qed

lemma clone_timing_acts:
  assumes "run_clone_timing_probe jl h d v s = (r, t)"
  shows "\<exists>lg. acts h d v s lg t \<and> (fst r = Pass \<longrightarrow> snapshot_taken jl h v lg \<and> clone_made h v lg)"
proof (cases "probe h (ve_qmp_host_port v) = TimedOut \<or> discover_qemu_img_with h (Some d) (sy_files s) = None")
  case True
  then have "t = s \<and> fst r = Untested"
    using assms by (cases "probe h (ve_qmp_host_port v)")
      (auto simp: run_clone_timing_probe_def snapshot_plan_for_def judge_clone_timing_skipped_def Let_def)
  then show ?thesis by (intro exI [of _ "[]"]) (simp add: acts_def)
next
  case False
  then obtain img where img: "discover_qemu_img_with h (Some d) (sy_files s) = Some img" by auto
  let ?bin = "display (ho_sep h) img" let ?p = "ve_qmp_host_port v" let ?disk = "display (ho_sep h) (ve_disk v)"
  have both: "\<exists>lg. acts h d v s lg t \<and> (fst r = Pass \<longrightarrow> snapshot_taken jl h v lg \<and> clone_made h v lg)"
    if f: "acts h d v s l u" "fst snap \<longrightarrow> snapshot_taken jl h v l" "time_clone h ?bin (ve_disk v) (verify_tag h) how snap u = (r, t)"
    for l u snap how
  proof -
    obtain m where "acts h d v u m t" "clone_made h v m" "fst r = Pass \<longrightarrow> fst snap"
      using time_clone_acts [OF f(3)] False by blast
    then have "acts h d v s (l @ m) t" "fst r = Pass \<longrightarrow> snapshot_taken jl h v (l @ m) \<and> clone_made h v (l @ m)"
      using acts_append [OF f(1)] f(2) by (auto simp: snapshot_taken_def clone_made_def)
    then show ?thesis by blast
  qed
  show ?thesis
  proof (cases "probe h ?p")
    case Refused
    obtain snap s1 where "timed_qemu_img_snapshot h ?bin (ve_disk v) (verify_tag h) s = (snap, s1)" by fastforce
    moreover from this have "time_clone h ?bin (ve_disk v) (verify_tag h) ByQemuImg snap s1 = (r, t)"
      using assms Refused img by (simp add: run_clone_timing_probe_def snapshot_plan_for_def verify_tag_def Let_def)
    ultimately show ?thesis using qemu_img_snapshot_acts [OF _ Refused] both by blast
  next
    case Answered
    obtain q s1 where q: "device_for_disk jl h ?p ?disk s = (q, s1)" by fastforce
    obtain l where l: "acts h d v s l s1" using acts_qmp [OF device_for_disk_step [OF q] Answered] by blast
    show ?thesis
    proof (cases q)
      case (Inl e)
      then have "t = s1 \<and> fst r = Fail"
        using assms Answered img q by (auto simp: run_clone_timing_probe_def snapshot_plan_for_def Let_def)
      then show ?thesis using l by auto
    next
      case (Inr dev)
      obtain snap s2 where x: "timed_qmp_snapshot jl h ?p dev (verify_tag h) s1 = (snap, s2)" by fastforce
      then have "time_clone h ?bin (ve_disk v) (verify_tag h) ByQmp snap s2 = (r, t)"
        using assms Answered img q Inr by (simp add: run_clone_timing_probe_def snapshot_plan_for_def verify_tag_def Let_def)
      moreover obtain m where "acts h d v s1 m s2" "fst snap \<longrightarrow> snapshot_taken jl h v m"
        using qmp_snapshot_acts [OF x Answered] by blast
      then have "acts h d v s (l @ m) s2" "fst snap \<longrightarrow> snapshot_taken jl h v (l @ m)"
        using acts_append [OF l] by (auto simp: snapshot_taken_def)
      ultimately show ?thesis using both by blast
    qed
  next
    case TimedOut
    then show ?thesis using False by simp
  qed
qed

section \<open>The whole run\<close>

text \<open>Every command of the seven checks of an instance.\<close>

definition all_checked :: "json_lib \<Rightarrow> host \<Rightarrow> path \<Rightarrow> vm_entry \<Rightarrow> string \<Rightarrow> u16 \<Rightarrow> action list \<Rightarrow> bool" where
  "all_checked jl h d v inst port lg \<longleftrightarrow> (\<exists>bin. Ran (qemu_whpx_probe_command h bin) \<in> set lg)
     \<and> list_all (\<lambda>remote. Ran (ssh_cmd_for h d v remote) \<in> set lg) (check_remotes inst)
     \<and> Ran (adb_connect_command port) \<in> set lg \<and> Ran (adb_getprop_command port ''ro.build.version.release'') \<in> set lg
     \<and> snapshot_taken jl h v lg \<and> clone_made h v lg"

lemma run_checks_acts:
  assumes "run_checks jl h d v inst port s = (checks, t)" and a: "(inst, port) \<in> set (ve_adb_assignments v)"
  shows "\<exists>lg. acts h d v s lg t \<and> (list_all (\<lambda>c. vc_verdict c = Pass) checks \<longrightarrow> all_checked jl h d v inst port lg)"
proof -
  obtain r1 s1 where 1: "check_whpx h d s = (r1, s1)" by fastforce
  obtain r2 s2 where 2: "check_ssh h d v ssh_marker_command judge_ssh_reachable s1 = (r2, s2)" by fastforce
  obtain r3 s3 where 3: "check_ssh h d v cmd_cat_proc_filesystems judge_binderfs s2 = (r3, s3)" by fastforce
  obtain r4 s4 where 4: "check_ssh h d v cmd_docker_server_version judge_docker s3 = (r4, s4)" by fastforce
  obtain r5 s5 where 5: "check_ssh h d v (cmd_docker_exec_getprop (container_name inst) ''sys.boot_completed'') judge_boot s4
    = (r5, s5)" by fastforce
  obtain r6 s6 where 6: "check_adb h port s5 = (r6, s6)" by fastforce
  obtain r7 s7 where "run_clone_timing_probe jl h d v s6 = (r7, s7)" by fastforce
  with assms(1) have 7: "run_clone_timing_probe jl h d v s6 = (r7, t)"
    and c: "checks = [spec_check ''whpx'' r1, spec_check ''ssh'' r2, spec_check ''binderfs'' r3, spec_check ''docker'' r4,
       spec_check ''boot-completed'' r5, spec_check ''adb-connect'' r6, spec_check ''clone-timing'' r7]"
    by (simp_all add: run_checks_def 1 2 3 4 5 6)
  note ssh = check_ssh_acts [OF _ a, unfolded check_remotes_def]
  obtain l1 where l1: "acts h d v s l1 s1" "fst r1 = Pass \<longrightarrow> (\<exists>bin. Ran (qemu_whpx_probe_command h bin) \<in> set l1)"
    using check_whpx_acts [OF 1] by blast
  obtain l7 where l7: "acts h d v s6 l7 t" "fst r7 = Pass \<longrightarrow> snapshot_taken jl h v l7 \<and> clone_made h v l7"
    using clone_timing_acts [OF 7] by blast
  let ?mid = "[Ran (ssh_cmd_for h d v ssh_marker_command), Ran (ssh_cmd_for h d v cmd_cat_proc_filesystems),
    Ran (ssh_cmd_for h d v cmd_docker_server_version),
    Ran (ssh_cmd_for h d v (cmd_docker_exec_getprop (container_name inst) ''sys.boot_completed'')),
    Ran (adb_connect_command port), Ran (adb_getprop_command port ''ro.build.version.release'')]"
  have "acts h d v s1 ?mid s6"
    using acts_append [OF ssh [OF 2] acts_append [OF ssh [OF 3] acts_append [OF ssh [OF 4] acts_append [OF ssh [OF 5]
      check_adb_acts [OF 6 a]]]]] by simp
  then have "acts h d v s (l1 @ ?mid @ l7) t" by (rule acts_append [OF l1(1) acts_append [OF _ l7(1)]])
  moreover have "all_checked jl h d v inst port (l1 @ ?mid @ l7)" if "list_all (\<lambda>c. vc_verdict c = Pass) checks"
  proof -
    have "fst r1 = Pass" "fst r7 = Pass" using that by (simp_all add: c spec_check_def)
    then show ?thesis using l1(2) l7(2) by (auto simp: all_checked_def check_remotes_def snapshot_taken_def clone_made_def)
  qed
  ultimately show ?thesis by blast
qed

section \<open>Files\<close>

text \<open>What the tool changes itself: the child processes of a passive host change no file.\<close>

definition passive_host :: "host \<Rightarrow> bool" where
  "passive_host h \<longleftrightarrow> (\<forall>argv fs. snd (ho_run h argv fs) = fs)"

lemma passive_run: "passive_host h \<Longrightarrow> run_command h argv s = (out, t) \<Longrightarrow> sy_files t = sy_files s"
  by (auto simp: run_command_def passive_host_def split: prod.splits if_splits) (metis snd_conv)+

lemma passive_checks:
  assumes "passive_host h"
  shows "check_whpx h d s = (r, t) \<Longrightarrow> sy_files t = sy_files s"
    "check_ssh h d v remote judge s = (r, t) \<Longrightarrow> sy_files t = sy_files s"
    "check_adb h port s = (r, t) \<Longrightarrow> sy_files t = sy_files s"
    "timed_qemu_img_snapshot h bin disk tag s = (q, t) \<Longrightarrow> sy_files t = sy_files s"
  by (auto simp: check_whpx_def check_ssh_def check_adb_def timed_qemu_img_snapshot_def Let_def dest!: passive_run [OF assms]
      split: option.splits prod.splits message.splits if_splits)

lemma qmp_snapshot_files: "timed_qmp_snapshot jl h port dev tag s = (q, t) \<Longrightarrow> sy_files t = sy_files s"
  using qmp_session_files(2) [of jl h port dev tag s] delete_internal_snapshot_files [of jl h port dev tag]
  by (auto simp: timed_qmp_snapshot_def split: prod.splits sum.splits) (metis snd_conv)+

lemma time_clone_files:
  assumes "passive_host h" and "time_clone h bin disk tag how snap s = (r, t)" and "q \<noteq> clone_path disk tag"
  shows "sy_files t q = sy_files s q"
proof -
  let ?argv = "qemu_img_create_overlay (ho_sep h) bin (clone_path disk tag) disk None"
  obtain out s1 where c: "run_command h ?argv s = (out, s1)" by fastforce
  then have "t = snd (remove_file h (clone_path disk tag) s1)" using assms(2) by (simp add: time_clone_def Let_def)
  then have "sy_files t q = sy_files s1 q" using assms(3) by (auto simp: remove_file_def split: option.splits)
  then show ?thesis using passive_run [OF assms(1) c] by simp
qed

lemma clone_timing_files:
  assumes "passive_host h" and "run_clone_timing_probe jl h d v s = (r, t)" and "q \<noteq> clone_path (ve_disk v) (verify_tag h)"
  shows "sy_files t q = sy_files s q"
proof -
  have dev: "device_for_disk jl h port disk s = (x, u) \<Longrightarrow> sy_files u = sy_files s" for port disk x u
    using qmp_session_files(1) [of jl h port disk s] by simp
  note clone = time_clone_files [OF assms(1) _ assms(3), unfolded verify_tag_def]
  show ?thesis
    using assms(2) clone
    by (auto simp: run_clone_timing_probe_def Let_def dest!: passive_checks(4) [OF assms(1)] dev qmp_snapshot_files
        split: snapshot_plan.splits option.splits prod.splits sum.splits)
qed

lemma run_checks_files:
  assumes "passive_host h" and "run_checks jl h d v inst port s = (checks, t)" and "q \<noteq> clone_path (ve_disk v) (verify_tag h)"
  shows "sy_files t q = sy_files s q"
  using assms(2) clone_timing_files [OF assms(1) _ assms(3)]
  by (auto simp: run_checks_def dest!: passive_checks(1-3) [OF assms(1)] split: prod.splits)

section \<open>The property\<close>

lemma untested_not_ok: "finish_verify (untested_report vm container reason) = (3, None)"
  by (simp add: finish_verify_def untested_report_def all_pass_def verify_counts_def CHECK_SPECS_def)

lemma finish_ok: "finish_verify r = exit_ok \<longleftrightarrow> all_pass r"
  by (simp add: finish_verify_def)

text \<open>
  C10: A run of \<^verbatim>\<open>verify\<close> on a registered node starts nothing but the seven checks. While the QMP port of the
  node does not refuse the connection, \<^verbatim>\<open>qemu-img\<close> takes no snapshot of the disk; while it does not
  answer, no QMP frame is sent, and none ever goes to another port; without an answer at all the disk
  is not read either. The tool itself removes no file but its own clone beside the disk. It reports success
  only after every command of the seven checks was run, the snapshot and the clone among them.
\<close>

theorem verify_spares_the_disk:
  assumes "load_registry (bd_codec bd) h d (sy_files s) = Inr reg" and "registry_get name reg = Some v"
    and "r = node_main bd pf h d (RunVerify (Some name) container) s"
  shows "\<exists>lg. sy_log (snd r) = sy_log s @ lg \<and> list_all (verify_action h d v) lg
    \<and> (passive_host h \<longrightarrow> (\<forall>q. q \<noteq> clone_path (ve_disk v) (verify_tag h) \<longrightarrow> sy_files (snd r) q = sy_files s q))
    \<and> (fst r = exit_ok \<longrightarrow> (\<exists>(inst, port) \<in> set (ve_adb_assignments v). all_checked (bd_json bd) h d v inst port lg))"
proof (cases "verify_target v container")
  case (Inl reason)
  then have "r = ((3, None), s)" using assms by (simp add: cmd_verify_def run_verify_def untested_not_ok)
  then show ?thesis by (intro exI [of _ "[]"]) simp
next
  case (Inr a)
  obtain inst port where a: "a = (inst, port)" by fastforce
  have at: "(inst, port) \<in> set (ve_adb_assignments v)"
    using Inr a by (auto simp: verify_target_def split: option.splits list.splits dest: map_of_SomeD)
  obtain checks t where c: "run_checks (bd_json bd) h d v inst port s = (checks, t)" by fastforce
  let ?rep = "\<lparr>vr_vm = name, vr_container = Some inst, vr_checks = checks\<rparr>"
  have r: "r = (finish_verify ?rep, t)" using assms Inr a c by (simp add: cmd_verify_def run_verify_def)
  obtain lg where lg: "acts h d v s lg t" "list_all (\<lambda>c. vc_verdict c = Pass) checks \<longrightarrow> all_checked (bd_json bd) h d v inst port lg"
    using run_checks_acts [OF c at] by blast
  have "fst r = exit_ok \<longrightarrow> all_checked (bd_json bd) h d v inst port lg" using lg(2) by (simp add: r finish_ok all_pass_def)
  moreover have "passive_host h \<longrightarrow> (\<forall>q. q \<noteq> clone_path (ve_disk v) (verify_tag h) \<longrightarrow> sy_files (snd r) q = sy_files s q)"
    using run_checks_files [OF _ c] by (simp add: r)
  moreover have "sy_log (snd r) = sy_log s @ lg \<and> list_all (verify_action h d v) lg" using lg(1) by (simp add: r acts_def)
  ultimately show ?thesis using at by blast
qed

end
