(* ===== verification/Node_Protocol.thy ===== *)
theory Node_Protocol imports Auth_Grants Node_Grants begin

text \<open>
  The authorization service and the node together: what the host requires of a grant and of its
  receipt is met by every grant that the service consumes.
\<close>

lemma verified_by_authority:
  assumes "verify_execution_grant cr sa grant = Inr claims"
  obtains payload sig_bytes sig where "sg_key_id grant = sa_key_id sa"
    and "b64_decode cr (sg_payload grant) = Inr payload" and "b64_decode cr (sg_signature grant) = Inr sig_bytes"
    and "ed25519_signature cr sig_bytes = Inr sig"
    and "ed25519_verify cr (ed25519_public cr (sa_signing_key sa)) payload sig"
    and "grant_claims_from_slice cr payload = Inr claims"
  using assms by (auto simp: verify_execution_grant_def decode_execution_grant_payload_def split: if_splits sum.splits)

lemma not_blank_ne: "\<not> blank s \<Longrightarrow> s \<noteq> []"
  by auto

lemma node_complete:
  assumes "\<not> grant_claims_invalid claims now"
  shows "\<not> node_grant_incomplete claims" and "eg_iss claims = ''rdc-auth''" and "eg_aud claims = ''rdc-guest-runner''"
    and "eg_iat claims < eg_exp claims" and "eg_iat claims \<le> saturating_add_i64 now 300" and "now < eg_exp claims"
    and "saturating_sub_i64 now 300 \<le> eg_iat claims"
  using assms
  by (auto simp: grant_claims_invalid_def node_grant_incomplete_def validate_nonce_def is_err_def
      MAX_NONCE_BYTES_def REQUEST_MAX_AGE_SECS_def MAX_EXECUTION_GRANT_FIELD_BYTES_def valid_execution_action_def split: if_splits)

lemma host_accepts_grant:
  assumes v: "verify_execution_grant cr sa grant = Inr claims" and ok: "\<not> grant_claims_invalid claims now"
    and act: "eg_action claims = ''preset_apply''"
    and ring: "parse_execution_key_ring cr ring = Inr keys"
    and key: "map_of keys (sa_key_id sa) = Some (ed25519_public cr (sa_signing_key sa))"
    and proof_text: "sg_device_proof grant = Some device_proof" "device_proof \<noteq> []"
    and nb: "\<not> blank (sg_payload grant)" "\<not> blank (sg_signature grant)"
    and t: "in_i64 now" "in_i64 t" "now \<le> t" "t < eg_exp claims" "t \<le> eg_iat claims + 300"
  shows "verify_parsed_grant cr (eg_vm claims) (eg_instance claims) t ring grant = Inr claims"
proof -
  from v obtain payload sig_bytes sig where p: "sg_key_id grant = sa_key_id sa"
    "b64_decode cr (sg_payload grant) = Inr payload" "b64_decode cr (sg_signature grant) = Inr sig_bytes"
    "ed25519_signature cr sig_bytes = Inr sig" "ed25519_verify cr (ed25519_public cr (sa_signing_key sa)) payload sig"
    "grant_claims_from_slice cr payload = Inr claims" by (rule verified_by_authority)
  note c = node_complete [OF ok]
  have "\<not> (eg_exp claims \<le> t \<or> eg_iat claims < saturating_sub_i64 t EXECUTION_GRANT_MAX_REQUEST_AGE_SECS
      \<or> eg_iat claims > saturating_add_i64 t 300 \<or> eg_exp claims \<le> eg_iat claims)"
    using c t by (auto simp: sat_defs in_i64_def EXECUTION_GRANT_MAX_REQUEST_AGE_SECS_def)
  then show ?thesis
    using p c act ring key proof_text nb by (simp add: verify_parsed_grant_def decode_grant_base64_def)
qed

lemma host_accepts_receipt:
  assumes laws: "b64_law cr" "ed25519_law cr" "receipt_serde_law cr" and sk: "length (sa_signing_key sa) = 32"
    and r: "receipt_from_str ns receipt_json = Inr (sign_execution_authorization_receipt cr sa rc)"
    and json: "\<not> blank receipt_json" "length receipt_json \<le> 64 * 1024" and kid: "sa_key_id sa \<noteq> []"
    and ring: "parse_execution_key_ring cr ring = Inr keys"
    and key: "map_of keys (sa_key_id sa) = Some (ed25519_public cr (sa_signing_key sa))"
    and i: "in_i64 (rc_iat rc)" "in_i64 (rc_exp rc)"
    and c: "rc_iss rc = ''rdc-auth''" "rc_aud rc = ''rdc-qemu-center''" "\<not> receipt_incomplete rc"
    and t: "\<not> (rc_exp rc \<le> t \<or> rc_iat rc > saturating_add_i64 t 300 \<or> rc_exp rc \<le> rc_iat rc)"
    and m: "receipt_matches_grant rc claims"
  shows "verify_execution_authorization_receipt_with_keys cr ns receipt_json claims t ring = Inr ()"
  using assms
  by (simp add: verify_execution_authorization_receipt_with_keys_def sign_execution_authorization_receipt_def Let_def
      b64_law_def ed25519_law_def receipt_serde_law_def)

text \<open>
  C12: The host accepts what the service accepts. When the service consumed a grant and answered with a
  receipt, then a host whose key ring holds the key of the service accepts the same grant for its VM and
  instance, and the receipt for that grant, during the two minutes after the consumption
  in which the grant has not expired.
\<close>

theorem host_accepts_consumed_grant:
  assumes "b64_law cr" and "ed25519_law cr" and "receipt_serde_law cr"
    and "consume_execution_grant cr clock fs grant s = (Inr receipt, s')" and "now_secs clock = Inr now"
    and "verify_execution_grant cr (ap_authority s) grant = Inr claims" and "eg_action claims = ''preset_apply''"
    and "length (sa_signing_key (ap_authority s)) = 32" and "sa_key_id (ap_authority s) \<noteq> []"
    and "parse_execution_key_ring cr ring = Inr keys"
    and "map_of keys (sa_key_id (ap_authority s)) = Some (ed25519_public cr (sa_signing_key (ap_authority s)))"
    and "\<not> blank (sg_payload grant)" and "\<not> blank (sg_signature grant)" and "sg_device_proof grant \<noteq> Some []"
    and "receipt_from_str ns receipt_json = Inr receipt" and "\<not> blank receipt_json" and "length receipt_json \<le> 64 * 1024"
    and "in_i64 (eg_exp claims)" and "in_i64 t" and "now \<le> t" and "t < min (eg_exp claims) (now + 120)" and "t \<le> eg_iat claims + 300"
  shows "verify_parsed_grant cr (eg_vm claims) (eg_instance claims) t ring grant = Inr claims
    \<and> verify_execution_authorization_receipt_with_keys cr ns receipt_json claims t ring = Inr ()"
proof
  from assms(4) obtain now' claims' a p where c: "now_secs clock = Inr now'"
    "validate_execution_grant_for_artifact cr fs grant now' s = (Inr (claims', a, p), ap_store s)"
    and receipt: "receipt = sign_execution_authorization_receipt cr (ap_authority s)
            \<lparr>rc_iss = ''rdc-auth'', rc_aud = ''rdc-qemu-center'',
             rc_client_id = eg_client_id claims', rc_device_id = eg_device_id claims',
             rc_session_id = eg_session_id claims', rc_client_version = eg_client_version claims',
             rc_artifact_id = eg_artifact_id claims', rc_artifact_sha256 = eg_artifact_sha256 claims',
             rc_action = eg_action claims', rc_vm = eg_vm claims', rc_instance = eg_instance claims',
             rc_grant_jti = eg_jti claims', rc_iat = now',
             rc_exp = min (eg_exp claims') (saturating_add_i64 now' EXECUTION_GRANT_TTL_SECS)\<rparr>"
    by (rule consume_grant_accepted)
  from c(2) obtain device_proof where v: "verify_execution_grant cr (ap_authority s) grant = Inr claims'"
    and ok: "\<not> grant_claims_invalid claims' now'" and proof_text: "sg_device_proof grant = Some device_proof"
    by (rule validate_grant_accepted)
  have eq: "claims' = claims" "now' = now" using v c(1) assms(5,6) by simp_all
  note ok = ok [unfolded eq]
  have now: "in_i64 now" using now_secs_bounds [OF assms(5)] by (simp add: in_i64_def)
  show "verify_parsed_grant cr (eg_vm claims) (eg_instance claims) t ring grant = Inr claims"
    using assms(14) proof_text assms(21)
    by (intro host_accepts_grant [OF assms(6) ok assms(7,10,11) proof_text _ assms(12,13) now assms(19,20) _ assms(22)]) auto
  let ?exp = "min (eg_exp claims) (saturating_add_i64 now EXECUTION_GRANT_TTL_SECS)"
  have e: "in_i64 ?exp" using saturating_range [of now EXECUTION_GRANT_TTL_SECS] assms(18) by (simp add: min_def)
  have tm: "\<not> (?exp \<le> t \<or> now > saturating_add_i64 t 300 \<or> ?exp \<le> now)"
    using assms(18-21) now by (auto simp: sat_defs in_i64_def min_def EXECUTION_GRANT_TTL_SECS_def split: if_splits)
  have nb: "eg_client_id claims \<noteq> []" "eg_device_id claims \<noteq> []" "eg_session_id claims \<noteq> []" "eg_client_version claims \<noteq> []"
    "eg_artifact_id claims \<noteq> []" "eg_vm claims \<noteq> []" "eg_instance claims \<noteq> []" "eg_jti claims \<noteq> []"
    "length (eg_artifact_sha256 claims) = 64" "list_all is_ascii_hexdigit (eg_artifact_sha256 claims)"
    using ok by (auto simp: grant_claims_invalid_def)
  show "verify_execution_authorization_receipt_with_keys cr ns receipt_json claims t ring = Inr ()"
    by (rule host_accepts_receipt [OF assms(1,2,3,8) _ assms(16,17,9,10,11),
        where rc = "\<lparr>rc_iss = ''rdc-auth'', rc_aud = ''rdc-qemu-center'',
             rc_client_id = eg_client_id claims, rc_device_id = eg_device_id claims,
             rc_session_id = eg_session_id claims, rc_client_version = eg_client_version claims,
             rc_artifact_id = eg_artifact_id claims, rc_artifact_sha256 = eg_artifact_sha256 claims,
             rc_action = eg_action claims, rc_vm = eg_vm claims, rc_instance = eg_instance claims,
             rc_grant_jti = eg_jti claims, rc_iat = now, rc_exp = ?exp\<rparr>"])
      (use assms(7,15) receipt now e tm nb in \<open>simp_all add: eq receipt_incomplete_def receipt_matches_grant_def eq_ignore_ascii_case_def\<close>)
qed

end
