(* ===== verification/Fat_Props.thy ===== *)
theory Fat_Props imports Fat begin

text \<open>
  The FAT16 image round trip: a reader of FAT16 volumes with long file names, written from the format, gets back from the image
  that \<^verbatim>\<open>build_fat16_image\<close> builds every file with its long name and its contents. The program has no reader of
  its own; the one here is the reference that the builder is held against.
\<close>

section \<open>A reader\<close>

definition le16_at :: "bytes \<Rightarrow> nat \<Rightarrow> nat" where
  "le16_at buf off = unat (u16_from_le (slice buf off 2))"

definition le32_at :: "bytes \<Rightarrow> nat \<Rightarrow> nat" where
  "le32_at buf off = unat (u32_from_le (slice buf off 4))"

definition u8_at :: "bytes \<Rightarrow> nat \<Rightarrow> nat" where
  "u8_at buf off = nat_from_le (slice buf off 1)"

text \<open>The clusters of a chain, at most \<open>fuel\<close> of them.\<close>

fun fat_chain :: "bytes \<Rightarrow> nat \<Rightarrow> nat \<Rightarrow> nat \<Rightarrow> nat list" where
  "fat_chain img fat 0 c = []"
| "fat_chain img fat (Suc fuel) c = c # (let e = le16_at img (fat + 2 * c) in
     if e \<ge> 0xFFF8 then [] else fat_chain img fat fuel e)"

text \<open>The parts of a long name: sequence number, checksum, units.\<close>

type_synonym lfn_part = "nat \<times> nat \<times> u16 list"

definition lfn_part_of :: "bytes \<Rightarrow> lfn_part" where
  "lfn_part_of e = (u8_at e 0, u8_at e 13,
     map (\<lambda>p. u16_from_le (slice e p 2)) [1, 3, 5, 7, 9, 14, 16, 18, 20, 22, 24, 28, 30])"

text \<open>The parts in front of a short entry make its long name when they are numbered 1 up to the last, which is marked, and carry its checksum.\<close>

definition long_name :: "bytes \<Rightarrow> lfn_part list \<Rightarrow> u16 list option" where
  "long_name short parts = (let n = length parts in
     if 0 < n \<and> map fst parts = [1..<n] @ [64 + n] \<and> list_all (\<lambda>p. fst (snd p) = unat (lfn_checksum short)) parts
     then Some (takeWhile (\<lambda>u. u \<noteq> 0) (concat (map (snd \<circ> snd) parts))) else None)"

text \<open>The files of a list of directory entries; \<open>parts\<close> are the parts of a long name that are still to be matched.\<close>

fun read_dir :: "lfn_part list \<Rightarrow> bytes list \<Rightarrow> (u16 list \<times> bytes) list option" where
  "read_dir parts [] = Some []"
| "read_dir parts (e # es) =
    (if u8_at e 0 = 0 then Some []
     else if u8_at e 11 = 0x0F then read_dir (lfn_part_of e # parts) es
     else if u8_at e 11 \<noteq> 0x20 then read_dir [] es
     else (case long_name (slice e 0 11) parts of
         None \<Rightarrow> None
       | Some units \<Rightarrow> map_option ((#) (units, e)) (read_dir [] es)))"

definition read_content :: "bytes \<Rightarrow> nat \<Rightarrow> nat \<Rightarrow> nat \<Rightarrow> bytes \<Rightarrow> bytes" where
  "read_content img fat data cluster e = (let size = le32_at e 0x1C; first = le16_at e 0x1A in
     if size = 0 then []
     else take size (concat (map (\<lambda>c. slice img (data + (c - 2) * cluster) cluster) (fat_chain img fat 65536 first))))"

text \<open>The long names, the short names and the contents of the files of a volume, from its boot sector on.\<close>

definition read_fat16 :: "bytes \<Rightarrow> (u16 list \<times> bytes \<times> bytes) list option" where
  "read_fat16 img =
    (if u8_at img 0x1FE \<noteq> 0x55 \<or> u8_at img 0x1FF \<noteq> 0xAA then None
     else (let sector = le16_at img 0x0B; cluster = u8_at img 0x0D * sector; fat = le16_at img 0x0E * sector;
               root = fat + u8_at img 0x10 * (le16_at img 0x16 * sector); entries = le16_at img 0x11
           in map_option (map (\<lambda>(units, e). (units, slice e 0 11, read_content img fat (root + entries * 32) cluster e)))
                (read_dir [] (map (\<lambda>i. slice img (root + i * 32) 32) [0..<entries]))))"

section \<open>Slices of lists of writes\<close>

definition clear_of :: "nat \<Rightarrow> nat \<Rightarrow> region \<Rightarrow> bool" where
  "clear_of pos n w \<longleftrightarrow> fst w + length (snd w) \<le> pos \<or> pos + n \<le> fst w"

lemma slice_clear:
  assumes "list_all (in_bounds (length buf)) ws" and "list_all (clear_of pos n) ws"
  shows "slice (apply_writes ws buf) pos n = slice buf pos n"
proof -
  have "apart (pos, replicate n 0) = clear_of pos n" by (rule ext) (auto simp: apart_def clear_of_def)
  then have "list_all (apart (pos, replicate n 0)) ws" using assms(2) by simp
  from slice_apart [OF assms(1) this] show ?thesis by simp
qed

lemma upt_split: "i < n \<Longrightarrow> [0..<n] = [0..<i] @ i # [Suc i..<n]"
  using upt_add_eq_append [of 0 i "n - i"] upt_conv_Cons [of i n] by simp

lemma written_map:
  assumes "i < n" and "\<And>j. i < j \<Longrightarrow> j < n \<Longrightarrow> apart (f i) (f j)"
  shows "written (map f [0..<n]) (fst (f i)) (snd (f i))"
proof -
  note split = upt_split [OF assms(1)]
  then have "map f [0..<n] = map f [0..<i] @ (fst (f i), snd (f i)) # map f [Suc i..<n]" by simp
  moreover have "list_all (apart (fst (f i), snd (f i))) (map f [Suc i..<n])"
    using assms(2) by (auto simp: list_all_iff)
  ultimately show ?thesis unfolding written_def by blast
qed

lemma written_concat:
  assumes "i < n" and "written (g i) pos v" and "\<And>j. i < j \<Longrightarrow> j < n \<Longrightarrow> list_all (apart (pos, v)) (g j)"
  shows "written (concat (map g [0..<n])) pos v"
proof -
  note split = upt_split [OF assms(1)]
  then have "concat (map g [0..<n]) = concat (map g [0..<i]) @ g i @ concat (map g [Suc i..<n])" by (simp add: split)
  moreover have "list_all (apart (pos, v)) (concat (map g [Suc i..<n]))"
    unfolding list_all_iff
  proof
    fix w assume "w \<in> set (concat (map g [Suc i..<n]))"
    then obtain j where "w \<in> set (g j)" "Suc i \<le> j" "j < n" by auto
    then show "apart (pos, v) w" using assms(3) [of j] by (simp add: list_all_iff)
  qed
  ultimately show ?thesis using assms(2) by (simp add: written_append)
qed

section \<open>The layout\<close>

lemma fat_layout [simp]:
  "FAT_START = 2048" "FAT_BYTES = 65536" "ROOT_DIR_START = 133120" "DATA_START = 149504" "CLUSTER_BYTES = 2048"
  "SEED_IMAGE_BYTES = 67108864" "ROOT_ENTRIES = 512" "CLUSTER_COUNT = 32695" "FIRST_DATA_CLUSTER = 2"
  by (simp_all add: layout_simps)

lemma slot_off_eq: "slot_off i = 133120 + i * 32"
  by (simp add: slot_off_def)

lemma cluster_off_eq: "cluster_off c = 149504 + (c - 2) * 2048"
  by (simp add: cluster_off_def)

text \<open>A write that belongs to the slots from \<open>s\<close> up to \<open>s'\<close> and the clusters from \<open>c\<close> up to \<open>c'\<close>.\<close>

definition within :: "nat \<Rightarrow> nat \<Rightarrow> nat \<Rightarrow> nat \<Rightarrow> region \<Rightarrow> bool" where
  "within s s' c c' w \<longleftrightarrow>
    (\<exists>i. s \<le> i \<and> i < s' \<and> fst w = slot_off i \<and> length (snd w) = 32)
    \<or> (\<exists>k. c \<le> k \<and> k < c' \<and> (fst w = 2048 + 2 * k \<or> fst w = 67584 + 2 * k) \<and> length (snd w) = 2)
    \<or> (\<exists>k. c \<le> k \<and> k < c' \<and> fst w = cluster_off k \<and> length (snd w) \<le> 2048)"

lemma withinI:
  "s \<le> i \<Longrightarrow> i < s' \<Longrightarrow> length v = 32 \<Longrightarrow> within s s' c c' (slot_off i, v)"
  "c \<le> k \<Longrightarrow> k < c' \<Longrightarrow> length v = 2 \<Longrightarrow> within s s' c c' (2048 + 2 * k, v)"
  "c \<le> k \<Longrightarrow> k < c' \<Longrightarrow> length v = 2 \<Longrightarrow> within s s' c c' (67584 + 2 * k, v)"
  "c \<le> k \<Longrightarrow> k < c' \<Longrightarrow> length v \<le> 2048 \<Longrightarrow> within s s' c c' (cluster_off k, v)"
  by (auto simp: within_def)

lemma within_bounds: "within s s' c c' w \<Longrightarrow> s' \<le> 512 \<Longrightarrow> 2 \<le> c \<Longrightarrow> c' \<le> 32697 \<Longrightarrow> in_bounds 67108864 w"
  by (auto simp: within_def in_bounds_def slot_off_eq cluster_off_eq)

lemma within_clear_boot: "within s s' c c' w \<Longrightarrow> pos + n \<le> 2048 \<Longrightarrow> clear_of pos n w"
  by (auto simp: within_def clear_of_def slot_off_eq cluster_off_eq)

lemma within_clear_slot:
  assumes "within s s' c c' w" and "i < s \<or> s' \<le> i" and "i < 512" and "2 \<le> c" and "c' \<le> 32697"
  shows "clear_of (slot_off i) 32 w"
  using assms by (auto simp: within_def clear_of_def slot_off_eq cluster_off_eq)

lemma within_clear_fat:
  assumes "within s s' c c' w" and "k < c" and "c \<le> 32697"
  shows "clear_of (2048 + 2 * k) 2 w"
  using assms by (auto simp: within_def clear_of_def slot_off_eq cluster_off_eq)

lemma within_clear_cluster:
  assumes "within s s' c c' w" and "2 \<le> k" and "k < c" and "m \<le> 2048" and "s' \<le> 512" and "c' \<le> 32697"
  shows "clear_of (cluster_off k) m w"
  using assms by (auto simp: within_def clear_of_def slot_off_eq cluster_off_eq)

section \<open>Directory entries\<close>

lemma in_bounds_simps: "list_all (in_bounds n) [] = True"
  "list_all (in_bounds n) (w # ws) = (fst w + length (snd w) \<le> n \<and> list_all (in_bounds n) ws)"
  by (simp_all add: in_bounds_def)

lemma upt13: "[0..<13] = [0, 1, 2, 3, 4, 5, 6, 7, 8, 9, 10, 11, 12 :: nat]"
  by (simp add: upt_rec)

lemma lfn_writes_eq:
  "map (\<lambda>k. (lfn_slot_pos k, u16_to_le (f k))) [0..<13] =
    [(1, u16_to_le (f 0)), (3, u16_to_le (f 1)), (5, u16_to_le (f 2)), (7, u16_to_le (f 3)), (9, u16_to_le (f 4)),
     (14, u16_to_le (f 5)), (16, u16_to_le (f 6)), (18, u16_to_le (f 7)), (20, u16_to_le (f 8)), (22, u16_to_le (f 9)),
     (24, u16_to_le (f 10)), (28, u16_to_le (f 11)), (30, u16_to_le (f 12))]"
  by (simp add: upt13 lfn_slot_pos_def)

lemma lfn_entry_read:
  "length (lfn_entry units cnt chk seq) = 32"
  "slice (lfn_entry units cnt chk seq) 0 1 = [if seq = cnt then or 0x40 (of_nat seq) else of_nat seq]"
  "slice (lfn_entry units cnt chk seq) 11 1 = [0x0F]" "slice (lfn_entry units cnt chk seq) 13 1 = [chk]"
  "map (\<lambda>p. u16_from_le (slice (lfn_entry units cnt chk seq) p 2)) [1, 3, 5, 7, 9, 14, 16, 18, 20, 22, 24, 28, 30]
    = map (\<lambda>k. lfn_unit units ((seq - 1) * 13 + k)) [0..<13]"
proof -
  let ?f = "\<lambda>k. lfn_unit units ((seq - 1) * 13 + k)"
  let ?b = "if seq = cnt then or 0x40 (of_nat seq) else of_nat seq"
  define ws :: "region list" where "ws = [(0, [?b]), (11, [0x0F]), (12, [0]), (13, [chk])] @ map (\<lambda>k. (lfn_slot_pos k, u16_to_le (?f k))) [0..<13]"
  have e: "lfn_entry units cnt chk seq = apply_writes ws (replicate 32 0)" by (simp add: lfn_entry_def ws_def)
  have b: "list_all (in_bounds (length (replicate 32 (0 :: u8)))) ws"
    unfolding ws_def lfn_writes_eq by (simp add: in_bounds_def)
  then show "length (lfn_entry units cnt chk seq) = 32" unfolding e by simp
  have r: "written ws pos v \<Longrightarrow> slice (lfn_entry units cnt chk seq) pos (length v) = v" for pos v
    unfolding e by (rule written_slice [OF _ b])
  have w: "written ws 0 [?b]" "written ws 11 [0x0F]" "written ws 13 [chk]"
    unfolding ws_def lfn_writes_eq by (simp_all add: written_Cons apart_def)
  show "slice (lfn_entry units cnt chk seq) 0 1 = [?b]"
    "slice (lfn_entry units cnt chk seq) 11 1 = [0x0F]" "slice (lfn_entry units cnt chk seq) 13 1 = [chk]"
    using r [OF w(1)] r [OF w(2)] r [OF w(3)] by simp_all
  have "written ws 1 (u16_to_le (?f 0))" "written ws 3 (u16_to_le (?f 1))" "written ws 5 (u16_to_le (?f 2))"
    "written ws 7 (u16_to_le (?f 3))" "written ws 9 (u16_to_le (?f 4))" "written ws 14 (u16_to_le (?f 5))"
    "written ws 16 (u16_to_le (?f 6))" "written ws 18 (u16_to_le (?f 7))" "written ws 20 (u16_to_le (?f 8))"
    "written ws 22 (u16_to_le (?f 9))" "written ws 24 (u16_to_le (?f 10))" "written ws 28 (u16_to_le (?f 11))"
    "written ws 30 (u16_to_le (?f 12))"
    unfolding ws_def lfn_writes_eq by (simp_all add: written_Cons apart_def)
  note u = this [THEN r, simplified]
  show "map (\<lambda>p. u16_from_le (slice (lfn_entry units cnt chk seq) p 2)) [1, 3, 5, 7, 9, 14, 16, 18, 20, 22, 24, 28, 30]
      = map ?f [0..<13]"
    unfolding upt13 by (simp add: u)
qed

lemma dir_entry_read:
  assumes "length (sn_bytes sn) = 11" and "len < 4294967296"
  shows "length (dir_entry sn c len) = 32" "slice (dir_entry sn c len) 0 11 = sn_bytes sn"
    "slice (dir_entry sn c len) 11 1 = [0x20]" "le16_at (dir_entry sn c len) 0x1A = unat c" "le32_at (dir_entry sn c len) 0x1C = len"
proof -
  define ws :: "region list" where "ws = [(0, sn_bytes sn), (11, [0x20 :: u8]), (12, [sn_nt_flags sn]), (0x10, u16_to_le FIXED_DOS_DATE),
       (0x12, u16_to_le FIXED_DOS_DATE), (0x16, u16_to_le FIXED_DOS_TIME), (0x18, u16_to_le FIXED_DOS_DATE),
       (0x1A, u16_to_le c), (0x1C, u32_to_le (of_nat len))]"
  have e: "dir_entry sn c len = apply_writes ws (replicate 32 0)" by (simp add: dir_entry_def ws_def)
  have b: "list_all (in_bounds (length (replicate 32 (0 :: u8)))) ws"
    unfolding ws_def by (simp add: in_bounds_def assms)
  then show "length (dir_entry sn c len) = 32" unfolding e by simp
  have r: "written ws pos v \<Longrightarrow> slice (dir_entry sn c len) pos (length v) = v" for pos v
    unfolding e by (rule written_slice [OF _ b])
  have w: "written ws 0 (sn_bytes sn)" "written ws 11 [0x20]" "written ws 0x1A (u16_to_le c)" "written ws 0x1C (u32_to_le (of_nat len))"
    unfolding ws_def by (simp_all add: written_Cons apart_def assms)
  show "slice (dir_entry sn c len) 0 11 = sn_bytes sn" "slice (dir_entry sn c len) 11 1 = [0x20]"
    "le16_at (dir_entry sn c len) 0x1A = unat c" "le32_at (dir_entry sn c len) 0x1C = len"
    using r [OF w(1)] r [OF w(2)] r [OF w(3)] r [OF w(4)] assms
    by (simp_all add: le16_at_def le32_at_def unat_of_nat take_bit_eq_mod)
qed

section \<open>Reading the entries of one file\<close>

lemma u8_at_slice: "slice e p 1 = [b] \<Longrightarrow> u8_at e p = unat b"
  by (simp add: u8_at_def nat_from_le.simps)

definition lfn_part :: "u16 list \<Rightarrow> nat \<Rightarrow> u8 \<Rightarrow> nat \<Rightarrow> lfn_part" where
  "lfn_part units cnt chk seq = (if seq = cnt then 64 + seq else seq, unat chk, map (\<lambda>k. lfn_unit units ((seq - 1) * 13 + k)) [0..<13])"

lemma sequence_byte: "1 \<le> seq \<Longrightarrow> seq \<le> 20 \<Longrightarrow> unat (or 0x40 (of_nat seq) :: u8) = 64 + seq \<and> unat (of_nat seq :: u8) = seq"
proof -
  assume "1 \<le> seq" "seq \<le> 20"
  then have "seq \<in> set [1..<21]" by simp
  moreover have "list_all (\<lambda>s. unat (or 0x40 (of_nat s) :: u8) = 64 + s \<and> unat (of_nat s :: u8) = s) [1..<21]" by code_simp
  ultimately show ?thesis by (simp add: list_all_iff)
qed

lemma lfn_part_read: "1 \<le> seq \<Longrightarrow> seq \<le> cnt \<Longrightarrow> cnt \<le> 20 \<Longrightarrow> lfn_part_of (lfn_entry units cnt chk seq) = lfn_part units cnt chk seq"
  unfolding lfn_part_of_def lfn_part_def lfn_entry_read(5)
  using sequence_byte [of seq]
  by (cases "seq = cnt") (simp_all add: u8_at_slice [OF lfn_entry_read(2)] u8_at_slice [OF lfn_entry_read(4)])

lemma read_dir_lfn:
  assumes "cnt \<le> 20" and "m \<le> cnt"
  shows "read_dir parts (map (lfn_entry units cnt chk) (rev [1..<Suc m]) @ rest)
    = read_dir (map (lfn_part units cnt chk) [1..<Suc m] @ parts) rest"
  using assms(2)
proof (induction m arbitrary: parts)
  case (Suc m)
  have m: "1 \<le> Suc m" by simp
  have z: "u8_at (lfn_entry units cnt chk (Suc m)) 0 \<noteq> 0"
    using sequence_byte [of "Suc m"] Suc.prems assms(1)
    by (cases "Suc m = cnt") (simp_all add: u8_at_slice [OF lfn_entry_read(2)])
  have z': "u8_at (lfn_entry units cnt chk (Suc m)) 11 = 0x0F"
    using u8_at_slice [OF lfn_entry_read(3)] by simp
  have "[1..<Suc (Suc m)] = [1..<Suc m] @ [Suc m]" by simp
  then show ?case using Suc.IH Suc.prems z z' lfn_part_read [OF m Suc.prems assms(1)] by simp
qed simp

lemma concat_groups: "concat (map (\<lambda>s. map (\<lambda>k. f ((s - 1) * 13 + k)) [0..<13]) [1..<Suc m]) = map f [0..<13 * m]" for f :: "nat \<Rightarrow> 'a"
proof (induction m)
  case (Suc m)
  have "[1..<Suc (Suc m)] = [1..<Suc m] @ [Suc m]" by simp
  moreover have "[0..<13 * Suc m] = [0..<13 * m] @ map (\<lambda>k. 13 * m + k) [0..<13]"
    using upt_add_eq_append [of 0 "13 * m" 13] map_add_upt [of "13 * m" 13] by (simp add: add.commute)
  ultimately show ?case using Suc.IH by (simp add: mult.commute o_def)
qed simp

lemma takeWhile_units:
  assumes "0 \<notin> set units" and "length units \<le> m"
  shows "takeWhile (\<lambda>u. u \<noteq> 0) (map (lfn_unit units) [0..<m]) = units"
proof -
  have a: "map (lfn_unit units) [0..<length units] = units"
    by (rule nth_equalityI) (simp_all add: lfn_unit_def)
  have t: "takeWhile (\<lambda>u. u \<noteq> 0) (units @ us) = units @ takeWhile (\<lambda>u. u \<noteq> 0) us" for us
    using assms(1) by (intro takeWhile_append2) auto
  have t0: "takeWhile (\<lambda>u. u \<noteq> 0) units = units" using t [of "[]"] by simp
  show ?thesis
  proof (cases "length units = m")
    case True
    then have "map (lfn_unit units) [0..<m] = units" using a by simp
    then show ?thesis using t0 by (simp only:)
  next
    case False
    then have "[0..<m] = [0..<length units] @ length units # [Suc (length units)..<m]" using assms(2) by (intro upt_split) simp
    then have "map (lfn_unit units) [0..<m] = units @ 0 # map (lfn_unit units) [Suc (length units)..<m]"
      using a by (simp add: lfn_unit_def)
    then show ?thesis using t by simp
  qed
qed

lemma ceil_mult: "(n :: nat) \<le> (n + k) div Suc k * Suc k"
proof -
  have "(n + k) div Suc k * Suc k + (n + k) mod Suc k = n + k" by (rule div_mult_mod_eq)
  moreover have "(n + k) mod Suc k \<le> k" by (simp add: less_Suc_eq_le [symmetric])
  ultimately show ?thesis by linarith
qed

lemma ceil_pos: "0 < (n :: nat) \<Longrightarrow> 0 < (n + k) div Suc k"
  using ceil_mult [of n k] by (cases "(n + k) div Suc k") auto

lemma long_name_read:
  assumes "0 \<notin> set units" and "units \<noteq> []" and "cnt = (length units + 12) div 13"
  shows "long_name short (map (lfn_part units cnt (lfn_checksum short)) [1..<Suc cnt]) = Some units"
proof -
  have "0 < length units" using assms(2) by simp
  then have n: "0 < cnt" "length units \<le> 13 * cnt" using ceil_mult [of "length units" 12] ceil_pos [of "length units" 12] by (simp_all add: assms(3) mult.commute)
  have "[1..<Suc cnt] = [1..<cnt] @ [cnt]" using n by simp
  then have f: "map fst (map (lfn_part units cnt (lfn_checksum short)) [1..<Suc cnt]) = [1..<cnt] @ [64 + cnt]"
    by (auto simp: lfn_part_def o_def intro: map_idI)
  have "concat (map (snd \<circ> snd) (map (lfn_part units cnt (lfn_checksum short)) [1..<Suc cnt])) = map (lfn_unit units) [0..<13 * cnt]"
    unfolding concat_groups [symmetric] by (simp add: lfn_part_def o_def)
  moreover have "list_all (\<lambda>p. fst (snd p) = unat (lfn_checksum short)) (map (lfn_part units cnt (lfn_checksum short)) [1..<Suc cnt])"
    by (simp add: lfn_part_def list_all_iff)
  ultimately show ?thesis using n f takeWhile_units [OF assms(1) n(2)] by (simp add: long_name_def Let_def del: map_map)
qed

section \<open>Names\<close>

lemma length_pack_short: "length (pack_short base ext) = 11"
  by (simp add: pack_short_def Let_def as_bytes_def)

lemma hd_pack_short: "(base \<noteq> [] \<Longrightarrow> hd base \<noteq> CHR 0x00) \<Longrightarrow> hd (pack_short base ext) \<noteq> 0"
proof (cases base)
  case (Cons c cs)
  assume "base \<noteq> [] \<Longrightarrow> hd base \<noteq> CHR 0x00"
  then have "c \<noteq> CHR 0x00" using Cons by simp
  then have "(of_char c :: u8) \<noteq> 0" using of_char_u8_inject [of c "CHR 0x00"] by simp
  moreover have "take 8 (c # cs) = c # take 7 cs" by (simp add: numeral_eq_Suc)
  ultimately show ?thesis using Cons by (simp add: pack_short_def as_bytes_def Let_def)
next
  case Nil
  have "replicate 8 (32 :: u8) = 32 # replicate 7 32" by (simp add: numeral_eq_Suc)
  then show ?thesis using Nil by (simp add: pack_short_def as_bytes_def Let_def)
qed

lemma sanitized_nonzero: "CHR 0x00 \<notin> set (fst (sanitize_chars s))"
proof (induction s)
  case (Cons c s)
  obtain out lossy low where r: "sanitize_chars s = (out, lossy, low)" by (cases "sanitize_chars s") auto
  have "to_ascii_uppercase_char c \<noteq> CHR 0x00" if "is_ascii_lowercase c"
  proof -
    have "(of_char (to_ascii_uppercase_char c) :: nat) = of_char c - 32"
      using that by (auto simp: to_ascii_uppercase_char_def is_ascii_lowercase_def Let_def intro!: mod_less)
    then show ?thesis using that by (auto simp: is_ascii_lowercase_def)
  qed
  moreover have "c \<noteq> CHR 0x00" if "is_ascii_alphanumeric c \<or> is_ascii_punctuation c"
    using that by (auto simp: is_ascii_alphanumeric_def is_ascii_lowercase_def is_ascii_punctuation_def is_ascii_digit_def Let_def)
  ultimately show ?case using Cons r by (auto simp: Let_def dest: sym)
qed simp

lemma short_tail_ok:
  assumes "short_tail_loop long base ext used tail = Inr bs" and "CHR 0x00 \<notin> set base"
  shows "length bs = 11 \<and> hd bs \<noteq> 0 \<and> bs \<notin> set used"
  using assms
proof (induction long base ext used tail rule: short_tail_loop.induct)
  case (1 long base ext used tail)
  let ?digits = "length (dec_string tail)"
  let ?b = "take (min 6 (8 - (1 + ?digits))) base @ ''~'' @ dec_string tail"
  let ?c = "pack_short ?b ext"
  show ?case
  proof (cases "?c \<notin> set used")
    case True
    have "hd ?b \<noteq> CHR 0x00"
    proof (cases "take (min 6 (8 - (1 + ?digits))) base")
      case (Cons c cs)
      then have "c \<in> set base" by (metis in_set_takeD list.set_intros(1))
      then show ?thesis using "1.prems"(2) Cons by auto
    next
      case Nil
      then show ?thesis by (simp only: append_Nil append_Cons list.sel) simp
    qed
    then have "hd ?c \<noteq> 0" by (intro hd_pack_short)
    moreover have "bs = ?c" using "1.prems"(1) True by (simp add: short_tail_loop.simps [of long] Let_def split: if_splits)
    ultimately show ?thesis using True length_pack_short by simp
  next
    case False
    show ?thesis
    proof (rule "1.IH" [OF refl _ refl refl])
      show "\<not> 6 < ?digits" using "1.prems"(1) by (auto simp: short_tail_loop.simps [of long] Let_def split: if_splits)
      show "\<not> ?c \<notin> set used" using False by simp
      show "short_tail_loop long base ext used (tail + 1) = Inr bs"
        using "1.prems"(1) False by (simp add: short_tail_loop.simps [of long base ext used tail] Let_def split: if_splits)
      show "CHR 0x00 \<notin> set base" by (rule "1.prems"(2))
    qed
  qed
qed

lemma derive_short_ok:
  assumes "derive_short_name long used = Inr (sn, used')"
  shows "length (sn_bytes sn) = 11 \<and> hd (sn_bytes sn) \<noteq> 0 \<and> sn_bytes sn \<notin> set used \<and> used' = sn_bytes sn # used"
proof -
  obtain rb re where r: "split_extension long = (rb, re)" by fastforce
  obtain base bl bw where b: "sanitize_chunk rb = (base, bl, bw)" by (metis prod_cases3)
  obtain ext el ew where e: "sanitize_chunk re = (ext, el, ew)" by (metis prod_cases3)
  have nz: "CHR 0x00 \<notin> set base" using sanitized_nonzero [of rb] b by (simp add: sanitize_chunk_def)
  have "hd (pack_short base ext) \<noteq> 0" by (rule hd_pack_short) (use nz in \<open>cases base; auto\<close>)
  then show ?thesis
    using assms short_tail_ok [OF _ nz] length_pack_short
    by (auto simp: derive_short_name_def r b e Let_def and_then_Inr_iff split: if_splits)
qed

lemma lfn_entries_Inr:
  assumes "lfn_entries name chk = Inr lfn"
  shows "\<exists>cnt. cnt = (length (encode_utf16 name) + 12) div 13 \<and> 0 < cnt \<and> cnt \<le> 20 \<and> encode_utf16 name \<noteq> []
    \<and> lfn = map (lfn_entry (encode_utf16 name) cnt chk) (rev [1..<Suc cnt])"
proof -
  let ?n = "length (encode_utf16 name)"
  have ne: "encode_utf16 name \<noteq> []" and le: "?n \<le> 255"
    and lfn: "lfn = map (lfn_entry (encode_utf16 name) ((?n + 12) div 13) chk) (rev [1..<Suc ((?n + 12) div 13)])"
    using assms by (simp_all add: lfn_entries_def Let_def split: if_splits)
  have "0 < ?n" using ne by simp
  then have "0 < (?n + 12) div 13" "(?n + 12) div 13 \<le> 20" using le ceil_pos [of ?n 12] by (simp_all, linarith?)
  then show ?thesis using ne lfn by blast
qed

text \<open>What the directory holds for one file.\<close>

definition file_entries :: "string \<Rightarrow> short_name \<Rightarrow> u16 \<Rightarrow> nat \<Rightarrow> bytes list" where
  "file_entries name sn first len = (let units = encode_utf16 name; cnt = (length units + 12) div 13 in
     map (lfn_entry units cnt (lfn_checksum (sn_bytes sn))) (rev [1..<Suc cnt]) @ [dir_entry sn first len])"

lemma read_dir_file:
  assumes "length (sn_bytes sn) = 11" and "hd (sn_bytes sn) \<noteq> 0" and "0 \<notin> set (encode_utf16 name)" and "encode_utf16 name \<noteq> []"
    and "length (encode_utf16 name) \<le> 255" and "len < 4294967296"
  shows "read_dir [] (file_entries name sn first len @ rest)
    = map_option ((#) (encode_utf16 name, dir_entry sn first len)) (read_dir [] rest)"
proof -
  let ?units = "encode_utf16 name" let ?cnt = "(length ?units + 12) div 13" let ?e = "dir_entry sn first len"
  have cnt: "?cnt \<le> 20" using assms(5) by simp
  have "slice ?e 0 1 = take 1 (sn_bytes sn)"
    unfolding dir_entry_read(2) [OF assms(1,6), of first, symmetric] by (simp add: slice_def)
  then have "slice ?e 0 1 = [hd (sn_bytes sn)]" using assms(1) by (cases "sn_bytes sn") simp_all
  then have z: "u8_at ?e 0 \<noteq> 0" using assms(2) by (simp add: u8_at_slice unat_eq_zero)
  have a: "u8_at ?e 11 = 0x20" using u8_at_slice [OF dir_entry_read(3) [OF assms(1,6)]] by simp
  show ?thesis
    unfolding file_entries_def Let_def append_assoc read_dir_lfn [OF cnt order_refl]
    by (simp add: z a dir_entry_read(2) [OF assms(1,6)] long_name_read [OF assms(3,4) refl, unfolded One_nat_def] del: upt_Suc)
qed

section \<open>What one file adds to the image\<close>

definition clusters_of :: "bytes \<Rightarrow> nat" where
  "clusters_of content = (length content + 2047) div 2048"

lemma clusters_cover: "length content \<le> clusters_of content * 2048"
  using ceil_mult [of "length content" 2047] by (simp add: clusters_of_def)

lemma clusters_pos: "content \<noteq> [] \<Longrightarrow> 0 < clusters_of content"
  using ceil_pos [of "length content" 2047] by (simp add: clusters_of_def)

definition chunk :: "bytes \<Rightarrow> nat \<Rightarrow> bytes" where
  "chunk content i = take 2048 (drop (i * 2048) content)"

definition chain_value :: "nat \<Rightarrow> nat \<Rightarrow> nat \<Rightarrow> u16" where
  "chain_value first n i = (if i + 1 = n then FAT_ENTRY_EOC else of_nat (first + i + 1))"

definition entry_writes :: "nat \<Rightarrow> bytes list \<Rightarrow> bytes \<Rightarrow> nat \<Rightarrow> bytes \<Rightarrow> region list" where
  "entry_writes slot lfn content first e =
     map (\<lambda>i. (slot_off (slot + i), lfn ! i)) [0..<length lfn]
     @ (if content = [] then [] else chain_writes content first (clusters_of content))
     @ [(slot_off (slot + length lfn), e)]"

text \<open>The image holds the chain and the data of a file.\<close>

definition stored_file :: "bytes \<Rightarrow> nat \<Rightarrow> nat \<Rightarrow> bytes \<Rightarrow> bool" where
  "stored_file img next first content \<longleftrightarrow> content = [] \<or>
    (2 \<le> first \<and> first + clusters_of content \<le> next \<and>
     (\<forall>i < clusters_of content. slice img (2048 + 2 * (first + i)) 2 = u16_to_le (chain_value first (clusters_of content) i)
        \<and> slice img (cluster_off (first + i)) (length (chunk content i)) = chunk content i))"

lemma chain_writes_eq: "chain_writes content first n = concat (map (\<lambda>i.
    [(2048 + 2 * (first + i), u16_to_le (chain_value first n i)), (67584 + 2 * (first + i), u16_to_le (chain_value first n i)),
     (cluster_off (first + i), chunk content i)]) [0..<n])"
  by (simp add: chain_writes_def put_fat_entry_def chain_value_def chunk_def Let_def mult.commute)

lemma entry_writes_within:
  assumes "list_all (\<lambda>e. length e = 32) lfn" and "length e = 32"
  shows "list_all (within slot (slot + length lfn + 1) first (first + clusters_of content)) (entry_writes slot lfn content first e)"
proof -
  have "within slot (slot + length lfn + 1) first (first + clusters_of content) (slot_off (slot + i), lfn ! i)" if "i < length lfn" for i
  proof -
    have "length (lfn ! i) = 32" using assms(1) that by (simp add: list_all_length)
    then show ?thesis using that by (intro withinI) simp_all
  qed
  moreover have "within slot (slot + length lfn + 1) first (first + clusters_of content) w"
    if m: "w \<in> set (chain_writes content first (clusters_of content))" for w
  proof -
    have l: "length (chunk content i) \<le> 2048" for i by (simp add: chunk_def)
    let ?w = "within slot (slot + length lfn + 1) first (first + clusters_of content)"
    have "?w (2048 + 2 * (first + i), u16_to_le v)" "?w (67584 + 2 * (first + i), u16_to_le v)" if "i < clusters_of content" for i v
      using that by (intro withinI; simp)+
    moreover have "?w (cluster_off (first + i), chunk content i)" if "i < clusters_of content" for i
      using that l [of i] by (intro withinI) simp_all
    moreover obtain i where "i \<in> {0..<clusters_of content}" and w: "w \<in> set
        [(2048 + 2 * (first + i), u16_to_le (chain_value first (clusters_of content) i)),
         (67584 + 2 * (first + i), u16_to_le (chain_value first (clusters_of content) i)), (cluster_off (first + i), chunk content i)]"
      using m unfolding chain_writes_eq set_concat set_map set_upt by blast
    moreover have "w = (2048 + 2 * (first + i), u16_to_le (chain_value first (clusters_of content) i))
        \<or> w = (67584 + 2 * (first + i), u16_to_le (chain_value first (clusters_of content) i)) \<or> w = (cluster_off (first + i), chunk content i)"
      using w by (simp only: list.set insert_iff empty_iff simp_thms)
    ultimately show ?thesis by (metis atLeastLessThan_iff)
  qed
  moreover have "within slot (slot + length lfn + 1) first (first + clusters_of content) (slot_off (slot + length lfn), e)"
    using assms(2) by (intro withinI) simp_all
  ultimately show ?thesis by (auto simp: entry_writes_def list_all_iff)
qed

text \<open>Each write of a file is still there after the others.\<close>

lemma entry_writes_slots:
  assumes "list_all (\<lambda>e. length e = 32) lfn" and "length e = 32" and "slot + length lfn < 512" and "2 \<le> first"
    and "first + clusters_of content \<le> 32697" and "i \<le> length lfn"
  shows "written (entry_writes slot lfn content first e) (slot_off (slot + i)) (if i < length lfn then lfn ! i else e)"
proof -
  have l: "length (lfn ! j) = 32" if "j < length lfn" for j using assms(1) that by (simp add: list_all_length)
  have chain: "list_all (apart (slot_off (slot + i), x)) (chain_writes content first (clusters_of content))" if "length x = 32" for x
    using that assms(3-6) unfolding chain_writes_eq list_all_iff
    by (auto simp: apart_def slot_off_eq cluster_off_eq)
  show ?thesis
  proof (cases "i < length lfn")
    case True
    have "written (map (\<lambda>i. (slot_off (slot + i), lfn ! i)) [0..<length lfn]) (slot_off (slot + i)) (lfn ! i)"
      using written_map [OF True, of "\<lambda>i. (slot_off (slot + i), lfn ! i)"] l True by (simp add: apart_def slot_off_eq)
    then show ?thesis using True chain [OF l [OF True]] l [OF True] assms(2)
      by (simp add: entry_writes_def written_append apart_def slot_off_eq)
  next
    case False
    then have "i = length lfn" using assms(6) by simp
    then show ?thesis by (simp add: entry_writes_def written_append written_Cons)
  qed
qed

lemma entry_writes_chain:
  assumes "list_all (\<lambda>e. length e = 32) lfn" and "length e = 32" and "slot + length lfn < 512" and "2 \<le> first"
    and "first + clusters_of content \<le> 32697" and "i < clusters_of content" and "content \<noteq> []"
  shows "written (entry_writes slot lfn content first e) (2048 + 2 * (first + i)) (u16_to_le (chain_value first (clusters_of content) i))"
    and "written (entry_writes slot lfn content first e) (cluster_off (first + i)) (chunk content i)"
proof -
  let ?g = "\<lambda>i. [(2048 + 2 * (first + i), u16_to_le (chain_value first (clusters_of content) i)),
     (67584 + 2 * (first + i), u16_to_le (chain_value first (clusters_of content) i)), (cluster_off (first + i), chunk content i)]"
  have len: "length (chunk content j) \<le> 2048" for j by (simp add: chunk_def)
  have "written (concat (map ?g [0..<clusters_of content])) (2048 + 2 * (first + i)) (u16_to_le (chain_value first (clusters_of content) i))"
    by (rule written_concat [OF assms(6)]) (use assms(4-6) in \<open>auto simp: written_Cons apart_def cluster_off_eq\<close>)
  then show "written (entry_writes slot lfn content first e) (2048 + 2 * (first + i)) (u16_to_le (chain_value first (clusters_of content) i))"
    using assms(2-7) by (simp add: entry_writes_def written_append chain_writes_eq apart_def slot_off_eq)
  have "written (concat (map ?g [0..<clusters_of content])) (cluster_off (first + i)) (chunk content i)"
  proof (rule written_concat [OF assms(6)])
    show "list_all (apart (cluster_off (first + i), chunk content i)) (?g j)" if "i < j" "j < clusters_of content" for j
    proof -
      have "(first + j - 2) * 2048 \<ge> (first + i - 2) * 2048 + 2048" using that assms(4) by (simp add: algebra_simps)
      then show ?thesis using len [of i] assms(4,5) that by (simp add: apart_def cluster_off_eq)
    qed
  qed (simp add: written_Cons)
  then show "written (entry_writes slot lfn content first e) (cluster_off (first + i)) (chunk content i)"
    using assms(2-7) by (simp add: entry_writes_def written_append chain_writes_eq apart_def slot_off_eq cluster_off_eq)
qed

section \<open>Reading a stored file\<close>

lemma chain_value_word:
  "first + n \<le> 32697 \<Longrightarrow> i < n \<Longrightarrow> unat (chain_value first n i) = (if i + 1 = n then 65535 else first + i + 1)"
  by (auto simp: chain_value_def FAT_ENTRY_EOC_def unsigned_of_nat take_bit_nat_eq_self simp del: of_nat_add of_nat_Suc)

lemma fat_chain_read:
  assumes "\<And>i. i < n \<Longrightarrow> slice img (2048 + 2 * (first + i)) 2 = u16_to_le (chain_value first n i)"
    and "first + n \<le> 32697" and "k < n" and "n - k \<le> fuel"
  shows "fat_chain img 2048 fuel (first + k) = [first + k..<first + n]"
  using assms(3,4)
proof (induction fuel arbitrary: k)
  case (Suc fuel)
  have e: "le16_at img (2048 + 2 * (first + k)) = (if k + 1 = n then 65535 else first + k + 1)"
    unfolding le16_at_def assms(1) [OF Suc.prems(1)] u16_from_to_le by (rule chain_value_word [OF assms(2) Suc.prems(1)])
  show ?case
  proof (cases "k + 1 = n")
    case True
    then have "[first + k..<first + n] = [first + k]" by (simp add: upt_rec)
    then show ?thesis using True e by simp
  next
    case False
    then have "[first + k..<first + n] = (first + k) # [first + (k + 1)..<first + n]" using Suc.prems(1) by (simp add: upt_rec)
    moreover have "fat_chain img 2048 fuel (first + (k + 1)) = [first + (k + 1)..<first + n]"
      using Suc.IH [of "k + 1"] Suc.prems False by simp
    moreover have "\<not> 65528 \<le> first + k + 1" using assms(2) Suc.prems(1) by simp
    ultimately show ?thesis using False e by (simp add: Let_def)
  qed
qed simp

lemma content_read:
  assumes "\<And>i. i < n \<Longrightarrow> take (length (chunk content i)) (f i) = chunk content i \<and> length (f i) = 2048"
    and "length content \<le> n * 2048"
  shows "take (length content) (concat (map f [0..<n])) = content"
  using assms
proof (induction n arbitrary: content f)
  case (Suc n)
  have parts: "concat (map f [0..<Suc n]) = f 0 @ concat (map (f \<circ> Suc) [0..<n])"
    by (simp add: map_upt_Suc o_def del: upt_Suc)
  have f0: "take (length (chunk content 0)) (f 0) = chunk content 0" "length (f 0) = 2048" using Suc.prems(1) [of 0] by simp_all
  show ?case
  proof (cases "length content \<le> 2048")
    case True
    then have "chunk content 0 = content" by (simp add: chunk_def)
    then show ?thesis using f0 True by (simp add: parts del: upt_Suc)
  next
    case False
    then have h: "f 0 = take 2048 content" using f0 by (simp add: chunk_def)
    have "chunk (drop 2048 content) i = chunk content (Suc i)" for i by (simp add: chunk_def add.commute)
    then have "take (length (drop 2048 content)) (concat (map (f \<circ> Suc) [0..<n])) = drop 2048 content"
      using Suc.prems by (intro Suc.IH) (simp_all add: le_diff_conv)
    then show ?thesis using False h by (simp add: parts del: upt_Suc)
  qed
qed simp

lemma chunk_take: "length img = 67108864 \<Longrightarrow> 2 \<le> c \<Longrightarrow> c < 32697 \<Longrightarrow> slice img (cluster_off c) (length (chunk content i)) = chunk content i
  \<Longrightarrow> take (length (chunk content i)) (slice img (149504 + (c - 2) * 2048) 2048) = chunk content i
    \<and> length (slice img (149504 + (c - 2) * 2048) 2048) = 2048"
  by (simp add: cluster_off_eq slice_def chunk_def)

lemma read_stored:
  assumes "stored_file img next first content" and "next \<le> 32697" and "length img = 67108864"
    and "le32_at e 0x1C = length content" and "content \<noteq> [] \<Longrightarrow> le16_at e 0x1A = first"
  shows "read_content img 2048 149504 2048 e = content"
proof (cases "content = []")
  case False
  let ?n = "clusters_of content"
  have st: "2 \<le> first" "first + ?n \<le> 32697"
    "\<And>i. i < ?n \<Longrightarrow> slice img (2048 + 2 * (first + i)) 2 = u16_to_le (chain_value first ?n i)"
    "\<And>i. i < ?n \<Longrightarrow> slice img (cluster_off (first + i)) (length (chunk content i)) = chunk content i"
    using assms(1,2) False by (auto simp: stored_file_def)
  have n: "0 < ?n" "length content \<le> ?n * 2048"
    using False clusters_pos [of content] clusters_cover [of content] by simp_all
  have chain: "fat_chain img 2048 65536 first = [first..<first + ?n]"
    using fat_chain_read [of ?n img first 0 65536] st n by simp
  have "take (length content) (concat (map (\<lambda>i. slice img (149504 + (first + i - 2) * 2048) 2048) [0..<?n])) = content"
  proof (rule content_read [OF _ n(2)])
    fix i assume "i < ?n"
    then show "take (length (chunk content i)) (slice img (149504 + (first + i - 2) * 2048) 2048) = chunk content i
        \<and> length (slice img (149504 + (first + i - 2) * 2048) 2048) = 2048"
      using chunk_take [OF assms(3), of "first + i" content i] st(1,2,4) by simp
  qed
  moreover have "[first..<first + ?n] = map (\<lambda>i. first + i) [0..<?n]" using map_add_upt [of first ?n] by (simp add: add.commute)
  ultimately show ?thesis using False assms(4,5) chain by (simp add: read_content_def Let_def o_def)
qed (use assms(4) in \<open>simp add: read_content_def\<close>)

section \<open>The state of the builder\<close>

type_synonym fat_file = "string \<times> bytes \<times> short_name \<times> nat"

definition entries_of :: "fat_file \<Rightarrow> bytes list" where
  "entries_of = (\<lambda>(name, content, sn, first). file_entries name sn (of_nat first) (length content))"

definition file_of :: "fat_file \<Rightarrow> string \<times> bytes" where
  "file_of = (\<lambda>(name, content, sn, first). (name, content))"

definition short_of :: "fat_file \<Rightarrow> bytes" where
  "short_of = (\<lambda>(name, content, sn, first). sn_bytes sn)"

definition file_ok :: "bytes \<Rightarrow> nat \<Rightarrow> fat_file \<Rightarrow> bool" where
  "file_ok img next = (\<lambda>(name, content, sn, first).
     stored_file img next first content \<and> first < 32697 \<and> length (sn_bytes sn) = 11 \<and> hd (sn_bytes sn) \<noteq> 0
     \<and> encode_utf16 name \<noteq> [] \<and> length (encode_utf16 name) \<le> 255 \<and> length content < 4294967296)"

definition boot_ok :: "bytes \<Rightarrow> bool" where
  "boot_ok img \<longleftrightarrow> slice img 0x1FE 1 = [0x55] \<and> slice img 0x1FF 1 = [0xAA] \<and> slice img 0x0B 2 = u16_to_le 512
    \<and> slice img 0x0D 1 = [4] \<and> slice img 0x0E 2 = u16_to_le 4 \<and> slice img 0x10 1 = [2] \<and> slice img 0x11 2 = u16_to_le 512
    \<and> slice img 0x16 2 = u16_to_le 128"

definition slots :: "bytes \<Rightarrow> nat \<Rightarrow> nat \<Rightarrow> bytes list" where
  "slots img a b = map (\<lambda>i. slice img (slot_off i) 32) [a..<b]"

definition image_ok :: "bytes \<Rightarrow> nat \<Rightarrow> nat \<Rightarrow> fat_file list \<Rightarrow> bool" where
  "image_ok img slot next recs \<longleftrightarrow> length img = 67108864 \<and> boot_ok img \<and> 1 \<le> slot \<and> slot \<le> 512 \<and> 2 \<le> next \<and> next \<le> 32697
    \<and> slots img 0 slot = label_entry # concat (map entries_of recs)
    \<and> slots img slot 512 = replicate (512 - slot) (replicate 32 0) \<and> list_all (file_ok img next) recs"

definition image_of :: "fat_builder \<Rightarrow> bytes" where
  "image_of b = apply_writes (fb_writes b) (replicate 67108864 0)"

definition builder_ok :: "fat_builder \<Rightarrow> fat_file list \<Rightarrow> bool" where
  "builder_ok b recs \<longleftrightarrow> list_all (in_bounds 67108864) (fb_writes b)
    \<and> image_ok (image_of b) (fb_root_slot b) (fb_next_cluster b) recs
    \<and> fb_used_short b = rev (map short_of recs) \<and> distinct (fb_used_short b)"

lemma slots_kept:
  assumes "list_all (in_bounds (length img)) ws" and "\<And>i. a \<le> i \<Longrightarrow> i < b \<Longrightarrow> list_all (clear_of (slot_off i) 32) ws"
  shows "slots (apply_writes ws img) a b = slots img a b"
  using slice_clear [OF assms(1)] assms(2) by (simp add: slots_def)

lemma slots_split: "a \<le> b \<Longrightarrow> b \<le> c \<Longrightarrow> slots img a c = slots img a b @ slots img b c"
  using upt_add_eq_append [of a b "c - b"] by (simp add: slots_def flip: map_append)

text \<open>The writes of one file lead from one good image to the next.\<close>

lemma image_ok_file:
  assumes ok: "image_ok img slot next recs" and w: "list_all (\<lambda>e. length e = 32) lfn" "length e = 32"
    and room: "slot + 1 + length lfn \<le> 512" "next + clusters_of content \<le> 32697"
    and entries: "entries_of (name, content, sn, first) = lfn @ [e]"
    and first: "first = (if content = [] then 0 else next)"
    and file_facts: "length (sn_bytes sn) = 11" "hd (sn_bytes sn) \<noteq> 0" "encode_utf16 name \<noteq> []" "length (encode_utf16 name) \<le> 255"
  shows "list_all (in_bounds 67108864) (entry_writes slot lfn content next e)
    \<and> image_ok (apply_writes (entry_writes slot lfn content next e) img) (slot + length lfn + 1) (next + clusters_of content)
        (recs @ [(name, content, sn, first)])"
proof -
  let ?ws = "entry_writes slot lfn content next e" let ?img = "apply_writes ?ws img"
  let ?s = "slot + length lfn + 1" let ?n = "next + clusters_of content"
  have i: "length img = 67108864" "boot_ok img" "1 \<le> slot" "2 \<le> next" "slots img 0 slot = label_entry # concat (map entries_of recs)"
    "slots img slot 512 = replicate (512 - slot) (replicate 32 0)" "list_all (file_ok img next) recs"
    using ok by (simp_all add: image_ok_def)
  have wi: "list_all (within slot ?s next ?n) ?ws" using entry_writes_within [OF w] by simp
  have b: "list_all (in_bounds 67108864) ?ws"
    using wi within_bounds [of slot ?s "next" ?n] room i(4) by (auto simp: list_all_iff)
  then have bi: "list_all (in_bounds (length img)) ?ws" using i(1) by simp
  have len: "length ?img = 67108864" using bi i(1) by simp
  have boot: "slice ?img p n = slice img p n" if "p + n \<le> 2048" for p n
    using wi within_clear_boot [OF _ that] by (intro slice_clear [OF bi]) (auto simp: list_all_iff)
  have s1: "slots ?img 0 slot = slots img 0 slot"
    by (rule slots_kept [OF bi]) (use wi within_clear_slot [of slot ?s "next" ?n] room i(4) in \<open>auto simp: list_all_iff\<close>)
  have s3: "slots ?img ?s 512 = slots img ?s 512"
    by (rule slots_kept [OF bi]) (use wi within_clear_slot [of slot ?s "next" ?n] room i(4) in \<open>auto simp: list_all_iff\<close>)
  have s2: "slots ?img slot ?s = lfn @ [e]"
  proof (rule nth_equalityI)
    show "length (slots ?img slot ?s) = length (lfn @ [e])" by (simp add: slots_def)
    fix j assume "j < length (slots ?img slot ?s)"
    then have j: "j \<le> length lfn" by (simp add: slots_def)
    have "slice ?img (slot_off (slot + j)) (length (if j < length lfn then lfn ! j else e)) = (if j < length lfn then lfn ! j else e)"
      using written_slice [OF entry_writes_slots [OF w _ i(4) room(2) j] bi] room by simp
    moreover have "length (if j < length lfn then lfn ! j else e) = 32" using w by (simp add: list_all_length)
    ultimately have "slice ?img (slot_off (slot + j)) 32 = (if j < length lfn then lfn ! j else e)" by simp
    moreover have "(lfn @ [e]) ! j = (if j < length lfn then lfn ! j else e)" using j by (auto simp: nth_append)
    moreover have "slots ?img slot ?s ! j = slice ?img (slot_off (slot + j)) 32"
      using j by (simp add: slots_def del: upt_Suc)
    ultimately show "slots ?img slot ?s ! j = (lfn @ [e]) ! j" by (simp only:)
  qed
  have zeros: "slots img ?s 512 = replicate (512 - ?s) (replicate 32 0)"
  proof -
    have "slots img ?s 512 = drop (length lfn + 1) (slots img slot 512)" by (simp add: slots_def drop_map)
    then show ?thesis by (simp add: i(6))
  qed
  have "slots ?img 0 ?s = label_entry # concat (map entries_of (recs @ [(name, content, sn, first)]))"
    using slots_split [of 0 slot ?s ?img] s1 s2 i(5) entries by simp
  moreover have "list_all (file_ok ?img ?n) recs"
  proof -
    have "stored_file ?img ?n f c" if "stored_file img next f c" for f c
    proof -
      have "slice ?img (2048 + 2 * (f + i)) 2 = slice img (2048 + 2 * (f + i)) 2" if "f + i < next" for i
        using wi within_clear_fat [of slot ?s "next" ?n _ "f + i"] that room by (intro slice_clear [OF bi]) (auto simp: list_all_iff)
      moreover have "slice ?img (cluster_off k) m = slice img (cluster_off k) m" if "2 \<le> k" "k < next" "m \<le> 2048" for k m
        using wi within_clear_cluster [of slot ?s "next" ?n _ k m] that room by (intro slice_clear [OF bi]) (auto simp: list_all_iff)
      moreover have "length (chunk c i) \<le> 2048" for i by (simp add: chunk_def)
      ultimately show ?thesis using that by (auto simp: stored_file_def)
    qed
    then show ?thesis using i(7) by (auto simp: list_all_iff file_ok_def)
  qed
  moreover have "file_ok ?img ?n (name, content, sn, first)"
  proof -
    have "stored_file ?img ?n first content"
    proof (cases "content = []")
      case False
      have "slice ?img (2048 + 2 * (next + j)) 2 = u16_to_le (chain_value next (clusters_of content) j)"
        "slice ?img (cluster_off (next + j)) (length (chunk content j)) = chunk content j" if "j < clusters_of content" for j
        using written_slice [OF entry_writes_chain(1) [OF w _ i(4) room(2) that False] bi]
          written_slice [OF entry_writes_chain(2) [OF w _ i(4) room(2) that False] bi] room by simp_all
      then show ?thesis using False i(4) first by (simp add: stored_file_def)
    qed (simp add: stored_file_def)
    moreover have "length content \<le> clusters_of content * 2048" by (rule clusters_cover)
    moreover have "0 < clusters_of content" if "content \<noteq> []" using that by (rule clusters_pos)
    ultimately show ?thesis using file_facts room first by (auto simp: file_ok_def)
  qed
  ultimately show ?thesis using b len i(2-4) room boot s3 zeros by (auto simp: image_ok_def boot_ok_def)
qed

lemma length_file_entries:
  "length (sn_bytes sn) = 11 \<Longrightarrow> len < 4294967296 \<Longrightarrow> list_all (\<lambda>e. length e = 32) (file_entries name sn first len)"
  by (simp add: file_entries_def Let_def list_all_iff lfn_entry_read(1) dir_entry_read(1))

lemma builder_ok_add:
  assumes "add_file (name, content) b = Inr b'" and ok: "builder_ok b recs"
  shows "\<exists>sn first. builder_ok b' (recs @ [(name, content, sn, first)])"
proof -
  from assms(1) obtain sn used lfn where d: "derive_short_name name (fb_used_short b) = Inr (sn, used)"
    and l: "lfn_entries name (lfn_checksum (sn_bytes sn)) = Inr lfn"
    by (auto simp: add_file_def and_then_Inr_iff)
  let ?n = "clusters_of content" let ?next = "fb_next_cluster b" let ?first = "if content = [] then 0 else ?next"
  let ?e = "dir_entry sn (of_nat ?first) (length content)"
  have n: "(length content + CLUSTER_BYTES - 1) div CLUSTER_BYTES = ?n" "content = [] \<Longrightarrow> ?n = 0" by (simp_all add: clusters_of_def)
  have room: "fb_root_slot b + 1 + length lfn \<le> 512" "content \<noteq> [] \<Longrightarrow> ?next + ?n \<le> 32697"
    using assms(1) d l n(1) by (auto simp: add_file_def Let_def split: if_splits)
  have b': "b' = \<lparr>fb_writes = fb_writes b @ entry_writes (fb_root_slot b) lfn content ?next ?e, fb_used_short = used,
      fb_root_slot = fb_root_slot b + length lfn + 1, fb_next_cluster = ?next + ?n\<rparr>"
    using assms(1) d l n room by (auto simp: add_file_def Let_def entry_writes_def split: if_splits)
  note short = derive_short_ok [OF d]
  from lfn_entries_Inr [OF l] obtain cnt where cnt: "cnt = (length (encode_utf16 name) + 12) div 13" "cnt \<le> 20" "encode_utf16 name \<noteq> []"
    "lfn = map (lfn_entry (encode_utf16 name) cnt (lfn_checksum (sn_bytes sn))) (rev [1..<Suc cnt])" by blast
  have le: "length (encode_utf16 name) \<le> 255" using l by (simp add: lfn_entries_def Let_def split: if_splits)
  have img: "image_ok (image_of b) (fb_root_slot b) ?next recs" and used: "distinct (fb_used_short b)"
    "fb_used_short b = rev (map short_of recs)" and bounds: "list_all (in_bounds 67108864) (fb_writes b)"
    using ok unfolding builder_ok_def by blast+
  have next_le: "?next + ?n \<le> 32697" using room(2) n(2) img by (cases "content = []") (simp_all add: image_ok_def)
  have "length content \<le> ?n * 2048" by (rule clusters_cover)
  then have small: "length content < 4294967296" using next_le by linarith
  have "list_all (\<lambda>e. length e = 32) lfn" by (simp add: cnt(4) list_all_iff lfn_entry_read(1))
  moreover have "length ?e = 32" using short small by (simp add: dir_entry_read(1))
  moreover have "entries_of (name, content, sn, ?first) = lfn @ [?e]"
    by (simp add: entries_of_def file_entries_def Let_def cnt(1,4))
  ultimately have step: "list_all (in_bounds 67108864) (entry_writes (fb_root_slot b) lfn content ?next ?e)"
    "image_ok (apply_writes (entry_writes (fb_root_slot b) lfn content ?next ?e) (image_of b)) (fb_root_slot b + length lfn + 1)
      (?next + ?n) (recs @ [(name, content, sn, ?first)])"
    using image_ok_file [OF img, of lfn ?e content name sn ?first] room(1) next_le short cnt(3) le by blast+
  have "builder_ok b' (recs @ [(name, content, sn, ?first)])"
    unfolding builder_ok_def using step bounds short used by (simp add: b' image_of_def short_of_def)
  then show ?thesis by blast
qed

lemma builder_ok_files:
  "add_files files b = Inr b' \<Longrightarrow> builder_ok b recs \<Longrightarrow>
    \<exists>more. builder_ok b' (recs @ more) \<and> map file_of more = files"
proof (induction files arbitrary: b recs)
  case (Cons f files)
  obtain name content where f: "f = (name, content)" by fastforce
  from Cons.prems(1) obtain b1 where b1: "add_file (name, content) b = Inr b1" "add_files files b1 = Inr b'"
    by (auto simp: f and_then_Inr_iff)
  from builder_ok_add [OF b1(1) Cons.prems(2)] obtain sn first where ok: "builder_ok b1 (recs @ [(name, content, sn, first)])" by blast
  from Cons.IH [OF b1(2) this] obtain more where "builder_ok b' ((recs @ [(name, content, sn, first)]) @ more)"
    "map file_of more = files" by blast
  then show ?case by (intro exI [of _ "(name, content, sn, first) # more"]) (simp add: f file_of_def)
qed (auto intro: exI [of _ "[]"])

lemma slice_zeros: "p + n \<le> m \<Longrightarrow> slice (replicate m 0) p n = replicate n 0"
  by (simp add: slice_def)

lemma builder_ok_empty: "builder_ok empty_builder []"
proof -
  let ?ws = "fb_writes empty_builder"
  have ws: "?ws = boot_sector_writes @ put_fat_entry 0 FAT_ENTRY_MEDIA @ put_fat_entry 1 FAT_ENTRY_EOC @ [(133120, label_entry)]"
    by (simp add: empty_builder_def)
  have lbl: "length label_entry = 32"
    unfolding label_entry_def by (subst length_apply_writes) (simp_all add: in_bounds_def VOLUME_LABEL_11_def as_bytes_def)
  have b: "list_all (in_bounds 67108864) ?ws"
    unfolding ws by (simp add: boot_sector_writes_def put_fat_entry_def in_bounds_def lbl OEM_NAME_8_def VOLUME_LABEL_11_def
        FS_TYPE_8_def as_bytes_def Let_def)
  then have bz: "list_all (in_bounds (length (replicate 67108864 (0 :: u8)))) ?ws" by simp
  have r: "written ?ws p v \<Longrightarrow> slice (image_of empty_builder) p (length v) = v" for p v
    unfolding image_of_def by (rule written_slice [OF _ bz])
  have w: "written ?ws 0x1FE [0x55]" "written ?ws 0x1FF [0xAA]" "written ?ws 0x0B (u16_to_le 512)" "written ?ws 0x0D [4]"
    "written ?ws 0x0E (u16_to_le 4)" "written ?ws 0x10 [2]" "written ?ws 0x11 (u16_to_le 512)" "written ?ws 0x16 (u16_to_le 128)"
    "written ?ws 133120 label_entry"
    unfolding ws by (simp_all add: boot_sector_writes_def put_fat_entry_def written_append written_Cons apart_def lbl OEM_NAME_8_def
        VOLUME_LABEL_11_def FS_TYPE_8_def as_bytes_def Let_def layout_simps)
  have "boot_ok (image_of empty_builder)"
    using r [OF w(1)] r [OF w(2)] r [OF w(3)] r [OF w(4)] r [OF w(5)] r [OF w(6)] r [OF w(7)] r [OF w(8)] by (simp add: boot_ok_def)
  moreover have "slots (image_of empty_builder) 0 1 = [label_entry]"
    using r [OF w(9)] lbl by (simp add: slots_def slot_off_eq)
  moreover have "slots (image_of empty_builder) 1 512 = replicate 511 (replicate 32 0)"
  proof -
    have "slots (image_of empty_builder) 1 512 = slots (replicate 67108864 0) 1 512"
      unfolding image_of_def
    proof (rule slots_kept [OF bz])
      fix i :: nat assume "1 \<le> i" "i < 512"
      then show "list_all (clear_of (slot_off i) 32) ?ws"
        unfolding ws by (simp add: boot_sector_writes_def put_fat_entry_def clear_of_def slot_off_eq lbl OEM_NAME_8_def VOLUME_LABEL_11_def
            FS_TYPE_8_def as_bytes_def Let_def)
    qed
    also have "\<dots> = map (\<lambda>i. replicate 32 0) [1..<512]"
      unfolding slots_def by (rule map_cong [OF refl]) (simp add: slice_zeros slot_off_eq)
    also have "\<dots> = replicate 511 (replicate 32 0)" unfolding map_replicate_const by simp
    finally show ?thesis .
  qed
  moreover have "length (image_of empty_builder) = 67108864" using bz by (simp add: image_of_def)
  moreover have "fb_root_slot empty_builder = 1" "fb_next_cluster empty_builder = 2" "fb_used_short empty_builder = []"
    by (simp_all add: empty_builder_def)
  ultimately show ?thesis using b by (simp add: builder_ok_def image_ok_def)
qed

section \<open>The round trip\<close>

lemma read_dir_entries:
  assumes "list_all (file_ok img next) recs" and "\<And>f. f \<in> set recs \<Longrightarrow> 0 \<notin> set (encode_utf16 (fst (file_of f)))"
  shows "read_dir [] (concat (map entries_of recs) @ rest)
    = map_option ((@) (map (\<lambda>f. (encode_utf16 (fst (file_of f)), last (entries_of f))) recs)) (read_dir [] rest)"
  using assms
proof (induction recs)
  case Nil
  then show ?case by (cases "read_dir [] rest") simp_all
next
  case (Cons f recs)
  obtain name content sn first where f: "f = (name, content, sn, first)" by (cases f) auto
  have ok: "length (sn_bytes sn) = 11" "hd (sn_bytes sn) \<noteq> 0" "encode_utf16 name \<noteq> []" "length (encode_utf16 name) \<le> 255"
    "length content < 4294967296" using Cons.prems(1) by (simp_all add: f file_ok_def)
  have z: "0 \<notin> set (encode_utf16 name)" using Cons.prems(2) [of f] by (simp add: f file_of_def)
  have last: "last (entries_of f) = dir_entry sn (of_nat first) (length content)"
    by (simp add: f entries_of_def file_entries_def Let_def)
  have "read_dir [] (entries_of f @ (concat (map entries_of recs) @ rest))
      = map_option ((#) (encode_utf16 name, last (entries_of f))) (read_dir [] (concat (map entries_of recs) @ rest))"
    unfolding last using read_dir_file [OF ok(1,2) z ok(3-5)] by (simp add: f entries_of_def)
  then show ?case using Cons by (simp add: f file_of_def option.map_comp o_def)
qed

lemma read_dir_zeros: "read_dir parts (replicate n (replicate 32 0)) = Some []"
proof (cases n)
  case (Suc m)
  have "slice (replicate 32 (0 :: u8)) 0 1 = [0]" by (simp add: slice_zeros)
  then show ?thesis using Suc by (simp add: u8_at_slice)
qed simp

lemma read_label: "read_dir [] (label_entry # es) = read_dir [] es"
proof -
  define ws :: "region list" where "ws = [(0, as_bytes VOLUME_LABEL_11), (11, [0x08 :: u8])]"
  have e: "label_entry = apply_writes ws (replicate 32 0)" by (simp add: label_entry_def ws_def)
  have b: "list_all (in_bounds (length (replicate 32 (0 :: u8)))) ws"
    unfolding ws_def by (simp add: in_bounds_def VOLUME_LABEL_11_def as_bytes_def)
  have vl: "length (as_bytes VOLUME_LABEL_11) = 11" by (simp add: VOLUME_LABEL_11_def as_bytes_def)
  have "written ws 0 (as_bytes VOLUME_LABEL_11)" "written ws 11 [0x08]"
    unfolding ws_def by (simp_all add: written_Cons apart_def VOLUME_LABEL_11_def as_bytes_def)
  from this [THEN written_slice, OF b]
  have s: "slice label_entry 0 11 = as_bytes VOLUME_LABEL_11" "slice label_entry 11 1 = [8]"
    using vl by (simp_all add: e)
  have "slice label_entry 0 1 = take 1 (slice label_entry 0 11)" by (simp add: slice_def)
  then have "slice label_entry 0 1 = [67]" unfolding s(1) by (simp add: VOLUME_LABEL_11_def as_bytes_def)
  then show ?thesis using s(2) by (simp add: u8_at_slice)
qed

text \<open>
  C35: The seed image can be read back. For every list of files that \<^verbatim>\<open>build_fat16_image\<close> accepts, a FAT16 reader finds
  in the image, which has the fixed size, exactly these files in their order, each under its long name, under a short name of its
  own and with its contents byte for byte. (A name without the UTF-16 unit 0, as every name without a NUL
  character has none.)
\<close>

theorem seed_image_roundtrip:
  assumes "build_fat16_image files = Inr img" and "\<forall>(name, content) \<in> set files. 0 \<notin> set (encode_utf16 name)"
  shows "length img = SEED_IMAGE_BYTES
    \<and> (\<exists>shorts. distinct shorts \<and> length shorts = length files
        \<and> read_fat16 img = Some (map2 (\<lambda>(name, content) short. (encode_utf16 name, short, content)) files shorts))"
proof -
  from assms(1) obtain b where b: "add_files files empty_builder = Inr b" and img: "img = image_of b"
    by (auto simp: build_fat16_image_def and_then_Inr_iff image_of_def)
  from builder_ok_files [OF b builder_ok_empty] obtain recs where ok: "builder_ok b recs" and files: "map file_of recs = files" by auto
  let ?slot = "fb_root_slot b" let ?next = "fb_next_cluster b"
  have i: "image_ok img ?slot ?next recs" and used: "distinct (map short_of recs)"
    using ok unfolding builder_ok_def img by (blast, metis distinct_rev)
  then have len: "length img = 67108864" and boot: "boot_ok img" and slot: "?slot \<le> 512" and next_le: "?next \<le> 32697"
    and dir: "slots img 0 ?slot = label_entry # concat (map entries_of recs)"
    and rest: "slots img ?slot 512 = replicate (512 - ?slot) (replicate 32 0)" and recs: "list_all (file_ok img ?next) recs"
    by (simp_all add: image_ok_def)
  have nz: "0 \<notin> set (encode_utf16 (fst (file_of f)))" if "f \<in> set recs" for f
    using assms(2) that unfolding files [symmetric] by (auto simp: case_prod_beta)
  have "slots img 0 512 = label_entry # concat (map entries_of recs) @ replicate (512 - ?slot) (replicate 32 0)"
    using slots_split [of 0 ?slot 512 img] slot dir rest by simp
  then have r: "read_dir [] (slots img 0 512) = Some (map (\<lambda>f. (encode_utf16 (fst (file_of f)), last (entries_of f))) recs)"
    using read_dir_entries [OF recs nz] by (simp add: read_label read_dir_zeros del: read_dir.simps)
  have each: "(encode_utf16 (fst (file_of f)), slice (last (entries_of f)) 0 11, read_content img 2048 149504 2048 (last (entries_of f)))
      = (encode_utf16 (fst (file_of f)), short_of f, snd (file_of f))" if "f \<in> set recs" for f
  proof -
    obtain name content sn first where f: "f = (name, content, sn, first)" by (cases f) auto
    have k: "stored_file img ?next first content" "first < 32697" "length (sn_bytes sn) = 11" "length content < 4294967296"
      using recs that by (auto simp: f list_all_iff file_ok_def)
    let ?e = "dir_entry sn (of_nat first) (length content)"
    have e: "last (entries_of f) = ?e" by (simp add: f entries_of_def file_entries_def Let_def)
    have "unat (of_nat first :: u16) = first" using k(2) by (simp add: unsigned_of_nat take_bit_nat_eq_self)
    then show ?thesis unfolding e
      using read_stored [OF k(1) next_le len] dir_entry_read [OF k(3,4), of "of_nat first"]
      by (simp add: f file_of_def short_of_def)
  qed
  have "read_fat16 img = Some (map (\<lambda>f. (encode_utf16 (fst (file_of f)), short_of f, snd (file_of f))) recs)"
  proof -
    have "map (\<lambda>i. slice img (133120 + i * 32) 32) [0..<512] = slots img 0 512" by (simp add: slots_def slot_off_eq)
    then show ?thesis using boot r each by (simp add: read_fat16_def boot_ok_def u8_at_slice le16_at_def Let_def)
  qed
  also have "map (\<lambda>f. (encode_utf16 (fst (file_of f)), short_of f, snd (file_of f))) recs
      = map2 (\<lambda>(name, content) short. (encode_utf16 name, short, content)) files (map short_of recs)"
    unfolding files [symmetric] by (simp add: zip_map_map zip_same_conv_map case_prod_beta)
  finally show ?thesis using used len files by (intro conjI exI [of _ "map short_of recs"]) auto
qed

end
