(* ===== verification/Seed_Demo.thy ===== *)
theory Seed_Demo imports Node Fat_Props begin

text \<open>
  The seed image of a small configuration exists: the short names and the long-name entries of its three files
  are evaluated, their contents are only bounded.
\<close>

definition demo_cfg :: cloud_init_config where
  "demo_cfg = \<lparr>ci_hostname = ''v'', ci_ssh_pubkey = ''k'', ci_docker_install = ''apt''\<rparr>"

lemma demo_short_names:
  "derive_short_name ''user-data'' [] = Inr (\<lparr>sn_bytes = as_bytes ''USER-D~1   '', sn_nt_flags = 8\<rparr>, [as_bytes ''USER-D~1   ''])"
  by code_simp

lemma demo_short_names2:
  "derive_short_name ''meta-data'' [as_bytes ''USER-D~1   ''] =
     Inr (\<lparr>sn_bytes = as_bytes ''META-D~1   '', sn_nt_flags = 8\<rparr>, [as_bytes ''META-D~1   '', as_bytes ''USER-D~1   ''])"
  by code_simp

lemma demo_short_names3:
  "derive_short_name ''network-config'' [as_bytes ''META-D~1   '', as_bytes ''USER-D~1   ''] =
     Inr (\<lparr>sn_bytes = as_bytes ''NETWOR~1   '', sn_nt_flags = 8\<rparr>,
       [as_bytes ''NETWOR~1   '', as_bytes ''META-D~1   '', as_bytes ''USER-D~1   ''])"
  by code_simp

lemma ascii_units: "list_all (\<lambda>c. (of_char c :: nat) < 128) cs \<Longrightarrow> length (encode_utf16 cs) = length cs"
  by (induction cs) (simp_all add: Let_def units_of_def)

lemma lfn_ok:
  assumes "CHR 0x00 \<notin> set long" and "CHR ''/'' \<notin> set long" and "list_all (\<lambda>c. (of_char c :: nat) < 128) long" and "length long = n" and "0 < n" and "n \<le> 255"
  shows "\<exists>l. lfn_entries long cs = Inr l \<and> length l = (n + 12) div 13"
proof -
  have n: "length (encode_utf16 long) = n" using ascii_units assms(3,4) by simp
  then have "encode_utf16 long \<noteq> []" using assms(5) by (metis length_0_conv less_irrefl)
  then show ?thesis using assms n by (simp add: lfn_entries_def Let_def)
qed

lemma add_file_ok:
  assumes "derive_short_name name (fb_used_short b) = Inr (sn, used)"
    and "\<And>cs. \<exists>l. lfn_entries name cs = Inr l \<and> length l = k"
    and "fb_root_slot b + 1 + k \<le> 512" and "length content \<le> 20480" and "fb_next_cluster b \<le> 30000"
  shows "\<exists>b'. add_file (name, content) b = Inr b' \<and> fb_used_short b' = used
    \<and> fb_root_slot b' = fb_root_slot b + k + 1 \<and> fb_next_cluster b' \<le> fb_next_cluster b + 10"
proof -
  obtain l where l: "lfn_entries name (lfn_checksum (sn_bytes sn)) = Inr l" "length l = k" using assms(2) by blast
  have n: "(length content + CLUSTER_BYTES - 1) div CLUSTER_BYTES \<le> 10"
    using assms(4) by (simp add: layout_simps)
  then have "\<not> (content \<noteq> [] \<and> fb_next_cluster b + (length content + CLUSTER_BYTES - 1) div CLUSTER_BYTES > CLUSTER_COUNT + FIRST_DATA_CLUSTER)"
    using assms(5) by (simp add: CLUSTER_COUNT_eq FIRST_DATA_CLUSTER_def)
  then show ?thesis
    using assms(1,3) l n by (simp add: add_file_def Let_def ROOT_ENTRIES_def)
qed

lemma concat_bound: "list_all (\<lambda>x. length (f x) \<le> n) xs \<Longrightarrow> length xs \<le> k \<Longrightarrow> length (concat (map f xs)) \<le> k * n"
proof -
  assume "list_all (\<lambda>x. length (f x) \<le> n) xs" "length xs \<le> k"
  then have "length (concat (map f xs)) \<le> length xs * n" by (induction xs) simp_all
  then show ?thesis using \<open>length xs \<le> k\<close> by (meson le_trans mult_le_mono1)
qed

lemma demo_lines: "list_all (\<lambda>l. length (yaml_single_quoted l) \<le> 100) (runcmd_lines demo_cfg)"
  by code_simp

lemma demo_lines_count: "length (runcmd_lines demo_cfg) \<le> 20"
  by code_simp

lemma demo_key: "trim (ci_ssh_pubkey demo_cfg) = ''k''"
  by code_simp

lemma demo_user_data: "length (render_user_data demo_cfg) \<le> 20480"
proof -
  have "length (concat (map (\<lambda>l. ''  - '' @ yaml_single_quoted l @ NL) (runcmd_lines demo_cfg))) \<le> 20 * 110"
    using demo_lines by (intro concat_bound demo_lines_count) (auto simp: list_all_iff)
  then show ?thesis
    unfolding render_user_data_def Let_def demo_key
    by (simp only: length_append list.size if_True not_Cons_self) (simp add: demo_cfg_def)
qed

lemma demo_meta_data: "length (render_meta_data demo_cfg) \<le> 20480"
  unfolding render_meta_data_def demo_cfg_def by simp

lemma demo_network_config: "length (render_network_config demo_cfg) \<le> 20480"
  unfolding render_network_config_def by simp

lemma demo_contents:
  "length (as_bytes (render_user_data demo_cfg)) \<le> 20480" "length (as_bytes (render_meta_data demo_cfg)) \<le> 20480"
  "length (as_bytes (render_network_config demo_cfg)) \<le> 20480"
  unfolding as_bytes_def length_map by (fact demo_user_data demo_meta_data demo_network_config)+

lemma demo_seed: "\<exists>img. build_fat16_image (seed_image_files demo_cfg) = Inr img"
proof -
  let ?b0 = empty_builder
  have b0: "fb_used_short ?b0 = []" "fb_root_slot ?b0 = 1" "fb_next_cluster ?b0 = 2"
    by (simp_all add: empty_builder_def FIRST_DATA_CLUSTER_def)
  have l1: "\<exists>l. lfn_entries ''user-data'' cs = Inr l \<and> length l = 1" for cs
    using lfn_ok [of "''user-data''" 9 cs] by simp
  have l2: "\<exists>l. lfn_entries ''meta-data'' cs = Inr l \<and> length l = 1" for cs
    using lfn_ok [of "''meta-data''" 9 cs] by simp
  have l3: "\<exists>l. lfn_entries ''network-config'' cs = Inr l \<and> length l = 2" for cs
    using lfn_ok [of "''network-config''" 14 cs] by simp
  have s1: "derive_short_name ''user-data'' (fb_used_short ?b0)
      = Inr (\<lparr>sn_bytes = as_bytes ''USER-D~1   '', sn_nt_flags = 8\<rparr>, [as_bytes ''USER-D~1   ''])"
    unfolding b0 by (rule demo_short_names)
  obtain b1 where b1: "add_file (''user-data'', as_bytes (render_user_data demo_cfg)) ?b0 = Inr b1"
    "fb_used_short b1 = [as_bytes ''USER-D~1   '']" "fb_root_slot b1 = 1 + 1 + 1" "fb_next_cluster b1 \<le> 2 + 10"
    using add_file_ok [OF s1 l1 _ demo_contents(1), unfolded b0] by auto
  have s2: "derive_short_name ''meta-data'' (fb_used_short b1) =
     Inr (\<lparr>sn_bytes = as_bytes ''META-D~1   '', sn_nt_flags = 8\<rparr>, [as_bytes ''META-D~1   '', as_bytes ''USER-D~1   ''])"
    unfolding b1(2) by (rule demo_short_names2)
  obtain b2 where b2: "add_file (''meta-data'', as_bytes (render_meta_data demo_cfg)) b1 = Inr b2"
    "fb_used_short b2 = [as_bytes ''META-D~1   '', as_bytes ''USER-D~1   '']"
    "fb_root_slot b2 = 3 + 1 + 1" "fb_next_cluster b2 \<le> fb_next_cluster b1 + 10"
    using add_file_ok [OF s2 l2 _ demo_contents(2), unfolded b1(3)] b1(4) by auto
  have s3: "derive_short_name ''network-config'' (fb_used_short b2) =
     Inr (\<lparr>sn_bytes = as_bytes ''NETWOR~1   '', sn_nt_flags = 8\<rparr>,
       [as_bytes ''NETWOR~1   '', as_bytes ''META-D~1   '', as_bytes ''USER-D~1   ''])"
    unfolding b2(2) by (rule demo_short_names3)
  obtain b3 where b3: "add_file (''network-config'', as_bytes (render_network_config demo_cfg)) b2 = Inr b3"
    using add_file_ok [OF s3 l3 _ demo_contents(3), unfolded b2(3)] b1(4) b2(4) by auto
  show ?thesis
    by (simp only: build_fat16_image_def seed_image_files_def seed_dir_files_def add_files.simps b1(1) b2(1) b3
        and_then_simps) blast
qed

lemma ascii_no_zero: "list_all (\<lambda>c. 0 < (of_char c :: nat) \<and> (of_char c :: nat) < 128) cs \<Longrightarrow> 0 \<notin> set (encode_utf16 cs)"
proof (induction cs)
  case (Cons c cs)
  then have "(of_nat (of_char c) :: u16) \<noteq> 0" by (simp add: word_of_nat_eq_0_iff nat_dvd_not_less del: of_nat_of_char)
  then show ?case using Cons by (simp add: Let_def units_of_def del: of_nat_of_char)
qed simp

theorem seed_image_roundtrip_witness:
  "\<exists>img shorts. build_fat16_image (seed_image_files demo_cfg) = Inr img \<and> length img = SEED_IMAGE_BYTES
    \<and> length shorts = 3 \<and> distinct shorts
    \<and> read_fat16 img = Some (map2 (\<lambda>(name, content) short. (encode_utf16 name, short, content)) (seed_image_files demo_cfg) shorts)"
proof -
  obtain img where img: "build_fat16_image (seed_image_files demo_cfg) = Inr img" using demo_seed by blast
  have "0 \<notin> set (encode_utf16 ''user-data'')" "0 \<notin> set (encode_utf16 ''meta-data'')" "0 \<notin> set (encode_utf16 ''network-config'')"
    by (rule ascii_no_zero, simp)+
  then have "\<forall>(name, content) \<in> set (seed_image_files demo_cfg). 0 \<notin> set (encode_utf16 name)"
    by (simp add: seed_image_files_def seed_dir_files_def del: encode_utf16.simps)
  from seed_image_roundtrip [OF img this] obtain shorts where "length img = SEED_IMAGE_BYTES" "distinct shorts"
    "length shorts = length (seed_image_files demo_cfg)"
    "read_fat16 img = Some (map2 (\<lambda>(name, content) short. (encode_utf16 name, short, content)) (seed_image_files demo_cfg) shorts)"
    by blast
  moreover have "length (seed_image_files demo_cfg) = 3" by (simp add: seed_image_files_def seed_dir_files_def)
  ultimately show ?thesis using img by metis
qed

end
