(* ===== verification/Node_Demo.thy ===== *)
theory Node_Demo imports Verify_Props Node_Protocol Auth_Demo Seed_Demo begin

text \<open>
  A concrete host and state directory on which the properties of the node commands are applied: a node is
  created in an empty state directory, and an instance is started on it under the grant of the
  service's own concrete run.
\<close>

section \<open>The grant on the host\<close>

definition demo_ring :: string where
  "demo_ring = ''k1='' @ replicate 32 (CHR ''B'')"

lemma demo_ring_parts:
  "split_char (CHR '','') demo_ring = [demo_ring]"
  "split_once ''='' (trim demo_ring) = Some (''k1'', replicate 32 (CHR ''B''))"
  "trim (replicate 32 (CHR ''B'')) = replicate 32 (CHR ''B'')" "\<not> blank (replicate 32 (CHR ''B''))" "trim ''k1'' = ''k1''"
  by code_simp+

lemma demo_ring_keys: "parse_execution_key_ring demo_crates demo_ring = Inr [(''k1'', replicate 32 66)]"
  by (simp add: parse_execution_key_ring_def demo_ring_parts decode_grant_base64_def as_bytes_def)

lemma demo_key_found:
  "map_of [(''k1'', replicate 32 66)] (sa_key_id demo_authority) = Some (ed25519_public demo_crates (sa_signing_key demo_authority))"
  by (simp add: demo_authority_def)

lemma demo_claims_sel [simp]:
  "eg_vm demo_claims = ''v''" "eg_instance demo_claims = ''i''" "eg_action demo_claims = ''preset_apply''"
  "eg_iat demo_claims = 1000" "eg_exp demo_claims = 1120" "eg_jti demo_claims = ''j9''"
  by (simp_all add: demo_claims_def)

lemma demo_claims_valid: "\<not> grant_claims_invalid demo_claims 1060"
  by (simp add: demo_claims_def grant_claims_invalid_def valid_execution_action_def MAX_NONCE_BYTES_def saturating_add_i64_def
      saturating_sub_i64_def clamp_i64_def i64_min_def i64_max_def REQUEST_MAX_AGE_SECS_def)

lemma demo_head: "demo_text (66 # bs) = CHR ''B'' # demo_text bs" "demo_text (123 # bs) = CHR ''{'' # demo_text bs"
proof -
  have "char_of (of_char CHR ''B'' :: nat) = CHR ''B''" "char_of (of_char CHR ''{'' :: nat) = CHR ''{''"
    by (rule char_of_char)+
  then show "demo_text (66 # bs) = CHR ''B'' # demo_text bs" "demo_text (123 # bs) = CHR ''{'' # demo_text bs"
    by (simp_all add: demo_text_def)
qed

lemma demo_texts [simp]:
  "\<not> blank (demo_text (json_bytes (JObject kvs)))" "\<not> blank (demo_text (replicate 32 66 @ bs))"
  using replicate_Suc [of 31 "66 :: u8"]
  by (simp_all add: json_bytes.simps demo_head not_blank_graphic ascii_graphic_def)

lemma demo_grant_sel:
  "sg_payload demo_proved = demo_text (json_bytes (execution_grant_claims_json demo_claims))"
  "sg_signature demo_proved = demo_text (replicate 32 66 @ json_bytes (execution_grant_claims_json demo_claims))"
  by (simp_all add: demo_proved_def demo_grant_def sign_execution_grant_def demo_authority_def demo_text_def Let_def)

lemma demo_grant_texts: "\<not> blank (sg_payload demo_proved)" "\<not> blank (sg_signature demo_proved)"
  by (simp_all only: demo_grant_sel execution_grant_claims_json_def demo_texts not_False_eq_True)

lemma demo_host_grant: "verify_parsed_grant demo_crates ''v'' ''i'' 1060 demo_ring demo_proved = Inr demo_claims"
proof -
  have "demo_device_proof demo_grant \<noteq> []" using not_blank_ne [OF demo_device_proof_text] .
  from host_accepts_grant [OF demo_proved_verified demo_claims_valid _ demo_ring_keys demo_key_found demo_proved_sel(1) this
      demo_grant_texts, of 1060] show ?thesis by (simp add: in_i64_def i64_min_def i64_max_def)
qed

definition demo_receipt_claims :: receipt_claims where
  "demo_receipt_claims = \<lparr>rc_iss = ''rdc-auth'', rc_aud = ''rdc-qemu-center'', rc_client_id = ''c1'',
     rc_device_id = ''d1'', rc_session_id = ''s1'', rc_client_version = ''v1'', rc_artifact_id = ''qemu-guest-script'',
     rc_artifact_sha256 = demo_sha256, rc_action = ''preset_apply'', rc_vm = ''v'', rc_instance = ''i'',
     rc_grant_jti = ''j9'', rc_iat = 1060, rc_exp = 1120\<rparr>"

definition demo_receipt :: signed_receipt where
  "demo_receipt = sign_execution_authorization_receipt demo_crates demo_authority demo_receipt_claims"

definition demo_serde :: node_serde where
  "demo_serde = \<lparr>grant_file_from_slice = (\<lambda>_. Inr demo_proved), receipt_from_str = (\<lambda>_. Inr demo_receipt)\<rparr>"

lemma demo_host_receipt:
  "verify_execution_authorization_receipt_with_keys demo_crates demo_serde ''ok'' demo_claims 1060 demo_ring = Inr ()"
proof (rule host_accepts_receipt [OF demo_laws(1,2,8), where sa = demo_authority and rc = demo_receipt_claims
      and keys = "[(''k1'', replicate 32 66)]" and ring = demo_ring])
  show "\<not> blank ''ok''" by (rule not_blank_graphic) (simp add: ascii_graphic_def)
qed (simp_all add: demo_ring_keys demo_serde_def demo_receipt_def demo_authority_def demo_receipt_claims_def in_i64_def
    i64_min_def i64_max_def receipt_incomplete_def receipt_matches_grant_def eq_ignore_ascii_case_def demo_claims_def
    saturating_add_i64_def clamp_i64_def)

section \<open>The host and the state directory\<close>

definition demo_dir :: Host.path where "demo_dir = Path ''/'' [''s'']"
definition demo_base :: Host.path where "demo_base = Path ''/'' [''b'']"
definition demo_grant_file :: Host.path where "demo_grant_file = Path ''/'' [''g'']"

definition demo_node :: vm_entry where
  "demo_node = \<lparr>ve_name = ''v'', ve_base_image = Some demo_base, ve_disk = vm_disk_path demo_dir ''v'', ve_vcpus = 2,
     ve_mem_mib = 4096, ve_accel = Whpx, ve_ssh_host_port = 22300, ve_qmp_host_port = 23300, ve_adb_ports = [24500],
     ve_adb_assignments = [], ve_snapshots = [], ve_created_at_unix = 1060, ve_cloud_init = demo_cfg,
     ve_redroid_image = default_redroid_image\<rparr>"

definition demo_reg :: registry where
  "demo_reg = \<lparr>rg_version = STATE_VERSION, rg_vms = [demo_node]\<rparr>"

definition demo_reg2 :: registry where
  "demo_reg2 = \<lparr>rg_version = STATE_VERSION, rg_vms = [demo_node\<lparr>ve_adb_assignments := [(''i'', 24500)]\<rparr>]\<rparr>"

definition demo_codec :: codec where
  "demo_codec = \<lparr>to_string_pretty = (\<lambda>reg. if reg = demo_reg then Inr ''1'' else if reg = demo_reg2 then Inr ''2'' else Inl ''other''),
     from_str = (\<lambda>raw. if raw = ''1'' then Inr demo_reg else if raw = ''2'' then Inr demo_reg2 else Inl ''other'')\<rparr>"

definition demo_json :: json_lib where
  "demo_json = \<lparr>jl_parse = (\<lambda>_. Inl ''no JSON''), jl_print = (\<lambda>_. ''frame'')\<rparr>"

definition demo_build :: build where
  "demo_build = \<lparr>bd_crates = demo_crates, bd_serde = demo_serde, bd_codec = demo_codec, bd_json = demo_json,
     bd_keys = Some demo_ring, bd_overflow_checks = True, bd_show_f64 = (\<lambda>_. ''1'')\<rparr>"

definition demo_host :: host where
  "demo_host = \<lparr>ho_windows = False, ho_sep = CHR ''/'', ho_now = 1060, ho_io = (\<lambda>_ _. None),
     ho_run = (\<lambda>argv fs. (\<lparr>ro_exit_code = 0, ro_success = True,
       ro_stdout = if hd argv = ''powershell'' then ''1'' else ''ok'', ro_stderr = [], ro_timed_out = False\<rparr>, fs)),
     ho_spawn = (\<lambda>_ _. Inr 1), ho_connect = (\<lambda>_. Connected), ho_qmp_write = (\<lambda>_ _. None),
     ho_qmp_lines = (\<lambda>_ sent. if sent = [] then [Inr ([CHR 0x22] @ ''QMP'' @ [CHR 0x22])] else []),
     ho_qemu_process = Inr True, ho_pid_alive = (\<lambda>_. Inr True), ho_port_free = (\<lambda>_. True),
     ho_linux = True, ho_env = [''PATH'' \<mapsto> ''.''], ho_path = (\<lambda>_. Path [] []), ho_self_exe = ''qemu-center'',
     ho_elapsed_ms = (\<lambda>_. 1)\<rparr>"

definition demo_img_bin :: Host.path where "demo_img_bin = Path [] [''qemu-img'']"
definition demo_vm_bin :: Host.path where "demo_vm_bin = Path [] [''qemu-system-x86_64'']"

definition demo_start :: sys where
  "demo_start = \<lparr>sy_files = [demo_base \<mapsto> File ''image'', demo_grant_file \<mapsto> File ''grant'',
     demo_img_bin \<mapsto> File [], demo_vm_bin \<mapsto> File []], sy_log = []\<rparr>"

definition demo_vm_create :: node_command where
  "demo_vm_create = VmCreate ''v'' demo_base 2 4096 20 ''whpx'' None 24500 1 ''apt'' (Some ''k'') False"

definition demo_image_ref :: string where
  "demo_image_ref = ''r@sha256:'' @ replicate 64 (CHR ''a'')"

definition demo_redroid :: redroid_args where
  "demo_redroid = \<lparr>ra_vm = ''v'', ra_name = ''i'', ra_grant_file = demo_grant_file,
     ra_authorization_file = ''/run/rdc-presets/a'', ra_cpus = Some (Finite 1), ra_memory = Some 1024, ra_profile = ''lean'',
     ra_width = 720, ra_height = 1280, ra_dpi = 320, ra_gpu_mode = ''guest'',
     ra_image = Some demo_image_ref, ra_binds = [], ra_cgroup_parent = None\<rparr>"

lemma demo_codec_law: "codec_law demo_codec"
proof -
  have "demo_reg \<noteq> demo_reg2" by (simp add: demo_reg_def demo_reg2_def demo_node_def)
  moreover have "\<not> blank ''1''" "\<not> blank ''2''" by (rule not_blank_graphic, simp add: ascii_graphic_def)+
  ultimately show ?thesis by (auto simp: codec_law_def demo_codec_def split: if_splits)
qed

lemma demo_tame: "tame_host demo_dir demo_host"
  by (simp add: tame_host_def untouched_def demo_host_def)

lemma demo_ports: "allocate_vm_ports True default_registry None 24500 1 = PortsOk (22300, 23300, [24500])"
proof -
  have free: "\<not> port_is_reserved 22300" "\<not> port_is_reserved 23300" "\<not> port_is_reserved 24500" by code_simp+
  have range: "port_range 24500 24501 = [24500 :: u16]" by (simp add: port_range_def)
  show ?thesis
    by (simp add: allocate_vm_ports_def default_registry_def used_ports_def next_free_port_def find_port.simps free
        port_free_def allocate_port_block_def port_block_loop.simps range DEFAULT_SSH_PORT_BASE_def DEFAULT_QMP_PORT_BASE_def Let_def)
qed

lemma demo_words: "validate_vm_name ''v'' = Inr ()" "parse_accel ''whpx'' = Some Whpx" "trim ''k'' = ''k''"
  "validate_instance_name ''i'' = Inr ()" "parse_gpu_mode ''guest'' = Some Guest" "resource_profile_parse ''lean'' = Inr Lean"
  "validate_image_ref demo_image_ref = Inr ()"
  "validate_execution_authorization_path ''/run/rdc-presets/a'' = Inr ()"
  by code_simp+

lemma demo_paths:
  "registry_path demo_dir = Path ''/'' [''s'', ''state.json'']"
  "vm_dir demo_dir ''v'' = Path ''/'' [''s'', ''vms'', ''v'']" 
  "path_join demo_dir ''state.json.tmp'' = Path ''/'' [''s'', ''state.json.tmp'']"
  "ledger_dir demo_dir = Path ''/'' [''s'', ''execution-receipts'']"
  by (simp_all add: registry_path_def demo_dir_def path_join_def vm_dir_def ledger_dir_def)

lemma two_below: "below (Path r [a, b]) q \<Longrightarrow> below q (Path r' (a' # b' # ds)) \<Longrightarrow> b = b'"
  by (cases q) (auto simp: below_iff)

lemma not_below_dir: "below (Path r [a, b]) q \<Longrightarrow> below q demo_dir \<Longrightarrow> False"
  by (cases q) (auto simp: below_iff demo_dir_def)

lemmas demo_world = demo_dir_def demo_base_def demo_grant_file_def demo_img_bin_def demo_vm_bin_def path_join_def

lemma demo_build_sel [simp]:
  "bd_crates demo_build = demo_crates" "bd_serde demo_build = demo_serde" "bd_codec demo_build = demo_codec"
  "bd_json demo_build = demo_json" "bd_keys demo_build = Some demo_ring" "bd_overflow_checks demo_build"
  by (simp_all add: demo_build_def)

lemma demo_host_sel [simp]:
  "\<not> ho_windows demo_host" "ho_sep demo_host = CHR ''/''" "ho_now demo_host = 1060" "ho_io demo_host = (\<lambda>_ _. None)"
  by (simp_all add: demo_host_def)

lemma demo_run: "argv \<noteq> [] \<Longrightarrow> hd argv \<noteq> ''powershell'' \<Longrightarrow> run_command demo_host argv s = (\<lparr>ro_exit_code = 0,
    ro_success = True, ro_stdout = ''ok'', ro_stderr = [], ro_timed_out = False\<rparr>, s\<lparr>sy_log := sy_log s @ [Ran argv]\<rparr>)"
  by (simp add: run_command_def demo_host_def)

lemma demo_argv [simp]: "qemu_img_create_overlay sep bin p base sz \<noteq> []" "hd (qemu_img_create_overlay sep bin p base sz) = bin"
  "ssh_cmd_for h d v cmd \<noteq> []" "hd (ssh_cmd_for h d v cmd) = ''ssh''"
  by (simp_all add: qemu_img_create_overlay_def ssh_cmd_for_def ssh_command_def)

lemma demo_display [simp]: "display (CHR ''/'') demo_img_bin = ''qemu-img''"
  by (simp add: display_def demo_img_bin_def)

lemma demo_candidates: "\<exists>ds. candidate_qemu_dirs_with demo_host sd = Path [] [] # ds"
proof -
  have "\<not> blank ''.''" by (rule not_blank_graphic) (simp add: ascii_graphic_def)
  then have "candidate_qemu_dirs_from_env demo_host = [Path [] []]"
    by (simp add: candidate_qemu_dirs_from_env_def candidate_qemu_dirs_def parse_path_env_def keep_first_def demo_host_def)
  then show ?thesis by (cases sd) (auto simp: candidate_qemu_dirs_with_def keep_first_def)
qed

lemma demo_found:
  "is_file fs demo_img_bin \<Longrightarrow> discover_qemu_img_with demo_host sd fs = Some demo_img_bin"
  "is_file fs demo_vm_bin \<Longrightarrow> discover_qemu_bin_with demo_host sd fs = Some demo_vm_bin"
  using demo_candidates [of sd]
  by (auto simp: discover_qemu_img_with_def discover_qemu_bin_with_def find_qemu_img_in_def find_qemu_in_def path_join_def
      qemu_binary_name_def demo_img_bin_def demo_vm_bin_def)

lemma demo_prereqs:
  assumes "is_file (sy_files s) p" and "is_file (sy_files s) demo_vm_bin"
  shows "vm_create_prereqs demo_build demo_host demo_dir p auto s
    = (None, s\<lparr>sy_log := sy_log s @ [Ran (cim_feature_command ''HypervisorPlatform'')]\<rparr>)"
proof -
  have "trim ''1'' = ''1''" by code_simp
  then have "parse_cim_install_state ''1'' = Enabled"
    by (simp add: parse_cim_install_state_def parse_i64_def parse_signed_def parse_below_def dec_value_def is_ascii_digit_def
        from_raw_def)
  then have "precheck demo_host demo_dir p s
      = (\<lparr>pq_whpx_enabled = True, pq_qemu_found = True, pq_image_present = True\<rparr>,
         s\<lparr>sy_log := sy_log s @ [Ran (cim_feature_command ''HypervisorPlatform'')]\<rparr>)"
    using assms demo_found(2) [of "sy_files s" "Some demo_dir"]
    by (simp add: precheck_def run_command_def demo_host_def cim_feature_command_def)
  then show ?thesis by (simp add: vm_create_prereqs_def missing_prereqs_def)
qed

lemma demo_write_seed: "\<exists>t. write_seed demo_host demo_dir ''v'' demo_cfg s = (Inr (), t)
    \<and> (\<forall>p. \<not> below (Path ''/'' [''s'']) p \<longrightarrow> sy_files s p \<noteq> None \<longrightarrow> sy_files t p = sy_files s p)
    \<and> (\<forall>q. below (ledger_dir demo_dir) q \<longrightarrow> sy_files s q = None \<longrightarrow> sy_files t q = None)"
proof -
  obtain img where img: "build_fat16_image (seed_image_files demo_cfg) = Inr img" using demo_seed by blast
  show ?thesis
    by (auto simp: write_seed_def create_dir_all_def fs_write_def Let_def img vm_seed_image_def demo_paths path_join_def below_iff
        dest: two_below)
qed

lemma demo_save:
  assumes "to_string_pretty demo_codec reg = Inr raw"
  shows "\<exists>t. save_registry demo_codec demo_host demo_dir reg s = (Inr (), t) \<and> sy_files t (registry_path demo_dir) = Some (File raw)
    \<and> sy_log t = sy_log s
    \<and> (\<forall>p. \<not> below (Path ''/'' [''s'']) p \<longrightarrow> sy_files s p \<noteq> None \<longrightarrow> sy_files t p = sy_files s p)
    \<and> (\<forall>q. below (ledger_dir demo_dir) q \<longrightarrow> sy_files t q = sy_files s q)"
  using assms
  by (auto simp: save_registry_def create_dir_all_def fs_write_def fs_rename_def Let_def demo_paths below_iff dest: not_below_dir)

lemma demo_created:
  "\<exists>s1. node_main demo_build pf demo_host demo_dir demo_vm_create demo_start = (exit_ok, s1)
    \<and> sy_files s1 (registry_path demo_dir) = Some (File ''1'') \<and> sy_files s1 demo_grant_file = Some (File ''grant'')
    \<and> (\<forall>q. below (ledger_dir demo_dir) q \<longrightarrow> sy_files s1 q = None)"
proof -
  have cfg: "\<lparr>ci_hostname = ''v'', ci_ssh_pubkey = ''k'', ci_docker_install = ''apt''\<rparr> = demo_cfg" by (simp add: demo_cfg_def)
  let ?start = "demo_start\<lparr>sy_log := [Ran (cim_feature_command ''HypervisorPlatform'')]\<rparr>"
  have pre: "vm_create_prereqs demo_build demo_host demo_dir demo_base False demo_start = (None, ?start)"
    using demo_prereqs [of demo_start demo_base False] by (simp add: is_file_def demo_start_def demo_world)
  have img: "is_file (sy_files demo_start) demo_base" by (simp add: is_file_def demo_start_def demo_world)
  have load: "load_registry demo_codec demo_host demo_dir (sy_files demo_start) = Inr default_registry"
    by (simp add: load_registry_def path_exists_def demo_start_def demo_paths demo_base_def demo_grant_file_def
        demo_img_bin_def demo_vm_bin_def Let_def)
  have key: "vm_create_pubkey demo_host demo_dir ''v'' (Some ''k'') s = (Inr ''k'', s)" for s
    by (simp add: vm_create_pubkey_def demo_words)
  obtain t where t: "write_seed demo_host demo_dir ''v'' demo_cfg ?start = (Inr (), t)"
    "\<forall>p. \<not> below (Path ''/'' [''s'']) p \<longrightarrow> sy_files demo_start p \<noteq> None \<longrightarrow> sy_files t p = sy_files demo_start p"
    "\<forall>q. below (ledger_dir demo_dir) q \<longrightarrow> sy_files demo_start q = None \<longrightarrow> sy_files t q = None"
    using demo_write_seed [of ?start] by auto
  have "sy_files t demo_img_bin = sy_files demo_start demo_img_bin"
    using t(2) by (simp add: demo_start_def demo_img_bin_def below_iff)
  then have bin: "discover_qemu_img_with demo_host (Some demo_dir) (sy_files t) = Some demo_img_bin"
    by (intro demo_found) (simp add: is_file_def demo_start_def demo_img_bin_def demo_vm_bin_def)
  have raw: "to_string_pretty demo_codec demo_reg = Inr ''1''" by (simp add: demo_codec_def)
  have none: "registry_contains ''v'' default_registry \<longleftrightarrow> False" by (simp add: registry_contains_def registry_get_def default_registry_def)
  have reg: "default_registry\<lparr>rg_vms := rg_vms default_registry @ [demo_node]\<rparr> = demo_reg"
    by (simp add: default_registry_def demo_reg_def)
  let ?argv = "qemu_img_create_overlay (CHR ''/'') ''qemu-img'' (vm_disk_path demo_dir ''v'') demo_base (Some 20)"
  obtain u where u: "save_registry demo_codec demo_host demo_dir demo_reg (t\<lparr>sy_log := sy_log t @ [Ran ?argv]\<rparr>) = (Inr (), u)"
    "sy_files u (registry_path demo_dir) = Some (File ''1'')"
    "\<forall>p. \<not> below (Path ''/'' [''s'']) p \<longrightarrow> sy_files t p \<noteq> None \<longrightarrow> sy_files u p = sy_files t p"
    "\<forall>q. below (ledger_dir demo_dir) q \<longrightarrow> sy_files u q = sy_files t q"
    using demo_save [OF raw, of "t\<lparr>sy_log := sy_log t @ [Ran ?argv]\<rparr>"] by auto
  have "node_main demo_build pf demo_host demo_dir demo_vm_create demo_start = (exit_ok, u)"
    by (simp add: demo_vm_create_def cmd_vm_create_def try_exit_def demo_words pre img load none demo_ports key cfg t(1) bin
      Let_def demo_run demo_node_def [symmetric] reg u(1))
  moreover have "sy_files demo_start demo_grant_file = Some (File ''grant'')" "\<not> below (Path ''/'' [''s'']) demo_grant_file"
    by (simp_all add: demo_start_def demo_grant_file_def demo_img_bin_def demo_vm_bin_def below_iff)
  moreover have "sy_files demo_start q = None" if "below (ledger_dir demo_dir) q" for q
    using that by (auto simp: demo_start_def demo_grant_file_def demo_base_def demo_img_bin_def demo_vm_bin_def demo_paths below_iff)
  ultimately show ?thesis using t(2,3) u(2-4) by simp
qed

text \<open>What the first run of \<^verbatim>\<open>redroid create\<close> does.\<close>

lemma demo_load1:
  "sy_files s (registry_path demo_dir) = Some (File ''1'') \<Longrightarrow> load_registry demo_codec demo_host demo_dir (sy_files s) = Inr demo_reg"
  using not_blank_graphic [of "CHR ''1''" "[]"]
  by (simp add: load_registry_def path_exists_def read_to_string_def demo_codec_def ascii_graphic_def Let_def)

lemma demo_get: "registry_get ''v'' demo_reg = Some demo_node"
  by (simp add: registry_get_def demo_reg_def demo_node_def)

lemma demo_verified: "sy_files s demo_grant_file = Some (File ''grant'') \<Longrightarrow>
    verify_execution_grant_file demo_crates demo_serde (Some demo_ring) demo_host (sy_files s) demo_grant_file ''v'' ''i'' = Inr demo_claims"
  by (simp add: verify_execution_grant_file_def verify_execution_grant_file_with_keys_def read_to_string_def demo_serde_def
      unix_now_def i64_max_def demo_host_grant)

lemma demo_consume_once:
  assumes "\<forall>q. below (ledger_dir demo_dir) q \<longrightarrow> sy_files s q = None"
  shows "\<exists>t. consume_execution_receipt_once demo_crates demo_host demo_dir ''j9'' s = (Inr (), t) \<and> sy_log t = sy_log s
    \<and> (\<forall>p. sy_files s p \<noteq> None \<longrightarrow> sy_files t p = sy_files s p)"
proof -
  have "\<not> blank ''j9''" by simp
  moreover have "\<not> below (ledger_file demo_crates demo_dir ''j9'') (ledger_dir demo_dir)"
    by (simp add: ledger_file_def demo_paths path_join_def below_iff)
  moreover have "sy_files s (ledger_file demo_crates demo_dir ''j9'') = None" using assms by simp
  ultimately show ?thesis
    by (auto simp: consume_execution_receipt_once_def create_dir_all_def create_new_def path_exists_def)
qed

lemma demo_redroid_sel [simp]:
  "ra_vm demo_redroid = ''v''" "ra_name demo_redroid = ''i''" "ra_grant_file demo_redroid = demo_grant_file"
  "ra_authorization_file demo_redroid = ''/run/rdc-presets/a''" "ra_cpus demo_redroid = Some (Finite 1)"
  "ra_memory demo_redroid = Some 1024" "ra_profile demo_redroid = ''lean''" "ra_gpu_mode demo_redroid = ''guest''"
  "ra_image demo_redroid = Some demo_image_ref" "ra_binds demo_redroid = []"
  by (simp_all add: demo_redroid_def)

lemma demo_node_sel [simp]:
  "ve_adb_assignments demo_node = []" "ve_vcpus demo_node = 2" "ve_mem_mib demo_node = 4096"
  by (simp_all add: demo_node_def)

lemma demo_budget: "validate_resource_budget 4096 1024 1 = Inr ()"
  by (simp add: validate_resource_budget_def Let_def saturating_sub_u64_def saturating_mul_u64_def)

lemma demo_next_port: "next_free_adb_port demo_node = Some 24500"
  by (simp add: next_free_adb_port_def assigned_ports_def demo_node_def)

lemma demo_running: "parse_running_redroid_count ''ok'' = Inr 0"
proof -
  have "count_running [] (filter (\<lambda>l. \<not> blank l) (lines ''ok'')) = Inr []" by code_simp
  then show ?thesis by (simp add: parse_running_redroid_count_def)
qed

lemma demo_instance:
  assumes "sy_files s demo_grant_file = Some (File ''grant'')"
  shows "\<exists>t. create_instance demo_build demo_host demo_dir demo_redroid Guest Lean demo_reg demo_node s = (exit_ok, t)
    \<and> sy_files t demo_grant_file = Some (File ''grant'')"
proof -
  have raw: "to_string_pretty demo_codec demo_reg2 = Inr ''2''"
    by (simp add: demo_codec_def demo_reg_def demo_reg2_def demo_node_def)
  have upd: "registry_update ''v'' (\<lambda>u. u\<lparr>ve_adb_assignments := btree_insert ''i'' 24500 (ve_adb_assignments u)\<rparr>) demo_reg = demo_reg2"
    by (simp add: registry_update_def demo_reg_def demo_reg2_def demo_node_def)
  have res: "resolve_instance_resources Lean 2 4096 (Some (Finite 1)) (Some 1024) = Inr (Finite 1, 1024)"
    by (simp add: resolve_instance_resources_def Let_def)
  have "\<not> below (Path ''/'' [''s'']) demo_grant_file" by (simp add: demo_grant_file_def below_iff)
  then have "\<exists>t. save_registry demo_codec demo_host demo_dir demo_reg2 (s\<lparr>sy_log := l\<rparr>) = (Inr (), t)
      \<and> sy_files t demo_grant_file = Some (File ''grant'')" for l
    using demo_save [OF raw, of "s\<lparr>sy_log := l\<rparr>"] assms by auto
  then obtain T where T: "save_registry demo_codec demo_host demo_dir demo_reg2 (s\<lparr>sy_log := l\<rparr>) = (Inr (), T l)"
    "sy_files (T l) demo_grant_file = Some (File ''grant'')" for l by metis
  show ?thesis
    by (simp add: create_instance_def Let_def try_exit_def res running_instances_def guest_docker_def demo_run demo_budget demo_next_port
        demo_running demo_words upd saturating_add_u32_def is_err_def T)
qed

lemma demo_launched:
  assumes "sy_files s (registry_path demo_dir) = Some (File ''1'')" and "sy_files s demo_grant_file = Some (File ''grant'')"
    and "\<forall>q. below (ledger_dir demo_dir) q \<longrightarrow> sy_files s q = None"
  shows "\<exists>t. node_main demo_build pf demo_host demo_dir (RedroidCreate demo_redroid) s = (exit_ok, t)
    \<and> sy_files t demo_grant_file = Some (File ''grant'')"
proof -
  let ?argv = "ssh_cmd_for demo_host demo_dir demo_node (cmd_execution_authorization_check ''/run/rdc-presets/a'')"
  let ?s = "s\<lparr>sy_log := sy_log s @ [Ran ?argv]\<rparr>"
  obtain u where u: "consume_execution_receipt_once demo_crates demo_host demo_dir ''j9'' ?s = (Inr (), u)"
    "\<forall>p. sy_files ?s p \<noteq> None \<longrightarrow> sy_files u p = sy_files ?s p"
    using demo_consume_once [of ?s] assms(3) by auto
  obtain t where t: "create_instance demo_build demo_host demo_dir demo_redroid Guest Lean demo_reg demo_node u = (exit_ok, t)"
    "sy_files t demo_grant_file = Some (File ''grant'')"
    using demo_instance [of u] u(2) assms(2) by auto
  show ?thesis
    by (simp add: cmd_redroid_create_def try_exit_def demo_verified assms(1,2) demo_words demo_load1 demo_get demo_run
        demo_host_receipt unix_now_def i64_max_def u(1) t)
qed

section \<open>The properties on it\<close>

definition demo_f64 :: "string \<Rightarrow> f64 option" where
  "demo_f64 = (\<lambda>_. None)"

theorem registry_consistent_witness:
  "\<exists>s. s = node_session demo_build demo_f64 demo_dir [(demo_host, demo_vm_create)] demo_start
    \<and> load_registry demo_codec demo_host demo_dir (sy_files s) = Inr demo_reg
    \<and> distinct (concat (map entry_ports (rg_vms demo_reg)))"
proof -
  obtain s1 where s1: "node_main demo_build demo_f64 demo_host demo_dir demo_vm_create demo_start = (exit_ok, s1)"
    "sy_files s1 (registry_path demo_dir) = Some (File ''1'')" using demo_created by blast
  have s: "node_session demo_build demo_f64 demo_dir [(demo_host, demo_vm_create)] demo_start = s1"
    by (simp add: node_session_def s1(1))
  have none: "sy_files demo_start (registry_path demo_dir) = None"
    by (simp add: demo_start_def demo_paths demo_base_def demo_grant_file_def demo_img_bin_def demo_vm_bin_def)
  have "distinct (concat (map entry_ports (rg_vms demo_reg)))"
    using registry_consistent [where bd = demo_build and d = demo_dir and pf = demo_f64 and s = demo_start
        and runs = "[(demo_host, demo_vm_create)]" and h = demo_host and reg = demo_reg]
      demo_codec_law demo_tame none demo_load1 [OF s1(2)] s by simp
  then show ?thesis using s demo_load1 [OF s1(2)] by simp
qed

theorem grant_starts_one_container_witness:
  "\<exists>s t. s = node_session demo_build demo_f64 demo_dir [(demo_host, demo_vm_create)] demo_start
    \<and> node_main demo_build demo_f64 demo_host demo_dir (RedroidCreate demo_redroid) s = (exit_ok, t)
    \<and> \<not> went_on t (node_main demo_build demo_f64 demo_host demo_dir (RedroidCreate demo_redroid) t)"
proof -
  obtain s1 where s1: "node_main demo_build demo_f64 demo_host demo_dir demo_vm_create demo_start = (exit_ok, s1)"
    "sy_files s1 (registry_path demo_dir) = Some (File ''1'')" "sy_files s1 demo_grant_file = Some (File ''grant'')"
    "\<forall>q. below (ledger_dir demo_dir) q \<longrightarrow> sy_files s1 q = None"
    using demo_created by blast
  obtain t where t: "node_main demo_build demo_f64 demo_host demo_dir (RedroidCreate demo_redroid) s1 = (exit_ok, t)"
    "sy_files t demo_grant_file = Some (File ''grant'')"
    using demo_launched [OF s1(2-4)] by blast
  have s: "node_session demo_build demo_f64 demo_dir [(demo_host, demo_vm_create)] demo_start = s1"
    by (simp add: node_session_def s1(1))
  have none: "sy_files demo_start (registry_path demo_dir) = None"
    by (simp add: demo_start_def demo_paths demo_base_def demo_grant_file_def demo_img_bin_def demo_vm_bin_def)
  have "\<not> went_on t (node_main demo_build demo_f64 demo_host demo_dir (RedroidCreate demo_redroid) t)"
    by (rule grant_starts_one_container [where runs = "[(demo_host, demo_vm_create)]" and runs' = "[]" and s = s1
        and ?s0.0 = demo_start and ?r1.0 = "(exit_ok, t)" and ?h1.0 = demo_host and ?ra1.0 = demo_redroid and ?claims1.0 = demo_claims and ?claims2.0 = demo_claims])
      (use demo_codec_law demo_tame none s t s1(3) demo_verified [OF s1(3)] demo_verified [OF t(2)] in
        \<open>simp_all add: went_on_def node_session_def\<close>)
  then show ?thesis using s t(1) by blast
qed

lemma demo_answered: "probe demo_host p = Answered"
proof -
  have "qmp_greeting_received ([CHR 0x22] @ ''QMP'' @ [CHR 0x22])" by code_simp
  then show ?thesis by (simp add: probe_def demo_host_def)
qed


theorem verify_spares_the_disk_witness:
  "\<exists>s v lg. load_registry demo_codec demo_host demo_dir (sy_files s) = Inr demo_reg2 \<and> registry_get ''v'' demo_reg2 = Some v
    \<and> sy_log (snd (node_main demo_build demo_f64 demo_host demo_dir (RunVerify (Some ''v'') None) s)) = sy_log s @ lg
    \<and> list_all (verify_action demo_host demo_dir v) lg"
proof -
  define s :: sys where "s = \<lparr>sy_files = [registry_path demo_dir \<mapsto> File ''2''], sy_log = []\<rparr>"
  have load: "load_registry (bd_codec demo_build) demo_host demo_dir (sy_files s) = Inr demo_reg2"
    using not_blank_graphic [of "CHR ''2''" "[]"]
    by (simp add: s_def load_registry_def path_exists_def read_to_string_def demo_codec_def ascii_graphic_def Let_def)
  have get: "registry_get ''v'' demo_reg2 = Some (demo_node\<lparr>ve_adb_assignments := [(''i'', 24500)]\<rparr>)"
    by (simp add: registry_get_def demo_reg2_def demo_node_def)
  from verify_spares_the_disk [OF load get refl, of demo_f64 None] load get show ?thesis by auto
qed

lemma demo_stats: "load_guest_redroid_stats demo_build demo_f64 demo_host demo_dir demo_node None s
    = (Inr [], s\<lparr>sy_log := sy_log s @ [Ran (ssh_cmd_for demo_host demo_dir demo_node (cmd_redroid_stats None))]\<rparr>)"
proof -
  have "lines ''ok'' = [''ok'']" by code_simp
  then show ?thesis
    by (simp add: load_guest_redroid_stats_def demo_run parse_guest_redroid_stats_def stats_line_def sort_rows_def)
qed

lemma demo_reclaim: "\<exists>frame acts t. node_main demo_build demo_f64 demo_host demo_dir (VmMemoryReclaim ''v'') s = t
    \<and> sy_log (snd t) = sy_log s @ acts \<and> QmpSent 23300 frame \<in> set acts"
  if "sy_files s (registry_path demo_dir) = Some (File ''1'')"
proof -
  have plan: "plan_memory_reclaim 4096 [] = Reclaim 1536 0 0"
    by (simp add: plan_memory_reclaim_def MIN_BALLOON_TARGET_MIB_def BALLOON_BASE_RESERVE_MIB_def BALLOON_QUANTUM_MIB_def
        BALLOON_PER_INSTANCE_RESERVE_MIB_def saturating_add_u32_def saturating_mul_u32_def saturating_sub_u32_def Let_def)
  have live: "memory_reclaim_liveness_error (probe_vm_liveness demo_host p) = None" for p
    by (simp add: demo_answered liveness_running)
  have "\<exists>m. reclaim_memory demo_json demo_host 23300 1536 s = (Inl m, s\<lparr>sy_log := sy_log s @ [QmpSent 23300 qmp_capabilities_frame]\<rparr>)" for s
  proof -
    have "qmp_greeting_received ([CHR 0x22] @ ''QMP'' @ [CHR 0x22])" by code_simp
    then show ?thesis
      by (simp add: reclaim_memory_def client_connect_def demo_host_def read_line_def client_command_def Let_def)
  qed
  then obtain M where M: "reclaim_memory demo_json demo_host 23300 1536 s = (Inl (M s), s\<lparr>sy_log := sy_log s @ [QmpSent 23300 qmp_capabilities_frame]\<rparr>)" for s
    by metis
  have q: "ve_qmp_host_port demo_node = 23300" by (simp add: demo_node_def)
  show ?thesis
    by (simp add: cmd_vm_memory_reclaim_def try_exit_def demo_load1 [OF that] demo_get live demo_stats plan Let_def q M)
qed

theorem reclaim_fails_closed_witness:
  "\<exists>s frame acts. sy_log (snd (node_main demo_build demo_f64 demo_host demo_dir (VmMemoryReclaim ''v'') s)) = sy_log s @ acts
    \<and> QmpSent 23300 frame \<in> set acts \<and> probe demo_host 23300 = Answered"
proof -
  obtain s1 :: sys where s1: "sy_files s1 (registry_path demo_dir) = Some (File ''1'')" using demo_created [of demo_f64] by blast
  obtain frame acts t where r: "node_main demo_build demo_f64 demo_host demo_dir (VmMemoryReclaim ''v'') s1 = t"
    "sy_log (snd t) = sy_log s1 @ acts" "QmpSent 23300 frame \<in> set acts" using demo_reclaim [OF s1] by blast
  have "probe demo_host 23300 = Answered"
    using reclaim_fails_closed [where bd = demo_build and h = demo_host and d = demo_dir and s = s1 and reg = demo_reg and name = "''v''"
        and v = demo_node and pf = demo_f64 and acts = acts and port = 23300 and frame = frame]
      demo_load1 [OF s1] demo_get r by auto
  then show ?thesis using r by blast
qed

theorem guest_wait_ends_witness:
  "\<exists>s code t. load_registry demo_codec demo_host demo_dir (sy_files s) = Inr demo_reg
    \<and> cmd_guest_wait demo_build (\<lambda>_. demo_host) (\<lambda>_. True) demo_dir ''v'' s = Some (code, t)"
proof -
  obtain s1 :: sys where s1: "sy_files s1 (registry_path demo_dir) = Some (File ''1'')" using demo_created [of demo_f64] by blast
  have "\<exists>code t. cmd_guest_wait demo_build (\<lambda>_. demo_host) (\<lambda>_. True) demo_dir ''v'' s1 = Some (code, t)"
    using guest_wait_ends [where n = 0 and past = "\<lambda>_. True" and bd = demo_build and hs = "\<lambda>_. demo_host" and d = demo_dir
        and name = "''v''" and s = s1] by auto
  then show ?thesis using demo_load1 [OF s1] by blast
qed

theorem host_accepts_consumed_grant_witness:
  "\<exists>receipt s'. consume_execution_grant demo_crates (Some 1060) demo_fs demo_proved demo_state1 = (Inr receipt, s')
    \<and> verify_parsed_grant demo_crates ''v'' ''i'' 1061 demo_ring demo_proved = Inr demo_claims
    \<and> verify_execution_authorization_receipt_with_keys demo_crates (demo_serde\<lparr>receipt_from_str := (\<lambda>_. Inr receipt)\<rparr>)
        ''receipt'' demo_claims 1061 demo_ring = Inr ()"
proof -
  obtain receipt s' where c: "consume_execution_grant demo_crates (Some 1060) demo_fs demo_proved demo_state1 = (Inr receipt, s')"
    using demo_consume by blast
  have "\<not> blank ''receipt''" by (rule not_blank_graphic) (simp add: ascii_graphic_def)
  moreover have "demo_device_proof demo_grant \<noteq> []" using not_blank_ne [OF demo_device_proof_text] .
  moreover have "length (sa_signing_key demo_authority) = 32" "sa_key_id demo_authority \<noteq> []" by (simp_all add: demo_authority_def)
  moreover note demo_grant_texts [unfolded demo_proved_sel]
  moreover have "map_of [(''k1'', replicate 32 66)] (sa_key_id demo_authority) = Some (sa_signing_key demo_authority)"
    by (simp add: demo_authority_def)
  ultimately have "verify_parsed_grant demo_crates (eg_vm demo_claims) (eg_instance demo_claims) 1061 demo_ring demo_proved = Inr demo_claims
    \<and> verify_execution_authorization_receipt_with_keys demo_crates (demo_serde\<lparr>receipt_from_str := (\<lambda>_. Inr receipt)\<rparr>)
        ''receipt'' demo_claims 1061 demo_ring = Inr ()"
    by (intro host_accepts_consumed_grant [OF demo_laws(1,2,8) c demo_time(2), where keys = "[(''k1'', replicate 32 66)]"])
      (simp_all add: demo_ring_keys in_i64_def i64_min_def i64_max_def)
  then show ?thesis using c by simp
qed

end
