(* ===== verification/Setup_Props.thy ===== *)
theory Setup_Props imports Node_Stats begin

text \<open>
  Facts about the setup commands: the marker file that the elevated child writes is read back by the
  parent, an installer runs only after its digest matched the pinned one, a cloud image is accepted only
  under the digest that was published for it, and four places where the code does not do what its
  comments say.
\<close>

section \<open>The marker file\<close>

lemma digit_char_value: "n < 10 \<Longrightarrow> is_ascii_digit (digit_char n) \<and> of_char (digit_char n) - 48 = n"
  by (simp add: digit_char_def is_ascii_digit_def)

lemma dec_string_value: "list_all is_ascii_digit (dec_string n) \<and> dec_value (dec_string n) = n"
proof (induction n rule: dec_string.induct)
  case (1 n)
  show ?case
  proof (cases "n < 10")
    case True
    then show ?thesis by (simp add: dec_string.simps [of n] dec_value_def digit_char_value)
  next
    case False
    then show ?thesis using 1 digit_char_value [of "n mod 10"]
      by (simp add: dec_string.simps [of n] dec_value_def)
  qed
qed

lemma ws_last: "w \<in> set ws1 \<union> set ws2 \<union> set ws3 \<Longrightarrow> \<not> ascii_graphic (last w)"
  by (auto simp: ws1_def ws2_def ws3_def ascii_graphic_def)

lemma ws_suffix_graphic:
  assumes "ascii_graphic c"
  shows "ws_suffix (s @ [c]) = 0"
proof -
  have "last (rev (take (Suc n) (rev (s @ [c])))) = c" for n by simp
  then have "rev (take (Suc n) (rev (s @ [c]))) \<notin> set ws1 \<union> set ws2 \<union> set ws3" for n
    using ws_last assms by metis
  from this [of 0] this [of 1] this [of 2] show ?thesis
    by (simp add: ws_suffix_def Let_def numeral_2_eq_2 numeral_3_eq_3)
qed

lemma trim_graphic:
  assumes "list_all ascii_graphic s"
  shows "trim s = s"
proof (cases s rule: rev_cases)
  case (snoc u c)
  have "s \<noteq> []" using snoc by simp
  then obtain a t where s: "s = a # t" by (meson neq_Nil_conv)
  have "trim_start s = s" using assms s by (simp add: trim_start.simps [of "a # t"] ws_ascii_graphic)
  moreover have "trim_end s = s" using assms snoc ws_suffix_graphic [of c u] by (simp add: trim_end.simps [of "u @ [c]"])
  ultimately show ?thesis by (simp add: trim_def)
qed (simp add: trim_def trim_start.simps trim_end.simps)

lemma dec_string_graphic: "list_all ascii_graphic (dec_string n)"
proof -
  have "list_all is_ascii_digit (dec_string n)" using dec_string_value by blast
  then show ?thesis by (auto simp: list_all_iff is_ascii_digit_def ascii_graphic_def Let_def)
qed

lemma show_int_graphic: "list_all ascii_graphic (show_int i)"
  by (simp add: show_int_def dec_string_graphic) (simp add: ascii_graphic_def)

lemma parse_show_i32: "- 2147483648 \<le> i \<Longrightarrow> i < 2147483648 \<Longrightarrow> parse_i32 (show_int i) = Some i"
proof -
  assume b: "- 2147483648 \<le> i" "i < 2147483648"
  show ?thesis
  proof (cases "i < 0")
    case True
    then show ?thesis using b dec_string_value [of "nat (- i)"]
      by (simp add: parse_i32_def parse_signed_def show_int_def dec_string_nonempty)
  next
    case False
    obtain c cs where c: "dec_string (nat i) = c # cs" using dec_string_nonempty by (cases "dec_string (nat i)") auto
    have "is_ascii_digit c" using dec_string_value [of "nat i"] c by simp
    then have "c \<noteq> CHR ''-''" "c \<noteq> CHR ''+''" by (auto simp: is_ascii_digit_def)
    then show ?thesis using False b dec_string_value [of "nat i"] c
      by (simp add: parse_i32_def parse_signed_def show_int_def parse_below_def)
  qed
qed

lemma split_once_char: "c \<notin> set a \<Longrightarrow> split_once [c] (a @ c # b) = Some (a, b)"
  by (induction a) auto

text \<open>The parent reads back what the elevated child wrote, whatever DISM printed.\<close>

lemma marker_roundtrip: "- 2147483648 \<le> code \<Longrightarrow> code < 2147483648 \<Longrightarrow> read_marker (marker_body code stdout) = (code, stdout)"
proof -
  assume b: "- 2147483648 \<le> code" "code < 2147483648"
  have "\<not> ascii_graphic (CHR 0x0A)" by (simp add: ascii_graphic_def)
  then have "CHR 0x0A \<notin> set (show_int code)" using show_int_graphic [of code] by (auto simp: list_all_iff)
  then show ?thesis
    using b by (simp add: read_marker_def marker_body_def split_once_char trim_graphic [OF show_int_graphic] parse_show_i32)
qed

section \<open>What is run and what is accepted\<close>

lemma run_log: "run_command h argv s = (out, t) \<Longrightarrow> argv \<noteq> [] \<Longrightarrow> sy_log t = sy_log s @ [Ran argv]"
  by (auto simp: run_command_def split: prod.splits)

text \<open>An installer is handed out right after the hash of that very file was printed and matched the pinned digest.\<close>

lemma installer_pinned:
  assumes "download_latest_weilnetz_installer h d s = (Inr installer, t)"
  shows "\<exists>expected u out. ho_env h QEMU_INSTALLER_SHA256_ENV = Some expected \<and> validate_sha256_hex (trim expected)
    \<and> run_command h (get_file_hash_command h installer) u = (out, t) \<and> ro_success out
    \<and> sha_matches (trim (ro_stdout out)) (trim expected)"
proof -
  obtain expected where e: "ho_env h QEMU_INSTALLER_SHA256_ENV = Some expected" "validate_sha256_hex (trim expected)"
    using assms by (auto simp: download_latest_weilnetz_installer_def split: option.splits if_splits)
  with assms obtain tmp f u where "fetch_installer h tmp f expected u = (Inr installer, t)"
    by (auto simp: download_latest_weilnetz_installer_def Let_def split: prod.splits sum.splits if_splits option.splits)
  then show ?thesis using e by (auto simp: fetch_installer_def Let_def split: prod.splits if_splits)
qed

lemma sha_matches_hex: "sha_matches a e \<Longrightarrow> length (trim a) = 64 \<and> eq_ignore_ascii_case (trim a) (trim e)"
  by (auto simp: sha_matches_def eq_ignore_ascii_case_def to_ascii_lowercase_def Let_def)

lemma sums_lines_file:
  "sums_lines f ls = Some digest \<Longrightarrow>
    length digest = 64 \<and> (\<exists>l \<in> set ls. \<exists>hash g rest. split_whitespace (trim l) = hash # g # rest
      \<and> digest = to_ascii_lowercase hash \<and> trim_start_char (CHR ''*'') g = f)"
proof (induction f ls rule: sums_lines.induct)
  case (2 f l ls)
  let ?ok = "\<lambda>hash g. trim_start_char (CHR ''*'') g = f \<and> length hash = 64 \<and> list_all is_ascii_hexdigit hash"
  show ?case
  proof (cases "trim l = [] \<or> starts_with (trim l) ''#''")
    case True
    then show ?thesis using 2 by (auto simp: Let_def)
  next
    case False
    obtain hash g rest where w: "split_whitespace (trim l) = hash # g # rest"
      using 2(3) False by (auto simp: Let_def split: list.splits)
    show ?thesis
    proof (cases "?ok hash g")
      case True
      then show ?thesis using 2(3) False w by (auto simp: Let_def to_ascii_lowercase_def)
    next
      case nok: False
      then have "sums_lines f ls = Some digest" using 2(3) False w by (simp add: Let_def split: if_splits)
      then show ?thesis using 2(2) [OF refl False w refl nok] by auto
    qed
  qed
qed simp

text \<open>
  \<^verbatim>\<open>setup image\<close> succeeds only when the last hash it had computed of the image file is the published one.
\<close>

lemma image_verified:
  assumes "cmd_setup_image h d distro s = (exit_ok, t)"
  shows "\<exists>dest expected out u. image_file_name distro \<noteq> None
    \<and> dest = path_join (path_join d IMAGES_DIR_NAME) (the (image_file_name distro))
    \<and> run_command h (get_file_hash_command h dest) u = (out, t) \<and> ro_success out \<and> sha_matches (trim (ro_stdout out)) expected
    \<and> length expected = 64"
proof -
  obtain url f where f: "image_url distro = Some url" "image_file_name distro = Some f"
    using assms by (auto simp: cmd_setup_image_def err_exit_def split: option.splits)
  let ?dest = "path_join (path_join d IMAGES_DIR_NAME) f"
  obtain expected s1 where e: "fetch_expected_sha h (path_join (path_join d IMAGES_DIR_NAME) (''SHA256SUMS-'' @ distro)) distro f s = (Inr expected, s1)"
    using assms f by (auto simp: cmd_setup_image_def err_exit_def Let_def split: prod.splits sum.splits)
  then have len: "length expected = 64"
    by (auto simp: fetch_expected_sha_def expected_sha256_from_sums_def dest: sums_lines_file split: option.splits prod.splits sum.splits if_splits)
  obtain sha s2 where x: "existing_sha h ?dest s1 = (sha, s2)" by fastforce
  show ?thesis
  proof (cases "image_download_plan (if path_exists (sy_files s1) ?dest then Some ?dest else None) sha (Some expected)")
    case (SkipVerified p)
    then have "t = s2" using assms f e x by (simp add: cmd_setup_image_def Let_def)
    moreover obtain actual where "sha = Some actual" "sha_matches actual expected"
      using SkipVerified by (auto simp: image_download_plan_def split: option.splits if_splits)
    ultimately show ?thesis using x len f
      by (auto simp: existing_sha_def split: if_splits prod.splits)
  next
    case Download
    then have "download_image h url ?dest expected s2 = (exit_ok, t)" using assms f e x by (simp add: cmd_setup_image_def Let_def)
    then show ?thesis using len f
      by (auto simp: download_image_def err_exit_def split: option.splits prod.splits sum.splits if_splits)
  qed
qed

section \<open>Where the code and its comments part\<close>

text \<open>
  \<^verbatim>\<open>Start-Process -ArgumentList\<close> joins the elements of its list with blanks, so the elevated child of a state
  directory with a blank in it writes its marker somewhere else.
\<close>

lemma elevated_child_loses_blank:
  "elevated_state_dir_arg (drop 2 (split_whitespace (join '' '' [''__elevated'', ''whpx'', ''--state-dir'', ''C:/My Dir''])))
    = Some ''C:/My''"
  by code_simp

text \<open>A failed DISM run that mentions a restart is taken for a success.\<close>

lemma failed_dism_accepted: "classify_dism_output 87 ''Error: restart the servicing stack'' = NeedsRestart"
  by code_simp

text \<open>The snippet is the first line, not the first non-empty one.\<close>

lemma snippet_of_blank_first_line: "first_line_snippet (CHR 0x0A # ''339468333056'') = ''empty''"
  by code_simp

text \<open>\<^verbatim>\<open>vm create\<close> asks for the WHPX feature whatever accelerator was requested.\<close>

lemma tcg_needs_whpx:
  assumes "run_command h (cim_feature_command ''HypervisorPlatform'') s = (out, t)"
    and "parse_cim_install_state (ro_stdout out) \<noteq> Enabled"
  shows "fst (fst (cmd_vm_create bd h d name img cpus mem gib ''tcg'' ssh base cnt docker key False s)) = 3"
  using assms by (simp add: cmd_vm_create_def vm_create_prereqs_def precheck_def missing_prereqs_def Let_def)

end
