(* ===== verification/Desk.thy ===== *)
theory Desk imports Shell Json begin

text \<open>
  The desktop application and its surroundings: \<^verbatim>\<open>src-tauri/src/services/util.rs\<close>, and the part of \<^verbatim>\<open>docker.rs\<close> that a
  second thread runs, the cancellation of a creation. The processes that are started, the clock, the sockets and the settings are
  the fields of the record \<open>desk\<close>, arbitrary functions of what was done before; the log of the commands is the history on which
  they depend. A request to cancel a creation may arrive between any two commands.
\<close>

section \<open>Results\<close>

text \<open>
  \<^verbatim>\<open>ShellResult\<close>. The result of a child process holds its texts; a result that the program composes for its user
  holds a list of lines, where a text in Chinese is kept as a name and its arguments.
\<close>

record shell_result =
  sr_success :: bool
  sr_stdout :: string
  sr_stderr :: string
  sr_exit_code :: int

datatype notice = Text string | Note string "string list"

record outcome =
  oc_success :: bool
  oc_stdout :: "notice list"
  oc_stderr :: "notice list"
  oc_exit_code :: int

definition of_shell :: "shell_result \<Rightarrow> outcome" where
  "of_shell r = \<lparr>oc_success = sr_success r, oc_stdout = [Text (sr_stdout r)], oc_stderr = [Text (sr_stderr r)],
     oc_exit_code = sr_exit_code r\<rparr>"

definition refused :: "notice list \<Rightarrow> outcome" where
  "refused e = \<lparr>oc_success = False, oc_stdout = [], oc_stderr = e, oc_exit_code = - 1\<rparr>"

lemma refused_sel [simp]: "\<not> oc_success (refused e)" "oc_exit_code (refused e) = - 1" "oc_stdout (refused e) = []"
  by (simp_all add: refused_def)

section \<open>The surroundings\<close>

text \<open>A command that was started, with what it got on its standard input, and a pause of the thread in milliseconds.\<close>

datatype call = Call string "string list" string | Pause nat

datatype process_end = SpawnFailed string | WaitFailed string | Ended "int option" string string | Hung

text \<open>
  \<open>dk_answer\<close> says how a process ends, \<open>dk_cost\<close> how long a call takes. \<open>dk_requests\<close> are the names whose creation the
  user asks to cancel after the calls made so far, \<open>dk_bound\<close> whether a loopback port is taken, \<open>dk_open\<close> whether it accepts connections.
  \<open>dk_show_args\<close> is the debug output of an argument list, \<open>dk_brand\<close> the brand of a spoof profile of the
  catalogue, \<open>dk_show_cpus\<close> how a number of billionths of a processor prints as an \<open>f64\<close>.
\<close>

record desk =
  dk_docker :: string
  dk_adb :: string
  dk_answer :: "call list \<Rightarrow> call \<Rightarrow> process_end"
  dk_cost :: "call list \<Rightarrow> call \<Rightarrow> nat"
  dk_requests :: "call list \<Rightarrow> string list"
  dk_bound :: "call list \<Rightarrow> u16 \<Rightarrow> bool"
  dk_open :: "call list \<Rightarrow> u16 \<Rightarrow> bool"
  dk_show_args :: "string list \<Rightarrow> string"
  dk_brand :: "string \<Rightarrow> string option"
  dk_json :: json_lib
  dk_show_cpus :: "u64 \<Rightarrow> string"

text \<open>
  The state of the program: the history, the time in milliseconds, the three flags of a creation and the serials on which
  a thread waits already (\<^verbatim>\<open>adb.rs\<close>).
\<close>

record dstate =
  ds_log :: "call list"
  ds_time :: nat
  ds_cancel_requested :: bool
  ds_container_created :: bool
  ds_volume_created :: bool
  ds_waiting :: "string list"

section \<open>Commands\<close>

definition failed_command :: "string \<Rightarrow> shell_result" where
  "failed_command e = \<lparr>sr_success = False, sr_stdout = [], sr_stderr = e, sr_exit_code = - 1\<rparr>"

definition result_of :: "desk \<Rightarrow> string \<Rightarrow> string list \<Rightarrow> nat \<Rightarrow> process_end \<Rightarrow> shell_result" where
  "result_of e program argv secs r = (case r of
     SpawnFailed m \<Rightarrow> failed_command m
   | WaitFailed m \<Rightarrow> failed_command m
   | Ended code out err \<Rightarrow> \<lparr>sr_success = (code = Some 0), sr_stdout = trim out, sr_stderr = trim err,
       sr_exit_code = (case code of Some c \<Rightarrow> c | None \<Rightarrow> - 1)\<rparr>
   | Hung \<Rightarrow> failed_command (''command timeout after '' @ dec_string secs @ ''s: '' @ program @ '' '' @ dk_show_args e argv))"

definition record_call :: "desk \<Rightarrow> call \<Rightarrow> dstate \<Rightarrow> dstate" where
  "record_call e c s = s\<lparr>ds_log := ds_log s @ [c], ds_time := ds_time s + dk_cost e (ds_log s) c\<rparr>"

text \<open>One command on this thread alone: \<^verbatim>\<open>run_command_timeout\<close> and, with an input, \<^verbatim>\<open>run_command_stdin\<close>.\<close>

definition perform :: "desk \<Rightarrow> string \<Rightarrow> string list \<Rightarrow> string \<Rightarrow> nat \<Rightarrow> dstate \<Rightarrow> shell_result \<times> dstate" where
  "perform e program argv input secs s =
    (let c = Call program argv input in (result_of e program argv secs (dk_answer e (ds_log s) c), record_call e c s))"

section \<open>Cancelling a creation\<close>

text \<open>
  \<^verbatim>\<open>sanitize_name\<close> works on characters: a character outside ASCII is several bytes and becomes one hyphen.
\<close>

definition sanitize_char :: "char \<Rightarrow> char" where
  "sanitize_char c = (if is_ascii_alphanumeric c \<or> c = CHR ''-'' \<or> c = CHR ''_'' then c else CHR ''-'')"

definition sanitize_name :: "string \<Rightarrow> string" where
  "sanitize_name name = to_ascii_lowercase (map sanitize_char (filter (\<lambda>c. \<not> is_utf8_continuation c) name))"

definition create_container_name :: "string \<Rightarrow> string" where
  "create_container_name name = ''rdc-'' @ sanitize_name name"

definition data_volume_name :: "string \<Rightarrow> string" where
  "data_volume_name sanitized = ''rdc-'' @ sanitized @ ''-data''"

text \<open>\<^verbatim>\<open>str::trim_start_matches\<close> with a string removes every copy of it at the front.\<close>

function trim_start_matches :: "string \<Rightarrow> string \<Rightarrow> string" where
  "trim_start_matches p s = (case strip_prefix p s of
     Some t \<Rightarrow> if p = [] then s else trim_start_matches p t
   | None \<Rightarrow> s)"
  by pat_completeness auto
termination by (relation "measure (\<lambda>(p, s). length s)") auto

declare trim_start_matches.simps [simp del]

definition CREATE_CANCELLED_EXIT_CODE :: int where "CREATE_CANCELLED_EXIT_CODE = - 2"

definition cleanup_create_artifacts :: "desk \<Rightarrow> string \<Rightarrow> dstate \<Rightarrow> dstate" where
  "cleanup_create_artifacts e container_name s =
    (let s1 = (if ds_container_created s
               then snd (perform e (dk_docker e) [''rm'', ''-f'', container_name] [] 30 s) else s);
         sanitized = trim_start_matches ''rdc-'' container_name
     in if ds_volume_created s1 \<and> sanitized \<noteq> []
        then snd (perform e (dk_docker e) [''volume'', ''rm'', ''-f'', data_volume_name sanitized] [] 20 s1) else s1)"

definition cancelled_create_result :: "desk \<Rightarrow> string \<Rightarrow> dstate \<Rightarrow> outcome \<times> dstate" where
  "cancelled_create_result e container_name s =
    (\<lparr>oc_success = False, oc_stdout = [], oc_stderr = [Note ''creation cancelled'' []],
       oc_exit_code = CREATE_CANCELLED_EXIT_CODE\<rparr>,
     cleanup_create_artifacts e container_name s)"

definition cancel_create :: "desk \<Rightarrow> string \<Rightarrow> dstate \<Rightarrow> outcome \<times> dstate" where
  "cancel_create e name s =
    (let container_name = create_container_name name in
     if container_name = ''rdc-'' then (refused [Note ''invalid instance name'' []], s)
     else (\<lparr>oc_success = True, oc_stdout = [Note ''cancellation of the creation requested'' [container_name]],
              oc_stderr = [], oc_exit_code = 0\<rparr>,
           cleanup_create_artifacts e container_name (s\<lparr>ds_cancel_requested := True\<rparr>)))"

section \<open>Commands among other threads\<close>

text \<open>The requests that arrived while a command ran are served before the next one.\<close>

definition deliver :: "desk \<Rightarrow> dstate \<Rightarrow> dstate" where
  "deliver e s = fold (\<lambda>name t. snd (cancel_create e name t)) (dk_requests e (ds_log s)) s"

definition run_command_stdin :: "desk \<Rightarrow> string \<Rightarrow> string list \<Rightarrow> string \<Rightarrow> nat \<Rightarrow> dstate \<Rightarrow> shell_result \<times> dstate" where
  "run_command_stdin e program argv input secs s =
    (case perform e program argv input secs s of (r, t) \<Rightarrow> (r, deliver e t))"

definition run_command_timeout :: "desk \<Rightarrow> string \<Rightarrow> string list \<Rightarrow> nat \<Rightarrow> dstate \<Rightarrow> shell_result \<times> dstate" where
  "run_command_timeout e program argv secs s = run_command_stdin e program argv [] secs s"

definition DEFAULT_TIMEOUT :: nat where "DEFAULT_TIMEOUT = 6"

text \<open>\<^verbatim>\<open>run_command_bytes\<close>: the output of a command as it is, whatever its exit code.\<close>

definition run_command_bytes :: "desk \<Rightarrow> string \<Rightarrow> string list \<Rightarrow> nat \<Rightarrow> dstate \<Rightarrow> (string + string) \<times> dstate" where
  "run_command_bytes e program argv secs s =
    (let c = Call program argv [] in
     ((case dk_answer e (ds_log s) c of
         SpawnFailed m \<Rightarrow> Inl (''spawn '' @ program @ '' failed: '' @ m)
       | WaitFailed m \<Rightarrow> Inl m
       | Ended code out err \<Rightarrow> Inr out
       | Hung \<Rightarrow> Inl (''command timeout after '' @ dec_string secs @ ''s: '' @ program @ '' '' @ dk_show_args e argv)),
      deliver e (record_call e c s)))"

text \<open>\<^verbatim>\<open>std::thread::sleep\<close> pauses for at least the given time.\<close>

definition sleep_ms :: "desk \<Rightarrow> nat \<Rightarrow> dstate \<Rightarrow> dstate" where
  "sleep_ms e ms s = deliver e ((record_call e (Pause ms) s)\<lparr>ds_time := ds_time s + ms + dk_cost e (ds_log s) (Pause ms)\<rparr>)"

section \<open>The clock\<close>

text \<open>Time does not run backwards, whatever other threads do.\<close>

lemma perform_time: "ds_time s \<le> ds_time (snd (perform e p a i n s))"
  by (simp add: perform_def record_call_def Let_def)

lemma cleanup_time: "ds_time s \<le> ds_time (cleanup_create_artifacts e name s)"
  by (simp add: cleanup_create_artifacts_def Let_def perform_time order_trans [OF perform_time perform_time])

lemma cancel_time: "ds_time s \<le> ds_time (snd (cancel_create e name s))"
  using cleanup_time [of "s\<lparr>ds_cancel_requested := True\<rparr>"] by (simp add: cancel_create_def Let_def)

lemma fold_time: "ds_time s \<le> ds_time (fold (\<lambda>name t. snd (cancel_create e name t)) ns s)"
  by (induction ns arbitrary: s) (auto intro: order_trans cancel_time)

lemma deliver_time: "ds_time s \<le> ds_time (deliver e s)"
  by (simp add: deliver_def fold_time)

lemma run_time:
  "ds_time s \<le> ds_time (snd (run_command_stdin e p a i n s))"
  "ds_time s \<le> ds_time (snd (run_command_timeout e p a n s))"
  using order_trans [OF perform_time deliver_time]
  by (simp_all add: run_command_timeout_def run_command_stdin_def split_beta)

lemma sleep_time: "ds_time s + ms \<le> ds_time (sleep_ms e ms s)"
  unfolding sleep_ms_def using order_trans [OF _ deliver_time] by fastforce

end
