(* ===== verification/Adb.thy ===== *)
theory Adb imports Desk begin

text \<open>
  \<^verbatim>\<open>src-tauri/src/services/adb.rs\<close>: the commands of adb, the readers of their output, the wait for a device that has booted,
  and the scan of a local network. The caches that the commands invalidate are not modelled.
\<close>

section \<open>The server and the devices\<close>

abbreviation (input) adb_default :: "desk \<Rightarrow> string list \<Rightarrow> dstate \<Rightarrow> shell_result \<times> dstate" where
  "adb_default e argv s \<equiv> run_command_timeout e (dk_adb e) argv DEFAULT_TIMEOUT s"

definition adb_version :: "desk \<Rightarrow> dstate \<Rightarrow> string \<times> dstate" where
  "adb_version e s = (case adb_default e [''version''] s of (r, t) \<Rightarrow>
    (if sr_success r then (case lines (sr_stdout r) of l # _ \<Rightarrow> l | [] \<Rightarrow> ''unknown'') else ''unavailable'', t))"

definition server_status :: "desk \<Rightarrow> dstate \<Rightarrow> bool \<times> dstate" where
  "server_status e s = (case run_command_timeout e (dk_adb e) [''devices''] 3 s of (r, t) \<Rightarrow> (sr_success r, t))"

definition start_server :: "desk \<Rightarrow> dstate \<Rightarrow> shell_result \<times> dstate" where
  "start_server e s = adb_default e [''start-server''] s"

definition kill_server :: "desk \<Rightarrow> dstate \<Rightarrow> shell_result \<times> dstate" where
  "kill_server e s = adb_default e [''kill-server''] s"

definition restart_server :: "desk \<Rightarrow> dstate \<Rightarrow> shell_result \<times> dstate" where
  "restart_server e s = start_server e (snd (kill_server e s))"

record adb_device =
  ad_serial :: string
  ad_state :: string
  ad_product :: string
  ad_model :: string
  ad_device :: string
  ad_transport_id :: string

text \<open>A later field of the same name overrides an earlier one.\<close>

definition device_field :: "string \<Rightarrow> adb_device \<Rightarrow> adb_device" where
  "device_field p d = (case strip_prefix ''product:'' p of Some v \<Rightarrow> d\<lparr>ad_product := v\<rparr> | None \<Rightarrow>
    (case strip_prefix ''model:'' p of Some v \<Rightarrow> d\<lparr>ad_model := v\<rparr> | None \<Rightarrow>
    (case strip_prefix ''device:'' p of Some v \<Rightarrow> d\<lparr>ad_device := v\<rparr> | None \<Rightarrow>
    (case strip_prefix ''transport_id:'' p of Some v \<Rightarrow> d\<lparr>ad_transport_id := v\<rparr> | None \<Rightarrow> d))))"

definition parse_device_line :: "string \<Rightarrow> adb_device option" where
  "parse_device_line l = (case split_whitespace l of
     serial # state # rest \<Rightarrow> Some (fold device_field rest
       \<lparr>ad_serial = serial, ad_state = state, ad_product = [], ad_model = [], ad_device = [], ad_transport_id = []\<rparr>)
   | _ \<Rightarrow> None)"

definition parse_devices :: "string \<Rightarrow> adb_device list" where
  "parse_devices out = List.map_filter parse_device_line (filter (\<lambda>l. \<not> blank l) (drop 1 (lines out)))"

definition devices :: "desk \<Rightarrow> dstate \<Rightarrow> adb_device list \<times> dstate" where
  "devices e s = (case run_command_timeout e (dk_adb e) [''devices'', ''-l''] 4 s of (r, t) \<Rightarrow>
    (if \<not> sr_success r \<and> sr_stdout r = [] then [] else parse_devices (sr_stdout r), t))"

text \<open>\<^verbatim>\<open>to_lowercase\<close>: whether one of these ASCII words occurs is decided by the ASCII lower case.\<close>

definition connect_output_failed :: "string \<Rightarrow> string \<Rightarrow> bool" where
  "connect_output_failed out err =
    (let txt = to_ascii_lowercase (out @ '' '' @ err) in
     list_ex (str_contains txt) [''failed'', ''unable'', ''offline'', ''refused'', ''cannot connect'', ''no route'',
       ''timed out'', ''timeout''])"

definition connect :: "desk \<Rightarrow> string \<Rightarrow> dstate \<Rightarrow> shell_result \<times> dstate" where
  "connect e address s = (case run_command_timeout e (dk_adb e) [''connect'', address] 8 s of (r, t) \<Rightarrow>
    (if connect_output_failed (sr_stdout r) (sr_stderr r) then r\<lparr>sr_success := False\<rparr> else r, t))"

definition device_state :: "desk \<Rightarrow> string \<Rightarrow> dstate \<Rightarrow> string \<times> dstate" where
  "device_state e serial s = (case devices e s of (ds, t) \<Rightarrow>
    (case find (\<lambda>d. ad_serial d = serial) ds of Some d \<Rightarrow> ad_state d | None \<Rightarrow> ''not found'', t))"

definition disconnect :: "desk \<Rightarrow> string \<Rightarrow> dstate \<Rightarrow> shell_result \<times> dstate" where
  "disconnect e address s = adb_default e (if address = [] then [''disconnect''] else [''disconnect'', address]) s"

definition reconnect :: "desk \<Rightarrow> string \<Rightarrow> dstate \<Rightarrow> shell_result \<times> dstate" where
  "reconnect e serial s = adb_default e [''-s'', serial, ''reconnect''] s"

section \<open>Commands of a device\<close>

definition adb_shell :: "desk \<Rightarrow> string \<Rightarrow> string \<Rightarrow> dstate \<Rightarrow> shell_result \<times> dstate" where
  "adb_shell e serial command s = adb_default e [''-s'', serial, ''shell'', command] s"

definition shell_timeout :: "desk \<Rightarrow> string \<Rightarrow> string \<Rightarrow> nat \<Rightarrow> dstate \<Rightarrow> shell_result \<times> dstate" where
  "shell_timeout e serial command secs s = run_command_timeout e (dk_adb e) [''-s'', serial, ''shell'', command] secs s"

definition shell_args :: "desk \<Rightarrow> string \<Rightarrow> string list \<Rightarrow> dstate \<Rightarrow> shell_result \<times> dstate" where
  "shell_args e serial argv s = adb_default e ([''-s'', serial, ''shell''] @ argv) s"

definition get_prop :: "desk \<Rightarrow> string \<Rightarrow> string \<Rightarrow> dstate \<Rightarrow> string \<times> dstate" where
  "get_prop e serial prop s = (case run_command_timeout e (dk_adb e) [''-s'', serial, ''shell'', ''getprop'', prop] 4 s of
    (r, t) \<Rightarrow> (if sr_success r then sr_stdout r else [], t))"

definition install_remote :: string where "install_remote = ''/data/local/tmp/rdc_install.apk''"

definition install :: "desk \<Rightarrow> string \<Rightarrow> string \<Rightarrow> bool \<Rightarrow> dstate \<Rightarrow> shell_result \<times> dstate" where
  "install e serial apk_path replace s =
    (if CHR '':'' \<in> set serial
     then (case run_command_timeout e (dk_adb e) [''-s'', serial, ''push'', apk_path, install_remote] 120 s of (pushed, s1) \<Rightarrow>
       if \<not> sr_success pushed then (pushed, s1)
       else (case run_command_timeout e (dk_adb e)
           [''-s'', serial, ''shell'', ''pm install'' @ (if replace then '' -r'' else []) @ '' '' @ install_remote] 180 s1 of (r, s2) \<Rightarrow>
         (r, snd (run_command_timeout e (dk_adb e) [''-s'', serial, ''shell'', ''rm -f '' @ install_remote] 15 s2))))
     else run_command_timeout e (dk_adb e) ([''-s'', serial, ''install''] @ (if replace then [''-r''] else []) @ [apk_path]) 180 s)"

definition uninstall :: "desk \<Rightarrow> string \<Rightarrow> string \<Rightarrow> dstate \<Rightarrow> shell_result \<times> dstate" where
  "uninstall e serial package s = adb_default e [''-s'', serial, ''uninstall'', package] s"

definition push :: "desk \<Rightarrow> string \<Rightarrow> string \<Rightarrow> string \<Rightarrow> dstate \<Rightarrow> shell_result \<times> dstate" where
  "push e serial local remote s = run_command_timeout e (dk_adb e) [''-s'', serial, ''push'', local, remote] 120 s"

definition pull :: "desk \<Rightarrow> string \<Rightarrow> string \<Rightarrow> string \<Rightarrow> dstate \<Rightarrow> shell_result \<times> dstate" where
  "pull e serial remote local s = run_command_timeout e (dk_adb e) [''-s'', serial, ''pull'', remote, local] 120 s"

definition screencap :: "desk \<Rightarrow> string \<Rightarrow> string \<Rightarrow> dstate \<Rightarrow> shell_result \<times> dstate" where
  "screencap e serial remote_path s = adb_shell e serial (''screencap -p '' @ remote_path) s"

definition input_tap :: "desk \<Rightarrow> string \<Rightarrow> int \<Rightarrow> int \<Rightarrow> dstate \<Rightarrow> shell_result \<times> dstate" where
  "input_tap e serial x y s = adb_shell e serial (''input tap '' @ show_int x @ '' '' @ show_int y) s"

definition input_swipe :: "desk \<Rightarrow> string \<Rightarrow> int \<Rightarrow> int \<Rightarrow> int \<Rightarrow> int \<Rightarrow> u32 \<Rightarrow> dstate \<Rightarrow> shell_result \<times> dstate" where
  "input_swipe e serial x1 y1 x2 y2 duration s = adb_shell e serial (''input swipe '' @ show_int x1 @ '' '' @ show_int y1 @ '' ''
     @ show_int x2 @ '' '' @ show_int y2 @ '' '' @ dec_string (unat duration)) s"

definition input_text_command :: "string \<Rightarrow> string" where
  "input_text_command txt = ''input text '' @ SQ @ str_replace SQ (BS @ SQ) (str_replace '' '' ''%s'' txt) @ SQ"

definition input_text :: "desk \<Rightarrow> string \<Rightarrow> string \<Rightarrow> dstate \<Rightarrow> shell_result \<times> dstate" where
  "input_text e serial txt s = adb_shell e serial (input_text_command txt) s"

definition input_keyevent :: "desk \<Rightarrow> string \<Rightarrow> int \<Rightarrow> dstate \<Rightarrow> shell_result \<times> dstate" where
  "input_keyevent e serial keycode s = adb_shell e serial (''input keyevent '' @ show_int keycode) s"

definition logcat :: "desk \<Rightarrow> string \<Rightarrow> bool \<Rightarrow> u32 \<Rightarrow> dstate \<Rightarrow> shell_result \<times> dstate" where
  "logcat e serial clear n s =
    (let s1 = (if clear then snd (adb_default e [''-s'', serial, ''logcat'', ''-c''] s) else s) in
     run_command_timeout e (dk_adb e) [''-s'', serial, ''logcat'', ''-d'', ''-t'', dec_string (unat n)] 15 s1)"

definition auto_fix :: "desk \<Rightarrow> dstate \<Rightarrow> shell_result \<times> dstate" where
  "auto_fix e s = (case kill_server e s of (kill, s1) \<Rightarrow>
    (case start_server e (sleep_ms e 300 s1) of (start, s2) \<Rightarrow>
      (\<lparr>sr_success = sr_success start, sr_stdout = ''kill: '' @ sr_stdout kill @ NL @ ''start: '' @ sr_stdout start,
        sr_stderr = sr_stderr kill @ NL @ sr_stderr start, sr_exit_code = sr_exit_code start\<rparr>, s2)))"

section \<open>Waiting for a device\<close>

definition rsplit_once_char :: "char \<Rightarrow> string \<Rightarrow> (string \<times> string) option" where
  "rsplit_once_char c s = (if c \<in> set s
     then Some (butlast (rev (dropWhile (\<lambda>x. x \<noteq> c) (rev s))), rev (takeWhile (\<lambda>x. x \<noteq> c) (rev s))) else None)"

text \<open>Only a port of this machine is probed; for every other serial the answer is yes.\<close>

definition tcp_port_open :: "desk \<Rightarrow> string \<Rightarrow> dstate \<Rightarrow> bool" where
  "tcp_port_open e serial s = (case rsplit_once_char CHR '':'' serial of
     None \<Rightarrow> True
   | Some (host, port) \<Rightarrow>
     if host \<noteq> ''127.0.0.1'' \<and> host \<noteq> ''localhost'' then True
     else (case parse_u16 port of None \<Rightarrow> True | Some p \<Rightarrow> dk_open e (ds_log s) p))"

fun never_opens :: "nat \<Rightarrow> desk \<Rightarrow> string \<Rightarrow> (dstate \<Rightarrow> bool) \<Rightarrow> dstate \<Rightarrow> bool \<times> dstate" where
  "never_opens 0 e serial should_cancel s = (True, s)"
| "never_opens (Suc n) e serial should_cancel s =
    (if should_cancel s then (False, s)
     else if tcp_port_open e serial s then (False, s)
     else never_opens n e serial should_cancel (sleep_ms e 1200 s))"

definition localhost_port_never_opens :: "desk \<Rightarrow> string \<Rightarrow> (dstate \<Rightarrow> bool) \<Rightarrow> dstate \<Rightarrow> bool \<times> dstate" where
  "localhost_port_never_opens e serial should_cancel s = never_opens 6 e serial should_cancel s"

text \<open>One attempt: the connection is made again unless the device was seen, a stale one is dropped first.\<close>

definition wait_attempt :: "desk \<Rightarrow> string \<Rightarrow> nat \<Rightarrow> string \<Rightarrow> string \<Rightarrow> dstate \<Rightarrow> (string \<times> string \<times> string) \<times> dstate" where
  "wait_attempt e serial attempt last_state last_connect s =
    (case (if CHR '':'' \<in> set serial \<and> (attempt = 1 \<or> last_state \<noteq> ''device'')
           then (let s1 = (if last_state = ''offline'' \<or> last_state = ''unauthorized''
                           then sleep_ms e 400 (snd (disconnect e serial s)) else s)
                 in case connect e serial s1 of (con, s2) \<Rightarrow> (sr_stdout con @ '' '' @ sr_stderr con, s2))
           else (last_connect, s)) of (con, s3) \<Rightarrow>
     (case device_state e serial s3 of (state, s4) \<Rightarrow>
        if state = ''device''
        then (case get_prop e serial ''sys.boot_completed'' s4 of (boot, s5) \<Rightarrow> ((state, boot, con), s5))
        else ((state, [], con), s4)))"

definition device_ready :: "string \<Rightarrow> nat \<Rightarrow> nat \<Rightarrow> outcome" where
  "device_ready serial secs attempt = \<lparr>oc_success = True,
     oc_stdout = [Note ''device ready'' [serial, dec_string secs, dec_string attempt]], oc_stderr = [], oc_exit_code = 0\<rparr>"

definition wait_timed_out :: "string \<Rightarrow> nat \<Rightarrow> string \<Rightarrow> string \<Rightarrow> string \<Rightarrow> outcome" where
  "wait_timed_out serial secs last_state last_boot last_connect = \<lparr>oc_success = False, oc_stdout = [Text last_connect],
     oc_stderr = Note ''device not ready in time'' [dec_string secs, serial, last_state, trim last_boot]
       # (if last_state = ''offline'' \<or> last_state = ''not found'' then [Note ''adbd may not be usable'' []]
          else if last_state = ''device'' then [Note ''not booted yet'' []] else []) @ [Text (trim last_connect)],
     oc_exit_code = - 1\<rparr>"

lemma connect_time: "ds_time s \<le> ds_time (snd (connect e a s))"
  by (simp add: connect_def split_beta run_time)

lemma device_state_time: "ds_time s \<le> ds_time (snd (device_state e a s))"
  by (simp add: device_state_def devices_def split_beta run_time)

lemma get_prop_time: "ds_time s \<le> ds_time (snd (get_prop e a p s))"
  by (simp add: get_prop_def split_beta run_time)

lemma disconnect_time: "ds_time s \<le> ds_time (snd (disconnect e a s))"
  by (simp add: disconnect_def run_time)

lemma wait_attempt_time: "ds_time s \<le> ds_time (snd (wait_attempt e serial n st con s))"
proof -
  have d: "ds_time s \<le> ds_time (sleep_ms e 400 (snd (disconnect e serial s)))"
    using disconnect_time [of s e serial] sleep_time [of "snd (disconnect e serial s)" 400 e] by linarith
  note t = connect_time device_state_time get_prop_time
  show ?thesis unfolding wait_attempt_def Let_def
    using d by (auto simp: split_beta intro: order_trans [OF _ t(1)] order_trans [OF _ t(2)] order_trans [OF _ t(3)])
qed

text \<open>The loop of the wait; \<open>start\<close> is the time at which the wait began.\<close>

function wait_until_ready :: "desk \<Rightarrow> string \<Rightarrow> nat \<Rightarrow> nat \<Rightarrow> (dstate \<Rightarrow> bool) \<Rightarrow> nat \<Rightarrow> string \<Rightarrow> string \<Rightarrow> string \<Rightarrow> dstate
    \<Rightarrow> outcome \<times> dstate" where
  "wait_until_ready e serial secs start should_cancel attempt last_state last_boot last_connect s =
    (if \<not> ds_time s < start + secs * 1000 then (wait_timed_out serial secs last_state last_boot last_connect, s)
     else if should_cancel s
     then (\<lparr>oc_success = False, oc_stdout = [], oc_stderr = [Note ''creation cancelled'' []], oc_exit_code = - 2\<rparr>, s)
     else (case wait_attempt e serial (attempt + 1) last_state last_connect s of ((state, boot, con), t) \<Rightarrow>
       if state = ''device'' \<and> trim boot = ''1''
       then (device_ready serial ((ds_time t - start) div 1000) (attempt + 1), t)
       else wait_until_ready e serial secs start should_cancel (attempt + 1) state boot con (sleep_ms e 2000 t)))"
  by pat_completeness auto
termination
proof (relation "measure (\<lambda>(e, serial, secs, start, c, n, st, b, con, s). start + secs * 1000 - ds_time s)", goal_cases)
  case (2 e serial secs start c n st b con s x t y z u v)
  have "ds_time s \<le> ds_time t" using wait_attempt_time [of s e serial "n + 1" st con] 2 by (metis snd_conv)
  then show ?case using 2 sleep_time [of t 2000 e] by simp
qed simp

declare wait_until_ready.simps [simp del]

definition wait_ready_with_cancel :: "desk \<Rightarrow> string \<Rightarrow> nat \<Rightarrow> (dstate \<Rightarrow> bool) \<Rightarrow> dstate \<Rightarrow> outcome \<times> dstate" where
  "wait_ready_with_cancel e serial secs should_cancel s =
    (if serial \<in> set (ds_waiting s) then (refused [Note ''a wait for this device is running already'' [serial]], s)
     else (let s1 = s\<lparr>ds_waiting := serial # ds_waiting s\<rparr> in
       case (if CHR '':'' \<in> set serial then localhost_port_never_opens e serial should_cancel s1 else (False, s1)) of (never, s2) \<Rightarrow>
       (case (if never then (refused [Note ''no program listens on the port'' [serial]], s2)
              else wait_until_ready e serial secs (ds_time s1) should_cancel 0 ''unknown'' [] [] s2) of (r, s3) \<Rightarrow>
         (r, s3\<lparr>ds_waiting := removeAll serial (ds_waiting s3)\<rparr>))))"

definition wait_ready :: "desk \<Rightarrow> string \<Rightarrow> nat \<Rightarrow> dstate \<Rightarrow> outcome \<times> dstate" where
  "wait_ready e serial secs s = wait_ready_with_cancel e serial secs (\<lambda>_. False) s"

section \<open>Scanning a local network\<close>

function trim_end_matches :: "string \<Rightarrow> string \<Rightarrow> string" where
  "trim_end_matches p s =
    (if p \<noteq> [] \<and> ends_with s p then trim_end_matches p (take (length s - length p) s) else s)"
  by pat_completeness auto
termination by (relation "measure (\<lambda>(p, s). length s)") (auto simp: ends_with_def intro: diff_less)

declare trim_end_matches.simps [simp del]

fun parse_octets :: "string list \<Rightarrow> nat list option" where
  "parse_octets [] = Some []"
| "parse_octets (x # xs) = (case parse_below 256 x of None \<Rightarrow> None | Some n \<Rightarrow> map_option ((#) n) (parse_octets xs))"

definition lan_host :: "nat list \<Rightarrow> u16 \<Rightarrow> nat \<Rightarrow> string" where
  "lan_host prefix port i = join ''.'' (map dec_string (prefix @ [i])) @ '':'' @ dec_string (unat port)"

definition parse_lan_hosts :: "string \<Rightarrow> u16 \<Rightarrow> notice + string list" where
  "parse_lan_hosts subnet port =
    (let base = trim_end_matches ''/'' (trim_end_matches ''/24'' (trim subnet));
         octets = filter (\<lambda>p. p \<noteq> []) (split_char CHR ''.'' base);
         bad = Note ''invalid network'' [subnet] in
     if \<not> (3 \<le> length octets \<and> length octets \<le> 4) then Inl bad
     else (case parse_octets (take 3 octets) of
         None \<Rightarrow> Inl bad
       | Some prefix \<Rightarrow> Inr (map (lan_host prefix port) [1..<255])))"

record lan_device =
  ld_address :: string
  ld_connected :: bool
  ld_model :: string
  ld_message :: notice

record lan_scan_result =
  ls_subnet :: string
  ls_port :: u16
  ls_scanned :: nat
  ls_found :: "lan_device list"
  ls_connected_count :: nat
  ls_message :: "notice option"

text \<open>The key of an address: its numbers as the bytes of a 32-bit word, a part that is no number left out.\<close>

definition address_key :: "string \<Rightarrow> u32" where
  "address_key a = fold (\<lambda>x acc. or (push_bit 8 acc) (and x 0xff))
     (List.map_filter parse_u32 (split_char CHR ''.'' (hd (split_char CHR '':'' a)))) 0"

definition scan_device :: "desk \<Rightarrow> bool \<Rightarrow> string \<Rightarrow> dstate \<Rightarrow> lan_device \<times> dstate" where
  "scan_device e auto_connect a s =
    (let dev = \<lparr>ld_address = a, ld_connected = False, ld_model = [], ld_message = Text []\<rparr> in
     if auto_connect
     then (case connect e a s of (r, s1) \<Rightarrow>
       if sr_success r \<and> str_contains (to_ascii_lowercase (sr_stdout r @ '' '' @ sr_stderr r)) ''connected to''
       then (case get_prop e a ''ro.product.model'' s1 of (model, s2) \<Rightarrow>
         (dev\<lparr>ld_connected := True, ld_model := trim model, ld_message := Text (trim (sr_stdout r))\<rparr>, s2))
       else (dev\<lparr>ld_message := Text (if trim (sr_stdout r) = [] then trim (sr_stderr r) else trim (sr_stdout r))\<rparr>, s1))
     else (dev\<lparr>ld_message := Note ''port open'' []\<rparr>, s))"

fun scan_devices :: "desk \<Rightarrow> bool \<Rightarrow> string list \<Rightarrow> dstate \<Rightarrow> lan_device list \<times> dstate" where
  "scan_devices e auto_connect [] s = ([], s)"
| "scan_devices e auto_connect (a # as) s = (case scan_device e auto_connect a s of (d, s1) \<Rightarrow>
    (case scan_devices e auto_connect as s1 of (ds, s2) \<Rightarrow> (d # ds, s2)))"

text \<open>
  \<open>reach\<close> says which addresses accept a connection: the threads of the probe keep the order of the addresses. The
  duration of the scan is not modelled.
\<close>

definition lan_scan :: "desk \<Rightarrow> (string \<Rightarrow> bool) \<Rightarrow> string \<Rightarrow> u16 \<Rightarrow> bool \<Rightarrow> dstate \<Rightarrow> lan_scan_result \<times> dstate" where
  "lan_scan e reach subnet port auto_connect s =
    (case parse_lan_hosts subnet port of
       Inl m \<Rightarrow> (\<lparr>ls_subnet = trim subnet, ls_port = port, ls_scanned = 0, ls_found = [], ls_connected_count = 0,
           ls_message = Some m\<rparr>, s)
     | Inr addrs \<Rightarrow> (case scan_devices e auto_connect (sort_key address_key (filter reach addrs)) s of (ds, t) \<Rightarrow>
         (\<lparr>ls_subnet = trim subnet, ls_port = port, ls_scanned = length addrs, ls_found = ds,
            ls_connected_count = length (filter ld_connected ds), ls_message = None\<rparr>, t)))"

end
