(* ===== verification/Docker.thy ===== *)
theory Docker imports Adb begin

text \<open>
  \<^verbatim>\<open>src-tauri/src/services/docker.rs\<close>: the lists of images, containers and volumes that docker prints, the ports and names that are
  taken, and the operations on one container. The caches, the statistics in floating point and the launch of Docker Desktop are not modelled.
\<close>

abbreviation (input) docker :: "desk \<Rightarrow> string list \<Rightarrow> nat \<Rightarrow> dstate \<Rightarrow> shell_result \<times> dstate" where
  "docker e argv secs s \<equiv> run_command_timeout e (dk_docker e) argv secs s"

definition column :: "string list \<Rightarrow> nat \<Rightarrow> string" where
  "column p i = (if i < length p then p ! i else [])"

definition table_rows :: "string \<Rightarrow> string list list" where
  "table_rows out = map (split_char (CHR 0x09)) (filter (\<lambda>l. \<not> blank l) (lines out))"

section \<open>Images\<close>

record docker_image =
  di_id :: string
  di_repository :: string
  di_tag :: string
  di_size :: string
  di_created :: string

definition list_images :: "desk \<Rightarrow> dstate \<Rightarrow> docker_image list \<times> dstate" where
  "list_images e s = (case docker e [''images'', ''--format'',
       join TAB [''{{.ID}}'', ''{{.Repository}}'', ''{{.Tag}}'', ''{{.Size}}'', ''{{.CreatedSince}}'']] 20 s of (r, t) \<Rightarrow>
     (if \<not> sr_success r then [] else map (\<lambda>p. \<lparr>di_id = column p 0, di_repository = column p 1, di_tag = column p 2,
        di_size = column p 3, di_created = column p 4\<rparr>) (table_rows (sr_stdout r)), t))"

definition image_exists :: "desk \<Rightarrow> string \<Rightarrow> dstate \<Rightarrow> bool \<times> dstate" where
  "image_exists e img s = (case docker e [''image'', ''inspect'', img, ''--format'', ''{{.Id}}''] 8 s of (r, t) \<Rightarrow>
     (sr_success r \<and> sr_stdout r \<noteq> [], t))"

definition prune_dangling_images :: "desk \<Rightarrow> dstate \<Rightarrow> shell_result \<times> dstate" where
  "prune_dangling_images e s = docker e [''image'', ''prune'', ''-f''] 60 s"

definition remove_image :: "desk \<Rightarrow> string \<Rightarrow> bool \<Rightarrow> dstate \<Rightarrow> outcome \<times> dstate" where
  "remove_image e id_or_ref force s =
    (let target = trim id_or_ref in
     if target = [] then (refused [Note ''invalid image'' []], s)
     else map_prod of_shell id (docker e ([''rmi''] @ (if force then [''-f''] else []) @ [target]) 60 s))"

section \<open>Containers\<close>

text \<open>\<^verbatim>\<open>RuntimeMetrics\<close>; the quota of processors is kept in billionths.\<close>

record runtime_metrics =
  rm_cpu_quota_nanos :: "u64 option"
  rm_cpu_unlimited :: "bool option"
  rm_memory_quota_bytes :: "u64 option"
  rm_memory_unlimited :: "bool option"
  rm_disk_bytes :: "u64 option"
  rm_started_at :: "string option"
  rm_finished_at :: "string option"

record docker_container =
  dc_id :: string
  dc_name :: string
  dc_image :: string
  dc_status :: string
  dc_ports :: string
  dc_created :: string
  dc_is_redroid :: bool
  dc_metrics :: "runtime_metrics option"

definition clean_name :: "string \<Rightarrow> string" where
  "clean_name n = trim_start_char (CHR ''/'') n"

definition container_row :: "string list \<Rightarrow> docker_container" where
  "container_row p = (let name = column p 1; img = column p 2 in
     \<lparr>dc_id = column p 0, dc_name = name, dc_image = img, dc_status = column p 3, dc_ports = column p 4,
      dc_created = column p 5,
      dc_is_redroid = (str_contains name ''redroid'' \<or> str_contains img ''redroid'' \<or> starts_with name ''rdc-''),
      dc_metrics = None\<rparr>)"

text \<open>The bindings of a stopped container in the syntax of \<^verbatim>\<open>docker ps\<close>.\<close>

definition binding_port :: "string \<Rightarrow> jvalue \<Rightarrow> string option" where
  "binding_port key b =
    (let host_port = (case Option.bind (jget ''HostPort'' b) as_text of Some p \<Rightarrow> p | None \<Rightarrow> []);
         host_ip = (case Option.bind (jget ''HostIp'' b) as_text of Some i \<Rightarrow> i | None \<Rightarrow> []);
         ip = (if host_ip = [] then ''0.0.0.0''
               else if CHR '':'' \<in> set host_ip \<and> \<not> starts_with host_ip ''['' then ''[::]'' else host_ip)
     in if host_port = [] then None else Some (ip @ '':'' @ host_port @ ''->'' @ key))"

definition bindings_to_ports :: "desk \<Rightarrow> string \<Rightarrow> string" where
  "bindings_to_ports e json = (case jl_parse (dk_json e) json of
     Inr (JDict kvs) \<Rightarrow> join '', '' (concat (map (\<lambda>(key, targets). case targets of
         JList bs \<Rightarrow> List.map_filter (binding_port key) bs | _ \<Rightarrow> []) kvs))
   | _ \<Rightarrow> [])"

fun set_ports_of :: "string \<Rightarrow> string \<Rightarrow> docker_container list \<Rightarrow> docker_container list" where
  "set_ports_of name ports [] = []"
| "set_ports_of name ports (c # cs) =
    (if clean_name (dc_name c) = name then c\<lparr>dc_ports := ports\<rparr> # cs else c # set_ports_of name ports cs)"

definition ports_line :: "desk \<Rightarrow> string \<Rightarrow> docker_container list \<Rightarrow> docker_container list" where
  "ports_line e l cs = (case split_once '' '' l of
     None \<Rightarrow> cs
   | Some (name, json) \<Rightarrow> (let ports = bindings_to_ports e json in
       if ports = [] then cs else set_ports_of (clean_name name) ports cs))"

definition enrich_stopped_container_ports :: "desk \<Rightarrow> docker_container list \<Rightarrow> dstate \<Rightarrow> docker_container list \<times> dstate" where
  "enrich_stopped_container_ports e cs s =
    (let names = map (\<lambda>c. clean_name (dc_name c)) (filter (\<lambda>c. blank (dc_ports c)) cs) in
     if names = [] then (cs, s)
     else (case docker e ([''inspect'', ''--format'', ''{{.Name}} {{json .HostConfig.PortBindings}}''] @ names) 10 s of (r, t) \<Rightarrow>
       (if \<not> sr_success r then cs else fold (ports_line e) (lines (sr_stdout r)) cs, t)))"

definition list_containers :: "desk \<Rightarrow> bool \<Rightarrow> dstate \<Rightarrow> docker_container list \<times> dstate" where
  "list_containers e everything s =
    (let argv = [''ps''] @ (if everything then [''-a''] else []) @ [''--format'',
           join TAB [''{{.ID}}'', ''{{.Names}}'', ''{{.Image}}'', ''{{.Status}}'', ''{{.Ports}}'', ''{{.CreatedAt}}'']] in
     case docker e argv 20 s of (r1, s1) \<Rightarrow>
     (case (if sr_success r1 then (r1, s1) else docker e argv 20 (sleep_ms e 400 s1)) of (r, s2) \<Rightarrow>
       if \<not> sr_success r then ([], s2)
       else enrich_stopped_container_ports e (map container_row (table_rows (sr_stdout r))) s2))"

definition quota :: "u64 option \<Rightarrow> u64 option \<times> bool option" where
  "quota v = (case v of None \<Rightarrow> (None, None) | Some n \<Rightarrow> if n = 0 then (None, Some True) else (Some n, Some False))"

definition clean_time :: "jvalue option \<Rightarrow> string \<Rightarrow> string option" where
  "clean_time state key = (case Option.bind (Option.bind state (jget key)) as_text of
     None \<Rightarrow> None
   | Some v \<Rightarrow> (let t = trim v in if t = [] \<or> starts_with t ''0001-01-01'' then None else Some t))"

definition parse_runtime_metrics :: "jvalue \<Rightarrow> runtime_metrics option" where
  "parse_runtime_metrics v =
    (let host = jget ''HostConfig'' v; state = jget ''State'' v;
         nano = Option.bind (Option.bind host (jget ''NanoCpus'')) as_u64;
         mem = Option.bind (Option.bind host (jget ''Memory'')) as_u64;
         disk = Option.bind (jget ''SizeRw'' v) as_u64;
         started = clean_time state ''StartedAt''; finished = clean_time state ''FinishedAt'' in
     if nano \<noteq> None \<or> mem \<noteq> None \<or> disk \<noteq> None \<or> started \<noteq> None \<or> finished \<noteq> None
     then Some \<lparr>rm_cpu_quota_nanos = fst (quota nano), rm_cpu_unlimited = snd (quota nano),
       rm_memory_quota_bytes = fst (quota mem), rm_memory_unlimited = snd (quota mem),
       rm_disk_bytes = disk, rm_started_at = started, rm_finished_at = finished\<rparr>
     else None)"

definition entry_of :: "docker_container \<Rightarrow> jvalue \<Rightarrow> bool" where
  "entry_of c entry =
    ((case Option.bind (jget ''Name'' entry) as_text of Some n \<Rightarrow> clean_name n = clean_name (dc_name c) | None \<Rightarrow> False)
     \<or> Option.bind (jget ''Id'' entry) as_text = Some (dc_id c))"

definition with_metrics :: "jvalue list \<Rightarrow> docker_container \<Rightarrow> docker_container" where
  "with_metrics entries c = (if dc_is_redroid c
     then (case find (entry_of c) entries of Some v \<Rightarrow> c\<lparr>dc_metrics := parse_runtime_metrics v\<rparr> | None \<Rightarrow> c) else c)"

definition enrich_runtime_metrics :: "desk \<Rightarrow> docker_container list \<Rightarrow> dstate \<Rightarrow> docker_container list \<times> dstate" where
  "enrich_runtime_metrics e cs s =
    (let names = map (\<lambda>c. clean_name (dc_name c)) (filter dc_is_redroid cs) in
     if names = [] then (cs, s)
     else (case docker e ([''inspect'', ''--size''] @ names) 20 s of (r, t) \<Rightarrow>
       (if \<not> sr_success r then cs
        else (case jl_parse (dk_json e) (sr_stdout r) of Inr (JList entries) \<Rightarrow> map (with_metrics entries) cs | _ \<Rightarrow> cs), t)))"

definition list_containers_with_runtime_metrics :: "desk \<Rightarrow> bool \<Rightarrow> dstate \<Rightarrow> docker_container list \<times> dstate" where
  "list_containers_with_runtime_metrics e everything s =
    (case list_containers e everything s of (cs, t) \<Rightarrow> enrich_runtime_metrics e cs t)"

section \<open>Names and ports\<close>

definition before_arrow :: "string \<Rightarrow> string" where
  "before_arrow p = (case split_once ''->'' p of Some (l, _) \<Rightarrow> l | None \<Rightarrow> p)"

definition host_port_of :: "string \<Rightarrow> u16 option" where
  "host_port_of part = parse_u16 (trim (last (split_char (CHR '':'') (before_arrow part))))"

definition extract_container_host_port :: "string \<Rightarrow> u16 option" where
  "extract_container_host_port ports =
    (case List.map_filter host_port_of (split_char (CHR '','') ports) of p # _ \<Rightarrow> Some p | [] \<Rightarrow> None)"

definition port_listed :: "u16 \<Rightarrow> string \<Rightarrow> bool" where
  "port_listed port ports = (let n = dec_string (unat port) in
     str_contains ports ('':'' @ n @ ''->'') \<or> str_contains ports (''0.0.0.0:'' @ n) \<or> str_contains ports (''[::]:'' @ n)
     \<or> list_ex (\<lambda>part. host_port_of part = Some port) (split_char (CHR '','') ports))"

definition host_port_in_use :: "desk \<Rightarrow> docker_container list \<Rightarrow> u16 \<Rightarrow> dstate \<Rightarrow> bool" where
  "host_port_in_use e cs port s = (list_ex (\<lambda>c. port_listed port (dc_ports c)) cs \<or> dk_bound e (ds_log s) port)"

definition suggest_free_adb_port :: "desk \<Rightarrow> docker_container list \<Rightarrow> dstate \<Rightarrow> u16" where
  "suggest_free_adb_port e cs s =
    (case find (\<lambda>p. \<not> host_port_in_use e cs p s) (map of_nat [5555..<6000]) of Some p \<Rightarrow> p | None \<Rightarrow> 5555)"

definition next_free_adb_port :: "desk \<Rightarrow> dstate \<Rightarrow> u16 \<times> dstate" where
  "next_free_adb_port e s = (case list_containers e True s of (cs, t) \<Rightarrow> (suggest_free_adb_port e cs t, t))"

definition adb_port_taken :: "desk \<Rightarrow> u16 \<Rightarrow> dstate \<Rightarrow> bool \<times> dstate" where
  "adb_port_taken e port s = (case list_containers e True s of (cs, t) \<Rightarrow> (host_port_in_use e cs port t, t))"

definition without_rdc :: "string \<Rightarrow> string" where
  "without_rdc n = (case strip_prefix ''rdc-'' n of Some t \<Rightarrow> t | None \<Rightarrow> n)"

definition container_name_taken :: "desk \<Rightarrow> string \<Rightarrow> dstate \<Rightarrow> bool \<times> dstate" where
  "container_name_taken e name s =
    (let raw = clean_name (trim name); base = without_rdc raw; container_name = ''rdc-'' @ sanitize_name base in
     if container_name = ''rdc-'' then (True, s)
     else (case list_containers e True s of (cs, t) \<Rightarrow>
       (list_ex (\<lambda>c. let n = clean_name (dc_name c) in
          n = container_name \<or> n = raw \<or> sanitize_name (without_rdc n) = sanitize_name base) cs, t)))"

section \<open>Limits\<close>

text \<open>The number syntax of \<^verbatim>\<open>f64::from_str\<close>.\<close>

definition all_digits :: "string \<Rightarrow> bool" where
  "all_digits s = list_all is_ascii_digit s"

definition unsigned :: "string \<Rightarrow> string" where
  "unsigned s = (case s of c # cs \<Rightarrow> if c = CHR ''+'' \<or> c = CHR ''-'' then cs else s | [] \<Rightarrow> [])"

definition parses_f64 :: "string \<Rightarrow> bool" where
  "parses_f64 s =
    (let u = unsigned s; l = to_ascii_lowercase u;
         mantissa = takeWhile (\<lambda>c. c \<noteq> CHR ''e'') l; rest = dropWhile (\<lambda>c. c \<noteq> CHR ''e'') l;
         whole = takeWhile (\<lambda>c. c \<noteq> CHR ''.'') mantissa; frac = drop 1 (dropWhile (\<lambda>c. c \<noteq> CHR ''.'') mantissa) in
     l = ''inf'' \<or> l = ''infinity'' \<or> l = ''nan''
     \<or> (all_digits whole \<and> all_digits frac \<and> whole @ frac \<noteq> []
        \<and> (rest = [] \<or> (unsigned (drop 1 rest) \<noteq> [] \<and> all_digits (unsigned (drop 1 rest))))))"

definition normalize_cpus :: "string \<Rightarrow> string" where
  "normalize_cpus raw = (let s = trim raw in if s \<noteq> [] \<and> parses_f64 s then s else ''2'')"

definition is_ascii_alphabetic :: "char \<Rightarrow> bool" where
  "is_ascii_alphabetic c = (is_ascii_alphanumeric c \<and> \<not> is_ascii_digit c)"

text \<open>The lower case of letters outside ASCII is not modelled.\<close>

definition normalize_memory :: "string \<Rightarrow> string" where
  "normalize_memory raw =
    (let s = str_replace '' '' [] (to_ascii_lowercase (trim raw)) in
     if s = [] then ''2g''
     else if is_ascii_alphabetic (last s) then s
     else if parse_u64 s \<noteq> None then s @ ''g'' else ''2g'')"

definition container_resource_limits :: "desk \<Rightarrow> string \<Rightarrow> dstate \<Rightarrow> (u64 \<times> u64) \<times> dstate" where
  "container_resource_limits e id_or_name s = (case docker e [''inspect'', id_or_name] 20 s of (r, t) \<Rightarrow>
    (if \<not> sr_success r then (0, 0)
     else (case jl_parse (dk_json e) (trim (sr_stdout r)) of
         Inr (JList (c # _)) \<Rightarrow> (case jget ''HostConfig'' c of
             Some hc \<Rightarrow> (case Option.bind (jget ''Memory'' hc) as_u64 of Some m \<Rightarrow> m | None \<Rightarrow> 0,
                         case Option.bind (jget ''NanoCpus'' hc) as_u64 of Some n \<Rightarrow> n | None \<Rightarrow> 0)
           | None \<Rightarrow> (0, 0))
       | _ \<Rightarrow> (0, 0)), t))"

definition dns_for_port :: "u16 \<Rightarrow> string" where
  "dns_for_port adb_port = [''1.1.1.1'', ''8.8.8.8'', ''9.9.9.9''] ! (unat adb_port mod 3)"

definition label_of :: "desk \<Rightarrow> string \<Rightarrow> string \<Rightarrow> dstate \<Rightarrow> shell_result \<times> dstate" where
  "label_of e label container s =
    docker e [''inspect'', ''--format'', ''{{index .Config.Labels '' @ DQ @ label @ DQ @ ''}}'', container] 10 s"

definition container_clean_traces_enabled :: "desk \<Rightarrow> string \<Rightarrow> dstate \<Rightarrow> bool option \<times> dstate" where
  "container_clean_traces_enabled e container s = (case label_of e ''rdc.clean-traces'' container s of (r, t) \<Rightarrow>
    (if \<not> sr_success r then None
     else if trim (sr_stdout r) = ''true'' then Some True
     else if trim (sr_stdout r) = ''false'' then Some False else None, t))"

definition container_spoof_brand :: "desk \<Rightarrow> string \<Rightarrow> dstate \<Rightarrow> string \<times> dstate" where
  "container_spoof_brand e id_or_name s = (case label_of e ''rdc.spoof-profile'' id_or_name s of (r, t) \<Rightarrow>
    (if \<not> sr_success r then [] else (case dk_brand e (trim (sr_stdout r)) of Some b \<Rightarrow> b | None \<Rightarrow> []), t))"

definition container_gpu_passthrough :: "desk \<Rightarrow> string \<Rightarrow> dstate \<Rightarrow> bool \<times> dstate" where
  "container_gpu_passthrough e id_or_name s =
    (case docker e [''inspect'', ''--format'', ''{{json .Config.Cmd}}'', id_or_name] 10 s of (r, t) \<Rightarrow>
      (sr_success r \<and> str_contains (sr_stdout r) ''androidboot.redroid_gpu_mode=host'', t))"

end
