(* ===== verification/Docker_Ops.thy ===== *)
theory Docker_Ops imports Docker begin

text \<open>
  \<^verbatim>\<open>src-tauri/src/services/docker.rs\<close>: start, stop, restart, removal and renaming of a container, its logs, and the volumes.
\<close>

section \<open>The life of a container\<close>

definition serial_of :: "u16 \<Rightarrow> string" where
  "serial_of port = ''127.0.0.1:'' @ dec_string (unat port)"

definition is_container :: "string \<Rightarrow> docker_container \<Rightarrow> bool" where
  "is_container id_or_name c = (dc_id c = id_or_name \<or> starts_with (dc_id c) id_or_name
     \<or> clean_name (dc_name c) = clean_name id_or_name)"

definition wait_container_adb :: "desk \<Rightarrow> string \<Rightarrow> nat \<Rightarrow> dstate \<Rightarrow> outcome \<times> dstate" where
  "wait_container_adb e id_or_name secs s = (case list_containers e True s of (cs, t) \<Rightarrow>
    (case Option.bind (find (is_container id_or_name) cs) (\<lambda>c. extract_container_host_port (dc_ports c)) of
       None \<Rightarrow> (\<lparr>oc_success = True, oc_stdout = [Note ''no ADB port found, connect by hand'' []], oc_stderr = [],
           oc_exit_code = 0\<rparr>, t)
     | Some port \<Rightarrow> wait_ready e (serial_of port) secs t))"

text \<open>The result of a command that started a container, followed by the wait for its ADB.\<close>

definition and_ready :: "shell_result \<Rightarrow> outcome \<Rightarrow> outcome" where
  "and_ready r ready =
    (let o1 = of_shell r; o2 = o1\<lparr>oc_stdout := oc_stdout o1 @ oc_stdout ready\<rparr> in
     if oc_success ready then o2
     else o2\<lparr>oc_success := False, oc_stderr := oc_stderr ready, oc_exit_code := oc_exit_code ready\<rparr>)"

definition started :: "desk \<Rightarrow> string \<Rightarrow> shell_result \<times> dstate \<Rightarrow> outcome \<times> dstate" where
  "started e id_or_name rs = (case rs of (r, s1) \<Rightarrow>
    if sr_success r then map_prod (and_ready r) id (wait_container_adb e id_or_name 180 s1) else (of_shell r, s1))"

definition start_container :: "desk \<Rightarrow> string \<Rightarrow> dstate \<Rightarrow> outcome \<times> dstate" where
  "start_container e id_or_name s = started e id_or_name (docker e [''start'', id_or_name] 30 s)"

definition stop_container :: "desk \<Rightarrow> string \<Rightarrow> dstate \<Rightarrow> outcome \<times> dstate" where
  "stop_container e id_or_name s = map_prod of_shell id (docker e [''stop'', id_or_name] 20 s)"

definition restart_container :: "desk \<Rightarrow> string \<Rightarrow> dstate \<Rightarrow> outcome \<times> dstate" where
  "restart_container e id_or_name s = started e id_or_name (docker e [''restart'', id_or_name] 40 s)"

definition remove_container :: "desk \<Rightarrow> string \<Rightarrow> bool \<Rightarrow> dstate \<Rightarrow> outcome \<times> dstate" where
  "remove_container e id_or_name force s = map_prod of_shell id
    (if force then docker e [''rm'', ''-f'', id_or_name] 30 s else docker e [''rm'', id_or_name] 20 s)"

definition same_container :: "string \<Rightarrow> docker_container \<Rightarrow> bool" where
  "same_container id_or_name c = (dc_id c = id_or_name \<or> starts_with (dc_id c) id_or_name \<or> starts_with id_or_name (dc_id c)
     \<or> clean_name (dc_name c) = clean_name id_or_name \<or> dc_name c = id_or_name)"

definition rename_container :: "desk \<Rightarrow> string \<Rightarrow> string \<Rightarrow> dstate \<Rightarrow> outcome \<times> dstate" where
  "rename_container e id_or_name new_name s =
    (let name = ''rdc-'' @ sanitize_name new_name in
     if name = ''rdc-'' then (refused [Note ''invalid new name'' []], s)
     else (case list_containers e True s of (cs, s1) \<Rightarrow>
       if list_ex (\<lambda>c. clean_name (dc_name c) = name \<and> \<not> same_container id_or_name c) cs
       then (refused [Note ''name taken'' [name]], s1)
       else map_prod of_shell id (docker e [''rename'', id_or_name, name] DEFAULT_TIMEOUT s1)))"

definition inspect_container :: "desk \<Rightarrow> string \<Rightarrow> dstate \<Rightarrow> shell_result \<times> dstate" where
  "inspect_container e id_or_name s = docker e [''inspect'', id_or_name] DEFAULT_TIMEOUT s"

definition clamp_nat :: "nat \<Rightarrow> nat \<Rightarrow> nat \<Rightarrow> nat" where
  "clamp_nat lo hi n = min hi (max lo n)"

definition container_logs :: "desk \<Rightarrow> string \<Rightarrow> u32 \<Rightarrow> dstate \<Rightarrow> shell_result \<times> dstate" where
  "container_logs e id_or_name tail s =
    docker e [''logs'', ''--tail'', dec_string (clamp_nat 20 500 (unat tail)), id_or_name] 25 s"

section \<open>Volumes\<close>

record docker_volume =
  dv_in_use :: bool
  dv_is_rdc :: bool
  dv_driver :: string
  dv_mountpoint :: string
  dv_size :: string
  dv_container_name :: string
  dv_adb_serial :: string
  dv_name :: string

definition is_rdc_volume :: "string \<Rightarrow> bool" where
  "is_rdc_volume n = (starts_with n ''rdc-'' \<and> ends_with n ''-data'')"

text \<open>A \<^verbatim>\<open>HashMap\<close> is a list of insertions, the latest one first.\<close>

definition size_line :: "string \<Rightarrow> (string \<times> string) list \<Rightarrow> (string \<times> string) list" where
  "size_line l m = (case split_char (CHR 0x09) l of
     name # sz # _ \<Rightarrow> if name \<noteq> [] \<and> sz \<noteq> [] then (name, trim sz) # m else m
   | _ \<Rightarrow> m)"

fun size_table :: "bool \<Rightarrow> string list \<Rightarrow> (string \<times> string) list \<Rightarrow> (string \<times> string) list" where
  "size_table in_volumes [] m = m"
| "size_table in_volumes (l # ls) m =
    (if starts_with l ''VOLUME NAME'' then size_table True ls m
     else if in_volumes
     then (if l = [] \<or> starts_with l ''Build cache'' then m
           else (case split_whitespace l of
               a # b # c # _ \<Rightarrow> size_table True ls ((a, c) # m)
             | _ \<Rightarrow> size_table True ls m))
     else size_table False ls m)"

definition volume_size_map :: "desk \<Rightarrow> dstate \<Rightarrow> (string \<times> string) list \<times> dstate" where
  "volume_size_map e s =
    (case docker e [''system'', ''df'', ''-v'', ''--format'', ''{{.Name}}'' @ TAB @ ''{{.Size}}''] 20 s of (r, s1) \<Rightarrow>
     if \<not> sr_success r then ([], s1)
     else (let m = fold size_line (lines (sr_stdout r)) [] in
       if m \<noteq> [] then (m, s1)
       else (case docker e [''system'', ''df'', ''-v''] 20 s1 of (raw, s2) \<Rightarrow> (size_table False (lines (sr_stdout raw)) [], s2))))"

fun volume_usage :: "desk \<Rightarrow> docker_container list \<Rightarrow> (string \<times> string \<times> string) list \<Rightarrow> dstate
    \<Rightarrow> (string \<times> string \<times> string) list \<times> dstate" where
  "volume_usage e [] m s = (m, s)"
| "volume_usage e (c # cs) m s =
    (case docker e [''inspect'', ''-f'', ''{{range .Mounts}}{{.Name}} {{end}}'', dc_id c] 8 s of (mounts, s1) \<Rightarrow>
      if \<not> sr_success mounts then volume_usage e cs m s1
      else (let serial = (case extract_container_host_port (dc_ports c) of Some p \<Rightarrow> serial_of p | None \<Rightarrow> []) in
        volume_usage e cs (fold (\<lambda>token m. if is_rdc_volume token then (token, dc_name c, serial) # m else m)
          (split_whitespace (sr_stdout mounts)) m) s1))"

definition volume_usage_map :: "desk \<Rightarrow> dstate \<Rightarrow> (string \<times> string \<times> string) list \<times> dstate" where
  "volume_usage_map e s = (case list_containers e True s of (cs, t) \<Rightarrow> volume_usage e cs [] t)"

definition volume_row :: "(string \<times> string \<times> string) list \<Rightarrow> (string \<times> string) list \<Rightarrow> string list \<Rightarrow> docker_volume" where
  "volume_row used sizes p = (let name = column p 0 in
     case (case map_of used name of Some u \<Rightarrow> u | None \<Rightarrow> ([], [])) of (container_name, adb_serial) \<Rightarrow>
       \<lparr>dv_in_use = (container_name \<noteq> []), dv_is_rdc = is_rdc_volume name, dv_driver = column p 1, dv_mountpoint = column p 2,
        dv_size = (case map_of sizes name of Some z \<Rightarrow> z | None \<Rightarrow> []), dv_container_name = container_name,
        dv_adb_serial = adb_serial, dv_name = name\<rparr>)"

definition list_volumes :: "desk \<Rightarrow> dstate \<Rightarrow> docker_volume list \<times> dstate" where
  "list_volumes e s =
    (case docker e [''volume'', ''ls'', ''--format'', join TAB [''{{.Name}}'', ''{{.Driver}}'', ''{{.Mountpoint}}'']] 15 s of (r, s1) \<Rightarrow>
     if \<not> sr_success r then ([], s1)
     else (case volume_usage_map e s1 of (used, s2) \<Rightarrow>
       (case volume_size_map e s2 of (sizes, s3) \<Rightarrow> (map (volume_row used sizes) (table_rows (sr_stdout r)), s3))))"

definition remove_volume :: "desk \<Rightarrow> string \<Rightarrow> bool \<Rightarrow> dstate \<Rightarrow> outcome \<times> dstate" where
  "remove_volume e name force s =
    (if blank name then (refused [Note ''invalid volume name'' []], s)
     else map_prod of_shell id (docker e ([''volume'', ''rm''] @ (if force then [''-f''] else []) @ [name]) 20 s))"

definition volume_exists :: "desk \<Rightarrow> string \<Rightarrow> dstate \<Rightarrow> bool option \<times> dstate" where
  "volume_exists e name s = (case docker e [''volume'', ''inspect'', ''--format'', ''{{.Name}}'', name] 10 s of (r, t) \<Rightarrow>
    (if sr_success r then Some True
     else if str_contains (to_ascii_lowercase (sr_stderr r)) ''no such volume'' then Some False else None, t))"

end
