(* ===== verification/Docker_Image.thy ===== *)
theory Docker_Image imports Docker_Ops "HOL-Library.Word" begin

text \<open>
  The host names of \<^verbatim>\<open>spoof.rs\<close>, the request of \<^verbatim>\<open>models/mod.rs\<close>, and the derived images of \<^verbatim>\<open>docker.rs\<close>: which image a
  new instance starts from. The search for assets on disk, the inspection of archives and the preparation of a build context are the
  fields of the record \<open>assets\<close>.
\<close>

unbundle bit_operations_syntax

section \<open>Host names\<close>

definition trim_matches_char :: "char \<Rightarrow> string \<Rightarrow> string" where
  "trim_matches_char c s = rev (trim_start_char c (rev (trim_start_char c s)))"

definition sanitize_hostname_token :: "string \<Rightarrow> string" where
  "sanitize_hostname_token brand = trim_matches_char (CHR ''-'')
     (filter (\<lambda>c. is_ascii_alphanumeric c \<or> c = CHR ''-'') (to_ascii_lowercase (trim brand)))"

definition two_digits :: "nat \<Rightarrow> string" where
  "two_digits n = (if n < 10 then ''0'' else []) @ dec_string n"

definition derive_hostname :: "string \<Rightarrow> u16 \<Rightarrow> string" where
  "derive_hostname brand adb_port =
    (let t = sanitize_hostname_token brand; token = (if t = [] then ''generic'' else t);
         nn = two_digits (unat adb_port mod 100);
         candidates = [''android-'' @ token, token, take (15 - 3) token] in
     case find (\<lambda>n. length n \<le> 15) (map (\<lambda>form. form @ ''-'' @ nn) candidates) of
       Some n \<Rightarrow> n | None \<Rightarrow> ''android-'' @ nn)"

definition adb_port_from_serial :: "string \<Rightarrow> u16" where
  "adb_port_from_serial serial =
    (case parse_u16 (trim (last (split_char (CHR '':'') serial))) of Some p \<Rightarrow> p | None \<Rightarrow> 0)"

section \<open>The request\<close>

record create_request =
  rq_name :: string
  rq_android_version :: string
  rq_cpu :: string
  rq_ram :: string
  rq_resolution :: string
  rq_dpi :: string
  rq_adb_port :: u16
  rq_scrcpy_port :: u16
  rq_image :: string
  rq_install_gapps :: bool
  rq_gapps_zip :: string
  rq_install_magisk :: bool
  rq_install_lsposed :: bool
  rq_install_shamiko :: bool
  rq_spoof_profile :: string
  rq_spoof_profile_id :: "string option"
  rq_spoof_abilist :: "bool option"
  rq_hide_packages :: "string list"
  rq_clean_traces :: "bool option"
  rq_wait_adb :: bool
  rq_install_cloak :: bool
  rq_gpu_passthrough :: "bool option"

text \<open>
  \<open>as_listings\<close> are the search directories for GApps archives: path, name and time of each entry, newest anywhere. \<open>as_check_gapps\<close> is
  \<^verbatim>\<open>preset::validate_gapps\<close>, \<open>as_stamp\<close> the size and time of a file, \<open>as_preset_sources\<close> the discovery of the Magisk assets with the parts
  of the stamp after the base image, \<open>as_prepare_gapps\<close> and \<open>as_prepare_preset\<close> the error, if any, of preparing a build context, \<open>as_work\<close> its
  Dockerfile and directory, \<open>as_mentions\<close> whether an error names its target image already. \<open>as_traces\<close> are the files written by
  \<^verbatim>\<open>traces::write_fake_traces\<close>, \<open>as_pubkey\<close> the contents of the adb key of the user, \<open>as_cloak_apk\<close> the module's file and whether it
  exists, \<open>as_cloak_config\<close> the temporary file with its configuration.
\<close>

record assets =
  as_exists :: "call list \<Rightarrow> string \<Rightarrow> bool"
  as_setting_zip :: string
  as_listings :: "call list \<Rightarrow> (string \<times> string \<times> nat) list option list"
  as_check_gapps :: "call list \<Rightarrow> string \<Rightarrow> string \<Rightarrow> notice option"
  as_stamp :: "call list \<Rightarrow> string \<Rightarrow> notice + nat \<times> nat"
  as_preset_sources :: "call list \<Rightarrow> create_request \<Rightarrow> string \<Rightarrow> notice list + string list"
  as_prepare_gapps :: "call list \<Rightarrow> string \<Rightarrow> string \<Rightarrow> string \<Rightarrow> notice list option"
  as_prepare_preset :: "call list \<Rightarrow> create_request \<Rightarrow> string \<Rightarrow> notice list option"
  as_work :: "call list \<Rightarrow> string \<times> string"
  as_mentions :: "notice list \<Rightarrow> bool"
  as_traces :: "call list \<Rightarrow> string \<Rightarrow> string \<Rightarrow> (string \<times> string) option"
  as_pubkey :: "string option"
  as_cloak_apk :: "string \<times> bool"
  as_cloak_config :: "call list \<Rightarrow> string \<Rightarrow> string + string"

section \<open>Choosing an archive\<close>

definition zip_hint :: "string \<Rightarrow> string" where
  "zip_hint img = (if str_contains img ''16.'' then ''16.0'' else if str_contains img ''15.'' then ''15.0''
     else if str_contains img ''14.'' then ''14.0'' else if str_contains img ''13.'' then ''13.0''
     else if str_contains img ''12.'' then ''12.1'' else [])"

text \<open>\<^verbatim>\<open>Path::extension\<close> of a file name.\<close>

definition extension :: "string \<Rightarrow> string option" where
  "extension n = (case rsplit_once_char (CHR ''.'') n of
     Some (stem, ext) \<Rightarrow> if stem = [] then None else Some ext | None \<Rightarrow> None)"

definition is_zip :: "string \<times> string \<times> nat \<Rightarrow> bool" where
  "is_zip z = (case extension (fst (snd z)) of Some x \<Rightarrow> eq_ignore_ascii_case x ''zip'' | None \<Rightarrow> False)"

definition pick_zip_in :: "(string \<times> string \<times> nat) list option \<Rightarrow> string \<Rightarrow> string option" where
  "pick_zip_in listing img = (case listing of
     None \<Rightarrow> None
   | Some entries \<Rightarrow>
     (let zips = sort_key (\<lambda>z. - int (snd (snd z))) (filter is_zip entries); hint = zip_hint img;
          hinted = (if hint = [] then None else find (\<lambda>z. str_contains (fst (snd z)) hint) zips) in
      case hinted of Some z \<Rightarrow> Some (fst z) | None \<Rightarrow> (case zips of z # _ \<Rightarrow> Some (fst z) | [] \<Rightarrow> None)))"

definition resolve_gapps_zip :: "assets \<Rightarrow> string \<Rightarrow> string \<Rightarrow> dstate \<Rightarrow> string" where
  "resolve_gapps_zip a preferred img s =
    (let p = trim preferred; z = as_setting_zip a in
     if p \<noteq> [] \<and> as_exists a (ds_log s) p then p
     else if z \<noteq> [] \<and> as_exists a (ds_log s) z then z
     else (case List.map_filter (\<lambda>l. pick_zip_in l img) (as_listings a (ds_log s)) of f # _ \<Rightarrow> f | [] \<Rightarrow> []))"

section \<open>Tags\<close>

definition validate_image :: "string \<Rightarrow> notice + unit" where
  "validate_image base =
    (case base of
       c # _ \<Rightarrow> if is_ascii_alphanumeric c \<and> list_all (\<lambda>d. is_ascii_alphanumeric d \<or> d \<in> set ''._-/:@'') base
         then Inr () else Inl (Note ''invalid image reference'' [])
     | [] \<Rightarrow> Inl (Note ''invalid image reference'' []))"

fun hex_of_nat :: "nat \<Rightarrow> string" where
  "hex_of_nat n = (if n < 16 then [hex_digit n] else hex_of_nat (n div 16) @ [hex_digit (n mod 16)])"

declare hex_of_nat.simps [simp del]

definition hex16 :: "u64 \<Rightarrow> string" where
  "hex16 w = (let h = hex_of_nat (unat w) in replicate (16 - length h) (CHR ''0'') @ h)"

definition fnv1a64 :: "string \<Rightarrow> u64" where
  "fnv1a64 data = fold (\<lambda>c h. (h XOR of_char c) * 0x100000001b3) data 0xcbf29ce484222325"

definition gapps_stamp :: "assets \<Rightarrow> string \<Rightarrow> dstate \<Rightarrow> notice + string" where
  "gapps_stamp a p s = map_sum id (\<lambda>(len, mtime). hex_of_nat len @ ''-'' @ hex_of_nat mtime) (as_stamp a (ds_log s) p)"

definition tag_safe :: "string \<Rightarrow> string" where
  "tag_safe base = map (\<lambda>c. if is_ascii_alphanumeric c \<or> c = CHR ''.'' \<or> c = CHR ''-'' then c else CHR ''-'')
     (filter (\<lambda>c. \<not> is_utf8_continuation c) base)"

section \<open>Derived images\<close>

definition docker_build :: "desk \<Rightarrow> assets \<Rightarrow> string \<Rightarrow> dstate \<Rightarrow> (notice list + string) \<times> dstate" where
  "docker_build e a tag s =
    (case as_work a (ds_log s) of (dockerfile, work) \<Rightarrow>
     case docker e [''build'', ''-t'', tag, ''-f'', dockerfile, work] 600 s of (r, t) \<Rightarrow>
       (if sr_success r then Inr tag
        else Inl [Note ''image build failed'' [tag], Text (sr_stdout r), Text (sr_stderr r)], t))"

text \<open>An image that exists under its tag is reused; an error names the target image.\<close>

definition built_image :: "desk \<Rightarrow> assets \<Rightarrow> string \<Rightarrow> (dstate \<Rightarrow> notice list option) \<Rightarrow> notice list \<Rightarrow> dstate
    \<Rightarrow> (notice list + string) \<times> dstate" where
  "built_image e a tag prepare target s =
    (case image_exists e tag s of (present, s1) \<Rightarrow>
      if present then (Inr tag, s1)
      else map_prod (map_err (\<lambda>m. if as_mentions a m then m else m @ target)) id
        (case prepare s1 of Some m \<Rightarrow> (Inl m, s1) | None \<Rightarrow> docker_build e a tag s1))"

definition ensure_gapps_image :: "desk \<Rightarrow> assets \<Rightarrow> string \<Rightarrow> string \<Rightarrow> string \<Rightarrow> dstate \<Rightarrow> (notice list + string) \<times> dstate" where
  "ensure_gapps_image e a base zip_or_dir version s =
    (let src = trim zip_or_dir in
     if src = [] then (Inl [Note ''GApps chosen without an archive'' []], s)
     else if \<not> as_exists a (ds_log s) src then (Inl [Note ''no such GApps path'' [src, base]], s)
     else (case validate_image base of Inl m \<Rightarrow> (Inl [m], s) | Inr _ \<Rightarrow>
       (case as_check_gapps a (ds_log s) src version of Some m \<Rightarrow> (Inl [m], s) | None \<Rightarrow>
       (case gapps_stamp a src s of Inl m \<Rightarrow> (Inl [m], s) | Inr stamp \<Rightarrow>
         (let tag = ''rdc-gapps:'' @ tag_safe base @ ''-'' @ stamp in
          built_image e a tag (\<lambda>t. as_prepare_gapps a (ds_log t) base src version)
            [Note ''target image'' [base, src, tag]] s)))))"

definition ensure_preset_image :: "desk \<Rightarrow> assets \<Rightarrow> create_request \<Rightarrow> string \<Rightarrow> dstate \<Rightarrow> (notice list + string) \<times> dstate" where
  "ensure_preset_image e a req base s =
    (case validate_image base of Inl m \<Rightarrow> (Inl [m], s) | Inr _ \<Rightarrow>
      (case (if rq_install_gapps req
             then as_check_gapps a (ds_log s) (resolve_gapps_zip a (trim (rq_gapps_zip req)) base s) (rq_android_version req)
             else None) of
         Some m \<Rightarrow> (Inl [m], s)
       | None \<Rightarrow> (case as_preset_sources a (ds_log s) req base of
           Inl m \<Rightarrow> (Inl m, s)
         | Inr stamps \<Rightarrow>
           (let tag = ''rdc-preset:'' @ tag_safe base @ ''-'' @ hex16 (fnv1a64 (join ''|'' (base # stamps))) in
            built_image e a tag (\<lambda>t. as_prepare_preset a (ds_log t) req base) [Note ''target image'' [tag]] s))))"

text \<open>The image of a new instance: GApps go on top of the Magisk preset when both are chosen.\<close>

definition instance_image :: "desk \<Rightarrow> assets \<Rightarrow> create_request \<Rightarrow> string \<Rightarrow> dstate \<Rightarrow> (notice list + string) \<times> dstate" where
  "instance_image e a req base s =
    (let gapps = (\<lambda>img t. ensure_gapps_image e a img (resolve_gapps_zip a (trim (rq_gapps_zip req)) base t)
           (rq_android_version req) t) in
     if rq_install_magisk req
     then (case ensure_preset_image e a req base s of
         (Inl m, s1) \<Rightarrow> (Inl m, s1)
       | (Inr tag, s1) \<Rightarrow> if rq_install_gapps req then gapps tag s1 else (Inr tag, s1))
     else if rq_install_gapps req then gapps base s
     else (Inr base, s))"

end
