(* ===== verification/Docker_Create.thy ===== *)
theory Docker_Create imports Docker_Image begin

text \<open>
  \<^verbatim>\<open>src-tauri/src/services/docker.rs\<close>: the creation of an instance with everything that runs in it before it is handed out, and the
  clone of an instance. The stage that is shown to the user is not modelled.
\<close>

section \<open>First boot\<close>

definition screen_on_script :: string where
  "screen_on_script = ''settings put global stay_on_while_plugged_in 7; svc power stayon true 2>/dev/null; ''
     @ ''input keyevent KEYCODE_WAKEUP; true''"

definition first_boot_screen_on :: "desk \<Rightarrow> string \<Rightarrow> dstate \<Rightarrow> dstate" where
  "first_boot_screen_on e serial s = snd (shell_timeout e serial screen_on_script 20 s)"

definition provisioning_script :: string where
  "provisioning_script = ''settings put secure user_setup_complete 1; settings put global device_provisioned 1; ''
     @ ''pm disable-user --user 0 com.google.android.setupwizard 2>/dev/null; ''
     @ ''settings put global package_verifier_enable 0; settings put global verifier_verify_adb_installs 0; ''
     @ ''settings put global verifier_verify_adb_installs_coefficient 0; ''
     @ ''nohup sh -c '' @ SQ @ ''i=0; while [ $i -lt 5 ]; do sleep 45; settings put global package_verifier_enable 0; ''
     @ ''settings put global verifier_verify_adb_installs 0; i=$((i+1)); done'' @ SQ @ '' >/dev/null 2>&1 & true''"

definition apply_headless_gapps_provisioning :: "desk \<Rightarrow> string \<Rightarrow> dstate \<Rightarrow> shell_result \<times> dstate" where
  "apply_headless_gapps_provisioning e serial s = shell_timeout e serial provisioning_script 30 s"

definition skip_first_boot_provisioning :: "desk \<Rightarrow> string \<Rightarrow> dstate \<Rightarrow> dstate" where
  "skip_first_boot_provisioning e serial s = snd (apply_headless_gapps_provisioning e serial s)"

definition resetprop_path :: string where
  "resetprop_path = ''RP=/sbin/resetprop; [ -x '' @ DQ @ ''$RP'' @ DQ @ '' ] || RP=/system/etc/init/magisk/magisk''"

definition first_boot_net_hostname :: "desk \<Rightarrow> string \<Rightarrow> create_request \<Rightarrow> dstate \<Rightarrow> dstate" where
  "first_boot_net_hostname e container_name req s =
    (let pid = (case rq_spoof_profile_id req of Some i \<Rightarrow> trim i | None \<Rightarrow> []);
         brand = (if pid = [] then [] else case dk_brand e pid of Some b \<Rightarrow> b | None \<Rightarrow> []);
         hostname = derive_hostname brand (rq_adb_port req);
         rp = DQ @ ''$RP'' @ DQ;
         script = ''#!/system/bin/sh'' @ NL @ ''# RDC per-instance net.hostname (create flow)'' @ NL @ resetprop_path @ NL
           @ rp @ '' net.hostname '' @ hostname @ NL;
         s1 = (if rq_install_magisk req
           then snd (run_command_stdin e (dk_docker e) [''exec'', ''-i'', container_name, ''sh'', ''-c'',
             ''cat > /data/adb/service.d/rdc_net_hostname.sh && chmod 755 /data/adb/service.d/rdc_net_hostname.sh''] script 15 s)
           else s)
     in snd (docker e [''exec'', container_name, ''sh'', ''-c'', resetprop_path @ ''; if [ -x '' @ rp @ '' ]; then '' @ rp
          @ '' net.hostname '' @ hostname @ ''; else setprop net.hostname '' @ hostname @ ''; fi; getprop net.hostname''] 15 s1))"

text \<open>The first line of the user's adb key, unless it would break the quotes around it.\<close>

definition host_adb_pubkey :: "assets \<Rightarrow> string option" where
  "host_adb_pubkey a = (case as_pubkey a of
     None \<Rightarrow> None
   | Some content \<Rightarrow> (case lines content of
       [] \<Rightarrow> None
     | l # _ \<Rightarrow> (let t = trim l in if t = [] \<or> CHR 0x27 \<in> set t \<or> CHR 0x0A \<in> set t then None else Some t)))"

definition inject_host_adb_key :: "desk \<Rightarrow> assets \<Rightarrow> string \<Rightarrow> dstate \<Rightarrow> dstate" where
  "inject_host_adb_key e a container_name s = (case host_adb_pubkey a of
     None \<Rightarrow> s
   | Some pubkey \<Rightarrow> snd (docker e [''exec'', container_name, ''sh'', ''-c'',
       ''mkdir -p /data/misc/adb; grep -qF '' @ SQ @ pubkey @ SQ @ '' /data/misc/adb/adb_keys 2>/dev/null ''
       @ ''|| echo '' @ SQ @ pubkey @ SQ @ '' >> /data/misc/adb/adb_keys; ''
       @ ''chown system:shell /data/misc/adb/adb_keys 2>/dev/null; chmod 640 /data/misc/adb/adb_keys 2>/dev/null; true''] 20 s))"

lemma docker_time: "ds_time s \<le> ds_time (snd (docker e argv n s))"
  by (rule run_time)

function wait_preset :: "desk \<Rightarrow> string \<Rightarrow> nat \<Rightarrow> nat \<Rightarrow> dstate \<Rightarrow> bool \<times> dstate" where
  "wait_preset e container_name secs start s =
    (if \<not> ds_time s < start + secs * 1000 then (False, s)
     else (case docker e [''exec'', container_name, ''test'', ''-f'', ''/data/adb/.rdc_preset_done''] 10 s of (r, t) \<Rightarrow>
       if sr_success r then (True, t) else wait_preset e container_name secs start (sleep_ms e 3000 t)))"
  by pat_completeness auto
termination
proof (relation "measure (\<lambda>(e, c, secs, start, s). start + secs * 1000 - ds_time s)", goal_cases)
  case (2 e c secs start s r t)
  have "ds_time s \<le> ds_time t" using docker_time [of s e] 2 by (metis snd_conv)
  then show ?case using 2 sleep_time [of t 3000 e] by simp
qed simp

declare wait_preset.simps [simp del]

definition wait_preset_done :: "desk \<Rightarrow> string \<Rightarrow> nat \<Rightarrow> dstate \<Rightarrow> bool \<times> dstate" where
  "wait_preset_done e container_name secs s = wait_preset e container_name secs (ds_time s) s"

definition hide_list :: "create_request \<Rightarrow> string list" where
  "hide_list req = filter (\<lambda>p. p \<noteq> [] \<and> list_all (\<lambda>c. is_ascii_alphanumeric c \<or> c \<in> set ''._$'') p)
     (map trim (rq_hide_packages req))"

definition denylist_script :: "string list \<Rightarrow> string" where
  "denylist_script ps = ''mkdir -p /data/adb && printf '' @ SQ @ ''%s'' @ BS @ ''n'' @ SQ @ '' '' @ join '' '' ps
     @ '' | sort -u > /data/adb/rdc_target_packages.txt''"

definition magisk_first_boot_activation :: "desk \<Rightarrow> assets \<Rightarrow> string \<Rightarrow> create_request \<Rightarrow> string \<Rightarrow> dstate
    \<Rightarrow> (notice list + notice list) \<times> dstate" where
  "magisk_first_boot_activation e a container_name req serial s =
    (let s1 = inject_host_adb_key e a container_name s; ps = hide_list req in
     case (if ps = [] then (None, s1)
           else (case docker e [''exec'', container_name, ''sh'', ''-c'', denylist_script ps] 20 s1 of (r, t) \<Rightarrow>
             (if sr_success r then None else Some (sr_stderr r), t))) of
       (Some err, s2) \<Rightarrow> (Inl [Note ''denylist not written'' [err]], s2)
     | (None, s2) \<Rightarrow>
       (case wait_preset_done e container_name 240 s2 of (_, s3) \<Rightarrow>
        case docker e [''restart'', container_name] 60 s3 of (restart, s4) \<Rightarrow>
        if \<not> sr_success restart then (Inl [Note ''container not restarted'' [sr_stderr restart]], s4)
        else (case wait_ready e serial 240 s4 of (ready, s5) \<Rightarrow>
          if \<not> oc_success ready then (Inl (Note ''ADB not ready after the restart'' [] # oc_stderr ready), s5)
          else (Inr [Note ''Magisk configured'' []], s5))))"

definition cloak_config_remote :: string where "cloak_config_remote = ''/data/local/tmp/rdc-cloak.json''"

definition install_cloak_module :: "desk \<Rightarrow> assets \<Rightarrow> string \<Rightarrow> dstate \<Rightarrow> outcome \<times> dstate" where
  "install_cloak_module e a serial s = (case as_cloak_apk a of (p, present) \<Rightarrow>
    if \<not> present then (refused [Note ''module not found'' [p]], s)
    else map_prod of_shell id (install e serial p True s))"

definition push_cloak_config :: "desk \<Rightarrow> assets \<Rightarrow> string \<Rightarrow> string \<Rightarrow> dstate \<Rightarrow> outcome \<times> dstate" where
  "push_cloak_config e a serial profile s = (case as_cloak_config a (ds_log s) profile of
     Inl m \<Rightarrow> (refused [Note ''temporary file not written'' [m]], s)
   | Inr tmp \<Rightarrow> map_prod of_shell id (push e serial tmp cloak_config_remote s))"

definition cloak_first_boot_install :: "desk \<Rightarrow> assets \<Rightarrow> string option \<Rightarrow> string \<Rightarrow> dstate \<Rightarrow> (notice list + notice list) \<times> dstate" where
  "cloak_first_boot_install e a profile serial s =
    (case install_cloak_module e a serial s of (inst, s1) \<Rightarrow>
     if \<not> oc_success inst then (Inl (oc_stderr inst), s1)
     else (case profile of
         None \<Rightarrow> (Inr [Note ''module installed'' []], s1)
       | Some p \<Rightarrow> (case push_cloak_config e a serial p s1 of (pushed, s2) \<Rightarrow>
           if \<not> oc_success pushed then (Inl (Note ''module installed, configuration not pushed'' [] # oc_stderr pushed), s2)
           else (Inr [Note ''module installed and configured'' []], s2))))"

section \<open>Creation\<close>

definition default_profile :: string where "default_profile = ''redmi-k40-alioth''"

definition base_image_of :: "create_request \<Rightarrow> string" where
  "base_image_of req = (if rq_image req = [] then ''redroid/redroid:'' @ rq_android_version req else rq_image req)"

definition label_profile_id :: "create_request \<Rightarrow> string" where
  "label_profile_id req = (let raw = trim (case rq_spoof_profile_id req of Some i \<Rightarrow> i | None \<Rightarrow> []) in
     if raw \<noteq> [] then raw else if blank (rq_spoof_profile req) then default_profile else ''custom'')"

definition clean_traces_of :: "create_request \<Rightarrow> bool" where
  "clean_traces_of req = (case rq_clean_traces req of Some b \<Rightarrow> b | None \<Rightarrow> True)"

definition gpu_of :: "create_request \<Rightarrow> bool" where
  "gpu_of req = (case rq_gpu_passthrough req of Some b \<Rightarrow> b | None \<Rightarrow> False)"

definition trace_mounts :: "desk \<Rightarrow> assets \<Rightarrow> create_request \<Rightarrow> string \<Rightarrow> dstate \<Rightarrow> string list" where
  "trace_mounts e a req container_name s =
    (if \<not> clean_traces_of req then []
     else (case (if dk_brand e (label_profile_id req) \<noteq> None then Some (label_profile_id req)
                 else if dk_brand e default_profile \<noteq> None then Some default_profile else None) of
         None \<Rightarrow> []
       | Some p \<Rightarrow> (case as_traces a (ds_log s) container_name p of
           Some (cpu, ver) \<Rightarrow> [cpu @ '':/proc/cpuinfo:ro'', ver @ '':/proc/version:ro'']
         | None \<Rightarrow> [])))"

definition gpu_mode :: "bool \<Rightarrow> string" where
  "gpu_mode b = (if b then ''androidboot.redroid_gpu_mode=host'' else ''androidboot.redroid_gpu_mode=guest'')"

definition port_map :: "u16 \<Rightarrow> string" where
  "port_map port = ''127.0.0.1:'' @ dec_string (unat port) @ '':5555''"

definition run_args :: "desk \<Rightarrow> create_request \<Rightarrow> string \<Rightarrow> string \<Rightarrow> string list \<Rightarrow> string \<Rightarrow> string list" where
  "run_args e req container_name volume mounts img =
    (let res = split_char (CHR ''x'') (rq_resolution req); width = hd res;
         height = (if 1 < length res then res ! 1 else ''1920'');
         clean = clean_traces_of req; lp = label_profile_id req;
         hostname = derive_hostname (case dk_brand e lp of Some b \<Rightarrow> b | None \<Rightarrow> []) (rq_adb_port req) in
     [''run'', ''-d'', ''--name'', container_name, ''--privileged'', ''--cpus'', normalize_cpus (rq_cpu req),
      ''--memory'', normalize_memory (rq_ram req), ''-v'', volume @ '':/data'', ''-p'', port_map (rq_adb_port req)]
     @ concat (map (\<lambda>m. [''-v'', m]) mounts)
     @ (if clean then [''--cgroup-parent'', ''system.slice''] else [])
     @ [''--label'', ''rdc.spoof-profile='' @ lp, ''--label'', ''rdc.clean-traces='' @ (if clean then ''true'' else ''false'')]
     @ [''--hostname'', hostname]
     @ (if clean then [''--dns'', dns_for_port (rq_adb_port req)] else [])
     @ (if gpu_of req then [''--device'', ''/dev/dri''] else [])
     @ [img, ''androidboot.redroid_width='' @ width, ''androidboot.redroid_height='' @ height,
        ''androidboot.redroid_dpi='' @ rq_dpi req, gpu_mode (gpu_of req)])"

text \<open>What is refused before anything is created.\<close>

definition create_conflict :: "desk \<Rightarrow> create_request \<Rightarrow> string \<Rightarrow> dstate \<Rightarrow> outcome option \<times> dstate" where
  "create_conflict e req container_name s =
    (case list_containers e True s of (existing, t) \<Rightarrow>
      (if list_ex (\<lambda>c. dc_name c = container_name \<or> clean_name (dc_name c) = container_name
            \<or> dc_name c = ''/'' @ container_name) existing
       then Some (refused [Note ''instance name taken'' [rq_name req, container_name]])
       else if host_port_in_use e existing (rq_adb_port req) t
       then Some (refused [Note ''ADB port taken'' [dec_string (unat (rq_adb_port req)),
              dec_string (unat (suggest_free_adb_port e existing t))]])
       else None, t))"

definition pull_image :: "desk \<Rightarrow> string \<Rightarrow> dstate \<Rightarrow> outcome option \<times> dstate" where
  "pull_image e base s = (case image_exists e base s of (present, s1) \<Rightarrow>
    if present then (None, s1)
    else (case docker e [''pull'', base] 600 s1 of (r, s2) \<Rightarrow>
      (if sr_success r then None
       else Some \<lparr>oc_success = False, oc_stdout = [Text (sr_stdout r)],
         oc_stderr = [Note ''image not pulled'' [base], Text (sr_stderr r)], oc_exit_code = sr_exit_code r\<rparr>, s2)))"

text \<open>The steps inside an instance whose ADB is ready.\<close>

definition first_boot :: "desk \<Rightarrow> assets \<Rightarrow> create_request \<Rightarrow> string \<Rightarrow> string \<Rightarrow> dstate \<Rightarrow> notice list \<times> dstate" where
  "first_boot e a req container_name serial s =
    (case (if rq_install_magisk req
           then (case magisk_first_boot_activation e a container_name req serial s of
               (Inr m, t) \<Rightarrow> (m, t) | (Inl m, t) \<Rightarrow> (Note ''Magisk activation incomplete'' [] # m, t))
           else ([], s)) of (out1, s1) \<Rightarrow>
     (case (if rq_install_cloak req
            then (let pid = trim (case rq_spoof_profile_id req of Some i \<Rightarrow> i | None \<Rightarrow> []);
                      p = (if pid = [] then default_profile else pid) in
                  case cloak_first_boot_install e a (if dk_brand e p \<noteq> None then Some p else None) serial s1 of
                    (Inr m, t) \<Rightarrow> (m, t) | (Inl m, t) \<Rightarrow> (Note ''DeviceCloak incomplete'' [] # m, t))
            else ([], s1)) of (out2, s2) \<Rightarrow>
       (let s3 = (if rq_install_gapps req then skip_first_boot_provisioning e serial s2 else s2) in
        (out1 @ out2, first_boot_screen_on e serial (first_boot_net_hostname e container_name req s3)))))"

text \<open>What follows a container that runs: the wait for its ADB, and its first boot.\<close>

definition after_run :: "desk \<Rightarrow> assets \<Rightarrow> create_request \<Rightarrow> string \<Rightarrow> string \<Rightarrow> shell_result \<Rightarrow> dstate \<Rightarrow> outcome \<times> dstate" where
  "after_run e a req container_name volume r s =
    (let s1 = s\<lparr>ds_container_created := True\<rparr>; serial = serial_of (rq_adb_port req);
         head = [Text (sr_stdout r), Note ''data volume'' [volume], Text (''ADB: '' @ serial)] in
     if ds_cancel_requested s1 then cancelled_create_result e container_name s1
     else (case (if rq_wait_adb req
           then (case wait_ready_with_cancel e serial 240 ds_cancel_requested s1 of (ready, s2) \<Rightarrow>
             if ds_cancel_requested s2 then (Inl (), s2)
             else if \<not> oc_success ready
             then (Inr \<lparr>oc_success = False, oc_stdout = head @ oc_stdout ready,
                 oc_stderr = [Note ''container started, ADB not ready'' []] @ oc_stderr ready @ [Text (sr_stderr r)],
                 oc_exit_code = oc_exit_code ready\<rparr>, s2)
             else (case first_boot e a req container_name serial s2 of (out, s3) \<Rightarrow>
               (Inr \<lparr>oc_success = True, oc_stdout = head @ oc_stdout ready @ out, oc_stderr = [Text (sr_stderr r)],
                 oc_exit_code = sr_exit_code r\<rparr>, s3)))
           else (Inr \<lparr>oc_success = True, oc_stdout = head @ [Note ''no wait for ADB'' []]
                   @ (if rq_install_magisk req then [Note ''restart once to activate Magisk'' []] else []),
                 oc_stderr = [Text (sr_stderr r)], oc_exit_code = sr_exit_code r\<rparr>, s1)) of
         (Inl _, s4) \<Rightarrow> cancelled_create_result e container_name s4
       | (Inr out, s4) \<Rightarrow> if ds_cancel_requested s4 then cancelled_create_result e container_name s4 else (out, s4)))"

text \<open>From the volume to the running container.\<close>

definition create_and_run :: "desk \<Rightarrow> assets \<Rightarrow> create_request \<Rightarrow> string \<Rightarrow> string \<Rightarrow> dstate \<Rightarrow> outcome \<times> dstate" where
  "create_and_run e a req container_name img s =
    (let volume = data_volume_name (sanitize_name (rq_name req)); mounts = trace_mounts e a req container_name s in
     if ds_cancel_requested s then cancelled_create_result e container_name s
     else (case volume_exists e volume s of (ex, s1) \<Rightarrow>
       (let s2 = s1\<lparr>ds_volume_created := (ex = Some False)\<rparr>;
            s3 = snd (docker e [''volume'', ''create'', volume] 20 s2) in
        case docker e (run_args e req container_name volume mounts img) 120 s3 of (r, s4) \<Rightarrow>
          if sr_success r then after_run e a req container_name volume r s4 else (of_shell r, s4))))"

definition create_redroid :: "desk \<Rightarrow> assets \<Rightarrow> create_request \<Rightarrow> dstate \<Rightarrow> outcome \<times> dstate" where
  "create_redroid e a req s0 =
    (let s = s0\<lparr>ds_cancel_requested := False, ds_container_created := False, ds_volume_created := False\<rparr>;
         container_name = create_container_name (rq_name req) in
     if sanitize_name (rq_name req) = [] then (refused [Note ''invalid instance name'' []], s)
     else if ds_cancel_requested s then cancelled_create_result e container_name s
     else if rq_adb_port req = 0 then (refused [Note ''invalid ADB port'' []], s)
     else (case create_conflict e req container_name s of
       (Some o1, s1) \<Rightarrow> (o1, s1)
     | (None, s1) \<Rightarrow> (case pull_image e (base_image_of req) s1 of
         (Some o2, s2) \<Rightarrow> (o2, s2)
       | (None, s2) \<Rightarrow>
         if ds_cancel_requested s2 then cancelled_create_result e container_name s2
         else (case instance_image e a req (base_image_of req) s2 of
           (Inl m, s3) \<Rightarrow> (refused m, s3)
         | (Inr img, s3) \<Rightarrow> create_and_run e a req container_name img s3))))"

end
