(* ===== verification/Docker_Clone.thy ===== *)
theory Docker_Clone imports Docker_Create begin

text \<open>
  \<^verbatim>\<open>src-tauri/src/services/docker.rs\<close>: the clone of an instance: its image is committed, the copy starts on an empty data volume
  and gets back what lived on the volume of the source.
\<close>

section \<open>Configuration databases\<close>

definition parent_dir :: "string \<Rightarrow> string" where
  "parent_dir p = (case rsplit_once_char (CHR ''/'') p of Some (d, _) \<Rightarrow> d | None \<Rightarrow> ''/'')"

definition copy_file_into :: "desk \<Rightarrow> string \<Rightarrow> string \<Rightarrow> string \<Rightarrow> string \<Rightarrow> dstate \<Rightarrow> bool \<times> dstate" where
  "copy_file_into e src dst dir p s =
    (case run_command_bytes e (dk_docker e) [''exec'', src, ''cat'', p] 20 s of (data, s1) \<Rightarrow>
      (case data of
         Inl _ \<Rightarrow> (False, s1)
       | Inr d \<Rightarrow> if d = [] then (False, s1)
         else (case run_command_stdin e (dk_docker e) [''exec'', ''-i'', dst, ''sh'', ''-c'',
               ''mkdir -p '' @ SQ @ dir @ SQ @ '' && cat > '' @ SQ @ p @ SQ] d 20 s1 of (r, s2) \<Rightarrow> (sr_success r, s2))))"

definition copy_db_into :: "desk \<Rightarrow> string \<Rightarrow> string \<Rightarrow> string \<Rightarrow> dstate \<Rightarrow> bool \<times> dstate" where
  "copy_db_into e src dst p s =
    (case copy_file_into e src dst (parent_dir p) p s of (c1, s1) \<Rightarrow>
     (case copy_file_into e src dst (parent_dir p) (p @ ''-wal'') s1 of (c2, s2) \<Rightarrow> (c1 \<or> c2, s2)))"

section \<open>The clone\<close>

definition clone_args :: "string \<Rightarrow> string \<Rightarrow> u16 \<Rightarrow> string list \<Rightarrow> bool \<Rightarrow> string \<Rightarrow> string \<Rightarrow> string list" where
  "clone_args name volume port limits gpu hostname image_id =
    [''run'', ''-d'', ''--name'', name, ''--privileged''] @ limits
    @ [''-v'', volume @ '':/data'', ''-p'', port_map port, ''--hostname'', hostname]
    @ (if gpu then [''--device'', ''/dev/dri''] else []) @ [image_id, gpu_mode gpu]"

definition limit_args :: "desk \<Rightarrow> u64 \<times> u64 \<Rightarrow> string list" where
  "limit_args e l = (case l of (mem, nano) \<Rightarrow>
     (if nano > 0 then [''--cpus'', dk_show_cpus e nano] else [])
     @ (if mem > 0 then [''--memory'', dec_string (unat mem)] else []))"

definition denylist_packages :: "string \<Rightarrow> string list" where
  "denylist_packages out = filter (\<lambda>p. p \<noteq> [] \<and> list_all (\<lambda>c. is_ascii_alphanumeric c \<or> c \<in> set ''._'') p)
     (map (\<lambda>l. trim (hd (split_char (CHR ''|'') (trim l)))) (lines out))"

definition replay_denylist :: "desk \<Rightarrow> string \<Rightarrow> string \<Rightarrow> dstate \<Rightarrow> dstate" where
  "replay_denylist e src name s =
    (case docker e [''exec'', src, ''sh'', ''-c'',
        ''M=/sbin/magisk; [ -x $M ] || M=/system/etc/init/magisk/magisk; $M --denylist ls 2>/dev/null''] 20 s of (r, s1) \<Rightarrow>
      (let ps = denylist_packages (sr_stdout r) in
       if sr_success r \<and> ps \<noteq> []
       then snd (docker e [''exec'', name, ''sh'', ''-c'', ''printf '' @ SQ @ ''%s'' @ BS @ ''n'' @ SQ @ '' '' @ join '' '' ps
              @ '' > /data/adb/rdc_target_packages.txt''] 15 s1)
       else s1))"

definition kill_daemons :: string where
  "kill_daemons = ''kill $(pidof lspd) 2>/dev/null; kill $(pidof magiskd magisk64) 2>/dev/null; sleep 1; echo killed''"

text \<open>The Magisk preset of the source, replayed on a clone that carries it: \<open>Some\<close> is the wait after the restart.\<close>

definition replay_magisk :: "desk \<Rightarrow> string \<Rightarrow> string \<Rightarrow> string \<Rightarrow> dstate \<Rightarrow> outcome option \<times> dstate" where
  "replay_magisk e src name serial s =
    (case docker e [''exec'', name, ''sh'', ''-c'', ''test -f /system/etc/init/magisk/magisk && echo yes''] 15 s of (r, s1) \<Rightarrow>
      if \<not> (sr_success r \<and> str_contains (sr_stdout r) ''yes'') then (None, s1)
      else (let s2 = replay_denylist e src name s1;
                s3 = snd (docker e [''exec'', name, ''sh'', ''-c'', kill_daemons] 15 s2);
                s4 = snd (copy_db_into e src name ''/data/adb/magisk.db'' s3);
                s5 = snd (copy_db_into e src name ''/data/adb/lspd/config/modules_config.db'' s4);
                s6 = snd (docker e [''restart'', name] 120 s5) in
            case wait_ready e serial 180 s6 of (ready, s7) \<Rightarrow>
              (Some ready, if oc_success ready then first_boot_screen_on e serial s7 else s7)))"

definition after_clone :: "desk \<Rightarrow> string \<Rightarrow> string \<Rightarrow> string \<Rightarrow> u16 \<Rightarrow> shell_result \<Rightarrow> dstate \<Rightarrow> outcome \<times> dstate" where
  "after_clone e src name volume port r s =
    (let serial = serial_of port in
     case wait_ready e serial 180 s of (ready, s1) \<Rightarrow>
     (let o1 = \<lparr>oc_success = True,
            oc_stdout = [Text (sr_stdout r), Note ''data volume'' [volume], Text (''ADB: '' @ serial)] @ oc_stdout ready,
            oc_stderr = [Text (sr_stderr r)], oc_exit_code = sr_exit_code r\<rparr>;
          failed = (\<lambda>w. o1\<lparr>oc_success := False, oc_stderr := oc_stderr w, oc_exit_code := oc_exit_code w\<rparr>) in
      if \<not> oc_success ready then (failed ready, s1)
      else (let s2 = first_boot_screen_on e serial s1 in
        case adb_shell e serial ''pm path com.google.android.setupwizard'' s2 of (wizard, s3) \<Rightarrow>
        (let s4 = (if sr_success wizard \<and> str_contains (sr_stdout wizard) ''package:''
                   then snd (apply_headless_gapps_provisioning e serial s3) else s3) in
         case replay_magisk e src name serial s4 of
           (None, s5) \<Rightarrow> (o1, s5)
         | (Some w, s5) \<Rightarrow>
           (if oc_success w then o1\<lparr>oc_stdout := oc_stdout o1 @ [Note ''Magisk preset replayed'' []]\<rparr> else failed w, s5)))))"

definition clone_container :: "desk \<Rightarrow> string \<Rightarrow> string \<Rightarrow> dstate \<Rightarrow> outcome \<times> dstate" where
  "clone_container e id_or_name new_name s =
    (let sanitized = sanitize_name new_name; name = ''rdc-'' @ sanitized; volume = data_volume_name sanitized in
     if sanitized = [] then (refused [Note ''invalid clone name'' []], s)
     else (case container_name_taken e new_name s of (taken, s1) \<Rightarrow>
       if taken then (refused [Note ''name taken'' [name]], s1)
       else (case docker e [''commit'', id_or_name, ''rdc-clone-'' @ sanitized] 180 s1 of (commit, s2) \<Rightarrow>
         if \<not> sr_success commit then (of_shell commit, s2)
         else (let s3 = snd (docker e [''volume'', ''create'', volume] 20 s2) in
           case next_free_adb_port e s3 of (port, s4) \<Rightarrow>
           (case container_resource_limits e id_or_name s4 of (limits, s5) \<Rightarrow>
           (case container_gpu_passthrough e id_or_name s5 of (gpu, s6) \<Rightarrow>
           (case container_spoof_brand e id_or_name s6 of (brand, s7) \<Rightarrow>
           (case docker e (clone_args name volume port (limit_args e limits) gpu (derive_hostname brand port)
               (trim (sr_stdout commit))) 120 s7 of (r, s8) \<Rightarrow>
             if sr_success r then after_clone e id_or_name name volume port r s8
             else (of_shell r, snd (docker e [''rmi'', ''-f'', ''rdc-clone-'' @ sanitized] 60 s8))))))))))"

end
