(* ===== verification/Docker_Keeps.thy ===== *)
theory Docker_Keeps imports Docker_Clone begin

text \<open>
  Facts that the commands of the desktop application keep. The interface \<open>kept\<close> is a fact about the state and the
  commands that keep it, with whatever other threads do in between; under it every reader and every operation on an instance keeps the fact.
\<close>

named_theorems keeps \<open>operations that keep the fact of the locale\<close>

locale kept =
  fixes e :: desk and keep :: "dstate \<Rightarrow> bool" and benign :: "call \<Rightarrow> bool"
  assumes call: "keep s \<Longrightarrow> benign (Call p argv i) \<Longrightarrow> keep (snd (run_command_stdin e p argv i n s))"
    and pause: "keep s \<Longrightarrow> keep (sleep_ms e ms s)"
    and waiting: "keep s \<Longrightarrow> keep (s\<lparr>ds_waiting := w\<rparr>)"
    and adb: "argv \<noteq> [] \<Longrightarrow> hd argv \<in> set [''-s'', ''connect'', ''disconnect'', ''devices'']
      \<Longrightarrow> benign (Call (dk_adb e) argv i)"
begin

lemma timeout: "keep s \<Longrightarrow> benign (Call p argv []) \<Longrightarrow> keep (snd (run_command_timeout e p argv n s))"
  by (simp add: run_command_timeout_def call)

lemma adb_keeps [keeps]:
  "keep s \<Longrightarrow> argv \<noteq> [] \<Longrightarrow> hd argv \<in> set [''-s'', ''connect'', ''disconnect'', ''devices'']
    \<Longrightarrow> keep (snd (run_command_timeout e (dk_adb e) argv n s))"
  by (rule timeout) (simp_all add: adb)

lemma connect_keeps [keeps]: "keep s \<Longrightarrow> keep (snd (connect e a s))"
  by (simp add: connect_def split_beta keeps)

lemma disconnect_keeps [keeps]: "keep s \<Longrightarrow> keep (snd (disconnect e a s))"
  by (simp add: disconnect_def keeps)

lemma device_state_keeps [keeps]: "keep s \<Longrightarrow> keep (snd (device_state e a s))"
  by (simp add: device_state_def devices_def split_beta keeps)

lemma get_prop_keeps [keeps]: "keep s \<Longrightarrow> keep (snd (get_prop e a p s))"
  by (simp add: get_prop_def split_beta keeps)

lemma shell_keeps [keeps]:
  "keep s \<Longrightarrow> keep (snd (shell_timeout e a c n s))" "keep s \<Longrightarrow> keep (snd (adb_shell e a c s))"
  by (simp_all add: shell_timeout_def adb_shell_def keeps)

lemma install_keeps [keeps]: "keep s \<Longrightarrow> keep (snd (install e a p b s))"
  by (simp add: install_def split_beta keeps)

lemma push_keeps [keeps]: "keep s \<Longrightarrow> keep (snd (push e a l r s))"
  by (simp add: push_def keeps)

lemma never_opens_keeps [keeps]: "keep s \<Longrightarrow> keep (snd (never_opens n e a c s))"
  by (induction n arbitrary: s) (simp_all add: pause)

lemma wait_attempt_keeps [keeps]: "keep s \<Longrightarrow> keep (snd (wait_attempt e a n st con s))"
  by (simp add: wait_attempt_def split_beta keeps pause Let_def)

lemma wait_loop_keeps:
  "e' = e \<Longrightarrow> keep s \<Longrightarrow> keep (snd (wait_until_ready e' a secs start c n st b con s))"
proof (induction e' a secs start c n st b con s rule: wait_until_ready.induct)
  case (1 e' a secs start c n st b con s)
  obtain st' b' con' t where w: "wait_attempt e' a (n + 1) st con s = ((st', b', con'), t)" by (metis prod_cases3 surj_pair)
  have "keep t" using wait_attempt_keeps [of s a "n + 1" st con] 1 w by simp
  then have "keep (sleep_ms e 2000 t)" by (rule pause)
  then show ?case using 1 w \<open>keep t\<close> by (subst wait_until_ready.simps) (auto simp: w)
qed

lemma wait_keeps [keeps]: "keep s \<Longrightarrow> keep (snd (wait_ready_with_cancel e a secs c s))"
  by (simp add: wait_ready_with_cancel_def localhost_port_never_opens_def split_beta Let_def waiting keeps wait_loop_keeps)

lemma wait_ready_keeps [keeps]: "keep s \<Longrightarrow> keep (snd (wait_ready e a secs s))"
  by (simp add: wait_ready_def keeps)

end

text \<open>
  A locale for the program's calls to docker: the readers are \<open>benign\<close>, and so is every command inside a container.
\<close>

locale kept_docker = kept +
  assumes docker: "argv \<noteq> [] \<Longrightarrow> hd argv \<in> set [''ps'', ''inspect'', ''image'', ''pull'', ''build'', ''exec'', ''restart'', ''commit'']
      \<Longrightarrow> benign (Call (dk_docker e) argv i)"
begin

lemma docker_keeps [keeps]:
  "keep s \<Longrightarrow> argv \<noteq> [] \<Longrightarrow> hd argv \<in> set [''ps'', ''inspect'', ''image'', ''pull'', ''build'', ''exec'', ''restart'', ''commit'']
    \<Longrightarrow> keep (snd (run_command_timeout e (dk_docker e) argv n s))"
  by (rule timeout) (simp_all add: docker)

lemma exec_keeps [keeps]: "keep s \<Longrightarrow> keep (snd (run_command_stdin e (dk_docker e) (''exec'' # argv) i n s))"
  by (rule call) (simp_all add: docker)

lemma list_containers_keeps [keeps]: "keep s \<Longrightarrow> keep (snd (list_containers e b s))"
  by (simp add: list_containers_def enrich_stopped_container_ports_def split_beta Let_def keeps pause)

lemma conflict_keeps [keeps]: "keep s \<Longrightarrow> keep (snd (create_conflict e req n s))"
  by (simp add: create_conflict_def split_beta keeps)

lemma image_exists_keeps [keeps]: "keep s \<Longrightarrow> keep (snd (image_exists e i s))"
  by (simp add: image_exists_def split_beta keeps)

lemma pull_keeps [keeps]: "keep s \<Longrightarrow> keep (snd (pull_image e i s))"
  by (simp add: pull_image_def split_beta keeps)

lemma built_keeps [keeps]: "keep s \<Longrightarrow> keep (snd (built_image e a tag p target s))"
  by (simp add: built_image_def docker_build_def split_beta keeps split: option.split)

lemma gapps_keeps [keeps]: "keep s \<Longrightarrow> keep (snd (ensure_gapps_image e a b z v s))"
  by (simp add: ensure_gapps_image_def Let_def keeps split: option.split sum.split)

lemma preset_keeps [keeps]: "keep s \<Longrightarrow> keep (snd (ensure_preset_image e a req b s))"
  by (simp add: ensure_preset_image_def Let_def keeps split: option.split sum.split)

lemma instance_image_keeps [keeps]:
  assumes "keep s"
  shows "keep (snd (instance_image e a req b s))"
proof -
  obtain x t where p: "ensure_preset_image e a req b s = (x, t)" by fastforce
  have "keep t" using preset_keeps [OF assms, of a req b] p by simp
  then show ?thesis using assms by (simp add: instance_image_def p keeps split: sum.split)
qed

lemma screen_on_keeps [keeps]: "keep s \<Longrightarrow> keep (first_boot_screen_on e a s)"
  by (simp add: first_boot_screen_on_def keeps)

lemma skip_keeps [keeps]: "keep s \<Longrightarrow> keep (skip_first_boot_provisioning e a s)"
  by (simp add: skip_first_boot_provisioning_def apply_headless_gapps_provisioning_def keeps)

lemma hostname_keeps [keeps]: "keep s \<Longrightarrow> keep (first_boot_net_hostname e n req s)"
  by (simp add: first_boot_net_hostname_def Let_def keeps)

lemma inject_keeps [keeps]: "keep s \<Longrightarrow> keep (inject_host_adb_key e a n s)"
  by (simp add: inject_host_adb_key_def keeps split: option.split)

lemma wait_preset_loop_keeps: "e' = e \<Longrightarrow> keep s \<Longrightarrow> keep (snd (wait_preset e' n secs start s))"
proof (induction e' n secs start s rule: wait_preset.induct)
  case (1 e' n secs start s)
  let ?c = "docker e' [''exec'', n, ''test'', ''-f'', ''/data/adb/.rdc_preset_done''] 10 s"
  obtain r t where w: "?c = (r, t)" by fastforce
  have "keep (snd ?c)" using 1(2,3) by (simp add: keeps)
  then have "keep t" "keep (sleep_ms e 3000 t)" using w by (simp_all add: pause)
  then show ?case using 1 w by (subst wait_preset.simps) (auto simp: w)
qed

lemma wait_preset_keeps [keeps]: "keep s \<Longrightarrow> keep (snd (wait_preset_done e n secs s))"
  by (simp add: wait_preset_done_def wait_preset_loop_keeps)

lemma magisk_keeps [keeps]:
  assumes "keep s"
  shows "keep (snd (magisk_first_boot_activation e a n req serial s))"
  using assms by (simp add: magisk_first_boot_activation_def Let_def split_beta keeps split: option.split)

lemma cloak_keeps [keeps]: "keep s \<Longrightarrow> keep (snd (cloak_first_boot_install e a p serial s))"
  by (simp add: cloak_first_boot_install_def install_cloak_module_def push_cloak_config_def split_beta keeps
      split: option.split sum.split)

lemma first_boot_keeps [keeps]:
  assumes "keep s"
  shows "keep (snd (first_boot e a req n serial s))"
  using assms by (simp add: first_boot_def Let_def split_beta keeps split: sum.split)

end

end
