(* ===== verification/Docker_Props.thy ===== *)
theory Docker_Props imports Docker_Keeps begin

text \<open>
  What a creation removes when it is cancelled: the container it started and the volume it made, and nothing else, whatever the
  moment at which the requests of the user arrive.
\<close>

section \<open>The history of a creation\<close>

text \<open>A command that removes something, the start of a container of a name, and the answer that a volume does not exist.\<close>

definition removes :: "call \<Rightarrow> bool" where
  "removes c = (case c of Call p argv i \<Rightarrow> take 1 argv = [''rm''] \<or> take 1 argv = [''rmi''] \<or> take 2 argv = [''volume'', ''rm'']
     | Pause n \<Rightarrow> False)"

definition starts_container :: "desk \<Rightarrow> string \<Rightarrow> call list \<Rightarrow> call \<Rightarrow> bool" where
  "starts_container e name before c = (case c of Call p argv i \<Rightarrow> p = dk_docker e \<and> take 4 argv = [''run'', ''-d'', ''--name'', name]
     \<and> (\<exists>out err. dk_answer e before c = Ended (Some 0) out err) | Pause n \<Rightarrow> False)"

definition finds_no_volume :: "desk \<Rightarrow> string \<Rightarrow> call list \<Rightarrow> call \<Rightarrow> bool" where
  "finds_no_volume e volume before c =
    (c = Call (dk_docker e) [''volume'', ''inspect'', ''--format'', ''{{.Name}}'', volume] []
     \<and> (let r = result_of e (dk_docker e) [''volume'', ''inspect'', ''--format'', ''{{.Name}}'', volume] 10 (dk_answer e before c)
        in \<not> sr_success r \<and> str_contains (to_ascii_lowercase (sr_stderr r)) ''no such volume''))"

definition happened :: "(call list \<Rightarrow> call \<Rightarrow> bool) \<Rightarrow> call list \<Rightarrow> call list \<Rightarrow> bool" where
  "happened P before lg = (\<exists>pre c suf. lg = pre @ c # suf \<and> P (before @ pre) c)"

lemma happened_Nil [simp]: "\<not> happened P before []"
  by (simp add: happened_def)

lemma happened_snoc: "happened P before (lg @ [c]) \<longleftrightarrow> happened P before lg \<or> P (before @ lg) c"
proof
  assume "happened P before (lg @ [c])"
  then obtain pre d suf where "lg @ [c] = pre @ d # suf" "P (before @ pre) d" by (auto simp: happened_def)
  then show "happened P before lg \<or> P (before @ lg) c"
    by (cases suf rule: rev_cases) (auto simp: happened_def)
next
  assume "happened P before lg \<or> P (before @ lg) c"
  then show "happened P before (lg @ [c])" by (auto simp: happened_def) (metis append.assoc append_Cons)
qed

definition removal_of :: "desk \<Rightarrow> string \<Rightarrow> call" where
  "removal_of e name = Call (dk_docker e) [''rm'', ''-f'', create_container_name name] []"

definition volume_removal_of :: "desk \<Rightarrow> string \<Rightarrow> call" where
  "volume_removal_of e name = Call (dk_docker e) [''volume'', ''rm'', ''-f'', data_volume_name (sanitize_name name)] []"

text \<open>A removal is justified by what the same creation did before it.\<close>

definition justified :: "desk \<Rightarrow> string \<Rightarrow> call list \<Rightarrow> call list \<Rightarrow> call \<Rightarrow> bool" where
  "justified e name before lg c = (removes c \<longrightarrow>
     c = removal_of e name \<and> happened (starts_container e (create_container_name name)) before lg
     \<or> c = volume_removal_of e name \<and> happened (finds_no_volume e (data_volume_name (sanitize_name name))) before lg)"

definition only_own_removed :: "desk \<Rightarrow> string \<Rightarrow> call list \<Rightarrow> call list \<Rightarrow> bool" where
  "only_own_removed e name before lg = (\<forall>pre c suf. lg = pre @ c # suf \<longrightarrow> justified e name before pre c)"

lemma only_own_removed_Nil [simp]: "only_own_removed e name before []"
  by (simp add: only_own_removed_def)

lemma only_own_removed_snoc:
  "only_own_removed e name before (lg @ [c]) \<longleftrightarrow> only_own_removed e name before lg \<and> justified e name before lg c"
proof
  assume a: "only_own_removed e name before (lg @ [c])"
  then show "only_own_removed e name before lg \<and> justified e name before lg c"
    unfolding only_own_removed_def by (metis append.assoc append_Cons)
next
  assume a: "only_own_removed e name before lg \<and> justified e name before lg c"
  show "only_own_removed e name before (lg @ [c])" unfolding only_own_removed_def
  proof (intro allI impI)
    fix pre d suf assume "lg @ [c] = pre @ d # suf"
    then show "justified e name before pre d" using a
      by (cases suf rule: rev_cases) (auto simp: only_own_removed_def)
  qed
qed

section \<open>The invariant\<close>

text \<open>
  The two flags say exactly what the creation did so far, and every removal was justified. \<open>unmarked\<close> is a container that has
  just started and is not marked yet.
\<close>

definition honest :: "bool \<Rightarrow> desk \<Rightarrow> string \<Rightarrow> call list \<Rightarrow> dstate \<Rightarrow> bool" where
  "honest unmarked e name before s = (\<exists>lg. ds_log s = before @ lg \<and> only_own_removed e name before lg
     \<and> (ds_container_created s \<or> unmarked \<longleftrightarrow> happened (starts_container e (create_container_name name)) before lg)
     \<and> (ds_volume_created s \<longleftrightarrow> happened (finds_no_volume e (data_volume_name (sanitize_name name))) before lg))"

lemma honestI:
  "ds_log s = before @ lg \<Longrightarrow> only_own_removed e name before lg
    \<Longrightarrow> (ds_container_created s \<or> unmarked \<longleftrightarrow> happened (starts_container e (create_container_name name)) before lg)
    \<Longrightarrow> (ds_volume_created s \<longleftrightarrow> happened (finds_no_volume e (data_volume_name (sanitize_name name))) before lg)
    \<Longrightarrow> honest unmarked e name before s"
  unfolding honest_def by blast

lemma honestE:
  assumes "honest unmarked e name before s"
  obtains lg where "ds_log s = before @ lg" "only_own_removed e name before lg"
    "ds_container_created s \<or> unmarked \<longleftrightarrow> happened (starts_container e (create_container_name name)) before lg"
    "ds_volume_created s \<longleftrightarrow> happened (finds_no_volume e (data_volume_name (sanitize_name name))) before lg"
  using assms unfolding honest_def by blast

text \<open>The commands that touch none of this.\<close>

definition harmless :: "desk \<Rightarrow> string \<Rightarrow> call \<Rightarrow> bool" where
  "harmless e name c = (\<not> removes c \<and> (\<forall>before. \<not> starts_container e (create_container_name name) before c
     \<and> \<not> finds_no_volume e (data_volume_name (sanitize_name name)) before c))"

lemma honest_record:
  assumes "honest u e name before s" and "harmless e name c"
  shows "honest u e name before (record_call e c s)" and "honest u e name before ((record_call e c s)\<lparr>ds_time := n\<rparr>)"
proof -
  obtain lg where "ds_log s = before @ lg" "only_own_removed e name before lg"
    "ds_container_created s \<or> u \<longleftrightarrow> happened (starts_container e (create_container_name name)) before lg"
    "ds_volume_created s \<longleftrightarrow> happened (finds_no_volume e (data_volume_name (sanitize_name name))) before lg"
    using assms(1) by (rule honestE)
  moreover have "justified e name before lg c" using assms(2) by (simp add: justified_def harmless_def)
  ultimately show "honest u e name before (record_call e c s)" "honest u e name before ((record_call e c s)\<lparr>ds_time := n\<rparr>)"
    using assms(2) unfolding record_call_def
    by (intro honestI [where lg = "lg @ [c]"]; simp add: happened_snoc only_own_removed_snoc harmless_def)+
qed

text \<open>A name that does not begin with the prefix of the containers: its volume is found again from the name of its container.\<close>

definition plain_name :: "string \<Rightarrow> bool" where
  "plain_name name = (sanitize_name name \<noteq> [] \<and> \<not> starts_with (sanitize_name name) ''rdc-'')"

lemma strip_prefix_append: "strip_prefix p (p @ t) = Some t"
  by simp

lemma trim_start_matches_prefix: "p \<noteq> [] \<Longrightarrow> trim_start_matches p (p @ t) = trim_start_matches p t"
  by (subst trim_start_matches.simps) (simp add: strip_prefix_append del: strip_prefix_Some)

lemma trim_start_matches_none: "\<not> starts_with s p \<Longrightarrow> trim_start_matches p s = s"
  by (subst trim_start_matches.simps) (auto simp: starts_with_def split: option.split)

lemma strip_container_name:
  "plain_name name \<Longrightarrow> trim_start_matches ''rdc-'' (create_container_name name) = sanitize_name name"
  unfolding create_container_name_def
  by (subst trim_start_matches_prefix) (simp_all add: plain_name_def trim_start_matches_none)

lemma removals_start_nothing:
  "\<not> starts_container e n w (removal_of e name)" "\<not> finds_no_volume e v w (removal_of e name)"
  "\<not> starts_container e n w (volume_removal_of e name)" "\<not> finds_no_volume e v w (volume_removal_of e name)"
  by (simp_all add: starts_container_def finds_no_volume_def removal_of_def volume_removal_of_def)

lemma honest_removal:
  assumes "honest u e name before t"
    and "c = removal_of e name \<and> ds_container_created t \<or> c = volume_removal_of e name \<and> ds_volume_created t"
  shows "honest u e name before (record_call e c t)"
proof -
  obtain lg where lg: "ds_log t = before @ lg" "only_own_removed e name before lg"
    "ds_container_created t \<or> u \<longleftrightarrow> happened (starts_container e (create_container_name name)) before lg"
    "ds_volume_created t \<longleftrightarrow> happened (finds_no_volume e (data_volume_name (sanitize_name name))) before lg"
    using assms(1) by (rule honestE)
  have "justified e name before lg c" using assms(2) lg(3,4) by (auto simp: justified_def)
  then show ?thesis using lg assms(2) unfolding record_call_def
    by (intro honestI [where lg = "lg @ [c]"]) (auto simp: happened_snoc only_own_removed_snoc removals_start_nothing)
qed

text \<open>The cleanup of a plain name, as the removals that it sends.\<close>

lemma cleanup_plain:
  assumes "plain_name name"
  shows "cleanup_create_artifacts e (create_container_name name) s =
    (let s1 = (if ds_container_created s then record_call e (removal_of e name) s else s)
     in if ds_volume_created s1 then record_call e (volume_removal_of e name) s1 else s1)"
  using assms by (simp add: cleanup_create_artifacts_def strip_container_name perform_def Let_def removal_of_def
      volume_removal_of_def plain_name_def)

lemma honest_cleanup:
  assumes "honest u e name before s" and "plain_name name"
  shows "honest u e name before (cleanup_create_artifacts e (create_container_name name) s)"
proof -
  let ?s1 = "if ds_container_created s then record_call e (removal_of e name) s else s"
  have 1: "honest u e name before ?s1" using honest_removal [OF assms(1)] assms(1) by simp
  show ?thesis using honest_removal [OF 1] 1 by (simp add: cleanup_plain [OF assms(2)] Let_def)
qed

section \<open>Requests of the user\<close>

text \<open>While an instance is created the user asks only for its own creation to be cancelled.\<close>

definition polite :: "desk \<Rightarrow> string \<Rightarrow> bool" where
  "polite e name = (plain_name name \<and> (\<forall>lg. set (dk_requests e lg) \<subseteq> {name}))"

lemma honest_cancel:
  assumes "honest u e name before s" and "plain_name name"
  shows "honest u e name before (snd (cancel_create e name s))"
proof -
  have "honest u e name before (s\<lparr>ds_cancel_requested := True\<rparr>)" using assms(1) by (simp add: honest_def)
  then show ?thesis using assms honest_cleanup by (simp add: cancel_create_def Let_def)
qed

lemma honest_deliver:
  assumes "honest u e name before s" and "polite e name"
  shows "honest u e name before (deliver e s)"
proof -
  have "honest u e name before (fold (\<lambda>n t. snd (cancel_create e n t)) ns s)" if "set ns \<subseteq> {name}" for ns
    using that assms by (induction ns arbitrary: s) (auto simp: honest_cancel polite_def)
  then show ?thesis using assms(2) by (simp add: deliver_def polite_def)
qed

definition kept_honest :: "desk \<Rightarrow> string \<Rightarrow> call list \<Rightarrow> dstate \<Rightarrow> bool" where
  "kept_honest e name before s = (polite e name \<longrightarrow> honest False e name before s)"

interpretation creation: kept_docker e "kept_honest e name before" "harmless e name" for e name before
proof unfold_locales
  fix s p argv i n assume "kept_honest e name before s" "harmless e name (Call p argv i)"
  then show "kept_honest e name before (snd (run_command_stdin e p argv i n s))"
    by (simp add: kept_honest_def run_command_stdin_def perform_def Let_def honest_deliver honest_record)
next
  fix s ms assume "kept_honest e name before s"
  moreover have "harmless e name (Pause ms)" by (simp add: harmless_def removes_def starts_container_def finds_no_volume_def)
  ultimately show "kept_honest e name before (sleep_ms e ms s)"
    by (simp add: kept_honest_def sleep_ms_def honest_deliver honest_record)
next
  fix s w assume "kept_honest e name before s"
  then show "kept_honest e name before (s\<lparr>ds_waiting := w\<rparr>)" by (simp add: kept_honest_def honest_def)
next
  fix argv :: "string list" and i
  assume "argv \<noteq> []" "hd argv \<in> set [''-s'', ''connect'', ''disconnect'', ''devices'']"
  then show "harmless e name (Call (dk_adb e) argv i)"
    by (cases argv) (auto simp: harmless_def removes_def starts_container_def finds_no_volume_def)
next
  fix argv :: "string list" and i
  assume "argv \<noteq> []" "hd argv \<in> set [''ps'', ''inspect'', ''image'', ''pull'', ''build'', ''exec'', ''restart'', ''commit'']"
  then show "harmless e name (Call (dk_docker e) argv i)"
    by (cases argv) (auto simp: harmless_def removes_def starts_container_def finds_no_volume_def)
qed

section \<open>A cancelled creation\<close>

definition was_cancelled :: "outcome \<Rightarrow> bool" where
  "was_cancelled out = (oc_exit_code out = CREATE_CANCELLED_EXIT_CODE \<and> oc_stderr out = [Note ''creation cancelled'' []])"

text \<open>Every container that was started, and every volume that was found missing, is removed later on.\<close>

definition cleaned :: "desk \<Rightarrow> string \<Rightarrow> call list \<Rightarrow> call list \<Rightarrow> bool" where
  "cleaned e name before lg = (\<forall>pre c suf. lg = pre @ c # suf \<longrightarrow>
     (starts_container e (create_container_name name) (before @ pre) c \<longrightarrow> removal_of e name \<in> set suf)
     \<and> (finds_no_volume e (data_volume_name (sanitize_name name)) (before @ pre) c \<longrightarrow> volume_removal_of e name \<in> set suf))"

definition well_ended :: "desk \<Rightarrow> string \<Rightarrow> call list \<Rightarrow> outcome \<times> dstate \<Rightarrow> bool" where
  "well_ended e name before r = (\<exists>lg. ds_log (snd r) = before @ lg \<and> only_own_removed e name before lg
     \<and> (was_cancelled (fst r) \<longrightarrow> cleaned e name before lg))"

lemma well_ended_honest: "honest False e name before t \<Longrightarrow> \<not> was_cancelled out \<Longrightarrow> well_ended e name before (out, t)"
  unfolding well_ended_def by (auto elim: honestE)

lemma cleaned_append:
  assumes "happened (starts_container e (create_container_name name)) before lg \<longrightarrow> removal_of e name \<in> set rs"
    and "happened (finds_no_volume e (data_volume_name (sanitize_name name))) before lg \<longrightarrow> volume_removal_of e name \<in> set rs"
    and "set rs \<subseteq> {removal_of e name, volume_removal_of e name}"
  shows "cleaned e name before (lg @ rs)"
  unfolding cleaned_def
proof (intro allI impI)
  fix pre c suf assume "lg @ rs = pre @ c # suf"
  then consider (old) us where "lg = pre @ c # us" "suf = us @ rs" | (new) "c \<in> set rs"
    by (auto simp: append_eq_append_conv2 append_eq_Cons_conv)
  then show "(starts_container e (create_container_name name) (before @ pre) c \<longrightarrow> removal_of e name \<in> set suf)
     \<and> (finds_no_volume e (data_volume_name (sanitize_name name)) (before @ pre) c \<longrightarrow> volume_removal_of e name \<in> set suf)"
  proof cases
    case old
    then have "P (before @ pre) c \<Longrightarrow> happened P before lg" for P unfolding happened_def by blast
    then show ?thesis using assms(1,2) old by auto
  next
    case new
    then show ?thesis using assms(3) removals_start_nothing by blast
  qed
qed

lemma well_ended_cancelled:
  assumes "honest False e name before u" and "plain_name name"
  shows "well_ended e name before (cancelled_create_result e (create_container_name name) u)"
proof -
  let ?t = "cleanup_create_artifacts e (create_container_name name) u"
  let ?rs = "(if ds_container_created u then [removal_of e name] else []) @ (if ds_volume_created u then [volume_removal_of e name] else [])"
  obtain lg where lg: "ds_log u = before @ lg"
    "ds_container_created u \<longleftrightarrow> happened (starts_container e (create_container_name name)) before lg"
    "ds_volume_created u \<longleftrightarrow> happened (finds_no_volume e (data_volume_name (sanitize_name name))) before lg"
    using assms(1) by (auto elim: honestE)
  have l: "ds_log ?t = before @ (lg @ ?rs)" by (simp add: cleanup_plain [OF assms(2)] Let_def record_call_def lg(1))
  obtain lg' where "ds_log ?t = before @ lg'" "only_own_removed e name before lg'"
    using honest_cleanup [OF assms] by (rule honestE)
  then have "only_own_removed e name before (lg @ ?rs)" using l by simp
  moreover have "cleaned e name before (lg @ ?rs)" using lg by (intro cleaned_append) auto
  ultimately show ?thesis using l unfolding well_ended_def by (auto simp: cancelled_create_result_def)
qed

lemma kept_honestD: "kept_honest e name before s \<Longrightarrow> polite e name \<Longrightarrow> honest False e name before s"
  by (simp add: kept_honest_def)

lemma not_cancelled [simp]:
  "\<not> was_cancelled (refused m)" "\<not> was_cancelled (of_shell r)"
  by (simp_all add: was_cancelled_def CREATE_CANCELLED_EXIT_CODE_def of_shell_def)

lemma after_run_well_ended:
  assumes "honest True e name before s" and p: "polite e name"
  shows "well_ended e name before (after_run e a req (create_container_name name) v r s)"
proof -
  let ?s1 = "s\<lparr>ds_container_created := True\<rparr>" let ?n = "create_container_name name" let ?sn = "serial_of (rq_adb_port req)"
  have pl: "plain_name name" using p by (simp add: polite_def)
  have h1: "honest False e name before ?s1" using assms(1) unfolding honest_def by simp
  obtain ready s2 where w: "wait_ready_with_cancel e ?sn 240 ds_cancel_requested ?s1 = (ready, s2)" by fastforce
  have "kept_honest e name before (snd (wait_ready_with_cancel e ?sn 240 ds_cancel_requested ?s1))"
    by (rule creation.wait_keeps) (simp add: kept_honest_def h1)
  then have h2: "honest False e name before s2" using w p by (simp add: kept_honest_def)
  obtain out s3 where f: "first_boot e a req ?n ?sn s2 = (out, s3)" by fastforce
  have "kept_honest e name before (snd (first_boot e a req ?n ?sn s2))"
    by (rule creation.first_boot_keeps) (simp add: kept_honest_def h2)
  then have h3: "honest False e name before s3" using f p by (simp add: kept_honest_def)
  note c = well_ended_cancelled [OF h1 pl] well_ended_cancelled [OF h2 pl] well_ended_cancelled [OF h3 pl]
  show ?thesis
    using c h1 h2 h3 by (auto simp: after_run_def Let_def w f was_cancelled_def intro!: well_ended_honest)
qed

text \<open>Before anything is created a request changes only the flag that it sets.\<close>

lemma deliver_unmarked:
  assumes "\<not> ds_container_created s" and "\<not> ds_volume_created s"
  shows "\<exists>b. deliver e s = s\<lparr>ds_cancel_requested := b\<rparr>"
proof -
  have c: "\<exists>b. snd (cancel_create e n t) = t\<lparr>ds_cancel_requested := b\<rparr>"
    if "\<not> ds_container_created t" "\<not> ds_volume_created t" for n t
  proof (cases "create_container_name n = ''rdc-''")
    case True then show ?thesis by (intro exI [of _ "ds_cancel_requested t"]) (simp add: cancel_create_def)
  next
    case False then show ?thesis using that
      by (intro exI [of _ True]) (simp add: cancel_create_def cleanup_create_artifacts_def Let_def)
  qed
  have "\<exists>b. fold (\<lambda>n t. snd (cancel_create e n t)) ns t = t\<lparr>ds_cancel_requested := b\<rparr>"
    if "\<not> ds_container_created t" "\<not> ds_volume_created t" for ns t
    using that
  proof (induction ns arbitrary: t)
    case Nil then show ?case by (intro exI [of _ "ds_cancel_requested t"]) simp
  next
    case (Cons n ns)
    obtain b where "snd (cancel_create e n t) = t\<lparr>ds_cancel_requested := b\<rparr>" using c [OF Cons.prems] by blast
    moreover obtain b' where "fold (\<lambda>n t. snd (cancel_create e n t)) ns (t\<lparr>ds_cancel_requested := b\<rparr>)
        = t\<lparr>ds_cancel_requested := b\<rparr>\<lparr>ds_cancel_requested := b'\<rparr>"
      using Cons.IH [of "t\<lparr>ds_cancel_requested := b\<rparr>"] Cons.prems by auto
    ultimately show ?case by auto
  qed
  then show ?thesis using assms by (simp add: deliver_def)
qed

text \<open>The check of the volume, and the flag that it sets.\<close>

lemma honest_volume:
  assumes h: "honest False e name before s" and f: "\<not> ds_container_created s" "\<not> ds_volume_created s"
    and v: "volume_exists e (data_volume_name (sanitize_name name)) s = (ex, t)"
  shows "honest False e name before (t\<lparr>ds_volume_created := (ex = Some False)\<rparr>)"
    and "\<not> ds_container_created t"
proof -
  let ?v = "data_volume_name (sanitize_name name)"
  let ?c = "Call (dk_docker e) [''volume'', ''inspect'', ''--format'', ''{{.Name}}'', ?v] []"
  obtain lg where lg: "ds_log s = before @ lg" "only_own_removed e name before lg"
    "\<not> happened (starts_container e (create_container_name name)) before lg" "\<not> happened (finds_no_volume e ?v) before lg"
    using h f by (auto elim: honestE)
  obtain b where d: "deliver e (record_call e ?c s) = (record_call e ?c s)\<lparr>ds_cancel_requested := b\<rparr>"
    using deliver_unmarked [of "record_call e ?c s" e] f by (auto simp: record_call_def)
  have t: "t = (record_call e ?c s)\<lparr>ds_cancel_requested := b\<rparr>" and ex: "ex = Some False \<longleftrightarrow> finds_no_volume e ?v (ds_log s) ?c"
    using v d by (auto simp: volume_exists_def run_command_timeout_def run_command_stdin_def perform_def Let_def finds_no_volume_def
        split: if_splits)
  have "justified e name before lg ?c" by (simp add: justified_def removes_def)
  moreover have "\<not> starts_container e (create_container_name name) w ?c" for w by (simp add: starts_container_def)
  ultimately show "honest False e name before (t\<lparr>ds_volume_created := (ex = Some False)\<rparr>)"
    using lg f ex by (intro honestI [where lg = "lg @ [?c]"])
      (simp_all add: t record_call_def happened_snoc only_own_removed_snoc)
  show "\<not> ds_container_created t" using f by (simp add: t record_call_def)
qed

text \<open>The start of the container.\<close>

lemma honest_run:
  assumes h: "honest False e name before s" and p: "polite e name"
    and r: "docker e (run_args e req (create_container_name name) v m img) n s = (r, t)"
  shows "honest (sr_success r) e name before t"
proof -
  let ?argv = "run_args e req (create_container_name name) v m img" let ?c = "Call (dk_docker e) ?argv []"
  obtain lg where lg: "ds_log s = before @ lg" "only_own_removed e name before lg"
    "ds_container_created s \<longleftrightarrow> happened (starts_container e (create_container_name name)) before lg"
    "ds_volume_created s \<longleftrightarrow> happened (finds_no_volume e (data_volume_name (sanitize_name name))) before lg"
    using h by (auto elim: honestE)
  have t: "t = deliver e (record_call e ?c s)" and r': "r = result_of e (dk_docker e) ?argv n (dk_answer e (ds_log s) ?c)"
    using r by (auto simp: run_command_timeout_def run_command_stdin_def perform_def Let_def)
  have a: "take 4 ?argv = [''run'', ''-d'', ''--name'', create_container_name name]" and b: "take 1 ?argv = [''run'']" "take 2 ?argv = [''run'', ''-d'']"
    by (simp_all add: run_args_def Let_def)
  have s: "sr_success r \<longleftrightarrow> starts_container e (create_container_name name) (ds_log s) ?c"
    using a by (auto simp: r' result_of_def starts_container_def failed_command_def split: process_end.split)
  have "justified e name before lg ?c" using b by (simp add: justified_def removes_def)
  moreover have "\<not> finds_no_volume e w x ?c" for w x using b by (auto simp: finds_no_volume_def)
  ultimately have "honest (sr_success r) e name before (record_call e ?c s)"
    using lg s by (intro honestI [where lg = "lg @ [?c]"]) (auto simp: record_call_def happened_snoc only_own_removed_snoc)
  then show ?thesis using p honest_deliver by (simp add: t)
qed

section \<open>The flags\<close>

text \<open>Two more facts that every command keeps: nothing is marked before the creation marks it, and a mark is never removed.\<close>

definition nothing_marked :: "dstate \<Rightarrow> bool" where
  "nothing_marked s = (\<not> ds_container_created s \<and> \<not> ds_volume_created s)"

lemma nothing_marked_deliver: "nothing_marked s \<Longrightarrow> nothing_marked (deliver e s)"
  using deliver_unmarked [of s e] by (auto simp: nothing_marked_def)

lemma nothing_marked_record [simp]:
  "nothing_marked (record_call e c s) = nothing_marked s" "nothing_marked (s\<lparr>ds_time := n\<rparr>) = nothing_marked s"
  "nothing_marked (s\<lparr>ds_waiting := w\<rparr>) = nothing_marked s"
  by (simp_all add: nothing_marked_def record_call_def)

interpretation fresh: kept_docker e nothing_marked "\<lambda>_. True" for e
proof unfold_locales
  fix s p argv i n assume "nothing_marked s"
  then show "nothing_marked (snd (run_command_stdin e p argv i n s))"
    by (simp add: run_command_stdin_def perform_def Let_def nothing_marked_deliver)
next
  fix s ms assume "nothing_marked s"
  then show "nothing_marked (sleep_ms e ms s)"
    by (simp add: sleep_ms_def nothing_marked_deliver)
qed simp_all

lemma cleanup_flags [simp]: "ds_container_created (cleanup_create_artifacts e n s) = ds_container_created s"
  by (simp add: cleanup_create_artifacts_def perform_def record_call_def Let_def)

lemma deliver_flags [simp]: "ds_container_created (deliver e s) = ds_container_created s"
proof -
  have "ds_container_created (fold (\<lambda>n t. snd (cancel_create e n t)) ns s) = ds_container_created s" for ns
    by (induction ns arbitrary: s) (simp_all add: cancel_create_def Let_def)
  then show ?thesis by (simp add: deliver_def)
qed

interpretation marked: kept_docker e ds_container_created "\<lambda>_. True" for e
  by unfold_locales (simp_all add: run_command_stdin_def perform_def sleep_ms_def record_call_def Let_def)

section \<open>The creation\<close>

lemma conflict_not_cancelled: "create_conflict e req n s = (Some out, t) \<Longrightarrow> \<not> was_cancelled out"
  by (auto simp: create_conflict_def split_beta split: if_splits)

lemma pull_not_cancelled: "pull_image e b s = (Some out, t) \<Longrightarrow> \<not> was_cancelled out"
  by (auto simp: pull_image_def was_cancelled_def split_beta split: if_splits)

lemma create_and_run_well_ended:
  assumes h: "honest False e (rq_name req) before s" and m: "nothing_marked s" and p: "polite e (rq_name req)"
  shows "well_ended e (rq_name req) before (create_and_run e a req (create_container_name (rq_name req)) img s)"
proof -
  let ?name = "rq_name req" let ?n = "create_container_name ?name" let ?v = "data_volume_name (sanitize_name ?name)"
  have pl: "plain_name ?name" using p by (simp add: polite_def)
  obtain ex s1 where v: "volume_exists e ?v s = (ex, s1)" by fastforce
  let ?s2 = "s1\<lparr>ds_volume_created := (ex = Some False)\<rparr>" let ?m = "trace_mounts e a req ?n s"
  obtain x s3 where s3: "docker e [''volume'', ''create'', ?v] 20 ?s2 = (x, s3)" by fastforce
  obtain r s4 where r: "docker e (run_args e req ?n ?v ?m img) 120 s3 = (r, s4)" by fastforce
  have h2: "honest False e ?name before ?s2" using honest_volume [OF h] m v by (simp add: nothing_marked_def)
  have "harmless e ?name (Call (dk_docker e) [''volume'', ''create'', ?v] [])"
    by (simp add: harmless_def removes_def starts_container_def finds_no_volume_def)
  then have "kept_honest e ?name before (snd (docker e [''volume'', ''create'', ?v] 20 ?s2))"
    by (intro creation.timeout) (simp_all add: kept_honest_def h2)
  then have "honest False e ?name before s3" using p by (simp add: kept_honest_def s3)
  then have h4: "honest (sr_success r) e ?name before s4" using p r by (rule honest_run)
  show ?thesis
  proof (cases "sr_success r")
    case True
    then show ?thesis using h4 well_ended_cancelled [OF h pl] after_run_well_ended [OF _ p]
      by (simp add: create_and_run_def v s3 r Let_def)
  next
    case False
    then show ?thesis using h4 well_ended_cancelled [OF h pl]
      by (simp add: create_and_run_def v s3 r Let_def well_ended_honest)
  qed
qed


section \<open>Requests that come too late\<close>

lemma after_run_marked:
  assumes "after_run e a req n v r s = (out, t)"
  shows "ds_container_created t"
proof -
  let ?s1 = "s\<lparr>ds_container_created := True\<rparr>" let ?sn = "serial_of (rq_adb_port req)"
  obtain ready s2 where w: "wait_ready_with_cancel e ?sn 240 ds_cancel_requested ?s1 = (ready, s2)" by fastforce
  have 2: "ds_container_created s2" using marked.wait_keeps [of ?s1 e ?sn 240 ds_cancel_requested] w by simp
  obtain o3 s3 where f: "first_boot e a req n ?sn s2 = (o3, s3)" by fastforce
  have 3: "ds_container_created s3" using marked.first_boot_keeps [OF 2, of e a req n ?sn] f by simp
  show ?thesis using assms 2 3
    by (auto simp: after_run_def cancelled_create_result_def Let_def w f split: if_splits)
qed

lemma created_marked:
  assumes "create_redroid e a req s = (out, t)" and "oc_success out"
  shows "ds_container_created t"
proof -
  have "\<not> oc_success o1" if "create_conflict e req n s1 = (Some o1, s2)" for o1 n s1 s2
    using that by (auto simp: create_conflict_def split_beta split: if_splits)
  moreover have "\<not> oc_success o1" if "pull_image e n s1 = (Some o1, s2)" for o1 n s1 s2
    using that by (auto simp: pull_image_def split_beta split: if_splits)
  ultimately show ?thesis
    using assms by (auto simp: create_redroid_def create_and_run_def cancelled_create_result_def of_shell_def Let_def
        split: if_splits option.splits prod.splits sum.splits dest: after_run_marked)
qed

text \<open>
  C33: The marks of a creation outlive it: a request to cancel that arrives after a creation has succeeded, for
  whatever other instance, forces the removal of the container of that instance.
\<close>

theorem late_cancel_removes_instance:
  assumes "create_redroid e a req s = (out, t)" and "oc_success out" and "sanitize_name other \<noteq> []"
  shows "\<exists>lg. ds_log (snd (cancel_create e other t)) = ds_log t @ removal_of e other # lg"
  using created_marked [OF assms(1,2)] assms(3)
  by (auto simp: cancel_create_def cleanup_create_artifacts_def create_container_name_def removal_of_def perform_def record_call_def
      Let_def)

text \<open>
  The volume of an instance whose name begins with the prefix of the containers is not found again from
  the name of its container: the cleanup of \<^verbatim>\<open>rdc-x\<close> removes the volume of \<^verbatim>\<open>x\<close>.
\<close>

lemma cleanup_of_prefixed_name:
  assumes "ds_volume_created s" and "\<not> ds_container_created s" and "plain_name x" and "sanitize_name name = ''rdc-'' @ sanitize_name x"
  shows "ds_log (cleanup_create_artifacts e (create_container_name name) s) = ds_log s @ [volume_removal_of e x]"
proof -
  have "trim_start_matches ''rdc-'' (create_container_name name) = trim_start_matches ''rdc-'' (create_container_name x)"
    unfolding create_container_name_def assms(4) by (rule trim_start_matches_prefix) simp
  also have "\<dots> = sanitize_name x" using assms(3) by (rule strip_container_name)
  finally show ?thesis using assms
    by (simp add: cleanup_create_artifacts_def perform_def record_call_def volume_removal_of_def plain_name_def Let_def)
qed

end
