(* ===== verification/Docker_Demo.thy ===== *)
theory Docker_Demo imports Docker_Props begin

text \<open>
  A creation on a concrete host: docker knows the image, has no container and no volume of that name, and starts what it is asked
  to. The user asks to cancel while the container is started, or only after the creation has ended.
\<close>

definition demo_docker :: "call list \<Rightarrow> call \<Rightarrow> process_end" where
  "demo_docker lg c = (case c of
     Pause n \<Rightarrow> Hung
   | Call p argv i \<Rightarrow> if take 2 argv = [''volume'', ''inspect''] then Ended (Some 1) [] ''Error: no such volume''
       else if take 2 argv = [''image'', ''inspect''] then Ended (Some 0) ''sha256:1'' [] else Ended (Some 0) [] [])"

definition demo_desk :: "(call list \<Rightarrow> string list) \<Rightarrow> desk" where
  "demo_desk requests = \<lparr>dk_docker = ''docker'', dk_adb = ''adb'', dk_answer = demo_docker, dk_cost = \<lambda>lg c. 5,
     dk_requests = requests, dk_bound = \<lambda>lg p. False, dk_open = \<lambda>lg p. False, dk_show_args = concat, dk_brand = \<lambda>i. None,
     dk_json = \<lparr>jl_parse = \<lambda>t. Inl [], jl_print = \<lambda>v. []\<rparr>, dk_show_cpus = \<lambda>n. []\<rparr>"

definition during_run :: "call list \<Rightarrow> string list" where
  "during_run lg = (if lg = [] then []
     else case last lg of Call p argv i \<Rightarrow> (if take 1 argv = [''run''] then [''web''] else []) | Pause n \<Rightarrow> [])"

definition demo_assets :: assets where
  "demo_assets = \<lparr>as_exists = \<lambda>lg p. False, as_setting_zip = [], as_listings = \<lambda>lg. [], as_check_gapps = \<lambda>lg z v. None,
     as_stamp = \<lambda>lg p. Inr (0, 0), as_preset_sources = \<lambda>lg r b. Inl [], as_prepare_gapps = \<lambda>lg b z v. None,
     as_prepare_preset = \<lambda>lg r b. None, as_work = \<lambda>lg. ([], []), as_mentions = \<lambda>m. False, as_traces = \<lambda>lg n p. None,
     as_pubkey = None, as_cloak_apk = ([], False), as_cloak_config = \<lambda>lg p. Inl []\<rparr>"

definition demo_request :: create_request where
  "demo_request = \<lparr>rq_name = ''web'', rq_android_version = ''13.0.0'', rq_cpu = ''2'', rq_ram = ''4g'', rq_resolution = ''1080x1920'',
     rq_dpi = ''320'', rq_adb_port = 5555, rq_scrcpy_port = 0, rq_image = [], rq_install_gapps = False, rq_gapps_zip = [],
     rq_install_magisk = False, rq_install_lsposed = False, rq_install_shamiko = False, rq_spoof_profile = [],
     rq_spoof_profile_id = None, rq_spoof_abilist = None, rq_hide_packages = [], rq_clean_traces = Some False, rq_wait_adb = False,
     rq_install_cloak = False, rq_gpu_passthrough = None\<rparr>"

definition demo_dstate :: dstate where
  "demo_dstate = \<lparr>ds_log = [], ds_time = 0, ds_cancel_requested = False, ds_container_created = False, ds_volume_created = False,
     ds_waiting = []\<rparr>"

text \<open>Until the container is started nobody asks for anything.\<close>

definition calm :: "(call list \<Rightarrow> string list) \<Rightarrow> bool" where
  "calm q = (\<forall>lg p argv i. take 1 argv \<noteq> [''run''] \<longrightarrow> q (lg @ [Call p argv i]) = [])"

lemma calm_requests: "calm during_run" "calm (\<lambda>lg. [])"
  by (simp_all add: calm_def during_run_def)

lemma calm_docker:
  assumes "calm q" and "take 1 argv \<noteq> [''run'']"
  shows "docker (demo_desk q) argv n s = (result_of (demo_desk q) ''docker'' argv n (demo_docker (ds_log s) (Call ''docker'' argv [])),
    record_call (demo_desk q) (Call ''docker'' argv []) s)"
  using assms by (simp add: run_command_timeout_def run_command_stdin_def perform_def deliver_def record_call_def calm_def
      demo_desk_def Let_def)

lemma demo_word: "str_contains (to_ascii_lowercase (trim ''Error: no such volume'')) ''no such volume''" "trim ''sha256:1'' \<noteq> []"
    "trim [] = []" "lines [] = []" "plain_name ''web''" "sanitize_name ''web'' = ''web''" "sanitize_name ''other'' \<noteq> []"
  by code_simp+

lemma demo_no_containers:
  "calm q \<Longrightarrow> \<exists>t. list_containers (demo_desk q) True s = ([], t) \<and> ds_cancel_requested t = ds_cancel_requested s"
  by (simp add: list_containers_def calm_docker demo_docker_def result_of_def table_rows_def demo_word record_call_def
      enrich_stopped_container_ports_def Let_def)

lemma demo_free: "calm q \<Longrightarrow> \<exists>t. create_conflict (demo_desk q) demo_request n s = (None, t) \<and> ds_cancel_requested t = ds_cancel_requested s"
  using demo_no_containers [of q s]
  by (auto simp: create_conflict_def host_port_in_use_def demo_desk_def)

lemma demo_pulled: "calm q \<Longrightarrow> \<exists>t. pull_image (demo_desk q) b s = (None, t) \<and> ds_cancel_requested t = ds_cancel_requested s"
  by (simp add: pull_image_def image_exists_def calm_docker demo_docker_def result_of_def demo_word record_call_def)

lemma demo_no_volume: "calm q \<Longrightarrow> \<exists>t. volume_exists (demo_desk q) v s = (Some False, t) \<and> ds_cancel_requested t = ds_cancel_requested s"
  by (simp add: volume_exists_def calm_docker demo_docker_def result_of_def demo_word record_call_def)

lemma demo_image: "instance_image e a demo_request b s = (Inr b, s)"
  by (simp add: instance_image_def demo_request_def Let_def)

lemma demo_name: "sanitize_name (rq_name demo_request) = ''web''" "rq_adb_port demo_request \<noteq> 0" "\<not> rq_wait_adb demo_request"
  by (simp_all add: demo_request_def demo_word)

lemma demo_reaches_run:
  assumes c: "calm q"
  shows "\<exists>t. create_redroid (demo_desk q) a demo_request s
      = create_and_run (demo_desk q) a demo_request (create_container_name (rq_name demo_request)) (base_image_of demo_request) t
    \<and> \<not> ds_cancel_requested t"
proof -
  let ?s = "s\<lparr>ds_cancel_requested := False, ds_container_created := False, ds_volume_created := False\<rparr>"
  let ?n = "create_container_name (rq_name demo_request)"
  obtain t1 where 1: "create_conflict (demo_desk q) demo_request ?n ?s = (None, t1)" "\<not> ds_cancel_requested t1"
    using demo_free [OF c, of ?n ?s] by auto
  obtain t2 where 2: "pull_image (demo_desk q) (base_image_of demo_request) t1 = (None, t2)" "\<not> ds_cancel_requested t2"
    using demo_pulled [OF c, of "base_image_of demo_request" t1] 1(2) by auto
  show ?thesis using 1 2 by (intro exI [of _ t2]) (simp add: create_redroid_def demo_name demo_image Let_def)
qed

lemma demo_runs:
  assumes c: "calm q"
  shows "\<exists>v r argv t. take 1 argv = [''run''] \<and> \<not> ds_cancel_requested t \<and> create_redroid (demo_desk q) a demo_request s
    = after_run (demo_desk q) a demo_request (create_container_name (rq_name demo_request)) v r
        (deliver (demo_desk q) (record_call (demo_desk q) (Call ''docker'' argv []) t))"
proof -
  let ?n = "create_container_name (rq_name demo_request)" let ?b = "base_image_of demo_request" let ?v = "data_volume_name ''web''"
  obtain t1 where 1: "create_redroid (demo_desk q) a demo_request s = create_and_run (demo_desk q) a demo_request ?n ?b t1"
    "\<not> ds_cancel_requested t1" using demo_reaches_run [OF c] by blast
  obtain t2 where 2: "volume_exists (demo_desk q) ?v t1 = (Some False, t2)" "\<not> ds_cancel_requested t2"
    using demo_no_volume [OF c, of ?v t1] 1(2) by auto
  define t3 where "t3 = snd (docker (demo_desk q) [''volume'', ''create'', ?v] 20 (t2\<lparr>ds_volume_created := True\<rparr>))"
  have 3: "\<not> ds_cancel_requested t3" using 2 by (simp add: t3_def calm_docker [OF c] record_call_def)
  define argv where "argv = run_args (demo_desk q) demo_request ?n ?v (trace_mounts (demo_desk q) a demo_request ?n t1) ?b"
  have 4: "take 1 argv = [''run'']" "take 2 argv = [''run'', ''-d'']" by (simp_all add: argv_def run_args_def Let_def)
  have r: "docker (demo_desk q) argv 120 t3 = (result_of (demo_desk q) ''docker'' argv 120 (Ended (Some 0) [] []),
      deliver (demo_desk q) (record_call (demo_desk q) (Call ''docker'' argv []) t3))"
    using 4 by (simp add: run_command_timeout_def run_command_stdin_def perform_def Let_def demo_desk_def demo_docker_def)
  have "create_and_run (demo_desk q) a demo_request ?n ?b t1 = after_run (demo_desk q) a demo_request ?n ?v
      (result_of (demo_desk q) ''docker'' argv 120 (Ended (Some 0) [] []))
      (deliver (demo_desk q) (record_call (demo_desk q) (Call ''docker'' argv []) t3))"
    using 1(2) 2 r by (simp add: create_and_run_def demo_name Let_def t3_def argv_def result_of_def)
  then show ?thesis using 1(1) 3 4(1) by metis
qed

lemma demo_cancelled: "was_cancelled (fst (create_redroid (demo_desk during_run) a demo_request s))"
proof -
  obtain v r argv t where 1: "take 1 argv = [''run'']" "create_redroid (demo_desk during_run) a demo_request s
      = after_run (demo_desk during_run) a demo_request (create_container_name (rq_name demo_request)) v r
        (deliver (demo_desk during_run) (record_call (demo_desk during_run) (Call ''docker'' argv []) t))"
    using demo_runs [OF calm_requests(1)] by blast
  let ?t = "deliver (demo_desk during_run) (record_call (demo_desk during_run) (Call ''docker'' argv []) t)"
  have "dk_requests (demo_desk during_run) (ds_log t @ [Call ''docker'' argv []]) = [''web'']"
    using 1(1) by (simp add: demo_desk_def during_run_def)
  then have "ds_cancel_requested ?t"
    by (simp add: deliver_def record_call_def cancel_create_def create_container_name_def demo_word cleanup_create_artifacts_def
        perform_def Let_def)
  then show ?thesis by (simp add: 1(2) after_run_def cancelled_create_result_def was_cancelled_def Let_def)
qed

lemma demo_quiet: "oc_success (fst (create_redroid (demo_desk (\<lambda>lg. [])) a demo_request s))"
proof -
  obtain v r argv t where 1: "\<not> ds_cancel_requested t" "create_redroid (demo_desk (\<lambda>lg. [])) a demo_request s
      = after_run (demo_desk (\<lambda>lg. [])) a demo_request (create_container_name (rq_name demo_request)) v r
        (deliver (demo_desk (\<lambda>lg. [])) (record_call (demo_desk (\<lambda>lg. [])) (Call ''docker'' argv []) t))"
    using demo_runs [OF calm_requests(2)] by blast
  have "dk_requests (demo_desk (\<lambda>lg. [])) lg = []" for lg by (simp add: demo_desk_def)
  then show ?thesis using 1(1) by (simp add: 1(2) after_run_def deliver_def record_call_def demo_name Let_def)
qed

lemma demo_polite: "polite (demo_desk during_run) (rq_name demo_request)"
  using demo_word(5) by (auto simp: polite_def demo_desk_def demo_request_def during_run_def split: call.splits if_splits)


theorem late_cancel_witness:
  "\<exists>lg. let t = snd (create_redroid (demo_desk (\<lambda>lg. [])) demo_assets demo_request demo_dstate) in
     ds_log (snd (cancel_create (demo_desk (\<lambda>lg. [])) ''other'' t)) = ds_log t @ removal_of (demo_desk (\<lambda>lg. [])) ''other'' # lg"
  using late_cancel_removes_instance [OF surjective_pairing demo_quiet, of "''other''"] demo_word(7) by (simp add: Let_def)

end
