(* ===== verification/Docker_Hosts.thy ===== *)
theory Docker_Hosts imports Docker_Image begin

text \<open>
  The values that instances on one host must not share: the host names of \<^verbatim>\<open>spoof.rs\<close> and the ports of \<^verbatim>\<open>docker.rs\<close>.
\<close>

section \<open>Host names\<close>

definition host_char :: "char \<Rightarrow> bool" where
  "host_char c = (is_ascii_lowercase c \<or> is_ascii_digit c \<or> c = CHR ''-'')"

text \<open>A label that DHCP accepts: 1 to 15 of these characters, no hyphen at either end.\<close>

definition legal_label :: "string \<Rightarrow> bool" where
  "legal_label n = (n \<noteq> [] \<and> length n \<le> 15 \<and> list_all host_char n \<and> hd n \<noteq> CHR ''-'' \<and> last n \<noteq> CHR ''-'')"

lemma lower_alphanumeric: "is_ascii_alphanumeric (to_ascii_lowercase_char c) \<Longrightarrow> host_char (to_ascii_lowercase_char c)"
  by (auto simp: host_char_def is_ascii_alphanumeric_def is_ascii_lowercase_def is_ascii_digit_def to_ascii_lowercase_char_def Let_def
      split: if_splits)

lemma set_trim_matches: "set (trim_matches_char c s) \<subseteq> set s"
  by (auto simp: trim_matches_char_def trim_start_char_def dest!: set_dropWhileD)

lemma hd_trim_matches: "trim_matches_char c s \<noteq> [] \<Longrightarrow> hd (trim_matches_char c s) \<noteq> c"
proof -
  let ?d = "dropWhile (\<lambda>x. x = c) s"
  assume n: "trim_matches_char c s \<noteq> []"
  obtain t where t: "?d = trim_matches_char c s @ t"
    using takeWhile_dropWhile_id [of "\<lambda>x. x = c" "rev ?d"]
    by (metis rev_append rev_rev_ident trim_matches_char_def trim_start_char_def)
  then have "?d \<noteq> []" "hd ?d = hd (trim_matches_char c s)" using n by auto
  then show ?thesis using hd_dropWhile [of "\<lambda>x. x = c" s] by auto
qed

lemma token_chars: "list_all host_char (sanitize_hostname_token brand)"
  using set_trim_matches [of "CHR ''-''"]
  by (fastforce simp: list_all_iff sanitize_hostname_token_def to_ascii_lowercase_def host_char_def [of "CHR ''-''"]
      intro: lower_alphanumeric)

lemma token_hd: "sanitize_hostname_token brand \<noteq> [] \<Longrightarrow> hd (sanitize_hostname_token brand) \<noteq> CHR ''-''"
  unfolding sanitize_hostname_token_def by (rule hd_trim_matches)

lemma two_digits_eq: "two_digits n = (if n < 10 then [CHR ''0'', digit_char n] else dec_string n)"
  by (simp add: two_digits_def dec_string.simps)

lemma digit_char_0: "CHR ''0'' = digit_char 0"
  by code_simp

lemma two_digits_of: "n < 100 \<Longrightarrow> two_digits n = [digit_char (n div 10), digit_char (n mod 10)]"
  by (auto simp: two_digits_eq dec_string.simps [of n] dec_string.simps [of "n div 10"] digit_char_0)

lemma digit_char_digit: "d < 10 \<Longrightarrow> is_ascii_digit (digit_char d)"
  by (simp add: is_ascii_digit_def digit_char_def Let_def)

definition host_form :: "string \<Rightarrow> string" where
  "host_form brand = (let t = sanitize_hostname_token brand; token = (if t = [] then ''generic'' else t);
     long = ''android-'' @ token in
     if length long \<le> 12 then long else take 12 token)"

lemma derive_hostname_eq: "derive_hostname brand port = host_form brand @ ''-'' @ two_digits (unat port mod 100)"
proof -
  have l: "length (two_digits (unat port mod 100)) = 2" by (simp add: two_digits_of)
  show ?thesis by (auto simp: derive_hostname_def host_form_def Let_def l)
qed

lemma host_form_label: "host_form brand \<noteq> []" "length (host_form brand) \<le> 12" "list_all host_char (host_form brand)"
    "hd (host_form brand) \<noteq> CHR ''-''"
proof -
  let ?t = "sanitize_hostname_token brand"
  have g: "list_all host_char ''generic''" "list_all host_char ''android-''" by code_simp+
  show "host_form brand \<noteq> []" "length (host_form brand) \<le> 12" by (auto simp: host_form_def Let_def)
  show "list_all host_char (host_form brand)" using g token_chars [of brand] set_take_subset [of 12 ?t]
    by (auto simp: host_form_def Let_def list_all_iff)
  show "hd (host_form brand) \<noteq> CHR ''-''" using token_hd [of brand] by (auto simp: host_form_def Let_def hd_take)
qed


section \<open>Ports\<close>

text \<open>
  The port that is proposed is the first free one of 5555 to 5999; when none is free it is 5555, which is taken.
\<close>

lemma find_range:
  assumes "a \<le> n" and "n < b" and "P (f n)"
  shows "\<exists>m. a \<le> m \<and> m \<le> n \<and> find P (map f [a..<b]) = Some (f m) \<and> P (f m)"
  using assms
proof (induction "n - a" arbitrary: a)
  case 0
  then show ?case by (intro exI [of _ a]) (simp add: upt_conv_Cons)
next
  case (Suc k)
  then have l: "[a..<b] = a # [Suc a..<b]" by (intro upt_conv_Cons) simp
  show ?case
  proof (cases "P (f a)")
    case True
    then show ?thesis using Suc.prems by (intro exI [of _ a]) (simp add: l)
  next
    case False
    have "k = n - Suc a" "Suc a \<le> n" using Suc.hyps(2) by simp_all
    then obtain m where "Suc a \<le> m" "m \<le> n" "find P (map f [Suc a..<b]) = Some (f m)" "P (f m)"
      using Suc.hyps(1) [of "Suc a"] Suc.prems(2,3) by blast
    then show ?thesis using False by (intro exI [of _ m]) (simp add: l)
  qed
qed

lemma suggested_port:
  assumes "5555 \<le> n" and "n < 6000" and "\<not> host_port_in_use e cs (of_nat n) s"
  shows "\<exists>m. 5555 \<le> m \<and> m \<le> n \<and> suggest_free_adb_port e cs s = of_nat m \<and> \<not> host_port_in_use e cs (of_nat m) s"
  using find_range [of 5555 n 6000 "\<lambda>p. \<not> host_port_in_use e cs p s" of_nat, OF assms]
  unfolding suggest_free_adb_port_def by fastforce

lemma no_port_left:
  assumes "\<And>n. 5555 \<le> n \<Longrightarrow> n < 6000 \<Longrightarrow> host_port_in_use e cs (of_nat n) s"
  shows "suggest_free_adb_port e cs s = 5555 \<and> host_port_in_use e cs 5555 s"
proof -
  have "find (\<lambda>p. \<not> host_port_in_use e cs p s) (map of_nat [5555..<6000]) = None"
    unfolding find_None_iff using assms by (auto simp only: set_map set_upt atLeastLessThan_iff image_iff)
  moreover have "host_port_in_use e cs (of_nat 5555) s" by (rule assms) simp_all
  ultimately show ?thesis unfolding suggest_free_adb_port_def by (simp only: option.case) simp
qed

end
