(* ===== verification/Device.thy ===== *)
theory Device imports Docker_Ops begin

text \<open>
  \<^verbatim>\<open>src-tauri/src/services/device.rs\<close>: the list that joins the devices of adb with the containers of docker, and the operations that
  find their target in it. The caches are arguments (what they hold, if it is fresh); the status of a screen mirror is
  a function of the serial, and the mirrors that the operations stop are not modelled.
\<close>

section \<open>Whether docker runs\<close>

definition docker_answers :: "desk \<Rightarrow> nat \<Rightarrow> dstate \<Rightarrow> bool \<times> dstate" where
  "docker_answers e secs s = (case docker e [''version'', ''--format'', ''{{.Server.Version}}''] secs s of (r, t) \<Rightarrow>
     (sr_success r \<and> sr_stdout r \<noteq> [], t))"

definition is_running_fast :: "desk \<Rightarrow> bool option \<Rightarrow> dstate \<Rightarrow> bool \<times> dstate" where
  "is_running_fast e cached s = (case cached of Some v \<Rightarrow> (v, s) | None \<Rightarrow> docker_answers e 3 s)"

definition is_running :: "desk \<Rightarrow> bool option \<Rightarrow> dstate \<Rightarrow> bool \<times> dstate" where
  "is_running e cached s = (case is_running_fast e cached s of (ok, t) \<Rightarrow> if ok then (True, t) else docker_answers e 12 t)"

section \<open>Matching\<close>

text \<open>The default \<open>fps\<close>, \<open>mac\<close> and the other fields that the list leaves empty are filled by \<open>enrich_device\<close>.\<close>

record device_info =
  dv_id :: string
  dv_name :: string
  dv_serial :: string
  dv_android_version :: string
  dv_online :: bool
  dv_cpu :: string
  dv_ram :: string
  dv_adb_status :: string
  dv_scrcpy_status :: string
  dv_docker_status :: string
  dv_ip :: string
  dv_mac :: string
  dv_resolution :: string
  dv_dpi :: string
  dv_container_id :: string
  dv_image :: string
  dv_started_at :: string
  dv_uptime :: string
  dv_adb_port :: u16
  dv_data_volume :: string
  dv_spoofed_model :: "string option"

definition display_instance_name :: "string \<Rightarrow> string" where
  "display_instance_name container_name = without_rdc (clean_name container_name)"

definition data_volume_of :: "string \<Rightarrow> string" where
  "data_volume_of container_name = (let n = clean_name container_name in
     if n = [] then [] else if ends_with n ''-data'' then n else n @ ''-data'')"

definition extract_host_from_serial :: "string \<Rightarrow> string" where
  "extract_host_from_serial serial = hd (split_char (CHR '':'') serial)"

definition parse_port_from_serial :: "string \<Rightarrow> u16 option" where
  "parse_port_from_serial serial = (case split_char (CHR '':'') serial of _ # p # _ \<Rightarrow> parse_u16 p | _ \<Rightarrow> None)"

definition port_match :: "string \<Rightarrow> string \<Rightarrow> bool" where
  "port_match serial ports = (case parse_port_from_serial serial of
     Some port \<Rightarrow> list_ex (\<lambda>part. host_port_of part = Some port) (split_char (CHR '','') ports)
   | None \<Rightarrow> False)"

definition extract_host_port :: "string \<Rightarrow> u16 option" where
  "extract_host_port ports =
    (case List.map_filter host_port_of (split_char (CHR '','') ports) of p # _ \<Rightarrow> Some p | [] \<Rightarrow> None)"

definition looks_unspoofed_model :: "string \<Rightarrow> bool" where
  "looks_unspoofed_model model = (let m = to_ascii_lowercase (trim model) in
     m = [] \<or> m = ''unknown'' \<or> starts_with m ''redroid''
     \<or> m \<in> {''generic_x86_64'', ''generic_arm64'', ''generic_x86'', ''generic_arm''})"

definition matches_container :: "string \<Rightarrow> docker_container \<Rightarrow> bool" where
  "matches_container serial c =
    (str_contains (dc_ports c) serial \<or> str_contains serial (dc_name c) \<or> port_match serial (dc_ports c))"

section \<open>The list\<close>

definition adb_row :: "(string \<Rightarrow> string) \<Rightarrow> docker_container list \<Rightarrow> adb_device \<Rightarrow> device_info" where
  "adb_row mirror containers d =
    (let serial = ad_serial d; matched = find (matches_container serial) containers in
     \<lparr>dv_id = serial,
      dv_name = (case matched of Some c \<Rightarrow> display_instance_name (dc_name c)
        | None \<Rightarrow> if ad_model d \<noteq> [] then ad_model d else if ad_product d \<noteq> [] then ad_product d else serial),
      dv_serial = serial, dv_android_version = [], dv_online = (ad_state d = ''device''), dv_cpu = [], dv_ram = [],
      dv_adb_status = ad_state d, dv_scrcpy_status = mirror serial,
      dv_docker_status = (case matched of Some c \<Rightarrow> dc_status c | None \<Rightarrow> ''n/a''),
      dv_ip = extract_host_from_serial serial, dv_mac = [], dv_resolution = [], dv_dpi = [],
      dv_container_id = (case matched of Some c \<Rightarrow> dc_id c | None \<Rightarrow> []),
      dv_image = (case matched of Some c \<Rightarrow> dc_image c | None \<Rightarrow> []),
      dv_started_at = (case matched of Some c \<Rightarrow> dc_created c | None \<Rightarrow> []), dv_uptime = [],
      dv_adb_port = (case (case matched of Some c \<Rightarrow> extract_host_port (dc_ports c) | None \<Rightarrow> None) of Some p \<Rightarrow> p
        | None \<Rightarrow> (case parse_port_from_serial serial of Some p \<Rightarrow> p | None \<Rightarrow> 5555)),
      dv_data_volume = (case matched of Some c \<Rightarrow> data_volume_of (dc_name c) | None \<Rightarrow> []),
      dv_spoofed_model = (if matched \<noteq> None \<and> \<not> looks_unspoofed_model (ad_model d) then Some (ad_model d) else None)\<rparr>)"

definition listed_state :: "adb_device \<Rightarrow> bool" where
  "listed_state d = (ad_state d = ''device'' \<or> ad_state d = ''offline'' \<or> ad_state d = ''unauthorized'')"

definition container_device :: "docker_container \<Rightarrow> device_info" where
  "container_device c =
    (let mapped = extract_host_port (dc_ports c) in
     \<lparr>dv_id = dc_id c, dv_name = display_instance_name (dc_name c),
      dv_serial = (case mapped of Some p \<Rightarrow> serial_of p | None \<Rightarrow> []), dv_android_version = [], dv_online = False, dv_cpu = [],
      dv_ram = [], dv_adb_status = ''disconnected'', dv_scrcpy_status = ''stopped'', dv_docker_status = dc_status c,
      dv_ip = ''127.0.0.1'', dv_mac = [], dv_resolution = [], dv_dpi = [], dv_container_id = dc_id c, dv_image = dc_image c,
      dv_started_at = dc_created c, dv_uptime = [], dv_adb_port = (case mapped of Some p \<Rightarrow> p | None \<Rightarrow> 0),
      dv_data_volume = data_volume_of (dc_name c), dv_spoofed_model = None\<rparr>)"

definition listed_already :: "device_info list \<Rightarrow> docker_container \<Rightarrow> bool" where
  "listed_already ds c = list_ex (\<lambda>d. dv_container_id d = dc_id c \<or> port_match (dv_serial d) (dc_ports c)) ds"

definition add_container :: "docker_container \<Rightarrow> device_info list \<Rightarrow> device_info list" where
  "add_container c ds = (if listed_already ds c then ds else ds @ [container_device c])"

definition join_devices :: "(string \<Rightarrow> string) \<Rightarrow> adb_device list \<Rightarrow> docker_container list \<Rightarrow> device_info list" where
  "join_devices mirror adb containers =
    fold add_container (filter dc_is_redroid containers) (map (adb_row mirror containers) (filter listed_state adb))"

definition list_devices_cached :: "desk \<Rightarrow> (string \<Rightarrow> string) \<Rightarrow> device_info list option \<Rightarrow> bool option \<Rightarrow> bool \<Rightarrow> dstate
    \<Rightarrow> device_info list \<times> dstate" where
  "list_devices_cached e mirror cached docker_cached force s =
    (case (if force then None else cached) of
       Some ds \<Rightarrow> (ds, s)
     | None \<Rightarrow> (case devices e s of (adb, s1) \<Rightarrow>
        (case is_running_fast e docker_cached s1 of (up, s2) \<Rightarrow>
          (case (if up then list_containers e True s2 else ([], s2)) of (cs, s3) \<Rightarrow> (join_devices mirror adb cs, s3)))))"

definition list_devices :: "desk \<Rightarrow> (string \<Rightarrow> string) \<Rightarrow> device_info list option \<Rightarrow> bool option \<Rightarrow> dstate
    \<Rightarrow> device_info list \<times> dstate" where
  "list_devices e mirror cached docker_cached s = list_devices_cached e mirror cached docker_cached False s"

section \<open>Details\<close>

definition details_script :: string where
  "details_script = ''echo VER=$(getprop ro.build.version.release); echo MODEL=$(getprop ro.product.model); ''
     @ ''echo ABI=$(getprop ro.product.cpu.abi); echo SIZE=$(wm size 2>/dev/null | tail -1); ''
     @ ''echo DPI=$(wm density 2>/dev/null | tail -1); echo MEM=$(grep MemTotal /proc/meminfo 2>/dev/null); ''
     @ ''echo MAC=$(cat /sys/class/net/wlan0/address 2>/dev/null || cat /sys/class/net/eth0/address 2>/dev/null); ''
     @ ''echo UP=$(cat /proc/uptime 2>/dev/null | awk '' @ SQ @ ''{print $1}'' @ SQ @ '')''"

text \<open>\<open>gb\<close> prints a number of kibibytes in gibibytes with one decimal, \<open>minutes\<close> a text that \<^verbatim>\<open>f64\<close> reads as seconds in minutes.\<close>

definition format_mem :: "(u64 \<Rightarrow> string) \<Rightarrow> string \<Rightarrow> string" where
  "format_mem gb m = (case List.map_filter parse_u64 (split_whitespace m) of
     kb # _ \<Rightarrow> gb kb | [] \<Rightarrow> (case lines m of l # _ \<Rightarrow> l | [] \<Rightarrow> []))"

definition detail_line :: "(u64 \<Rightarrow> string) \<Rightarrow> (string \<Rightarrow> string option) \<Rightarrow> string \<Rightarrow> device_info \<Rightarrow> device_info" where
  "detail_line gb minutes l d =
    (case strip_prefix ''VER='' l of Some v \<Rightarrow> d\<lparr>dv_android_version := trim v\<rparr> | None \<Rightarrow>
    (case strip_prefix ''MODEL='' l of
       Some v \<Rightarrow> if dv_container_id d \<noteq> [] \<and> \<not> looks_unspoofed_model (trim v) then d\<lparr>dv_spoofed_model := Some (trim v)\<rparr> else d
     | None \<Rightarrow>
    (case strip_prefix ''ABI='' l of Some v \<Rightarrow> d\<lparr>dv_cpu := trim v\<rparr> | None \<Rightarrow>
    (case strip_prefix ''SIZE='' l of Some v \<Rightarrow> d\<lparr>dv_resolution := trim (last (split_char (CHR '':'') v))\<rparr> | None \<Rightarrow>
    (case strip_prefix ''DPI='' l of Some v \<Rightarrow> d\<lparr>dv_dpi := trim (last (split_char (CHR '':'') v))\<rparr> | None \<Rightarrow>
    (case strip_prefix ''MEM='' l of Some v \<Rightarrow> d\<lparr>dv_ram := format_mem gb v\<rparr> | None \<Rightarrow>
    (case strip_prefix ''MAC='' l of Some v \<Rightarrow> d\<lparr>dv_mac := trim v\<rparr> | None \<Rightarrow>
    (case strip_prefix ''UP='' l of
       Some v \<Rightarrow> d\<lparr>dv_uptime := (case minutes (trim v) of Some m \<Rightarrow> m | None \<Rightarrow> trim v)\<rparr>
     | None \<Rightarrow> d))))))))"

definition enrich_device :: "desk \<Rightarrow> (string \<Rightarrow> string) \<Rightarrow> (u64 \<Rightarrow> string) \<Rightarrow> (u64 \<Rightarrow> string) \<Rightarrow> (string \<Rightarrow> string option) \<Rightarrow> device_info
    \<Rightarrow> dstate \<Rightarrow> device_info \<times> dstate" where
  "enrich_device e mirror gb limit_gb minutes d s =
    (if \<not> dv_online d \<or> dv_adb_status d \<noteq> ''device'' then (d, s)
     else (case adb_shell e (dv_serial d) details_script s of (batch, s1) \<Rightarrow>
       (let d1 = fold (detail_line gb minutes) (lines (sr_stdout batch)) d;
            d2 = (if dv_ip d1 = [] then d1\<lparr>dv_ip := extract_host_from_serial (dv_serial d)\<rparr> else d1) in
        case container_resource_limits e (dv_container_id d2) s1 of ((mem, _), s2) \<Rightarrow>
          (let d3 = (if 0 < mem then d2\<lparr>dv_ram := limit_gb mem\<rparr> else d2) in
           (d3\<lparr>dv_scrcpy_status := mirror (dv_serial d)\<rparr>, s2)))))"

section \<open>Operations on a device\<close>

definition is_device :: "string \<Rightarrow> device_info \<Rightarrow> bool" where
  "is_device i d = (dv_id d = i \<or> dv_serial d = i \<or> dv_container_id d = i)"

text \<open>\<open>ds\<close> is what \<open>list_devices\<close> answers.\<close>

definition find_device_light :: "device_info list \<Rightarrow> string \<Rightarrow> device_info option" where
  "find_device_light ds i = find (is_device i) ds"

definition get_device :: "desk \<Rightarrow> (string \<Rightarrow> string) \<Rightarrow> (u64 \<Rightarrow> string) \<Rightarrow> (u64 \<Rightarrow> string) \<Rightarrow> (string \<Rightarrow> string option)
    \<Rightarrow> device_info list \<Rightarrow> string \<Rightarrow> dstate \<Rightarrow> device_info option \<times> dstate" where
  "get_device e mirror gb limit_gb minutes ds i s = (case find_device_light ds i of
     None \<Rightarrow> (None, s)
   | Some d \<Rightarrow> map_prod Some id (enrich_device e mirror gb limit_gb minutes d s))"

definition connect_device :: "desk \<Rightarrow> string \<Rightarrow> dstate \<Rightarrow> outcome \<times> dstate" where
  "connect_device e serial s =
    (if CHR '':'' \<in> set serial then wait_ready e serial 180 s
     else (case device_state e serial s of (state, t) \<Rightarrow>
       (if state = ''device''
        then \<lparr>oc_success = True, oc_stdout = [Text ''USB device already listed''], oc_stderr = [], oc_exit_code = 0\<rparr>
        else refused [Note ''state of the USB device'' [state]], t)))"

definition disconnect_device :: "desk \<Rightarrow> string \<Rightarrow> dstate \<Rightarrow> shell_result \<times> dstate" where
  "disconnect_device e serial s = disconnect e serial s"

definition restart_device :: "desk \<Rightarrow> device_info list \<Rightarrow> string \<Rightarrow> dstate \<Rightarrow> outcome \<times> dstate" where
  "restart_device e ds i s = (case find_device_light ds i of
     None \<Rightarrow> (refused [Text ''Device not found''], s)
   | Some d \<Rightarrow> if dv_container_id d \<noteq> [] then restart_container e (dv_container_id d) s
       else map_prod of_shell id (adb_shell e (dv_serial d) ''reboot'' s))"

definition stop_device :: "desk \<Rightarrow> device_info list \<Rightarrow> string \<Rightarrow> dstate \<Rightarrow> outcome \<times> dstate" where
  "stop_device e ds i s = (case find_device_light ds i of
     None \<Rightarrow> (refused [Text ''Device not found''], s)
   | Some d \<Rightarrow> if dv_container_id d \<noteq> [] then stop_container e (dv_container_id d) s
       else map_prod of_shell id (adb_shell e (dv_serial d) ''reboot -p'' s))"

end
