(* ===== verification/File_Transfer.thy ===== *)
theory File_Transfer imports Adb begin

text \<open>
  \<^verbatim>\<open>src-tauri/src/services/transfer.rs\<close>: transfers that report their progress and can be cancelled, with the runner of \<^verbatim>\<open>util.rs\<close>
  under them, and the commands on the files of a device.
\<close>

section \<open>A command that can be cancelled\<close>

datatype cancellable_result = Completed shell_result | Cancelled shell_result | TimedOut shell_result

datatype child_state = Running | Exited "int option" | Lost string

text \<open>
  What one round of the loop sees: the chunks that arrived (those of the error output are marked), the flag, the child, and
  the chunks that arrive after the child has ended.
\<close>

record round =
  ro_chunks :: "(bool \<times> string) list"
  ro_cancel :: bool
  ro_child :: child_state
  ro_rest :: "(bool \<times> string) list"

definition recorded :: "bool \<Rightarrow> (bool \<times> string) list \<Rightarrow> string" where
  "recorded err cs = concat (map snd (filter (\<lambda>c. fst c = err) cs))"

definition stopped :: "(bool \<times> string) list \<Rightarrow> string \<Rightarrow> shell_result" where
  "stopped cs reason = \<lparr>sr_success = False, sr_stdout = trim (recorded False cs),
     sr_stderr = trim (if blank (recorded True cs) then reason else recorded True cs), sr_exit_code = - 1\<rparr>"

text \<open>\<open>rounds t\<close> is the round that begins \<open>t\<close> milliseconds after the start; the loop pauses 20 of them at least.\<close>

function watch_child :: "(nat \<Rightarrow> round) \<Rightarrow> (nat \<Rightarrow> nat) \<Rightarrow> nat \<Rightarrow> string \<Rightarrow> nat \<Rightarrow> (bool \<times> string) list
    \<Rightarrow> cancellable_result \<times> string list" where
  "watch_child rounds cost secs command t cs =
    (let r = rounds t; cs1 = cs @ ro_chunks r; all = cs1 @ ro_rest r in
     if ro_cancel r then (Cancelled (stopped all ''command cancelled''), map snd all)
     else (case ro_child r of
         Exited code \<Rightarrow> (Completed \<lparr>sr_success = (code = Some 0), sr_stdout = trim (recorded False all),
           sr_stderr = trim (recorded True all), sr_exit_code = (case code of Some c \<Rightarrow> c | None \<Rightarrow> - 1)\<rparr>, map snd all)
       | Lost m \<Rightarrow> (Completed \<lparr>sr_success = False, sr_stdout = trim (recorded False all), sr_stderr = m, sr_exit_code = - 1\<rparr>,
           map snd all)
       | Running \<Rightarrow> if secs * 1000 \<le> t
           then (TimedOut (stopped all (''command timeout after '' @ dec_string secs @ ''s: '' @ command)), map snd all)
           else watch_child rounds cost secs command (t + 20 + cost t) cs1))"
  by pat_completeness auto
termination by (relation "measure (\<lambda>(r, c, secs, p, t, cs). secs * 1000 - t)") auto

declare watch_child.simps [simp del]

text \<open>A program that cannot be started has completed without success.\<close>

definition run_command_cancellable :: "desk \<Rightarrow> string option \<Rightarrow> (nat \<Rightarrow> round) \<Rightarrow> (nat \<Rightarrow> nat) \<Rightarrow> string \<Rightarrow> string list \<Rightarrow> nat
    \<Rightarrow> cancellable_result \<times> string list" where
  "run_command_cancellable e spawn_error rounds cost program argv secs = (case spawn_error of
     Some m \<Rightarrow> (Completed (failed_command m), [])
   | None \<Rightarrow> watch_child rounds cost secs (program @ '' '' @ dk_show_args e argv) 0 [])"

section \<open>Tracked transfers\<close>

record transfer_event =
  te_operation_id :: string
  te_direction :: string
  te_status :: string
  te_message :: notice

text \<open>\<open>runner\<close> runs adb with the arguments it gets. The registry holds the identifiers of the transfers that can be cancelled.\<close>

definition tracked_transfer :: "(string list \<Rightarrow> cancellable_result \<times> string list) \<Rightarrow> string \<Rightarrow> string \<Rightarrow> string \<Rightarrow> string \<Rightarrow> string
    \<Rightarrow> string set \<Rightarrow> outcome \<times> transfer_event list \<times> string set" where
  "tracked_transfer runner serial local remote operation_id direction registry =
    (if blank operation_id then (refused [Note ''a transfer needs an identifier'' []], [], registry)
     else
       (let event = (\<lambda>status m. \<lparr>te_operation_id = operation_id, te_direction = direction, te_status = status, te_message = m\<rparr>);
            argv = (if direction = ''upload'' then [''-s'', serial, ''push'', local, remote] else [''-s'', serial, ''pull'', remote, local])
        in case runner argv of (result, chunks) \<Rightarrow>
        let out = (case result of Completed r \<Rightarrow> r | Cancelled r \<Rightarrow> r | TimedOut r \<Rightarrow> r);
            final = (case result of
                Completed r \<Rightarrow> if sr_success r then event ''completed'' (Note ''transfer completed'' [])
                  else event ''failed'' (Text (sr_stderr r))
              | Cancelled r \<Rightarrow> event ''cancelled'' (Note ''transfer cancelled'' [])
              | TimedOut r \<Rightarrow> event ''failed'' (Note ''transfer timed out'' []))
        in (of_shell out,
            [event ''queued'' (Note ''waiting to start'' []), event ''running'' (Note ''transferring'' [])]
              @ map (\<lambda>c. event ''running'' (Text c)) chunks @ [final],
            insert operation_id registry - {operation_id})))"

definition upload_tracked :: "(string list \<Rightarrow> cancellable_result \<times> string list) \<Rightarrow> string \<Rightarrow> string \<Rightarrow> string \<Rightarrow> string
    \<Rightarrow> string set \<Rightarrow> outcome \<times> transfer_event list \<times> string set" where
  "upload_tracked runner serial local remote operation_id registry =
    tracked_transfer runner serial local remote operation_id ''upload'' registry"

definition download_tracked :: "(string list \<Rightarrow> cancellable_result \<times> string list) \<Rightarrow> string \<Rightarrow> string \<Rightarrow> string \<Rightarrow> string
    \<Rightarrow> string set \<Rightarrow> outcome \<times> transfer_event list \<times> string set" where
  "download_tracked runner serial remote local operation_id registry =
    tracked_transfer runner serial local remote operation_id ''download'' registry"

section \<open>Quoting\<close>

text \<open>\<^verbatim>\<open>char::is_control\<close> on UTF-8: the ASCII control characters and U+0080 to U+009F.\<close>

fun control_chars :: "string \<Rightarrow> string list" where
  "control_chars [] = []"
| "control_chars (c # cs) =
    (let n = (of_char c :: nat) in
     (if n < 32 \<or> n = 127 then [[c]]
      else if n = 0xC2 then (case cs of d # _ \<Rightarrow> (let m = (of_char d :: nat) in if 128 \<le> m \<and> m < 160 then [[c, d]] else []) | [] \<Rightarrow> [])
      else []) @ control_chars cs)"

definition single_quoted :: "string \<Rightarrow> string" where
  "single_quoted s = SQ @ str_replace SQ (SQ @ BS @ SQ @ SQ) s @ SQ"

definition shell_quote :: "string \<Rightarrow> notice + string" where
  "shell_quote value =
    (if value = [] \<or> control_chars value \<noteq> [] then Inl (Note ''empty path or control character'' [])
     else if list_ex (\<lambda>c. c \<in> set [CHR '';'', CHR ''|'', CHR ''&'', CHR 0x60]) value then Inl (Note ''character not allowed'' [])
     else Inr (single_quoted value))"

definition content_quote :: "string \<Rightarrow> notice + string" where
  "content_quote value =
    (if list_ex (\<lambda>c. c \<notin> {NL, [CHR 0x0D], TAB}) (control_chars value) then Inl (Note ''control character in the content'' [])
     else Inr (single_quoted value))"

definition remote_path :: "string \<Rightarrow> notice + string" where
  "remote_path path = (if \<not> starts_with (trim_start path) ''/'' then Inl (Note ''not an absolute path'' []) else shell_quote path)"

section \<open>Commands on files\<close>

definition build_move_command :: "string \<Rightarrow> string \<Rightarrow> notice + string" where
  "build_move_command source target =
    and_then (remote_path source) (\<lambda>a. and_then (remote_path target) (\<lambda>b. Inr (''mv -f '' @ a @ '' '' @ b)))"

definition build_copy_command :: "string \<Rightarrow> string \<Rightarrow> notice + string" where
  "build_copy_command source target =
    and_then (remote_path source) (\<lambda>a. and_then (remote_path target) (\<lambda>b. Inr (''cp -R '' @ a @ '' '' @ b)))"

fun path_depth :: "nat \<Rightarrow> string list \<Rightarrow> nat" where
  "path_depth d [] = d"
| "path_depth d (x # xs) = path_depth (if x = [] \<or> x = ''.'' then d else if x = ''..'' then d - 1 else d + 1) xs"

definition build_delete_command :: "string \<Rightarrow> notice + string" where
  "build_delete_command path =
    (if path_depth 0 (split_char (CHR ''/'') (trim_end_matches ''/'' path)) = 0 then Inl (Note ''refused to delete the root'' [])
     else map_sum id (\<lambda>p. ''rm -rf -- '' @ p) (remote_path path))"

definition build_list_command :: "string \<Rightarrow> notice + string" where
  "build_list_command path = map_sum id (\<lambda>p. ''ls -la -- '' @ p) (remote_path path)"

definition build_mkdir_command :: "string \<Rightarrow> notice + string" where
  "build_mkdir_command path = map_sum id (\<lambda>p. ''mkdir -p -- '' @ p) (remote_path path)"

definition build_read_command :: "string \<Rightarrow> notice + string" where
  "build_read_command path = map_sum id (\<lambda>p. ''cat '' @ p) (remote_path path)"

definition build_write_command :: "string \<Rightarrow> string \<Rightarrow> notice + string" where
  "build_write_command path content =
    (if 1048576 < length content then Inl (Note ''text file above 1 MB'' [])
     else and_then (content_quote content) (\<lambda>c. and_then (remote_path path) (\<lambda>p.
       Inr (''printf '' @ SQ @ ''%s'' @ SQ @ '' '' @ c @ '' > '' @ p))))"

definition run_built :: "desk \<Rightarrow> string \<Rightarrow> notice + string \<Rightarrow> dstate \<Rightarrow> outcome \<times> dstate" where
  "run_built e serial command s = (case command of
     Inl m \<Rightarrow> (refused [m], s)
   | Inr c \<Rightarrow> map_prod of_shell id (adb_shell e serial c s))"

definition move_path :: "desk \<Rightarrow> string \<Rightarrow> string \<Rightarrow> string \<Rightarrow> dstate \<Rightarrow> outcome \<times> dstate" where
  "move_path e serial source target s = run_built e serial (build_move_command source target) s"

definition copy_path :: "desk \<Rightarrow> string \<Rightarrow> string \<Rightarrow> string \<Rightarrow> dstate \<Rightarrow> outcome \<times> dstate" where
  "copy_path e serial source target s = run_built e serial (build_copy_command source target) s"

definition delete_path :: "desk \<Rightarrow> string \<Rightarrow> string \<Rightarrow> dstate \<Rightarrow> outcome \<times> dstate" where
  "delete_path e serial path s = run_built e serial (build_delete_command path) s"

definition list_path :: "desk \<Rightarrow> string \<Rightarrow> string \<Rightarrow> dstate \<Rightarrow> outcome \<times> dstate" where
  "list_path e serial path s = run_built e serial (build_list_command path) s"

definition make_directory :: "desk \<Rightarrow> string \<Rightarrow> string \<Rightarrow> dstate \<Rightarrow> outcome \<times> dstate" where
  "make_directory e serial path s = run_built e serial (build_mkdir_command path) s"

definition read_path :: "desk \<Rightarrow> string \<Rightarrow> string \<Rightarrow> dstate \<Rightarrow> outcome \<times> dstate" where
  "read_path e serial path s = run_built e serial (build_read_command path) s"

definition write_path :: "desk \<Rightarrow> string \<Rightarrow> string \<Rightarrow> string \<Rightarrow> dstate \<Rightarrow> outcome \<times> dstate" where
  "write_path e serial path content s = run_built e serial (build_write_command path content) s"

end
