(* ===== verification/Device_Apps.thy ===== *)
theory Device_Apps imports Device File_Transfer begin

text \<open>
  \<^verbatim>\<open>src-tauri/src/services/device.rs\<close>: input, settings, applications and files of a device. Reading icons out of an archive and the
  dashboard are not modelled; of the files on the host only what a download does with them is.
\<close>

section \<open>Input and settings\<close>

definition keyevent :: "desk \<Rightarrow> string \<Rightarrow> int \<Rightarrow> dstate \<Rightarrow> shell_result \<times> dstate" where
  "keyevent e serial code s = input_keyevent e serial code s"

definition key_code :: "string \<Rightarrow> int option" where
  "key_code name = map_of [(''home'', 3), (''back'', 4), (''recent'', 187), (''power'', 26), (''volume_up'', 24), (''volume_down'', 25),
     (''volume_mute'', 164), (''screen_off'', 26)] name"

definition press_key :: "desk \<Rightarrow> string \<Rightarrow> string \<Rightarrow> dstate \<Rightarrow> (shell_result \<times> dstate) option" where
  "press_key e serial name s = map_option (\<lambda>code. keyevent e serial code s) (key_code name)"

definition long_press :: "desk \<Rightarrow> string \<Rightarrow> int \<Rightarrow> int \<Rightarrow> u32 \<Rightarrow> dstate \<Rightarrow> shell_result \<times> dstate" where
  "long_press e serial x y duration s = input_swipe e serial x y x y duration s"

definition rotate_screen :: "desk \<Rightarrow> string \<Rightarrow> bool \<Rightarrow> dstate \<Rightarrow> shell_result \<times> dstate" where
  "rotate_screen e serial landscape s = adb_shell e serial (''settings put system accelerometer_rotation 0; ''
     @ ''settings put system user_rotation '' @ (if landscape then ''1'' else ''0'')) s"

definition set_rotation_mode :: "desk \<Rightarrow> string \<Rightarrow> string \<Rightarrow> dstate \<Rightarrow> outcome \<times> dstate" where
  "set_rotation_mode e serial mode s =
    (if mode = ''portrait'' then map_prod of_shell id (rotate_screen e serial False s)
     else if mode = ''landscape'' then map_prod of_shell id (rotate_screen e serial True s)
     else if mode = ''auto'' then map_prod of_shell id (adb_shell e serial ''settings put system accelerometer_rotation 1'' s)
     else if mode = ''lock'' then map_prod of_shell id (adb_shell e serial ''settings put system accelerometer_rotation 0'' s)
     else (refused [Note ''unknown rotation mode'' []], s))"

definition set_resolution :: "desk \<Rightarrow> string \<Rightarrow> string \<Rightarrow> dstate \<Rightarrow> shell_result \<times> dstate" where
  "set_resolution e serial resolution s =
    adb_shell e serial (if resolution = ''reset'' then ''wm size reset'' else ''wm size '' @ resolution) s"

definition set_dpi :: "desk \<Rightarrow> string \<Rightarrow> string \<Rightarrow> dstate \<Rightarrow> shell_result \<times> dstate" where
  "set_dpi e serial dpi s = adb_shell e serial (if dpi = ''reset'' then ''wm density reset'' else ''wm density '' @ dpi) s"

definition set_language :: "desk \<Rightarrow> string \<Rightarrow> string \<Rightarrow> dstate \<Rightarrow> shell_result \<times> dstate" where
  "set_language e serial lang s =
    adb_shell e serial (''settings put system system_locales '' @ lang @ ''; setprop persist.sys.locale '' @ lang) s"

definition escaped_content :: "string \<Rightarrow> string" where
  "escaped_content content = str_replace DQ (BS @ DQ) (str_replace BS (BS @ BS) content)"

definition send_clipboard :: "desk \<Rightarrow> string \<Rightarrow> string \<Rightarrow> dstate \<Rightarrow> shell_result \<times> dstate" where
  "send_clipboard e serial content s =
    (let q = DQ @ escaped_content content @ DQ in
     case adb_shell e serial (''cmd clipboard set --uri '' @ q) s of (r, s1) \<Rightarrow>
       if sr_success r then (r, s1)
       else (case adb_shell e serial (''cmd clipboard set '' @ q) s1 of (r2, s2) \<Rightarrow>
         if sr_success r2 then (r2, s2) else input_text e serial content s2))"

definition read_clipboard :: "desk \<Rightarrow> string \<Rightarrow> dstate \<Rightarrow> shell_result \<times> dstate" where
  "read_clipboard e serial s = (case adb_shell e serial ''cmd clipboard get'' s of (r, s1) \<Rightarrow>
     if sr_success r then (r, s1) else adb_shell e serial ''cmd clipboard get-text'' s1)"

section \<open>Applications\<close>

definition valid_package :: "string \<Rightarrow> bool" where
  "valid_package package = (let p = trim package in p \<noteq> []
     \<and> list_all (\<lambda>part. part \<noteq> [] \<and> list_all (\<lambda>c. is_ascii_alphanumeric c \<or> c = CHR ''_'') part) (split_char (CHR ''.'') p))"

definition invalid_package_result :: outcome where
  "invalid_package_result = refused [Note ''illegal character in the package'' []]"

text \<open>A command on a valid package.\<close>

definition on_package :: "desk \<Rightarrow> string \<Rightarrow> string \<Rightarrow> string \<Rightarrow> dstate \<Rightarrow> outcome \<times> dstate" where
  "on_package e serial package command s =
    (if \<not> valid_package package then (invalid_package_result, s) else map_prod of_shell id (adb_shell e serial command s))"

definition start_app :: "desk \<Rightarrow> string \<Rightarrow> string \<Rightarrow> dstate \<Rightarrow> outcome \<times> dstate" where
  "start_app e serial package s =
    (if \<not> valid_package package then (invalid_package_result, s)
     else (case adb_shell e serial (''monkey -p '' @ package @ '' -c android.intent.category.LAUNCHER 1'') s of (r, t) \<Rightarrow>
       (if \<not> sr_success r \<and> (str_contains (sr_stderr r) ''monkey'' \<or> str_contains (sr_stdout r) ''monkey'')
        then (of_shell r)\<lparr>oc_stderr := [Note ''no activity to launch'' [package]]\<rparr> else of_shell r, t)))"

definition start_app_on_display :: "desk \<Rightarrow> string \<Rightarrow> string \<Rightarrow> int \<Rightarrow> dstate \<Rightarrow> outcome \<times> dstate" where
  "start_app_on_display e serial package display_id s =
    (if \<not> valid_package package then (invalid_package_result, s)
     else if display_id < 0 then (refused [Note ''negative display'' []], s)
     else map_prod of_shell id (adb_shell e serial
       (''monkey --display '' @ show_int display_id @ '' -p '' @ package @ '' -c android.intent.category.LAUNCHER 1'') s))"

definition start_app_activity :: "desk \<Rightarrow> string \<Rightarrow> string \<Rightarrow> string \<Rightarrow> dstate \<Rightarrow> outcome \<times> dstate" where
  "start_app_activity e serial package activity s =
    (if \<not> valid_package package \<or> blank activity then (refused [Note ''package and activity needed'' []], s)
     else if \<not> list_all (\<lambda>c. is_ascii_alphanumeric c \<or> c \<in> set ''._$'') package
       \<or> \<not> list_all (\<lambda>c. is_ascii_alphanumeric c \<or> c \<in> set ''._$/'') activity
     then (refused [Note ''illegal character in package or activity'' []], s)
     else map_prod of_shell id (adb_shell e serial (''am start -n '' @ package @ ''/'' @ activity) s))"

definition stop_app :: "desk \<Rightarrow> string \<Rightarrow> string \<Rightarrow> dstate \<Rightarrow> outcome \<times> dstate" where
  "stop_app e serial package s = on_package e serial package (''am force-stop '' @ package) s"

definition clear_cache :: "desk \<Rightarrow> string \<Rightarrow> string \<Rightarrow> dstate \<Rightarrow> outcome \<times> dstate" where
  "clear_cache e serial package s = on_package e serial package (''pm clear '' @ package) s"

record app_info =
  ai_package_name :: string
  ai_version_name :: string
  ai_version_code :: string
  ai_system_app :: bool
  ai_apk_path :: string
  ai_first_install_time :: string
  ai_last_update_time :: string

definition parse_app_line :: "string \<Rightarrow> app_info option" where
  "parse_app_line l = (case strip_prefix ''package:'' l of None \<Rightarrow> None
   | Some rest \<Rightarrow> (case rsplit_once_char (CHR ''='') rest of None \<Rightarrow> None
     | Some (apk_path, package) \<Rightarrow> Some \<lparr>ai_package_name = package, ai_version_name = [], ai_version_code = [],
         ai_system_app = (\<not> str_contains apk_path ''/data/app''), ai_apk_path = apk_path, ai_first_install_time = [],
         ai_last_update_time = []\<rparr>))"

text \<open>The message of a command that failed: what it printed, or a text of its own.\<close>

definition printed :: "shell_result \<Rightarrow> notice \<Rightarrow> notice list" where
  "printed r fallback = (let d = filter (\<lambda>x. x \<noteq> []) [trim (sr_stderr r), trim (sr_stdout r)] in
     if d = [] then [fallback] else map Text d)"

definition shell_failure :: "shell_result \<Rightarrow> notice \<Rightarrow> notice" where
  "shell_failure r fallback = (case filter (\<lambda>x. x \<noteq> []) [trim (sr_stderr r), trim (sr_stdout r)] of d # _ \<Rightarrow> Text d | [] \<Rightarrow> fallback)"

definition list_apps_result :: "desk \<Rightarrow> string \<Rightarrow> bool \<Rightarrow> dstate \<Rightarrow> (notice list + app_info list) \<times> dstate" where
  "list_apps_result e serial include_system s =
    (case adb_shell e serial (''pm list packages -f '' @ (if include_system then [] else ''-3'')) s of (r, t) \<Rightarrow>
      (if \<not> sr_success r then Inl (printed r (Note ''application list not read'' []))
       else Inr (List.map_filter parse_app_line (lines (sr_stdout r))), t))"

text \<open>What follows the first occurrence of a key up to the next one, if it occurs.\<close>

definition after_key :: "string \<Rightarrow> string \<Rightarrow> string option" where
  "after_key key l = (case split_once key l of None \<Rightarrow> None
   | Some (_, rest) \<Rightarrow> (case split_once key rest of Some (v, _) \<Rightarrow> Some v | None \<Rightarrow> Some rest))"

definition version_line :: "string \<Rightarrow> app_info \<Rightarrow> app_info" where
  "version_line l a =
    (let a1 = (case after_key ''versionName='' l of Some v \<Rightarrow> a\<lparr>ai_version_name := trim v\<rparr> | None \<Rightarrow> a);
         a2 = (case after_key ''versionCode='' l of
           Some v \<Rightarrow> a1\<lparr>ai_version_code := (case split_whitespace v of w # _ \<Rightarrow> w | [] \<Rightarrow> [])\<rparr> | None \<Rightarrow> a1);
         a3 = (case after_key ''firstInstallTime='' l of Some v \<Rightarrow> a2\<lparr>ai_first_install_time := trim v\<rparr> | None \<Rightarrow> a2)
     in case after_key ''lastUpdateTime='' l of Some v \<Rightarrow> a3\<lparr>ai_last_update_time := trim v\<rparr> | None \<Rightarrow> a3)"

definition app_detail_result :: "desk \<Rightarrow> string \<Rightarrow> string \<Rightarrow> dstate \<Rightarrow> (notice + app_info) \<times> dstate" where
  "app_detail_result e serial package s =
    (if \<not> valid_package package then (Inl (Note ''illegal character in the package'' []), s)
     else (case adb_shell e serial (''pm path '' @ package) s of (p, s1) \<Rightarrow>
       if \<not> sr_success p then (Inl (shell_failure p (Note ''path of the application not read'' [])), s1)
       else if blank (sr_stdout p) then (Inl (Note ''no such application'' [package]), s1)
       else (case adb_shell e serial (''dumpsys package '' @ package @ '' | grep -E '' @ SQ
             @ ''versionName|versionCode|firstInstallTime|lastUpdateTime'' @ SQ @ '' | head -10'') s1 of (v, s2) \<Rightarrow>
         (if \<not> sr_success v then Inl (shell_failure v (Note ''details of the application not read'' []))
          else Inr (fold version_line (lines (sr_stdout v))
            \<lparr>ai_package_name = package, ai_version_name = [], ai_version_code = [],
             ai_system_app = (\<not> str_contains (sr_stdout p) ''/data/app''),
             ai_apk_path = (case lines (str_replace ''package:'' [] (sr_stdout p)) of l # _ \<Rightarrow> l | [] \<Rightarrow> []),
             ai_first_install_time = [], ai_last_update_time = []\<rparr>), s2))))"

definition app_query :: "desk \<Rightarrow> string \<Rightarrow> string \<Rightarrow> string \<Rightarrow> notice \<Rightarrow> dstate \<Rightarrow> (notice + string) \<times> dstate" where
  "app_query e serial package command failed s =
    (if \<not> valid_package package then (Inl (Note ''illegal character in the package'' []), s)
     else (case adb_shell e serial command s of (r, t) \<Rightarrow>
       (if \<not> sr_success r then Inl (shell_failure r failed) else Inr (sr_stdout r), t)))"

definition app_permissions_result :: "desk \<Rightarrow> string \<Rightarrow> string \<Rightarrow> dstate \<Rightarrow> (notice + string) \<times> dstate" where
  "app_permissions_result e serial package s =
    app_query e serial package (''dumpsys package '' @ package @ '' | grep permission'') (Note ''permissions not read'' []) s"

definition app_activities_result :: "desk \<Rightarrow> string \<Rightarrow> string \<Rightarrow> dstate \<Rightarrow> (notice + string) \<times> dstate" where
  "app_activities_result e serial package s = app_query e serial package
     (''dumpsys package '' @ package @ '' | grep -A 2 '' @ SQ @ ''Activity'' @ SQ @ '' | head -50'') (Note ''activities not read'' []) s"

text \<open>The icon of the highest density that \<^verbatim>\<open>aapt\<close> lists, the last of several.\<close>

definition icon_of_line :: "string \<Rightarrow> (int \<times> string) option" where
  "icon_of_line l = (case strip_prefix ''application-icon-'' l of None \<Rightarrow> None
   | Some prefix \<Rightarrow> (case split_once ('':'' @ SQ) prefix of None \<Rightarrow> None
     | Some (density, rest) \<Rightarrow> (case parse_i32 density of None \<Rightarrow> None
       | Some d \<Rightarrow> if rest = [] \<or> last rest \<noteq> CHR 0x27 \<or> butlast rest = [] then None else Some (d, butlast rest))))"

definition better_icon :: "int \<times> string \<Rightarrow> (int \<times> string) option \<Rightarrow> (int \<times> string) option" where
  "better_icon x best = (case best of None \<Rightarrow> Some x | Some (d, _) \<Rightarrow> if d \<le> fst x then Some x else best)"

definition select_icon_path :: "string \<Rightarrow> string option" where
  "select_icon_path out = map_option snd (fold better_icon (List.map_filter icon_of_line (lines out)) None)"

definition image_mime_from_bytes :: "string \<Rightarrow> string option" where
  "image_mime_from_bytes b =
    (if starts_with b [CHR 0x89, CHR ''P'', CHR ''N'', CHR ''G'', CHR 0x0D, CHR 0x0A, CHR 0x1A, CHR 0x0A] then Some ''image/png''
     else if starts_with b [CHR 0xFF, CHR 0xD8, CHR 0xFF] then Some ''image/jpeg''
     else if starts_with b ''RIFF'' \<and> 12 \<le> length b \<and> take 4 (drop 8 b) = ''WEBP'' then Some ''image/webp'' else None)"

section \<open>Files\<close>

record file_entry =
  fe_name :: string
  fe_path :: string
  fe_is_dir :: bool
  fe_size :: string
  fe_permissions :: string
  fe_modified :: string

definition parse_ls_line :: "string \<Rightarrow> string \<Rightarrow> file_entry option" where
  "parse_ls_line base l =
    (let p = split_whitespace l in
     if length p < 8 then None
     else (let name = join '' '' (drop 8 p) in
       if name = ''.'' \<or> name = ''..'' then None
       else Some \<lparr>fe_name = name, fe_path = (if ends_with base ''/'' then base @ name else base @ ''/'' @ name),
         fe_is_dir = starts_with (p ! 0) ''d'', fe_size = p ! 4, fe_permissions = p ! 0,
         fe_modified = p ! 5 @ '' '' @ p ! 6 @ '' '' @ p ! 7\<rparr>))"

definition list_files_result :: "desk \<Rightarrow> string \<Rightarrow> string \<Rightarrow> dstate \<Rightarrow> (notice list + file_entry list) \<times> dstate" where
  "list_files_result e serial path s =
    (case build_list_command path of
       Inl m \<Rightarrow> (Inl [m], s)
     | Inr c \<Rightarrow> (case adb_shell e serial c s of (r, t) \<Rightarrow>
         (if \<not> sr_success r then Inl (printed r (Note ''directory not read'' []))
          else Inr (List.map_filter (parse_ls_line path)
            (filter (\<lambda>l. \<not> starts_with l ''total'' \<and> \<not> blank l) (lines (sr_stdout r)))), t)))"

definition delete_file :: "desk \<Rightarrow> string \<Rightarrow> string \<Rightarrow> dstate \<Rightarrow> outcome \<times> dstate" where
  "delete_file e serial path s = delete_path e serial path s"

definition storage_info :: "desk \<Rightarrow> string \<Rightarrow> dstate \<Rightarrow> string \<times> dstate" where
  "storage_info e serial s = (case adb_shell e serial ''df -h /data 2>/dev/null || df -h'' s of (r, t) \<Rightarrow> (sr_stdout r, t))"

text \<open>
  What a download meets on the host: whether the target is a directory, the error of making its parent, the name of the temporary entry
  beside it, and, by the history, whether the first entry in there was moved or copied to the target.
\<close>

record pull_host =
  ph_is_dir :: "string \<Rightarrow> bool"
  ph_parent_error :: "string \<Rightarrow> string option"
  ph_temporary :: "string \<Rightarrow> string"
  ph_moved :: "call list \<Rightarrow> string \<Rightarrow> string \<Rightarrow> bool"

text \<open>The result, and whether the entry has reached the target when that is not a directory.\<close>

definition download_file :: "desk \<Rightarrow> pull_host \<Rightarrow> string \<Rightarrow> string \<Rightarrow> string \<Rightarrow> dstate \<Rightarrow> outcome \<times> bool \<times> dstate" where
  "download_file e h serial remote local s =
    (if ph_is_dir h local then (case pull e serial remote local s of (r, t) \<Rightarrow> (of_shell r, sr_success r, t))
     else (case ph_parent_error h local of
       Some m \<Rightarrow> (refused [Note ''target directory not made'' [m]], False, s)
     | None \<Rightarrow> (case pull e serial remote (ph_temporary h local) s of (r, t) \<Rightarrow>
         (of_shell r, sr_success r \<and> ph_moved h (ds_log t) (ph_temporary h local) local, t))))"

definition screenshot :: "desk \<Rightarrow> string \<Rightarrow> string \<Rightarrow> string \<Rightarrow> dstate \<Rightarrow> (string + string) \<times> dstate" where
  "screenshot e dir filename serial s =
    (let local = dir @ ''/'' @ filename; remote = ''/sdcard/'' @ filename; failed = (\<lambda>r. Inl (trim (sr_stderr r @ '' '' @ sr_stdout r))) in
     case screencap e serial remote s of (cap, s1) \<Rightarrow>
       if \<not> sr_success cap then (failed cap, s1)
       else (case pull e serial remote local s1 of (r, s2) \<Rightarrow>
         (let s3 = snd (adb_shell e serial (''rm -f '' @ remote) s2) in
          (if \<not> sr_success r then failed r else Inr local, s3))))"

end
