(* ===== verification/File_Transfer_Props.thy ===== *)
theory File_Transfer_Props imports File_Transfer Shell begin

text \<open>
  What the commands on files mean to the shell of the device, which entry a deletion can reach, and the events of a tracked transfer.
\<close>

section \<open>Commands\<close>

interpretation tq: quoter single_quoted
  by unfold_locales (simp add: single_quoted_def sh_read_escaped_quote [where w = "[]", simplified])

lemma remote_path_Inr: "remote_path p = Inr q \<Longrightarrow> q = single_quoted p \<and> starts_with (trim_start p) ''/''"
  by (auto simp: remote_path_def shell_quote_def split: if_splits)

lemma content_quote_Inr: "content_quote p = Inr q \<Longrightarrow> q = single_quoted p"
  by (auto simp: content_quote_def split: if_splits)

lemma command_word:
  "plain_word w \<Longrightarrow> sh_read Plain None (w @ '' '' @ rest) = map_option ((#) (Word w)) (sh_read Plain None rest)"
  using sh_read_word [of w rest] by simp

lemma file_words: "plain_word ''mv''" "plain_word ''-f''" "plain_word ''cp''" "plain_word ''-R''" "plain_word ''rm''" "plain_word ''-rf''"
    "plain_word ''--''" "plain_word ''ls''" "plain_word ''-la''" "plain_word ''mkdir''" "plain_word ''-p''" "plain_word ''cat''"
    "plain_word ''printf''"
  by code_simp+

lemma two_words:
  assumes "plain_word a" and "plain_word b" and "cmd = a @ '' '' @ b @ '' '' @ rest" and "sh_read Plain None rest = Some (map Word ws)"
  shows "sh_words cmd = Some (a # b # ws)"
  using assms by (intro sh_words_of_tokens) (simp only: sh_tokens_def command_word option.map list.map)

lemma three_words:
  assumes "plain_word a" and "plain_word b" and "plain_word c" and "cmd = a @ '' '' @ b @ '' '' @ c @ '' '' @ rest"
    and "sh_read Plain None rest = Some (map Word ws)"
  shows "sh_words cmd = Some (a # b # c # ws)"
  using assms by (intro sh_words_of_tokens) (simp only: sh_tokens_def command_word option.map list.map)

lemma move_words: "build_move_command a b = Inr c \<Longrightarrow> sh_words c = Some [''mv'', ''-f'', a, b]"
  using tq.read_joined [of "[a, b]"]
  by (auto simp: build_move_command_def and_then_Inr_iff dest!: remote_path_Inr intro!: two_words file_words)

lemma copy_words: "build_copy_command a b = Inr c \<Longrightarrow> sh_words c = Some [''cp'', ''-R'', a, b]"
  using tq.read_joined [of "[a, b]"]
  by (auto simp: build_copy_command_def and_then_Inr_iff dest!: remote_path_Inr intro!: two_words file_words)

lemma map_sum_id_Inr: "map_sum id f x = Inr y \<longleftrightarrow> (\<exists>z. x = Inr z \<and> y = f z)"
  by (cases x) auto

lemma delete_words: "build_delete_command p = Inr c \<Longrightarrow> sh_words c = Some [''rm'', ''-rf'', ''--'', p]"
  using tq.read_quoted_last [of p]
  by (auto simp: build_delete_command_def map_sum_id_Inr split: if_splits dest!: remote_path_Inr intro!: three_words file_words)

lemma list_words: "build_list_command p = Inr c \<Longrightarrow> sh_words c = Some [''ls'', ''-la'', ''--'', p]"
  using tq.read_quoted_last [of p]
  by (auto simp: build_list_command_def map_sum_id_Inr dest!: remote_path_Inr intro!: three_words file_words)

lemma mkdir_words: "build_mkdir_command p = Inr c \<Longrightarrow> sh_words c = Some [''mkdir'', ''-p'', ''--'', p]"
  using tq.read_quoted_last [of p]
  by (auto simp: build_mkdir_command_def map_sum_id_Inr dest!: remote_path_Inr intro!: three_words file_words)

lemma read_words: "build_read_command p = Inr c \<Longrightarrow> sh_words c = Some [''cat'', p]"
  using tq.read_quoted_last [of p] command_word [OF file_words(12), of "single_quoted p"]
  by (auto simp: build_read_command_def map_sum_id_Inr sh_words_def sh_tokens_def dest!: remote_path_Inr)

lemma write_tokens:
  assumes "build_write_command p content = Inr c"
  shows "sh_tokens c = Some [Word ''printf'', Word ''%s'', Word content, Output, Word p]"
proof -
  have c: "c = ''printf '' @ SQ @ ''%s'' @ SQ @ '' '' @ single_quoted content @ '' > '' @ single_quoted p"
    using assms by (auto simp: build_write_command_def and_then_Inr_iff split: if_splits dest!: remote_path_Inr content_quote_Inr)
  have "sh_read Plain None (''> '' @ single_quoted p) = Some [Output, Word p]"
    using tq.read_quoted_last [of p] by (simp add: pending_def)
  then have "sh_read Plain None (single_quoted content @ '' > '' @ single_quoted p) = Some [Word content, Output, Word p]"
    using tq.read_quoted_blank [of content "''> '' @ single_quoted p"] by simp
  then have "sh_read Plain None (SQ @ ''%s'' @ SQ @ '' '' @ single_quoted content @ '' > '' @ single_quoted p)
      = Some [Word ''%s'', Word content, Output, Word p]"
    by (simp add: pending_def append_Cons [abs_def])
  then show ?thesis using command_word [OF file_words(13)] by (simp add: c sh_tokens_def)
qed

section \<open>Deletion\<close>

text \<open>The entry that a path means, as the names on the way to it from the root; symbolic links are not followed.\<close>

fun resolve :: "string list \<Rightarrow> string list \<Rightarrow> string list" where
  "resolve st [] = st"
| "resolve st (x # xs) = resolve (if x = [] \<or> x = ''.'' then st else if x = ''..'' then butlast st else st @ [x]) xs"

lemma path_depth_resolve: "path_depth (length st) xs = length (resolve st xs)"
proof (induction xs arbitrary: st)
  case (Cons x xs)
  then show ?case using Cons.IH [of "butlast st"] Cons.IH [of "st @ [x]"] by simp
qed simp

lemma resolve_append: "resolve st (xs @ ys) = resolve (resolve st xs) ys"
  by (induction xs arbitrary: st) simp_all


lemma split_char_snoc: "split_char c (t @ [c]) = split_char c t @ [[]]"
  by (induction t) (auto split: list.split)

lemma split_char_trailing: "split_char c (t @ replicate n c) = split_char c t @ replicate n []"
proof (induction n)
  case (Suc n)
  have e: "t @ replicate (Suc n) c = (t @ replicate n c) @ [c]" by (simp add: replicate_append_same)
  show ?case unfolding e split_char_snoc Suc by (simp add: replicate_append_same)
qed simp

lemma trim_end_slashes: "\<exists>n. p = trim_end_matches [c] p @ replicate n c"
proof (induction p rule: rev_induct)
  case Nil
  have "trim_end_matches [c] [] = []" by (subst trim_end_matches.simps) (simp add: ends_with_def)
  then show ?case by simp
next
  case (snoc x p)
  then obtain n where n: "p = trim_end_matches [c] p @ replicate n c" by blast
  show ?case
  proof (cases "x = c")
    case True
    then have "trim_end_matches [c] (p @ [x]) = trim_end_matches [c] p"
      by (subst trim_end_matches.simps) (simp add: ends_with_def)
    then have "p @ [x] = trim_end_matches [c] (p @ [x]) @ replicate (Suc n) c"
      using n True by (metis append.assoc replicate_append_same replicate_Suc)
    then show ?thesis by blast
  next
    case False
    then have "trim_end_matches [c] (p @ [x]) = p @ [x]" by (subst trim_end_matches.simps) (simp add: ends_with_def)
    then show ?thesis by (intro exI [of _ 0]) simp
  qed
qed

lemma resolve_blank: "resolve st (replicate n []) = st"
  by (induction n) simp_all

lemma resolve_trimmed: "resolve [] (split_char c (trim_end_matches [c] p)) = resolve [] (split_char c p)"
proof -
  obtain n where "p = trim_end_matches [c] p @ replicate n c" using trim_end_slashes by blast
  then have "split_char c p = split_char c (trim_end_matches [c] p) @ replicate n []" by (metis split_char_trailing)
  then show ?thesis by (simp add: resolve_append resolve_blank)
qed

text \<open>
  C27: Whatever path a caller gives, the command of a deletion has exactly that path as its one operand, and the path
  does not mean the root of the device, however many dots, slashes and steps back it contains. The other commands on files likewise
  get the paths, and the new content of a file, as they were given.
\<close>

theorem file_commands_faithful:
  "(build_delete_command p = Inr c \<longrightarrow> sh_words c = Some [''rm'', ''-rf'', ''--'', p] \<and> resolve [] (split_char (CHR ''/'') p) \<noteq> [])
   \<and> (build_move_command p q = Inr c \<longrightarrow> sh_words c = Some [''mv'', ''-f'', p, q])
   \<and> (build_copy_command p q = Inr c \<longrightarrow> sh_words c = Some [''cp'', ''-R'', p, q])
   \<and> (build_list_command p = Inr c \<longrightarrow> sh_words c = Some [''ls'', ''-la'', ''--'', p])
   \<and> (build_mkdir_command p = Inr c \<longrightarrow> sh_words c = Some [''mkdir'', ''-p'', ''--'', p])
   \<and> (build_read_command p = Inr c \<longrightarrow> sh_words c = Some [''cat'', p])
   \<and> (build_write_command p content = Inr c
        \<longrightarrow> sh_tokens c = Some [Word ''printf'', Word ''%s'', Word content, Output, Word p])"
proof -
  have "resolve [] (split_char (CHR ''/'') p) \<noteq> []" if "build_delete_command p = Inr c"
  proof -
    have "path_depth 0 (split_char (CHR ''/'') (trim_end_matches ''/'' p)) \<noteq> 0"
      using that by (auto simp: build_delete_command_def split: if_splits)
    then show ?thesis using path_depth_resolve [of "[]"] by (simp add: resolve_trimmed)
  qed
  then show ?thesis using delete_words move_words copy_words list_words mkdir_words read_words write_tokens by blast
qed

theorem file_commands_witness:
  "\<exists>c. sh_words c = Some [''rm'', ''-rf'', ''--'', ''/sdcard/../data'']
     \<and> resolve [] (split_char (CHR ''/'') ''/sdcard/../data'') \<noteq> []"
proof -
  have "build_delete_command ''/sdcard/../data'' = Inr (''rm -rf -- '' @ single_quoted ''/sdcard/../data'')" by code_simp
  then show ?thesis using file_commands_faithful [of "''/sdcard/../data''"] by blast
qed

section \<open>Events\<close>

text \<open>A transfer with an identifier reports that it waits, that it runs, and at last, once, how it ended.\<close>

definition final_status :: "string \<Rightarrow> bool" where
  "final_status st = (st \<in> {''completed'', ''failed'', ''cancelled''})"

lemma tracked_transfer_events:
  assumes "tracked_transfer runner serial local remote op direction registry = (out, events, registry')" and "\<not> blank op"
  shows "\<exists>mid last. map te_status events = ''queued'' # mid @ [last] \<and> set mid = {''running''} \<and> final_status last
    \<and> (last = ''completed'' \<longrightarrow> oc_success out) \<and> list_all (\<lambda>ev. te_operation_id ev = op) events \<and> registry' = registry - {op}"
proof -
  obtain result chunks where r: "runner (if direction = ''upload'' then [''-s'', serial, ''push'', local, remote]
      else [''-s'', serial, ''pull'', remote, local]) = (result, chunks)" by fastforce
  define last where "last = (case result of Completed x \<Rightarrow> if sr_success x then ''completed'' else ''failed''
    | Cancelled x \<Rightarrow> ''cancelled'' | TimedOut x \<Rightarrow> ''failed'')"
  have "map te_status events = ''queued'' # (''running'' # map (\<lambda>_. ''running'') chunks) @ [last]
      \<and> (last = ''completed'' \<longrightarrow> oc_success out) \<and> list_all (\<lambda>ev. te_operation_id ev = op) events \<and> registry' = registry - {op}"
    using assms r by (auto simp: tracked_transfer_def Let_def last_def of_shell_def list_all_iff split: cancellable_result.splits if_splits)
  moreover have "final_status last" by (simp add: last_def final_status_def split: cancellable_result.split)
  ultimately show ?thesis by (intro exI [of _ "''running'' # map (\<lambda>_. ''running'') chunks"] exI [of _ last]) auto
qed

text \<open>A cancelled, lost or late command never counts as a success.\<close>

lemma watch_child_result:
  "watch_child rounds cost secs p t cs = (res, out) \<Longrightarrow>
   (case res of Completed r \<Rightarrow> True | Cancelled r \<Rightarrow> \<not> sr_success r | TimedOut r \<Rightarrow> \<not> sr_success r)"
proof (induction rounds cost secs p t cs rule: watch_child.induct)
  case (1 rounds cost secs p t cs)
  show ?case using 1 by (subst (asm) (2) watch_child.simps) (auto simp: stopped_def Let_def split: if_splits child_state.splits)
qed

end
