(* ===== verification/Device_Props.thy ===== *)
theory Device_Props imports Device_Apps File_Transfer_Props begin

text \<open>
  The list of devices: what it holds, and how an entry can belong to the wrong container; and what the rows of a directory can
  lead to.
\<close>

section \<open>The list\<close>

lemma add_container_prefix: "\<exists>ts. add_container c ds = ds @ ts"
  by (simp add: add_container_def)

lemma fold_containers_prefix: "\<exists>ts. fold add_container cs ds = ds @ ts"
proof (induction cs arbitrary: ds)
  case (Cons c cs)
  obtain t1 where 1: "add_container c ds = ds @ t1" using add_container_prefix by blast
  obtain t2 where "fold add_container cs (ds @ t1) = (ds @ t1) @ t2" using Cons.IH by blast
  then show ?case by (simp add: 1)
qed simp

lemma listed_already_append: "listed_already (ds @ ts) c \<longleftrightarrow> listed_already ds c \<or> listed_already ts c"
  by (simp add: listed_already_def)

lemma add_container_listed: "listed_already (add_container c ds) c"
  by (simp add: add_container_def listed_already_append) (simp add: listed_already_def container_device_def Let_def)

lemma fold_containers_listed: "c \<in> set cs \<Longrightarrow> listed_already (fold add_container cs ds) c"
proof (induction cs arbitrary: ds)
  case (Cons x cs)
  show ?case
  proof (cases "x = c")
    case True
    obtain ts where "fold add_container cs (add_container c ds) = add_container c ds @ ts" using fold_containers_prefix by blast
    then show ?thesis using add_container_listed [of c ds] True by (simp add: listed_already_append)
  qed (use Cons in simp)
qed simp

text \<open>The entries after those of adb stand for containers that no entry before them stands for.\<close>

lemma fold_containers_new:
  "\<exists>new. fold add_container cs ds = ds @ map container_device new \<and> set new \<subseteq> set cs
     \<and> (\<forall>i < length new. \<not> listed_already (ds @ map container_device (take i new)) (new ! i))"
proof (induction cs arbitrary: ds)
  case (Cons c cs)
  show ?case
  proof (cases "listed_already ds c")
    case True
    then show ?thesis using Cons.IH [of ds] by (auto simp: add_container_def)
  next
    case False
    obtain new where n: "fold add_container cs (ds @ [container_device c]) = (ds @ [container_device c]) @ map container_device new"
      "set new \<subseteq> set cs"
      "\<forall>i < length new. \<not> listed_already ((ds @ [container_device c]) @ map container_device (take i new)) (new ! i)"
      using Cons.IH by blast
    have "\<forall>i < length (c # new). \<not> listed_already (ds @ map container_device (take i (c # new))) ((c # new) ! i)"
      using n(3) False by (auto simp: less_Suc_eq_0_disj)
    moreover have "add_container c ds = ds @ [container_device c]" using False by (simp add: add_container_def)
    ultimately show ?thesis using n(1,2) by (intro exI [of _ "c # new"]) auto
  qed
qed simp



section \<open>The wrong container\<close>

text \<open>
  C29: A serial is looked for anywhere in the ports of a container: the device on port 5555 is taken for the container on
  port 55550 when docker lists that one first, and a restart of the device restarts the other container.
\<close>

definition neighbour :: "string \<Rightarrow> string \<Rightarrow> docker_container" where
  "neighbour i port = container_row [i, ''rdc-'' @ i, ''redroid'', ''Up'', ''127.0.0.1:'' @ port @ ''->5555/tcp'', '''']"

definition adb_on :: "string \<Rightarrow> adb_device" where
  "adb_on serial = \<lparr>ad_serial = serial, ad_state = ''device'', ad_product = [], ad_model = [], ad_device = [], ad_transport_id = []\<rparr>"

theorem restart_hits_neighbour:
  "restart_device e (join_devices mirror [adb_on ''127.0.0.1:5555''] [neighbour ''b'' ''55550'', neighbour ''a'' ''5555''])
     ''127.0.0.1:5555'' s = restart_container e ''b'' s"
proof -
  let ?n = "neighbour ''b'' ''55550''" and ?d = "adb_on ''127.0.0.1:5555''"
  have m: "matches_container ''127.0.0.1:5555'' ?n" "dc_id ?n = ''b''" by code_simp+
  let ?cs = "[?n, neighbour ''a'' ''5555'']"
  have r: "dv_serial (adb_row mirror ?cs ?d) = ''127.0.0.1:5555''" "dv_container_id (adb_row mirror ?cs ?d) = ''b''"
    using m by (simp_all add: adb_row_def adb_on_def Let_def)
  have "listed_state ?d" by (simp add: listed_state_def adb_on_def)
  then obtain new where "join_devices mirror [?d] ?cs = adb_row mirror ?cs ?d # new"
    using fold_containers_prefix [of "filter dc_is_redroid ?cs" "[adb_row mirror ?cs ?d]"] by (auto simp: join_devices_def)
  then show ?thesis using r by (simp add: restart_device_def find_device_light_def is_device_def)
qed

section \<open>Rows of a directory\<close>

lemma resolve_tail: "split_char c (p @ [c]) = split_char c p @ [[]]"
  by (rule split_char_snoc)

text \<open>
  A row of eight columns (a date of two columns instead of three) is read as an entry without a name, whose path is the
  listed directory: deleting that entry runs a recursive removal of the directory itself.
\<close>

theorem eight_columns_delete_directory:
  assumes "length (split_whitespace row) = 8" and "parse_ls_line dir row = Some entry"
    and "build_delete_command (fe_path entry) = Inr c"
  shows "\<exists>p. sh_words c = Some [''rm'', ''-rf'', ''--'', p]
    \<and> resolve [] (split_char (CHR ''/'') p) = resolve [] (split_char (CHR ''/'') dir)"
proof -
  have "fe_path entry = (if ends_with dir ''/'' then dir else dir @ ''/'')"
    using assms(1,2) by (auto simp: parse_ls_line_def Let_def)
  then have "resolve [] (split_char (CHR ''/'') (fe_path entry)) = resolve [] (split_char (CHR ''/'') dir)"
    by (simp add: resolve_tail resolve_append)
  then show ?thesis using delete_words [OF assms(3)] by blast
qed

theorem eight_columns_witness:
  "\<exists>c p. sh_words c = Some [''rm'', ''-rf'', ''--'', p]
     \<and> resolve [] (split_char (CHR ''/'') p) = resolve [] (split_char (CHR ''/'') ''/sdcard'')"
proof -
  let ?row = "''-rw-rw---- 1 root sdcard 42 2024-01-02 12:34 note.txt''"
  have "length (split_whitespace ?row) = 8" by code_simp
  moreover have "map_option fe_path (parse_ls_line ''/sdcard'' ?row) = Some ''/sdcard/''" by code_simp
  then obtain entry where "parse_ls_line ''/sdcard'' ?row = Some entry" "fe_path entry = ''/sdcard/''" by auto
  moreover have "build_delete_command ''/sdcard/'' = Inr (''rm -rf -- '' @ single_quoted ''/sdcard/'')" by code_simp
  ultimately show ?thesis using eight_columns_delete_directory by metis
qed

end
