(* ===== verification/Device_Root.thy ===== *)
theory Device_Root imports Device "HOL-Library.List_Lexorder" "HOL-Library.Char_ord" begin

text \<open>
  \<^verbatim>\<open>src-tauri/src/services/root.rs\<close>: privileged commands on an instance, the state of Magisk in it, its modules and the table
  of the packages that may become root. The answers of \<open>list_devices\<close> come from an argument \<open>lister\<close>; the database of LSPosed scopes is a
  list of rows.
\<close>

section \<open>Privileged commands\<close>

definition ensure_adb_root :: "desk \<Rightarrow> string \<Rightarrow> dstate \<Rightarrow> dstate" where
  "ensure_adb_root e serial s = (case adb_shell e serial ''id -u'' s of (i, s1) \<Rightarrow>
     if trim (sr_stdout i) = ''0'' then s1
     else (case run_command_timeout e (dk_adb e) [''-s'', serial, ''root''] 8 s1 of (r, s2) \<Rightarrow>
       if sr_success r then snd (connect e serial (sleep_ms e 1500 s2)) else s2))"

datatype root_exec = Container string | Adb string

definition container_id_for :: "(dstate \<Rightarrow> device_info list \<times> dstate) \<Rightarrow> string \<Rightarrow> dstate \<Rightarrow> string option \<times> dstate" where
  "container_id_for lister serial s = (case lister s of (ds, t) \<Rightarrow>
     (case find (\<lambda>d. dv_serial d = serial \<or> dv_id d = serial \<or> dv_container_id d = serial) ds of
        Some d \<Rightarrow> if dv_container_id d = [] then None else Some (dv_container_id d)
      | None \<Rightarrow> None, t))"

definition root_exec_of :: "(dstate \<Rightarrow> device_info list \<times> dstate) \<Rightarrow> string \<Rightarrow> dstate \<Rightarrow> root_exec \<times> dstate" where
  "root_exec_of lister serial s = (case container_id_for lister serial s of (c, t) \<Rightarrow>
     (case c of Some i \<Rightarrow> Container i | None \<Rightarrow> Adb serial, t))"

definition run_as_root :: "desk \<Rightarrow> root_exec \<Rightarrow> string \<Rightarrow> nat \<Rightarrow> dstate \<Rightarrow> shell_result \<times> dstate" where
  "run_as_root e x command secs s = (case x of
     Container i \<Rightarrow> docker e [''exec'', i, ''sh'', ''-c'', command] secs s
   | Adb serial \<Rightarrow> shell_timeout e serial command secs (ensure_adb_root e serial s))"

definition privileged_shell :: "desk \<Rightarrow> (dstate \<Rightarrow> device_info list \<times> dstate) \<Rightarrow> string \<Rightarrow> string \<Rightarrow> nat \<Rightarrow> dstate
    \<Rightarrow> shell_result \<times> dstate" where
  "privileged_shell e lister serial command secs s =
    (case root_exec_of lister serial s of (x, t) \<Rightarrow> run_as_root e x command secs t)"

section \<open>The state of Magisk\<close>

record root_module_info =
  mo_id :: string
  mo_name :: string
  mo_version :: string
  mo_state :: string

record root_status =
  rs_magisk :: bool
  rs_version :: string
  rs_zygisk_enabled :: bool
  rs_denylist_enforced :: bool
  rs_zygisk_active :: bool
  rs_lsposed_active :: bool
  rs_magisk_app :: bool
  rs_lsposed_manager :: bool
  rs_shamiko_whitelist :: "bool option"
  rs_modules :: "root_module_info list"
  rs_denylist :: "string list"
  rs_props :: "(string \<times> string) list"
  rs_preset_log_tail :: string
  rs_message :: "notice option"

definition no_root :: root_status where
  "no_root = \<lparr>rs_magisk = False, rs_version = [], rs_zygisk_enabled = False, rs_denylist_enforced = False, rs_zygisk_active = False,
     rs_lsposed_active = False, rs_magisk_app = False, rs_lsposed_manager = False, rs_shamiko_whitelist = None, rs_modules = [],
     rs_denylist = [], rs_props = [], rs_preset_log_tail = [], rs_message = None\<rparr>"

definition magisk_path :: string where
  "magisk_path = ''M=/sbin/magisk; [ -x $M ] || M=/system/etc/init/magisk/magisk; ''"

definition magisk_setting :: "string \<Rightarrow> string" where
  "magisk_setting key = magisk_path @ ''$M --sqlite '' @ DQ @ ''SELECT value FROM settings WHERE key='' @ SQ @ key @ SQ @ DQ
     @ '' 2>/dev/null | tail -n 1''"

definition live_script :: string where
  "live_script = ''zygiskd_pid=$(pidof zygiskd zygiskd64 2>/dev/null | head -n 1); ''
     @ ''lspd_pid=$(pidof lspd 2>/dev/null | head -n 1); ''
     @ ''magisk_app=$(pm path com.topjohnwu.magisk 2>/dev/null | head -n 1); ''
     @ ''lsposed_mgr=$(pm path org.lsposed.manager 2>/dev/null | head -n 1); ''
     @ ''shamiko_wl=$([ -f /data/adb/shamiko/whitelist ] && echo 1 || echo 0); ''
     @ ''shamiko_dir=$([ -d /data/adb/modules/zygisk_shamiko ] || [ -d /data/adb/modules/shamiko ] && echo 1 || echo 0); ''
     @ ''echo '' @ DQ @ ''zygisk_active=${zygiskd_pid:+1}'' @ DQ @ ''; echo '' @ DQ @ ''lsposed_active=${lspd_pid:+1}'' @ DQ @ ''; ''
     @ ''echo '' @ DQ @ ''magisk_app=${magisk_app:+1}'' @ DQ @ ''; echo '' @ DQ @ ''lsposed_manager=${lsposed_mgr:+1}'' @ DQ @ ''; ''
     @ ''echo '' @ DQ @ ''shamiko_wl=$shamiko_wl'' @ DQ @ ''; echo '' @ DQ @ ''shamiko_dir=$shamiko_dir'' @ DQ"

definition modules_script :: string where
  "modules_script = ''for d in /data/adb/modules/*/; do [ -d '' @ DQ @ ''$d'' @ DQ @ '' ] || continue; id=$(basename '' @ DQ @ ''$d''
     @ DQ @ ''); name=$(sed -n '' @ SQ @ ''s/^name=//p'' @ SQ @ '' '' @ DQ @ ''$d/module.prop'' @ DQ
     @ '' 2>/dev/null | head -n 1); ver=$(sed -n '' @ SQ @ ''s/^version=//p'' @ SQ @ '' '' @ DQ @ ''$d/module.prop'' @ DQ
     @ '' 2>/dev/null | head -n 1); state=enabled; [ -f '' @ DQ @ ''$d/disable'' @ DQ @ '' ] && state=disabled; echo '' @ DQ
     @ ''$id|$name|$ver|$state'' @ DQ @ ''; done''"

definition live_line :: "string \<Rightarrow> string \<Rightarrow> root_status \<Rightarrow> root_status" where
  "live_line out l st = (case split_once ''='' (trim l) of
     None \<Rightarrow> st
   | Some (k, v) \<Rightarrow>
     if k = ''zygisk_active'' then st\<lparr>rs_zygisk_active := (v = ''1'')\<rparr>
     else if k = ''lsposed_active'' then st\<lparr>rs_lsposed_active := (v = ''1'')\<rparr>
     else if k = ''magisk_app'' then st\<lparr>rs_magisk_app := (v = ''1'')\<rparr>
     else if k = ''lsposed_manager'' then st\<lparr>rs_lsposed_manager := (v = ''1'')\<rparr>
     else if k = ''shamiko_wl'' \<and> str_contains out ''shamiko_dir=1'' then st\<lparr>rs_shamiko_whitelist := Some (v = ''1'')\<rparr>
     else st)"

definition module_line :: "string \<Rightarrow> root_module_info option" where
  "module_line l = (let p = split_char (CHR ''|'') (trim l) in
     if 4 \<le> length p \<and> p ! 0 \<noteq> [] then Some \<lparr>mo_id = p ! 0, mo_name = p ! 1, mo_version = p ! 2, mo_state = p ! 3\<rparr> else None)"

fun sample_props :: "desk \<Rightarrow> string \<Rightarrow> string list \<Rightarrow> dstate \<Rightarrow> (string \<times> string) list \<times> dstate" where
  "sample_props e serial [] s = ([], s)"
| "sample_props e serial (k # ks) s = (case get_prop e serial k s of (v, s1) \<Rightarrow>
    (case sample_props e serial ks s1 of (ps, s2) \<Rightarrow> ((k, trim v) # ps, s2)))"

definition sampled :: "string list" where
  "sampled = [''ro.product.model'', ''ro.product.manufacturer'', ''ro.product.device'', ''ro.build.fingerprint'', ''ro.build.tags'',
     ''ro.product.cpu.abi'', ''ro.kernel.qemu'', ''ro.boot.qemu'']"

definition magisk_version :: "shell_result \<Rightarrow> root_status" where
  "magisk_version ver = (if \<not> sr_success ver then no_root
     else (case split_once ''---'' (sr_stdout ver) of
         None \<Rightarrow> no_root\<lparr>rs_version := trim (sr_stdout ver), rs_magisk := \<not> blank (sr_stdout ver)\<rparr>
       | Some (v, rest) \<Rightarrow>
         (let code = trim (case split_once ''---'' rest of Some (c, _) \<Rightarrow> c | None \<Rightarrow> rest); v1 = trim v in
          no_root\<lparr>rs_magisk := v1 \<noteq> [] \<or> code \<noteq> [], rs_version := (if v1 = [] then code else v1)\<rparr>)))"

definition root_details :: "desk \<Rightarrow> root_exec \<Rightarrow> string \<Rightarrow> root_status \<Rightarrow> dstate \<Rightarrow> root_status \<times> dstate" where
  "root_details e x serial st s =
    (case run_as_root e x (magisk_setting ''zygisk'') 15 s of (z, s1) \<Rightarrow>
     (case run_as_root e x (magisk_setting ''denylist'') 15 s1 of (d, s2) \<Rightarrow>
     (case run_as_root e x live_script 15 s2 of (live, s3) \<Rightarrow>
     (case run_as_root e x modules_script 15 s3 of (mods, s4) \<Rightarrow>
     (case run_as_root e x (magisk_path @ ''$M --denylist ls 2>/dev/null'') 15 s4 of (dl, s5) \<Rightarrow>
     (case sample_props e serial sampled s5 of (ps, s6) \<Rightarrow>
     (case run_as_root e x ''tail -n 40 /data/adb/rdc_preset.log 2>/dev/null'' 10 s6 of (tail, s7) \<Rightarrow>
       ((fold (live_line (sr_stdout live)) (lines (sr_stdout live))
          (st\<lparr>rs_zygisk_enabled := sr_success z \<and> ends_with (trim (sr_stdout z)) ''1'',
             rs_denylist_enforced := sr_success d \<and> ends_with (trim (sr_stdout d)) ''1''\<rparr>))
        \<lparr>rs_modules := (if sr_success mods then List.map_filter module_line (lines (sr_stdout mods)) else []),
         rs_denylist := (if sr_success dl then filter (\<lambda>l. l \<noteq> []) (map trim (lines (sr_stdout dl))) else []),
         rs_props := ps, rs_preset_log_tail := (if sr_success tail then sr_stdout tail else [])\<rparr>, s7))))))))"

definition root_status_of :: "desk \<Rightarrow> (dstate \<Rightarrow> device_info list \<times> dstate) \<Rightarrow> string \<Rightarrow> dstate \<Rightarrow> root_status \<times> dstate" where
  "root_status_of e lister serial s =
    (case root_exec_of lister serial s of (x, s1) \<Rightarrow>
     (case run_as_root e x (magisk_path @ ''$M -v 2>/dev/null; echo ---; $M -V 2>/dev/null'') 15 s1 of (ver, s2) \<Rightarrow>
       (let st = magisk_version ver in
        if \<not> rs_magisk st then (st\<lparr>rs_message := Some (Note ''no Magisk found'' [])\<rparr>, s2)
        else root_details e x serial st s2)))"

section \<open>Hiding and modules\<close>

definition failed_result :: "notice \<Rightarrow> outcome" where
  "failed_result m = refused [m]"

definition magisk_denylist :: "desk \<Rightarrow> (dstate \<Rightarrow> device_info list \<times> dstate) \<Rightarrow> string \<Rightarrow> string \<Rightarrow> string \<Rightarrow> dstate
    \<Rightarrow> outcome \<times> dstate" where
  "magisk_denylist e lister serial op package s =
    (let pkg = trim package in
     if pkg = [] \<or> \<not> list_all (\<lambda>c. is_ascii_alphanumeric c \<or> c = CHR ''.'' \<or> c = CHR ''_'') pkg
     then (failed_result (Note ''invalid package'' []), s)
     else (case root_exec_of lister serial s of (x, s1) \<Rightarrow>
       (case (if op = ''add''
              then (case run_as_root e x (''pm path '' @ pkg @ '' 2>/dev/null | head -n 1'') 10 s1 of (c, t) \<Rightarrow>
                (sr_success c \<and> \<not> blank (sr_stdout c), t))
              else (True, s1)) of (installed, s2) \<Rightarrow>
          if \<not> installed then (failed_result (Note ''package not installed'' [pkg]), s2)
          else map_prod of_shell id (run_as_root e x (magisk_path @ ''$M --sqlite '' @ DQ
            @ ''REPLACE INTO settings (key,value) VALUES('' @ SQ @ ''denylist'' @ SQ @ '',1)'' @ DQ
            @ '' >/dev/null 2>&1; $M --denylist enable >/dev/null 2>&1; $M --denylist '' @ op @ '' '' @ pkg @ '' 2>&1'') 20 s2))))"

definition denylist_add :: "desk \<Rightarrow> (dstate \<Rightarrow> device_info list \<times> dstate) \<Rightarrow> string \<Rightarrow> string \<Rightarrow> dstate \<Rightarrow> outcome \<times> dstate" where
  "denylist_add e lister serial package s = magisk_denylist e lister serial ''add'' package s"

definition denylist_remove :: "desk \<Rightarrow> (dstate \<Rightarrow> device_info list \<times> dstate) \<Rightarrow> string \<Rightarrow> string \<Rightarrow> dstate \<Rightarrow> outcome \<times> dstate" where
  "denylist_remove e lister serial package s = magisk_denylist e lister serial ''rm'' package s"

definition apply_spoof :: "desk \<Rightarrow> (dstate \<Rightarrow> device_info list \<times> dstate) \<Rightarrow> string \<Rightarrow> dstate \<Rightarrow> shell_result \<times> dstate" where
  "apply_spoof e lister serial s = privileged_shell e lister serial ''sh /data/adb/service.d/rdc_apply_spoof.sh 2>&1'' 30 s"

definition set_shamiko_mode :: "desk \<Rightarrow> (dstate \<Rightarrow> device_info list \<times> dstate) \<Rightarrow> string \<Rightarrow> bool \<Rightarrow> dstate
    \<Rightarrow> shell_result \<times> dstate" where
  "set_shamiko_mode e lister serial whitelist s = privileged_shell e lister serial (if whitelist
     then ''mkdir -p /data/adb/shamiko && touch /data/adb/shamiko/whitelist && echo whitelist''
     else ''mkdir -p /data/adb/shamiko && rm -f /data/adb/shamiko/whitelist && echo blacklist'') 15 s"

definition valid_module_id :: "string \<Rightarrow> bool" where
  "valid_module_id i = (i \<noteq> [] \<and> list_all (\<lambda>c. is_ascii_alphanumeric c \<or> c = CHR ''.'' \<or> c = CHR ''_'' \<or> c = CHR ''-'') i)"

definition module_dir_arg :: "string \<Rightarrow> string" where
  "module_dir_arg i = ''/data/adb/modules/'' @ i"

definition module_command :: "string \<Rightarrow> string \<Rightarrow> string" where
  "module_command dir op = ''if [ -d '' @ dir @ '' ]; then '' @ op @ '' && echo ok; else echo '' @ SQ @ ''module missing'' @ SQ
     @ ''; exit 1; fi''"

definition module_set_enabled :: "desk \<Rightarrow> (dstate \<Rightarrow> device_info list \<times> dstate) \<Rightarrow> string \<Rightarrow> string \<Rightarrow> bool \<Rightarrow> dstate
    \<Rightarrow> outcome \<times> dstate" where
  "module_set_enabled e lister serial i enabled s =
    (if \<not> valid_module_id i then (failed_result (Note ''invalid module'' []), s)
     else (let dir = module_dir_arg i in map_prod of_shell id (privileged_shell e lister serial
       (module_command dir ((if enabled then ''rm -f'' else ''touch'') @ '' '' @ dir @ ''/disable'')) 15 s)))"

definition module_remove :: "desk \<Rightarrow> (dstate \<Rightarrow> device_info list \<times> dstate) \<Rightarrow> string \<Rightarrow> string \<Rightarrow> dstate \<Rightarrow> outcome \<times> dstate" where
  "module_remove e lister serial i s =
    (if \<not> valid_module_id i then (failed_result (Note ''invalid module'' []), s)
     else (let dir = module_dir_arg i in map_prod of_shell id (privileged_shell e lister serial
       (module_command dir (''touch '' @ dir @ ''/remove && rm -f '' @ dir @ ''/disable'')) 15 s)))"

definition repair_script :: string where
  "repair_script =
     ''repaired='' @ SQ @ SQ
      @ ''; pm path com.topjohnwu.magisk >/dev/null 2>&1 || { [ -f /data/adb/magisk.apk ] && ''
      @ ''pm install -r /data/adb/magisk.apk >/dev/null 2>&1 && pm path com.topjohnwu.magisk >/dev/null 2>&1 && repaired=''
      @ DQ @ ''$repaired magisk'' @ DQ
      @ ''; }; pm path org.lsposed.manager >/dev/null 2>&1 || { ''
      @ ''for ap in /data/adb/modules/zygisk_lsposed/manager.apk /data/adb/modules_update/zygisk_lsposed/manager.apk; do if [ -f ''
      @ DQ @ ''$ap'' @ DQ @ '' ] && pm install -r '' @ DQ @ ''$ap'' @ DQ
      @ '' >/dev/null 2>&1 && pm path org.lsposed.manager >/dev/null 2>&1; then repaired='' @ DQ @ ''$repaired lsposed'' @ DQ
      @ ''; break; fi; done; }; echo '' @ DQ @ ''repaired:${repaired:- none}'' @ DQ"

definition repair_managers :: "desk \<Rightarrow> (dstate \<Rightarrow> device_info list \<times> dstate) \<Rightarrow> string \<Rightarrow> dstate \<Rightarrow> shell_result \<times> dstate" where
  "repair_managers e lister serial s = privileged_shell e lister serial repair_script 60 s"

section \<open>LSPosed scopes\<close>

record scope_module =
  sm_pkg :: string
  sm_enabled :: bool
  sm_scope :: "string list"

text \<open>The rows of the tables \<^verbatim>\<open>modules\<close> and \<^verbatim>\<open>scope\<close>, the second in the order of its key, are joined: the first module of a key gets the row.\<close>

fun add_scope :: "int \<times> string \<Rightarrow> (int \<times> scope_module) list \<Rightarrow> (int \<times> scope_module) list" where
  "add_scope row [] = []"
| "add_scope row (x # xs) =
    (if fst x = fst row then (fst x, (snd x)\<lparr>sm_scope := sm_scope (snd x) @ [snd row]\<rparr>) # xs else x # add_scope row xs)"

definition read_scope_db :: "(int \<times> string \<times> int) list \<Rightarrow> (int \<times> string) list \<Rightarrow> scope_module list" where
  "read_scope_db modules scopes =
    map snd (fold add_scope (sort_key fst scopes)
      (map (\<lambda>(mid, pkg, enabled). (mid, \<lparr>sm_pkg = pkg, sm_enabled = (enabled \<noteq> 0), sm_scope = []\<rparr>))
        (filter (\<lambda>(mid, pkg, enabled). pkg \<noteq> ''lspd'') modules)))"

text \<open>
  The database is copied with its log, file by file, and read from the copy. \<open>make_dir\<close> is the error of creating the directory for it,
  \<open>open_db\<close> reads the two tables from the files that were copied.
\<close>

record scope_report =
  lr_modules :: "scope_module list"
  lr_message :: "notice option"

definition no_scopes :: "notice \<Rightarrow> scope_report" where
  "no_scopes m = \<lparr>lr_modules = [], lr_message = Some m\<rparr>"

fun pull_scope_files :: "desk \<Rightarrow> string \<Rightarrow> string list \<Rightarrow> (string \<times> string) list \<Rightarrow> dstate
    \<Rightarrow> (string + (string \<times> string) list) \<times> dstate" where
  "pull_scope_files e c [] got s = (Inr got, s)"
| "pull_scope_files e c (name # names) got s =
    (case run_command_bytes e (dk_docker e) [''exec'', c, ''cat'', ''/data/adb/lspd/config/'' @ name] 20 s of
       (Inr bytes, s1) \<Rightarrow> pull_scope_files e c names (if bytes = [] then got else got @ [(name, bytes)]) s1
     | (Inl m, s1) \<Rightarrow> if name = ''modules_config.db'' then (Inl m, s1) else pull_scope_files e c names got s1)"

definition lsposed_scope :: "desk \<Rightarrow> (dstate \<Rightarrow> device_info list \<times> dstate) \<Rightarrow> string option
    \<Rightarrow> ((string \<times> string) list \<Rightarrow> string + (int \<times> string \<times> int) list \<times> (int \<times> string) list) \<Rightarrow> string \<Rightarrow> dstate
    \<Rightarrow> scope_report \<times> dstate" where
  "lsposed_scope e lister make_dir open_db serial s =
    (case root_exec_of lister serial s of
       (Adb _, s1) \<Rightarrow> (no_scopes (Note ''containers only'' []), s1)
     | (Container c, s1) \<Rightarrow> (case make_dir of
         Some m \<Rightarrow> (no_scopes (Note ''no temporary directory'' [m]), s1)
       | None \<Rightarrow>
         (case pull_scope_files e c [''modules_config.db'', ''modules_config.db-wal'', ''modules_config.db-shm''] [] s1 of
            (Inl m, s2) \<Rightarrow> (no_scopes (Note ''database not copied'' [m]), s2)
          | (Inr got, s2) \<Rightarrow>
            (if map_of got ''modules_config.db'' = None then no_scopes (Note ''no LSPosed database'' [])
             else (case open_db got of
                 Inl m \<Rightarrow> no_scopes (Note ''database not read'' [m])
               | Inr (modules, scopes) \<Rightarrow> \<lparr>lr_modules = read_scope_db modules scopes, lr_message = None\<rparr>), s2))))"

section \<open>Root policies\<close>

definition policy_cell :: "string \<Rightarrow> int option" where
  "policy_cell c = parse_i64 (trim (case rsplit_once_char (CHR ''='') (trim c) of Some (_, v) \<Rightarrow> v | None \<Rightarrow> c))"

definition parse_su_policy_row :: "string \<Rightarrow> (int \<times> int) option" where
  "parse_su_policy_row l = (case split_char (CHR ''|'') (trim l) of
     a # b # _ \<Rightarrow> (case policy_cell a of None \<Rightarrow> None | Some uid \<Rightarrow> map_option (Pair uid) (policy_cell b))
   | _ \<Rightarrow> None)"

text \<open>The last number after \<^verbatim>\<open>uid:\<close> and the first other word count.\<close>

definition pkg_word :: "string \<Rightarrow> string option \<times> int option \<Rightarrow> string option \<times> int option" where
  "pkg_word w acc = (case strip_prefix ''uid:'' w of
     Some u \<Rightarrow> (fst acc, parse_i64 u)
   | None \<Rightarrow> (if fst acc = None then Some w else fst acc, snd acc))"

definition parse_pkg_uid_line :: "string \<Rightarrow> (string \<times> int) option" where
  "parse_pkg_uid_line l = (case strip_prefix ''package:'' (trim l) of None \<Rightarrow> None
   | Some rest \<Rightarrow> (case fold pkg_word (split_whitespace rest) (None, None) of
       (Some p, Some u) \<Rightarrow> Some (p, u) | _ \<Rightarrow> None))"

definition app_id :: "int \<Rightarrow> int" where
  "app_id uid = sgn uid * (\<bar>uid\<bar> mod 100000)"

record su_policy =
  su_uid :: int
  su_package :: string
  su_allow :: bool

definition name_policies :: "(string \<times> int) list \<Rightarrow> su_policy list \<Rightarrow> su_policy list" where
  "name_policies pkgs = map (\<lambda>p. case find (\<lambda>(pkg, uid). app_id uid = app_id (su_uid p)) (rev pkgs) of
     Some (pkg, _) \<Rightarrow> p\<lparr>su_package := pkg\<rparr> | None \<Rightarrow> p)"

definition su_policies :: "desk \<Rightarrow> (dstate \<Rightarrow> device_info list \<times> dstate) \<Rightarrow> string \<Rightarrow> dstate \<Rightarrow> su_policy list \<times> dstate" where
  "su_policies e lister serial s =
    (case privileged_shell e lister serial
        (magisk_path @ ''$M --sqlite '' @ DQ @ ''SELECT uid,policy,until FROM policies'' @ DQ @ '' 2>/dev/null'') 15 s of (rows, s1) \<Rightarrow>
      if \<not> sr_success rows then ([], s1)
      else (let entries = map (\<lambda>(uid, policy). \<lparr>su_uid = uid, su_package = [], su_allow = (policy = 2)\<rparr>)
              (filter (\<lambda>(uid, policy). policy = 1 \<or> policy = 2) (List.map_filter parse_su_policy_row (lines (sr_stdout rows)))) in
        if entries = [] then ([], s1)
        else (case adb_shell e serial ''cmd package list packages -U'' s1 of (pkgs, s2) \<Rightarrow>
          (sort_key su_package (sort_key su_uid (if sr_success pkgs
             then name_policies (List.map_filter parse_pkg_uid_line (lines (sr_stdout pkgs))) entries else entries)), s2))))"

definition set_su_policy :: "desk \<Rightarrow> (dstate \<Rightarrow> device_info list \<times> dstate) \<Rightarrow> string \<Rightarrow> int \<Rightarrow> bool \<Rightarrow> dstate \<Rightarrow> outcome \<times> dstate" where
  "set_su_policy e lister serial uid allow s =
    (if uid \<le> 0 \<or> 1000000 \<le> uid then (failed_result (Note ''invalid uid'' []), s)
     else map_prod of_shell id (privileged_shell e lister serial (magisk_path @ ''$M --sqlite '' @ DQ
       @ ''REPLACE INTO policies (uid,policy,until,logging,notification) VALUES ('' @ show_int uid @ '','' @ (if allow then ''2'' else ''1'')
       @ '',0,1,1)'' @ DQ @ '' 2>&1'') 15 s))"

definition remove_su_policy :: "desk \<Rightarrow> (dstate \<Rightarrow> device_info list \<times> dstate) \<Rightarrow> string \<Rightarrow> int \<Rightarrow> dstate \<Rightarrow> outcome \<times> dstate" where
  "remove_su_policy e lister serial uid s =
    (if uid \<le> 0 \<or> 1000000 \<le> uid then (failed_result (Note ''invalid uid'' []), s)
     else map_prod of_shell id (privileged_shell e lister serial
       (magisk_path @ ''$M --sqlite '' @ DQ @ ''DELETE FROM policies WHERE uid='' @ show_int uid @ DQ @ '' 2>&1'') 15 s))"

end
