(* ===== verification/Device_Proxy.thy ===== *)
theory Device_Proxy imports Device_Root begin

text \<open>
  \<^verbatim>\<open>src-tauri/src/services/proxy.rs\<close>: the proxy that a user enters for an instance, the commands that apply it, and the transparent
  takeover of the routes. The binary of the takeover is an argument: its path, empty when none is configured, and whether it is a file.
\<close>

section \<open>Input\<close>

record parsed_proxy =
  px_scheme :: string
  px_host :: string
  px_port :: u16
  px_original :: string

definition proxy_url :: "parsed_proxy \<Rightarrow> string" where
  "proxy_url p = px_scheme p @ ''://'' @ px_host p @ '':'' @ dec_string (unat (px_port p))"

definition invalid_proxy :: "string \<Rightarrow> notice" where
  "invalid_proxy reason = Note ''invalid proxy'' [reason]"

definition host_allowed :: "char \<Rightarrow> bool" where
  "host_allowed c = (is_ascii_alphanumeric c \<or> c = CHR ''.'' \<or> c = CHR ''-'' \<or> c = CHR ''_'')"

definition trim_end_char :: "char \<Rightarrow> string \<Rightarrow> string" where
  "trim_end_char c s = rev (dropWhile (\<lambda>x. x = c) (rev s))"

text \<open>The host and the port, after the user information and brackets.\<close>

definition parse_host_port :: "string \<Rightarrow> notice + (string \<times> u16)" where
  "parse_host_port rest =
    (let h = (case rsplit_once_char (CHR ''@'') rest of Some (_, x) \<Rightarrow> x | None \<Rightarrow> rest);
         hostport = trim_end_char (CHR '']'') (trim_start_char (CHR ''['') h) in
     if starts_with hostport ''['' \<or> CHR '':'' \<in> set hostport \<and> 1 < count_list hostport (CHR '':'') then Inl (invalid_proxy ''IPv6 literal'')
     else (case rsplit_once_char (CHR '':'') hostport of
         None \<Rightarrow> Inl (invalid_proxy ''no port'')
       | Some (host, port_str) \<Rightarrow>
         if host = [] then Inl (invalid_proxy ''no host'')
         else if \<not> list_all host_allowed host then Inl (invalid_proxy ''illegal character in the host'')
         else (case parse_u16 port_str of
             None \<Rightarrow> Inl (invalid_proxy ''port is not a number'')
           | Some port \<Rightarrow> if port = 0 then Inl (invalid_proxy ''port is 0'') else Inr (host, port))))"

definition parse_proxy_input :: "string \<Rightarrow> notice + parsed_proxy" where
  "parse_proxy_input raw =
    (let original = trim raw in
     if original = [] then Inl (invalid_proxy ''empty'')
     else if has_whitespace original then Inl (invalid_proxy ''white space'')
     else (case split_once ''://'' original of
         None \<Rightarrow> map_sum id (\<lambda>(h, p). \<lparr>px_scheme = ''http'', px_host = h, px_port = p, px_original = original\<rparr>) (parse_host_port original)
       | Some (scheme, rest) \<Rightarrow>
         (let sc = to_ascii_lowercase scheme in
          if sc \<noteq> ''http'' \<and> sc \<noteq> ''socks5'' then Inl (invalid_proxy ''unsupported protocol'')
          else map_sum id (\<lambda>(h, p). \<lparr>px_scheme = sc, px_host = h, px_port = p, px_original = original\<rparr>) (parse_host_port rest))))"

section \<open>Commands\<close>

definition PROXY_PROP :: string where "PROXY_PROP = ''persist.sys.rdc.proxy''"

definition TUN_DIR :: string where "TUN_DIR = ''/data/local/tmp/rdc-tun2socks''"

definition TUN_BIN_REMOTE :: string where "TUN_BIN_REMOTE = ''/data/local/tmp/rdc-tun2socks/tun2socks''"

definition TUN_CONF_REMOTE :: string where "TUN_CONF_REMOTE = ''/data/local/tmp/rdc-tun2socks/config.json''"

definition TUN_LOG_REMOTE :: string where "TUN_LOG_REMOTE = ''/data/local/tmp/rdc-tun2socks/tun2socks.log''"

definition apply_http_proxy_command :: "string \<Rightarrow> u16 \<Rightarrow> string" where
  "apply_http_proxy_command host port = ''settings put global http_proxy '' @ host @ '':'' @ dec_string (unat port)"

definition shell_quote :: "string \<Rightarrow> string" where
  "shell_quote value = SQ @ str_replace SQ (SQ @ BS @ SQ @ SQ) value @ SQ"

definition record_proxy_command :: "string \<Rightarrow> string" where
  "record_proxy_command original = ''setprop '' @ PROXY_PROP @ '' '' @ shell_quote original"

definition clear_proxy_command :: string where
  "clear_proxy_command = ''settings put global http_proxy :0; setprop '' @ PROXY_PROP @ '' '' @ SQ @ SQ"

definition proxy_status_command :: string where
  "proxy_status_command = ''echo '' @ DQ @ ''http=$(settings get global http_proxy)'' @ DQ @ ''; echo '' @ DQ @ ''rdc=$(getprop ''
     @ PROXY_PROP @ '')'' @ DQ @ ''; echo '' @ DQ @ ''tun=$(pidof tun2socks)'' @ DQ"

definition tun2socks_up_command :: "string \<Rightarrow> string" where
  "tun2socks_up_command url = ''mkdir -p '' @ TUN_DIR @ ''; chmod 755 '' @ TUN_BIN_REMOTE
     @ ''; ip tuntap add mode tun dev tun0 2>/dev/null; ip link set tun0 up; nohup '' @ TUN_BIN_REMOTE @ '' --proxy '' @ url
     @ '' --tun tun0 --loglevel warning > '' @ TUN_LOG_REMOTE @ '' 2>&1 & sleep 1; pidof tun2socks''"

definition tun2socks_route_commands :: "string \<Rightarrow> string \<Rightarrow> string" where
  "tun2socks_route_commands gateway dev = ''ip route replace '' @ gateway @ ''/32 via '' @ gateway @ '' dev '' @ dev
     @ '' 2>/dev/null; ip route replace 127.0.0.0/8 dev lo 2>/dev/null; ip route replace default dev tun0 metric 100 2>/dev/null; ''
     @ ''ip route show | head -n 5''"

definition tun2socks_stop_command :: string where
  "tun2socks_stop_command = ''pkill -f '' @ TUN_BIN_REMOTE @ '' 2>/dev/null; ip route del default dev tun0 metric 100 2>/dev/null; ''
     @ ''ip tuntap del mode tun dev tun0 2>/dev/null; echo stopped''"

fun word_after :: "string \<Rightarrow> string list \<Rightarrow> string option" where
  "word_after key [] = None"
| "word_after key (x # xs) = (if x = key then (case xs of y # _ \<Rightarrow> Some y | [] \<Rightarrow> None) else word_after key xs)"

definition route_of_line :: "string \<Rightarrow> (string \<times> string) option" where
  "route_of_line l = (let p = split_whitespace (trim l) in
     if take 1 p \<noteq> [''default''] then None
     else (case (word_after ''via'' p, word_after ''dev'' p) of (Some gw, Some dev) \<Rightarrow> Some (gw, dev) | _ \<Rightarrow> None))"

definition parse_default_route :: "string \<Rightarrow> (string \<times> string) option" where
  "parse_default_route out = (case List.map_filter route_of_line (lines out) of r # _ \<Rightarrow> Some r | [] \<Rightarrow> None)"

section \<open>Operations\<close>

text \<open>A refusal wraps the message of the parser once more in the text of an invalid proxy.\<close>

definition invalid_result :: "notice \<Rightarrow> outcome" where
  "invalid_result m = refused [invalid_proxy [], m]"

definition apply_device_proxy :: "desk \<Rightarrow> string \<Rightarrow> string \<Rightarrow> dstate \<Rightarrow> outcome \<times> dstate" where
  "apply_device_proxy e serial proxy s = (case parse_proxy_input proxy of
     Inl m \<Rightarrow> (invalid_result m, s)
   | Inr p \<Rightarrow> (case adb_shell e serial (apply_http_proxy_command (px_host p) (px_port p)) s of (r, s1) \<Rightarrow>
       if \<not> sr_success r then (of_shell r, s1)
       else (case adb_shell e serial (record_proxy_command (px_original p)) s1 of (w, s2) \<Rightarrow>
         (if sr_success w then of_shell r
          else (of_shell r)\<lparr>oc_stdout := [Text (sr_stdout r), Note ''property not recorded'' [PROXY_PROP, sr_stderr w]]\<rparr>, s2))))"

definition clear_device_proxy :: "desk \<Rightarrow> string \<Rightarrow> dstate \<Rightarrow> shell_result \<times> dstate" where
  "clear_device_proxy e serial s = adb_shell e serial clear_proxy_command s"

definition normalize_http_proxy :: "string \<Rightarrow> string" where
  "normalize_http_proxy value = (let v = trim value in if v = [] \<or> v = '':0'' \<or> eq_ignore_ascii_case v ''null'' then [] else v)"

record proxy_status =
  ps_http_proxy :: string
  ps_original :: string
  ps_transparent_running :: bool
  ps_message :: "notice option"

definition proxy_line :: "string \<Rightarrow> proxy_status \<Rightarrow> proxy_status" where
  "proxy_line l st = (case split_once ''='' (trim l) of
     None \<Rightarrow> st
   | Some (k, v) \<Rightarrow>
     if k = ''http'' then st\<lparr>ps_http_proxy := normalize_http_proxy v\<rparr>
     else if k = ''rdc'' then st\<lparr>ps_original := trim v\<rparr>
     else if k = ''tun'' then st\<lparr>ps_transparent_running := \<not> blank v\<rparr> else st)"

definition device_proxy_status :: "desk \<Rightarrow> string \<Rightarrow> dstate \<Rightarrow> proxy_status \<times> dstate" where
  "device_proxy_status e serial s =
    (let st = \<lparr>ps_http_proxy = [], ps_original = [], ps_transparent_running = False, ps_message = None\<rparr> in
     case adb_shell e serial proxy_status_command s of (out, t) \<Rightarrow>
       (if \<not> sr_success out
        then st\<lparr>ps_message := Some (if blank (sr_stderr out) then Note ''proxy state not read'' [] else Text (trim (sr_stderr out)))\<rparr>
        else fold proxy_line (lines (sr_stdout out)) st, t))"

definition proxy_conf :: "parsed_proxy \<Rightarrow> string" where
  "proxy_conf p = ''{'' @ NL @ ''  '' @ DQ @ ''proxy'' @ DQ @ '': '' @ DQ @ proxy_url p @ DQ @ '','' @ NL
     @ ''  '' @ DQ @ ''tun'' @ DQ @ '': '' @ DQ @ ''tun0'' @ DQ @ '','' @ NL
     @ ''  '' @ DQ @ ''loglevel'' @ DQ @ '': '' @ DQ @ ''warning'' @ DQ @ NL @ ''}'' @ NL"

text \<open>What runs inside the container once the binary and its configuration are there.\<close>

definition take_routes_over :: "desk \<Rightarrow> string \<Rightarrow> parsed_proxy \<Rightarrow> dstate \<Rightarrow> outcome \<times> dstate" where
  "take_routes_over e container p s =
    (case docker e [''exec'', container, ''sh'', ''-c'', tun2socks_up_command (proxy_url p)] 30 s of (up, s1) \<Rightarrow>
      if \<not> sr_success up \<or> blank (sr_stdout up)
      then (refused [Note ''tun2socks not started'' [trim (sr_stdout up), trim (sr_stderr up)]], s1)
      else (case docker e [''exec'', container, ''sh'', ''-c'', ''ip route show default''] 10 s1 of (out, s2) \<Rightarrow>
        (let gd = (case parse_default_route (sr_stdout out) of Some r \<Rightarrow> r | None \<Rightarrow> (''172.17.0.1'', ''eth0''));
             s3 = snd (docker e [''exec'', container, ''sh'', ''-c'', tun2socks_route_commands (fst gd) (snd gd)] 15 s2) in
         ((of_shell up)\<lparr>oc_stdout := [Text (trim (sr_stdout up)), Note ''routes taken over'' [fst gd]]\<rparr>, s3))))"

definition apply_transparent_proxy :: "desk \<Rightarrow> (dstate \<Rightarrow> device_info list \<times> dstate) \<Rightarrow> string \<times> bool \<Rightarrow> string \<Rightarrow> string \<Rightarrow> dstate
    \<Rightarrow> outcome \<times> dstate" where
  "apply_transparent_proxy e lister bin serial proxy s = (case parse_proxy_input proxy of
     Inl m \<Rightarrow> (invalid_result m, s)
   | Inr p \<Rightarrow>
     if fst bin = [] \<or> \<not> snd bin then (refused [Note ''no tun2socks binary'' [fst bin]], s)
     else (case container_id_for lister serial s of
       (None, s1) \<Rightarrow> (refused [Note ''containers only'' []], s1)
     | (Some container, s1) \<Rightarrow>
       (case docker e [''cp'', fst bin, container @ '':'' @ TUN_BIN_REMOTE] 60 s1 of (cp, s2) \<Rightarrow>
         if \<not> sr_success cp then (of_shell cp, s2)
         else (case run_command_stdin e (dk_docker e) [''exec'', ''-i'', container, ''sh'', ''-c'', ''cat > '' @ TUN_CONF_REMOTE]
             (proxy_conf p) 15 s2 of (w, s3) \<Rightarrow>
           if \<not> sr_success w then (of_shell w, s3) else take_routes_over e container p s3))))"

definition stop_transparent_proxy :: "desk \<Rightarrow> (dstate \<Rightarrow> device_info list \<times> dstate) \<Rightarrow> string \<Rightarrow> dstate \<Rightarrow> outcome \<times> dstate" where
  "stop_transparent_proxy e lister serial s = (case container_id_for lister serial s of
     (None, s1) \<Rightarrow> (refused [Note ''containers only'' []], s1)
   | (Some container, s1) \<Rightarrow> map_prod of_shell id (docker e [''exec'', container, ''sh'', ''-c'', tun2socks_stop_command] 15 s1))"

end
