(* ===== verification/Spoof.thy ===== *)
theory Spoof imports Device_Root Docker_Image begin

text \<open>
  \<^verbatim>\<open>src-tauri/src/services/spoof.rs\<close> and \<^verbatim>\<open>traces.rs\<close>: the profiles of devices that an instance can pretend to be, how they are
  checked, written as a configuration and captured, the files that hide the kernel of the host, and the change of the profile of a
  running instance. A note in Chinese is named and \<open>txt\<close> gives its text; the field \<open>geo\<close> of a profile is not modelled.
\<close>

section \<open>Profiles\<close>

record spoof_profile =
  sp_id :: string
  sp_brand :: string
  sp_manufacturer :: string
  sp_model :: string
  sp_market_name :: string
  sp_device :: string
  sp_product :: string
  sp_android_version :: string
  sp_fingerprint :: string
  sp_description :: string
  sp_display_id :: string
  sp_incremental :: string
  sp_security_patch :: string
  sp_tags :: string
  sp_type :: string
  sp_extra_props :: "string list"
  sp_remove_props :: "string list"
  sp_notes :: "string option"

definition profile where
  "profile i brand manufacturer model market_name device product android_version build_id incremental display_id security_patch notes
     remove_props extra_props =
   \<lparr>sp_id = i, sp_brand = brand, sp_manufacturer = manufacturer, sp_model = model, sp_market_name = market_name, sp_device = device,
    sp_product = product, sp_android_version = android_version,
    sp_fingerprint = brand @ ''/'' @ product @ ''/'' @ device @ '':'' @ android_version @ ''/'' @ build_id @ ''/'' @ incremental
      @ '':user/release-keys'',
    sp_description = device @ ''-user '' @ android_version @ '' '' @ build_id @ '' '' @ incremental @ '' release-keys'',
    sp_display_id = display_id, sp_incremental = incremental, sp_security_patch = security_patch, sp_tags = ''release-keys'',
    sp_type = ''user'', sp_extra_props = extra_props, sp_remove_props = remove_props, sp_notes = notes\<rparr>"

definition PHONE_REMOVE_PROPS :: "string list" where "PHONE_REMOVE_PROPS = [''ro.hardware'', ''ro.boot.hardware'']"

definition PHONE_EXTRA_PROPS :: "string list" where
  "PHONE_EXTRA_PROPS = [''gsm.sim.state=READY'', ''gsm.version.baseband=MPSS.HI.4.0.c11-00045-8953_GEN_PACK-1'']"

definition built_in_profiles :: "(string \<Rightarrow> string) \<Rightarrow> spoof_profile list" where
  "built_in_profiles txt =
    [profile ''redmi-k40-alioth'' ''Xiaomi'' ''Xiaomi'' ''2210132C'' ''Redmi K40'' ''alioth''
       ''alioth'' ''13'' ''TKQ1.220829.002'' ''V14.0.6.0.TKHCNXM'' ''V14.0.6.0.TKHCNXM'' ''2023-11-01''
       (Some (txt ''measured'')) [] [],
     profile ''samsung-galaxy-s23'' ''samsung'' ''samsung'' ''SM-S9110'' ''Galaxy S23'' ''dm1qzc''
       ''dm1qzc'' ''14'' ''UP1A.231005.007'' ''S9110ZCU1BWL1'' ''S9110ZCU1BWL1'' ''2023-12-01''
       (Some (txt ''public Galaxy S23'')) PHONE_REMOVE_PROPS PHONE_EXTRA_PROPS,
     profile ''google-pixel-6'' ''google'' ''Google'' ''Pixel 6'' ''Pixel 6'' ''oriole''
       ''oriole'' ''13'' ''TQ3A.230805.001'' ''10721624'' ''TQ3A.230805.001'' ''2023-08-05''
       (Some (txt ''public Pixel 6'')) PHONE_REMOVE_PROPS PHONE_EXTRA_PROPS,
     profile ''xiaomi-13'' ''Xiaomi'' ''Xiaomi'' ''2211133C'' ''Xiaomi 13'' ''fuxi''
       ''fuxi'' ''13'' ''TKQ1.220905.001'' ''V14.0.30.0.TMCCNXM'' ''V14.0.30.0.TMCCNXM'' ''2023-12-01''
       (Some (txt ''constructed'')) PHONE_REMOVE_PROPS PHONE_EXTRA_PROPS,
     profile ''samsung-galaxy-a54'' ''samsung'' ''samsung'' ''SM-A5460'' ''Galaxy A54'' ''a54x''
       ''a54x'' ''14'' ''UP1A.231005.007'' ''A5460ZCU1BWL1'' ''A5460ZCU1BWL1'' ''2023-12-01''
       (Some (txt ''constructed'')) PHONE_REMOVE_PROPS PHONE_EXTRA_PROPS,
     profile ''oppo-find-x5-pro'' ''OPPO'' ''OPPO'' ''PFEM10'' ''Find X5 Pro'' ''PFEM10''
       ''PFEM10'' ''13'' ''TP1A.220905.001'' ''PFEM10_13.1.0.522CN01'' ''PFEM10_13.1.0.522CN01'' ''2023-05-05''
       (Some (txt ''constructed'')) PHONE_REMOVE_PROPS PHONE_EXTRA_PROPS,
     profile ''vivo-x90-pro'' ''vivo'' ''vivo'' ''V2242A'' ''X90 Pro'' ''PD2242''
       ''PD2242'' ''13'' ''TP1A.220624.014'' ''PD2242_A_13.0.6.4'' ''PD2242_A_13.0.6.4'' ''2023-06-01''
       (Some (txt ''constructed'')) PHONE_REMOVE_PROPS PHONE_EXTRA_PROPS,
     profile ''honor-magic5-pro'' ''HONOR'' ''HONOR'' ''PGT-AN10'' ''Magic5 Pro'' ''PGT-AN10''
       ''PGT-AN10'' ''13'' ''TP1A.220624.014'' ''7.1.0.132C00E130R5P6'' ''7.1.0.132C00E130R5P6'' ''2023-06-01''
       (Some (txt ''constructed'')) PHONE_REMOVE_PROPS PHONE_EXTRA_PROPS,
     profile ''oneplus-11'' ''OnePlus'' ''OnePlus'' ''PHB110'' ''OnePlus 11'' ''PHB110''
       ''PHB110'' ''13'' ''TP1A.220905.001'' ''PHB110_13.1.0.502CN01'' ''PHB110_13.1.0.502CN01'' ''2023-05-05''
       (Some (txt ''constructed'')) PHONE_REMOVE_PROPS PHONE_EXTRA_PROPS,
     profile ''redmi-note-12'' ''Redmi'' ''Xiaomi'' ''22101317C'' ''Redmi Note 12'' ''sunstone''
       ''sunstone'' ''13'' ''TP1A.220624.014'' ''V14.0.5.0.TMQCNXM'' ''V14.0.5.0.TMQCNXM'' ''2023-06-01''
       (Some (txt ''constructed'')) PHONE_REMOVE_PROPS PHONE_EXTRA_PROPS]"

text \<open>\<open>custom\<close> are the profiles that were read from the files of the user.\<close>

definition list_all_profiles :: "(string \<Rightarrow> string) \<Rightarrow> spoof_profile list \<Rightarrow> spoof_profile list" where
  "list_all_profiles txt custom = built_in_profiles txt @ custom"

definition profile_by_id :: "(string \<Rightarrow> string) \<Rightarrow> spoof_profile list \<Rightarrow> string \<Rightarrow> spoof_profile option" where
  "profile_by_id txt custom i = find (\<lambda>p. sp_id p = i) (list_all_profiles txt custom)"

definition matching_profile_id :: "(string \<Rightarrow> string) \<Rightarrow> string \<Rightarrow> string \<Rightarrow> string \<Rightarrow> string option" where
  "matching_profile_id txt brand model fingerprint = map_option sp_id (find (\<lambda>p. sp_brand p = trim brand \<and> sp_model p = trim model
     \<and> sp_fingerprint p = trim fingerprint) (built_in_profiles txt))"

section \<open>Usage\<close>

definition label_pair :: "string \<Rightarrow> string option" where
  "label_pair pair = (case split_once ''='' pair of
     Some (k, v) \<Rightarrow> if trim k = ''rdc.spoof-profile'' \<and> \<not> blank v then Some (trim v) else None
   | None \<Rightarrow> None)"

definition parse_spoof_label :: "string \<Rightarrow> string option" where
  "parse_spoof_label row = (case List.map_filter label_pair (split_char (CHR '','') (trim row)) of i # _ \<Rightarrow> Some i | [] \<Rightarrow> None)"

text \<open>A census in the order of the identifiers.\<close>

definition spoof_profile_usage :: "desk \<Rightarrow> dstate \<Rightarrow> (string \<times> nat) list \<times> dstate" where
  "spoof_profile_usage e s =
    (case docker e [''ps'', ''-a'', ''--filter'', ''label=rdc.spoof-profile'', ''--format'', ''{{.Labels}}''] 10 s of (r, t) \<Rightarrow>
      (if \<not> sr_success r then []
       else (let ids = List.map_filter parse_spoof_label (lines (sr_stdout r)) in
             map (\<lambda>i. (i, count_list ids i)) (sort (remdups ids))), t))"

section \<open>Validation\<close>

definition required_fields :: "spoof_profile \<Rightarrow> (string \<times> string) list" where
  "required_fields p = [(''id'', sp_id p), (''brand'', sp_brand p), (''manufacturer'', sp_manufacturer p), (''model'', sp_model p),
     (''market_name'', sp_market_name p), (''device'', sp_device p), (''product'', sp_product p),
     (''android_version'', sp_android_version p), (''build_fingerprint'', sp_fingerprint p), (''build_description'', sp_description p),
     (''build_display_id'', sp_display_id p), (''build_incremental'', sp_incremental p), (''security_patch'', sp_security_patch p),
     (''build_tags'', sp_tags p), (''build_type'', sp_type p)]"

text \<open>\<^verbatim>\<open>split\<close> at either of two characters.\<close>

fun split_either :: "char \<Rightarrow> char \<Rightarrow> string \<Rightarrow> string list" where
  "split_either a b [] = [[]]"
| "split_either a b (x # xs) =
    (if x = a \<or> x = b then [] # split_either a b xs
     else (case split_either a b xs of [] \<Rightarrow> [[x]] | p # ps \<Rightarrow> (x # p) # ps))"

definition validate_profile :: "spoof_profile \<Rightarrow> notice + unit" where
  "validate_profile p =
    (case find (\<lambda>f. blank (snd f)) (required_fields p) of
       Some f \<Rightarrow> Inl (Note ''field must not be empty'' [fst f])
     | None \<Rightarrow>
       (case split_either (CHR ''/'') (CHR '':'') (sp_fingerprint p) of
          [brand, product, device, version, build_id, incremental, build_type, build_tags] \<Rightarrow>
            if list_ex (\<lambda>x. x = []) [brand, product, device, version, build_id, incremental, build_type, build_tags]
            then Inl (Note ''empty part of the fingerprint'' [])
            else if brand \<noteq> sp_brand p then Inl (Note ''fingerprint and brand differ'' [brand])
            else if product \<noteq> sp_product p then Inl (Note ''fingerprint and product differ'' [product])
            else if device \<noteq> sp_device p then Inl (Note ''fingerprint and device differ'' [device])
            else if version \<noteq> sp_android_version p then Inl (Note ''fingerprint and version differ'' [version])
            else if \<not> starts_with (sp_description p) (sp_device p @ ''-'' @ sp_type p @ '' '')
            then Inl (Note ''description does not begin with device and type'' [])
            else if \<not> str_contains (sp_description p) (sp_android_version p) then Inl (Note ''description without the version'' [])
            else Inr ()
        | _ \<Rightarrow> Inl (Note ''malformed fingerprint'' [])))"

section \<open>The configuration\<close>

text \<open>A configuration is a list of lines; every one is written with a newline.\<close>

definition set_line :: "string \<times> string \<Rightarrow> string" where
  "set_line kv = ''set|'' @ fst kv @ ''|'' @ snd kv"

definition extra_prop :: "string \<Rightarrow> string \<times> string" where
  "extra_prop prop = (case split_once ''='' prop of Some kv \<Rightarrow> kv | None \<Rightarrow> (prop, []))"

definition identity_props :: "spoof_profile \<Rightarrow> (string \<times> string) list" where
  "identity_props p = [(''ro.product.brand'', sp_brand p), (''ro.product.manufacturer'', sp_manufacturer p),
     (''ro.product.model'', sp_model p), (''ro.product.device'', sp_device p), (''ro.product.name'', sp_product p),
     (''ro.product.marketname'', sp_market_name p)]"

definition build_props :: "spoof_profile \<Rightarrow> (string \<times> string) list" where
  "build_props p = [(''ro.build.fingerprint'', sp_fingerprint p), (''ro.build.description'', sp_description p),
     (''ro.build.display.id'', sp_display_id p), (''ro.build.version.incremental'', sp_incremental p),
     (''ro.build.tags'', sp_tags p), (''ro.build.type'', sp_type p), (''ro.build.flavor'', sp_device p @ ''-'' @ sp_type p),
     (''ro.build.version.release'', sp_android_version p), (''ro.build.version.security_patch'', sp_security_patch p)]"

definition fixed_lines :: "string list" where
  "fixed_lines = [''del|ro.kernel.qemu'', ''del|ro.boot.qemu'', ''set|ro.bootmode|unknown'', ''set|ro.boot.mode|unknown'',
     ''set|ro.boot.bootreason|reboot'']"

definition abilist_lines :: "string list" where
  "abilist_lines = [''set|ro.product.cpu.abilist|arm64-v8a'', ''set|ro.product.cpu.abilist32|'', ''set|ro.product.cpu.abilist64|arm64-v8a'']"

definition head_lines :: "spoof_profile \<Rightarrow> string list" where
  "head_lines p = [''# Generated by JustRun'', ''# profile id: '' @ sp_id p]
     @ (case sp_notes p of Some n \<Rightarrow> [''# '' @ n] | None \<Rightarrow> []) @ [[]]"

definition conf_lines :: "spoof_profile \<Rightarrow> bool \<Rightarrow> string option \<Rightarrow> string list" where
  "conf_lines p spoof_abilist hostname =
    head_lines p @ map set_line (identity_props p) @ [[]] @ map set_line (build_props p) @ [[]] @ fixed_lines
    @ (case hostname of Some h \<Rightarrow> [set_line (''net.hostname'', h)] | None \<Rightarrow> [])
    @ map (\<lambda>prop. set_line (extra_prop prop)) (sp_extra_props p)
    @ map (\<lambda>prop. ''del|'' @ prop) (sp_remove_props p)
    @ (if spoof_abilist then abilist_lines else [])"

definition render_spoof_conf_with :: "spoof_profile \<Rightarrow> bool \<Rightarrow> string option \<Rightarrow> string" where
  "render_spoof_conf_with p spoof_abilist hostname = concat (map (\<lambda>l. l @ NL) (conf_lines p spoof_abilist hostname))"

definition render_spoof_conf :: "spoof_profile \<Rightarrow> bool \<Rightarrow> string" where
  "render_spoof_conf p spoof_abilist = render_spoof_conf_with p spoof_abilist None"

section \<open>Capturing\<close>

text \<open>A map: the last value of a key counts.\<close>

definition parse_getprop_batch :: "string \<Rightarrow> (string \<times> string) list" where
  "parse_getprop_batch out = rev (List.map_filter (\<lambda>l. if blank l then None
     else map_option (\<lambda>(k, v). (trim k, trim v)) (split_once ''='' (trim l))) (lines out))"

definition id_char :: "char \<Rightarrow> string \<Rightarrow> string" where
  "id_char c out = (if is_ascii_alphanumeric c then out @ [c]
     else if out \<noteq> [] \<and> last out \<noteq> CHR ''-'' then out @ ''-'' else out)"

definition sanitize_id :: "string \<Rightarrow> string" where
  "sanitize_id hint =
    (let cleaned = trim_matches_char (CHR ''-'')
           (fold id_char (filter (\<lambda>c. \<not> is_utf8_continuation c) (to_ascii_lowercase (trim hint))) []) in
     if cleaned = [] then ''captured'' else cleaned)"

partial_function (option) next_free_id :: "string \<Rightarrow> string list \<Rightarrow> nat \<Rightarrow> string option" where
  "next_free_id base existing n = (let candidate = base @ ''-'' @ dec_string n in
     if candidate \<notin> set existing then Some candidate else next_free_id base existing (n + 1))"

definition resolve_unique_id :: "string \<Rightarrow> string list \<Rightarrow> string option" where
  "resolve_unique_id base existing = (if base \<notin> set existing then Some base else next_free_id base existing 2)"

definition build_captured_profile :: "(string \<Rightarrow> string) \<Rightarrow> (string \<times> string) list \<Rightarrow> string \<Rightarrow> notice + spoof_profile" where
  "build_captured_profile txt props i =
    (let get = (\<lambda>k. case map_of props k of Some v \<Rightarrow> trim v | None \<Rightarrow> []);
         model = get ''model''; market = get ''marketname''; device = get ''device''; fingerprint = get ''fingerprint'';
         segments = split_char (CHR ''/'') fingerprint;
         build_id = (if 3 < length segments then trim (segments ! 3) else []);
         p = \<lparr>sp_id = i, sp_brand = get ''brand'', sp_manufacturer = get ''manufacturer'', sp_model = model,
           sp_market_name = (if market = [] then model else market), sp_device = device, sp_product = get ''name'',
           sp_android_version = get ''release'', sp_fingerprint = fingerprint,
           sp_description = (if get ''description'' = [] then device @ ''-'' @ get ''type'' @ '' '' @ get ''release'' @ '' '' @ build_id
             @ '' '' @ get ''incremental'' @ '' '' @ get ''tags'' else get ''description''),
           sp_display_id = get ''display_id'', sp_incremental = get ''incremental'', sp_security_patch = get ''security_patch'',
           sp_tags = get ''tags'', sp_type = get ''type'', sp_extra_props = [], sp_remove_props = [],
           sp_notes = Some (txt ''captured'')\<rparr>
     in and_then (validate_profile p) (\<lambda>_. Inr p))"

definition CAPTURE_PROPS :: "(string \<times> string) list" where
  "CAPTURE_PROPS = [(''brand'', ''ro.product.brand''), (''manufacturer'', ''ro.product.manufacturer''), (''model'', ''ro.product.model''),
     (''device'', ''ro.product.device''), (''name'', ''ro.product.name''), (''marketname'', ''ro.product.marketname''),
     (''fingerprint'', ''ro.build.fingerprint''), (''description'', ''ro.build.description''), (''display_id'', ''ro.build.display.id''),
     (''incremental'', ''ro.build.version.incremental''), (''release'', ''ro.build.version.release''),
     (''security_patch'', ''ro.build.version.security_patch''), (''tags'', ''ro.build.tags''), (''type'', ''ro.build.type'')]"

text \<open>\<open>store\<close> writes the file of a profile and answers with an error or nothing; \<open>None\<close> is a search for an identifier that does not end.\<close>

definition capture_spoof_profile :: "desk \<Rightarrow> (string \<Rightarrow> string) \<Rightarrow> spoof_profile list \<Rightarrow> (spoof_profile \<Rightarrow> notice option) \<Rightarrow> string \<Rightarrow> string
    \<Rightarrow> dstate \<Rightarrow> ((notice list + spoof_profile) \<times> dstate) option" where
  "capture_spoof_profile e txt custom store serial0 id_hint s =
    (let serial = trim serial0 in
     if serial = [] then Some (Inl [Note ''no serial'' []], s)
     else (case adb_shell e serial (concat (map (\<lambda>(k, prop). ''echo '' @ k @ ''=$(getprop '' @ prop @ '');'') CAPTURE_PROPS)) s of (r, t) \<Rightarrow>
       if \<not> sr_success r
       then (let d = filter (\<lambda>x. x \<noteq> []) [trim (sr_stderr r), trim (sr_stdout r)] in
         Some (Inl (if d = [] then [Note ''getprop failed'' []] else map Text d), t))
       else (case resolve_unique_id (sanitize_id id_hint) (map sp_id (list_all_profiles txt custom)) of
           None \<Rightarrow> None
         | Some i \<Rightarrow> (case build_captured_profile txt (parse_getprop_batch (sr_stdout r)) i of
             Inl m \<Rightarrow> Some (Inl [m], t)
           | Inr p \<Rightarrow> (case store p of Some m \<Rightarrow> Some (Inl [m], t) | None \<Rightarrow> Some (Inr p, t))))))"

text \<open>\<open>remove_error\<close> is the error of removing the file, \<open>on_disk\<close> whether it exists; the right result is the identifier whose file is removed.\<close>

definition delete_custom_profile :: "(string \<Rightarrow> string) \<Rightarrow> (string \<Rightarrow> bool) \<Rightarrow> (string \<Rightarrow> string option) \<Rightarrow> string \<Rightarrow> notice + string" where
  "delete_custom_profile txt on_disk remove_error i0 =
    (let i = trim i0 in
     if i = [] then Inl (Note ''no identifier'' [])
     else if list_ex (\<lambda>p. sp_id p = i) (built_in_profiles txt) then Inl (Note ''built-in profile'' [i])
     else if list_ex (\<lambda>c. \<not> is_ascii_alphanumeric c \<and> c \<noteq> CHR ''-'' \<and> c \<noteq> CHR ''_'') i then Inl (Note ''illegal character'' [])
     else if \<not> on_disk i then Inl (Note ''no such profile'' [i])
     else (case remove_error i of Some m \<Rightarrow> Inl (Note ''profile not removed'' [m]) | None \<Rightarrow> Inr i))"

record spoof_identity =
  id_brand :: string
  id_model :: string
  id_market_name :: string
  id_fingerprint :: string
  id_device :: string
  id_matched :: "string option"

definition get_spoof_identity :: "desk \<Rightarrow> (string \<Rightarrow> string) \<Rightarrow> string \<Rightarrow> dstate \<Rightarrow> spoof_identity \<times> dstate" where
  "get_spoof_identity e txt serial s =
    (case get_prop e serial ''ro.product.brand'' s of (b, s1) \<Rightarrow>
     (case get_prop e serial ''ro.product.model'' s1 of (m, s2) \<Rightarrow>
     (case get_prop e serial ''ro.product.marketname'' s2 of (n, s3) \<Rightarrow>
     (case get_prop e serial ''ro.build.fingerprint'' s3 of (f, s4) \<Rightarrow>
     (case get_prop e serial ''ro.product.device'' s4 of (d, s5) \<Rightarrow>
       (\<lparr>id_brand = trim b, id_model = trim m, id_market_name = trim n, id_fingerprint = trim f, id_device = trim d,
         id_matched = matching_profile_id txt b m f\<rparr>, s5))))))"

section \<open>Traces of the host\<close>

record soc_spec =
  so_kernel_release :: string
  so_hardware :: string
  so_clusters :: "(nat \<times> string \<times> string) list"
  so_build_info :: string

definition ARM64_FEATURES :: string where
  "ARM64_FEATURES = ''fp asimd evtstrm aes pmull sha1 sha2 crc32 atomics fphp asimdhp cpuid asimdrdm jscvt fcma lrcpc''
     @ '' dcpop sha3 sm3 sm4 asimddp sha512 sve asimdfhm dit uscat ilrcpc flagm ssbs sb paca pacg dcpodp''
     @ '' sve2 sveaes svepmull svebitperm svesha3 svesm4 flagm2 frint i8mm bf16 dgh rng bti''"

definition soc :: "string \<Rightarrow> string \<Rightarrow> (nat \<times> string \<times> string) list \<Rightarrow> string \<Rightarrow> soc_spec" where
  "soc kernel_release hardware clusters build_info =
    \<lparr>so_kernel_release = kernel_release, so_hardware = hardware, so_clusters = clusters, so_build_info = build_info\<rparr>"

definition soc_for :: "spoof_profile \<Rightarrow> soc_spec" where
  "soc_for p =
    (let b = to_ascii_lowercase (sp_brand p); m = to_ascii_lowercase (sp_manufacturer p); v = sp_android_version p in
     if str_contains b ''mediatek'' \<or> str_contains m ''mediatek''
     then soc (''5.15.78-android'' @ v @ ''-8-00005-g3f2b1a4c9d7e-ab10741320'') ''MT6985''
       [(1, ''0xd4e'', ''0x1''), (4, ''0xd4d'', ''0x0''), (3, ''0xd46'', ''0x0'')]
       (''Linux version 5.15.78-android'' @ v @ ''-8-00005-g3f2b1a4c9d7e-ab10741320 (build-user@mtk-build) (Android (8508608, based on r450784e) ''
     @ ''clang version 14.0.7 (https://android.googlesource.com/toolchain/llvm-project 4c603efb0cca074e9''
     @ ''238af8b4106c30add4418f6), LLD 14.0.7) #1 SMP PREEMPT Wed Nov 1 08:00:00 UTC 2023'')
     else if str_contains b ''google'' \<or> str_contains m ''google'' \<or> str_contains b ''pixel''
     then soc (''5.15.110-android'' @ v @ ''-4-g0000000ab1234567'') ''Google Tensor G3''
       [(1, ''0xd4e'', ''0x1''), (4, ''0xd4d'', ''0x0''), (3, ''0xd46'', ''0x0'')]
       (''Linux version 5.15.110-android'' @ v @ ''-4-g0000000ab1234567 (android-build@abfarm-009) (Android (8888872, based on r487747) clang vers''
     @ ''ion 15.0.7 (https://android.googlesource.com/toolchain/llvm-project c56ef6e9f0a3f1d1b2a4c6e8f0a''
     @ ''2b4c6d8e0f2a4), LLD 15.0.7) #1 SMP PREEMPT Mon Oct 30 09:00:00 UTC 2023'')
     else if str_contains b ''samsung'' \<or> str_contains m ''samsung''
     then soc (''5.10.101-android'' @ v @ ''-5-27443413-abS9110ZCU1BWL1'') ''Samsung Exynos 2200''
       [(1, ''0xd48'', ''0x2''), (4, ''0xd47'', ''0x0''), (3, ''0xd46'', ''0x0'')]
       (''Linux version 5.10.101-android'' @ v @ ''-5-27443413-abS9110ZCU1BWL1 (dpi@SWDG5320) (Android (8508608, based on r450784e) clang version ''
     @ ''14.0.7 (https://android.googlesource.com/toolchain/llvm-project 4c603efb0cca074e9238af8b4106c30''
     @ ''add4418f6), LLD 14.0.7) #1 SMP PREEMPT Tue Nov 7 05:30:00 KST 2023'')
     else soc (''5.15.94-android'' @ v @ ''-8-g0e2f5f7f9a1b-ab12345678'') ''Qualcomm Technologies, Inc SM8550''
       [(1, ''0xd4e'', ''0x1''), (4, ''0xd4d'', ''0x0''), (3, ''0xd46'', ''0x0'')]
       (''Linux version 5.15.94-android'' @ v @ ''-8-g0e2f5f7f9a1b-ab12345678 (build-user@qcom-build) (Android (8508608, based on r450784e) clang''
     @ '' version 14.0.7 (https://android.googlesource.com/toolchain/llvm-project 4c603efb0cca074e9238af''
     @ ''8b4106c30add4418f6), LLD 14.0.7) #1 SMP PREEMPT Fri Aug 4 10:00:00 UTC 2023''))"

definition core_block :: "string \<Rightarrow> string \<Rightarrow> nat \<Rightarrow> string" where
  "core_block part variant idx = ''processor'' @ TAB @ '': '' @ dec_string idx @ NL @ ''BogoMIPS'' @ TAB @ '': 38.40'' @ NL
     @ ''Features'' @ TAB @ '': '' @ ARM64_FEATURES @ NL @ ''CPU implementer'' @ TAB @ '': 0x41'' @ NL @ ''CPU architecture: 8'' @ NL
     @ ''CPU variant'' @ TAB @ '': '' @ variant @ NL @ ''CPU part'' @ TAB @ '': '' @ part @ NL @ ''CPU revision'' @ TAB @ '': 0'' @ NL @ NL"

fun core_blocks :: "nat \<Rightarrow> (nat \<times> string \<times> string) list \<Rightarrow> string list" where
  "core_blocks idx [] = []"
| "core_blocks idx ((n, part, variant) # cs) = map (core_block part variant) [idx..<idx + n] @ core_blocks (idx + n) cs"

definition fake_cpuinfo_for :: "spoof_profile \<Rightarrow> string" where
  "fake_cpuinfo_for p = concat (core_blocks 0 (so_clusters (soc_for p))) @ ''Hardware'' @ TAB @ '': '' @ so_hardware (soc_for p) @ NL"

definition fake_version_for :: "spoof_profile \<Rightarrow> string" where
  "fake_version_for p = so_build_info (soc_for p) @ NL"

definition fake_kernel_release_for :: "spoof_profile \<Rightarrow> string" where
  "fake_kernel_release_for p = so_kernel_release (soc_for p)"

definition sanitize_trace_name :: "string \<Rightarrow> string" where
  "sanitize_trace_name name =
    (let cleaned = filter (\<lambda>c. is_ascii_alphanumeric c \<or> c = CHR ''-'' \<or> c = CHR ''_'' \<or> c = CHR ''.'') (trim name) in
     if cleaned = [] then ''instance'' else cleaned)"

text \<open>The directory under the configuration directory of the application, and what is written there: path and contents.\<close>

definition traces_dir :: "string \<Rightarrow> string" where
  "traces_dir name = ''container-traces/'' @ sanitize_trace_name name"

definition trace_files :: "string \<Rightarrow> spoof_profile \<Rightarrow> (string \<times> string) list" where
  "trace_files container_name p = [(traces_dir container_name @ ''/cpuinfo'', fake_cpuinfo_for p),
     (traces_dir container_name @ ''/version'', fake_version_for p)]"

definition SDCARD_DIRS :: "string list" where
  "SDCARD_DIRS = [''/sdcard/DCIM'', ''/sdcard/DCIM/Camera'', ''/sdcard/Pictures'', ''/sdcard/Download'', ''/sdcard/Documents'',
     ''/sdcard/Music'', ''/sdcard/Movies'', ''/sdcard/Alarms'', ''/sdcard/Notifications'', ''/sdcard/Ringtones'', ''/sdcard/Podcasts'']"

definition touch_age :: "string \<Rightarrow> string \<Rightarrow> u64" where
  "touch_age seed dir = 172800 + fnv1a64 (seed @ ''|'' @ dir) mod (15552000 - 172800)"

text \<open>\<open>stamp\<close> prints a time in seconds as \<^verbatim>\<open>YYYYMMDDhhmm\<close>, if it is a date.\<close>

definition touch_timestamp_commands :: "(u64 \<Rightarrow> string option) \<Rightarrow> u64 \<Rightarrow> string \<Rightarrow> string" where
  "touch_timestamp_commands stamp now_secs seed = ''TZ=UTC '' @ concat (map (\<lambda>dir.
     let st = (case stamp (saturating_sub_u64 now_secs (touch_age seed dir)) of Some t \<Rightarrow> t | None \<Rightarrow> ''202301010000'') in
     ''mkdir -p '' @ dir @ '' 2>/dev/null; touch -t '' @ st @ '' '' @ dir @ '' 2>/dev/null; '') SDCARD_DIRS) @ ''echo seeded-timestamps''"

section \<open>Changing the profile of a running instance\<close>

definition spoof_conf_remote :: string where "spoof_conf_remote = ''/data/local/tmp/rdc-spoof.conf''"

text \<open>
  What follows the properties: the configuration of the Java hooks, and, when the container was created with them, the files that hide the
  kernel. \<open>push_cloak\<close> pushes the first; \<open>write_error\<close> is the error of writing a file on the host. The result ends with the files that
  were written.
\<close>

definition sync_layers :: "desk \<Rightarrow> (string \<Rightarrow> spoof_profile \<Rightarrow> dstate \<Rightarrow> outcome \<times> dstate) \<Rightarrow> (string \<Rightarrow> string option) \<Rightarrow> string \<Rightarrow> string
    \<Rightarrow> spoof_profile \<Rightarrow> string \<Rightarrow> shell_result \<Rightarrow> dstate \<Rightarrow> outcome \<times> (string \<times> string) list \<times> dstate" where
  "sync_layers e push_cloak write_error serial container p hostname r s =
    (case push_cloak serial p s of (pushed, s1) \<Rightarrow>
     (case container_clean_traces_enabled e container s1 of (enabled, s2) \<Rightarrow>
      (let files = (if enabled = Some True then trace_files container p else []);
           failed = List.map_filter (\<lambda>f. write_error (fst f)) files;
           written = takeWhile (\<lambda>f. write_error (fst f) = None) files;
           notes = [Note ''properties applied'' [hostname]] @ (if oc_success pushed then [Note ''hooks pushed'' []] else [])
             @ (case enabled of
                  Some True \<Rightarrow> if failed = [] then [Note ''traces rewritten in place'' []] else []
                | Some False \<Rightarrow> [Note ''created without traces'' []] | None \<Rightarrow> [Note ''no traces label'' []]);
           warnings = (if oc_success pushed then [] else Note ''hooks not pushed'' [] # oc_stderr pushed)
             @ (case failed of m # _ \<Rightarrow> [Note ''traces not rewritten'' [m]] | [] \<Rightarrow> [])
       in (\<lparr>oc_success = sr_success r, oc_stdout = Text (trim (sr_stdout r)) # notes,
            oc_stderr = (if warnings = [] then [Text (sr_stderr r)] else warnings), oc_exit_code = sr_exit_code r\<rparr>, written, s2))))"

definition apply_spoof_profile :: "desk \<Rightarrow> (string \<Rightarrow> string) \<Rightarrow> spoof_profile list \<Rightarrow> (dstate \<Rightarrow> device_info list \<times> dstate)
    \<Rightarrow> (string \<Rightarrow> spoof_profile \<Rightarrow> dstate \<Rightarrow> outcome \<times> dstate) \<Rightarrow> (string \<Rightarrow> string option) \<Rightarrow> string \<Rightarrow> string \<Rightarrow> dstate
    \<Rightarrow> outcome \<times> (string \<times> string) list \<times> dstate" where
  "apply_spoof_profile e txt custom lister push_cloak write_error serial profile_id s =
    (case profile_by_id txt custom (trim profile_id) of
       None \<Rightarrow> (refused [Note ''no such profile'' (profile_id # map sp_id (list_all_profiles txt custom))], [], s)
     | Some p \<Rightarrow> (case container_id_for lister serial s of
         (None, s1) \<Rightarrow> (refused [Note ''containers only'' []], [], s1)
       | (Some container, s1) \<Rightarrow>
         (let hostname = derive_hostname (sp_brand p) (adb_port_from_serial serial); conf = render_spoof_conf_with p False (Some hostname) in
          case run_command_stdin e (dk_docker e) [''exec'', ''-i'', container, ''sh'', ''-c'', ''cat > '' @ spoof_conf_remote] conf 15 s1 of
            (w, s2) \<Rightarrow>
            if \<not> sr_success w then (of_shell w, [], s2)
            else (case docker e [''exec'', container, ''sh'', ''-c'', ''RDC_SPOOF_CONF='' @ spoof_conf_remote
                @ '' sh /data/adb/service.d/rdc_apply_spoof.sh 2>&1''] 30 s2 of (r, s3) \<Rightarrow>
              if \<not> sr_success r then (of_shell r, [], s3)
              else sync_layers e push_cloak write_error serial container p hostname r s3))))"

end
