(* ===== verification/Spoof_Props.thy ===== *)
theory Spoof_Props imports Spoof Docker_Create begin

text \<open>
  The profiles that come with the program, the configuration that a profile is written to, free identifiers, and where a change of the
  profile of a running instance writes.
\<close>

section \<open>Built-in profiles\<close>

text \<open>Every built-in profile passes the check, and no two share an identifier.\<close>

lemma valid_built_in:
  "list_all (\<lambda>p. validate_profile p = Inr ()) (built_in_profiles txt)"
  unfolding built_in_profiles_def profile_def by code_simp

lemma distinct_built_in: "distinct (map sp_id (built_in_profiles txt))"
  unfolding built_in_profiles_def profile_def by code_simp

section \<open>Free identifiers\<close>

lemma next_free_id_from:
  assumes "base @ ''-'' @ dec_string m \<notin> set existing" and "n \<le> m"
  shows "\<exists>i. next_free_id base existing n = Some i \<and> i \<notin> set existing"
  using assms
proof (induction "m - n" arbitrary: n)
  case 0
  then have "n = m" by simp
  then show ?case using "0.prems"(1) by (subst next_free_id.simps) (simp add: Let_def)
next
  case (Suc k)
  then have "k = m - (n + 1)" "n + 1 \<le> m" by simp_all
  then show ?case using Suc.hyps(1) Suc.prems(1) by (subst next_free_id.simps) (simp add: Let_def)
qed

text \<open>
  The search for an identifier for a captured profile ends, whatever identifiers are taken, with one that is not.
\<close>

theorem unique_id_found: "\<exists>i. resolve_unique_id base existing = Some i \<and> i \<notin> set existing"
proof -
  let ?c = "\<lambda>n. base @ ''-'' @ dec_string n"
  have "inj ?c" by (rule injI) (simp add: dec_string_inject)
  then have "infinite (?c ` {2..})" by (simp add: finite_image_iff inj_on_subset infinite_Ici)
  then have "\<not> ?c ` {2..} \<subseteq> set existing" using finite_subset by blast
  then obtain m where "2 \<le> m" "?c m \<notin> set existing" by auto
  then show ?thesis using next_free_id_from [of base m existing 2] by (simp add: resolve_unique_id_def)
qed

section \<open>The configuration\<close>

text \<open>How the script that applies a configuration reads a line.\<close>

datatype conf_op = Set string string | Del string

definition read_conf_line :: "string \<Rightarrow> conf_op option" where
  "read_conf_line l = (case split_once ''|'' l of
     None \<Rightarrow> None
   | Some (op, rest) \<Rightarrow>
     if op = ''set'' then (case split_once ''|'' rest of Some (k, v) \<Rightarrow> Some (Set k v) | None \<Rightarrow> None)
     else if op = ''del'' then Some (Del rest) else None)"

definition read_conf :: "string \<Rightarrow> conf_op list" where
  "read_conf t = List.map_filter read_conf_line (lines t)"

text \<open>What a profile means.\<close>

definition conf_of :: "spoof_profile \<Rightarrow> bool \<Rightarrow> string option \<Rightarrow> conf_op list" where
  "conf_of p abilist hostname =
    map (\<lambda>kv. Set (fst kv) (snd kv)) (identity_props p @ build_props p)
    @ [Del ''ro.kernel.qemu'', Del ''ro.boot.qemu'', Set ''ro.bootmode'' ''unknown'', Set ''ro.boot.mode'' ''unknown'',
       Set ''ro.boot.bootreason'' ''reboot'']
    @ (case hostname of Some h \<Rightarrow> [Set ''net.hostname'' h] | None \<Rightarrow> [])
    @ map (\<lambda>prop. Set (fst (extra_prop prop)) (snd (extra_prop prop))) (sp_extra_props p)
    @ map Del (sp_remove_props p)
    @ (if abilist then [Set ''ro.product.cpu.abilist'' ''arm64-v8a'', Set ''ro.product.cpu.abilist32'' [],
         Set ''ro.product.cpu.abilist64'' ''arm64-v8a''] else [])"

definition one_line :: "string \<Rightarrow> bool" where
  "one_line l = (CHR 0x0A \<notin> set l \<and> CHR 0x0D \<notin> set l)"

lemma split_concat_lines:
  "(\<And>l. l \<in> set ls \<Longrightarrow> c \<notin> set l) \<Longrightarrow> split_char c (concat (map (\<lambda>l. l @ [c]) ls)) = ls @ [[]]"
proof (induction ls)
  case (Cons l ls)
  then show ?case using split_char_append [of c l] by simp
qed simp

lemma lines_concat:
  assumes "\<And>l. l \<in> set ls \<Longrightarrow> one_line l"
  shows "lines (concat (map (\<lambda>l. l @ NL) ls)) = ls"
proof -
  have "CHR 0x0A \<notin> set l" if "l \<in> set ls" for l using assms [OF that] by (simp add: one_line_def)
  moreover have "map strip_cr ls = ls"
  proof (rule map_idI)
    fix l assume "l \<in> set ls"
    then have "one_line l" by (rule assms)
    then have "l = [] \<or> last l \<noteq> CHR 0x0D" by (metis last_in_set one_line_def)
    then show "strip_cr l = l" by (auto simp: strip_cr_def)
  qed
  ultimately show ?thesis by (simp add: lines_def split_concat_lines Let_def)
qed

lemma split_once_at: "c \<notin> set a \<Longrightarrow> split_once [c] (a @ c # b) = Some (a, b)"
  by (induction a) auto

lemma read_set_line: "CHR ''|'' \<notin> set (fst kv) \<Longrightarrow> read_conf_line (set_line kv) = Some (Set (fst kv) (snd kv))"
  using split_once_at [of "CHR ''|''" "fst kv" "snd kv"] by (simp add: read_conf_line_def set_line_def split_beta)

lemma read_del_line: "read_conf_line (''del|'' @ k) = Some (Del k)"
  by (simp add: read_conf_line_def)

lemma read_comment: "read_conf_line (CHR ''#'' # t) = None"
proof -
  have "fst kv = CHR ''#'' # u" if "split_once ''|'' (CHR ''#'' # t) = Some kv" "u = tl (fst kv)" for kv u
    using that by (auto split: option.splits)
  then show ?thesis by (fastforce simp: read_conf_line_def split: option.split prod.split)
qed

text \<open>A profile whose texts are single lines and whose additional keys have no bar.\<close>

definition conf_clean :: "spoof_profile \<Rightarrow> string option \<Rightarrow> bool" where
  "conf_clean p hostname =
    (list_all one_line ([sp_id p, sp_brand p, sp_manufacturer p, sp_model p, sp_market_name p, sp_device p, sp_product p,
       sp_android_version p, sp_fingerprint p, sp_description p, sp_display_id p, sp_incremental p, sp_security_patch p, sp_tags p,
       sp_type p] @ sp_extra_props p @ sp_remove_props p)
     \<and> (case sp_notes p of Some n \<Rightarrow> one_line n | None \<Rightarrow> True) \<and> (case hostname of Some h \<Rightarrow> one_line h | None \<Rightarrow> True)
     \<and> list_all (\<lambda>prop. CHR ''|'' \<notin> set (fst (extra_prop prop))) (sp_extra_props p))"

lemma one_line_append: "one_line (a @ b) \<longleftrightarrow> one_line a \<and> one_line b"
  by (auto simp: one_line_def)

lemma one_line_Cons: "one_line (c # b) \<longleftrightarrow> c \<noteq> CHR 0x0A \<and> c \<noteq> CHR 0x0D \<and> one_line b"
  by (auto simp: one_line_def)

lemma one_line_Nil: "one_line []"
  by (simp add: one_line_def)

lemma one_line_extra: "one_line x \<Longrightarrow> one_line (fst (extra_prop x)) \<and> one_line (snd (extra_prop x))"
  using split_once_Some [of "''=''" x] by (auto simp: extra_prop_def one_line_def split: option.split)

lemma one_line_set: "one_line (set_line kv) \<longleftrightarrow> one_line (fst kv) \<and> one_line (snd kv)"
  by (auto simp: set_line_def one_line_def)

lemma one_line_del: "one_line (''del|'' @ x) \<longleftrightarrow> one_line x"
  by (auto simp: one_line_def)

lemma map_filter_append: "List.map_filter f (xs @ ys) = List.map_filter f xs @ List.map_filter f ys"
  by (simp add: List.map_filter_def)

lemma map_filter_all: "list_all (\<lambda>x. f (g x) = Some (h x)) xs \<Longrightarrow> List.map_filter f (map g xs) = map h xs"
  by (induction xs) (simp_all add: map_filter_simps)

lemma prop_keys:
  "list_all (\<lambda>kv. one_line (fst kv) \<and> CHR ''|'' \<notin> set (fst kv)) (identity_props p @ build_props p)"
  by (simp add: identity_props_def build_props_def one_line_def)

lemma prop_values:
  assumes "conf_clean p hostname"
  shows "list_all (\<lambda>kv. one_line (snd kv)) (identity_props p @ build_props p)"
proof -
  have "one_line (CHR ''-'' # sp_type p)" using assms by (simp add: conf_clean_def one_line_def)
  then show ?thesis using assms by (simp add: identity_props_def build_props_def conf_clean_def one_line_append)
qed

lemma read_head: "List.map_filter read_conf_line (head_lines p) = []"
  by (simp add: head_lines_def map_filter_simps read_comment split: option.split) (simp add: read_conf_line_def)

lemma read_fixed: "List.map_filter read_conf_line fixed_lines = [Del ''ro.kernel.qemu'', Del ''ro.boot.qemu'',
    Set ''ro.bootmode'' ''unknown'', Set ''ro.boot.mode'' ''unknown'', Set ''ro.boot.bootreason'' ''reboot'']"
  "List.map_filter read_conf_line abilist_lines = [Set ''ro.product.cpu.abilist'' ''arm64-v8a'', Set ''ro.product.cpu.abilist32'' [],
    Set ''ro.product.cpu.abilist64'' ''arm64-v8a'']"
  by code_simp+

lemma head_one_line: "conf_clean p hostname \<Longrightarrow> list_all one_line (head_lines p)"
  by (auto simp: head_lines_def conf_clean_def one_line_def split: option.splits)

lemma fixed_one_line: "list_all one_line fixed_lines" "list_all one_line abilist_lines" "one_line []"
  by code_simp+

lemma conf_one_line:
  assumes "conf_clean p hostname"
  shows "list_all one_line (conf_lines p abilist hostname)"
proof -
  have "list_all (\<lambda>x. one_line (set_line (extra_prop x))) (sp_extra_props p)"
    using assms one_line_extra by (auto simp: conf_clean_def one_line_set list_all_iff)
  moreover have "list_all (\<lambda>x. one_line (''del|'' @ x)) (sp_remove_props p)"
    using assms unfolding one_line_del by (simp add: conf_clean_def)
  moreover have "list_all (\<lambda>kv. one_line (set_line kv)) (identity_props p @ build_props p)"
    using prop_keys [of p] prop_values [OF assms] unfolding one_line_set by (auto simp: list_all_iff)
  moreover have "one_line (set_line (''net.hostname'', h))" if "hostname = Some h" for h
    using assms that by (auto simp: conf_clean_def one_line_set) (simp add: one_line_def)
  ultimately show ?thesis using head_one_line [OF assms] fixed_one_line
    by (simp add: conf_lines_def list.pred_map comp_def split: option.split)
qed



section \<open>Changing a profile\<close>

lemma ws_not_graphic: "list_all (list_all (\<lambda>c. \<not> ascii_graphic c)) (ws1 @ ws2 @ ws3)"
  by code_simp

lemma ws_bytes: "w \<in> set ws1 \<or> w \<in> set ws2 \<or> w \<in> set ws3 \<Longrightarrow> c \<in> set w \<Longrightarrow> \<not> ascii_graphic c"
  using ws_not_graphic by (auto simp: list_all_iff)

lemma ws_prefix_bytes:
  assumes "c \<in> set (take (ws_prefix s) s)"
  shows "\<not> ascii_graphic c"
proof -
  have "take (ws_prefix s) s = [] \<or> take (ws_prefix s) s \<in> set ws1 \<or> take (ws_prefix s) s \<in> set ws2 \<or> take (ws_prefix s) s \<in> set ws3"
    by (cases "take 1 s \<in> set ws1"; cases "take 2 s \<in> set ws2"; cases "take 3 s \<in> set ws3") (simp_all add: ws_prefix_def)
  then show ?thesis using assms ws_bytes by fastforce
qed

lemma ws_suffix_bytes:
  assumes "c \<in> set (take (ws_suffix s) (rev s))"
  shows "\<not> ascii_graphic c"
proof -
  let ?r = "rev (take (ws_suffix s) (rev s))"
  have "?r = [] \<or> ?r \<in> set ws1 \<or> ?r \<in> set ws2 \<or> ?r \<in> set ws3"
    by (cases "rev (take 1 (rev s)) \<in> set ws1"; cases "rev (take 2 (rev s)) \<in> set ws2"; cases "rev (take 3 (rev s)) \<in> set ws3")
      (simp_all add: ws_suffix_def)
  moreover have "c \<in> set ?r" using assms by simp
  ultimately show ?thesis using ws_bytes by fastforce
qed

lemma in_take_or_drop: "c \<in> set xs \<Longrightarrow> c \<in> set (take n xs) \<or> c \<in> set (drop n xs)"
  by (metis Un_iff append_take_drop_id set_append)

lemma trim_start_keeps: "c \<in> set s \<Longrightarrow> ascii_graphic c \<Longrightarrow> c \<in> set (trim_start s)"
proof (induction s rule: trim_start.induct)
  case (1 s)
  then show ?case
  proof (cases "ws_prefix s = 0")
    case False
    then have "c \<in> set (drop (ws_prefix s) s)" 
      using in_take_or_drop [OF 1(2), of "ws_prefix s"] ws_prefix_bytes [of c s] 1(3) by argo
    then show ?thesis using 1(1) [OF False] 1(3) trim_start.simps [of s] False by (simp only: if_False)
  qed (simp add: trim_start.simps [of s])
qed

lemma trim_end_keeps: "c \<in> set s \<Longrightarrow> ascii_graphic c \<Longrightarrow> c \<in> set (trim_end s)"
proof (induction s rule: trim_end.induct)
  case (1 s)
  then show ?case
  proof (cases "ws_suffix s = 0")
    case False
    have "c \<in> set (rev s)" using 1(2) by simp
    then have "c \<in> set (drop (ws_suffix s) (rev s))" 
      using in_take_or_drop [of c "rev s" "ws_suffix s"] ws_suffix_bytes [of c s] 1(3) by argo
    then have "c \<in> set (take (length s - ws_suffix s) s)" by (simp add: drop_rev)
    then show ?thesis using 1(1) [OF False] 1(3) trim_end.simps [of s] False by (simp only: if_False)
  qed (simp add: trim_end.simps [of s])
qed

lemma trim_keeps: "c \<in> set s \<Longrightarrow> ascii_graphic c \<Longrightarrow> c \<in> set (trim s)"
  by (simp add: trim_def trim_start_keeps trim_end_keeps)

lemma set_trim_start: "set (trim_start s) \<subseteq> set s"
proof (induction s rule: trim_start.induct)
  case (1 s)
  show ?case
  proof (cases "ws_prefix s = 0")
    case False
    show ?thesis using 1 [OF False] set_drop_subset [of "ws_prefix s" s] trim_start.simps [of s] False by (simp only: if_False)
  qed (simp add: trim_start.simps [of s])
qed

lemma set_trim_end: "set (trim_end s) \<subseteq> set s"
proof (induction s rule: trim_end.induct)
  case (1 s)
  show ?case
  proof (cases "ws_suffix s = 0")
    case False
    show ?thesis using 1 [OF False] set_take_subset [of "length s - ws_suffix s" s] trim_end.simps [of s] False
      by (simp only: if_False)
  qed (simp add: trim_end.simps [of s])
qed

lemma trace_name_dash:
  shows "CHR ''-'' \<in> set s \<Longrightarrow> CHR ''-'' \<in> set (sanitize_trace_name s)"
    and "CHR ''-'' \<notin> set s \<Longrightarrow> CHR ''-'' \<notin> set (sanitize_trace_name s)"
proof -
  have "ascii_graphic (CHR ''-'')" by (simp add: ascii_graphic_def)
  then show "CHR ''-'' \<in> set s \<Longrightarrow> CHR ''-'' \<in> set (sanitize_trace_name s)"
    by (auto simp: sanitize_trace_name_def Let_def filter_empty_conv dest: trim_keeps)
  have "set (trim s) \<subseteq> set s" unfolding trim_def using set_trim_start set_trim_end by blast
  then show "CHR ''-'' \<notin> set s \<Longrightarrow> CHR ''-'' \<notin> set (sanitize_trace_name s)"
    by (auto simp: sanitize_trace_name_def Let_def)
qed

lemma trace_files_apart:
  assumes "sanitize_trace_name x \<noteq> sanitize_trace_name y"
  shows "fst ` set (trace_files x p) \<inter> fst ` set (trace_files y q) = {}"
  using assms by (auto simp: trace_files_def traces_dir_def)

lemma sync_layers_files:
  "set (fst (snd (sync_layers e push_cloak write_error serial c p h r s))) \<subseteq> (\<Union>p. set (trace_files c p))"
  by (auto simp: sync_layers_def Let_def split: prod.splits if_splits dest: set_takeWhileD)

text \<open>
  C31: A profile that is changed while an instance runs does not reach the files that hide its kernel: they are rewritten in the directory of
  the container's ID, and the container was created with those in the directory of its name.
\<close>

theorem hot_swap_misses_mounts:
  assumes "container_id_for lister serial s = (Some c, s1)" and "CHR ''-'' \<notin> set c"
  shows "fst ` set (fst (snd (apply_spoof_profile e txt custom lister push_cloak write_error serial i s)))
      \<inter> fst ` set (trace_files (create_container_name name) q) = {}"
proof -
  have "set (fst (snd (apply_spoof_profile e txt custom lister push_cloak write_error serial i s)))
      \<subseteq> (\<Union>p. set (trace_files c p))"
    using assms(1) sync_layers_files by (simp add: apply_spoof_profile_def Let_def split: option.split prod.split if_split)
  moreover have "sanitize_trace_name c \<noteq> sanitize_trace_name (create_container_name name)"
    using trace_name_dash(2) [OF assms(2)] trace_name_dash(1) [of "create_container_name name"]
    by (auto simp: create_container_name_def)
  ultimately show ?thesis using trace_files_apart [of c "create_container_name name"] by blast
qed

definition yes_desk :: desk where
  "yes_desk = \<lparr>dk_docker = ''docker'', dk_adb = ''adb'', dk_answer = \<lambda>lg c. Ended (Some 0) ''true'' [], dk_cost = \<lambda>lg c. 5,
     dk_requests = \<lambda>lg. [], dk_bound = \<lambda>lg p. False, dk_open = \<lambda>lg p. False, dk_show_args = concat, dk_brand = \<lambda>i. None,
     dk_json = \<lparr>jl_parse = \<lambda>t. Inl [], jl_print = \<lambda>v. []\<rparr>, dk_show_cpus = \<lambda>n. []\<rparr>"

definition yes_device :: device_info where
  "yes_device = \<lparr>dv_id = [], dv_name = ''web'', dv_serial = ''127.0.0.1:5555'', dv_android_version = [], dv_online = True, dv_cpu = [],
     dv_ram = [], dv_adb_status = [], dv_scrcpy_status = [], dv_docker_status = [], dv_ip = [], dv_mac = [], dv_resolution = [],
     dv_dpi = [], dv_container_id = ''c0ffee'', dv_image = [], dv_started_at = [], dv_uptime = [], dv_adb_port = 5555,
     dv_data_volume = [], dv_spoofed_model = None\<rparr>"

abbreviation yes_swap :: "dstate \<Rightarrow> outcome \<times> (string \<times> string) list \<times> dstate" where
  "yes_swap \<equiv> apply_spoof_profile yes_desk (\<lambda>_. ''note'') [] (\<lambda>t. ([yes_device], t)) (\<lambda>a p t. (refused [], t)) (\<lambda>f. None)
     ''127.0.0.1:5555'' ''redmi-k40-alioth''"

lemma yes_command:
  "\<exists>t. run_command_stdin yes_desk p argv inp n s = (\<lparr>sr_success = True, sr_stdout = ''true'', sr_stderr = [], sr_exit_code = 0\<rparr>, t)"
proof -
  have "trim ''true'' = ''true''" "trim [] = []" by code_simp+
  then show ?thesis by (simp add: run_command_stdin_def perform_def yes_desk_def result_of_def deliver_def Let_def)
qed

lemma yes_container: "container_id_for (\<lambda>t. ([yes_device], t)) ''127.0.0.1:5555'' s = (Some ''c0ffee'', s)"
  by (simp add: container_id_for_def yes_device_def)

lemma yes_profile: "profile_by_id (\<lambda>_. ''note'') [] (trim ''redmi-k40-alioth'') \<noteq> None"
  by code_simp

lemma yes_files: "fst (snd (yes_swap s)) \<noteq> []"
proof -
  obtain p where p: "profile_by_id (\<lambda>_. ''note'') [] (trim ''redmi-k40-alioth'') = Some p" using yes_profile by blast
  let ?h = "derive_hostname (sp_brand p) (adb_port_from_serial ''127.0.0.1:5555'')"
  obtain s1 where 1: "run_command_stdin yes_desk (dk_docker yes_desk) [''exec'', ''-i'', ''c0ffee'', ''sh'', ''-c'', ''cat > '' @ spoof_conf_remote]
      (render_spoof_conf_with p False (Some ?h)) 15 s = (\<lparr>sr_success = True, sr_stdout = ''true'', sr_stderr = [], sr_exit_code = 0\<rparr>, s1)"
    using yes_command by blast
  obtain s2 where 2: "docker yes_desk [''exec'', ''c0ffee'', ''sh'', ''-c'', ''RDC_SPOOF_CONF='' @ spoof_conf_remote
      @ '' sh /data/adb/service.d/rdc_apply_spoof.sh 2>&1''] 30 s1
      = (\<lparr>sr_success = True, sr_stdout = ''true'', sr_stderr = [], sr_exit_code = 0\<rparr>, s2)"
    unfolding run_command_timeout_def using yes_command by blast
  obtain s3 where 3: "label_of yes_desk ''rdc.clean-traces'' ''c0ffee'' s2
      = (\<lparr>sr_success = True, sr_stdout = ''true'', sr_stderr = [], sr_exit_code = 0\<rparr>, s3)"
    unfolding run_command_timeout_def label_of_def using yes_command by blast
  have "trim ''true'' = ''true''" by code_simp
  then have 4: "container_clean_traces_enabled yes_desk ''c0ffee'' s2 = (Some True, s3)"
    by (simp add: container_clean_traces_enabled_def 3)
  show ?thesis
    by (simp only: apply_spoof_profile_def p yes_container Let_def option.case prod.case 1 2 4 sync_layers_def shell_result.simps
        not_True_eq_False if_False if_True fst_conv snd_conv refl) (simp add: trace_files_def)
qed

theorem hot_swap_witness:
  "\<forall>s q. fst (snd (yes_swap s)) \<noteq> []
     \<and> fst ` set (fst (snd (yes_swap s))) \<inter> fst ` set (trace_files (create_container_name ''web'') q) = {}"
proof -
  have "CHR ''-'' \<notin> set ''c0ffee''" by simp
  then show ?thesis using yes_files hot_swap_misses_mounts [OF yes_container] by blast
qed

end
