(* ===== verification/Spec2Isabelle.thy ===== *)
theory Spec2Isabelle
  imports Client_Demo Scheduler_Demo Iso_Roundtrip Redroid_Props Guest_Props Node_Demo Setup_Props Docker_Demo
    Docker_Hosts Docker_Clone Device_Props Device_Safety Spoof_Props
begin

text \<open>
  A verification library for JustRun, a desktop application that runs Android containers (redroid) inside QEMU
  virtual machines.

  \<^bold>\<open>The program.\<close> Three Rust programs work together.

  The authorization service (\<^verbatim>\<open>authorization-service/\<close>) registers clients by a signed challenge, opens sessions, hands out
  encrypted artifacts in chunks, and issues execution grants which the guest later consumes for a signed receipt. Its state is an
  SQLite store and the transfers in memory.

  The desktop client (\<^verbatim>\<open>src-tauri/src/services/authorization*.rs\<close>) signs the requests with the key of the device, verifies
  the leases, manifests and grants of the service, and downloads artifacts into a file. \<^verbatim>\<open>runtime_scheduler.rs\<close> decides which
  instance may start and which idle one may be reclaimed. \<^verbatim>\<open>adb.rs\<close> and \<^verbatim>\<open>docker.rs\<close> run the instances on the machine
  of the user: they create, clone, rename and remove containers and wait until the Android in them has booted. \<^verbatim>\<open>device.rs\<close>,
  \<^verbatim>\<open>transfer.rs\<close>, \<^verbatim>\<open>root.rs\<close>, \<^verbatim>\<open>proxy.rs\<close>, \<^verbatim>\<open>spoof.rs\<close> and \<^verbatim>\<open>traces.rs\<close> list the devices and work inside one of them.

  The command line tool \<^verbatim>\<open>qemu-center\<close> manages the virtual machines of a host (the nodes) in a registry file, starts QEMU,
  talks to it over QMP, builds the seed images that configure a guest, and creates redroid containers in a guest under an execution
  grant, whose receipt it accepts once.

  \<^bold>\<open>How the sources are modelled.\<close> A Rust struct is a record, an enum a datatype, a machine integer a word of its
  width (or an integer with saturation written out for \<^verbatim>\<open>i64\<close>), a \<^verbatim>\<open>String\<close> the list of its UTF-8 bytes as characters, a
  \<^verbatim>\<open>Result\<close> a sum whose left side is the error. Functions that change state take it and return it. Third-party crates, the file
  system, the clock, random numbers, child processes and sockets are parameters: the record \<open>crates\<close> (\<^verbatim>\<open>Auth_Crypto\<close>), the records
  \<open>host\<close> and \<open>build\<close> (\<^verbatim>\<open>Host\<close>, \<^verbatim>\<open>Node\<close>), \<open>desk\<close> and \<open>assets\<close> (\<^verbatim>\<open>Desk\<close>, \<^verbatim>\<open>Docker_Image\<close>), \<open>file_system\<close>,
  \<open>json_lib\<close> and \<open>codec\<close>. What properties need of
  them is stated as named hypotheses (\<^verbatim>\<open>Crate_Laws\<close>; \<open>codec_law\<close> and \<open>tame_host\<close> in \<^verbatim>\<open>Node_Props\<close>), and
  \<open>demo_crates\<close> and \<open>demo_host\<close> are instances that satisfy them.

  \<^bold>\<open>The theories.\<close>

  \<^item> \<^verbatim>\<open>Prelude\<close>, \<^verbatim>\<open>Strings\<close>, \<^verbatim>\<open>Buffers\<close>: machine types, results, the string and slice operations of the standard library,
    byte buffers, and the two locales of the library. \<open>stable_fact\<close> is the interface of a state machine and a fact that its
    steps keep; \<open>replay_ledger\<close> is the interface of a store of used nonces. The first is interpreted on the store's operations, on
    the service's requests and on the scheduler, the second on \<open>consume_nonce\<close>.
  \<^item> \<^verbatim>\<open>Auth_Crypto\<close>, \<^verbatim>\<open>Auth_Artifact\<close>: \<^verbatim>\<open>crypto.rs\<close>. \<^verbatim>\<open>Auth_Store\<close>: \<^verbatim>\<open>store.rs\<close>, one list of rows for each table.
    \<^verbatim>\<open>Auth_Routes\<close>, \<^verbatim>\<open>Auth_Execution\<close>: the handlers of \<^verbatim>\<open>routes.rs\<close>. \<^verbatim>\<open>Auth_Protocol\<close>: the service as a state machine whose
    events are the requests and the administrator's operations (\<open>serve\<close>, \<open>run\<close>).
    \<^verbatim>\<open>Auth_Safety\<close>, \<^verbatim>\<open>Auth_Sessions\<close>, \<^verbatim>\<open>Auth_Reachable\<close>, \<^verbatim>\<open>Auth_Transfer\<close>, \<^verbatim>\<open>Auth_Grants\<close>, \<^verbatim>\<open>Auth_Separation\<close>: what it
    guarantees: requests and grants are accepted once, revocation is final, a client keeps its key, one active session,
    bounded transfers, what grants are bound to, and what a signature and a key are bound to.
  \<^item> \<^verbatim>\<open>Client_Lease\<close>: \<^verbatim>\<open>authorization.rs\<close>. \<^verbatim>\<open>Client_Session\<close>: the protocol of \<^verbatim>\<open>authorization_client.rs\<close> over an arbitrary
    transport. \<^verbatim>\<open>Client_Download\<close>: the integrity of a download. \<^verbatim>\<open>Client_Service\<close>: client and service put together.
  \<^item> \<^verbatim>\<open>Scheduler\<close>, \<^verbatim>\<open>Scheduler_Props\<close>: \<^verbatim>\<open>runtime_scheduler.rs\<close>, its bookkeeping, and its refinement of an abstract life cycle
    of start requests (\<open>lifecycle_step\<close>).
  \<^item> \<^verbatim>\<open>Iso\<close>, \<^verbatim>\<open>Iso_Props\<close>, \<^verbatim>\<open>Iso_Image\<close>, \<^verbatim>\<open>Iso_Roundtrip\<close>: \<^verbatim>\<open>iso.rs\<close>, the builder and the parser of ISO9660 images, as
    lists of writes into a buffer.
  \<^item> \<^verbatim>\<open>Host\<close>: paths, files, processes and the log of what was started or sent. \<^verbatim>\<open>Vm\<close>: \<^verbatim>\<open>vm.rs\<close>, ports, the registry,
    the command lines and the plans; \<^verbatim>\<open>Vm_Props\<close>: the port allocation and the invariant of the registry.
    \<^verbatim>\<open>Redroid\<close>: \<^verbatim>\<open>redroid.rs\<close>; \<^verbatim>\<open>Guest\<close>: \<^verbatim>\<open>guest.rs\<close> and \<^verbatim>\<open>cloudinit.rs\<close>; \<^verbatim>\<open>Shell\<close>: a reader of the words of a
    POSIX command line and the locale \<open>quoter\<close> of functions that quote one word for it; \<^verbatim>\<open>Guest_Props\<close>: what the quoting of
    commands and scalars means to a shell and to YAML; \<^verbatim>\<open>Qmp\<close>: \<^verbatim>\<open>qmp.rs\<close>; \<^verbatim>\<open>Fat\<close>: \<^verbatim>\<open>fat.rs\<close>; \<^verbatim>\<open>Fat_Props\<close>:
    a FAT16 reader written from the format, which reads every file of a built image back.
  \<^item> \<^verbatim>\<open>Doctor\<close>: \<^verbatim>\<open>doctor.rs\<close>, the checks of the host; \<^verbatim>\<open>Setup\<close>: \<^verbatim>\<open>setup.rs\<close> and the commands that call it, with the
    elevated child process and its marker file; \<^verbatim>\<open>Verify\<close>: \<^verbatim>\<open>verify.rs\<close>, the report on a running node; \<^verbatim>\<open>Setup_Props\<close>: the
    marker is read back, only a hashed image and a pinned installer are kept; \<^verbatim>\<open>Verify_Props\<close>: a verification never writes to
    the disk of a running machine behind QEMU.
  \<^item> \<^verbatim>\<open>Node_Grants\<close>, \<^verbatim>\<open>Node\<close>, \<^verbatim>\<open>Node_Ops\<close>, \<^verbatim>\<open>Node_Stats\<close>: \<^verbatim>\<open>main.rs\<close>, every command over the host, nodes, snapshots, guests,
    containers and ADB as one function of the host, the state directory and the state; \<open>node_main\<close> dispatches them and
    \<open>node_session\<close> is a sequence of runs. \<^verbatim>\<open>Node_Props\<close>: what every command keeps (\<open>good\<close>); \<^verbatim>\<open>Node_Safety\<close> and \<^verbatim>\<open>Node_Protocol\<close>:
    the properties of the commands, and of the service and the host together.
  \<^item> \<^verbatim>\<open>Json\<close>: JSON values. \<^verbatim>\<open>Desk\<close>: \<^verbatim>\<open>util.rs\<close>, the runner of commands with its history, and the cancellation that a second
    thread may ask for between any two commands. \<^verbatim>\<open>Adb\<close>: \<^verbatim>\<open>adb.rs\<close>. \<^verbatim>\<open>Docker\<close>, \<^verbatim>\<open>Docker_Ops\<close>, \<^verbatim>\<open>Docker_Image\<close>,
    \<^verbatim>\<open>Docker_Create\<close>, \<^verbatim>\<open>Docker_Clone\<close>: \<^verbatim>\<open>docker.rs\<close>, the lists, the operations on one container, the derived images, the creation
    and the clone. \<^verbatim>\<open>Docker_Keeps\<close>: the locales \<open>kept\<close> and \<open>kept_docker\<close>, a fact that every command keeps is kept
    by everything a creation does; they are interpreted three times in \<^verbatim>\<open>Docker_Props\<close>: what a cancelled creation removes, and what a
    late request removes. \<^verbatim>\<open>Docker_Hosts\<close>: host names and ports.
  \<^item> \<^verbatim>\<open>File_Transfer\<close>: \<^verbatim>\<open>transfer.rs\<close>, the runner of commands that can be cancelled, and the commands on the files of a
    device. \<^verbatim>\<open>Device\<close>, \<^verbatim>\<open>Device_Apps\<close>: \<^verbatim>\<open>device.rs\<close>, the list of devices, and what is done on one. \<^verbatim>\<open>Device_Root\<close>:
    \<^verbatim>\<open>root.rs\<close>; \<^verbatim>\<open>Device_Proxy\<close>: \<^verbatim>\<open>proxy.rs\<close>; \<^verbatim>\<open>Spoof\<close>: \<^verbatim>\<open>spoof.rs\<close> and \<^verbatim>\<open>traces.rs\<close>. \<^verbatim>\<open>File_Transfer_Props\<close>,
    \<^verbatim>\<open>Device_Props\<close>, \<^verbatim>\<open>Device_Safety\<close>, \<^verbatim>\<open>Spoof_Props\<close>: the shell reads back what the commands on files, proxies and modules
    mean (the locale \<open>quoter\<close> is interpreted on the quoting of \<^verbatim>\<open>guest.rs\<close>, of \<^verbatim>\<open>transfer.rs\<close> and of \<^verbatim>\<open>proxy.rs\<close>), the list is
    complete, a configuration is read back, and where the matching of containers and the change of a profile go wrong.
  \<^item> \<^verbatim>\<open>Auth_Demo\<close>, \<^verbatim>\<open>Client_Demo\<close>, \<^verbatim>\<open>Scheduler_Demo\<close>, \<^verbatim>\<open>Seed_Demo\<close>, \<^verbatim>\<open>Node_Demo\<close>, \<^verbatim>\<open>Docker_Demo\<close>: concrete runs, on which each
    property with a hypothesis is applied.

  \<^bold>\<open>Bounds and fuel.\<close> No model has fuel. Loops are structural recursions, or functions with a termination proof (the search for ports, the numeric
    tails of FAT short names, trimming, replacing, splitting), or partial functions where the program itself might not end:
    the loop that converges on the size of a FAT and the search for a free profile identifier, shown to end, and the polls of \<^verbatim>\<open>guest wait\<close>, shown to end once the deadline has passed.
    The waits of the desktop application end because each of their rounds pauses for a fixed time, which is their measure.
    Additions that can overflow take the build's overflow checks as a parameter, and panics are values.

  \<^bold>\<open>Not modelled.\<close> Time-outs, threads and the sockets themselves (the service handles one request at a time, under its
  locks); what is printed, and how error messages are rendered (a message of \<^verbatim>\<open>qemu-center\<close> is its format string with its
  arguments); the SQL text and the migrations of the store; axum's routing. The rendering of the reports of doctor and
  verify and their hints. Of the desktop application, the caches, the statistics in floating point, the contents of
  build contexts, the icons in archives, telemetry and the dashboard, the geo field of a profile, the services other than the ones above, the Tauri commands and the TypeScript user interface.
\<close>

end
